(* ===== verification/Prelude.thy ===== *)
theory Prelude
  imports Complex_Main "HOL-Library.AList" "HOL-Library.Char_ord" "HOL-Library.List_Lexorder"
    "HOL-Library.Multiset"
begin

text \<open>
  Shared vocabulary of the development: the parts of the JavaScript run time that the
  repository code leans on (insertion-ordered \<open>Map\<close>, stable \<open>Array.prototype.sort\<close>,
  truthiness of optional strings, \<open>trim\<close>, \<open>includes\<close>, \<open>padStart\<close>, insertion-ordered
  \<open>Set\<close>), the error values thrown by the API, the host environment that ECMAScript leaves
  implementation-defined, and the locales for comparators and keyed stores.
\<close>

named_theorems store_simps \<open>lookups in an insertion-ordered map after a write\<close>
named_theorems frame_simps \<open>what an operation leaves alone\<close>

section \<open>Insertion-ordered maps\<close>

text \<open>
  A JavaScript \<open>Map\<close> keeps its entries in insertion order: \<open>set\<close> on a present key replaces
  the value in place, on an absent key it appends; iteration follows that order. An
  association list with distinct keys is exactly this.
\<close>

type_synonym ('k, 'v) jsmap = "('k \<times> 'v) list"

abbreviation map_get :: "('k, 'v) jsmap \<Rightarrow> 'k \<Rightarrow> 'v option" where
  "map_get m k \<equiv> map_of m k"

abbreviation map_set :: "'k \<Rightarrow> 'v \<Rightarrow> ('k, 'v) jsmap \<Rightarrow> ('k, 'v) jsmap" where
  "map_set k v m \<equiv> AList.update k v m"

abbreviation map_delete :: "'k \<Rightarrow> ('k, 'v) jsmap \<Rightarrow> ('k, 'v) jsmap" where
  "map_delete k m \<equiv> AList.delete k m"

definition map_has :: "('k, 'v) jsmap \<Rightarrow> 'k \<Rightarrow> bool" where
  "map_has m k = (map_of m k \<noteq> None)"

definition map_keys :: "('k, 'v) jsmap \<Rightarrow> 'k list" where
  "map_keys m = map fst m"

definition map_values :: "('k, 'v) jsmap \<Rightarrow> 'v list" where
  "map_values m = map snd m"

text \<open>In-place mutation of the object stored under a key.\<close>

definition map_modify :: "'k \<Rightarrow> ('v \<Rightarrow> 'v) \<Rightarrow> ('k, 'v) jsmap \<Rightarrow> ('k, 'v) jsmap" where
  "map_modify k f m = (case map_of m k of None \<Rightarrow> m | Some v \<Rightarrow> AList.update k (f v) m)"

text \<open>A loop \<open>for (const v of m.values()) if (p(v)) mutate(v)\<close>.\<close>

definition map_update_where :: "('v \<Rightarrow> bool) \<Rightarrow> ('v \<Rightarrow> 'v) \<Rightarrow> ('k, 'v) jsmap \<Rightarrow> ('k, 'v) jsmap" where
  "map_update_where p f m = map (\<lambda>(k, v). (k, if p v then f v else v)) m"

definition map_wf :: "('k, 'v) jsmap \<Rightarrow> bool" where
  "map_wf m = distinct (map fst m)"

lemma map_of_update [store_simps]: "map_of (AList.update k v m) k' = (if k' = k then Some v else map_of m k')"
  by (simp add: update_conv')

lemma map_of_delete [store_simps]: "map_of (AList.delete k m) k' = (if k' = k then None else map_of m k')"
  by (simp add: delete_conv')

lemma map_of_modify [store_simps]:
  "map_of (map_modify k f m) k' = (if k' = k then map_option f (map_of m k) else map_of m k')"
  by (auto simp: map_modify_def update_conv' split: option.splits)

lemma map_of_update_where [store_simps]:
  "map_of (map_update_where p f m) k = map_option (\<lambda>v. if p v then f v else v) (map_of m k)"
  by (induction m) (auto simp: map_update_where_def)

lemma keys_update_where [simp]: "map fst (map_update_where p f m) = map fst m"
  by (induction m) (auto simp: map_update_where_def)

lemma values_update_where:
  "map_values (map_update_where p f m) = map (\<lambda>v. if p v then f v else v) (map_values m)"
  by (induction m) (auto simp: map_update_where_def map_values_def)

lemma map_wf_update [simp, intro]: "map_wf m \<Longrightarrow> map_wf (AList.update k v m)"
  by (simp add: map_wf_def distinct_update)

lemma map_wf_delete [simp, intro]: "map_wf m \<Longrightarrow> map_wf (AList.delete k m)"
  by (simp add: map_wf_def distinct_delete)

lemma map_wf_modify [simp, intro]: "map_wf m \<Longrightarrow> map_wf (map_modify k f m)"
  by (simp add: map_modify_def split: option.splits)

lemma map_wf_update_where [simp]: "map_wf (map_update_where p f m) = map_wf m"
  by (simp add: map_wf_def)

lemma map_wf_Nil [simp]: "map_wf []"
  by (simp add: map_wf_def)

lemma in_values_iff: "map_wf m \<Longrightarrow> v \<in> set (map_values m) \<longleftrightarrow> (\<exists>k. map_of m k = Some v)"
  by (auto simp: map_wf_def map_values_def image_iff)
    (metis map_of_eq_Some_iff snd_conv map_of_SomeD)+

lemma map_of_in_values: "map_of m k = Some v \<Longrightarrow> v \<in> set (map_values m)"
  by (force simp: map_values_def dest: map_of_SomeD)

lemma map_has_iff: "map_has m k \<longleftrightarrow> k \<in> set (map_keys m)"
  by (auto simp: map_has_def map_keys_def map_of_eq_None_iff)

lemma update_fresh: "map_of m k = None \<Longrightarrow> AList.update k v m = m @ [(k, v)]"
  by (induction m) (auto split: if_splits)

lemma values_update_fresh: "map_of m k = None \<Longrightarrow> map_values (AList.update k v m) = map_values m @ [v]"
  by (simp add: update_fresh map_values_def)

lemma keys_update_present: "map_of m k \<noteq> None \<Longrightarrow> map fst (AList.update k v m) = map fst m"
  by (induction m) auto

lemma set_values_update:
  "map_wf m \<Longrightarrow> set (map_values (AList.update k v m)) = insert v {w. \<exists>k'. k' \<noteq> k \<and> map_of m k' = Some w}"
proof -
  assume wf: "map_wf m"
  then have "map_wf (AList.update k v m)" by simp
  then have "set (map_values (AList.update k v m)) = {w. \<exists>k'. map_of (AList.update k v m) k' = Some w}"
    by (auto simp: in_values_iff)
  then show ?thesis by (auto simp: store_simps)
qed

lemma find_SomeD: "find P xs = Some x \<Longrightarrow> x \<in> set xs \<and> P x"
  by (auto simp: find_Some_iff)

text \<open>
  The interface every store of the repository is used through, with the laws the operations
  rely on: a read after a write, a read after a deletion, and that iteration sees exactly the
  stored objects.
\<close>

locale ordered_store =
  fixes get :: "'m \<Rightarrow> 'k \<Rightarrow> 'v option"
    and put :: "'k \<Rightarrow> 'v \<Rightarrow> 'm \<Rightarrow> 'm"
    and del :: "'k \<Rightarrow> 'm \<Rightarrow> 'm"
    and vals :: "'m \<Rightarrow> 'v list"
    and wf :: "'m \<Rightarrow> bool"
  assumes get_put: "get (put k v m) k' = (if k' = k then Some v else get m k')"
    and get_del: "get (del k m) k' = (if k' = k then None else get m k')"
    and vals_get: "wf m \<Longrightarrow> v \<in> set (vals m) \<longleftrightarrow> (\<exists>k. get m k = Some v)"
    and put_append: "get m k = None \<Longrightarrow> vals (put k v m) = vals m @ [v]"
    and wf_put: "wf m \<Longrightarrow> wf (put k v m)"
    and wf_del: "wf m \<Longrightarrow> wf (del k m)"
begin

lemma put_preserves_all:
  assumes "wf m" and "\<forall>w \<in> set (vals m). P w" and "P v"
  shows "\<forall>w \<in> set (vals (put k v m)). P w"
  using assms by (auto simp: vals_get wf_put get_put split: if_splits)

lemma del_preserves_all:
  assumes "wf m" and "\<forall>w \<in> set (vals m). P w"
  shows "\<forall>w \<in> set (vals (del k m)). P w"
  using assms by (auto simp: vals_get wf_del get_del split: if_splits)

end

interpretation js: ordered_store map_of AList.update AList.delete map_values map_wf
  by unfold_locales (auto simp: store_simps in_values_iff values_update_fresh)

text \<open>A store whose objects carry their own key, as every store of the repository does.\<close>

definition keyed :: "('v \<Rightarrow> 'k) \<Rightarrow> ('k, 'v) jsmap \<Rightarrow> bool" where
  "keyed f m = (map_wf m \<and> (\<forall>k v. map_of m k = Some v \<longrightarrow> f v = k))"

lemma keyed_wf [simp]: "keyed f m \<Longrightarrow> map_wf m"
  by (simp add: keyed_def)

lemma keyedD: "keyed f m \<Longrightarrow> map_of m k = Some v \<Longrightarrow> f v = k"
  by (simp add: keyed_def)

lemma keyed_Nil [simp]: "keyed f []"
  by (simp add: keyed_def)

lemma keyed_put [intro]: "keyed f m \<Longrightarrow> f v = k \<Longrightarrow> keyed f (AList.update k v m)"
  by (auto simp: keyed_def store_simps)

lemma keyed_del [intro]: "keyed f m \<Longrightarrow> keyed f (AList.delete k m)"
  by (auto simp: keyed_def store_simps split: if_splits)

lemma keyed_modify [intro]: "keyed f m \<Longrightarrow> (\<And>v. f (g v) = f v) \<Longrightarrow> keyed f (map_modify k g m)"
  by (auto simp: keyed_def store_simps split: if_splits)

lemma keyed_update_where [intro]: "keyed f m \<Longrightarrow> (\<And>v. f (g v) = f v) \<Longrightarrow> keyed f (map_update_where p g m)"
  by (auto simp: keyed_def store_simps)

lemma keyed_inj:
  "keyed f m \<Longrightarrow> x \<in> set (map_values m) \<Longrightarrow> y \<in> set (map_values m) \<Longrightarrow> f x = f y \<Longrightarrow> x = y"
  by (auto simp: in_values_iff keyed_def)

lemma keyed_map_keys: "keyed f m \<Longrightarrow> map f (map_values m) = map fst m"
  by (auto simp: map_values_def keyed_def map_wf_def)

lemma keyed_distinct: "keyed f m \<Longrightarrow> distinct (map_values m)"
  by (metis keyed_map_keys keyed_wf map_wf_def distinct_map)

lemma length_values [simp]: "length (map_values m) = length m"
  by (simp add: map_values_def)

section \<open>Comparators and the stable sort\<close>

text \<open>
  \<open>Array.prototype.sort(cmp)\<close> is stable (ECMAScript 2019). For a consistent comparator the
  result is determined: the stable rearrangement that \<open>js_sort\<close> computes by insertion.
\<close>

fun js_insert :: "('a \<Rightarrow> 'a \<Rightarrow> int) \<Rightarrow> 'a \<Rightarrow> 'a list \<Rightarrow> 'a list" where
  "js_insert c x [] = [x]"
| "js_insert c x (y # ys) = (if c x y \<le> 0 then x # y # ys else y # js_insert c x ys)"

definition js_sort :: "('a \<Rightarrow> 'a \<Rightarrow> int) \<Rightarrow> 'a list \<Rightarrow> 'a list" where
  "js_sort c xs = foldr (js_insert c) xs []"

text \<open>The comparator combinators of the code: \<open>a || b\<close>, a key, and the swapped order.\<close>

definition cmp_or :: "('a \<Rightarrow> 'a \<Rightarrow> int) \<Rightarrow> ('a \<Rightarrow> 'a \<Rightarrow> int) \<Rightarrow> 'a \<Rightarrow> 'a \<Rightarrow> int" where
  "cmp_or f g x y = (if f x y \<noteq> 0 then f x y else g x y)"

definition cmp_on :: "('a \<Rightarrow> 'b) \<Rightarrow> ('b \<Rightarrow> 'b \<Rightarrow> int) \<Rightarrow> 'a \<Rightarrow> 'a \<Rightarrow> int" where
  "cmp_on k c x y = c (k x) (k y)"

definition cmp_desc :: "('a \<Rightarrow> 'a \<Rightarrow> int) \<Rightarrow> 'a \<Rightarrow> 'a \<Rightarrow> int" where
  "cmp_desc c x y = c y x"

definition cmp_int :: "int \<Rightarrow> int \<Rightarrow> int" where
  "cmp_int x y = x - y"

locale comparator =
  fixes c :: "'a \<Rightarrow> 'a \<Rightarrow> int"
  assumes swap: "sgn (c y x) = - sgn (c x y)"
    and trans: "c x y \<le> 0 \<Longrightarrow> c y z \<le> 0 \<Longrightarrow> c x z \<le> 0"
begin

lemma refl: "c x x = 0"
  using swap[of x x] by (auto simp: sgn_if split: if_splits)

lemma total: "\<not> c x y \<le> 0 \<Longrightarrow> c y x \<le> 0"
  using swap[of x y] by (auto simp: sgn_if split: if_splits)

lemma eq_sym: "c x y = 0 \<longleftrightarrow> c y x = 0"
  using swap[of x y] by (auto simp: sgn_if split: if_splits)

lemma le_flip: "c x y \<le> 0 \<longleftrightarrow> 0 \<le> c y x"
  using swap[of x y] by (auto simp: sgn_if split: if_splits)

lemma less_flip: "c x y < 0 \<longleftrightarrow> 0 < c y x"
  using swap[of x y] by (auto simp: sgn_if split: if_splits)

lemma less_trans: "c x y \<le> 0 \<Longrightarrow> c y z < 0 \<Longrightarrow> c x z < 0"
  by (metis le_flip less_flip linorder_not_le trans)

lemma set_insert: "set (js_insert c x xs) = insert x (set xs)"
  by (induction xs) auto

lemma sorted_insert:
  "sorted_wrt (\<lambda>x y. c x y \<le> 0) xs \<Longrightarrow> sorted_wrt (\<lambda>x y. c x y \<le> 0) (js_insert c x xs)"
  by (induction xs) (auto simp: set_insert intro: trans dest: total)

lemma sorted_sort: "sorted_wrt (\<lambda>x y. c x y \<le> 0) (js_sort c xs)"
  by (induction xs) (auto simp: js_sort_def sorted_insert)

lemma insert_equiv_first:
  "c z x = 0 \<Longrightarrow> sorted_wrt (\<lambda>x y. c x y \<le> 0) xs \<Longrightarrow>
   filter (\<lambda>y. c z y = 0) (js_insert c x xs) = x # filter (\<lambda>y. c z y = 0) xs"
proof (induction xs)
  case (Cons y ys)
  show ?case
  proof (cases "c x y \<le> 0")
    case False
    have "c x z \<le> 0" using Cons.prems(1) eq_sym[of x z] by simp
    with False have "c z y \<noteq> 0" using trans[of x z y] by auto
    with False Cons show ?thesis by simp
  qed (use Cons in simp)
qed simp

lemma insert_equiv_other:
  "c z x \<noteq> 0 \<Longrightarrow> filter (\<lambda>y. c z y = 0) (js_insert c x xs) = filter (\<lambda>y. c z y = 0) xs"
  by (induction xs) auto

lemma sort_stable: "filter (\<lambda>y. c z y = 0) (js_sort c xs) = filter (\<lambda>y. c z y = 0) xs"
proof (induction xs)
  case (Cons x xs)
  have "sorted_wrt (\<lambda>x y. c x y \<le> 0) (foldr (js_insert c) xs [])"
    using sorted_sort[of xs] by (simp add: js_sort_def)
  with Cons show ?case
    by (cases "c z x = 0") (simp_all add: js_sort_def insert_equiv_first insert_equiv_other)
qed (simp add: js_sort_def)

end

lemma mset_js_insert: "mset (js_insert c x xs) = add_mset x (mset xs)"
  by (induction xs) auto

lemma mset_js_sort [simp]: "mset (js_sort c xs) = mset xs"
  by (induction xs) (auto simp: js_sort_def mset_js_insert)

lemma set_js_sort [simp]: "set (js_sort c xs) = set xs"
  by (metis mset_js_sort set_mset_mset)

lemma length_js_sort [simp]: "length (js_sort c xs) = length xs"
  by (metis mset_js_sort size_mset)

lemma distinct_js_sort [simp]: "distinct (js_sort c xs) = distinct xs"
  by (metis mset_js_sort mset_eq_imp_distinct_iff)

interpretation int_cmp: comparator cmp_int
  by unfold_locales (auto simp: cmp_int_def sgn_if)

lemma comparator_on: "comparator c \<Longrightarrow> comparator (cmp_on k c)"
proof -
  assume c: "comparator c"
  show ?thesis
    by unfold_locales
      (unfold cmp_on_def, rule comparator.swap[OF c], erule (1) comparator.trans[OF c])
qed

lemma comparator_desc: "comparator c \<Longrightarrow> comparator (cmp_desc c)"
proof -
  assume c: "comparator c"
  show ?thesis
    by unfold_locales
      (unfold cmp_desc_def, rule comparator.swap[OF c], erule (1) comparator.trans[OF c, rotated])
qed

lemma comparator_or:
  assumes f: "comparator f" and g: "comparator g"
  shows "comparator (cmp_or f g)"
proof
  fix x y
  show "sgn (cmp_or f g y x) = - sgn (cmp_or f g x y)"
    using comparator.swap[OF f, of x y] comparator.swap[OF g, of x y]
      comparator.eq_sym[OF f, of x y] by (auto simp: cmp_or_def)
next
  fix x y z
  assume xy: "cmp_or f g x y \<le> 0" and yz: "cmp_or f g y z \<le> 0"
  have fxy: "f x y \<le> 0" and fyz: "f y z \<le> 0" using xy yz by (auto simp: cmp_or_def split: if_splits)
  then have fxz: "f x z \<le> 0" by (rule comparator.trans[OF f])
  show "cmp_or f g x z \<le> 0"
  proof (cases "f x z = 0")
    case True
    then have "0 \<le> f x y" and "0 \<le> f y z"
      using comparator.less_trans[OF f] comparator.le_flip[OF f] fxy fyz
      by (metis comparator.eq_sym[OF f] comparator.trans[OF f] order_refl)+
    with fxy fyz have "f x y = 0" "f y z = 0" by auto
    with xy yz have "g x y \<le> 0" "g y z \<le> 0" by (auto simp: cmp_or_def)
    then have "g x z \<le> 0" by (rule comparator.trans[OF g])
    with True show ?thesis by (simp add: cmp_or_def)
  qed (use fxz in \<open>simp add: cmp_or_def\<close>)
qed

end
