(* ===== verification/Runtime.thy ===== *)
theory Runtime
  imports Prelude
begin

text \<open>
  Strings, the host environment, thrown errors (\<open>errors.ts\<close>), the sequential identifier
  generator, and the two request disciplines the repository repeats: cursor pagination and
  idempotent requests, each stated once as a locale.
\<close>

section \<open>Strings\<close>

text \<open>
  A JavaScript string is modelled as a list of \<open>char\<close>, that is of code units below 256.
  \<open><\<close> on strings is the code-unit order of ECMAScript's relational operators.
\<close>

definition str_cmp :: "string \<Rightarrow> string \<Rightarrow> int" where
  "str_cmp x y = (if x < y then -1 else if x = y then 0 else 1)"

interpretation str_cmp: comparator str_cmp
  by unfold_locales (auto simp: str_cmp_def split: if_splits)

lemma str_cmp_eq [simp]: "str_cmp x y = 0 \<longleftrightarrow> x = y"
  by (simp add: str_cmp_def)

lemma str_cmp_less [simp]: "str_cmp x y < 0 \<longleftrightarrow> x < y"
  by (simp add: str_cmp_def)

text \<open>Truthiness of an optional string: neither \<open>undefined\<close> nor empty.\<close>

definition truthy :: "string option \<Rightarrow> bool" where
  "truthy s = (case s of None \<Rightarrow> False | Some t \<Rightarrow> t \<noteq> [])"

lemma truthy_simps [simp]: "truthy None = False" "truthy (Some t) = (t \<noteq> [])"
  by (simp_all add: truthy_def)

lemma truthyE: "truthy s \<Longrightarrow> (\<And>t. s = Some t \<Longrightarrow> t \<noteq> [] \<Longrightarrow> P) \<Longrightarrow> P"
  by (auto simp: truthy_def split: option.splits)

definition or_empty :: "string option \<Rightarrow> string" where
  "or_empty s = (case s of None \<Rightarrow> [] | Some t \<Rightarrow> t)"

lemma or_empty_simps [simp]: "or_empty None = []" "or_empty (Some t) = t"
  by (simp_all add: or_empty_def)

definition js_space :: "char \<Rightarrow> bool" where
  "js_space c = (of_char c \<in> {9, 10, 11, 12, 13, 32, 160 :: nat})"

definition js_trim :: "string \<Rightarrow> string" where
  "js_trim s = rev (dropWhile js_space (rev (dropWhile js_space s)))"

fun str_includes :: "string \<Rightarrow> string \<Rightarrow> bool" where
  "str_includes [] t = (t = [])"
| "str_includes (c # cs) t = (take (length t) (c # cs) = t \<or> str_includes cs t)"

definition is_digit :: "char \<Rightarrow> bool" where
  "is_digit c = (48 \<le> (of_char c :: nat) \<and> (of_char c :: nat) \<le> 57)"

definition digit_char :: "nat \<Rightarrow> char" where
  "digit_char d = char_of (48 + d)"

fun decimal :: "nat \<Rightarrow> string" where
  "decimal n = (if n < 10 then [digit_char n] else decimal (n div 10) @ [digit_char (n mod 10)])"

declare decimal.simps [simp del]

definition undecimal :: "string \<Rightarrow> nat" where
  "undecimal s = foldl (\<lambda>a c. 10 * a + (of_char c - 48)) 0 s"

definition pad_start :: "nat \<Rightarrow> char \<Rightarrow> string \<Rightarrow> string" where
  "pad_start n c s = replicate (n - length s) c @ s"

lemma of_digit_char: "d < 10 \<Longrightarrow> of_char (digit_char d) = 48 + d"
  by (simp add: digit_char_def)

lemma undecimal_decimal: "undecimal (decimal n) = n"
proof (induction n rule: decimal.induct)
  case (1 n)
  show ?case
  proof (cases "n < 10")
    case True
    then show ?thesis by (simp add: decimal.simps[of n] undecimal_def of_digit_char)
  next
    case False
    with 1 have "undecimal (decimal (n div 10)) = n div 10" by simp
    with False show ?thesis
      by (simp add: decimal.simps[of n] undecimal_def of_digit_char)
  qed
qed

lemma undecimal_zeros: "undecimal (replicate k (CHR ''0'') @ s) = undecimal s"
  by (induction k) (auto simp: undecimal_def)

lemma undecimal_pad: "undecimal (pad_start n (CHR ''0'') s) = undecimal s"
  by (simp add: pad_start_def undecimal_zeros)

lemma pad_decimal_inj:
  "pad_start n (CHR ''0'') (decimal i) = pad_start n (CHR ''0'') (decimal j) \<longleftrightarrow> i = j"
  by (metis undecimal_decimal undecimal_pad)

text \<open>The map keys \<open>`${a}:${b}`\<close> of the repository.\<close>

definition key2 :: "string \<Rightarrow> string \<Rightarrow> string" where
  "key2 a b = a @ '':'' @ b"

definition key3 :: "string \<Rightarrow> string \<Rightarrow> string \<Rightarrow> string" where
  "key3 a b c = a @ '':'' @ b @ '':'' @ c"

lemma append_sep_inj:
  "s \<notin> set a \<Longrightarrow> s \<notin> set a' \<Longrightarrow> a @ s # b = a' @ s # b' \<longleftrightarrow> a = a' \<and> b = b'"
proof (induction a arbitrary: a')
  case Nil
  then show ?case by (cases a') auto
next
  case (Cons x xs)
  then show ?case by (cases a') auto
qed

lemma key2_inj:
  "CHR '':'' \<notin> set a \<Longrightarrow> CHR '':'' \<notin> set a' \<Longrightarrow> key2 a b = key2 a' b' \<longleftrightarrow> a = a' \<and> b = b'"
  by (simp add: key2_def append_sep_inj)

section \<open>The host environment\<close>

text \<open>
  ECMAScript leaves \<open>String.prototype.localeCompare\<close> and \<open>toLocaleLowerCase\<close> to the host
  locale, and \<open>Date.parse\<close> partly so. They are parameters of the model. The one law used of
  \<open>localeCompare\<close> is that it is a consistent comparator (ECMA-262, 22.1.3.12); the type
  \<open>collator\<close> holds exactly the functions that satisfy it. \<open>h_parse\<close> answers \<open>None\<close> for
  \<open>NaN\<close>, with which every comparison is false.
\<close>

typedef collator = "{c :: string \<Rightarrow> string \<Rightarrow> int. comparator c}" morphisms lcmp Collator
  by (rule exI[of _ str_cmp]) (simp add: str_cmp.comparator_axioms)

setup_lifting type_definition_collator

lift_definition code_unit_collator :: collator is str_cmp
  by (rule str_cmp.comparator_axioms)

lemma lcmp_code_unit [simp]: "lcmp code_unit_collator = str_cmp"
  by transfer simp

lemma comparator_lcmp: "comparator (lcmp k)"
  using lcmp by simp

record host =
  h_collator :: collator
  h_lower :: "string \<Rightarrow> string"
  h_parse :: "string \<Rightarrow> int option"

abbreviation localeCompare :: "host \<Rightarrow> string \<Rightarrow> string \<Rightarrow> int" where
  "localeCompare h \<equiv> lcmp (h_collator h)"

text \<open>The collation distinguishes the strings of a set (up to Unicode equivalence it does).\<close>

definition separates :: "host \<Rightarrow> string set \<Rightarrow> bool" where
  "separates h S = (\<forall>x \<in> S. \<forall>y \<in> S. localeCompare h x y = 0 \<longrightarrow> x = y)"

text \<open>\<open>Date.parse(a) <= Date.parse(b)\<close> and \<open>Date.parse(a) > Date.parse(b)\<close>.\<close>

definition date_le :: "host \<Rightarrow> string \<Rightarrow> string \<Rightarrow> bool" where
  "date_le h a b = (case (h_parse h a, h_parse h b) of (Some x, Some y) \<Rightarrow> x \<le> y | _ \<Rightarrow> False)"

definition date_gt_ms :: "int option \<Rightarrow> int option \<Rightarrow> bool" where
  "date_gt_ms a b = (case (a, b) of (Some x, Some y) \<Rightarrow> x > y | _ \<Rightarrow> False)"

lemma date_gt_ms_Some [simp]: "date_gt_ms (Some x) (Some y) = (x > y)"
  by (simp add: date_gt_ms_def)

section \<open>Thrown errors\<close>

datatype api_error_code = BAD_REQUEST | UNAUTHENTICATED | FORBIDDEN | NOT_FOUND | CONFLICT
  | CONSENT_REQUIRED | VALIDATION_FAILED | RATE_LIMITED | PAYMENT_REQUIRED
  | STORAGE_LIMIT_REACHED | INTERNAL_ERROR | SERVICE_UNAVAILABLE

record api_error_detail =
  detail_field :: "string option"
  detail_code :: string
  detail_message :: string

record api_domain_error =
  err_statusCode :: nat
  err_code :: api_error_code
  err_message :: string
  err_details :: "api_error_detail list option"
  err_retryAfterSeconds :: "nat option"

text \<open>What a call can throw: an \<open>ApiDomainError\<close>, or a plain \<open>Error\<close> (answered as 500).\<close>

datatype thrown = ApiDomainError api_domain_error | JsError string

definition domain_error :: "nat \<Rightarrow> api_error_code \<Rightarrow> string \<Rightarrow> thrown" where
  "domain_error st code msg = ApiDomainError \<lparr>err_statusCode = st, err_code = code,
     err_message = msg, err_details = None, err_retryAfterSeconds = None\<rparr>"

definition badRequest :: "string \<Rightarrow> string option \<Rightarrow> thrown" where
  "badRequest msg fld = ApiDomainError \<lparr>err_statusCode = 400, err_code = VALIDATION_FAILED,
     err_message = msg,
     err_details = map_option (\<lambda>f. [\<lparr>detail_field = Some f, detail_code = ''INVALID'',
       detail_message = msg\<rparr>]) fld,
     err_retryAfterSeconds = None\<rparr>"

definition unauthenticated :: "string \<Rightarrow> thrown" where
  "unauthenticated msg = domain_error 401 UNAUTHENTICATED msg"

definition forbidden :: "string \<Rightarrow> thrown" where
  "forbidden msg = domain_error 403 FORBIDDEN msg"

definition notFound :: "string \<Rightarrow> thrown" where
  "notFound msg = domain_error 404 NOT_FOUND msg"

definition conflict :: "string \<Rightarrow> thrown" where
  "conflict msg = domain_error 409 CONFLICT msg"

definition consentRequired :: "string \<Rightarrow> thrown" where
  "consentRequired msg = domain_error 409 CONSENT_REQUIRED msg"

abbreviation consentRequiredDefault :: thrown where
  "consentRequiredDefault \<equiv> consentRequired ''Current collection-policy consent is required''"

text \<open>
  The outcome of a repository method: what it throws or returns, and the state it leaves. A
  throw does not roll the object back, so the state is part of both outcomes. \<open>undefined\<close> is
  \<open>None\<close>.
\<close>

type_synonym ('s, 'r) outcome = "(thrown + 'r) \<times> 's"

section \<open>Sequential identifiers\<close>

definition sequential_id :: "string \<Rightarrow> nat \<Rightarrow> string" where
  "sequential_id prefix n = prefix @ ''_'' @ pad_start 6 (CHR ''0'') (decimal n)"

lemma sequential_id_inj: "sequential_id p i = sequential_id p j \<longleftrightarrow> i = j"
  by (simp add: sequential_id_def pad_decimal_inj)

lemma sequential_id_not_empty [simp]: "sequential_id p i \<noteq> []"
  by (simp add: sequential_id_def)

text \<open>No identifier the generator can still issue with this prefix is a key of the store.\<close>

definition ids_fresh :: "string \<Rightarrow> nat \<Rightarrow> (string, 'v) jsmap \<Rightarrow> bool" where
  "ids_fresh prefix n m = (\<forall>i > n. map_of m (sequential_id prefix i) = None)"

lemma ids_fresh_next: "ids_fresh p n m \<Longrightarrow> map_of m (sequential_id p (Suc n)) = None"
  by (simp add: ids_fresh_def)

lemma ids_fresh_mono: "ids_fresh p n m \<Longrightarrow> n \<le> k \<Longrightarrow> ids_fresh p k m"
  by (simp add: ids_fresh_def)

lemma ids_fresh_put: "ids_fresh p n m \<Longrightarrow> n < k \<Longrightarrow> ids_fresh p k (AList.update (sequential_id p k) v m)"
  by (auto simp: ids_fresh_def store_simps sequential_id_inj)

lemma ids_fresh_update_present: "ids_fresh p n m \<Longrightarrow> map_of m k \<noteq> None \<Longrightarrow> ids_fresh p n (AList.update k v m)"
  by (auto simp: ids_fresh_def store_simps)

lemma ids_fresh_modify [simp]: "ids_fresh p n (map_modify k f m) = ids_fresh p n m"
  by (auto simp: ids_fresh_def store_simps)

section \<open>Cursor pagination\<close>

text \<open>
  Every listing sorts, keeps what lies after the cursor, and returns \<open>limit\<close> items with a flag
  computed from one extra item. A client that follows the cursor of the last item is \<open>walk\<close>.
\<close>

definition page_of :: "nat \<Rightarrow> 'a list \<Rightarrow> 'a list \<times> bool" where
  "page_of limit xs = (let page = take (Suc limit) xs in (take limit page, length page > limit))"

lemma page_of_eq: "page_of limit xs = (take limit xs, limit < length xs)"
  by (auto simp: page_of_def Let_def min_def)

fun walk :: "('c option \<Rightarrow> 'a list \<times> bool) \<Rightarrow> ('a \<Rightarrow> 'c) \<Rightarrow> nat \<Rightarrow> 'c option \<Rightarrow> 'a list" where
  "walk fetch cur 0 c = []"
| "walk fetch cur (Suc n) c =
     (let (items, more) = fetch c
      in if more then items @ walk fetch cur n (Some (cur (last items))) else items)"

definition after_cursor :: "('c \<Rightarrow> 'a \<Rightarrow> bool) \<Rightarrow> 'c option \<Rightarrow> 'a list \<Rightarrow> 'a list" where
  "after_cursor after c xs = (case c of None \<Rightarrow> xs | Some k \<Rightarrow> filter (after k) xs)"

text \<open>
  The laws of a listing: its order is a comparator, and its cursor test agrees with the order
  on the pairs \<open>agree\<close> relates. The result: if the order separates the listed items, following
  the cursors returns the whole sorted listing, each item once.
\<close>

locale cursor_listing = comparator cmp
  for cmp :: "'a \<Rightarrow> 'a \<Rightarrow> int" +
  fixes after :: "'c \<Rightarrow> 'a \<Rightarrow> bool"
    and cur :: "'a \<Rightarrow> 'c"
    and agree :: "'a \<Rightarrow> 'a \<Rightarrow> bool"
  assumes after_cur: "agree x y \<Longrightarrow> after (cur x) y \<longleftrightarrow> cmp x y < 0"
begin

lemma filter_after_nth:
  assumes srt: "sorted_wrt (\<lambda>x y. cmp x y < 0) ys" and i: "i < length ys"
    and ag: "\<forall>x \<in> set ys. \<forall>y \<in> set ys. agree x y"
  shows "filter (after (cur (ys ! i))) ys = drop (Suc i) ys"
proof -
  have before: "\<not> after (cur (ys ! i)) y" if "y \<in> set (take (Suc i) ys)" for y
  proof -
    from that obtain j where j: "j \<le> i" "y = ys ! j"
      using i by (auto simp: in_set_conv_nth less_Suc_eq_le)
    have "cmp (ys ! j) (ys ! i) \<le> 0"
      using srt i j by (cases "j = i") (auto simp: refl sorted_wrt_iff_nth_less less_imp_le)
    then have "\<not> cmp (ys ! i) (ys ! j) < 0" using le_flip[of "ys ! j" "ys ! i"] by simp
    then show ?thesis using ag i j by (simp add: after_cur)
  qed
  have later: "after (cur (ys ! i)) y" if "y \<in> set (drop (Suc i) ys)" for y
  proof -
    from that obtain j where j: "i < j" "j < length ys" "y = ys ! j"
      by (auto simp: in_set_conv_nth) (metis add_Suc_right less_add_Suc1 less_diff_conv2 not_less_eq nat_less_le add.commute less_diff_conv)
    then show ?thesis using srt ag i by (simp add: after_cur sorted_wrt_iff_nth_less)
  qed
  have "filter (after (cur (ys ! i))) (take (Suc i) ys @ drop (Suc i) ys) = drop (Suc i) ys"
    unfolding filter_append using before later by (simp add: filter_empty_conv filter_id_conv)
  then show ?thesis by (simp only: append_take_drop_id)
qed

lemma strict_sort:
  assumes "distinct xs" and sep: "\<forall>x \<in> set xs. \<forall>y \<in> set xs. cmp x y = 0 \<longrightarrow> x = y"
  shows "sorted_wrt (\<lambda>x y. cmp x y < 0) (js_sort cmp xs)"
proof -
  have d: "distinct (js_sort cmp xs)" and s: "set (js_sort cmp xs) = set xs" using assms by simp_all
  show ?thesis
    unfolding sorted_wrt_iff_nth_less
  proof (intro allI impI)
    fix i j assume ij: "i < j" "j < length (js_sort cmp xs)"
    let ?x = "js_sort cmp xs ! i" and ?y = "js_sort cmp xs ! j"
    have le: "cmp ?x ?y \<le> 0" using sorted_sort ij by (simp add: sorted_wrt_iff_nth_less)
    have "?x \<noteq> ?y" using d ij by (simp add: nth_eq_iff_index_eq)
    moreover have "?x \<in> set xs" "?y \<in> set xs" using ij s nth_mem[of _ "js_sort cmp xs"] by auto
    ultimately have "cmp ?x ?y \<noteq> 0" using sep by blast
    with le show "cmp ?x ?y < 0" by simp
  qed
qed

lemma walk_from:
  assumes srt: "sorted_wrt (\<lambda>x y. cmp x y < 0) ys" and lim: "0 < limit"
    and ag: "\<forall>x \<in> set ys. \<forall>y \<in> set ys. agree x y"
    and fetch: "\<And>c. fetch c = page_of limit (after_cursor after c ys)"
    and rest: "after_cursor after c ys = drop k ys" and fuel: "length ys - k < fuel"
  shows "walk fetch cur fuel c = drop k ys"
  using rest fuel
proof (induction fuel arbitrary: c k)
  case (Suc n)
  let ?zs = "drop k ys"
  have f: "fetch c = (take limit ?zs, limit < length ?zs)"
    by (simp add: fetch Suc.prems page_of_eq)
  show ?case
  proof (cases "limit < length ?zs")
    case True
    let ?i = "k + limit - 1"
    have i: "?i < length ys" and ki: "Suc ?i = k + limit" using True lim by auto
    have "last (take limit ?zs) = ys ! ?i"
      using True lim by (simp add: last_conv_nth)
    moreover have "after_cursor after (Some (cur (ys ! ?i))) ys = drop (k + limit) ys"
      using filter_after_nth[OF srt i ag] ki by (simp add: after_cursor_def)
    moreover have "length ys - (k + limit) < n" using Suc.prems(2) True lim by auto
    ultimately have "walk fetch cur n (Some (cur (last (take limit ?zs)))) = drop (k + limit) ys"
      using Suc.IH by simp
    moreover have "take limit ?zs @ drop (k + limit) ys = ?zs"
      by (metis add.commute append_take_drop_id drop_drop)
    ultimately show ?thesis using True by (simp add: f)
  qed (simp add: f)
qed simp

lemma walk_complete:
  assumes "distinct xs" and "\<forall>x \<in> set xs. \<forall>y \<in> set xs. cmp x y = 0 \<longrightarrow> x = y"
    and "\<forall>x \<in> set xs. \<forall>y \<in> set xs. agree x y" and "0 < limit"
    and "\<And>c. fetch c = page_of limit (after_cursor after c (js_sort cmp xs))"
    and "length xs < fuel"
  shows "walk fetch cur fuel None = js_sort cmp xs"
  using walk_from[of "js_sort cmp xs" limit fetch None 0 fuel] strict_sort assms
  by (simp add: after_cursor_def)

end

section \<open>Idempotent requests\<close>

text \<open>
  The shape of every retried mutation: a stored answer under the request's key, a fingerprint
  that must match, a conflict when it does not, and otherwise an effect that records its answer.
  \<open>admit\<close> is what the operation checks before it looks the request up.
\<close>

locale idempotent_request =
  fixes run :: "'o \<Rightarrow> 's \<Rightarrow> ('s, 'r option) outcome"
    and admit :: "'o \<Rightarrow> 's \<Rightarrow> bool"
    and prior :: "'o \<Rightarrow> 's \<Rightarrow> 'p option"
    and matches :: "'o \<Rightarrow> 'p \<Rightarrow> bool"
    and answer :: "'p \<Rightarrow> 'r"
    and mark :: "'r \<Rightarrow> 'r"
  assumes replay: "admit o' s \<Longrightarrow> prior o' s = Some p \<Longrightarrow> matches o' p \<Longrightarrow>
      run o' s = (Inr (Some (answer p)), s)"
    and clash: "admit o' s \<Longrightarrow> prior o' s = Some p \<Longrightarrow> \<not> matches o' p \<Longrightarrow>
      \<exists>msg. run o' s = (Inl (conflict msg), s)"
    and records: "run o' s = (Inr (Some v), s') \<Longrightarrow> prior o' s = None \<Longrightarrow>
      admit o' s' \<and> (\<exists>p. prior o' s' = Some p \<and> matches o' p \<and> answer p = mark v)"
    and admitted: "run o' s = (Inr (Some v), s') \<Longrightarrow> admit o' s"
    and mark_answer: "mark (answer p) = answer p"
begin

lemma retry:
  assumes ok: "run o' s = (Inr (Some v), s')"
  shows "run o' s' = (Inr (Some (mark v)), s')"
proof (cases "prior o' s")
  case None
  with records[OF ok] show ?thesis by (auto simp: replay)
next
  case (Some p)
  have adm: "admit o' s" using ok by (rule admitted)
  have m: "matches o' p" using clash[OF adm Some] ok by auto
  have "v = answer p" "s' = s" using replay[OF adm Some m] ok by auto
  then show ?thesis using replay[OF adm Some m] by (simp add: mark_answer)
qed

lemma retry_many:
  assumes "run o' s = (Inr (Some v), s')"
  shows "((\<lambda>t. snd (run o' t)) ^^ n) s' = s'"
  using retry[OF assms] by (induction n) auto

end

end
