(* ===== verification/Contracts.thy ===== *)
theory Contracts
  imports Runtime
begin

text \<open>
  The domain types of \<open>packages/contracts/src\<close>: organizations and roles, employees and
  devices, calls. Every field of the source interface is a field of the record, prefixed with
  the record's short name because field names are global in HOL; \<open>field?: T\<close> is an option.
  Timestamps and identifiers are strings, as at every boundary of the source.
\<close>

section \<open>JSON\<close>

text \<open>
  A parsed JSON value. A number literal beyond the range of a double parses to an infinity; every
  other number is a rational.
\<close>

datatype json = JNull | JBool bool | JNum rat | JInfinite bool | JString string | JArray "json list"
  | JObject "(string \<times> json) list"

type_synonym json_record = "(string \<times> json) list"

section \<open>Organizations, roles and users\<close>

datatype organization_status = OrgTrial | OrgActive | OrgPastDue | OrgSuspended | OrgClosed
datatype user_status = UserInvited | UserActive | UserSuspended | UserDeactivated
datatype organization_plan = PlanTrial | PlanStarter | PlanGrowth | PlanBusiness | PlanEnterprise

datatype permission =
    organization_read | organization_manage | billing_read | billing_manage
  | users_read | users_manage | employees_read | employees_manage | devices_manage
  | calls_read | calls_export | calls_annotate | recordings_listen | recordings_manage
  | leads_read | leads_manage | leads_assign | reports_read | reports_export
  | integrations_read | integrations_manage | audit_read

datatype system_role_key = RoleOwner | RoleAdmin | RoleManager | RoleAnalyst | RoleEmployee

record audit_fields =
  createdAt :: string
  updatedAt :: string
  createdBy :: "string option"
  updatedBy :: "string option"

record organization_settings =
  set_timeZone :: string
  set_defaultCountryCode :: string
  set_workingWeekDays :: "int list"
  set_workingDayStartsAt :: string
  set_workingDayEndsAt :: string
  set_recordingRetentionDays :: int
  set_callLogRetentionDays :: int
  set_requireRecordingConsent :: bool
  set_maskPhoneNumbersForRestrictedUsers :: bool

record address =
  addr_line1 :: string
  addr_line2 :: "string option"
  addr_city :: string
  addr_region :: "string option"
  addr_postalCode :: string
  addr_countryCode :: string

record organization = audit_fields +
  org_id :: string
  org_name :: string
  org_slug :: string
  org_status :: organization_status
  org_plan :: organization_plan
  org_industry :: "string option"
  org_logoUrl :: "string option"
  org_supportEmail :: "string option"
  org_primaryPhone :: "string option"
  org_billingAddress :: "address option"
  org_settings :: organization_settings
  org_trialEndsAt :: "string option"

record role = audit_fields +
  role_id :: string
  role_organizationId :: string
  role_name :: string
  role_description :: "string option"
  role_systemKey :: "system_role_key option"
  role_permissions :: "permission list"
  role_isEditable :: bool

record user = audit_fields +
  user_id :: string
  user_organizationId :: string
  user_email :: string
  user_displayName :: string
  user_phoneNumber :: "string option"
  user_avatarUrl :: "string option"
  user_status :: user_status
  user_roleIds :: "string list"
  user_lastSignedInAt :: "string option"

section \<open>Employees and devices\<close>

datatype employee_status = EmpInvited | EmpActive | EmpPaused | EmpDeactivated
datatype mobile_platform = Android | Ios
datatype device_status = DevPending | DevConnected | DevStale | DevRevoked
datatype device_permission_state = PermUnknown | PermGranted | PermDenied | PermRestricted
datatype device_sync_state = NeverSynced | Idle | Syncing | Degraded | Failed
datatype network_type = NetOffline | NetWifi | NetCellular | NetEthernet | NetUnknown

record working_hours =
  wh_timeZone :: string
  wh_weekDays :: "int list"
  wh_startsAt :: string
  wh_endsAt :: string

record employee = audit_fields +
  emp_id :: string
  emp_organizationId :: string
  emp_linkedUserId :: "string option"
  emp_employeeCode :: "string option"
  emp_displayName :: string
  emp_email :: "string option"
  emp_primaryPhone :: "string option"
  emp_jobTitle :: "string option"
  emp_team :: "string option"
  emp_status :: employee_status
  emp_managerEmployeeId :: "string option"
  emp_workingHours :: "working_hours option"
  emp_deviceIds :: "string list"

record device_permissions =
  perm_callLog :: device_permission_state
  perm_phoneState :: device_permission_state
  perm_contacts :: device_permission_state
  perm_notifications :: device_permission_state
  perm_recordingFiles :: device_permission_state
  perm_backgroundExecution :: device_permission_state

record sim_card =
  sim_id :: string
  sim_deviceId :: string
  sim_slotIndex :: int
  sim_carrierName :: "string option"
  sim_phoneNumber :: "string option"
  sim_subscriptionId :: "string option"
  sim_isEnabled :: bool

record employee_device = audit_fields +
  dev_id :: string
  dev_organizationId :: string
  dev_employeeId :: string
  dev_installationId :: string
  dev_platform :: mobile_platform
  dev_manufacturer :: "string option"
  dev_model :: "string option"
  dev_osVersion :: string
  dev_appVersion :: string
  dev_status :: device_status
  dev_syncState :: device_sync_state
  dev_permissions :: device_permissions
  dev_simCards :: "sim_card list"
  dev_registeredAt :: string
  dev_lastSeenAt :: "string option"
  dev_lastHeartbeatAt :: "string option"
  dev_lastSuccessfulSyncAt :: "string option"
  dev_batteryPercent :: "int option"
  dev_isCharging :: "bool option"
  dev_networkType :: "network_type option"
  dev_pendingCallCount :: "int option"
  dev_pendingRecordingCount :: "int option"
  dev_revokedAt :: "string option"

record create_employee_input =
  cei_displayName :: string
  cei_email :: "string option"
  cei_primaryPhone :: "string option"
  cei_employeeCode :: "string option"
  cei_jobTitle :: "string option"
  cei_team :: "string option"
  cei_managerEmployeeId :: "string option"
  cei_workingHours :: "working_hours option"

section \<open>Calls\<close>

datatype call_direction = Incoming | Outgoing
datatype call_disposition = Answered | Missed | Rejected | Busy | Blocked | Voicemail | DispUnknown
datatype call_source = MobileCallLog | ManualCall | TelephonyProvider | ImportCall
datatype recording_status = RecNotExpected | RecPending | RecUploading | RecAvailable | RecFailed | RecDeleted

record call_participant =
  part_phoneNumber :: string
  part_displayName :: "string option"
  part_contactId :: "string option"
  part_isInternal :: bool

record call_log = audit_fields +
  call_id :: string
  call_organizationId :: string
  call_employeeId :: string
  call_deviceId :: "string option"
  call_simCardId :: "string option"
  call_externalId :: "string option"
  call_source :: call_source
  call_direction :: call_direction
  call_disposition :: call_disposition
  call_participant :: call_participant
  call_startedAt :: string
  call_answeredAt :: "string option"
  call_endedAt :: "string option"
  call_durationSeconds :: int
  call_ringDurationSeconds :: "int option"
  call_isWithinWorkingHours :: bool
  call_recordingStatus :: recording_status
  call_recordingId :: "string option"
  call_leadId :: "string option"
  call_noteCount :: int
  call_isPinned :: bool

text \<open>The transport spelling of the enumerations, where the code builds strings from them.\<close>

primrec direction_string :: "call_direction \<Rightarrow> string" where
  "direction_string Incoming = ''incoming''"
| "direction_string Outgoing = ''outgoing''"

primrec disposition_string :: "call_disposition \<Rightarrow> string" where
  "disposition_string Answered = ''answered''"
| "disposition_string Missed = ''missed''"
| "disposition_string Rejected = ''rejected''"
| "disposition_string Busy = ''busy''"
| "disposition_string Blocked = ''blocked''"
| "disposition_string Voicemail = ''voicemail''"
| "disposition_string DispUnknown = ''unknown''"

section \<open>Leads\<close>

datatype lead_temperature = Cold | Warm | Hot
datatype lead_source = SrcManual | SrcCsvImport | SrcWebsite | SrcFacebook | SrcInstagram
  | SrcGoogleAds | SrcIndiaMart | SrcApi | SrcIntegration | SrcUnknown
datatype follow_up_status = FuPending | FuCompleted | FuCancelled | FuOverdue
datatype follow_up_priority = PrioLow | PrioNormal | PrioHigh | PrioUrgent
datatype lead_queue_key = QueueAll | QueueNotContacted | QueueOverdue | QueueUnreturnedCalls
datatype lead_activity_kind = ActCreated | ActUpdated | ActAssigned | ActUnassigned
  | ActStatusChanged | ActCustomFieldsChanged | ActTagAdded | ActTagRemoved | ActNoteAdded
  | ActCallLinked | ActCallUnlinked | ActFollowUpCreated | ActFollowUpCompleted
  | ActFollowUpCancelled

record lead_status =
  ls_id :: string
  ls_organizationId :: string
  ls_name :: string
  ls_color :: string
  ls_position :: int
  ls_isInitial :: bool
  ls_isWon :: bool
  ls_isLost :: bool
  ls_isActive :: bool

record lead = audit_fields +
  lead_id :: string
  lead_organizationId :: string
  lead_firstName :: string
  lead_lastName :: "string option"
  lead_companyName :: "string option"
  lead_phoneNumber :: string
  lead_alternatePhoneNumber :: "string option"
  lead_email :: "string option"
  lead_source :: lead_source
  lead_sourceReference :: "string option"
  lead_statusId :: string
  lead_temperature :: "lead_temperature option"
  lead_assignedEmployeeId :: "string option"
  lead_tagIds :: "string list"
  lead_customFields :: json_record
  lead_lastContactedAt :: "string option"
  lead_nextFollowUpAt :: "string option"
  lead_convertedAt :: "string option"
  lead_lostAt :: "string option"
  lead_archivedAt :: "string option"
  lead_version :: int

record lead_note = audit_fields +
  note_id :: string
  note_organizationId :: string
  note_leadId :: string
  note_authorUserId :: string
  note_body :: string
  note_isPinned :: bool

record follow_up = audit_fields +
  fu_id :: string
  fu_organizationId :: string
  fu_leadId :: string
  fu_assignedEmployeeId :: string
  fu_title :: string
  fu_notes :: "string option"
  fu_dueAt :: string
  fu_reminderAt :: "string option"
  fu_priority :: follow_up_priority
  fu_status :: follow_up_status
  fu_completedAt :: "string option"
  fu_completedByUserId :: "string option"
  fu_version :: int

record lead_activity =
  act_id :: string
  act_organizationId :: string
  act_leadId :: string
  act_kind :: lead_activity_kind
  act_actorUserId :: "string option"
  act_actorEmployeeId :: "string option"
  act_callLogId :: "string option"
  act_occurredAt :: string
  act_summary :: string
  act_metadata :: "json_record option"

record create_lead_input =
  cli_firstName :: string
  cli_lastName :: "string option"
  cli_companyName :: "string option"
  cli_phoneNumber :: string
  cli_alternatePhoneNumber :: "string option"
  cli_email :: "string option"
  cli_source :: "lead_source option"
  cli_sourceReference :: "string option"
  cli_statusId :: "string option"
  cli_temperature :: "lead_temperature option"
  cli_assignedEmployeeId :: "string option"
  cli_tagIds :: "string list option"
  cli_customFields :: "json_record option"

text \<open>
  In a change set \<open>None\<close> is \<open>undefined\<close> (leave alone) and, for the nullable fields,
  \<open>Some None\<close> is \<open>null\<close> (delete).
\<close>

record update_lead_input =
  uli_firstName :: "string option"
  uli_lastName :: "string option option"
  uli_companyName :: "string option option"
  uli_phoneNumber :: "string option"
  uli_alternatePhoneNumber :: "string option option"
  uli_email :: "string option option"
  uli_statusId :: "string option"
  uli_temperature :: "lead_temperature option option"
  uli_assignedEmployeeId :: "string option option"
  uli_tagIds :: "string list option"
  uli_customFields :: "json_record option"
  uli_archived :: "bool option"

record update_lead_request =
  ulr_expectedVersion :: int
  ulr_changes :: update_lead_input

record create_lead_note_input =
  cni_body :: string
  cni_isPinned :: "bool option"

record create_follow_up_input =
  cfi_leadId :: string
  cfi_assignedEmployeeId :: string
  cfi_title :: string
  cfi_notes :: "string option"
  cfi_dueAt :: string
  cfi_reminderAt :: "string option"
  cfi_priority :: "follow_up_priority option"

record complete_follow_up_input =
  cpi_expectedVersion :: int
  cpi_completionNote :: "string option"
  cpi_completedAt :: "string option"

record lead_owner_summary =
  own_id :: string
  own_displayName :: string
  own_team :: "string option"

record lead_list_item =
  li_lead :: lead
  li_status :: lead_status
  li_assignedEmployee :: "lead_owner_summary option"
  li_nextFollowUp :: "follow_up option"
  li_overdueFollowUpCount :: nat
  li_unreturnedMissedCallCount :: nat

record lead_queue_summary =
  lq_total :: nat
  lq_notContacted :: nat
  lq_overdue :: nat
  lq_unreturnedCalls :: nat

record lead_detail =
  ld_item :: lead_list_item
  ld_notes :: "lead_note list"
  ld_followUps :: "follow_up list"
  ld_activities :: "lead_activity list"

section \<open>Actors and audit events\<close>

datatype lead_access_scope = ScopeOrganization | ScopeTeams "string list" | ScopeAssigned string

record actor_context =
  actor_user :: user
  actor_organization :: organization
  actor_roles :: "role list"
  actor_permissions :: "permission list"
  actor_roleKey :: system_role_key
  actor_leadScope :: lead_access_scope

datatype audit_entity = AuEmployee | AuDevice | AuPairingCode | AuCall | AuSession | AuLead
  | AuFollowUp | AuLeadImport | AuAssignmentRule | AuCallLeadLink

record audit_event =
  au_id :: string
  au_organizationId :: string
  au_actorUserId :: "string option"
  au_actorDeviceId :: "string option"
  au_requestId :: "string option"
  au_action :: string
  au_entityType :: audit_entity
  au_entityId :: string
  au_occurredAt :: string
  au_metadata :: json_record

text \<open>
  \<open>ROLE_PERMISSIONS\<close> of \<open>domain.ts\<close>.
\<close>

primrec ROLE_PERMISSIONS :: "system_role_key \<Rightarrow> permission list" where
  "ROLE_PERMISSIONS RoleOwner = [
    organization_read, organization_manage, billing_read, billing_manage,
    users_read, users_manage, employees_read, employees_manage, devices_manage,
    calls_read, calls_export, calls_annotate, recordings_listen, recordings_manage,
    leads_read, leads_manage, leads_assign, reports_read, reports_export,
    integrations_read, integrations_manage, audit_read]"
| "ROLE_PERMISSIONS RoleAdmin = [
    organization_read, organization_manage, users_read, users_manage, employees_read,
    employees_manage, devices_manage, calls_read, calls_export, calls_annotate,
    recordings_listen, recordings_manage, leads_read, leads_manage, leads_assign,
    reports_read, reports_export, integrations_read, integrations_manage, audit_read]"
| "ROLE_PERMISSIONS RoleManager = [
    organization_read, employees_read, calls_read, calls_annotate,
    leads_read, leads_manage, leads_assign, reports_read]"
| "ROLE_PERMISSIONS RoleAnalyst = [organization_read, employees_read, calls_read, reports_read, reports_export]"
| "ROLE_PERMISSIONS RoleEmployee = [organization_read, leads_read, leads_manage]"

definition ROLE_KEYS :: "system_role_key list" where
  "ROLE_KEYS = [RoleOwner, RoleAdmin, RoleManager, RoleAnalyst, RoleEmployee]"

primrec role_key_string :: "system_role_key \<Rightarrow> string" where
  "role_key_string RoleOwner = ''owner''"
| "role_key_string RoleAdmin = ''admin''"
| "role_key_string RoleManager = ''manager''"
| "role_key_string RoleAnalyst = ''analyst''"
| "role_key_string RoleEmployee = ''employee''"

end
