(* ===== verification/Formats.thy ===== *)
theory Formats
  imports Contracts
begin

text \<open>
  The textual formats the contracts test with regular expressions (\<open>common.ts\<close>, \<open>leads.ts\<close>,
  \<open>lead-operations.ts\<close>, \<open>sync.ts\<close>): phone numbers, e-mail addresses, UUIDs, credentials and
  timestamps. A pattern of fixed length is a list of character classes.
\<close>

section \<open>Character classes\<close>

type_synonym char_class = "char \<Rightarrow> bool"

definition in_range :: "nat \<Rightarrow> nat \<Rightarrow> char_class" where
  "in_range a b c = (a \<le> of_char c \<and> of_char c \<le> b)"

definition is_lower_hex :: char_class where
  "is_lower_hex c = (is_digit c \<or> in_range 97 102 c)"

definition is_hex :: char_class where
  "is_hex c = (is_lower_hex c \<or> in_range 65 70 c)"

definition is_letter :: char_class where
  "is_letter c = (in_range 65 90 c \<or> in_range 97 122 c)"

definition is_base64url :: char_class where
  "is_base64url c = (is_letter c \<or> is_digit c \<or> c \<in> {CHR ''_'', CHR ''-''})"

definition is_field_char :: char_class where
  "is_field_char c = (is_letter c \<or> is_digit c \<or> c \<in> {CHR ''_'', CHR ''.'', CHR ''-''})"

definition is_control :: char_class where
  "is_control c = (in_range 0 31 c \<or> in_range 127 159 c)"

definition fits :: "char_class list \<Rightarrow> string \<Rightarrow> bool" where
  "fits ps s = list_all2 (\<lambda>p c. p c) ps s"

abbreviation digits :: "nat \<Rightarrow> char_class list" where
  "digits n \<equiv> replicate n is_digit"

abbreviation lit :: "char \<Rightarrow> char_class list" where
  "lit c \<equiv> [\<lambda>x. x = c]"

lemma fits_append: "length s = length ps \<Longrightarrow> fits (ps @ qs) (s @ t) \<longleftrightarrow> fits ps s \<and> fits qs t"
  by (simp add: fits_def list_all2_append)

lemma fits_Cons: "fits (p # ps) (c # s) \<longleftrightarrow> p c \<and> fits ps s"
  by (simp add: fits_def)

lemma fits_length: "fits ps s \<Longrightarrow> length s = length ps"
  by (simp add: fits_def list_all2_lengthD)

lemma fits_replicate: "fits (replicate n p) s \<longleftrightarrow> length s = n \<and> list_all p s"
  by (auto simp: fits_def list_all2_conv_all_nth list_all_length)

section \<open>Identifiers and addresses\<close>

text \<open>\<open>/^\+[1-9]\d{7,14}$/\<close>\<close>

definition e164 :: "string \<Rightarrow> bool" where
  "e164 s = (case s of p # d # ds \<Rightarrow> p = CHR ''+'' \<and> is_digit d \<and> d \<noteq> CHR ''0'' \<and> list_all is_digit ds
       \<and> 7 \<le> length ds \<and> length ds \<le> 14
     | _ \<Rightarrow> False)"

text \<open>\<open>/^[^\s@]+@[^\s@]+\.[^\s@]+$/\<close>: one \<open>@\<close>, no space, and a dot inside the domain.\<close>

definition email_ok :: "string \<Rightarrow> bool" where
  "email_ok s =
     (let local = takeWhile (\<lambda>c. c \<noteq> CHR ''@'') s; domain = tl (dropWhile (\<lambda>c. c \<noteq> CHR ''@'') s)
      in list_all (\<lambda>c. \<not> js_space c) s \<and> local \<noteq> [] \<and> CHR ''@'' \<in> set s \<and> CHR ''@'' \<notin> set domain
         \<and> CHR ''.'' \<in> set (butlast (tl domain)))"

definition uuid_classes :: "char_class \<Rightarrow> char_class \<Rightarrow> char_class list" where
  "uuid_classes version variant = replicate 8 is_hex @ lit CHR ''-'' @ replicate 4 is_hex @ lit CHR ''-''
     @ version # replicate 3 is_hex @ lit CHR ''-'' @ variant # replicate 3 is_hex @ lit CHR ''-'' @ replicate 12 is_hex"

definition canonical_uuid :: "string \<Rightarrow> bool" where
  "canonical_uuid = fits (uuid_classes is_hex is_hex)"

definition request_uuid :: "string \<Rightarrow> bool" where
  "request_uuid = fits (uuid_classes (in_range 49 56) (\<lambda>c. c \<in> set ''89abAB''))"

definition sha256_hex :: "string \<Rightarrow> bool" where
  "sha256_hex = fits (replicate 64 is_lower_hex)"

definition device_credential :: "string \<Rightarrow> string \<Rightarrow> bool" where
  "device_credential prefix s = fits (map (=) (prefix @ ''_'') @ replicate 43 is_base64url) s"

text \<open>\<open>/^[A-Za-z][A-Za-z0-9_.-]{0,63}$/\<close>\<close>

definition custom_field_key :: "string \<Rightarrow> bool" where
  "custom_field_key s = (case s of [] \<Rightarrow> False | c # cs \<Rightarrow> is_letter c \<and> list_all is_field_char cs \<and> length cs \<le> 63)"

section \<open>Timestamps\<close>

definition date_classes :: "char_class list" where
  "date_classes = digits 4 @ lit CHR ''-'' @ digits 2 @ lit CHR ''-'' @ digits 2 @ lit CHR ''T''"

definition time_classes :: "char_class list" where
  "time_classes = digits 2 @ lit CHR '':'' @ digits 2 @ lit CHR '':'' @ digits 2"

definition offset_classes :: "char_class list" where
  "offset_classes = (\<lambda>c. c \<in> {CHR ''+'', CHR ''-''}) # digits 2 @ lit CHR '':'' @ digits 2"

text \<open>\<open>(?:\.\d{1,9})?\<close>: what remains after the optional fraction. The next character is never a digit.\<close>

definition skip_fraction :: "string \<Rightarrow> string option" where
  "skip_fraction s = (case s of
       c # cs \<Rightarrow> if c = CHR ''.''
         then (let ds = takeWhile is_digit cs in
           if 1 \<le> length ds \<and> length ds \<le> 9 then Some (dropWhile is_digit cs) else None)
         else Some s
     | [] \<Rightarrow> Some s)"

definition zone_ok :: "string \<Rightarrow> bool" where
  "zone_ok s = (s = ''Z'' \<or> fits offset_classes s)"

definition rfc3339_shape :: "string \<Rightarrow> bool" where
  "rfc3339_shape s = (fits (date_classes @ time_classes) (take 19 s)
     \<and> (case skip_fraction (drop 19 s) of None \<Rightarrow> False | Some z \<Rightarrow> zone_ok z))"

definition iso_date_time :: "host \<Rightarrow> string \<Rightarrow> bool" where
  "iso_date_time h s = (fits date_classes (take 11 s) \<and> h_parse h s \<noteq> None)"

definition explicit_date_time :: "host \<Rightarrow> string \<Rightarrow> bool" where
  "explicit_date_time h s = (iso_date_time h s \<and> rfc3339_shape s)"

definition number_at :: "nat \<Rightarrow> nat \<Rightarrow> string \<Rightarrow> nat" where
  "number_at i n s = undecimal (take n (drop i s))"

text \<open>
  \<open>new Date(Date.UTC(year, month, 0)).getUTCDate()\<close>: the last day of the month, where
  \<open>Date.UTC\<close> reads the years 0 to 99 as 1900 to 1999.
\<close>

definition utc_year :: "nat \<Rightarrow> nat" where
  "utc_year y = (if y \<le> 99 then 1900 + y else y)"

definition leap_year :: "nat \<Rightarrow> bool" where
  "leap_year y = (y mod 4 = 0 \<and> (y mod 100 \<noteq> 0 \<or> y mod 400 = 0))"

definition month_length :: "nat \<Rightarrow> nat \<Rightarrow> nat" where
  "month_length y m = (if m = 2 then (if leap_year y then 29 else 28)
     else if m \<in> {4, 6, 9, 11} then 30 else 31)"

definition canonical_date_time :: "host \<Rightarrow> string \<Rightarrow> bool" where
  "canonical_date_time h s =
     (rfc3339_shape s
      \<and> (let year = number_at 0 4 s; month = number_at 5 2 s; day = number_at 8 2 s;
             hour = number_at 11 2 s; minute = number_at 14 2 s; second = number_at 17 2 s
         in 1 \<le> month \<and> month \<le> 12 \<and> hour \<le> 23 \<and> minute \<le> 59 \<and> second \<le> 59
            \<and> 1 \<le> day \<and> day \<le> month_length (utc_year year) month \<and> h_parse h s \<noteq> None))"

end
