(* ===== verification/FormatFacts.thy ===== *)
theory FormatFacts
  imports Formats
begin

text \<open>
  Timestamps: a rendered date and time is accepted as canonical exactly when it names a day and a
  time of the calendar.
\<close>

section \<open>Padded decimals\<close>

lemma is_digit_digit_char: "d < 10 \<Longrightarrow> is_digit (digit_char d)"
  by (simp add: is_digit_def of_digit_char)

lemma decimal_digits: "list_all is_digit (decimal n)"
proof (induction n rule: decimal.induct)
  case (1 n)
  then show ?case by (subst decimal.simps) (simp add: is_digit_digit_char)
qed

lemma decimal_length: "n < 10 ^ Suc k \<Longrightarrow> length (decimal n) \<le> Suc k"
proof (induction k arbitrary: n)
  case 0
  then show ?case by (subst decimal.simps) simp
next
  case (Suc k)
  then show ?case by (subst decimal.simps) (simp add: less_mult_imp_div_less mult.commute)
qed

definition padded :: "nat \<Rightarrow> nat \<Rightarrow> string" where
  "padded k n = pad_start k (CHR ''0'') (decimal n)"

lemma padded_length: "n < 10 ^ Suc k \<Longrightarrow> length (padded (Suc k) n) = Suc k"
  using decimal_length[of n k] by (simp add: padded_def pad_start_def)

lemma padded_digits: "list_all is_digit (padded k n)"
  by (auto simp: padded_def pad_start_def decimal_digits list_all_iff is_digit_def dest: bspec[OF decimal_digits[unfolded list_all_iff]])

lemma padded_number [simp]: "undecimal (padded k n) = n"
  by (simp add: padded_def undecimal_pad undecimal_decimal)

lemma padded_length4: "n < 10000 \<Longrightarrow> length (padded 4 n) = 4"
  using padded_length[of n 3] by simp

lemma padded_length2: "n < 100 \<Longrightarrow> length (padded 2 n) = 2"
  using padded_length[of n 1] by (simp add: numeral_2_eq_2)

section \<open>Rendering\<close>

definition render_date_time :: "nat \<Rightarrow> nat \<Rightarrow> nat \<Rightarrow> nat \<Rightarrow> nat \<Rightarrow> nat \<Rightarrow> string \<Rightarrow> string" where
  "render_date_time y mo d hr mi s zone = padded 4 y @ ''-'' @ padded 2 mo @ ''-'' @ padded 2 d @ ''T''
     @ padded 2 hr @ '':'' @ padded 2 mi @ '':'' @ padded 2 s @ zone"

lemma render_shape:
  assumes "y < 10000" "mo < 100" "d < 100" "hr < 100" "mi < 100" "s < 100" and z: "zone_ok z"
  shows "rfc3339_shape (render_date_time y mo d hr mi s z)"
proof -
  let ?s = "render_date_time y mo d hr mi s"
  have len: "length (padded 4 y) = 4" "length (padded 2 mo) = 2" "length (padded 2 d) = 2"
    "length (padded 2 hr) = 2" "length (padded 2 mi) = 2" "length (padded 2 s) = 2"
    using assms by (simp_all add: padded_length4 padded_length2)
  have fit: "fits (digits 4) (padded 4 y)" "fits (digits 2) (padded 2 mo)" "fits (digits 2) (padded 2 d)"
    "fits (digits 2) (padded 2 hr)" "fits (digits 2) (padded 2 mi)" "fits (digits 2) (padded 2 s)"
    by (simp_all add: fits_replicate padded_digits len)
  have split: "take 19 (?s z) = ?s []" "drop 19 (?s z) = z" by (simp_all add: render_date_time_def len)
  have "fits (date_classes @ time_classes) (?s [])"
    by (simp add: date_classes_def time_classes_def render_date_time_def fits_append fits_Cons fit len)
  moreover have "skip_fraction z = Some z"
    using z by (auto simp: zone_ok_def skip_fraction_def offset_classes_def fits_def list_all2_Cons1 split: list.splits)
  ultimately show ?thesis using z by (simp add: rfc3339_shape_def split)
qed

lemma render_numbers:
  assumes "y < 10000" "mo < 100" "d < 100" "hr < 100" "mi < 100" "s < 100"
  shows "number_at 0 4 (render_date_time y mo d hr mi s z) = y" "number_at 5 2 (render_date_time y mo d hr mi s z) = mo"
    "number_at 8 2 (render_date_time y mo d hr mi s z) = d" "number_at 11 2 (render_date_time y mo d hr mi s z) = hr"
    "number_at 14 2 (render_date_time y mo d hr mi s z) = mi" "number_at 17 2 (render_date_time y mo d hr mi s z) = s"
proof -
  have len: "length (padded 4 y) = 4" "length (padded 2 mo) = 2" "length (padded 2 d) = 2"
    "length (padded 2 hr) = 2" "length (padded 2 mi) = 2" "length (padded 2 s) = 2"
    using assms by (simp_all add: padded_length4 padded_length2)
  show "number_at 0 4 (render_date_time y mo d hr mi s z) = y" "number_at 5 2 (render_date_time y mo d hr mi s z) = mo"
    "number_at 8 2 (render_date_time y mo d hr mi s z) = d" "number_at 11 2 (render_date_time y mo d hr mi s z) = hr"
    "number_at 14 2 (render_date_time y mo d hr mi s z) = mi" "number_at 17 2 (render_date_time y mo d hr mi s z) = s"
    by (simp_all add: number_at_def render_date_time_def len)
qed

text \<open>
  A timestamp written in the canonical form, from any four-digit year and two-digit month,
  day, hour, minute and second and a well-formed zone, is accepted exactly when the month, the day
  of that month and the time of day exist and the run time can parse it.
\<close>

theorem canonical_date_time_rendered:
  assumes "y < 10000" "mo < 100" "d < 100" "hr < 100" "mi < 100" "s < 100" and "zone_ok z"
  shows "canonical_date_time h (render_date_time y mo d hr mi s z) \<longleftrightarrow>
    1 \<le> mo \<and> mo \<le> 12 \<and> 1 \<le> d \<and> d \<le> month_length (utc_year y) mo \<and> hr \<le> 23 \<and> mi \<le> 59 \<and> s \<le> 59
    \<and> h_parse h (render_date_time y mo d hr mi s z) \<noteq> None"
  using render_shape[OF assms] render_numbers[OF assms(1-6), of z] by (auto simp: canonical_date_time_def Let_def)

end
