(* ===== verification/Guards.thy ===== *)
theory Guards
  imports Formats
begin

text \<open>
  The runtime validators of the contracts (\<open>is...\<close> functions), as tests of an unknown value: a
  JSON value, or \<open>None\<close> for \<open>undefined\<close> (an absent property).
\<close>

section \<open>Values\<close>

type_synonym js = "json option"

definition field :: "json_record \<Rightarrow> string \<Rightarrow> js" where
  "field fs k = map_of fs k"

definition as_record :: "js \<Rightarrow> json_record option" where
  "as_record v = (case v of Some (JObject fs) \<Rightarrow> Some fs | _ \<Rightarrow> None)"

text \<open>\<open>isRecord(v) && p(v)\<close>, \<open>Array.isArray(v) && p(v)\<close>, \<open>typeof v === "string" && p(v)\<close>.\<close>

definition record_and :: "(json_record \<Rightarrow> bool) \<Rightarrow> js \<Rightarrow> bool" where
  "record_and p v = (case v of Some (JObject fs) \<Rightarrow> p fs | _ \<Rightarrow> False)"

definition array_and :: "(json list \<Rightarrow> bool) \<Rightarrow> js \<Rightarrow> bool" where
  "array_and p v = (case v of Some (JArray xs) \<Rightarrow> p xs | _ \<Rightarrow> False)"

definition string_and :: "(string \<Rightarrow> bool) \<Rightarrow> js \<Rightarrow> bool" where
  "string_and p v = (case v of Some (JString s) \<Rightarrow> p s | _ \<Rightarrow> False)"

definition number_and :: "(rat \<Rightarrow> bool) \<Rightarrow> js \<Rightarrow> bool" where
  "number_and p v = (case v of Some (JNum q) \<Rightarrow> p q | _ \<Rightarrow> False)"

definition is_bool :: "js \<Rightarrow> bool" where
  "is_bool v = (case v of Some (JBool b) \<Rightarrow> True | _ \<Rightarrow> False)"

definition optionally :: "(js \<Rightarrow> bool) \<Rightarrow> js \<Rightarrow> bool" where
  "optionally p v = (v = None \<or> p v)"

definition nullable :: "(js \<Rightarrow> bool) \<Rightarrow> js \<Rightarrow> bool" where
  "nullable p v = (v = Some JNull \<or> p v)"

text \<open>\<open>[...names].includes(v)\<close> and \<open>v === name\<close>.\<close>

definition one_of :: "string list \<Rightarrow> js \<Rightarrow> bool" where
  "one_of names v = (case v of Some (JString s) \<Rightarrow> s \<in> set names | _ \<Rightarrow> False)"

lemmas guard_defs = record_and_def array_and_def string_and_def number_and_def one_of_def is_bool_def optionally_def nullable_def

section \<open>common.ts\<close>

definition isRecord :: "js \<Rightarrow> bool" where
  "isRecord = record_and (\<lambda>_. True)"

definition isNonEmptyString :: "js \<Rightarrow> bool" where
  "isNonEmptyString = string_and (\<lambda>s. js_trim s \<noteq> [])"

definition isFiniteNumber :: "js \<Rightarrow> bool" where
  "isFiniteNumber = number_and (\<lambda>_. True)"

definition isIsoDateTime :: "host \<Rightarrow> js \<Rightarrow> bool" where
  "isIsoDateTime h = string_and (iso_date_time h)"

definition hasOnlyStringValues :: "js \<Rightarrow> bool" where
  "hasOnlyStringValues = record_and (\<lambda>fs. list_all (\<lambda>x. string_and (\<lambda>_. True) (Some x)) (map snd fs))"

text \<open>\<open>Number.isSafeInteger\<close> and the integer bounds of \<open>sync.ts\<close>.\<close>

definition safe_integer :: "rat \<Rightarrow> bool" where
  "safe_integer q = (rat_of_int \<lfloor>q\<rfloor> = q \<and> \<bar>q\<bar> \<le> 2 ^ 53 - 1)"

definition isBoundedInteger :: "rat \<Rightarrow> rat \<Rightarrow> js \<Rightarrow> bool" where
  "isBoundedInteger a b = number_and (\<lambda>q. safe_integer q \<and> a \<le> q \<and> q \<le> b)"

definition positive_version :: "js \<Rightarrow> bool" where
  "positive_version = number_and (\<lambda>q. safe_integer q \<and> 1 \<le> q)"

text \<open>\<open>isNonEmptyString(v) && v.length <= n\<close>, and with the trimmed length.\<close>

definition short_string :: "nat \<Rightarrow> js \<Rightarrow> bool" where
  "short_string n = string_and (\<lambda>s. js_trim s \<noteq> [] \<and> length s \<le> n)"

definition isBoundedString :: "nat \<Rightarrow> js \<Rightarrow> bool" where
  "isBoundedString n = string_and (\<lambda>s. js_trim s \<noteq> [] \<and> length (js_trim s) \<le> n)"

definition any_string :: "nat option \<Rightarrow> js \<Rightarrow> bool" where
  "any_string n = string_and (\<lambda>s. case n of None \<Rightarrow> True | Some k \<Rightarrow> length s \<le> k)"

section \<open>leads.ts\<close>

definition lead_source_names :: "string list" where
  "lead_source_names = [''manual'', ''csv_import'', ''website'', ''facebook'', ''instagram'', ''google_ads'',
     ''india_mart'', ''api'', ''integration'', ''unknown'']"

definition isLeadSource :: "js \<Rightarrow> bool" where
  "isLeadSource = one_of lead_source_names"

definition isLeadQueueKey :: "js \<Rightarrow> bool" where
  "isLeadQueueKey = one_of [''all'', ''not_contacted'', ''overdue'', ''unreturned_calls'']"

definition isFollowUpPriority :: "js \<Rightarrow> bool" where
  "isFollowUpPriority = one_of [''low'', ''normal'', ''high'', ''urgent'']"

definition phone_value :: "js \<Rightarrow> bool" where
  "phone_value = string_and (\<lambda>s. js_trim s \<noteq> [] \<and> e164 s)"

definition email_value :: "js \<Rightarrow> bool" where
  "email_value = string_and (\<lambda>s. js_trim s \<noteq> [] \<and> email_ok s)"

definition isStringArray :: "js \<Rightarrow> bool" where
  "isStringArray = array_and (list_all (\<lambda>x. isNonEmptyString (Some x)))"

definition isCreateLeadInput :: "js \<Rightarrow> bool" where
  "isCreateLeadInput = record_and (\<lambda>v.
     isNonEmptyString (field v ''firstName'') \<and> phone_value (field v ''phoneNumber'')
     \<and> optionally isLeadSource (field v ''source'') \<and> optionally email_value (field v ''email'')
     \<and> optionally isNonEmptyString (field v ''assignedEmployeeId'')
     \<and> optionally isNonEmptyString (field v ''statusId'') \<and> optionally isStringArray (field v ''tagIds''))"

definition isUpdateLeadRequest :: "js \<Rightarrow> bool" where
  "isUpdateLeadRequest = record_and (\<lambda>v. positive_version (field v ''expectedVersion'')
     \<and> record_and (\<lambda>c. c \<noteq> [] \<and> optionally phone_value (field c ''phoneNumber'')
         \<and> optionally (nullable email_value) (field c ''email'')
         \<and> optionally (nullable isNonEmptyString) (field c ''assignedEmployeeId'')) (field v ''changes''))"

definition isCreateLeadNoteInput :: "js \<Rightarrow> bool" where
  "isCreateLeadNoteInput = record_and (\<lambda>v. isNonEmptyString (field v ''body'') \<and> optionally is_bool (field v ''isPinned''))"

definition isCreateFollowUpInput :: "host \<Rightarrow> js \<Rightarrow> bool" where
  "isCreateFollowUpInput h = record_and (\<lambda>v. isNonEmptyString (field v ''leadId'')
     \<and> isNonEmptyString (field v ''assignedEmployeeId'') \<and> isNonEmptyString (field v ''title'')
     \<and> isIsoDateTime h (field v ''dueAt'') \<and> optionally isFollowUpPriority (field v ''priority''))"

definition isCompleteFollowUpInput :: "host \<Rightarrow> js \<Rightarrow> bool" where
  "isCompleteFollowUpInput h = record_and (\<lambda>v. positive_version (field v ''expectedVersion'')
     \<and> optionally (isIsoDateTime h) (field v ''completedAt'') \<and> optionally isNonEmptyString (field v ''completionNote''))"

section \<open>lead-operations.ts\<close>

definition isCanonicalRfc3339DateTime :: "host \<Rightarrow> js \<Rightarrow> bool" where
  "isCanonicalRfc3339DateTime h = string_and (canonical_date_time h)"

text \<open>Container values may nest eight deep and hold a hundred entries each.\<close>

fun isBoundedLeadJsonValue :: "json \<Rightarrow> nat \<Rightarrow> bool" where
  "isBoundedLeadJsonValue JNull depth = True"
| "isBoundedLeadJsonValue (JString s) depth = True"
| "isBoundedLeadJsonValue (JBool b) depth = True"
| "isBoundedLeadJsonValue (JNum q) depth = True"
| "isBoundedLeadJsonValue (JInfinite p) depth = False"
| "isBoundedLeadJsonValue (JArray xs) depth = (if 8 \<le> depth then False
     else length xs \<le> 100 \<and> (\<forall>x\<in>set xs. isBoundedLeadJsonValue x (depth + 1)))"
| "isBoundedLeadJsonValue (JObject fs) depth = (if 8 \<le> depth then False
     else length fs \<le> 100 \<and> (\<forall>f\<in>set fs. isBoundedLeadJsonValue (snd f) (depth + 1)))"

text \<open>
  The text \<open>JSON.stringify\<close> writes. How a number prints is the run time's; \<open>num\<close> stands for it.
  An infinity prints as \<open>null\<close>.
\<close>

definition hex_digit :: "nat \<Rightarrow> char" where
  "hex_digit n = (if n < 10 then digit_char n else char_of (87 + n))"

definition quote_char :: "char \<Rightarrow> string" where
  "quote_char c = (let n = of_char c :: nat in
     if c \<in> {CHR 0x22, CHR 0x5C} then [CHR 0x5C, c]
     else if n = 8 then [CHR 0x5C, CHR ''b''] else if n = 9 then [CHR 0x5C, CHR ''t'']
     else if n = 10 then [CHR 0x5C, CHR ''n''] else if n = 12 then [CHR 0x5C, CHR ''f'']
     else if n = 13 then [CHR 0x5C, CHR ''r'']
     else if n < 32 then [CHR 0x5C, CHR ''u'', CHR ''0'', CHR ''0'', hex_digit (n div 16), hex_digit (n mod 16)]
     else [c])"

definition quote :: "string \<Rightarrow> string" where
  "quote s = [CHR 0x22] @ concat (map quote_char s) @ [CHR 0x22]"

definition commas :: "string list \<Rightarrow> string" where
  "commas xs = (case xs of [] \<Rightarrow> [] | y # ys \<Rightarrow> y @ concat (map (\<lambda>z. '','' @ z) ys))"

fun stringify :: "(rat \<Rightarrow> string) \<Rightarrow> json \<Rightarrow> string" where
  "stringify num JNull = ''null''"
| "stringify num (JBool b) = (if b then ''true'' else ''false'')"
| "stringify num (JNum q) = num q"
| "stringify num (JInfinite p) = ''null''"
| "stringify num (JString s) = quote s"
| "stringify num (JArray xs) = ''['' @ commas (map (stringify num) xs) @ '']''"
| "stringify num (JObject fs) = ''{'' @ commas (map (\<lambda>f. quote (fst f) @ '':'' @ stringify num (snd f)) fs) @ ''}''"

definition isLeadImportCustomFields :: "(rat \<Rightarrow> string) \<Rightarrow> js \<Rightarrow> bool" where
  "isLeadImportCustomFields num = record_and (\<lambda>fs. length fs \<le> 100 \<and> list_all custom_field_key (map fst fs)
     \<and> list_all (\<lambda>x. isBoundedLeadJsonValue x 0) (map snd fs) \<and> length (stringify num (JObject fs)) \<le> 65536)"

definition hasOnlyKnownLeadImportRowValues :: "(rat \<Rightarrow> string) \<Rightarrow> json_record \<Rightarrow> bool" where
  "hasOnlyKnownLeadImportRowValues num v \<longleftrightarrow>
     any_string (Some 200) (field v ''firstName'') \<and> any_string (Some 64) (field v ''phoneNumber'')
     \<and> optionally (any_string (Some 200)) (field v ''lastName'') \<and> optionally (any_string (Some 240)) (field v ''companyName'')
     \<and> optionally (any_string (Some 64)) (field v ''alternatePhoneNumber'') \<and> optionally (any_string (Some 320)) (field v ''email'')
     \<and> optionally (any_string (Some 120)) (field v ''statusName'')
     \<and> optionally (any_string (Some 120)) (field v ''assignedEmployeeCode'')
     \<and> optionally (any_string (Some 60)) (field v ''source'')
     \<and> optionally (array_and (\<lambda>xs. list_all (\<lambda>x. isNonEmptyString (Some x)) xs \<and> length xs \<le> 100
         \<and> list_all (\<lambda>x. any_string (Some 120) (Some x)) xs)) (field v ''tagNames'')
     \<and> optionally (isLeadImportCustomFields num) (field v ''customFields'')"

definition isLeadImportRow :: "(rat \<Rightarrow> string) \<Rightarrow> js \<Rightarrow> bool" where
  "isLeadImportRow num = record_and (hasOnlyKnownLeadImportRowValues num)"

definition isPreviewLeadImportInput :: "(rat \<Rightarrow> string) \<Rightarrow> js \<Rightarrow> bool" where
  "isPreviewLeadImportInput num = record_and (\<lambda>v.
     string_and (\<lambda>s. 8 \<le> length (js_trim s) \<and> length s \<le> 100) (field v ''requestId'')
     \<and> short_string 255 (field v ''fileName'')
     \<and> array_and (\<lambda>rows. rows \<noteq> [] \<and> length rows \<le> 1000 \<and> list_all (\<lambda>x. isLeadImportRow num (Some x)) rows) (field v ''rows''))"

definition isCommitLeadImportInput :: "js \<Rightarrow> bool" where
  "isCommitLeadImportInput = record_and (\<lambda>v. short_string 100 (field v ''requestId''))"

definition isLeadAssignmentStrategy :: "js \<Rightarrow> bool" where
  "isLeadAssignmentStrategy = one_of [''fixed_owner'', ''round_robin'']"

definition isLeadTemperature :: "js \<Rightarrow> bool" where
  "isLeadTemperature = one_of [''cold'', ''warm'', ''hot'']"

definition isLeadAssignmentConditions :: "js \<Rightarrow> bool" where
  "isLeadAssignmentConditions = record_and (\<lambda>v.
     optionally (array_and (list_all (\<lambda>x. isLeadSource (Some x)))) (field v ''sources'')
     \<and> optionally (array_and (list_all (\<lambda>x. isLeadTemperature (Some x)))) (field v ''temperatures'')
     \<and> optionally isStringArray (field v ''statusIds''))"

definition rule_priority :: "js \<Rightarrow> bool" where
  "rule_priority = number_and (\<lambda>q. safe_integer q \<and> 1 \<le> q \<and> q \<le> 10000)"

definition owner_list :: "js \<Rightarrow> bool" where
  "owner_list = array_and (\<lambda>xs. list_all (\<lambda>x. isNonEmptyString (Some x)) xs \<and> xs \<noteq> [] \<and> length xs \<le> 100)"

definition hasValidRuleShape :: "json_record \<Rightarrow> bool" where
  "hasValidRuleShape v \<longleftrightarrow> short_string 120 (field v ''name'') \<and> rule_priority (field v ''priority'')
     \<and> isLeadAssignmentStrategy (field v ''strategy'') \<and> owner_list (field v ''employeeIds'')
     \<and> optionally is_bool (field v ''active'') \<and> optionally isLeadAssignmentConditions (field v ''conditions'')
     \<and> (one_of [''fixed_owner''] (field v ''strategy'') \<longrightarrow> array_and (\<lambda>xs. length xs = 1) (field v ''employeeIds''))"

definition isCreateLeadAssignmentRuleInput :: "js \<Rightarrow> bool" where
  "isCreateLeadAssignmentRuleInput = record_and hasValidRuleShape"

definition isUpdateLeadAssignmentRuleInput :: "js \<Rightarrow> bool" where
  "isUpdateLeadAssignmentRuleInput = record_and (\<lambda>v. positive_version (field v ''expectedVersion'')
     \<and> record_and (\<lambda>c. c \<noteq> [] \<and> optionally (short_string 120) (field c ''name'')
         \<and> optionally rule_priority (field c ''priority'') \<and> optionally is_bool (field c ''active'')
         \<and> optionally isLeadAssignmentConditions (field c ''conditions'')
         \<and> optionally isLeadAssignmentStrategy (field c ''strategy'')
         \<and> optionally owner_list (field c ''employeeIds'')) (field v ''changes''))"

definition isApplyLeadAssignmentRulesInput :: "js \<Rightarrow> bool" where
  "isApplyLeadAssignmentRulesInput = record_and (\<lambda>v. short_string 100 (field v ''requestId'')
     \<and> is_bool (field v ''includeExistingUnassigned''))"

definition isCorrectCallLeadLinkInput :: "js \<Rightarrow> bool" where
  "isCorrectCallLeadLinkInput = record_and (\<lambda>v. short_string 100 (field v ''requestId'')
     \<and> nullable isNonEmptyString (field v ''expectedLeadId'') \<and> nullable isNonEmptyString (field v ''replacementLeadId'')
     \<and> string_and (\<lambda>s. 3 \<le> length (js_trim s) \<and> length s \<le> 500) (field v ''reason'')
     \<and> field v ''expectedLeadId'' \<noteq> field v ''replacementLeadId'')"

definition note_value :: "js \<Rightarrow> bool" where
  "note_value = record_and (\<lambda>n. short_string 5000 (field n ''body''))"

definition mobile_follow_up_value :: "host \<Rightarrow> js \<Rightarrow> bool" where
  "mobile_follow_up_value h = record_and (\<lambda>f. short_string 200 (field f ''title'')
     \<and> isCanonicalRfc3339DateTime h (field f ''dueAt'') \<and> optionally (short_string 5000) (field f ''notes'')
     \<and> optionally (isCanonicalRfc3339DateTime h) (field f ''reminderAt'')
     \<and> optionally isFollowUpPriority (field f ''priority''))"

text \<open>\<open>Date.parse(reminderAt) > Date.parse(dueAt)\<close> on a follow-up value.\<close>

definition reminder_after_due :: "host \<Rightarrow> js \<Rightarrow> bool" where
  "reminder_after_due h = record_and (\<lambda>f. string_and (\<lambda>r. string_and (\<lambda>d.
     date_gt_ms (h_parse h r) (h_parse h d)) (field f ''dueAt'')) (field f ''reminderAt''))"

definition isMobileLeadUpdateInput :: "host \<Rightarrow> js \<Rightarrow> bool" where
  "isMobileLeadUpdateInput h = record_and (\<lambda>v.
     field v ''schemaVersion'' = Some (JNum 1) \<and> short_string 100 (field v ''requestId'')
     \<and> positive_version (field v ''expectedLeadVersion'') \<and> isCanonicalRfc3339DateTime h (field v ''occurredAt'')
     \<and> optionally isNonEmptyString (field v ''statusId'') \<and> optionally note_value (field v ''note'')
     \<and> optionally (mobile_follow_up_value h) (field v ''followUp'')
     \<and> \<not> (mobile_follow_up_value h (field v ''followUp'') \<and> reminder_after_due h (field v ''followUp''))
     \<and> (isNonEmptyString (field v ''statusId'') \<or> note_value (field v ''note'') \<or> mobile_follow_up_value h (field v ''followUp'')))"

definition isLeadReportFilter :: "host \<Rightarrow> js \<Rightarrow> bool" where
  "isLeadReportFilter h = record_and (\<lambda>v. isCanonicalRfc3339DateTime h (field v ''from'')
     \<and> isCanonicalRfc3339DateTime h (field v ''to'') \<and> optionally (string_and canonical_uuid) (field v ''employeeId'')
     \<and> optionally (string_and (\<lambda>s. s \<noteq> [] \<and> length s \<le> 100)) (field v ''team'')
     \<and> optionally isLeadSource (field v ''source''))"

section \<open>calls.ts and employees.ts\<close>

definition isCallDirection :: "js \<Rightarrow> bool" where
  "isCallDirection = one_of [''incoming'', ''outgoing'']"

definition isCallDisposition :: "js \<Rightarrow> bool" where
  "isCallDisposition = one_of [''answered'', ''missed'', ''rejected'', ''busy'', ''blocked'', ''voicemail'', ''unknown'']"

definition isCallLogImportRow :: "host \<Rightarrow> js \<Rightarrow> bool" where
  "isCallLogImportRow h = record_and (\<lambda>v. isNonEmptyString (field v ''employeeId'')
     \<and> isNonEmptyString (field v ''phoneNumber'') \<and> isCallDirection (field v ''direction'')
     \<and> isCallDisposition (field v ''disposition'') \<and> isIsoDateTime h (field v ''startedAt'')
     \<and> number_and (\<lambda>q. 0 \<le> q) (field v ''durationSeconds''))"

definition isMobilePlatform :: "js \<Rightarrow> bool" where
  "isMobilePlatform = one_of [''android'', ''ios'']"

definition isDevicePermissions :: "js \<Rightarrow> bool" where
  "isDevicePermissions = record_and (\<lambda>v. list_all (\<lambda>k. one_of [''unknown'', ''granted'', ''denied'', ''restricted''] (field v k))
     [''callLog'', ''phoneState'', ''contacts'', ''notifications'', ''recordingFiles'', ''backgroundExecution''])"

definition isRegisterDeviceInput :: "js \<Rightarrow> bool" where
  "isRegisterDeviceInput = record_and (\<lambda>v. isNonEmptyString (field v ''code'')
     \<and> isNonEmptyString (field v ''installationId'') \<and> isMobilePlatform (field v ''platform'')
     \<and> isNonEmptyString (field v ''osVersion'') \<and> isNonEmptyString (field v ''appVersion'')
     \<and> isDevicePermissions (field v ''permissions''))"

section \<open>sync.ts\<close>

definition isExplicitIsoDateTime :: "host \<Rightarrow> js \<Rightarrow> bool" where
  "isExplicitIsoDateTime h = string_and (explicit_date_time h)"

text \<open>\<open>typeof a === "string" && a >= b\<close>: strings are compared by code units.\<close>

definition not_before :: "js \<Rightarrow> js \<Rightarrow> bool" where
  "not_before a b = string_and (\<lambda>s. string_and (\<lambda>t. t \<le> s) b) a"

definition isCallLogSyncItem :: "host \<Rightarrow> js \<Rightarrow> bool" where
  "isCallLogSyncItem h = record_and (\<lambda>v. isBoundedString 160 (field v ''localId'')
     \<and> string_and e164 (field v ''phoneNumber'') \<and> isCallDirection (field v ''direction'')
     \<and> isCallDisposition (field v ''disposition'') \<and> isExplicitIsoDateTime h (field v ''startedAt'')
     \<and> isBoundedInteger 0 (7 * 86400) (field v ''durationSeconds'')
     \<and> optionally (isBoundedString 160) (field v ''nativeCallId'') \<and> optionally (isBoundedString 160) (field v ''simCardId'')
     \<and> optionally (isBoundedString 160) (field v ''contactName'')
     \<and> optionally (isExplicitIsoDateTime h) (field v ''answeredAt'') \<and> optionally (isExplicitIsoDateTime h) (field v ''endedAt'')
     \<and> optionally (isBoundedInteger 0 86400) (field v ''ringDurationSeconds'') \<and> optionally is_bool (field v ''isInternal'')
     \<and> optionally (isExplicitIsoDateTime h) (field v ''nativeLastModifiedAt'')
     \<and> optionally (isBoundedString 160) (field v ''recordingLocalId'')
     \<and> optionally (\<lambda>a. not_before a (field v ''startedAt'')) (field v ''answeredAt'')
     \<and> optionally (\<lambda>e. not_before e (if string_and (\<lambda>_. True) (field v ''answeredAt'')
         then field v ''answeredAt'' else field v ''startedAt'')) (field v ''endedAt''))"

definition isMobileCollectionMode :: "js \<Rightarrow> bool" where
  "isMobileCollectionMode = one_of [''android_call_log'', ''synthetic_demo'']"

definition isCallLogSyncBatch :: "host \<Rightarrow> js \<Rightarrow> bool" where
  "isCallLogSyncBatch h = record_and (\<lambda>v. field v ''schemaVersion'' = Some (JNum 1)
     \<and> isMobileCollectionMode (field v ''collectionMode'')
     \<and> isBoundedString 160 (field v ''batchId'') \<and> isBoundedString 160 (field v ''organizationId'')
     \<and> isBoundedString 160 (field v ''employeeId'') \<and> isBoundedString 160 (field v ''deviceId'')
     \<and> isExplicitIsoDateTime h (field v ''sentAt'') \<and> optionally (isBoundedString 2048) (field v ''previousCursor'')
     \<and> array_and (\<lambda>xs. length xs \<le> 100 \<and> list_all (\<lambda>x. isCallLogSyncItem h (Some x)) xs) (field v ''items''))"

definition isRequestId :: "js \<Rightarrow> bool" where
  "isRequestId = string_and request_uuid"

definition isMobilePolicyReference :: "js \<Rightarrow> bool" where
  "isMobilePolicyReference = record_and (\<lambda>v. isRequestId (field v ''id'') \<and> string_and sha256_hex (field v ''contentHash''))"

definition isProposedDeviceCredential :: "js \<Rightarrow> string \<Rightarrow> bool" where
  "isProposedDeviceCredential v credentialType =
     string_and (device_credential (if credentialType = ''bootstrap'' then ''clb'' else ''cls'')) v"

definition consent_value :: "host \<Rightarrow> js \<Rightarrow> bool" where
  "consent_value h = record_and (\<lambda>c. isExplicitIsoDateTime h (field c ''acceptedAt'')
     \<and> one_of [''call_metadata''] (field c ''purpose'') \<and> optionally (isBoundedString 35) (field c ''locale''))"

definition isMobileActivationInput :: "host \<Rightarrow> js \<Rightarrow> bool" where
  "isMobileActivationInput h = record_and (\<lambda>v. isRequestId (field v ''requestId'')
     \<and> isProposedDeviceCredential (field v ''proposedSessionCredential'') ''session''
     \<and> isMobilePolicyReference (field v ''policy'') \<and> consent_value h (field v ''consent'')
     \<and> isDevicePermissions (field v ''permissions''))"

definition isMobileReconsentInput :: "host \<Rightarrow> js \<Rightarrow> bool" where
  "isMobileReconsentInput h = record_and (\<lambda>v. isRequestId (field v ''requestId'')
     \<and> isMobilePolicyReference (field v ''policy'') \<and> consent_value h (field v ''consent'')
     \<and> isDevicePermissions (field v ''permissions''))"

definition isMobileSessionRotationPrepareInput :: "js \<Rightarrow> bool" where
  "isMobileSessionRotationPrepareInput = record_and (\<lambda>v. isRequestId (field v ''requestId'')
     \<and> isProposedDeviceCredential (field v ''proposedSessionCredential'') ''session'')"

definition isMobileSessionRotationConfirmInput :: "js \<Rightarrow> bool" where
  "isMobileSessionRotationConfirmInput = record_and (\<lambda>v. isRequestId (field v ''requestId'')
     \<and> isRequestId (field v ''prepareRequestId'') \<and> field v ''requestId'' \<noteq> field v ''prepareRequestId'')"

definition isMobileSessionRevocationInput :: "js \<Rightarrow> bool" where
  "isMobileSessionRevocationInput = record_and (\<lambda>v. isRequestId (field v ''requestId''))"

definition isDeviceHeartbeat :: "js \<Rightarrow> host \<Rightarrow> bool" where
  "isDeviceHeartbeat value h = record_and (\<lambda>v. field v ''schemaVersion'' = Some (JNum 1)
     \<and> isBoundedString 160 (field v ''organizationId'') \<and> isBoundedString 160 (field v ''employeeId'')
     \<and> isBoundedString 160 (field v ''deviceId'') \<and> isExplicitIsoDateTime h (field v ''observedAt'')
     \<and> isBoundedString 50 (field v ''appVersion'') \<and> isBoundedString 50 (field v ''osVersion'')
     \<and> optionally (isBoundedInteger 0 100) (field v ''batteryPercent'') \<and> optionally is_bool (field v ''isCharging'')
     \<and> optionally (one_of [''offline'', ''wifi'', ''cellular'', ''ethernet'', ''unknown'']) (field v ''networkType'')
     \<and> isBoundedInteger 0 1000000 (field v ''pendingCallCount'') \<and> isBoundedInteger 0 1000000 (field v ''pendingRecordingCount'')
     \<and> one_of [''never_synced'', ''idle'', ''syncing'', ''degraded'', ''failed''] (field v ''syncState'')
     \<and> isDevicePermissions (field v ''permissions'')) value"

definition isRecordingUploadManifest :: "host \<Rightarrow> js \<Rightarrow> bool" where
  "isRecordingUploadManifest h = record_and (\<lambda>v. isNonEmptyString (field v ''localId'')
     \<and> isNonEmptyString (field v ''deviceId'') \<and> isNonEmptyString (field v ''fileName'') \<and> isNonEmptyString (field v ''mimeType'')
     \<and> number_and (\<lambda>q. 0 \<le> q) (field v ''sizeBytes'') \<and> isNonEmptyString (field v ''checksumSha256'')
     \<and> isIsoDateTime h (field v ''capturedAt''))"

section \<open>device-recovery.ts\<close>

definition isDeviceRevocationReason :: "js \<Rightarrow> bool" where
  "isDeviceRevocationReason = string_and (\<lambda>s. let reason = js_trim s in
     8 \<le> length reason \<and> length reason \<le> 500 \<and> \<not> list_ex is_control reason)"

definition isAdminDeviceRevocationInput :: "js \<Rightarrow> bool" where
  "isAdminDeviceRevocationInput = record_and (\<lambda>v. isRequestId (field v ''requestId'')
     \<and> isDeviceRevocationReason (field v ''reason''))"

end
