(* ===== verification/Identity.thy ===== *)
theory Identity
  imports Contracts
begin

text \<open>
  Identity and audit: the part of \<open>InMemoryCalloraRepository\<close> (\<open>repository.ts\<close>) that knows
  organizations, roles, users, their linked employees, external identities and the audit log.
  Its state is the first layer of the repository record; later theories extend the record with
  their own maps, so an operation of this theory works on every later state and cannot touch
  the later layers.
\<close>

section \<open>State\<close>

record identity_state =
  ids :: nat
  ready :: bool
  organizations :: "(string, organization) jsmap"
  roles :: "(string, role) jsmap"
  users :: "(string, user) jsmap"
  developmentActors :: "(string, string) jsmap"
  externalIdentityUsers :: "((string \<times> string \<times> string), string) jsmap"
  employees :: "(string, employee) jsmap"
  audits :: "(string, audit_event list) jsmap"

text \<open>\<open>SequentialIdGenerator.next\<close>: bump the counter, then print it.\<close>

definition next_id :: "string \<Rightarrow> 'a identity_state_scheme \<Rightarrow> string \<times> 'a identity_state_scheme" where
  "next_id prefix r = (let n = Suc (ids r) in (sequential_id prefix n, r\<lparr>ids := n\<rparr>))"

lemma next_id_eq: "next_id p r = (sequential_id p (Suc (ids r)), r\<lparr>ids := Suc (ids r)\<rparr>)"
  by (simp add: next_id_def Let_def)

section \<open>Operations\<close>

definition setReady :: "bool \<Rightarrow> 'a identity_state_scheme \<Rightarrow> 'a identity_state_scheme" where
  "setReady b r = r\<lparr>ready := b\<rparr>"

definition ping :: "'a identity_state_scheme \<Rightarrow> bool" where
  "ping r = ready r"

definition setUserStatus :: "string \<Rightarrow> user_status \<Rightarrow> 'a identity_state_scheme \<Rightarrow> 'a identity_state_scheme" where
  "setUserStatus userId status r =
     (case map_get (users r) userId of
        None \<Rightarrow> r
      | Some u \<Rightarrow> r\<lparr>users := map_set userId (u\<lparr>user_status := status\<rparr>) (users r)\<rparr>)"

text \<open>\<open>[...new Set(xs)]\<close>: the first occurrence of each element, in order.\<close>

definition js_set :: "'a list \<Rightarrow> 'a list" where
  "js_set xs = rev (remdups (rev xs))"

definition linked_employee :: "string \<Rightarrow> string \<Rightarrow> 'a identity_state_scheme \<Rightarrow> employee option" where
  "linked_employee orgId userId r =
     find (\<lambda>e. emp_organizationId e = orgId \<and> emp_linkedUserId e = Some userId)
       (map_values (employees r))"

definition lead_scope_of :: "system_role_key \<Rightarrow> employee option \<Rightarrow> lead_access_scope" where
  "lead_scope_of key linked =
     (case key of
        RoleManager \<Rightarrow> ScopeTeams (case Option.bind linked emp_team of
            Some t \<Rightarrow> if t \<noteq> [] then [t] else [] | None \<Rightarrow> [])
      | RoleEmployee \<Rightarrow> ScopeAssigned (case linked of Some e \<Rightarrow> emp_id e | None \<Rightarrow> [])
      | _ \<Rightarrow> ScopeOrganization)"

definition roles_of :: "string \<Rightarrow> user \<Rightarrow> 'a identity_state_scheme \<Rightarrow> role list" where
  "roles_of orgId u r =
     filter (\<lambda>ro. role_organizationId ro = orgId)
       (List.map_filter (\<lambda>roleId. map_get (roles r) roleId) (user_roleIds u))"

definition findActor :: "string \<Rightarrow> string \<Rightarrow> 'a identity_state_scheme \<Rightarrow> actor_context option" where
  "findActor orgId userId r =
     (case (map_get (organizations r) orgId, map_get (users r) userId) of
        (Some org, Some u) \<Rightarrow>
          if user_organizationId u \<noteq> orgId \<or> user_status u \<noteq> UserActive then None
          else
            let rs = roles_of orgId u r
            in (case find (\<lambda>ro. role_systemKey ro \<noteq> None) rs of
                  None \<Rightarrow> None
                | Some primary \<Rightarrow>
                    (case role_systemKey primary of
                       None \<Rightarrow> None
                     | Some key \<Rightarrow> Some
                         \<lparr>actor_user = u, actor_organization = org, actor_roles = rs,
                          actor_permissions = js_set (concat (map role_permissions rs)),
                          actor_roleKey = key,
                          actor_leadScope = lead_scope_of key
                            (linked_employee orgId (user_id u) r)\<rparr>))
      | _ \<Rightarrow> None)"

definition linkExternalIdentity ::
  "string \<Rightarrow> string \<Rightarrow> string \<Rightarrow> string \<Rightarrow> 'a identity_state_scheme \<Rightarrow> 'a identity_state_scheme" where
  "linkExternalIdentity orgId issuer subject userId r =
     r\<lparr>externalIdentityUsers := map_set (orgId, issuer, subject) userId (externalIdentityUsers r)\<rparr>"

definition resolveActorByExternalIdentity ::
  "string \<Rightarrow> string \<Rightarrow> string \<Rightarrow> 'a identity_state_scheme \<Rightarrow> actor_context option" where
  "resolveActorByExternalIdentity orgId issuer subject r =
     (case map_get (externalIdentityUsers r) (orgId, issuer, subject) of
        None \<Rightarrow> None
      | Some userId \<Rightarrow> if userId \<noteq> [] then findActor orgId userId r else None)"

definition findDevelopmentActor ::
  "string \<Rightarrow> system_role_key \<Rightarrow> 'a identity_state_scheme \<Rightarrow> actor_context option" where
  "findDevelopmentActor orgId key r =
     (case map_get (developmentActors r) (key2 orgId (role_key_string key)) of
        None \<Rightarrow> None
      | Some userId \<Rightarrow> if userId \<noteq> [] then findActor orgId userId r else None)"

text \<open>The audit log: append-only, one list per organization.\<close>

definition appendAuditEvent ::
  "audit_event \<Rightarrow> 'a identity_state_scheme \<Rightarrow> ('a identity_state_scheme, unit) outcome" where
  "appendAuditEvent ev r =
     (case map_get (audits r) (au_organizationId ev) of
        None \<Rightarrow> (Inl (JsError ''Unknown organization for audit event''), r)
      | Some evs \<Rightarrow> (Inr (), r\<lparr>audits := map_set (au_organizationId ev) (evs @ [ev]) (audits r)\<rparr>))"

definition audit_order :: "host \<Rightarrow> audit_event \<Rightarrow> audit_event \<Rightarrow> int" where
  "audit_order h = cmp_or (cmp_desc (cmp_on au_occurredAt (localeCompare h)))
     (cmp_desc (cmp_on au_id (localeCompare h)))"

definition listAuditEvents :: "host \<Rightarrow> string \<Rightarrow> nat \<Rightarrow> 'a identity_state_scheme \<Rightarrow> audit_event list" where
  "listAuditEvents h orgId limit r =
     take limit (js_sort (audit_order h)
       (case map_get (audits r) orgId of None \<Rightarrow> [] | Some evs \<Rightarrow> evs))"

section \<open>Lemmas\<close>

lemma set_js_set [simp]: "set (js_set xs) = set xs"
  by (simp add: js_set_def)

lemma distinct_js_set [simp]: "distinct (js_set xs)"
  by (simp add: js_set_def)

lemma roles_of_org: "ro \<in> set (roles_of orgId u r) \<Longrightarrow> role_organizationId ro = orgId"
  by (simp add: roles_of_def)

lemma linked_employee_org:
  "linked_employee orgId userId r = Some e \<Longrightarrow>
   emp_organizationId e = orgId \<and> emp_linkedUserId e = Some userId \<and> e \<in> set (map_values (employees r))"
  by (auto simp: linked_employee_def find_Some_iff)

lemma findActor_cases:
  assumes "findActor orgId userId r = Some a"
  obtains org u primary key where
    "map_get (organizations r) orgId = Some org" "map_get (users r) userId = Some u"
    "user_organizationId u = orgId" "user_status u = UserActive"
    "primary \<in> set (roles_of orgId u r)" "role_systemKey primary = Some key"
    "a = \<lparr>actor_user = u, actor_organization = org, actor_roles = roles_of orgId u r,
          actor_permissions = js_set (concat (map role_permissions (roles_of orgId u r))),
          actor_roleKey = key,
          actor_leadScope = lead_scope_of key (linked_employee orgId (user_id u) r)\<rparr>"
  using assms
  by (auto simp: findActor_def Let_def dest: find_SomeD split: option.splits if_splits)

lemma comparator_audit_order: "comparator (audit_order h)"
  unfolding audit_order_def
  by (intro comparator_or comparator_desc comparator_on comparator_lcmp)

interpretation audit_order: comparator "audit_order h" for h
  by (rule comparator_audit_order)

text \<open>
  C27: \<open>findActor\<close> authenticates only an active user of the very organization asked for, and
  the permissions it grants are, without repetition, exactly those of roles the same
  organization defines.
\<close>

theorem findActor_tenant:
  assumes "findActor orgId userId r = Some a"
  shows "user_organizationId (actor_user a) = orgId \<and> user_status (actor_user a) = UserActive
    \<and> map_get (organizations r) orgId = Some (actor_organization a)
    \<and> (\<forall>ro \<in> set (actor_roles a). role_organizationId ro = orgId)
    \<and> distinct (actor_permissions a)
    \<and> set (actor_permissions a) = (\<Union>ro \<in> set (actor_roles a). set (role_permissions ro))"
  using assms by (elim findActor_cases) (auto simp: roles_of_org)

end
