(* ===== verification/Workforce.thy ===== *)
theory Workforce
  imports Identity
begin

text \<open>
  Employees, their devices and the device credentials: the operations of
  \<open>InMemoryCalloraRepository\<close> that list, create and suspend employees, the stored credential
  and consent types, and the checks every mobile request goes through
  (\<open>findCurrentMobileCredential\<close>, \<open>isConsentCurrent\<close>, \<open>contextForCredential\<close> and the
  \<open>resolve\<close> family).
\<close>

section \<open>Types\<close>

datatype mobile_collection_mode = ModeAndroidCallLog | ModeSyntheticDemo
datatype credential_type = CredBootstrap | CredSession
datatype credential_state = LcActive | LcPending | LcConsumed | LcRevoked

record mobile_policy =
  pol_id :: string
  pol_contentHash :: string
  pol_policyVersion :: string
  pol_disclosureVersion :: string
  pol_collectionMode :: mobile_collection_mode
  pol_title :: string
  pol_summary :: string
  pol_disclosures :: "string list"
  pol_effectiveAt :: string

record policy_reference =
  pr_id :: string
  pr_contentHash :: string

record new_device_credential =
  cred_id :: string
  cred_tokenHash :: string
  cred_expiresAt :: string
  cred_credentialType :: credential_type
  cred_rotatedFromCredentialId :: "string option"
  cred_requestId :: string
  cred_lifecycleState :: credential_state

record stored_credential = new_device_credential +
  cred_organizationId :: string
  cred_employeeId :: string
  cred_deviceId :: string
  cred_createdAt :: string
  cred_consumedAt :: "string option"
  cred_revokedAt :: "string option"

record consent_receipt =
  con_organizationId :: string
  con_employeeId :: string
  con_deviceId :: string
  con_policyId :: string
  con_policyContentHash :: string
  con_policyVersion :: string
  con_disclosureVersion :: string
  con_permissions :: device_permissions
  con_acceptedAt :: string
  con_recordedAt :: string
  con_locale :: "string option"
  con_withdrawnAt :: "string option"

record mobile_context =
  ctx_credentialId :: string
  ctx_credentialType :: credential_type
  ctx_organizationId :: string
  ctx_employeeId :: string
  ctx_deviceId :: string
  ctx_installationId :: string
  ctx_collectionMode :: mobile_collection_mode
  ctx_permissions :: device_permissions
  ctx_credentialState :: credential_state
  ctx_consentCurrent :: bool
  ctx_authenticatedReplay :: "bool option"

section \<open>State\<close>

record device_state = identity_state +
  devices :: "(string, employee_device) jsmap"
  devicesByInstallation :: "(string, string) jsmap"
  deviceCredentialsByHash :: "(string, stored_credential) jsmap"
  deviceCredentialHashById :: "(string, string) jsmap"
  activeConsentByDevice :: "(string, consent_receipt) jsmap"
  deviceCollectionModes :: "(string, mobile_collection_mode) jsmap"
  mobilePolicies :: "(mobile_collection_mode, mobile_policy) jsmap"

section \<open>Employees\<close>

record employee_filter =
  ef_search :: "string option"
  ef_status :: "employee_status option"
  ef_team :: "string option"

record employee_cursor =
  ec_displayName :: string
  ec_id :: string

definition employee_matches :: "host \<Rightarrow> string \<Rightarrow> employee_filter \<Rightarrow> employee \<Rightarrow> bool" where
  "employee_matches h orgId f e \<longleftrightarrow>
     emp_organizationId e = orgId
     \<and> (case ef_status f of None \<Rightarrow> True | Some s \<Rightarrow> emp_status e = s)
     \<and> (truthy (ef_team f) \<longrightarrow> emp_team e = ef_team f)
     \<and> (let search = map_option (\<lambda>s. h_lower h (js_trim s)) (ef_search f)
        in truthy search \<longrightarrow>
          str_includes (h_lower h (emp_displayName e @ '' '' @ or_empty (emp_email e) @ '' ''
            @ or_empty (emp_employeeCode e))) (or_empty search))"

definition employee_order :: "host \<Rightarrow> employee \<Rightarrow> employee \<Rightarrow> int" where
  "employee_order h = cmp_or (cmp_on emp_displayName (localeCompare h)) (cmp_on emp_id (localeCompare h))"

definition employee_after :: "host \<Rightarrow> employee_cursor \<Rightarrow> employee \<Rightarrow> bool" where
  "employee_after h c e \<longleftrightarrow>
     localeCompare h (emp_displayName e) (ec_displayName c) > 0
     \<or> (emp_displayName e = ec_displayName c \<and> localeCompare h (emp_id e) (ec_id c) > 0)"

definition listEmployees ::
  "host \<Rightarrow> string \<Rightarrow> employee_filter \<Rightarrow> employee_cursor option \<Rightarrow> nat \<Rightarrow>
   'a identity_state_scheme \<Rightarrow> employee list \<times> bool" where
  "listEmployees h orgId f after limit r =
     page_of limit (after_cursor (employee_after h) after
       (js_sort (employee_order h)
         (filter (employee_matches h orgId f) (map_values (employees r)))))"

definition findEmployee :: "string \<Rightarrow> string \<Rightarrow> 'a identity_state_scheme \<Rightarrow> employee option" where
  "findEmployee orgId employeeId r =
     (case map_get (employees r) employeeId of
        None \<Rightarrow> None
      | Some e \<Rightarrow> if emp_organizationId e = orgId then Some e else None)"

definition createEmployee ::
  "string \<Rightarrow> create_employee_input \<Rightarrow> string \<Rightarrow> string \<Rightarrow> 'a identity_state_scheme \<Rightarrow>
   employee \<times> 'a identity_state_scheme" where
  "createEmployee orgId input actorUserId ts r =
     (let (newId, r1) = next_id ''employee'' r;
          e = \<lparr>createdAt = ts, updatedAt = ts, createdBy = Some actorUserId, updatedBy = Some actorUserId,
            emp_id = newId, emp_organizationId = orgId, emp_linkedUserId = None,
            emp_employeeCode = cei_employeeCode input, emp_displayName = cei_displayName input,
            emp_email = cei_email input, emp_primaryPhone = cei_primaryPhone input,
            emp_jobTitle = cei_jobTitle input, emp_team = cei_team input, emp_status = EmpInvited,
            emp_managerEmployeeId = cei_managerEmployeeId input,
            emp_workingHours = cei_workingHours input, emp_deviceIds = []\<rparr>
      in (e, r1\<lparr>employees := map_set newId e (employees r1)\<rparr>))"

text \<open>
  Suspension pauses the employee, then walks \<open>employee.deviceIds\<close>: each device of the same
  organization is revoked, and every credential of that device not yet revoked gets a
  \<open>revokedAt\<close>. (The code leaves \<open>lifecycleState\<close> alone here.)
\<close>

definition suspend_device ::
  "string \<Rightarrow> string \<Rightarrow> string \<Rightarrow> string \<Rightarrow> 'a device_state_scheme \<Rightarrow> 'a device_state_scheme" where
  "suspend_device orgId actorUserId ts deviceId r =
     (case map_get (devices r) deviceId of
        None \<Rightarrow> r
      | Some d \<Rightarrow>
          if dev_organizationId d \<noteq> orgId then r
          else r\<lparr>devices := map_set deviceId
                   (d\<lparr>dev_status := DevRevoked, dev_revokedAt := Some ts, updatedAt := ts,
                      updatedBy := Some actorUserId\<rparr>) (devices r),
                 deviceCredentialsByHash := map_update_where
                   (\<lambda>c. cred_deviceId c = deviceId \<and> \<not> truthy (cred_revokedAt c))
                   (\<lambda>c. c\<lparr>cred_revokedAt := Some ts\<rparr>) (deviceCredentialsByHash r)\<rparr>)"

definition suspendEmployee ::
  "string \<Rightarrow> string \<Rightarrow> string \<Rightarrow> string \<Rightarrow> 'a device_state_scheme \<Rightarrow>
   employee option \<times> 'a device_state_scheme" where
  "suspendEmployee orgId employeeId actorUserId ts r =
     (case map_get (employees r) employeeId of
        None \<Rightarrow> (None, r)
      | Some e \<Rightarrow>
          if emp_organizationId e \<noteq> orgId then (None, r)
          else
            let e' = e\<lparr>emp_status := EmpPaused, updatedAt := ts, updatedBy := Some actorUserId\<rparr>;
                r1 = r\<lparr>employees := map_set employeeId e' (employees r)\<rparr>
            in (Some e', fold (suspend_device orgId actorUserId ts) (emp_deviceIds e) r1))"

definition findDevice :: "string \<Rightarrow> string \<Rightarrow> 'a device_state_scheme \<Rightarrow> employee_device option" where
  "findDevice orgId deviceId r =
     (case map_get (devices r) deviceId of
        None \<Rightarrow> None
      | Some d \<Rightarrow> if dev_organizationId d = orgId then Some d else None)"

definition countOfflineDevices :: "string \<Rightarrow> string option \<Rightarrow> 'a device_state_scheme \<Rightarrow> nat" where
  "countOfflineDevices orgId employeeId r =
     length (filter (\<lambda>d. dev_organizationId d = orgId
       \<and> (case employeeId of None \<Rightarrow> True | Some e \<Rightarrow> dev_employeeId d = e)
       \<and> dev_status d \<noteq> DevConnected) (map_values (devices r)))"

section \<open>Credential checks\<close>

definition isConsentCurrent :: "string \<Rightarrow> 'a device_state_scheme \<Rightarrow> bool" where
  "isConsentCurrent deviceId r =
     (case map_get (activeConsentByDevice r) deviceId of
        None \<Rightarrow> False
      | Some consent \<Rightarrow>
          (case Option.bind (map_get (deviceCollectionModes r) deviceId) (map_get (mobilePolicies r)) of
             None \<Rightarrow> False
           | Some policy \<Rightarrow> \<not> truthy (con_withdrawnAt consent)
               \<and> con_policyId consent = pol_id policy
               \<and> con_policyContentHash consent = pol_contentHash policy))"

definition contextForCredential ::
  "stored_credential \<Rightarrow> 'a device_state_scheme \<Rightarrow> mobile_context option" where
  "contextForCredential c r =
     (case (map_get (devices r) (cred_deviceId c), map_get (deviceCollectionModes r) (cred_deviceId c)) of
        (Some d, Some mode) \<Rightarrow> Some
          \<lparr>ctx_credentialId = cred_id c, ctx_credentialType = cred_credentialType c,
           ctx_organizationId = cred_organizationId c, ctx_employeeId = cred_employeeId c,
           ctx_deviceId = cred_deviceId c, ctx_installationId = dev_installationId d,
           ctx_collectionMode = mode, ctx_permissions = dev_permissions d,
           ctx_credentialState = cred_lifecycleState c,
           ctx_consentCurrent = isConsentCurrent (dev_id d) r,
           ctx_authenticatedReplay = None\<rparr>
      | _ \<Rightarrow> None)"

text \<open>
  \<open>findCurrentMobileCredential\<close> returns references to the stored credential, device and
  employee, and the consent if there is one. Here the credential comes with the key it is
  stored under (its token hash), through which the callers write it back.
\<close>

record current_credential =
  cur_key :: string
  cur_credential :: stored_credential
  cur_device :: employee_device
  cur_employee :: employee
  cur_consent :: "consent_receipt option"

definition find_credential_for ::
  "mobile_context \<Rightarrow> credential_type \<Rightarrow> 'a device_state_scheme \<Rightarrow> (string \<times> stored_credential) option" where
  "find_credential_for ctx ty r =
     find (\<lambda>(k, c). cred_id c = ctx_credentialId ctx \<and> cred_credentialType c = ty
        \<and> cred_organizationId c = ctx_organizationId ctx
        \<and> cred_employeeId c = ctx_employeeId ctx \<and> cred_deviceId c = ctx_deviceId ctx)
       (deviceCredentialsByHash r)"

definition credential_usable :: "host \<Rightarrow> string \<Rightarrow> stored_credential \<Rightarrow> bool" where
  "credential_usable h ts c \<longleftrightarrow>
     cred_lifecycleState c = LcActive \<and> \<not> truthy (cred_revokedAt c)
     \<and> \<not> truthy (cred_consumedAt c) \<and> \<not> date_le h (cred_expiresAt c) ts"

definition device_admits ::
  "credential_type \<Rightarrow> employee_device \<Rightarrow> employee \<Rightarrow> consent_receipt option \<Rightarrow> bool" where
  "device_admits ty d e consent =
     (case ty of
        CredBootstrap \<Rightarrow> dev_status d = DevPending \<and> emp_status e \<in> {EmpInvited, EmpActive} \<and> consent = None
      | CredSession \<Rightarrow> dev_status d = DevConnected \<and> emp_status e = EmpActive
          \<and> (case consent of None \<Rightarrow> False | Some c \<Rightarrow> \<not> truthy (con_withdrawnAt c)))"

definition findCurrentMobileCredential ::
  "host \<Rightarrow> mobile_context \<Rightarrow> credential_type \<Rightarrow> string \<Rightarrow> 'a device_state_scheme \<Rightarrow>
   current_credential option" where
  "findCurrentMobileCredential h ctx ty ts r =
     (if ctx_credentialType ctx \<noteq> ty then None
      else case find_credential_for ctx ty r of
        None \<Rightarrow> None
      | Some (k, c) \<Rightarrow>
          if \<not> credential_usable h ts c then None
          else (case (map_get (organizations r) (ctx_organizationId ctx),
                      map_get (employees r) (ctx_employeeId ctx),
                      map_get (devices r) (ctx_deviceId ctx)) of
              (Some org, Some e, Some d) \<Rightarrow>
                if org_status org \<in> {OrgTrial, OrgActive}
                  \<and> emp_organizationId e = ctx_organizationId ctx
                  \<and> dev_organizationId d = ctx_organizationId ctx
                  \<and> dev_employeeId d = ctx_employeeId ctx
                  \<and> dev_installationId d = ctx_installationId ctx
                  \<and> map_get (deviceCollectionModes r) (dev_id d) = Some (ctx_collectionMode ctx)
                then
                  let consent = map_get (activeConsentByDevice r) (dev_id d)
                  in if device_admits ty d e consent
                     then Some \<lparr>cur_key = k, cur_credential = c, cur_device = d, cur_employee = e,
                       cur_consent = consent\<rparr>
                     else None
                else None
            | _ \<Rightarrow> None))"

definition resolveDeviceCredential ::
  "host \<Rightarrow> string \<Rightarrow> credential_type \<Rightarrow> string \<Rightarrow> 'a device_state_scheme \<Rightarrow> mobile_context option" where
  "resolveDeviceCredential h tokenHash ty ts r =
     (case map_get (deviceCredentialsByHash r) tokenHash of
        None \<Rightarrow> None
      | Some c \<Rightarrow>
          if cred_credentialType c \<noteq> ty then None
          else (case contextForCredential c r of
              None \<Rightarrow> None
            | Some ctx \<Rightarrow>
                if findCurrentMobileCredential h ctx ty ts r \<noteq> None then Some ctx else None))"

definition findCurrentMobilePolicy ::
  "host \<Rightarrow> mobile_context \<Rightarrow> string \<Rightarrow> 'a device_state_scheme \<Rightarrow> mobile_policy option" where
  "findCurrentMobilePolicy h ctx ts r =
     (if (case h_parse h ts of Some t \<Rightarrow> t < 0 | None \<Rightarrow> False) then None
      else case map_get (mobilePolicies r) (ctx_collectionMode ctx) of
        None \<Rightarrow> None
      | Some policy \<Rightarrow> if date_le h (pol_effectiveAt policy) ts then Some policy else None)"

definition setMobilePolicyForTesting ::
  "mobile_policy \<Rightarrow> 'a device_state_scheme \<Rightarrow> 'a device_state_scheme" where
  "setMobilePolicyForTesting policy r =
     r\<lparr>mobilePolicies := map_set (pol_collectionMode policy) policy (mobilePolicies r)\<rparr>"

section \<open>Lemmas\<close>

lemma resolveDeviceCredentialE:
  assumes "resolveDeviceCredential h tok ty ts r = Some ctx"
  obtains c k where "map_get (deviceCredentialsByHash r) tok = Some c" "cred_credentialType c = ty"
    "contextForCredential c r = Some ctx" "findCurrentMobileCredential h ctx ty ts r = Some k"
  using assms by (auto simp: resolveDeviceCredential_def split: option.splits if_splits)

lemma contextForCredentialD:
  "contextForCredential c r = Some ctx \<Longrightarrow>
   ctx_credentialId ctx = cred_id c \<and> ctx_credentialType ctx = cred_credentialType c
   \<and> ctx_organizationId ctx = cred_organizationId c \<and> ctx_employeeId ctx = cred_employeeId c
   \<and> ctx_deviceId ctx = cred_deviceId c"
  by (auto simp: contextForCredential_def split: option.splits)

lemma find_credential_forD:
  "find_credential_for ctx ty r = Some (k, c) \<Longrightarrow>
   (k, c) \<in> set (deviceCredentialsByHash r) \<and> cred_id c = ctx_credentialId ctx
   \<and> cred_credentialType c = ty \<and> cred_organizationId c = ctx_organizationId ctx
   \<and> cred_employeeId c = ctx_employeeId ctx \<and> cred_deviceId c = ctx_deviceId ctx"
  by (auto simp: find_credential_for_def dest!: find_SomeD)

lemma findCurrentE:
  assumes "findCurrentMobileCredential h ctx ty ts r = Some k"
  obtains org where "ctx_credentialType ctx = ty"
    "find_credential_for ctx ty r = Some (cur_key k, cur_credential k)"
    "credential_usable h ts (cur_credential k)"
    "map_get (organizations r) (ctx_organizationId ctx) = Some org" "org_status org \<in> {OrgTrial, OrgActive}"
    "map_get (employees r) (ctx_employeeId ctx) = Some (cur_employee k)"
    "map_get (devices r) (ctx_deviceId ctx) = Some (cur_device k)"
    "emp_organizationId (cur_employee k) = ctx_organizationId ctx"
    "dev_organizationId (cur_device k) = ctx_organizationId ctx"
    "dev_employeeId (cur_device k) = ctx_employeeId ctx"
    "cur_consent k = map_get (activeConsentByDevice r) (dev_id (cur_device k))"
    "device_admits ty (cur_device k) (cur_employee k) (cur_consent k)"
  using assms
  by (auto simp: findCurrentMobileCredential_def Let_def split: option.splits if_splits)

lemma suspend_device_frame [frame_simps]:
  "employees (suspend_device o' a ts d r) = employees r"
  "organizations (suspend_device o' a ts d r) = organizations r"
  "users (suspend_device o' a ts d r) = users r"
  "activeConsentByDevice (suspend_device o' a ts d r) = activeConsentByDevice r"
  "deviceCollectionModes (suspend_device o' a ts d r) = deviceCollectionModes r"
  by (simp_all add: suspend_device_def split: option.splits)

lemma fold_suspend_frame [frame_simps]:
  "employees (fold (suspend_device o' a ts) ds r) = employees r"
  "organizations (fold (suspend_device o' a ts) ds r) = organizations r"
  by (induction ds arbitrary: r) (simp_all add: frame_simps)

lemma suspend_device_other_org:
  "map_get (devices r) k = Some d \<Longrightarrow> dev_organizationId d \<noteq> o' \<Longrightarrow>
   map_get (devices (suspend_device o' a ts i r)) k = Some d"
  by (auto simp: suspend_device_def store_simps split: option.splits)

lemma suspend_device_keeps_revoked:
  "map_get (devices r) k = Some d \<Longrightarrow> \<exists>d'. map_get (devices (suspend_device o' a ts i r)) k = Some d'
     \<and> dev_organizationId d' = dev_organizationId d \<and> (dev_status d = DevRevoked \<longrightarrow> dev_status d' = DevRevoked)"
  by (auto simp: suspend_device_def store_simps split: option.splits)

lemma fold_suspend_keeps_revoked:
  "map_get (devices r) k = Some d \<Longrightarrow>
   \<exists>d'. map_get (devices (fold (suspend_device o' a ts) ds r)) k = Some d'
     \<and> dev_organizationId d' = dev_organizationId d \<and> (dev_status d = DevRevoked \<longrightarrow> dev_status d' = DevRevoked)"
proof (induction ds arbitrary: r d)
  case (Cons x xs)
  from suspend_device_keeps_revoked[OF Cons.prems, of o' a ts x] obtain d1 where
    "map_get (devices (suspend_device o' a ts x r)) k = Some d1"
    "dev_organizationId d1 = dev_organizationId d" "dev_status d = DevRevoked \<longrightarrow> dev_status d1 = DevRevoked"
    by blast
  with Cons.IH[of "suspend_device o' a ts x r" d1] show ?case by auto
qed simp

lemma fold_suspend_revokes:
  "map_get (devices r) k = Some d \<Longrightarrow> dev_organizationId d = o' \<Longrightarrow> k \<in> set ds \<Longrightarrow>
   \<exists>d'. map_get (devices (fold (suspend_device o' a ts) ds r)) k = Some d' \<and> dev_status d' = DevRevoked"
proof (induction ds arbitrary: r d)
  case (Cons x xs)
  show ?case
  proof (cases "k = x")
    case True
    then have "map_get (devices (suspend_device o' a ts x r)) k =
      Some (d\<lparr>dev_status := DevRevoked, dev_revokedAt := Some ts, updatedAt := ts, updatedBy := Some a\<rparr>)"
      using Cons.prems by (simp add: suspend_device_def store_simps)
    from fold_suspend_keeps_revoked[OF this, of o' a ts xs] True show ?thesis by auto
  next
    case False
    from suspend_device_keeps_revoked[OF Cons.prems(1), of o' a ts x] obtain d1 where
      "map_get (devices (suspend_device o' a ts x r)) k = Some d1" "dev_organizationId d1 = dev_organizationId d"
      by blast
    with Cons False show ?thesis by simp
  qed
qed simp

lemma suspendEmployee_SomeD:
  assumes "suspendEmployee orgId employeeId actor ts r = (Some e', r')"
  obtains e where "map_get (employees r) employeeId = Some e" "emp_organizationId e = orgId"
    "e' = e\<lparr>emp_status := EmpPaused, updatedAt := ts, updatedBy := Some actor\<rparr>"
    "r' = fold (suspend_device orgId actor ts) (emp_deviceIds e)
        (r\<lparr>employees := map_set employeeId e' (employees r)\<rparr>)"
  using assms by (auto simp: suspendEmployee_def Let_def split: option.splits if_splits)

section \<open>Listing employees page by page\<close>

definition employee_cursor_of :: "employee \<Rightarrow> employee_cursor" where
  "employee_cursor_of e = \<lparr>ec_displayName = emp_displayName e, ec_id = emp_id e\<rparr>"

lemma comparator_employee_order: "comparator (employee_order h)"
  unfolding employee_order_def by (intro comparator_or comparator_on comparator_lcmp)

lemma employee_after_cursor:
  assumes "localeCompare h (emp_displayName x) (emp_displayName y) = 0 \<Longrightarrow>
    emp_displayName x = emp_displayName y"
  shows "employee_after h (employee_cursor_of x) y \<longleftrightarrow> employee_order h x y < 0"
proof -
  let ?c = "localeCompare h"
  have flip: "?c a b < 0 \<longleftrightarrow> 0 < ?c b a" for a b
    by (rule comparator.less_flip[OF comparator_lcmp])
  have "?c a a = 0" for a by (rule comparator.refl[OF comparator_lcmp])
  then show ?thesis using assms flip
    by (auto simp: employee_after_def employee_cursor_of_def employee_order_def cmp_or_def cmp_on_def)
qed

interpretation employee_pages: cursor_listing "employee_order h" "employee_after h" employee_cursor_of
  "\<lambda>x y. localeCompare h (emp_displayName x) (emp_displayName y) = 0 \<longrightarrow> emp_displayName x = emp_displayName y"
  for h
  by (intro cursor_listing.intro comparator_employee_order cursor_listing_axioms.intro
      employee_after_cursor) blast

lemma keyed_employees_sep:
  assumes k: "keyed emp_id m" and x: "x \<in> set (map_values m)" and y: "y \<in> set (map_values m)"
    and "emp_id x = emp_id y"
  shows "x = y"
  using assms by (rule keyed_inj)

text \<open>
  Following the cursors of the employee listing, whatever the page size, yields every
  employee that matches the filter exactly once and in the listing's order, provided the host's
  collation tells the listed names and the listed identifiers apart.
\<close>

theorem listEmployees_pages_complete:
  assumes store: "keyed emp_id (employees r)" and limit: "0 < limit"
    and names: "separates h (emp_displayName ` set (map_values (employees r)))"
    and idents: "separates h (emp_id ` set (map_values (employees r)))"
    and fuel: "length (employees r) < fuel"
  shows "let ws = walk (\<lambda>c. listEmployees h orgId f c limit r) employee_cursor_of fuel None
    in mset ws = mset (filter (employee_matches h orgId f) (map_values (employees r)))
       \<and> sorted_wrt (\<lambda>x y. employee_order h x y < 0) ws"
proof -
  let ?vs = "map_values (employees r)" and ?P = "employee_matches h orgId f"
  have d: "distinct (filter ?P ?vs)" using store by (simp add: keyed_distinct)
  have sep: "\<forall>x \<in> set (filter ?P ?vs). \<forall>y \<in> set (filter ?P ?vs). employee_order h x y = 0 \<longrightarrow> x = y"
    using idents keyed_employees_sep[OF store]
    by (auto simp: employee_order_def cmp_or_def cmp_on_def separates_def split: if_splits)
  have ag: "\<forall>x \<in> set (filter ?P ?vs). \<forall>y \<in> set (filter ?P ?vs).
      localeCompare h (emp_displayName x) (emp_displayName y) = 0 \<longrightarrow> emp_displayName x = emp_displayName y"
    using names by (auto simp: separates_def)
  have "length (filter ?P ?vs) < fuel"
    using fuel length_filter_le[of ?P ?vs] by simp
  then have "walk (\<lambda>c. listEmployees h orgId f c limit r) employee_cursor_of fuel None
      = js_sort (employee_order h) (filter ?P ?vs)"
    by (intro employee_pages.walk_complete[OF d sep ag limit]) (simp_all add: listEmployees_def)
  then show ?thesis using employee_pages.strict_sort[OF d sep] by (simp add: Let_def)
qed

section \<open>Safety of credential resolution\<close>

text \<open>
  C13: A device token is accepted only for a stored credential of the claimed type that is
  active, not revoked, not consumed and not past its expiry, of an organization in good
  standing, for a device of that organization assigned to the credential's employee, whose
  status (and, for a session, unwithdrawn consent) permits it.
\<close>

theorem resolveDeviceCredential_sound:
  assumes "resolveDeviceCredential h tok ty ts r = Some ctx"
  shows "\<exists>c org e d.
      (\<exists>k. (k, c) \<in> set (deviceCredentialsByHash r)) \<and> cred_id c = ctx_credentialId ctx \<and> cred_credentialType c = ty
    \<and> cred_lifecycleState c = LcActive \<and> \<not> truthy (cred_revokedAt c) \<and> \<not> truthy (cred_consumedAt c)
    \<and> \<not> date_le h (cred_expiresAt c) ts
    \<and> map_get (organizations r) (ctx_organizationId ctx) = Some org \<and> org_status org \<in> {OrgTrial, OrgActive}
    \<and> map_get (employees r) (ctx_employeeId ctx) = Some e \<and> emp_organizationId e = ctx_organizationId ctx
    \<and> emp_status e \<in> {EmpInvited, EmpActive}
    \<and> map_get (devices r) (ctx_deviceId ctx) = Some d \<and> dev_organizationId d = ctx_organizationId ctx
    \<and> dev_employeeId d = ctx_employeeId ctx
    \<and> (ty = CredSession \<longrightarrow> dev_status d = DevConnected \<and> emp_status e = EmpActive
         \<and> (\<exists>con. map_get (activeConsentByDevice r) (dev_id d) = Some con \<and> \<not> truthy (con_withdrawnAt con)))
    \<and> (ty = CredBootstrap \<longrightarrow> dev_status d = DevPending \<and> map_get (activeConsentByDevice r) (dev_id d) = None)"
proof -
  from assms obtain k where "findCurrentMobileCredential h ctx ty ts r = Some k"
    by (rule resolveDeviceCredentialE)
  then show ?thesis
  proof (rule findCurrentE)
    fix org
    assume a: "find_credential_for ctx ty r = Some (cur_key k, cur_credential k)"
      "credential_usable h ts (cur_credential k)"
      "map_get (organizations r) (ctx_organizationId ctx) = Some org" "org_status org \<in> {OrgTrial, OrgActive}"
      "map_get (employees r) (ctx_employeeId ctx) = Some (cur_employee k)"
      "map_get (devices r) (ctx_deviceId ctx) = Some (cur_device k)"
      "emp_organizationId (cur_employee k) = ctx_organizationId ctx"
      "dev_organizationId (cur_device k) = ctx_organizationId ctx"
      "dev_employeeId (cur_device k) = ctx_employeeId ctx"
      "cur_consent k = map_get (activeConsentByDevice r) (dev_id (cur_device k))"
      "device_admits ty (cur_device k) (cur_employee k) (cur_consent k)"
    have f: "(cur_key k, cur_credential k) \<in> set (deviceCredentialsByHash r)"
      "cred_id (cur_credential k) = ctx_credentialId ctx" "cred_credentialType (cur_credential k) = ty"
      using find_credential_forD[OF a(1)] by simp_all
    show ?thesis
      by (rule exI[of _ "cur_credential k"], rule exI[of _ org], rule exI[of _ "cur_employee k"],
          rule exI[of _ "cur_device k"], cases ty)
        (use a f in \<open>auto simp: credential_usable_def device_admits_def split: option.splits\<close>)
  qed
qed

text \<open>
  C16: Suspending an employee locks every one of the employee's devices out at once: in the
  state it leaves, no token of either type resolves to a context of that employee, at any time,
  and every device on the employee's list that belongs to the organization is revoked.
\<close>

theorem suspendEmployee_locks_out:
  assumes "suspendEmployee orgId employeeId actor ts r = (Some e', r')"
  shows "(\<forall>tok ty t ctx. resolveDeviceCredential h tok ty t r' = Some ctx \<longrightarrow> ctx_employeeId ctx \<noteq> employeeId)
    \<and> (\<forall>k \<in> set (emp_deviceIds e'). \<forall>d. map_get (devices r) k = Some d \<longrightarrow> dev_organizationId d = orgId \<longrightarrow>
         (\<exists>d'. map_get (devices r') k = Some d' \<and> dev_status d' = DevRevoked))"
proof -
  from assms obtain e where e: "map_get (employees r) employeeId = Some e"
    "e' = e\<lparr>emp_status := EmpPaused, updatedAt := ts, updatedBy := Some actor\<rparr>"
    "r' = fold (suspend_device orgId actor ts) (emp_deviceIds e)
        (r\<lparr>employees := map_set employeeId e' (employees r)\<rparr>)"
    by (rule suspendEmployee_SomeD)
  have paused: "map_get (employees r') employeeId = Some e'"
    by (simp add: e(3) frame_simps store_simps)
  have st: "emp_status e' = EmpPaused" by (simp add: e(2))
  have "ctx_employeeId ctx \<noteq> employeeId" if "resolveDeviceCredential h tok ty t r' = Some ctx" for tok ty t ctx
  proof -
    from that obtain k where "findCurrentMobileCredential h ctx ty t r' = Some k"
      by (rule resolveDeviceCredentialE)
    then show ?thesis
      by (rule findCurrentE) (use paused st in \<open>auto simp: device_admits_def split: credential_type.splits\<close>)
  qed
  moreover have "\<exists>d'. map_get (devices r') k = Some d' \<and> dev_status d' = DevRevoked"
    if "k \<in> set (emp_deviceIds e')" "map_get (devices r) k = Some d" "dev_organizationId d = orgId" for k d
    unfolding e(3) by (rule fold_suspend_revokes[of _ k d]) (use that e(2) in simp_all)
  ultimately show ?thesis by blast
qed

end
