(* ===== verification/Pairing.thy ===== *)
theory Pairing
  imports Workforce
begin

text \<open>
  The mobile trust protocol of \<open>repository.ts\<close>: pairing codes and their redemption, device
  activation, re-consent, two-step session rotation, heartbeats, and the two ways a device is
  revoked (by its own session, by an administrator).
\<close>

section \<open>Types\<close>

record pairing_code =
  pc_id :: string
  pc_codeHash :: string
  pc_codeLastFour :: string
  pc_organizationId :: string
  pc_employeeId :: string
  pc_createdAt :: string
  pc_expiresAt :: string
  pc_createdByUserId :: string
  pc_collectionMode :: mobile_collection_mode
  pc_consumedAt :: "string option"
  pc_revokedAt :: "string option"

record device_registration =
  reg_installationId :: string
  reg_platform :: mobile_platform
  reg_manufacturer :: "string option"
  reg_model :: "string option"
  reg_osVersion :: string
  reg_appVersion :: string
  reg_collectionMode :: mobile_collection_mode
  reg_permissions :: device_permissions

datatype redemption_outcome = Redeemed | RedNotFound | RedExpired | RedRevoked | RedConsumed
  | RedInstallationConflict

record redemption_result =
  red_outcome :: redemption_outcome
  red_record :: "pairing_code option"
  red_device :: "employee_device option"
  red_bootstrapExpiresAt :: "string option"
  red_replayed :: "bool option"

record consent_input =
  ci_acceptedAt :: string
  ci_locale :: "string option"

record activation_input =
  ai_requestId :: string
  ai_proposedSessionCredential :: string
  ai_policy :: policy_reference
  ai_consent :: consent_input
  ai_permissions :: device_permissions

record reconsent_input =
  ri_requestId :: string
  ri_policy :: policy_reference
  ri_consent :: consent_input
  ri_permissions :: device_permissions

record activate_result =
  ar_device :: employee_device
  ar_sessionExpiresAt :: string
  ar_policy :: policy_reference
  ar_replayed :: bool

record reconsent_result =
  rr_device :: employee_device
  rr_policy :: policy_reference
  rr_consentedAt :: string
  rr_replayed :: bool

record prepare_result =
  ppr_requestId :: string
  ppr_pendingExpiresAt :: string
  ppr_preparedAt :: string
  ppr_replayed :: bool

record confirm_result =
  cr_requestId :: string
  cr_expiresAt :: string
  cr_activatedAt :: string
  cr_replayed :: bool

record revoke_result =
  vr_deviceId :: string
  vr_revokedAt :: string
  vr_consentWithdrawnAt :: string
  vr_replayed :: bool

record admin_revoke_result =
  av_deviceId :: string
  av_employeeId :: string
  av_revokedAt :: string
  av_reason :: string
  av_revokedCredentialCount :: nat
  av_consentWithdrawn :: bool
  av_replayed :: bool

record heartbeat =
  hb_observedAt :: string
  hb_appVersion :: string
  hb_osVersion :: string
  hb_batteryPercent :: "int option"
  hb_isCharging :: "bool option"
  hb_networkType :: "network_type option"
  hb_pendingCallCount :: int
  hb_pendingRecordingCount :: int
  hb_syncState :: device_sync_state
  hb_permissions :: device_permissions

datatype mobile_directive = ConsentRequiredDirective string string string

record heartbeat_result =
  hr_serverTime :: string
  hr_nextHeartbeatAfterSeconds :: nat
  hr_directives :: "mobile_directive list"

datatype credential_operation = OpActivate | OpReconsent | OpRotationPrepare | OpRotationConfirm | OpRevoke

datatype credential_response = RespActivate activate_result | RespReconsent reconsent_result
  | RespPrepare prepare_result | RespConfirm confirm_result | RespRevoke revoke_result

record credential_request =
  cq_requestId :: string
  cq_organizationId :: string
  cq_employeeId :: string
  cq_deviceId :: string
  cq_credentialId :: string
  cq_operation :: credential_operation
  cq_requestFingerprint :: string
  cq_proposedTokenHash :: "string option"
  cq_response :: credential_response
  cq_completedAt :: string

record stored_redemption =
  sr_requestId :: string
  sr_codeHash :: string
  sr_requestFingerprint :: string
  sr_result :: redemption_result

record stored_admin_revocation =
  sar_organizationId :: string
  sar_deviceId :: string
  sar_actorUserId :: string
  sar_requestFingerprint :: string
  sar_result :: admin_revoke_result

record outbox_event =
  ob_id :: string
  ob_organizationId :: string
  ob_requestId :: string
  ob_deviceId :: string

section \<open>State\<close>

record pairing_state = device_state +
  pairingCodesById :: "(string, pairing_code) jsmap"
  pairingCodeIdByHash :: "(string, string) jsmap"
  credentialRequests :: "(string, credential_request) jsmap"
  pairingRedemptions :: "(string, stored_redemption) jsmap"
  adminDeviceRevocations :: "(string, stored_admin_revocation) jsmap"
  adminRecoveryOutboxEvents :: "(string, outbox_event) jsmap"

primrec operation_string :: "credential_operation \<Rightarrow> string" where
  "operation_string OpActivate = ''activate''"
| "operation_string OpReconsent = ''reconsent''"
| "operation_string OpRotationPrepare = ''rotation_prepare''"
| "operation_string OpRotationConfirm = ''rotation_confirm''"
| "operation_string OpRevoke = ''revoke''"

definition credentialRequestKey :: "string \<Rightarrow> credential_operation \<Rightarrow> string \<Rightarrow> string" where
  "credentialRequestKey deviceId op requestId = key3 deviceId (operation_string op) requestId"

section \<open>Pairing codes\<close>

definition createPairingCode :: "pairing_code \<Rightarrow> 'a pairing_state_scheme \<Rightarrow> 'a pairing_state_scheme" where
  "createPairingCode rec r =
     r\<lparr>pairingCodesById := map_set (pc_id rec) rec (pairingCodesById r),
       pairingCodeIdByHash := map_set (pc_codeHash rec) (pc_id rec) (pairingCodeIdByHash r)\<rparr>"

definition revokePairingCode ::
  "string \<Rightarrow> string \<Rightarrow> string \<Rightarrow> 'a pairing_state_scheme \<Rightarrow> pairing_code option \<times> 'a pairing_state_scheme" where
  "revokePairingCode orgId codeId ts r =
     (case map_get (pairingCodesById r) codeId of
        None \<Rightarrow> (None, r)
      | Some rec \<Rightarrow>
          if pc_organizationId rec \<noteq> orgId then (None, r)
          else if \<not> truthy (pc_consumedAt rec) \<and> \<not> truthy (pc_revokedAt rec)
          then (let rec' = rec\<lparr>pc_revokedAt := Some ts\<rparr>
                in (Some rec', r\<lparr>pairingCodesById := map_set codeId rec' (pairingCodesById r)\<rparr>))
          else (Some rec, r))"

record redeem_options =
  ro_codeHash :: string
  ro_registration :: device_registration
  ro_bootstrapCredential :: new_device_credential
  ro_requestId :: string
  ro_requestFingerprint :: string
  ro_at :: string

text \<open>A redemption that only reports an outcome (and the record, where the code includes it).\<close>

definition redemption_only :: "redemption_outcome \<Rightarrow> pairing_code option \<Rightarrow> redemption_result" where
  "redemption_only out rec = \<lparr>red_outcome = out, red_record = rec, red_device = None,
     red_bootstrapExpiresAt = None, red_replayed = None\<rparr>"

definition fresh_device :: "redeem_options \<Rightarrow> pairing_code \<Rightarrow> string \<Rightarrow> employee_device" where
  "fresh_device opts rec newId =
     (let reg = ro_registration opts in
      \<lparr>createdAt = ro_at opts, updatedAt = ro_at opts, createdBy = None, updatedBy = None,
       dev_id = newId, dev_organizationId = pc_organizationId rec, dev_employeeId = pc_employeeId rec,
       dev_installationId = reg_installationId reg, dev_platform = reg_platform reg,
       dev_manufacturer = reg_manufacturer reg, dev_model = reg_model reg,
       dev_osVersion = reg_osVersion reg, dev_appVersion = reg_appVersion reg,
       dev_status = DevPending, dev_syncState = NeverSynced, dev_permissions = reg_permissions reg,
       dev_simCards = [], dev_registeredAt = ro_at opts, dev_lastSeenAt = Some (ro_at opts),
       dev_lastHeartbeatAt = None, dev_lastSuccessfulSyncAt = None, dev_batteryPercent = None,
       dev_isCharging = None, dev_networkType = None, dev_pendingCallCount = Some 0,
       dev_pendingRecordingCount = Some 0, dev_revokedAt = None\<rparr>)"

definition repaired_device :: "redeem_options \<Rightarrow> employee_device \<Rightarrow> employee_device" where
  "repaired_device opts d =
     (let reg = ro_registration opts in
      d\<lparr>dev_platform := reg_platform reg, dev_osVersion := reg_osVersion reg,
        dev_appVersion := reg_appVersion reg, dev_status := DevPending, dev_syncState := NeverSynced,
        dev_permissions := reg_permissions reg, dev_lastSeenAt := Some (ro_at opts),
        updatedAt := ro_at opts, dev_manufacturer := reg_manufacturer reg, dev_model := reg_model reg,
        dev_revokedAt := None, dev_lastSuccessfulSyncAt := None, dev_lastHeartbeatAt := None,
        dev_batteryPercent := None, dev_isCharging := None, dev_networkType := None,
        dev_pendingCallCount := Some 0, dev_pendingRecordingCount := Some 0\<rparr>)"

definition store_credential ::
  "new_device_credential \<Rightarrow> string \<Rightarrow> string \<Rightarrow> string \<Rightarrow> string \<Rightarrow>
   'a pairing_state_scheme \<Rightarrow> 'a pairing_state_scheme" where
  "store_credential c orgId employeeId deviceId ts r =
     (let stored = \<lparr>cred_id = cred_id c, cred_tokenHash = cred_tokenHash c,
          cred_expiresAt = cred_expiresAt c, cred_credentialType = cred_credentialType c,
          cred_rotatedFromCredentialId = cred_rotatedFromCredentialId c,
          cred_requestId = cred_requestId c, cred_lifecycleState = cred_lifecycleState c,
          cred_organizationId = orgId, cred_employeeId = employeeId, cred_deviceId = deviceId,
          cred_createdAt = ts, cred_consumedAt = None, cred_revokedAt = None\<rparr>
      in r\<lparr>deviceCredentialsByHash := map_set (cred_tokenHash c) stored (deviceCredentialsByHash r),
           deviceCredentialHashById := map_set (cred_id c) (cred_tokenHash c) (deviceCredentialHashById r)\<rparr>)"

text \<open>Revoking what a device still holds, as re-pairing and self-revocation do.\<close>

definition revoke_live_credentials ::
  "string \<Rightarrow> string \<Rightarrow> 'a device_state_scheme \<Rightarrow> 'a device_state_scheme" where
  "revoke_live_credentials deviceId ts r =
     r\<lparr>deviceCredentialsByHash := map_update_where
         (\<lambda>c. cred_deviceId c = deviceId \<and> \<not> truthy (cred_revokedAt c))
         (\<lambda>c. c\<lparr>cred_revokedAt := Some ts, cred_lifecycleState := LcRevoked\<rparr>)
         (deviceCredentialsByHash r)\<rparr>"

text \<open>
  The part of a redemption that runs once every check has passed. For a device that was paired
  before, its record is reset, its live credentials are revoked and its consent is dropped.
  (The withdrawal stamped on the consent object just before the map entry is deleted is not
  observable and is not represented.)
\<close>

definition redeem_device ::
  "redeem_options \<Rightarrow> pairing_code \<Rightarrow> employee_device option \<Rightarrow> 'a pairing_state_scheme \<Rightarrow>
   employee_device \<times> 'a pairing_state_scheme" where
  "redeem_device opts rec existing r =
     (case existing of
        None \<Rightarrow> (let (newId, r1) = next_id ''device'' r in (fresh_device opts rec newId, r1))
      | Some d \<Rightarrow>
          (let r1 = revoke_live_credentials (dev_id d) (ro_at opts) r
           in (repaired_device opts d,
               r1\<lparr>activeConsentByDevice := map_delete (dev_id d) (activeConsentByDevice r1)\<rparr>)))"

definition redeem_commit ::
  "redeem_options \<Rightarrow> pairing_code \<Rightarrow> employee \<Rightarrow> employee_device option \<Rightarrow> 'a pairing_state_scheme \<Rightarrow>
   redemption_result \<times> 'a pairing_state_scheme" where
  "redeem_commit opts rec e existing r =
     (let (d, r1) = redeem_device opts rec existing r;
          installationKey = key2 (pc_organizationId rec) (reg_installationId (ro_registration opts));
          rec' = rec\<lparr>pc_consumedAt := Some (ro_at opts)\<rparr>;
          e' = e\<lparr>emp_deviceIds := (if dev_id d \<in> set (emp_deviceIds e) then emp_deviceIds e
                   else emp_deviceIds e @ [dev_id d]), updatedAt := ro_at opts\<rparr>;
          r2 = r1\<lparr>pairingCodesById := map_set (pc_id rec) rec' (pairingCodesById r1),
                 devices := map_set (dev_id d) d (devices r1),
                 deviceCollectionModes := map_set (dev_id d) (pc_collectionMode rec) (deviceCollectionModes r1),
                 devicesByInstallation := map_set installationKey (dev_id d) (devicesByInstallation r1),
                 employees := map_set (pc_employeeId rec) e' (employees r1)\<rparr>;
          r3 = store_credential (ro_bootstrapCredential opts) (pc_organizationId rec) (pc_employeeId rec)
                 (dev_id d) (ro_at opts) r2;
          result = \<lparr>red_outcome = Redeemed, red_record = Some rec', red_device = Some d,
            red_bootstrapExpiresAt = Some (cred_expiresAt (ro_bootstrapCredential opts)),
            red_replayed = Some False\<rparr>
      in (result, r3\<lparr>pairingRedemptions := map_set (ro_requestId opts)
            \<lparr>sr_requestId = ro_requestId opts, sr_codeHash = ro_codeHash opts,
             sr_requestFingerprint = ro_requestFingerprint opts, sr_result = result\<rparr>
            (pairingRedemptions r3)\<rparr>))"

definition redemption_matches :: "redeem_options \<Rightarrow> stored_redemption \<Rightarrow> bool" where
  "redemption_matches opts p \<longleftrightarrow>
     sr_codeHash p = ro_codeHash opts \<and> sr_requestFingerprint p = ro_requestFingerprint opts
     \<and> map_option dev_installationId (red_device (sr_result p))
         = Some (reg_installationId (ro_registration opts))"

definition redeemPairingCode ::
  "host \<Rightarrow> redeem_options \<Rightarrow> 'a pairing_state_scheme \<Rightarrow>
   ('a pairing_state_scheme, redemption_result option) outcome" where
  "redeemPairingCode h opts r =
     (case map_get (pairingRedemptions r) (ro_requestId opts) of
        Some p \<Rightarrow>
          if redemption_matches opts p
          then (Inr (Some ((sr_result p)\<lparr>red_replayed := Some True\<rparr>)), r)
          else (Inl (conflict ''The request ID was already used with a different pairing payload''), r)
      | None \<Rightarrow>
          (case Option.bind (map_get (pairingCodeIdByHash r) (ro_codeHash opts))
              (\<lambda>i. if i \<noteq> [] then map_get (pairingCodesById r) i else None) of
             None \<Rightarrow> (Inr (Some (redemption_only RedNotFound None)), r)
           | Some rec \<Rightarrow>
               if truthy (pc_revokedAt rec) then (Inr (Some (redemption_only RedRevoked (Some rec))), r)
               else if truthy (pc_consumedAt rec) then (Inr (Some (redemption_only RedConsumed (Some rec))), r)
               else if date_le h (pc_expiresAt rec) (ro_at opts)
               then (Inr (Some (redemption_only RedExpired (Some rec))), r)
               else (case map_get (employees r) (pc_employeeId rec) of
                   None \<Rightarrow> (Inr (Some (redemption_only RedNotFound None)), r)
                 | Some e \<Rightarrow>
                     if emp_organizationId e \<noteq> pc_organizationId rec
                       \<or> emp_status e \<in> {EmpPaused, EmpDeactivated}
                     then (Inr (Some (redemption_only RedNotFound None)), r)
                     else if pc_collectionMode rec \<noteq> reg_collectionMode (ro_registration opts)
                     then (Inr (Some (redemption_only RedNotFound None)), r)
                     else
                       let installationKey = key2 (pc_organizationId rec)
                             (reg_installationId (ro_registration opts));
                           existing = Option.bind (map_get (devicesByInstallation r) installationKey)
                             (\<lambda>i. if i \<noteq> [] then map_get (devices r) i else None)
                       in (if (case existing of None \<Rightarrow> False
                              | Some d \<Rightarrow> dev_employeeId d \<noteq> pc_employeeId rec)
                           then (Inr (Some (redemption_only RedInstallationConflict (Some rec))), r)
                           else (let (res, r') = redeem_commit opts rec e existing r
                                 in (Inr (Some res), r'))))))"

section \<open>Activation and re-consent\<close>

definition is_hex64 :: "string \<Rightarrow> bool" where
  "is_hex64 s \<longleftrightarrow> length s = 64 \<and> list_all (\<lambda>c. is_digit c \<or> (97 \<le> (of_char c :: nat) \<and> (of_char c :: nat) \<le> 102)) s"

text \<open>The accepted instant lies outside fifteen minutes before to five minutes after receipt.\<close>

definition consent_stale :: "host \<Rightarrow> string \<Rightarrow> string \<Rightarrow> bool" where
  "consent_stale h acceptedAt ts =
     (let accepted = h_parse h acceptedAt; recorded = h_parse h ts
      in date_gt_ms accepted (map_option (\<lambda>t. t + 5 * 60 * 1000) recorded)
         \<or> date_gt_ms (map_option (\<lambda>t. t - 15 * 60 * 1000) recorded) accepted)"

text \<open>The active policy, the one the route read, and the one the device accepted are the same.\<close>

definition policies_agree :: "mobile_policy option \<Rightarrow> mobile_policy option \<Rightarrow> policy_reference \<Rightarrow> bool" where
  "policies_agree active read accepted =
     (case (active, read) of
        (Some a, Some p) \<Rightarrow> pol_id a = pol_id p \<and> pol_contentHash a = pol_contentHash p
          \<and> pr_id accepted = pol_id a \<and> pr_contentHash accepted = pol_contentHash a
      | _ \<Rightarrow> False)"

definition make_consent ::
  "mobile_context \<Rightarrow> mobile_policy \<Rightarrow> device_permissions \<Rightarrow> consent_input \<Rightarrow> string \<Rightarrow> consent_receipt" where
  "make_consent ctx pol perms ci ts =
     \<lparr>con_organizationId = ctx_organizationId ctx, con_employeeId = ctx_employeeId ctx,
      con_deviceId = ctx_deviceId ctx, con_policyId = pol_id pol,
      con_policyContentHash = pol_contentHash pol, con_policyVersion = pol_policyVersion pol,
      con_disclosureVersion = pol_disclosureVersion pol, con_permissions = perms,
      con_acceptedAt = ci_acceptedAt ci, con_recordedAt = ts, con_locale = ci_locale ci,
      con_withdrawnAt = None\<rparr>"

definition make_request ::
  "mobile_context \<Rightarrow> string \<Rightarrow> credential_operation \<Rightarrow> string \<Rightarrow> string \<Rightarrow> string option \<Rightarrow>
   credential_response \<Rightarrow> string \<Rightarrow> credential_request" where
  "make_request ctx credId op requestId fp proposed resp ts =
     \<lparr>cq_requestId = requestId, cq_organizationId = ctx_organizationId ctx,
      cq_employeeId = ctx_employeeId ctx, cq_deviceId = ctx_deviceId ctx,
      cq_credentialId = credId, cq_operation = op, cq_requestFingerprint = fp,
      cq_proposedTokenHash = proposed, cq_response = resp, cq_completedAt = ts\<rparr>"

record activate_options =
  ao_context :: mobile_context
  ao_activation :: activation_input
  ao_sessionCredential :: new_device_credential
  ao_requestFingerprint :: string
  ao_policy :: "mobile_policy option"
  ao_at :: string

definition activate_key :: "activate_options \<Rightarrow> string" where
  "activate_key o' = credentialRequestKey (ctx_deviceId (ao_context o')) OpActivate
     (ai_requestId (ao_activation o'))"

definition activate_matches :: "activate_options \<Rightarrow> credential_request \<Rightarrow> bool" where
  "activate_matches o' p \<longleftrightarrow>
     cq_credentialId p = ctx_credentialId (ao_context o')
     \<and> cq_requestFingerprint p = ao_requestFingerprint o'
     \<and> cq_proposedTokenHash p = Some (cred_tokenHash (ao_sessionCredential o'))"

definition response_activate :: "credential_request \<Rightarrow> activate_result" where
  "response_activate p = (case cq_response p of RespActivate a \<Rightarrow> a | _ \<Rightarrow> undefined)"

definition session_credential_ok :: "new_device_credential \<Rightarrow> credential_state \<Rightarrow> string \<Rightarrow>
    'a device_state_scheme \<Rightarrow> bool" where
  "session_credential_ok c st requestId r \<longleftrightarrow>
     cred_credentialType c = CredSession \<and> cred_lifecycleState c = st \<and> cred_requestId c = requestId
     \<and> is_hex64 (cred_tokenHash c) \<and> \<not> map_has (deviceCredentialsByHash r) (cred_tokenHash c)"

definition activate_commit ::
  "activate_options \<Rightarrow> current_credential \<Rightarrow> mobile_policy \<Rightarrow> 'a pairing_state_scheme \<Rightarrow>
   activate_result \<times> 'a pairing_state_scheme" where
  "activate_commit o' cur pol r =
     (let ctx = ao_context o'; act = ao_activation o'; ts = ao_at o';
          consent = make_consent ctx pol (ai_permissions act) (ai_consent act) ts;
          bootstrap = (cur_credential cur)\<lparr>cred_consumedAt := Some ts, cred_lifecycleState := LcConsumed\<rparr>;
          r1 = r\<lparr>deviceCredentialsByHash := map_set (cur_key cur) bootstrap (deviceCredentialsByHash r),
                 activeConsentByDevice := map_set (dev_id (cur_device cur)) consent (activeConsentByDevice r)\<rparr>;
          r2 = store_credential (ao_sessionCredential o') (ctx_organizationId ctx) (ctx_employeeId ctx)
                 (ctx_deviceId ctx) ts r1;
          d = (cur_device cur)\<lparr>dev_status := DevConnected, dev_permissions := ai_permissions act,
                 dev_lastSeenAt := Some ts, updatedAt := ts\<rparr>;
          e = (cur_employee cur)\<lparr>emp_status := EmpActive, updatedAt := ts\<rparr>;
          result = \<lparr>ar_device = d, ar_sessionExpiresAt = cred_expiresAt (ao_sessionCredential o'),
            ar_policy = \<lparr>pr_id = pol_id pol, pr_contentHash = pol_contentHash pol\<rparr>, ar_replayed = False\<rparr>
      in (result, r2\<lparr>devices := map_set (ctx_deviceId ctx) d (devices r2),
            employees := map_set (ctx_employeeId ctx) e (employees r2),
            credentialRequests := map_set (activate_key o')
              (make_request ctx (cred_id bootstrap) OpActivate (ai_requestId act) (ao_requestFingerprint o')
                (Some (cred_tokenHash (ao_sessionCredential o'))) (RespActivate result) ts)
              (credentialRequests r2)\<rparr>))"

definition activateMobileDevice ::
  "host \<Rightarrow> activate_options \<Rightarrow> 'a pairing_state_scheme \<Rightarrow>
   ('a pairing_state_scheme, activate_result option) outcome" where
  "activateMobileDevice h o' r =
     (case map_get (credentialRequests r) (activate_key o') of
        Some p \<Rightarrow>
          if activate_matches o' p
          then (Inr (Some ((response_activate p)\<lparr>ar_replayed := True\<rparr>)), r)
          else (Inl (conflict ''The request ID was already used with a different activation payload''), r)
      | None \<Rightarrow>
          (case findCurrentMobileCredential h (ao_context o') CredBootstrap (ao_at o') r of
             None \<Rightarrow> (Inr None, r)
           | Some cur \<Rightarrow>
               if \<not> session_credential_ok (ao_sessionCredential o') LcActive
                    (ai_requestId (ao_activation o')) r then (Inr None, r)
               else if consent_stale h (ci_acceptedAt (ai_consent (ao_activation o'))) (ao_at o')
               then (Inl (consentRequired ''Consent must be refreshed before activation''), r)
               else (let active = map_get (mobilePolicies r) (ctx_collectionMode (ao_context o')) in
                 if \<not> policies_agree active (ao_policy o') (ai_policy (ao_activation o'))
                 then (Inl consentRequiredDefault, r)
                 else (let (res, r') = activate_commit o' cur (the active) r
                       in (Inr (Some res), r')))))"

record reconsent_options =
  rco_context :: mobile_context
  rco_reconsent :: reconsent_input
  rco_requestFingerprint :: string
  rco_policy :: "mobile_policy option"
  rco_at :: string

definition reconsent_key :: "reconsent_options \<Rightarrow> string" where
  "reconsent_key o' = credentialRequestKey (ctx_deviceId (rco_context o')) OpReconsent
     (ri_requestId (rco_reconsent o'))"

definition reconsent_matches :: "reconsent_options \<Rightarrow> credential_request \<Rightarrow> bool" where
  "reconsent_matches o' p \<longleftrightarrow>
     cq_credentialId p = ctx_credentialId (rco_context o')
     \<and> cq_requestFingerprint p = rco_requestFingerprint o'"

definition response_reconsent :: "credential_request \<Rightarrow> reconsent_result" where
  "response_reconsent p = (case cq_response p of RespReconsent a \<Rightarrow> a | _ \<Rightarrow> undefined)"

text \<open>
  The withdrawal of the previous receipt is not observable: the next write replaces the
  receipt under the same device.
\<close>

definition reconsent_commit ::
  "reconsent_options \<Rightarrow> current_credential \<Rightarrow> mobile_policy \<Rightarrow> 'a pairing_state_scheme \<Rightarrow>
   reconsent_result \<times> 'a pairing_state_scheme" where
  "reconsent_commit o' cur pol r =
     (let ctx = rco_context o'; rc = rco_reconsent o'; ts = rco_at o';
          consent = make_consent ctx pol (ri_permissions rc) (ri_consent rc) ts;
          d = (cur_device cur)\<lparr>dev_permissions := ri_permissions rc, updatedAt := ts\<rparr>;
          result = \<lparr>rr_device = d,
            rr_policy = \<lparr>pr_id = pol_id pol, pr_contentHash = pol_contentHash pol\<rparr>,
            rr_consentedAt = ci_acceptedAt (ri_consent rc), rr_replayed = False\<rparr>
      in (result, r\<lparr>activeConsentByDevice := map_set (ctx_deviceId ctx) consent (activeConsentByDevice r),
            devices := map_set (ctx_deviceId ctx) d (devices r),
            credentialRequests := map_set (reconsent_key o')
              (make_request ctx (ctx_credentialId ctx) OpReconsent (ri_requestId rc)
                (rco_requestFingerprint o') None (RespReconsent result) ts)
              (credentialRequests r)\<rparr>))"

definition reconsentMobileDevice ::
  "host \<Rightarrow> reconsent_options \<Rightarrow> 'a pairing_state_scheme \<Rightarrow>
   ('a pairing_state_scheme, reconsent_result option) outcome" where
  "reconsentMobileDevice h o' r =
     (case map_get (credentialRequests r) (reconsent_key o') of
        Some p \<Rightarrow>
          if reconsent_matches o' p
          then (Inr (Some ((response_reconsent p)\<lparr>rr_replayed := True\<rparr>)), r)
          else (Inl (conflict ''The request ID was already used with a different consent payload''), r)
      | None \<Rightarrow>
          (case findCurrentMobileCredential h (rco_context o') CredSession (rco_at o') r of
             None \<Rightarrow> (Inr None, r)
           | Some cur \<Rightarrow>
               if consent_stale h (ci_acceptedAt (ri_consent (rco_reconsent o'))) (rco_at o')
               then (Inl (consentRequired ''Consent must be refreshed before synchronization resumes''), r)
               else (let active = map_get (mobilePolicies r) (ctx_collectionMode (rco_context o')) in
                 if \<not> policies_agree active (rco_policy o') (ri_policy (rco_reconsent o'))
                 then (Inl consentRequiredDefault, r)
                 else (let (res, r') = reconsent_commit o' cur (the active) r
                       in (Inr (Some res), r')))))"

section \<open>Session rotation\<close>

record prepare_options =
  po_context :: mobile_context
  po_sessionCredential :: new_device_credential
  po_requestId :: string
  po_requestFingerprint :: string
  po_at :: string

definition prepare_key :: "prepare_options \<Rightarrow> string" where
  "prepare_key o' = credentialRequestKey (ctx_deviceId (po_context o')) OpRotationPrepare (po_requestId o')"

definition prepare_matches :: "prepare_options \<Rightarrow> credential_request \<Rightarrow> bool" where
  "prepare_matches o' p \<longleftrightarrow>
     cq_credentialId p = ctx_credentialId (po_context o')
     \<and> cq_requestFingerprint p = po_requestFingerprint o'
     \<and> cq_proposedTokenHash p = Some (cred_tokenHash (po_sessionCredential o'))"

definition response_prepare :: "credential_request \<Rightarrow> prepare_result" where
  "response_prepare p = (case cq_response p of RespPrepare a \<Rightarrow> a | _ \<Rightarrow> undefined)"

definition prepare_commit ::
  "prepare_options \<Rightarrow> 'a pairing_state_scheme \<Rightarrow> prepare_result \<times> 'a pairing_state_scheme" where
  "prepare_commit o' r =
     (let ctx = po_context o'; ts = po_at o';
          r1 = store_credential (po_sessionCredential o') (ctx_organizationId ctx) (ctx_employeeId ctx)
                 (ctx_deviceId ctx) ts r;
          result = \<lparr>ppr_requestId = po_requestId o',
            ppr_pendingExpiresAt = cred_expiresAt (po_sessionCredential o'),
            ppr_preparedAt = ts, ppr_replayed = False\<rparr>
      in (result, r1\<lparr>credentialRequests := map_set (prepare_key o')
              (make_request ctx (ctx_credentialId ctx) OpRotationPrepare (po_requestId o')
                (po_requestFingerprint o') (Some (cred_tokenHash (po_sessionCredential o')))
                (RespPrepare result) ts)
              (credentialRequests r1)\<rparr>))"

definition prepareDeviceSessionRotation ::
  "host \<Rightarrow> prepare_options \<Rightarrow> 'a pairing_state_scheme \<Rightarrow>
   ('a pairing_state_scheme, prepare_result option) outcome" where
  "prepareDeviceSessionRotation h o' r =
     (case map_get (credentialRequests r) (prepare_key o') of
        Some p \<Rightarrow>
          if prepare_matches o' p
          then (Inr (Some ((response_prepare p)\<lparr>ppr_replayed := True\<rparr>)), r)
          else (Inl (conflict ''The request ID was already used with a different rotation payload''), r)
      | None \<Rightarrow>
          (case findCurrentMobileCredential h (po_context o') CredSession (po_at o') r of
             None \<Rightarrow> (Inr None, r)
           | Some cur \<Rightarrow>
               if \<not> session_credential_ok (po_sessionCredential o') LcPending (po_requestId o') r
                  \<or> cred_rotatedFromCredentialId (po_sessionCredential o')
                      \<noteq> Some (ctx_credentialId (po_context o')) then (Inr None, r)
               else if \<not> isConsentCurrent (ctx_deviceId (po_context o')) r
               then (Inl consentRequiredDefault, r)
               else (let (res, r') = prepare_commit o' r in (Inr (Some res), r'))))"

record confirm_options =
  co_context :: mobile_context
  co_requestId :: string
  co_prepareRequestId :: string
  co_requestFingerprint :: string
  co_at :: string

definition confirm_key :: "confirm_options \<Rightarrow> string" where
  "confirm_key o' = credentialRequestKey (ctx_deviceId (co_context o')) OpRotationConfirm (co_requestId o')"

definition confirm_matches :: "confirm_options \<Rightarrow> credential_request \<Rightarrow> bool" where
  "confirm_matches o' p \<longleftrightarrow>
     cq_credentialId p = ctx_credentialId (co_context o')
     \<and> cq_requestFingerprint p = co_requestFingerprint o'"

definition response_confirm :: "credential_request \<Rightarrow> confirm_result" where
  "response_confirm p = (case cq_response p of RespConfirm a \<Rightarrow> a | _ \<Rightarrow> undefined)"

text \<open>A hash looked up by credential id, and the credential stored under it.\<close>

definition credential_by_id :: "string \<Rightarrow> 'a device_state_scheme \<Rightarrow> (string \<times> stored_credential) option" where
  "credential_by_id i r =
     (case map_get (deviceCredentialHashById r) i of
        None \<Rightarrow> None
      | Some k \<Rightarrow> if k = [] then None else map_option (Pair k) (map_get (deviceCredentialsByHash r) k))"

definition confirm_commit ::
  "confirm_options \<Rightarrow> string \<Rightarrow> stored_credential \<Rightarrow> string \<Rightarrow> 'a pairing_state_scheme \<Rightarrow>
   confirm_result \<times> 'a pairing_state_scheme" where
  "confirm_commit o' pendingHash pending oldHash r =
     (let ts = co_at o';
          creds1 = map_modify pendingHash (\<lambda>c. c\<lparr>cred_lifecycleState := LcActive\<rparr>) (deviceCredentialsByHash r);
          creds2 = map_modify oldHash (\<lambda>c. c\<lparr>cred_lifecycleState := LcRevoked, cred_revokedAt := Some ts\<rparr>) creds1;
          result = \<lparr>cr_requestId = co_requestId o', cr_expiresAt = cred_expiresAt pending,
            cr_activatedAt = ts, cr_replayed = False\<rparr>
      in (result, r\<lparr>deviceCredentialsByHash := creds2,
            credentialRequests := map_set (confirm_key o')
              (make_request (co_context o') (cred_id pending) OpRotationConfirm (co_requestId o')
                (co_requestFingerprint o') (Some pendingHash) (RespConfirm result) ts)
              (credentialRequests r)\<rparr>))"

definition confirmDeviceSessionRotation ::
  "host \<Rightarrow> confirm_options \<Rightarrow> 'a pairing_state_scheme \<Rightarrow>
   ('a pairing_state_scheme, confirm_result option) outcome" where
  "confirmDeviceSessionRotation h o' r =
     (case map_get (credentialRequests r) (confirm_key o') of
        Some p \<Rightarrow>
          if confirm_matches o' p
          then (Inr (Some ((response_confirm p)\<lparr>cr_replayed := True\<rparr>)), r)
          else (Inl (conflict ''The request ID was already used with a different rotation confirmation''), r)
      | None \<Rightarrow>
          (case credential_by_id (ctx_credentialId (co_context o')) r of
             None \<Rightarrow> (Inr None, r)
           | Some (pendingHash, pending) \<Rightarrow>
               if cred_lifecycleState pending \<noteq> LcPending
                  \<or> cred_requestId pending \<noteq> co_prepareRequestId o'
                  \<or> \<not> truthy (cred_rotatedFromCredentialId pending)
                  \<or> date_le h (cred_expiresAt pending) (co_at o') then (Inr None, r)
               else (case (map_get (credentialRequests r)
                       (credentialRequestKey (ctx_deviceId (co_context o')) OpRotationPrepare
                         (co_prepareRequestId o')),
                     Option.bind (cred_rotatedFromCredentialId pending) (\<lambda>i. credential_by_id i r)) of
                   (Some prepare, Some (oldHash, old)) \<Rightarrow>
                     if cq_proposedTokenHash prepare \<noteq> Some pendingHash
                        \<or> cred_lifecycleState old \<noteq> LcActive \<or> truthy (cred_revokedAt old)
                     then (Inr None, r)
                     else (let (res, r') = confirm_commit o' pendingHash pending oldHash r
                           in (Inr (Some res), r'))
                 | _ \<Rightarrow> (Inr None, r))))"

section \<open>Replayed authentication\<close>

record replay_options =
  rp_tokenHash :: string
  rp_credentialType :: credential_type
  rp_operation :: credential_operation
  rp_requestId :: string
  rp_requestFingerprint :: string

definition replay_state :: "credential_operation \<Rightarrow> credential_state" where
  "replay_state op = (case op of OpActivate \<Rightarrow> LcConsumed | OpRevoke \<Rightarrow> LcRevoked | _ \<Rightarrow> LcActive)"

definition resolveDeviceCredentialReplay ::
  "replay_options \<Rightarrow> 'a pairing_state_scheme \<Rightarrow> mobile_context option" where
  "resolveDeviceCredentialReplay o' r =
     (case map_get (deviceCredentialsByHash r) (rp_tokenHash o') of
        None \<Rightarrow> None
      | Some c \<Rightarrow>
          if cred_credentialType c \<noteq> rp_credentialType o' then None
          else if cred_lifecycleState c \<noteq> replay_state (rp_operation o') then None
          else (case map_get (credentialRequests r)
                  (credentialRequestKey (cred_deviceId c) (rp_operation o') (rp_requestId o')) of
              None \<Rightarrow> None
            | Some q \<Rightarrow>
                if cq_credentialId q \<noteq> cred_id c \<or> cq_requestFingerprint q \<noteq> rp_requestFingerprint o' then None
                else map_option (\<lambda>ctx. ctx\<lparr>ctx_authenticatedReplay := Some True\<rparr>) (contextForCredential c r)))"

definition resolvePendingRotationCredential ::
  "host \<Rightarrow> string \<Rightarrow> string \<Rightarrow> string \<Rightarrow> 'a pairing_state_scheme \<Rightarrow> mobile_context option" where
  "resolvePendingRotationCredential h tokenHash prepareRequestId ts r =
     (case map_get (deviceCredentialsByHash r) tokenHash of
        None \<Rightarrow> None
      | Some c \<Rightarrow>
          if cred_credentialType c \<noteq> CredSession \<or> cred_lifecycleState c \<noteq> LcPending
             \<or> cred_requestId c \<noteq> prepareRequestId \<or> date_le h (cred_expiresAt c) ts then None
          else (case map_get (credentialRequests r)
                  (credentialRequestKey (cred_deviceId c) OpRotationPrepare prepareRequestId) of
              None \<Rightarrow> None
            | Some q \<Rightarrow>
                if cq_proposedTokenHash q \<noteq> Some tokenHash then None else contextForCredential c r))"

section \<open>Heartbeats\<close>

definition recordDeviceHeartbeat ::
  "host \<Rightarrow> mobile_context \<Rightarrow> heartbeat \<Rightarrow> string \<Rightarrow> 'a device_state_scheme \<Rightarrow>
   heartbeat_result option \<times> 'a device_state_scheme" where
  "recordDeviceHeartbeat h ctx hb ts r =
     (case findCurrentMobileCredential h ctx CredSession ts r of
        None \<Rightarrow> (None, r)
      | Some cur \<Rightarrow>
          let d = (cur_device cur)\<lparr>dev_appVersion := hb_appVersion hb, dev_osVersion := hb_osVersion hb,
                dev_syncState := hb_syncState hb, dev_permissions := hb_permissions hb,
                dev_lastSeenAt := Some ts, dev_lastHeartbeatAt := Some (hb_observedAt hb),
                updatedAt := ts, dev_batteryPercent := hb_batteryPercent hb,
                dev_isCharging := hb_isCharging hb, dev_networkType := hb_networkType hb,
                dev_pendingCallCount := Some (hb_pendingCallCount hb),
                dev_pendingRecordingCount := Some (hb_pendingRecordingCount hb)\<rparr>;
              r' = r\<lparr>devices := map_set (ctx_deviceId ctx) d (devices r)\<rparr>;
              directives = (case map_get (mobilePolicies r) (ctx_collectionMode ctx) of
                  None \<Rightarrow> []
                | Some pol \<Rightarrow> if isConsentCurrent (ctx_deviceId ctx) r' then []
                    else [ConsentRequiredDirective (pol_id pol) (pol_contentHash pol)
                      ''The active collection policy has changed''])
          in (Some \<lparr>hr_serverTime = ts, hr_nextHeartbeatAfterSeconds = 900, hr_directives = directives\<rparr>, r'))"

section \<open>Revocation\<close>

record revoke_options =
  rvo_context :: mobile_context
  rvo_requestId :: string
  rvo_requestFingerprint :: string
  rvo_at :: string

definition revoke_key :: "revoke_options \<Rightarrow> string" where
  "revoke_key o' = credentialRequestKey (ctx_deviceId (rvo_context o')) OpRevoke (rvo_requestId o')"

definition revoke_matches :: "revoke_options \<Rightarrow> credential_request \<Rightarrow> bool" where
  "revoke_matches o' p \<longleftrightarrow>
     cq_credentialId p = ctx_credentialId (rvo_context o')
     \<and> cq_requestFingerprint p = rvo_requestFingerprint o'"

definition response_revoke :: "credential_request \<Rightarrow> revoke_result" where
  "response_revoke p = (case cq_response p of RespRevoke a \<Rightarrow> a | _ \<Rightarrow> undefined)"

definition revoke_commit ::
  "revoke_options \<Rightarrow> current_credential \<Rightarrow> consent_receipt \<Rightarrow> 'a pairing_state_scheme \<Rightarrow>
   revoke_result \<times> 'a pairing_state_scheme" where
  "revoke_commit o' cur consent r =
     (let ctx = rvo_context o'; ts = rvo_at o'; d = cur_device cur;
          r1 = revoke_live_credentials (dev_id d) ts r;
          d' = d\<lparr>dev_status := DevRevoked, dev_revokedAt := Some ts, updatedAt := ts\<rparr>;
          result = \<lparr>vr_deviceId = dev_id d, vr_revokedAt = ts, vr_consentWithdrawnAt = ts, vr_replayed = False\<rparr>
      in (result, r1\<lparr>activeConsentByDevice := map_set (dev_id d)
              (consent\<lparr>con_withdrawnAt := Some ts\<rparr>) (activeConsentByDevice r1),
            devices := map_set (ctx_deviceId ctx) d' (devices r1),
            credentialRequests := map_set (revoke_key o')
              (make_request ctx (ctx_credentialId ctx) OpRevoke (rvo_requestId o')
                (rvo_requestFingerprint o') None (RespRevoke result) ts)
              (credentialRequests r1)\<rparr>))"

definition revokeMobileSession ::
  "host \<Rightarrow> revoke_options \<Rightarrow> 'a pairing_state_scheme \<Rightarrow>
   ('a pairing_state_scheme, revoke_result option) outcome" where
  "revokeMobileSession h o' r =
     (case map_get (credentialRequests r) (revoke_key o') of
        Some p \<Rightarrow>
          if revoke_matches o' p
          then (Inr (Some ((response_revoke p)\<lparr>vr_replayed := True\<rparr>)), r)
          else (Inl (conflict ''The request ID was already used with a different revocation payload''), r)
      | None \<Rightarrow>
          (case findCurrentMobileCredential h (rvo_context o') CredSession (rvo_at o') r of
             None \<Rightarrow> (Inr None, r)
           | Some cur \<Rightarrow>
               (case cur_consent cur of
                  None \<Rightarrow> (Inr None, r)
                | Some consent \<Rightarrow>
                    (let (res, r') = revoke_commit o' cur consent r in (Inr (Some res), r')))))"

record admin_revoke_options =
  avo_organizationId :: string
  avo_deviceId :: string
  avo_actorUserId :: string
  avo_requestId :: string
  avo_requestFingerprint :: string
  avo_reason :: string
  avo_auditEventId :: string
  avo_outboxEventId :: string
  avo_at :: string

definition admin_revoke_key :: "admin_revoke_options \<Rightarrow> string" where
  "admin_revoke_key o' = key2 (avo_organizationId o') (avo_requestId o')"

definition admin_revoke_matches :: "admin_revoke_options \<Rightarrow> stored_admin_revocation \<Rightarrow> bool" where
  "admin_revoke_matches o' p \<longleftrightarrow>
     sar_deviceId p = avo_deviceId o' \<and> sar_actorUserId p = avo_actorUserId o'
     \<and> sar_requestFingerprint p = avo_requestFingerprint o'"

definition admin_revocable :: "string \<Rightarrow> stored_credential \<Rightarrow> bool" where
  "admin_revocable deviceId c \<longleftrightarrow>
     cred_deviceId c = deviceId \<and> cred_lifecycleState c \<in> {LcActive, LcPending}"

definition admin_revoke_commit ::
  "admin_revoke_options \<Rightarrow> employee_device \<Rightarrow> audit_event list \<Rightarrow> 'a pairing_state_scheme \<Rightarrow>
   admin_revoke_result \<times> 'a pairing_state_scheme" where
  "admin_revoke_commit o' d events r =
     (let ts = avo_at o';
          n = length (filter (admin_revocable (dev_id d)) (map_values (deviceCredentialsByHash r)));
          creds = map_update_where (admin_revocable (dev_id d))
            (\<lambda>c. c\<lparr>cred_lifecycleState := LcRevoked, cred_revokedAt := Some ts\<rparr>) (deviceCredentialsByHash r);
          consent = map_get (activeConsentByDevice r) (dev_id d);
          withdrawn = (case consent of None \<Rightarrow> False | Some c \<Rightarrow> \<not> truthy (con_withdrawnAt c));
          consents = (case consent of None \<Rightarrow> activeConsentByDevice r
            | Some c \<Rightarrow> if truthy (con_withdrawnAt c) then activeConsentByDevice r
                else map_set (dev_id d) (c\<lparr>con_withdrawnAt := Some ts\<rparr>) (activeConsentByDevice r));
          d' = d\<lparr>dev_status := DevRevoked, dev_revokedAt := Some ts, updatedAt := ts\<rparr>;
          result = \<lparr>av_deviceId = dev_id d, av_employeeId = dev_employeeId d, av_revokedAt = ts,
            av_reason = avo_reason o', av_revokedCredentialCount = n, av_consentWithdrawn = withdrawn,
            av_replayed = False\<rparr>;
          event = \<lparr>au_id = avo_auditEventId o', au_organizationId = avo_organizationId o',
            au_actorUserId = Some (avo_actorUserId o'), au_actorDeviceId = None,
            au_requestId = Some (avo_requestId o'), au_action = ''device.admin_revoked'',
            au_entityType = AuDevice, au_entityId = dev_id d, au_occurredAt = ts,
            au_metadata = [(''requestId'', JString (avo_requestId o')),
              (''employeeId'', JString (dev_employeeId d)), (''reason'', JString (avo_reason o')),
              (''revokedCredentialCount'', JNum (rat_of_int (int n))),
              (''consentWithdrawn'', JBool withdrawn)]\<rparr>
      in (result, r\<lparr>deviceCredentialsByHash := creds, activeConsentByDevice := consents,
            devices := map_set (avo_deviceId o') d' (devices r),
            audits := map_set (avo_organizationId o') (events @ [event]) (audits r),
            adminRecoveryOutboxEvents := map_set (avo_outboxEventId o')
              \<lparr>ob_id = avo_outboxEventId o', ob_organizationId = avo_organizationId o',
               ob_requestId = avo_requestId o', ob_deviceId = dev_id d\<rparr> (adminRecoveryOutboxEvents r),
            adminDeviceRevocations := map_set (admin_revoke_key o')
              \<lparr>sar_organizationId = avo_organizationId o', sar_deviceId = dev_id d,
               sar_actorUserId = avo_actorUserId o', sar_requestFingerprint = avo_requestFingerprint o',
               sar_result = result\<rparr> (adminDeviceRevocations r)\<rparr>))"

definition revokeDeviceByAdministrator ::
  "admin_revoke_options \<Rightarrow> 'a pairing_state_scheme \<Rightarrow>
   ('a pairing_state_scheme, admin_revoke_result option) outcome" where
  "revokeDeviceByAdministrator o' r =
     (case map_get (adminDeviceRevocations r) (admin_revoke_key o') of
        Some p \<Rightarrow>
          if admin_revoke_matches o' p
          then (Inr (Some ((sar_result p)\<lparr>av_replayed := True\<rparr>)), r)
          else (Inl (conflict ''The request ID was already used with a different device revocation payload''), r)
      | None \<Rightarrow>
          (case map_get (devices r) (avo_deviceId o') of
             None \<Rightarrow> (Inr None, r)
           | Some d \<Rightarrow>
               if dev_organizationId d \<noteq> avo_organizationId o' then (Inr None, r)
               else if dev_status d = DevRevoked \<or> truthy (dev_revokedAt d)
               then (Inl (conflict ''The device has already been revoked''), r)
               else (case map_get (users r) (avo_actorUserId o') of
                   None \<Rightarrow> (Inr None, r)
                 | Some actor \<Rightarrow>
                     if user_organizationId actor \<noteq> avo_organizationId o' \<or> user_status actor \<noteq> UserActive
                     then (Inr None, r)
                     else (case map_get (audits r) (avo_organizationId o') of
                         None \<Rightarrow> (Inl (JsError ''Unknown organization for device revocation''), r)
                       | Some events \<Rightarrow>
                           if list_ex (\<lambda>ev. au_id ev = avo_auditEventId o') events
                              \<or> map_has (adminRecoveryOutboxEvents r) (avo_outboxEventId o')
                           then (Inl (JsError ''Administrative device revocation evidence ID was already used''), r)
                           else (let (res, r') = admin_revoke_commit o' d events r
                                 in (Inr (Some res), r'))))))"

definition countAdminRecoveryOutboxEvents :: "string \<Rightarrow> string \<Rightarrow> 'a pairing_state_scheme \<Rightarrow> nat" where
  "countAdminRecoveryOutboxEvents orgId requestId r =
     length (filter (\<lambda>ev. ob_organizationId ev = orgId \<and> ob_requestId ev = requestId)
       (map_values (adminRecoveryOutboxEvents r)))"

end
