(* ===== verification/Leads.thy ===== *)
theory Leads
  imports Pairing
begin

text \<open>
  The lead workspace of \<open>repository.ts\<close>: who may see a lead, the work queues, the paged lead
  list, the lead detail, and the five mutations (create, update, note, follow-up, completion),
  each of which appends one activity.
\<close>

section \<open>State\<close>

record lead_state = pairing_state +
  leadStatuses :: "(string, lead_status) jsmap"
  leads :: "(string, lead) jsmap"
  leadTeams :: "(string, string) jsmap"
  leadNotes :: "(string, lead_note) jsmap"
  leadFollowUps :: "(string, follow_up) jsmap"
  leadActivities :: "(string, lead_activity) jsmap"

section \<open>Reading leads\<close>

text \<open>\<open>leadTeams.get(id) ?? employees.get(assignee)?.team\<close>.\<close>

definition lead_team :: "lead \<Rightarrow> 'a lead_state_scheme \<Rightarrow> string option" where
  "lead_team l r =
     (case map_get (leadTeams r) (lead_id l) of
        Some t \<Rightarrow> Some t
      | None \<Rightarrow> if truthy (lead_assignedEmployeeId l)
          then Option.bind (map_get (employees r) (the (lead_assignedEmployeeId l))) emp_team
          else None)"

definition canAccessLead :: "lead_access_scope \<Rightarrow> lead \<Rightarrow> 'a lead_state_scheme \<Rightarrow> bool" where
  "canAccessLead scope l r =
     (case scope of
        ScopeOrganization \<Rightarrow> True
      | ScopeAssigned e \<Rightarrow> e \<noteq> [] \<and> lead_assignedEmployeeId l = Some e
      | ScopeTeams names \<Rightarrow>
          if names = [] then False
          else truthy (lead_team l r) \<and> the (lead_team l r) \<in> set names)"

definition statusForLead :: "lead \<Rightarrow> 'a lead_state_scheme \<Rightarrow> thrown + lead_status" where
  "statusForLead l r =
     (case map_get (leadStatuses r) (lead_statusId l) of
        None \<Rightarrow> Inl (JsError ''Lead status is missing or belongs to another organization'')
      | Some s \<Rightarrow> if ls_organizationId s \<noteq> lead_organizationId l
          then Inl (JsError ''Lead status is missing or belongs to another organization'') else Inr s)"

definition follow_up_order :: "host \<Rightarrow> follow_up \<Rightarrow> follow_up \<Rightarrow> int" where
  "follow_up_order h = cmp_or (cmp_on fu_dueAt (localeCompare h)) (cmp_on fu_id (localeCompare h))"

definition followUpsForLead :: "host \<Rightarrow> string \<Rightarrow> string \<Rightarrow> 'a lead_state_scheme \<Rightarrow> follow_up list" where
  "followUpsForLead h orgId leadId r =
     js_sort (follow_up_order h)
       (filter (\<lambda>f. fu_organizationId f = orgId \<and> fu_leadId f = leadId) (map_values (leadFollowUps r)))"

text \<open>\<open>activity.metadata?.key === value\<close>.\<close>

definition metadata_is :: "lead_activity \<Rightarrow> string \<Rightarrow> string \<Rightarrow> bool" where
  "metadata_is a key val = (Option.bind (act_metadata a) (\<lambda>m. map_of m key) = Some (JString val))"

definition activity_missed :: "host \<Rightarrow> lead_activity \<Rightarrow> bool" where
  "activity_missed h a \<longleftrightarrow>
     metadata_is a ''direction'' ''incoming'' \<and> metadata_is a ''disposition'' ''missed''
     \<or> str_includes (h_lower h (act_summary a)) ''missed''"

definition linked_call_activities :: "lead \<Rightarrow> 'a lead_state_scheme \<Rightarrow> lead_activity list" where
  "linked_call_activities l r =
     filter (\<lambda>a. act_organizationId a = lead_organizationId l \<and> act_leadId a = lead_id l
        \<and> act_kind a = ActCallLinked) (map_values (leadActivities r))"

definition unreturnedMissedCallCount :: "host \<Rightarrow> lead \<Rightarrow> 'a lead_state_scheme \<Rightarrow> nat" where
  "unreturnedMissedCallCount h l r =
     (let calls = linked_call_activities l r in
      length (filter (\<lambda>a. activity_missed h a \<and>
        \<not> list_ex (\<lambda>c. act_occurredAt c > act_occurredAt a
             \<and> metadata_is c ''direction'' ''outgoing'' \<and> metadata_is c ''disposition'' ''answered'') calls) calls))"

definition pending_follow_ups :: "host \<Rightarrow> lead \<Rightarrow> 'a lead_state_scheme \<Rightarrow> follow_up list" where
  "pending_follow_ups h l r =
     filter (\<lambda>f. fu_status f = FuPending) (followUpsForLead h (lead_organizationId l) (lead_id l) r)"

definition buildLeadListItem :: "host \<Rightarrow> lead \<Rightarrow> string \<Rightarrow> 'a lead_state_scheme \<Rightarrow> thrown + lead_list_item" where
  "buildLeadListItem h l ts r =
     (case statusForLead l r of
        Inl e \<Rightarrow> Inl e
      | Inr status \<Rightarrow>
          (let pending = pending_follow_ups h l r;
               assigned = (if truthy (lead_assignedEmployeeId l)
                 then map_get (employees r) (the (lead_assignedEmployeeId l)) else None)
           in Inr \<lparr>li_lead = l, li_status = status,
                li_assignedEmployee = map_option (\<lambda>e. \<lparr>own_id = emp_id e,
                  own_displayName = emp_displayName e, own_team = emp_team e\<rparr>) assigned,
                li_nextFollowUp = (case pending of [] \<Rightarrow> None | f # _ \<Rightarrow> Some f),
                li_overdueFollowUpCount = length (filter (\<lambda>f. fu_dueAt f < ts) pending),
                li_unreturnedMissedCallCount = unreturnedMissedCallCount h l r\<rparr>))"

definition note_order :: "host \<Rightarrow> lead_note \<Rightarrow> lead_note \<Rightarrow> int" where
  "note_order h = cmp_or (cmp_desc (cmp_on createdAt (localeCompare h))) (cmp_desc (cmp_on note_id (localeCompare h)))"

definition activity_order :: "host \<Rightarrow> lead_activity \<Rightarrow> lead_activity \<Rightarrow> int" where
  "activity_order h = cmp_or (cmp_desc (cmp_on act_occurredAt (localeCompare h))) (cmp_desc (cmp_on act_id (localeCompare h)))"

definition buildLeadDetail :: "host \<Rightarrow> lead \<Rightarrow> string \<Rightarrow> 'a lead_state_scheme \<Rightarrow> thrown + lead_detail" where
  "buildLeadDetail h l ts r =
     (case buildLeadListItem h l ts r of
        Inl e \<Rightarrow> Inl e
      | Inr item \<Rightarrow> Inr \<lparr>ld_item = item,
          ld_notes = js_sort (note_order h) (filter (\<lambda>n. note_organizationId n = lead_organizationId l
             \<and> note_leadId n = lead_id l) (map_values (leadNotes r))),
          ld_followUps = followUpsForLead h (lead_organizationId l) (lead_id l) r,
          ld_activities = js_sort (activity_order h) (filter (\<lambda>a. act_organizationId a = lead_organizationId l
             \<and> act_leadId a = lead_id l) (map_values (leadActivities r)))\<rparr>)"

definition status_default_order :: "lead_status \<Rightarrow> lead_status \<Rightarrow> int" where
  "status_default_order = cmp_or (cmp_desc (cmp_on (\<lambda>s. of_bool (ls_isInitial s)) cmp_int)) (cmp_on ls_position cmp_int)"

definition defaultLeadStatus :: "string \<Rightarrow> 'a lead_state_scheme \<Rightarrow> lead_status option" where
  "defaultLeadStatus orgId r =
     (case js_sort status_default_order (filter (\<lambda>s. ls_organizationId s = orgId \<and> ls_isActive s)
         (map_values (leadStatuses r))) of [] \<Rightarrow> None | s # _ \<Rightarrow> Some s)"

definition validateLeadAssignment ::
  "string \<Rightarrow> lead_access_scope \<Rightarrow> string \<Rightarrow> 'a lead_state_scheme \<Rightarrow> employee option" where
  "validateLeadAssignment orgId scope employeeId r =
     (case map_get (employees r) employeeId of
        None \<Rightarrow> None
      | Some e \<Rightarrow>
          if emp_organizationId e \<noteq> orgId \<or> emp_status e \<noteq> EmpActive then None
          else (case scope of
              ScopeOrganization \<Rightarrow> Some e
            | ScopeAssigned i \<Rightarrow> if i = emp_id e then Some e else None
            | ScopeTeams names \<Rightarrow> if truthy (emp_team e) \<and> the (emp_team e) \<in> set names then Some e else None))"

definition status_order :: "host \<Rightarrow> lead_status \<Rightarrow> lead_status \<Rightarrow> int" where
  "status_order h = cmp_or (cmp_on ls_position cmp_int) (cmp_on ls_id (localeCompare h))"

definition listLeadStatuses :: "host \<Rightarrow> string \<Rightarrow> 'a lead_state_scheme \<Rightarrow> lead_status list" where
  "listLeadStatuses h orgId r =
     js_sort (status_order h) (filter (\<lambda>s. ls_organizationId s = orgId \<and> ls_isActive s)
       (map_values (leadStatuses r)))"

section \<open>The lead list\<close>

record lead_filter =
  lf_search :: "string option"
  lf_statusId :: "string option"
  lf_assignedEmployeeId :: "string option"
  lf_queue :: lead_queue_key

record lead_cursor =
  lc_createdAt :: string
  lc_id :: string

record lead_list_result =
  llr_items :: "lead_list_item list"
  llr_summary :: lead_queue_summary
  llr_hasMore :: bool

text \<open>A list comprehension whose element expression may throw: the first throw wins.\<close>

fun traverse :: "('a \<Rightarrow> 'e + 'b) \<Rightarrow> 'a list \<Rightarrow> 'e + 'b list" where
  "traverse f [] = Inr []"
| "traverse f (x # xs) = (case f x of Inl e \<Rightarrow> Inl e
     | Inr y \<Rightarrow> (case traverse f xs of Inl e \<Rightarrow> Inl e | Inr ys \<Rightarrow> Inr (y # ys)))"

definition accessible_leads :: "string \<Rightarrow> lead_access_scope \<Rightarrow> 'a lead_state_scheme \<Rightarrow> lead list" where
  "accessible_leads orgId scope r =
     filter (\<lambda>l. lead_organizationId l = orgId \<and> \<not> truthy (lead_archivedAt l) \<and> canAccessLead scope l r)
       (map_values (leads r))"

definition queueMatches :: "lead_queue_key \<Rightarrow> lead_list_item \<Rightarrow> bool" where
  "queueMatches q item =
     (case q of
        QueueNotContacted \<Rightarrow> lead_lastContactedAt (li_lead item) = None
      | QueueOverdue \<Rightarrow> li_overdueFollowUpCount item > 0
      | QueueUnreturnedCalls \<Rightarrow> li_unreturnedMissedCallCount item > 0
      | QueueAll \<Rightarrow> True)"

definition lead_text :: "host \<Rightarrow> lead \<Rightarrow> string" where
  "lead_text h l = h_lower h (lead_firstName l @ '' '' @ or_empty (lead_lastName l) @ '' ''
     @ or_empty (lead_companyName l) @ '' '' @ lead_phoneNumber l @ '' '' @ or_empty (lead_email l))"

definition lead_matches :: "host \<Rightarrow> lead_filter \<Rightarrow> lead_list_item \<Rightarrow> bool" where
  "lead_matches h f item \<longleftrightarrow>
     (let l = li_lead item; search = map_option (\<lambda>s. h_lower h (js_trim s)) (lf_search f) in
      (truthy (lf_statusId f) \<longrightarrow> Some (lead_statusId l) = lf_statusId f)
      \<and> (truthy (lf_assignedEmployeeId f) \<longrightarrow> lead_assignedEmployeeId l = lf_assignedEmployeeId f)
      \<and> queueMatches (lf_queue f) item
      \<and> (truthy search \<longrightarrow> str_includes (lead_text h l) (or_empty search)))"

definition lead_order :: "host \<Rightarrow> lead \<Rightarrow> lead \<Rightarrow> int" where
  "lead_order h = cmp_or (cmp_desc (cmp_on createdAt (localeCompare h))) (cmp_desc (cmp_on lead_id (localeCompare h)))"

definition lead_after :: "lead_cursor \<Rightarrow> lead \<Rightarrow> bool" where
  "lead_after c l \<longleftrightarrow> createdAt l < lc_createdAt c \<or> (createdAt l = lc_createdAt c \<and> lead_id l < lc_id c)"

text \<open>
  Every accessible lead's list item is built once for the summary, so an inconsistent status
  makes the whole listing throw; the items built later are the same ones.
\<close>

definition listLeads ::
  "host \<Rightarrow> string \<Rightarrow> lead_access_scope \<Rightarrow> lead_filter \<Rightarrow> lead_cursor option \<Rightarrow> nat \<Rightarrow> string \<Rightarrow>
   'a lead_state_scheme \<Rightarrow> thrown + lead_list_result" where
  "listLeads h orgId scope f after limit ts r =
     (let accessible = accessible_leads orgId scope r in
      case traverse (\<lambda>l. buildLeadListItem h l ts r) accessible of
        Inl e \<Rightarrow> Inl e
      | Inr items \<Rightarrow>
          (let summary = \<lparr>lq_total = length accessible,
                 lq_notContacted = length (filter (\<lambda>l. lead_lastContactedAt l = None) accessible),
                 lq_overdue = length (filter (\<lambda>i. li_overdueFollowUpCount i > 0) items),
                 lq_unreturnedCalls = length (filter (\<lambda>l. unreturnedMissedCallCount h l r > 0) accessible)\<rparr>;
               sorted = js_sort (cmp_on li_lead (lead_order h)) (filter (lead_matches h f) items);
               (page, more) = page_of limit (after_cursor (\<lambda>c i. lead_after c (li_lead i)) after sorted)
           in Inr \<lparr>llr_items = page, llr_summary = summary, llr_hasMore = more\<rparr>))"

definition findLeadDetail ::
  "host \<Rightarrow> string \<Rightarrow> lead_access_scope \<Rightarrow> string \<Rightarrow> string \<Rightarrow> 'a lead_state_scheme \<Rightarrow> thrown + lead_detail option" where
  "findLeadDetail h orgId scope leadId ts r =
     (case map_get (leads r) leadId of
        None \<Rightarrow> Inr None
      | Some l \<Rightarrow> if lead_organizationId l \<noteq> orgId \<or> \<not> canAccessLead scope l r then Inr None
          else map_sum id Some (buildLeadDetail h l ts r))"

section \<open>Mutations\<close>

definition add_activity :: "(string \<Rightarrow> lead_activity) \<Rightarrow> 'a lead_state_scheme \<Rightarrow> 'a lead_state_scheme" where
  "add_activity mk r =
     (let (i, r1) = next_id ''lead_activity'' r
      in r1\<lparr>leadActivities := map_set i (mk i) (leadActivities r1)\<rparr>)"

text \<open>An activity an actor caused, with no call and no employee.\<close>

definition user_activity ::
  "string \<Rightarrow> string \<Rightarrow> lead_activity_kind \<Rightarrow> string \<Rightarrow> string \<Rightarrow> string \<Rightarrow> json_record option \<Rightarrow> string \<Rightarrow> lead_activity" where
  "user_activity orgId leadId kind actor ts summary meta i =
     \<lparr>act_id = i, act_organizationId = orgId, act_leadId = leadId, act_kind = kind,
      act_actorUserId = Some actor, act_actorEmployeeId = None, act_callLogId = None,
      act_occurredAt = ts, act_summary = summary, act_metadata = meta\<rparr>"

text \<open>How every mutation ends: \<open>return clone(this.buildLeadDetail(lead, at))\<close>.\<close>

definition return_detail ::
  "host \<Rightarrow> lead \<Rightarrow> string \<Rightarrow> 'a lead_state_scheme \<Rightarrow> ('a lead_state_scheme, lead_detail option) outcome" where
  "return_detail h l ts r = (map_sum id Some (buildLeadDetail h l ts r), r)"

record create_lead_options =
  clo_organizationId :: string
  clo_scope :: lead_access_scope
  clo_actorUserId :: string
  clo_input :: create_lead_input
  clo_at :: string

definition new_lead :: "create_lead_options \<Rightarrow> lead_status \<Rightarrow> string \<Rightarrow> lead" where
  "new_lead o' status i =
     (let inp = clo_input o'; ts = clo_at o'; actor = Some (clo_actorUserId o') in
      \<lparr>createdAt = ts, updatedAt = ts, createdBy = actor, updatedBy = actor,
       lead_id = i, lead_organizationId = clo_organizationId o', lead_firstName = cli_firstName inp,
       lead_lastName = cli_lastName inp, lead_companyName = cli_companyName inp,
       lead_phoneNumber = cli_phoneNumber inp, lead_alternatePhoneNumber = cli_alternatePhoneNumber inp,
       lead_email = cli_email inp,
       lead_source = (case cli_source inp of None \<Rightarrow> SrcManual | Some s \<Rightarrow> s),
       lead_sourceReference = cli_sourceReference inp, lead_statusId = ls_id status,
       lead_temperature = cli_temperature inp, lead_assignedEmployeeId = cli_assignedEmployeeId inp,
       lead_tagIds = (case cli_tagIds inp of None \<Rightarrow> [] | Some t \<Rightarrow> t),
       lead_customFields = (case cli_customFields inp of None \<Rightarrow> [] | Some c \<Rightarrow> c),
       lead_lastContactedAt = None, lead_nextFollowUpAt = None, lead_convertedAt = None,
       lead_lostAt = None, lead_archivedAt = None, lead_version = 1\<rparr>)"

text \<open>The team a new lead joins: the assignee's, else the actor's first, else any in the organization.\<close>

definition new_lead_team :: "create_lead_options \<Rightarrow> 'a lead_state_scheme \<Rightarrow> string option" where
  "new_lead_team o' r =
     (let assigned = (if truthy (cli_assignedEmployeeId (clo_input o'))
            then map_get (employees r) (the (cli_assignedEmployeeId (clo_input o'))) else None) in
      case Option.bind assigned emp_team of
        Some t \<Rightarrow> Some t
      | None \<Rightarrow>
          (case clo_scope o' of
             ScopeTeams names \<Rightarrow> (case names of [] \<Rightarrow> None | t # _ \<Rightarrow> Some t)
           | _ \<Rightarrow> Option.bind (find (\<lambda>e. emp_organizationId e = clo_organizationId o' \<and> truthy (emp_team e))
               (map_values (employees r))) emp_team))"

definition createLead ::
  "host \<Rightarrow> create_lead_options \<Rightarrow> 'a lead_state_scheme \<Rightarrow> ('a lead_state_scheme, lead_detail option) outcome" where
  "createLead h o' r =
     (let inp = clo_input o'; orgId = clo_organizationId o';
          status = (if truthy (cli_statusId inp) then map_get (leadStatuses r) (the (cli_statusId inp))
            else defaultLeadStatus orgId r)
      in case status of
           None \<Rightarrow> (Inr None, r)
         | Some s \<Rightarrow>
             if ls_organizationId s \<noteq> orgId \<or> \<not> ls_isActive s then (Inr None, r)
             else if truthy (cli_assignedEmployeeId inp)
               \<and> validateLeadAssignment orgId (clo_scope o') (the (cli_assignedEmployeeId inp)) r = None
             then (Inr None, r)
             else if (case clo_scope o' of ScopeAssigned e \<Rightarrow> cli_assignedEmployeeId inp \<noteq> Some e | _ \<Rightarrow> False)
             then (Inr None, r)
             else
               (let (i, r1) = next_id ''lead'' r;
                    l = new_lead o' s i;
                    r2 = r1\<lparr>leads := map_set i l (leads r1)\<rparr>;
                    team = new_lead_team o' r2;
                    r3 = (if truthy team then r2\<lparr>leadTeams := map_set i (the team) (leadTeams r2)\<rparr> else r2);
                    r4 = add_activity (user_activity orgId i ActCreated (clo_actorUserId o') (clo_at o')
                           ''Lead created'' None) r3
                in return_detail h l (clo_at o') r4))"

record update_lead_options =
  ulo_organizationId :: string
  ulo_scope :: lead_access_scope
  ulo_leadId :: string
  ulo_actorUserId :: string
  ulo_canAssign :: bool
  ulo_request :: update_lead_request
  ulo_at :: string

text \<open>\<open>setOptional\<close>: leave alone, delete, or set.\<close>

definition set_optional :: "'v option option \<Rightarrow> 'v option \<Rightarrow> 'v option" where
  "set_optional change old = (case change of None \<Rightarrow> old | Some v \<Rightarrow> v)"

definition set_plain :: "'v option \<Rightarrow> 'v \<Rightarrow> 'v" where
  "set_plain change old = (case change of None \<Rightarrow> old | Some v \<Rightarrow> v)"

definition apply_changes :: "update_lead_input \<Rightarrow> string \<Rightarrow> lead \<Rightarrow> lead" where
  "apply_changes c ts l = l\<lparr>
     lead_firstName := set_plain (uli_firstName c) (lead_firstName l),
     lead_phoneNumber := set_plain (uli_phoneNumber c) (lead_phoneNumber l),
     lead_statusId := set_plain (uli_statusId c) (lead_statusId l),
     lead_tagIds := set_plain (uli_tagIds c) (lead_tagIds l),
     lead_customFields := set_plain (uli_customFields c) (lead_customFields l),
     lead_lastName := set_optional (uli_lastName c) (lead_lastName l),
     lead_companyName := set_optional (uli_companyName c) (lead_companyName l),
     lead_alternatePhoneNumber := set_optional (uli_alternatePhoneNumber c) (lead_alternatePhoneNumber l),
     lead_email := set_optional (uli_email c) (lead_email l),
     lead_temperature := set_optional (uli_temperature c) (lead_temperature l),
     lead_assignedEmployeeId := set_optional (uli_assignedEmployeeId c) (lead_assignedEmployeeId l),
     lead_archivedAt := (case uli_archived c of None \<Rightarrow> lead_archivedAt l
       | Some True \<Rightarrow> Some ts | Some False \<Rightarrow> None)\<rparr>"

text \<open>The checks between the version test and the first write.\<close>

definition changes_allowed :: "update_lead_options \<Rightarrow> 'a lead_state_scheme \<Rightarrow> bool" where
  "changes_allowed o' r =
     (let c = ulr_changes (ulo_request o'); orgId = ulo_organizationId o' in
      (case uli_statusId c of None \<Rightarrow> True
       | Some i \<Rightarrow> (case map_get (leadStatuses r) i of None \<Rightarrow> False
           | Some s \<Rightarrow> ls_organizationId s = orgId \<and> ls_isActive s))
      \<and> (case uli_assignedEmployeeId c of None \<Rightarrow> True
         | Some a \<Rightarrow> ulo_canAssign o'
             \<and> (case a of None \<Rightarrow> True
                | Some e \<Rightarrow> validateLeadAssignment orgId (ulo_scope o') e r \<noteq> None)))"

definition update_kind :: "lead \<Rightarrow> lead \<Rightarrow> lead_activity_kind" where
  "update_kind old new =
     (if lead_statusId old \<noteq> lead_statusId new then ActStatusChanged
      else if lead_assignedEmployeeId old \<noteq> lead_assignedEmployeeId new
      then (if truthy (lead_assignedEmployeeId new) then ActAssigned else ActUnassigned)
      else ActUpdated)"

definition update_summary :: "lead_activity_kind \<Rightarrow> lead_status \<Rightarrow> string" where
  "update_summary kind s =
     (case kind of ActStatusChanged \<Rightarrow> ''Status changed to '' @ ls_name s
      | ActAssigned \<Rightarrow> ''Lead assigned'' | ActUnassigned \<Rightarrow> ''Lead unassigned'' | _ \<Rightarrow> ''Lead updated'')"

definition json_or_null :: "string option \<Rightarrow> json" where
  "json_or_null s = (case s of None \<Rightarrow> JNull | Some t \<Rightarrow> JString t)"

definition stamp_outcomes :: "lead_status \<Rightarrow> string \<Rightarrow> lead \<Rightarrow> lead" where
  "stamp_outcomes s ts l = l\<lparr>
     lead_convertedAt := (if ls_isWon s \<and> \<not> truthy (lead_convertedAt l) then Some ts else lead_convertedAt l),
     lead_lostAt := (if ls_isLost s \<and> \<not> truthy (lead_lostAt l) then Some ts else lead_lostAt l)\<rparr>"

definition touch_lead :: "string \<Rightarrow> string \<Rightarrow> lead \<Rightarrow> lead" where
  "touch_lead ts actor l = l\<lparr>lead_version := lead_version l + 1, updatedAt := ts, updatedBy := Some actor\<rparr>"

text \<open>
  The writes of \<open>updateLead\<close>. The lead object is changed before \<open>statusForLead\<close>, which may throw:
  then the changed fields stay, without a new version and without an activity.
\<close>

definition update_commit ::
  "host \<Rightarrow> update_lead_options \<Rightarrow> lead \<Rightarrow> 'a lead_state_scheme \<Rightarrow> ('a lead_state_scheme, lead_detail option) outcome" where
  "update_commit h o' l r =
     (let c = ulr_changes (ulo_request o'); ts = ulo_at o'; key = ulo_leadId o';
          l1 = apply_changes c ts l;
          r1 = r\<lparr>leads := map_set key l1 (leads r)\<rparr>;
          team = (case uli_assignedEmployeeId c of
              Some (Some e) \<Rightarrow> if e \<noteq> [] then Option.bind (map_get (employees r) e) emp_team else None
            | _ \<Rightarrow> None);
          r2 = (if truthy team then r1\<lparr>leadTeams := map_set (lead_id l) (the team) (leadTeams r1)\<rparr> else r1)
      in case statusForLead l1 r2 of
           Inl e \<Rightarrow> (Inl e, r2)
         | Inr s \<Rightarrow>
             (let l2 = touch_lead ts (ulo_actorUserId o') (stamp_outcomes s ts l1);
                  r3 = r2\<lparr>leads := map_set key l2 (leads r2)\<rparr>;
                  kind = update_kind l l2;
                  meta = [(''oldStatusId'', JString (lead_statusId l)), (''newStatusId'', JString (lead_statusId l2)),
                    (''oldAssignedEmployeeId'', json_or_null (lead_assignedEmployeeId l)),
                    (''newAssignedEmployeeId'', json_or_null (lead_assignedEmployeeId l2))];
                  r4 = add_activity (user_activity (ulo_organizationId o') (lead_id l) kind (ulo_actorUserId o') ts
                         (update_summary kind s) (Some meta)) r3
              in return_detail h l2 ts r4))"

definition updateLead ::
  "host \<Rightarrow> update_lead_options \<Rightarrow> 'a lead_state_scheme \<Rightarrow> ('a lead_state_scheme, lead_detail option) outcome" where
  "updateLead h o' r =
     (case map_get (leads r) (ulo_leadId o') of
        None \<Rightarrow> (Inr None, r)
      | Some l \<Rightarrow>
          if lead_organizationId l \<noteq> ulo_organizationId o' \<or> \<not> canAccessLead (ulo_scope o') l r then (Inr None, r)
          else if lead_version l \<noteq> ulr_expectedVersion (ulo_request o')
          then (Inl (conflict ''The lead changed; refresh and retry''), r)
          else if \<not> changes_allowed o' r then (Inr None, r)
          else update_commit h o' l r)"

definition new_note :: "string \<Rightarrow> string \<Rightarrow> string \<Rightarrow> string \<Rightarrow> bool \<Rightarrow> string \<Rightarrow> string \<Rightarrow> lead_note" where
  "new_note orgId leadId actor body pinned ts i =
     \<lparr>createdAt = ts, updatedAt = ts, createdBy = Some actor, updatedBy = Some actor,
      note_id = i, note_organizationId = orgId, note_leadId = leadId, note_authorUserId = actor,
      note_body = body, note_isPinned = pinned\<rparr>"

definition add_note :: "(string \<Rightarrow> lead_note) \<Rightarrow> 'a lead_state_scheme \<Rightarrow> 'a lead_state_scheme" where
  "add_note mk r = (let (i, r1) = next_id ''lead_note'' r in r1\<lparr>leadNotes := map_set i (mk i) (leadNotes r1)\<rparr>)"

record create_note_options =
  cno_organizationId :: string
  cno_scope :: lead_access_scope
  cno_leadId :: string
  cno_actorUserId :: string
  cno_input :: create_lead_note_input
  cno_at :: string

definition createLeadNote ::
  "host \<Rightarrow> create_note_options \<Rightarrow> 'a lead_state_scheme \<Rightarrow> ('a lead_state_scheme, lead_detail option) outcome" where
  "createLeadNote h o' r =
     (case map_get (leads r) (cno_leadId o') of
        None \<Rightarrow> (Inr None, r)
      | Some l \<Rightarrow>
          if lead_organizationId l \<noteq> cno_organizationId o' \<or> \<not> canAccessLead (cno_scope o') l r then (Inr None, r)
          else
            (let r1 = add_note (new_note (cno_organizationId o') (lead_id l) (cno_actorUserId o')
                   (cni_body (cno_input o')) (case cni_isPinned (cno_input o') of None \<Rightarrow> False | Some b \<Rightarrow> b)
                   (cno_at o')) r;
                 r2 = add_activity (user_activity (cno_organizationId o') (lead_id l) ActNoteAdded
                   (cno_actorUserId o') (cno_at o') ''Note added'' None) r1
             in return_detail h l (cno_at o') r2))"

record create_follow_up_options =
  cfo_organizationId :: string
  cfo_scope :: lead_access_scope
  cfo_leadId :: string
  cfo_actorUserId :: string
  cfo_input :: create_follow_up_input
  cfo_at :: string

definition new_follow_up :: "create_follow_up_options \<Rightarrow> string \<Rightarrow> string \<Rightarrow> follow_up" where
  "new_follow_up o' leadId i =
     (let inp = cfo_input o'; actor = Some (cfo_actorUserId o') in
      \<lparr>createdAt = cfo_at o', updatedAt = cfo_at o', createdBy = actor, updatedBy = actor,
       fu_id = i, fu_organizationId = cfo_organizationId o', fu_leadId = leadId,
       fu_assignedEmployeeId = cfi_assignedEmployeeId inp, fu_title = cfi_title inp, fu_notes = cfi_notes inp,
       fu_dueAt = cfi_dueAt inp, fu_reminderAt = cfi_reminderAt inp,
       fu_priority = (case cfi_priority inp of None \<Rightarrow> PrioNormal | Some p \<Rightarrow> p), fu_status = FuPending,
       fu_completedAt = None, fu_completedByUserId = None, fu_version = 1\<rparr>)"

text \<open>The due date of the first pending follow-up, in the order the lists use.\<close>

definition next_due :: "host \<Rightarrow> string \<Rightarrow> string \<Rightarrow> 'a lead_state_scheme \<Rightarrow> string option" where
  "next_due h orgId leadId r =
     map_option fu_dueAt (find (\<lambda>f. fu_status f = FuPending) (followUpsForLead h orgId leadId r))"

definition createLeadFollowUp ::
  "host \<Rightarrow> create_follow_up_options \<Rightarrow> 'a lead_state_scheme \<Rightarrow> ('a lead_state_scheme, lead_detail option) outcome" where
  "createLeadFollowUp h o' r =
     (case map_get (leads r) (cfo_leadId o') of
        None \<Rightarrow> (Inr None, r)
      | Some l \<Rightarrow>
          if lead_organizationId l \<noteq> cfo_organizationId o' \<or> \<not> canAccessLead (cfo_scope o') l r
             \<or> cfi_leadId (cfo_input o') \<noteq> lead_id l
             \<or> validateLeadAssignment (cfo_organizationId o') (cfo_scope o') (cfi_assignedEmployeeId (cfo_input o')) r = None
          then (Inr None, r)
          else
            (let (i, r1) = next_id ''follow_up'' r;
                 r2 = r1\<lparr>leadFollowUps := map_set i (new_follow_up o' (lead_id l) i) (leadFollowUps r1)\<rparr>;
                 due = next_due h (cfo_organizationId o') (lead_id l) r2;
                 l1 = touch_lead (cfo_at o') (cfo_actorUserId o')
                   (if truthy due then l\<lparr>lead_nextFollowUpAt := due\<rparr> else l);
                 r3 = r2\<lparr>leads := map_set (cfo_leadId o') l1 (leads r2)\<rparr>;
                 r4 = add_activity (user_activity (cfo_organizationId o') (lead_id l) ActFollowUpCreated
                   (cfo_actorUserId o') (cfo_at o') ''Follow-up scheduled'' None) r3
             in return_detail h l1 (cfo_at o') r4))"

record complete_follow_up_options =
  cpo_organizationId :: string
  cpo_scope :: lead_access_scope
  cpo_followUpId :: string
  cpo_actorUserId :: string
  cpo_input :: complete_follow_up_input
  cpo_at :: string

definition completed_follow_up :: "complete_follow_up_options \<Rightarrow> follow_up \<Rightarrow> follow_up" where
  "completed_follow_up o' f = f\<lparr>fu_status := FuCompleted,
     fu_completedAt := Some (case cpi_completedAt (cpo_input o') of None \<Rightarrow> cpo_at o' | Some t \<Rightarrow> t),
     fu_completedByUserId := Some (cpo_actorUserId o'), updatedAt := cpo_at o',
     updatedBy := Some (cpo_actorUserId o'), fu_version := fu_version f + 1\<rparr>"

definition complete_commit ::
  "host \<Rightarrow> complete_follow_up_options \<Rightarrow> follow_up \<Rightarrow> lead \<Rightarrow> 'a lead_state_scheme \<Rightarrow>
   ('a lead_state_scheme, lead_detail option) outcome" where
  "complete_commit h o' f l r =
     (let orgId = cpo_organizationId o'; ts = cpo_at o'; actor = cpo_actorUserId o';
          r1 = r\<lparr>leadFollowUps := map_set (cpo_followUpId o') (completed_follow_up o' f) (leadFollowUps r)\<rparr>;
          r2 = (if truthy (cpi_completionNote (cpo_input o'))
            then add_note (new_note orgId (lead_id l) actor (the (cpi_completionNote (cpo_input o'))) False ts) r1
            else r1);
          due = next_due h orgId (lead_id l) r2;
          l1 = touch_lead ts actor (l\<lparr>lead_nextFollowUpAt := (if truthy due then due else None)\<rparr>);
          r3 = r2\<lparr>leads := map_set (fu_leadId f) l1 (leads r2)\<rparr>;
          r4 = add_activity (user_activity orgId (lead_id l) ActFollowUpCompleted actor ts ''Follow-up completed'' None) r3
      in return_detail h l1 ts r4)"

definition completeLeadFollowUp ::
  "host \<Rightarrow> complete_follow_up_options \<Rightarrow> 'a lead_state_scheme \<Rightarrow> ('a lead_state_scheme, lead_detail option) outcome" where
  "completeLeadFollowUp h o' r =
     (case map_get (leadFollowUps r) (cpo_followUpId o') of
        None \<Rightarrow> (Inr None, r)
      | Some f \<Rightarrow>
          if fu_organizationId f \<noteq> cpo_organizationId o' then (Inr None, r)
          else (case map_get (leads r) (fu_leadId f) of
              None \<Rightarrow> (Inr None, r)
            | Some l \<Rightarrow>
                if \<not> canAccessLead (cpo_scope o') l r then (Inr None, r)
                else if fu_version f \<noteq> cpi_expectedVersion (cpo_input o')
                then (Inl (conflict ''The follow-up changed; refresh and retry''), r)
                else if fu_status f \<noteq> FuPending
                then (Inl (conflict ''The follow-up is no longer pending''), r)
                else complete_commit h o' f l r))"

end
