(* ===== verification/Calls.thy ===== *)
theory Calls
  imports Leads
begin

text \<open>
  Calls and how they reach leads: simulated and mobile call ingestion with its idempotency
  records, automatic linking to a unique lead of the caller's team, manual correction of a link,
  the call listings, and the lead updates a mobile session may send (\<open>repository.ts\<close>).
  \<open>fingerprint\<close> (SHA-256 of the JSON text, from Node's \<open>crypto\<close>) is a parameter.
\<close>

section \<open>State\<close>

record call_sync_item =
  it_localId :: string
  it_nativeCallId :: "string option"
  it_simCardId :: "string option"
  it_phoneNumber :: string
  it_contactName :: "string option"
  it_direction :: call_direction
  it_disposition :: call_disposition
  it_startedAt :: string
  it_answeredAt :: "string option"
  it_endedAt :: "string option"
  it_durationSeconds :: int
  it_ringDurationSeconds :: "int option"
  it_isInternal :: "bool option"
  it_nativeLastModifiedAt :: "string option"
  it_recordingLocalId :: "string option"

datatype sync_outcome = SyncCreated | SyncUpdated | SyncDuplicate | SyncRejected

record sync_item_result =
  sir_localId :: string
  sir_outcome :: sync_outcome
  sir_callLogId :: "string option"

record sync_result =
  syr_batchId :: string
  syr_acceptedAt :: string
  syr_nextCursor :: string
  syr_items :: "sync_item_result list"
  syr_serverTime :: string

record idempotency_record =
  idm_fingerprint :: string
  idm_callId :: string

record batch_record =
  btr_payloadHash :: string
  btr_result :: sync_result

record correction_result =
  cor_requestId :: string
  cor_callLogId :: string
  cor_previousLeadId :: "string option"
  cor_replacementLeadId :: "string option"
  cor_correctedAt :: string
  cor_replayed :: bool

record correction_record =
  crr_fingerprint :: string
  crr_result :: correction_result

record mobile_update_record =
  mur_fingerprint :: string
  mur_leadId :: string
  mur_requestId :: string
  mur_appliedLeadVersion :: int

record call_state = lead_state +
  leadIdByCallId :: "(string, string) jsmap"
  calls :: "(string, call_log) jsmap"
  callIdByExternalId :: "(string, string) jsmap"
  callFingerprintByExternalId :: "(string, string) jsmap"
  idempotency :: "(string, idempotency_record) jsmap"
  mobileBatches :: "(string, batch_record) jsmap"
  callLeadCorrectionRequests :: "(string, correction_record) jsmap"
  mobileLeadUpdateRequests :: "(string, mobile_update_record) jsmap"

section \<open>Automatic linking\<close>

text \<open>The leads a call could belong to, each with the key it is stored under.\<close>

definition phone_matches :: "call_log \<Rightarrow> string \<Rightarrow> 'a call_state_scheme \<Rightarrow> lead \<Rightarrow> bool" where
  "phone_matches c team r l \<longleftrightarrow>
     lead_organizationId l = call_organizationId c \<and> \<not> truthy (lead_archivedAt l)
     \<and> map_get (leadTeams r) (lead_id l) = Some team
     \<and> (lead_phoneNumber l = part_phoneNumber (call_participant c)
        \<or> lead_alternatePhoneNumber l = Some (part_phoneNumber (call_participant c)))"

definition link_candidates :: "call_log \<Rightarrow> string \<Rightarrow> 'a call_state_scheme \<Rightarrow> (string \<times> lead) list" where
  "link_candidates c team r =
     (let existing = map_get (leadIdByCallId r) (call_id c) in
      if truthy existing
      then (case map_get (leads r) (the existing) of None \<Rightarrow> [] | Some l \<Rightarrow> [(the existing, l)])
      else filter (\<lambda>(k, l). phone_matches c team r l) (leads r))"

definition contact_lead :: "call_log \<Rightarrow> string \<Rightarrow> lead \<Rightarrow> lead" where
  "contact_lead c ts l =
     (if call_disposition c = Answered
        \<and> (case lead_lastContactedAt l of None \<Rightarrow> True | Some t \<Rightarrow> t < call_startedAt c)
      then l\<lparr>lead_lastContactedAt := Some (call_startedAt c), updatedAt := ts, lead_version := lead_version l + 1\<rparr>
      else l)"

definition link_activity :: "call_log \<Rightarrow> string \<Rightarrow> string \<Rightarrow> lead_activity" where
  "link_activity c leadId i =
     \<lparr>act_id = i, act_organizationId = call_organizationId c, act_leadId = leadId, act_kind = ActCallLinked,
      act_actorUserId = None, act_actorEmployeeId = None, act_callLogId = Some (call_id c),
      act_occurredAt = call_startedAt c,
      act_summary = (if call_direction c = Outgoing then ''Outgoing'' else ''Incoming'') @ '' ''
        @ disposition_string (call_disposition c) @ '' call linked'',
      act_metadata = Some [(''direction'', JString (direction_string (call_direction c))),
        (''disposition'', JString (disposition_string (call_disposition c))),
        (''linkSource'', JString ''automatic''), (''matchConfidence'', JNum 1)]\<rparr>"

definition linkCallToUniqueLead :: "call_log \<Rightarrow> string \<Rightarrow> 'a call_state_scheme \<Rightarrow> 'a call_state_scheme" where
  "linkCallToUniqueLead c ts r =
     (if part_isInternal (call_participant c) then r
      else (let team = Option.bind (map_get (employees r) (call_employeeId c)) emp_team in
        if \<not> truthy team then r
        else (case link_candidates c (the team) r of
            [(k, l)] \<Rightarrow>
              (let r1 = r\<lparr>leads := map_set k (contact_lead c ts l) (leads r)\<rparr> in
               if truthy (map_get (leadIdByCallId r) (call_id c)) then r1
               else add_activity (link_activity c (lead_id l))
                 (r1\<lparr>leadIdByCallId := map_set (call_id c) (lead_id l) (leadIdByCallId r1)\<rparr>))
          | _ \<Rightarrow> r)))"

section \<open>Ingesting a simulated call\<close>

record simulated_call =
  sc_externalId :: string
  sc_employeeId :: string
  sc_deviceId :: "string option"
  sc_direction :: call_direction
  sc_disposition :: call_disposition
  sc_phoneNumber :: string
  sc_displayName :: "string option"
  sc_isInternal :: bool
  sc_startedAt :: string
  sc_answeredAt :: "string option"
  sc_endedAt :: "string option"
  sc_durationSeconds :: int
  sc_ringDurationSeconds :: "int option"
  sc_isWithinWorkingHours :: bool

record ingest_options =
  ino_organizationId :: string
  ino_input :: simulated_call
  ino_idempotencyKey :: string
  ino_fingerprint :: string
  ino_actorUserId :: string
  ino_at :: string

record ingest_result =
  inr_call :: call_log
  inr_duplicate :: bool
  inr_conflict :: bool

definition simulated_log :: "ingest_options \<Rightarrow> string \<Rightarrow> call_log" where
  "simulated_log o' i =
     (let inp = ino_input o'; actor = Some (ino_actorUserId o') in
      \<lparr>createdAt = ino_at o', updatedAt = ino_at o', createdBy = actor, updatedBy = actor,
       call_id = i, call_organizationId = ino_organizationId o', call_employeeId = sc_employeeId inp,
       call_deviceId = sc_deviceId inp, call_simCardId = None, call_externalId = Some (sc_externalId inp),
       call_source = ManualCall, call_direction = sc_direction inp, call_disposition = sc_disposition inp,
       call_participant = \<lparr>part_phoneNumber = sc_phoneNumber inp, part_displayName = sc_displayName inp,
         part_contactId = None, part_isInternal = sc_isInternal inp\<rparr>,
       call_startedAt = sc_startedAt inp, call_answeredAt = sc_answeredAt inp, call_endedAt = sc_endedAt inp,
       call_durationSeconds = sc_durationSeconds inp, call_ringDurationSeconds = sc_ringDurationSeconds inp,
       call_isWithinWorkingHours = sc_isWithinWorkingHours inp, call_recordingStatus = RecNotExpected,
       call_recordingId = None, call_leadId = None, call_noteCount = 0, call_isPinned = False\<rparr>)"

definition ingest_external_key :: "ingest_options \<Rightarrow> string" where
  "ingest_external_key o' = key3 (ino_organizationId o')
     (case sc_deviceId (ino_input o') of None \<Rightarrow> ''simulated'' | Some d \<Rightarrow> d) (sc_externalId (ino_input o'))"

definition ingestCall ::
  "ingest_options \<Rightarrow> 'a call_state_scheme \<Rightarrow> ('a call_state_scheme, ingest_result) outcome" where
  "ingestCall o' r =
     (let ikey = key2 (ino_organizationId o') (ino_idempotencyKey o'); xkey = ingest_external_key o';
          fp = ino_fingerprint o' in
      case map_get (idempotency r) ikey of
        Some p \<Rightarrow>
          (case map_get (calls r) (idm_callId p) of
             None \<Rightarrow> (Inl (JsError ''In-memory idempotency record is corrupt''), r)
           | Some c \<Rightarrow> (Inr \<lparr>inr_call = c, inr_duplicate = (idm_fingerprint p = fp),
               inr_conflict = (idm_fingerprint p \<noteq> fp)\<rparr>, r))
      | None \<Rightarrow>
          (let prior = map_get (callIdByExternalId r) xkey in
           if truthy prior then
             (case map_get (calls r) (the prior) of
                None \<Rightarrow> (Inl (JsError ''In-memory external ID record is corrupt''), r)
              | Some c \<Rightarrow>
                  (let clash = (case map_get (callFingerprintByExternalId r) xkey of None \<Rightarrow> False | Some f \<Rightarrow> f \<noteq> fp);
                       r1 = (if clash then r else r\<lparr>idempotency := map_set ikey
                         \<lparr>idm_fingerprint = fp, idm_callId = call_id c\<rparr> (idempotency r)\<rparr>)
                   in (Inr \<lparr>inr_call = c, inr_duplicate = (\<not> clash), inr_conflict = clash\<rparr>, r1)))
           else
             (let (i, r1) = next_id ''call'' r; c = simulated_log o' i;
                  r2 = r1\<lparr>calls := map_set i c (calls r1),
                    callIdByExternalId := map_set xkey i (callIdByExternalId r1),
                    callFingerprintByExternalId := map_set xkey fp (callFingerprintByExternalId r1),
                    idempotency := map_set ikey \<lparr>idm_fingerprint = fp, idm_callId = i\<rparr> (idempotency r1)\<rparr>
              in (Inr \<lparr>inr_call = c, inr_duplicate = False, inr_conflict = False\<rparr>,
                  linkCallToUniqueLead c (ino_at o') r2))))"

section \<open>Ingesting a mobile batch\<close>

record batch_options =
  bo_context :: mobile_context
  bo_batchId :: string
  bo_items :: "call_sync_item list"
  bo_payloadHash :: string
  bo_nextCursor :: string
  bo_at :: string
  bo_allowWithoutCallLogPermission :: bool

definition item_participant :: "call_sync_item \<Rightarrow> call_participant" where
  "item_participant it = \<lparr>part_phoneNumber = it_phoneNumber it, part_displayName = it_contactName it,
     part_contactId = None, part_isInternal = (case it_isInternal it of None \<Rightarrow> False | Some b \<Rightarrow> b)\<rparr>"

definition item_log :: "batch_options \<Rightarrow> call_sync_item \<Rightarrow> string \<Rightarrow> call_log" where
  "item_log o' it i =
     \<lparr>createdAt = bo_at o', updatedAt = bo_at o', createdBy = None, updatedBy = None,
      call_id = i, call_organizationId = ctx_organizationId (bo_context o'),
      call_employeeId = ctx_employeeId (bo_context o'), call_deviceId = Some (ctx_deviceId (bo_context o')),
      call_simCardId = it_simCardId it, call_externalId = Some (it_localId it), call_source = MobileCallLog,
      call_direction = it_direction it, call_disposition = it_disposition it,
      call_participant = item_participant it, call_startedAt = it_startedAt it,
      call_answeredAt = it_answeredAt it, call_endedAt = it_endedAt it,
      call_durationSeconds = it_durationSeconds it, call_ringDurationSeconds = it_ringDurationSeconds it,
      call_isWithinWorkingHours = False, call_recordingStatus = RecNotExpected, call_recordingId = None,
      call_leadId = None, call_noteCount = 0, call_isPinned = False\<rparr>"

definition item_rewrite :: "string \<Rightarrow> call_sync_item \<Rightarrow> call_log \<Rightarrow> call_log" where
  "item_rewrite ts it c = c\<lparr>call_direction := it_direction it, call_disposition := it_disposition it,
     call_participant := item_participant it, call_startedAt := it_startedAt it,
     call_durationSeconds := it_durationSeconds it, updatedAt := ts, call_answeredAt := it_answeredAt it,
     call_endedAt := it_endedAt it, call_ringDurationSeconds := it_ringDurationSeconds it\<rparr>"

definition item_key :: "batch_options \<Rightarrow> call_sync_item \<Rightarrow> string" where
  "item_key o' it = key3 (ctx_organizationId (bo_context o')) (ctx_deviceId (bo_context o')) (it_localId it)"

definition item_result :: "call_sync_item \<Rightarrow> sync_outcome \<Rightarrow> string \<Rightarrow> sync_item_result" where
  "item_result it out i = \<lparr>sir_localId = it_localId it, sir_outcome = out, sir_callLogId = Some i\<rparr>"

text \<open>One turn of the loop over \<open>batch.items\<close>.\<close>

definition ingest_item ::
  "(call_sync_item \<Rightarrow> string) \<Rightarrow> batch_options \<Rightarrow> call_sync_item \<Rightarrow> 'a call_state_scheme \<Rightarrow>
   ('a call_state_scheme, sync_item_result) outcome" where
  "ingest_item fingerprint o' it r =
     (let xkey = item_key o' it; fp = fingerprint it; prior = map_get (callIdByExternalId r) xkey in
      if truthy prior then
        (case map_get (calls r) (the prior) of
           None \<Rightarrow> (Inl (JsError ''In-memory mobile external ID record is corrupt''), r)
         | Some c \<Rightarrow>
             if map_get (callFingerprintByExternalId r) xkey = Some fp
             then (Inr (item_result it SyncDuplicate (call_id c)), r)
             else (let c' = item_rewrite (bo_at o') it c;
                       r1 = r\<lparr>calls := map_set (the prior) c' (calls r),
                         callFingerprintByExternalId := map_set xkey fp (callFingerprintByExternalId r)\<rparr>
                   in (Inr (item_result it SyncUpdated (call_id c)), linkCallToUniqueLead c' (bo_at o') r1)))
      else
        (let (i, r1) = next_id ''call'' r; c = item_log o' it i;
             r2 = r1\<lparr>calls := map_set i c (calls r1),
               callIdByExternalId := map_set xkey i (callIdByExternalId r1),
               callFingerprintByExternalId := map_set xkey fp (callFingerprintByExternalId r1)\<rparr>
         in (Inr (item_result it SyncCreated i), linkCallToUniqueLead c (bo_at o') r2)))"

fun ingest_items ::
  "(call_sync_item \<Rightarrow> string) \<Rightarrow> batch_options \<Rightarrow> call_sync_item list \<Rightarrow> 'a call_state_scheme \<Rightarrow>
   ('a call_state_scheme, sync_item_result list) outcome" where
  "ingest_items fp o' [] r = (Inr [], r)"
| "ingest_items fp o' (it # its) r =
     (case ingest_item fp o' it r of
        (Inl e, r') \<Rightarrow> (Inl e, r')
      | (Inr x, r') \<Rightarrow>
          (case ingest_items fp o' its r' of
             (Inl e, r'') \<Rightarrow> (Inl e, r'')
           | (Inr xs, r'') \<Rightarrow> (Inr (x # xs), r'')))"

definition batch_key :: "batch_options \<Rightarrow> string" where
  "batch_key o' = key3 (ctx_organizationId (bo_context o')) (ctx_deviceId (bo_context o')) (bo_batchId o')"

definition ingestMobileCallBatch ::
  "host \<Rightarrow> (call_sync_item \<Rightarrow> string) \<Rightarrow> batch_options \<Rightarrow> 'a call_state_scheme \<Rightarrow>
   ('a call_state_scheme, sync_result option) outcome" where
  "ingestMobileCallBatch h fp o' r =
     (let ctx = bo_context o'; ts = bo_at o' in
      case findCurrentMobileCredential h ctx CredSession ts r of
        None \<Rightarrow> (Inr None, r)
      | Some cur \<Rightarrow>
          if \<not> isConsentCurrent (ctx_deviceId ctx) r then (Inl consentRequiredDefault, r)
          else if perm_callLog (dev_permissions (cur_device cur)) \<noteq> PermGranted
            \<and> \<not> bo_allowWithoutCallLogPermission o' then (Inr None, r)
          else (case map_get (mobileBatches r) (batch_key o') of
              Some p \<Rightarrow>
                if btr_payloadHash p \<noteq> bo_payloadHash o'
                then (Inl (conflict ''The batch ID was already used with a different payload''), r)
                else (Inr (Some (btr_result p)), r)
            | None \<Rightarrow>
                (case ingest_items fp o' (bo_items o') r of
                   (Inl e, r') \<Rightarrow> (Inl e, r')
                 | (Inr results, r') \<Rightarrow>
                     (let d = (cur_device cur)\<lparr>dev_lastSuccessfulSyncAt := Some ts, dev_lastSeenAt := Some ts,
                            dev_syncState := Idle, updatedAt := ts\<rparr>;
                          result = \<lparr>syr_batchId = bo_batchId o', syr_acceptedAt = ts,
                            syr_nextCursor = bo_nextCursor o', syr_items = results, syr_serverTime = ts\<rparr>
                      in (Inr (Some result), r'\<lparr>devices := map_set (ctx_deviceId ctx) d (devices r'),
                          mobileBatches := map_set (batch_key o')
                            \<lparr>btr_payloadHash = bo_payloadHash o', btr_result = result\<rparr> (mobileBatches r')\<rparr>)))))"

section \<open>Listing calls\<close>

record call_filter =
  clf_employeeId :: "string option"
  clf_direction :: "call_direction option"
  clf_disposition :: "call_disposition option"
  clf_from :: "string option"
  clf_to :: "string option"

record call_cursor =
  cc_startedAt :: string
  cc_id :: string

definition call_matches :: "string \<Rightarrow> call_filter \<Rightarrow> call_log \<Rightarrow> bool" where
  "call_matches orgId f c \<longleftrightarrow>
     call_organizationId c = orgId
     \<and> (truthy (clf_employeeId f) \<longrightarrow> Some (call_employeeId c) = clf_employeeId f)
     \<and> (case clf_direction f of None \<Rightarrow> True | Some d \<Rightarrow> call_direction c = d)
     \<and> (case clf_disposition f of None \<Rightarrow> True | Some d \<Rightarrow> call_disposition c = d)
     \<and> (truthy (clf_from f) \<longrightarrow> \<not> call_startedAt c < the (clf_from f))
     \<and> (truthy (clf_to f) \<longrightarrow> \<not> call_startedAt c \<ge> the (clf_to f))"

definition call_order :: "host \<Rightarrow> call_log \<Rightarrow> call_log \<Rightarrow> int" where
  "call_order h = cmp_or (cmp_desc (cmp_on call_startedAt (localeCompare h))) (cmp_desc (cmp_on call_id (localeCompare h)))"

definition call_after :: "host \<Rightarrow> call_cursor \<Rightarrow> call_log \<Rightarrow> bool" where
  "call_after h k c \<longleftrightarrow> localeCompare h (call_startedAt c) (cc_startedAt k) < 0
     \<or> (call_startedAt c = cc_startedAt k \<and> localeCompare h (call_id c) (cc_id k) < 0)"

definition listCalls ::
  "host \<Rightarrow> string \<Rightarrow> call_filter \<Rightarrow> call_cursor option \<Rightarrow> nat \<Rightarrow> 'a call_state_scheme \<Rightarrow> call_log list \<times> bool" where
  "listCalls h orgId f after limit r =
     page_of limit (after_cursor (call_after h) after
       (js_sort (call_order h) (filter (call_matches orgId f) (map_values (calls r)))))"

definition listCallsInPeriod ::
  "string \<Rightarrow> string \<Rightarrow> string \<Rightarrow> string option \<Rightarrow> 'a call_state_scheme \<Rightarrow> call_log list" where
  "listCallsInPeriod orgId frm to employeeId r =
     filter (\<lambda>c. call_organizationId c = orgId \<and> call_startedAt c \<ge> frm \<and> call_startedAt c < to
       \<and> (case employeeId of None \<Rightarrow> True | Some e \<Rightarrow> call_employeeId c = e)) (map_values (calls r))"

section \<open>Correcting a link by hand\<close>

record correction_options =
  cro_organizationId :: string
  cro_scope :: lead_access_scope
  cro_callId :: string
  cro_requestId :: string
  cro_expectedLeadId :: "string option"
  cro_replacementLeadId :: "string option"
  cro_reason :: string
  cro_actorUserId :: string
  cro_requestFingerprint :: string
  cro_at :: string

definition correction_key :: "correction_options \<Rightarrow> string" where
  "correction_key o' = key2 (cro_organizationId o') (cro_requestId o')"

definition correction_activity ::
  "correction_options \<Rightarrow> call_log \<Rightarrow> lead_activity_kind \<Rightarrow> string \<Rightarrow> string \<Rightarrow> json_record \<Rightarrow> string \<Rightarrow> lead_activity" where
  "correction_activity o' c kind leadId summary extra i =
     \<lparr>act_id = i, act_organizationId = cro_organizationId o', act_leadId = leadId, act_kind = kind,
      act_actorUserId = Some (cro_actorUserId o'), act_actorEmployeeId = None, act_callLogId = Some (call_id c),
      act_occurredAt = cro_at o', act_summary = summary,
      act_metadata = Some ([(''reason'', JString (cro_reason o')), (''requestId'', JString (cro_requestId o'))] @ extra)\<rparr>"

definition correction_commit ::
  "correction_options \<Rightarrow> call_log \<Rightarrow> string option \<Rightarrow> lead option \<Rightarrow> 'a call_state_scheme \<Rightarrow>
   correction_result \<times> 'a call_state_scheme" where
  "correction_commit o' c current replacement r =
     (let r1 = (if truthy current
            then add_activity (correction_activity o' c ActCallUnlinked (the current) ''Call link corrected'' [])
              (r\<lparr>leadIdByCallId := map_delete (call_id c) (leadIdByCallId r)\<rparr>) else r);
          r2 = (case replacement of None \<Rightarrow> r1
            | Some l \<Rightarrow> add_activity (correction_activity o' c ActCallLinked (lead_id l) ''Call manually linked''
                  [(''linkSource'', JString ''manual'')])
                (r1\<lparr>leadIdByCallId := map_set (call_id c) (lead_id l) (leadIdByCallId r1)\<rparr>));
          result = \<lparr>cor_requestId = cro_requestId o', cor_callLogId = call_id c, cor_previousLeadId = current,
            cor_replacementLeadId = map_option lead_id replacement, cor_correctedAt = cro_at o', cor_replayed = False\<rparr>
      in (result, r2\<lparr>callLeadCorrectionRequests := map_set (correction_key o')
            \<lparr>crr_fingerprint = cro_requestFingerprint o', crr_result = result\<rparr> (callLeadCorrectionRequests r2)\<rparr>))"

definition correctCallLeadLink ::
  "correction_options \<Rightarrow> 'a call_state_scheme \<Rightarrow> ('a call_state_scheme, correction_result option) outcome" where
  "correctCallLeadLink o' r =
     (case map_get (callLeadCorrectionRequests r) (correction_key o') of
        Some p \<Rightarrow>
          if crr_fingerprint p \<noteq> cro_requestFingerprint o'
          then (Inl (conflict ''The correction request ID was already used with a different payload''), r)
          else (Inr (Some ((crr_result p)\<lparr>cor_replayed := True\<rparr>)), r)
      | None \<Rightarrow>
          (case map_get (calls r) (cro_callId o') of
             None \<Rightarrow> (Inr None, r)
           | Some c \<Rightarrow>
               if call_organizationId c \<noteq> cro_organizationId o' then (Inr None, r)
               else (let current = map_get (leadIdByCallId r) (call_id c) in
                 if current \<noteq> cro_expectedLeadId o'
                 then (Inl (conflict ''The call link changed; refresh and retry''), r)
                 else (let currentLead = (if truthy current then map_get (leads r) (the current) else None);
                           wanted = cro_replacementLeadId o';
                           replacement = (if truthy wanted then map_get (leads r) (the wanted) else None);
                           callTeam = Option.bind (map_get (employees r) (call_employeeId c)) emp_team in
                   if (case currentLead of None \<Rightarrow> False | Some l \<Rightarrow> \<not> canAccessLead (cro_scope o') l r)
                   then (Inr None, r)
                   else if truthy wanted \<and> (case replacement of None \<Rightarrow> True
                     | Some l \<Rightarrow> lead_organizationId l \<noteq> cro_organizationId o' \<or> truthy (lead_archivedAt l)
                         \<or> \<not> canAccessLead (cro_scope o') l r)
                   then (Inr None, r)
                   else if (case replacement of None \<Rightarrow> False
                     | Some l \<Rightarrow> map_get (leadTeams r) (lead_id l) \<noteq> callTeam)
                   then (Inr None, r)
                   else (let (res, r') = correction_commit o' c current replacement r in (Inr (Some res), r'))))))"

section \<open>Lead updates from a mobile session\<close>

record mobile_follow_up =
  mfu_title :: string
  mfu_notes :: "string option"
  mfu_dueAt :: string
  mfu_reminderAt :: "string option"
  mfu_priority :: "follow_up_priority option"

record mobile_update_options =
  muo_context :: mobile_context
  muo_leadId :: string
  muo_requestId :: string
  muo_expectedLeadVersion :: int
  muo_occurredAt :: string
  muo_statusId :: "string option"
  muo_note :: "string option"
  muo_followUp :: "mobile_follow_up option"
  muo_requestFingerprint :: string
  muo_at :: string

record mobile_receipt =
  mrc_requestId :: string
  mrc_replayed :: bool
  mrc_appliedLeadVersion :: int
  mrc_detail :: "lead_detail option"

definition mobile_update_key :: "mobile_update_options \<Rightarrow> string" where
  "mobile_update_key o' = key3 (ctx_organizationId (muo_context o')) (ctx_deviceId (muo_context o')) (muo_requestId o')"

text \<open>\<open>occurredAt\<close> is more than five minutes ahead or more than seven days behind.\<close>

definition outside_window :: "host \<Rightarrow> mobile_update_options \<Rightarrow> bool" where
  "outside_window h o' =
     (let occurred = h_parse h (muo_occurredAt o'); received = h_parse h (muo_at o')
      in date_gt_ms occurred (map_option (\<lambda>t. t + 5 * 60 * 1000) received)
         \<or> date_gt_ms (map_option (\<lambda>t. t - 7 * 24 * 60 * 60 * 1000) received) occurred)"

definition reminder_late :: "host \<Rightarrow> mobile_update_options \<Rightarrow> bool" where
  "reminder_late h o' =
     (case muo_followUp o' of None \<Rightarrow> False
      | Some f \<Rightarrow> truthy (mfu_reminderAt f)
          \<and> date_gt_ms (h_parse h (the (mfu_reminderAt f))) (h_parse h (mfu_dueAt f)))"

definition mobile_activity ::
  "mobile_update_options \<Rightarrow> lead \<Rightarrow> lead_activity_kind \<Rightarrow> string \<Rightarrow> json_record \<Rightarrow> string \<Rightarrow> lead_activity" where
  "mobile_activity o' l kind summary extra i =
     \<lparr>act_id = i, act_organizationId = lead_organizationId l, act_leadId = lead_id l, act_kind = kind,
      act_actorUserId = None, act_actorEmployeeId = Some (ctx_employeeId (muo_context o')), act_callLogId = None,
      act_occurredAt = muo_occurredAt o', act_summary = summary,
      act_metadata = Some ([(''requestId'', JString (muo_requestId o')),
        (''deviceId'', JString (ctx_deviceId (muo_context o')))] @ extra)\<rparr>"

definition mobile_status_step ::
  "mobile_update_options \<Rightarrow> lead_status option \<Rightarrow> lead \<Rightarrow> 'a call_state_scheme \<Rightarrow> lead \<times> 'a call_state_scheme" where
  "mobile_status_step o' status l r =
     (case status of None \<Rightarrow> (l, r)
      | Some s \<Rightarrow>
          (let l' = l\<lparr>lead_statusId := ls_id s,
                 lead_convertedAt := (if ls_isWon s then Some (muo_at o') else None),
                 lead_lostAt := (if ls_isLost s then Some (muo_at o') else None)\<rparr>
           in (l', add_activity (mobile_activity o' l' ActStatusChanged (''Status changed to '' @ ls_name s) []) r)))"

definition mobile_note_step ::
  "mobile_update_options \<Rightarrow> string \<Rightarrow> lead \<Rightarrow> 'a call_state_scheme \<Rightarrow> 'a call_state_scheme" where
  "mobile_note_step o' actor l r =
     (case muo_note o' of None \<Rightarrow> r
      | Some body \<Rightarrow>
          (let noteId = sequential_id ''lead_note'' (Suc (ids r));
               r1 = add_note (new_note (lead_organizationId l) (lead_id l) actor body False (muo_at o')) r
           in add_activity (mobile_activity o' l ActNoteAdded ''Mobile note added'' [(''noteId'', JString noteId)]) r1))"

definition mobile_new_follow_up :: "mobile_update_options \<Rightarrow> string \<Rightarrow> lead \<Rightarrow> mobile_follow_up \<Rightarrow> string \<Rightarrow> follow_up" where
  "mobile_new_follow_up o' actor l f i =
     \<lparr>createdAt = muo_at o', updatedAt = muo_at o', createdBy = Some actor, updatedBy = Some actor,
      fu_id = i, fu_organizationId = lead_organizationId l, fu_leadId = lead_id l,
      fu_assignedEmployeeId = ctx_employeeId (muo_context o'), fu_title = mfu_title f, fu_notes = mfu_notes f,
      fu_dueAt = mfu_dueAt f, fu_reminderAt = mfu_reminderAt f,
      fu_priority = (case mfu_priority f of None \<Rightarrow> PrioNormal | Some p \<Rightarrow> p), fu_status = FuPending,
      fu_completedAt = None, fu_completedByUserId = None, fu_version = 1\<rparr>"

definition mobile_follow_up_step ::
  "mobile_update_options \<Rightarrow> string \<Rightarrow> lead \<Rightarrow> 'a call_state_scheme \<Rightarrow> lead \<times> 'a call_state_scheme" where
  "mobile_follow_up_step o' actor l r =
     (case muo_followUp o' of None \<Rightarrow> (l, r)
      | Some f \<Rightarrow>
          (let (i, r1) = next_id ''follow_up'' r;
               r2 = r1\<lparr>leadFollowUps := map_set i (mobile_new_follow_up o' actor l f i) (leadFollowUps r1)\<rparr>;
               l' = (if \<not> truthy (lead_nextFollowUpAt l) \<or> mfu_dueAt f < the (lead_nextFollowUpAt l)
                 then l\<lparr>lead_nextFollowUpAt := Some (mfu_dueAt f)\<rparr> else l)
           in (l', add_activity (mobile_activity o' l' ActFollowUpCreated ''Mobile follow-up scheduled''
                 [(''followUpId'', JString i)]) r2)))"

definition mobile_commit ::
  "host \<Rightarrow> mobile_update_options \<Rightarrow> string \<Rightarrow> lead_status option \<Rightarrow> lead \<Rightarrow> 'a call_state_scheme \<Rightarrow>
   ('a call_state_scheme, mobile_receipt option) outcome" where
  "mobile_commit h o' actor status l r =
     (let (l1, r1) = mobile_status_step o' status l r;
          r2 = mobile_note_step o' actor l1 r1;
          (l2, r3) = mobile_follow_up_step o' actor l1 r2;
          l3 = touch_lead (muo_at o') actor l2;
          r4 = r3\<lparr>leads := map_set (muo_leadId o') l3 (leads r3)\<rparr>
      in case buildLeadDetail h l3 (muo_at o') r4 of
           Inl e \<Rightarrow> (Inl e, r4)
         | Inr d \<Rightarrow> (Inr (Some \<lparr>mrc_requestId = muo_requestId o', mrc_replayed = False,
               mrc_appliedLeadVersion = lead_version l3, mrc_detail = Some d\<rparr>),
             r4\<lparr>mobileLeadUpdateRequests := map_set (mobile_update_key o')
               \<lparr>mur_fingerprint = muo_requestFingerprint o', mur_leadId = muo_leadId o',
                mur_requestId = muo_requestId o', mur_appliedLeadVersion = lead_version l3\<rparr>
               (mobileLeadUpdateRequests r4)\<rparr>))"

definition applyMobileLeadUpdate ::
  "host \<Rightarrow> mobile_update_options \<Rightarrow> 'a call_state_scheme \<Rightarrow> ('a call_state_scheme, mobile_receipt option) outcome" where
  "applyMobileLeadUpdate h o' r =
     (let ctx = muo_context o' in
      if findCurrentMobileCredential h ctx CredSession (muo_at o') r = None
         \<or> \<not> isConsentCurrent (ctx_deviceId ctx) r then (Inl consentRequiredDefault, r)
      else (case map_get (mobileLeadUpdateRequests r) (mobile_update_key o') of
          Some p \<Rightarrow>
            if mur_fingerprint p \<noteq> muo_requestFingerprint o' \<or> mur_leadId p \<noteq> muo_leadId o'
            then (Inl (conflict ''The mobile update request ID was already used with a different payload''), r)
            else (Inr (Some \<lparr>mrc_requestId = mur_requestId p, mrc_replayed = True,
              mrc_appliedLeadVersion = mur_appliedLeadVersion p, mrc_detail = None\<rparr>), r)
        | None \<Rightarrow>
            if outside_window h o'
            then (Inl (badRequest ''occurredAt is outside the accepted offline update window'' (Some ''occurredAt'')), r)
            else (case map_get (leads r) (muo_leadId o') of
                None \<Rightarrow> (Inr None, r)
              | Some l \<Rightarrow>
                  if lead_organizationId l \<noteq> ctx_organizationId ctx \<or> truthy (lead_archivedAt l)
                     \<or> lead_assignedEmployeeId l \<noteq> Some (ctx_employeeId ctx) then (Inr None, r)
                  else if lead_version l \<noteq> muo_expectedLeadVersion o'
                  then (Inl (conflict ''The lead changed; refresh and retry''), r)
                  else (let actor = Option.bind (map_get (employees r) (ctx_employeeId ctx)) emp_linkedUserId;
                            wanted = muo_statusId o';
                            status = (if truthy wanted then map_get (leadStatuses r) (the wanted) else None) in
                    if \<not> truthy actor then (Inr None, r)
                    else if truthy wanted \<and> (case status of None \<Rightarrow> True
                        | Some s \<Rightarrow> ls_organizationId s \<noteq> lead_organizationId l \<or> \<not> ls_isActive s)
                    then (Inr None, r)
                    else if reminder_late h o'
                    then (Inl (badRequest ''The follow-up reminder cannot be after its due time''
                        (Some ''followUp.reminderAt'')), r)
                    else mobile_commit h o' (the actor) status l r))))"

end
