(* ===== verification/Assignment.thy ===== *)
theory Assignment
  imports Calls
begin

text \<open>
  Assignment rules of \<open>repository.ts\<close>: which rules a lead matches, rule creation and update, the
  dry run and the application of the rules to unassigned leads, with the round-robin cursors.
\<close>

section \<open>Types and state\<close>

datatype assignment_strategy = FixedOwner | RoundRobin

record assignment_conditions =
  cond_sources :: "lead_source list option"
  cond_temperatures :: "lead_temperature list option"
  cond_statusIds :: "string list option"

record assignment_rule =
  ar_id :: string
  ar_organizationId :: string
  ar_name :: string
  ar_priority :: int
  ar_active :: bool
  ar_conditions :: assignment_conditions
  ar_strategy :: assignment_strategy
  ar_employeeIds :: "string list"
  ar_version :: int
  ar_createdByUserId :: string
  ar_updatedByUserId :: string
  ar_createdAt :: string
  ar_updatedAt :: string

record create_rule_input =
  cri_name :: string
  cri_priority :: int
  cri_active :: "bool option"
  cri_conditions :: "assignment_conditions option"
  cri_strategy :: assignment_strategy
  cri_employeeIds :: "string list"

record update_rule_input =
  uri_expectedVersion :: int
  uri_name :: "string option"
  uri_priority :: "int option"
  uri_active :: "bool option"
  uri_conditions :: "assignment_conditions option"
  uri_strategy :: "assignment_strategy option"
  uri_employeeIds :: "string list option"

record dry_run =
  dr_matchedLeads :: nat
  dr_unmatchedLeads :: nat
  dr_distribution :: "(string, nat) jsmap"

record apply_result = dry_run +
  apr_requestId :: string
  apr_replayed :: bool
  apr_appliedLeads :: nat

record apply_record =
  apc_fingerprint :: string
  apc_result :: apply_result

record rule_state = call_state +
  leadAssignmentRules :: "(string, assignment_rule) jsmap"
  leadAssignmentRuleTeams :: "(string, string) jsmap"
  leadAssignmentRuleCursors :: "(string, nat) jsmap"
  leadAssignmentApplyRequests :: "(string, apply_record) jsmap"

section \<open>Matching\<close>

definition canAccessTeam :: "lead_access_scope \<Rightarrow> string option \<Rightarrow> 'a identity_state_scheme \<Rightarrow> bool" where
  "canAccessTeam scope team r =
     (case scope of
        ScopeOrganization \<Rightarrow> True
      | ScopeTeams names \<Rightarrow> truthy team \<and> the team \<in> set names
      | ScopeAssigned e \<Rightarrow> truthy team \<and> Option.bind (map_get (employees r) e) emp_team = team)"

text \<open>\<open>xs?.length && !xs.includes(x)\<close>, negated.\<close>

definition admits :: "'v list option \<Rightarrow> 'v option \<Rightarrow> bool" where
  "admits xs x = (case xs of None \<Rightarrow> True
     | Some ys \<Rightarrow> ys = [] \<or> (case x of None \<Rightarrow> False | Some v \<Rightarrow> v \<in> set ys))"

definition ruleMatchesLead :: "assignment_rule \<Rightarrow> lead \<Rightarrow> bool" where
  "ruleMatchesLead ru l \<longleftrightarrow>
     admits (cond_sources (ar_conditions ru)) (Some (lead_source l))
     \<and> admits (cond_temperatures (ar_conditions ru)) (lead_temperature l)
     \<and> admits (cond_statusIds (ar_conditions ru)) (Some (lead_statusId l))"

text \<open>Every owner named is an active employee of the organization and of the team.\<close>

definition owners_eligible :: "string \<Rightarrow> string option \<Rightarrow> string list \<Rightarrow> 'a identity_state_scheme \<Rightarrow> bool" where
  "owners_eligible orgId team owners r \<longleftrightarrow> owners \<noteq> [] \<and>
     list_all (\<lambda>i. case map_get (employees r) i of None \<Rightarrow> False
       | Some e \<Rightarrow> emp_organizationId e = orgId \<and> emp_status e = EmpActive \<and> emp_team e = team) owners"

definition rule_order :: "host \<Rightarrow> assignment_rule \<Rightarrow> assignment_rule \<Rightarrow> int" where
  "rule_order h = cmp_or (cmp_on ar_priority cmp_int) (cmp_on ar_id (localeCompare h))"

definition rule_applies :: "string \<Rightarrow> lead_access_scope \<Rightarrow> lead \<Rightarrow> 'a rule_state_scheme \<Rightarrow> assignment_rule \<Rightarrow> bool" where
  "rule_applies orgId scope l r ru \<longleftrightarrow>
     (let team = lead_team l r in
      ar_organizationId ru = orgId \<and> ar_active ru
      \<and> map_get (leadAssignmentRuleTeams r) (ar_id ru) = team \<and> canAccessTeam scope team r
      \<and> owners_eligible orgId team (ar_employeeIds ru) r \<and> ruleMatchesLead ru l)"

definition matchingRules ::
  "host \<Rightarrow> string \<Rightarrow> lead_access_scope \<Rightarrow> lead \<Rightarrow> 'a rule_state_scheme \<Rightarrow> assignment_rule list" where
  "matchingRules h orgId scope l r =
     js_sort (rule_order h) (filter (rule_applies orgId scope l r) (map_values (leadAssignmentRules r)))"

definition first_rule ::
  "host \<Rightarrow> string \<Rightarrow> lead_access_scope \<Rightarrow> lead \<Rightarrow> 'a rule_state_scheme \<Rightarrow> assignment_rule option" where
  "first_rule h orgId scope l r = (case matchingRules h orgId scope l r of [] \<Rightarrow> None | ru # _ \<Rightarrow> Some ru)"

text \<open>\<open>xs[i]\<close>, \<open>undefined\<close> past the end.\<close>

definition js_at :: "'v list \<Rightarrow> nat \<Rightarrow> 'v option" where
  "js_at xs i = (if i < length xs then Some (xs ! i) else None)"

text \<open>The cursor a run continues from: its own, else the stored one, else 0.\<close>

definition cursor_of :: "(string, nat) jsmap \<Rightarrow> string \<Rightarrow> 'a rule_state_scheme \<Rightarrow> nat" where
  "cursor_of local i r =
     (case map_get local i of Some c \<Rightarrow> c
      | None \<Rightarrow> (case map_get (leadAssignmentRuleCursors r) i of Some c \<Rightarrow> c | None \<Rightarrow> 0))"

definition owner_position :: "assignment_rule \<Rightarrow> nat \<Rightarrow> nat" where
  "owner_position ru cursor = (if ar_strategy ru = FixedOwner then 0 else cursor mod length (ar_employeeIds ru))"

section \<open>Managing rules\<close>

record rule_access =
  rac_organizationId :: string
  rac_scope :: lead_access_scope
  rac_actorUserId :: string
  rac_at :: string

definition listLeadAssignmentRules :: "host \<Rightarrow> rule_access \<Rightarrow> 'a rule_state_scheme \<Rightarrow> assignment_rule list" where
  "listLeadAssignmentRules h o' r =
     js_sort (rule_order h) (filter (\<lambda>ru. ar_organizationId ru = rac_organizationId o'
       \<and> canAccessTeam (rac_scope o') (map_get (leadAssignmentRuleTeams r) (ar_id ru)) r)
       (map_values (leadAssignmentRules r)))"

definition no_conditions :: assignment_conditions where
  "no_conditions = \<lparr>cond_sources = None, cond_temperatures = None, cond_statusIds = None\<rparr>"

definition new_rule :: "rule_access \<Rightarrow> create_rule_input \<Rightarrow> string \<Rightarrow> assignment_rule" where
  "new_rule o' inp i = \<lparr>ar_id = i, ar_organizationId = rac_organizationId o', ar_name = js_trim (cri_name inp),
     ar_priority = cri_priority inp, ar_active = (case cri_active inp of None \<Rightarrow> True | Some b \<Rightarrow> b),
     ar_conditions = (case cri_conditions inp of None \<Rightarrow> no_conditions | Some c \<Rightarrow> c),
     ar_strategy = cri_strategy inp, ar_employeeIds = cri_employeeIds inp, ar_version = 1,
     ar_createdByUserId = rac_actorUserId o', ar_updatedByUserId = rac_actorUserId o',
     ar_createdAt = rac_at o', ar_updatedAt = rac_at o'\<rparr>"

text \<open>An owner is refused when missing, foreign, inactive, or of a team outside the scope.\<close>

definition owner_refused :: "rule_access \<Rightarrow> employee option \<Rightarrow> 'a identity_state_scheme \<Rightarrow> bool" where
  "owner_refused o' e r = (case e of None \<Rightarrow> True
     | Some e \<Rightarrow> emp_organizationId e \<noteq> rac_organizationId o' \<or> emp_status e \<noteq> EmpActive
         \<or> \<not> canAccessTeam (rac_scope o') (emp_team e) r)"

definition first_team :: "string list \<Rightarrow> 'a identity_state_scheme \<Rightarrow> string option" where
  "first_team owners r = (case owners of [] \<Rightarrow> None | i # _ \<Rightarrow> Option.bind (map_get (employees r) i) emp_team)"

definition createLeadAssignmentRule ::
  "rule_access \<Rightarrow> create_rule_input \<Rightarrow> 'a rule_state_scheme \<Rightarrow> assignment_rule option \<times> 'a rule_state_scheme" where
  "createLeadAssignmentRule o' inp r =
     (let owners = cri_employeeIds inp; es = map (map_get (employees r)) owners; team = first_team owners r in
      if \<not> distinct owners then (None, r)
      else if list_ex (\<lambda>e. owner_refused o' e r) es then (None, r)
      else if \<not> truthy team \<or> list_ex (\<lambda>e. Option.bind e emp_team \<noteq> team) es then (None, r)
      else (let (i, r1) = next_id ''lead_assignment_rule'' r; ru = new_rule o' inp i in
        (Some ru, r1\<lparr>leadAssignmentRules := map_set i ru (leadAssignmentRules r1),
          leadAssignmentRuleTeams := map_set i (the team) (leadAssignmentRuleTeams r1),
          leadAssignmentRuleCursors := map_set i 0 (leadAssignmentRuleCursors r1)\<rparr>)))"

definition change_rule :: "rule_access \<Rightarrow> update_rule_input \<Rightarrow> assignment_rule \<Rightarrow> assignment_rule" where
  "change_rule o' inp ru = ru\<lparr>
     ar_name := (case uri_name inp of None \<Rightarrow> ar_name ru | Some s \<Rightarrow> js_trim s),
     ar_priority := set_plain (uri_priority inp) (ar_priority ru),
     ar_active := set_plain (uri_active inp) (ar_active ru),
     ar_conditions := set_plain (uri_conditions inp) (ar_conditions ru),
     ar_strategy := set_plain (uri_strategy inp) (ar_strategy ru),
     ar_employeeIds := set_plain (uri_employeeIds inp) (ar_employeeIds ru),
     ar_updatedByUserId := rac_actorUserId o', ar_updatedAt := rac_at o', ar_version := ar_version ru + 1\<rparr>"

definition updateLeadAssignmentRule ::
  "rule_access \<Rightarrow> string \<Rightarrow> update_rule_input \<Rightarrow> 'a rule_state_scheme \<Rightarrow>
   ('a rule_state_scheme, assignment_rule option) outcome" where
  "updateLeadAssignmentRule o' ruleId inp r =
     (case map_get (leadAssignmentRules r) ruleId of
        None \<Rightarrow> (Inr None, r)
      | Some ru \<Rightarrow>
          let current = map_get (leadAssignmentRuleTeams r) (ar_id ru);
              owners = set_plain (uri_employeeIds inp) (ar_employeeIds ru);
              es = map (map_get (employees r)) owners; team = first_team owners r;
              strategy = set_plain (uri_strategy inp) (ar_strategy ru)
          in if ar_organizationId ru \<noteq> rac_organizationId o' \<or> \<not> canAccessTeam (rac_scope o') current r
             then (Inr None, r)
             else if ar_version ru \<noteq> uri_expectedVersion inp
             then (Inl (conflict ''The assignment rule changed; refresh and retry''), r)
             else if \<not> distinct owners then (Inr None, r)
             else if \<not> truthy team \<or> list_ex (\<lambda>e. owner_refused o' e r \<or> Option.bind e emp_team \<noteq> team) es
             then (Inr None, r)
             else if strategy = FixedOwner \<and> length owners \<noteq> 1 then (Inr None, r)
             else if current \<noteq> team
             then (Inl (conflict ''Assignment rule team is immutable; create a new rule for another team''), r)
             else (let ru' = change_rule o' inp ru in
               (Inr (Some ru'), r\<lparr>leadAssignmentRules := map_set ruleId ru' (leadAssignmentRules r),
                 leadAssignmentRuleTeams := map_set (ar_id ru) (the team) (leadAssignmentRuleTeams r)\<rparr>)))"

section \<open>The dry run\<close>

text \<open>The leads a run looks at.\<close>

definition unassigned_lead :: "rule_access \<Rightarrow> lead \<Rightarrow> 'a lead_state_scheme \<Rightarrow> bool" where
  "unassigned_lead o' l r \<longleftrightarrow> lead_organizationId l = rac_organizationId o' \<and> \<not> truthy (lead_archivedAt l)
     \<and> \<not> truthy (lead_assignedEmployeeId l) \<and> canAccessLead (rac_scope o') l r"

record dry_state =
  ds_distribution :: "(string, nat) jsmap"
  ds_cursors :: "(string, nat) jsmap"
  ds_matched :: nat
  ds_unmatched :: nat

definition dry_step :: "host \<Rightarrow> rule_access \<Rightarrow> 'a rule_state_scheme \<Rightarrow> lead \<Rightarrow> dry_state \<Rightarrow> dry_state" where
  "dry_step h o' r l s =
     (if \<not> unassigned_lead o' l r then s
      else case first_rule h (rac_organizationId o') (rac_scope o') l r of
        None \<Rightarrow> s\<lparr>ds_unmatched := Suc (ds_unmatched s)\<rparr>
      | Some ru \<Rightarrow>
          let cursor = cursor_of (ds_cursors s) (ar_id ru) r;
              owners = ar_employeeIds ru;
              owner = (case js_at owners (owner_position ru cursor) of Some i \<Rightarrow> Some i | None \<Rightarrow> js_at owners 0)
          in s\<lparr>ds_matched := Suc (ds_matched s),
               ds_cursors := (if ar_strategy ru = RoundRobin
                 then map_set (ar_id ru) (Suc cursor) (ds_cursors s) else ds_cursors s),
               ds_distribution := (if truthy owner
                 then map_set (the owner) (Suc (case map_get (ds_distribution s) (the owner) of None \<Rightarrow> 0 | Some n \<Rightarrow> n))
                   (ds_distribution s)
                 else ds_distribution s)\<rparr>)"

definition dry_start :: dry_state where
  "dry_start = \<lparr>ds_distribution = [], ds_cursors = [], ds_matched = 0, ds_unmatched = 0\<rparr>"

definition dryRunLeadAssignmentRules :: "host \<Rightarrow> rule_access \<Rightarrow> 'a rule_state_scheme \<Rightarrow> dry_run" where
  "dryRunLeadAssignmentRules h o' r =
     (let s = fold (dry_step h o' r) (map_values (leads r)) dry_start
      in \<lparr>dr_matchedLeads = ds_matched s, dr_unmatchedLeads = ds_unmatched s,
          dr_distribution = ds_distribution s\<rparr>)"

section \<open>Applying the rules\<close>

record apply_options = rule_access +
  apo_requestId :: string
  apo_includeExistingUnassigned :: bool
  apo_requestFingerprint :: string

text \<open>The local variables of the loop.\<close>

record apply_progress =
  ap_applied :: nat
  ap_cursors :: "(string, nat) jsmap"
  ap_advanced :: "string list"

definition assign_change :: "string \<Rightarrow> update_lead_input" where
  "assign_change e = \<lparr>uli_firstName = None, uli_lastName = None, uli_companyName = None, uli_phoneNumber = None,
     uli_alternatePhoneNumber = None, uli_email = None, uli_statusId = None, uli_temperature = None,
     uli_assignedEmployeeId = Some (Some e), uli_tagIds = None, uli_customFields = None, uli_archived = None\<rparr>"

definition assign_options :: "'b rule_access_scheme \<Rightarrow> lead \<Rightarrow> string \<Rightarrow> update_lead_options" where
  "assign_options o' l e = \<lparr>ulo_organizationId = rac_organizationId o', ulo_scope = rac_scope o',
     ulo_leadId = lead_id l, ulo_actorUserId = rac_actorUserId o', ulo_canAssign = True,
     ulo_request = \<lparr>ulr_expectedVersion = lead_version l, ulr_changes = assign_change e\<rparr>, ulo_at = rac_at o'\<rparr>"

definition set_add :: "'v \<Rightarrow> 'v list \<Rightarrow> 'v list" where
  "set_add x xs = (if x \<in> set xs then xs else xs @ [x])"

text \<open>
  One turn of the loop. The loop iterates over the lead objects, which the updates change in
  place; here it iterates over their keys and reads each lead when its turn comes.
\<close>

definition apply_lead ::
  "host \<Rightarrow> apply_options \<Rightarrow> string \<Rightarrow> apply_progress \<Rightarrow> 'a rule_state_scheme \<Rightarrow>
   ('a rule_state_scheme, apply_progress) outcome" where
  "apply_lead h o' k p r =
     (case map_get (leads r) k of
        None \<Rightarrow> (Inr p, r)
      | Some l \<Rightarrow>
          if \<not> unassigned_lead (rule_access.truncate o') l r then (Inr p, r)
          else case first_rule h (rac_organizationId o') (rac_scope o') l r of
            None \<Rightarrow> (Inr p, r)
          | Some ru \<Rightarrow>
              let cursor = cursor_of (ap_cursors p) (ar_id ru) r;
                  owner = js_at (ar_employeeIds ru) (owner_position ru cursor)
              in if \<not> truthy owner then (Inr p, r)
                 else (case updateLead h (assign_options o' l (the owner)) r of
                     (Inl e, r') \<Rightarrow> (Inl e, r')
                   | (Inr None, r') \<Rightarrow> (Inr p, r')
                   | (Inr (Some _), r') \<Rightarrow>
                       (Inr (if ar_strategy ru = RoundRobin
                          then p\<lparr>ap_applied := Suc (ap_applied p),
                                 ap_cursors := map_set (ar_id ru) (Suc cursor) (ap_cursors p),
                                 ap_advanced := set_add (ar_id ru) (ap_advanced p)\<rparr>
                          else p\<lparr>ap_applied := Suc (ap_applied p)\<rparr>), r')))"

fun apply_leads ::
  "host \<Rightarrow> apply_options \<Rightarrow> string list \<Rightarrow> apply_progress \<Rightarrow> 'a rule_state_scheme \<Rightarrow>
   ('a rule_state_scheme, apply_progress) outcome" where
  "apply_leads h o' [] p r = (Inr p, r)"
| "apply_leads h o' (k # ks) p r =
     (case apply_lead h o' k p r of
        (Inl e, r') \<Rightarrow> (Inl e, r')
      | (Inr p', r') \<Rightarrow> apply_leads h o' ks p' r')"

text \<open>Storing the cursors that moved; each move is a new version of its rule.\<close>

definition store_cursor :: "string \<Rightarrow> string \<Rightarrow> (string, nat) jsmap \<Rightarrow> string \<Rightarrow> 'a rule_state_scheme \<Rightarrow> 'a rule_state_scheme" where
  "store_cursor actor ts local i r =
     (case map_get local i of
        None \<Rightarrow> r
      | Some c \<Rightarrow> r\<lparr>leadAssignmentRuleCursors := map_set i c (leadAssignmentRuleCursors r),
          leadAssignmentRules := map_modify i (\<lambda>ru. ru\<lparr>ar_version := ar_version ru + 1,
            ar_updatedByUserId := actor, ar_updatedAt := ts\<rparr>) (leadAssignmentRules r)\<rparr>)"

definition store_cursors ::
  "string \<Rightarrow> string \<Rightarrow> (string, nat) jsmap \<Rightarrow> string list \<Rightarrow> 'a rule_state_scheme \<Rightarrow> 'a rule_state_scheme" where
  "store_cursors actor ts local = fold (store_cursor actor ts local)"

definition apply_key :: "apply_options \<Rightarrow> string" where
  "apply_key o' = key2 (rac_organizationId o') (apo_requestId o')"

definition no_progress :: apply_progress where
  "no_progress = \<lparr>ap_applied = 0, ap_cursors = [], ap_advanced = []\<rparr>"

definition apply_record_result :: "apply_options \<Rightarrow> dry_run \<Rightarrow> nat \<Rightarrow> apply_result" where
  "apply_record_result o' before n = \<lparr>dr_matchedLeads = dr_matchedLeads before,
     dr_unmatchedLeads = dr_unmatchedLeads before, dr_distribution = dr_distribution before,
     apr_requestId = apo_requestId o', apr_replayed = False, apr_appliedLeads = n\<rparr>"

definition applyLeadAssignmentRules ::
  "host \<Rightarrow> apply_options \<Rightarrow> 'a rule_state_scheme \<Rightarrow> ('a rule_state_scheme, apply_result option) outcome" where
  "applyLeadAssignmentRules h o' r =
     (case map_get (leadAssignmentApplyRequests r) (apply_key o') of
        Some p \<Rightarrow>
          if apc_fingerprint p \<noteq> apo_requestFingerprint o'
          then (Inl (conflict ''The assignment request ID was already used with a different payload''), r)
          else (Inr (Some ((apc_result p)\<lparr>apr_replayed := True\<rparr>)), r)
      | None \<Rightarrow>
          (let before = dryRunLeadAssignmentRules h (rule_access.truncate o') r;
               ks = (if apo_includeExistingUnassigned o' then map_keys (leads r) else [])
           in case apply_leads h o' ks no_progress r of
                (Inl e, r1) \<Rightarrow> (Inl e, r1)
              | (Inr p, r1) \<Rightarrow>
                  (let r2 = store_cursors (rac_actorUserId o') (rac_at o') (ap_cursors p) (ap_advanced p) r1;
                       result = apply_record_result o' before (ap_applied p)
                   in (Inr (Some result), r2\<lparr>leadAssignmentApplyRequests := map_set (apply_key o')
                        \<lparr>apc_fingerprint = apo_requestFingerprint o', apc_result = result\<rparr>
                        (leadAssignmentApplyRequests r2)\<rparr>))))"

end
