(* ===== verification/GuardFacts.thy ===== *)
theory GuardFacts
  imports Guards FormatFacts Assignment
begin

text \<open>
  What a validator that answers true establishes: nesting and size bounds of custom fields, the
  type of an assignment rule, and what the call-log items do and do not guarantee.
\<close>

section \<open>Bounded JSON\<close>

text \<open>How deep a value nests, the largest number of entries in it, and whether its numbers are finite.\<close>

definition maximum :: "nat list \<Rightarrow> nat" where
  "maximum xs = foldr max xs 0"

lemma maximum_le: "maximum xs \<le> n \<longleftrightarrow> (\<forall>x\<in>set xs. x \<le> n)"
  by (induction xs) (auto simp: maximum_def)

fun nesting :: "json \<Rightarrow> nat" where
  "nesting (JArray xs) = Suc (maximum (map nesting xs))"
| "nesting (JObject fs) = Suc (maximum (map (\<lambda>f. nesting (snd f)) fs))"
| "nesting v = 0"

fun breadth :: "json \<Rightarrow> nat" where
  "breadth (JArray xs) = max (length xs) (maximum (map breadth xs))"
| "breadth (JObject fs) = max (length fs) (maximum (map (\<lambda>f. breadth (snd f)) fs))"
| "breadth v = 0"

fun all_finite :: "json \<Rightarrow> bool" where
  "all_finite (JArray xs) = (\<forall>x\<in>set xs. all_finite x)"
| "all_finite (JObject fs) = (\<forall>f\<in>set fs. all_finite (snd f))"
| "all_finite (JInfinite p) = False"
| "all_finite v = True"

text \<open>
  C33: The recursive bound check of custom fields computes what it is meant to: a value is accepted
  exactly when it nests at most eight deep, no array or object in it has more than a hundred
  entries, and every number in it is finite.
\<close>

theorem bounded_json_iff:
  "isBoundedLeadJsonValue v 0 \<longleftrightarrow> nesting v \<le> 8 \<and> breadth v \<le> 100 \<and> all_finite v"
proof -
  have "d \<le> 8 \<Longrightarrow> isBoundedLeadJsonValue v d \<longleftrightarrow> d + nesting v \<le> 8 \<and> breadth v \<le> 100 \<and> all_finite v" for d
  proof (induction v d rule: isBoundedLeadJsonValue.induct)
    case (6 xs d)
    show ?case
    proof (cases "8 \<le> d")
      case False
      then have "d + nesting (JArray xs) \<le> 8 \<longleftrightarrow> (\<forall>x\<in>set xs. Suc d + nesting x \<le> 8)"
        using maximum_le[of "map nesting xs" "7 - d"] by auto
      then show ?thesis using 6 False by (auto simp: maximum_le)
    qed (use 6 in simp)
  next
    case (7 fs d)
    show ?case
    proof (cases "8 \<le> d")
      case False
      then have "d + nesting (JObject fs) \<le> 8 \<longleftrightarrow> (\<forall>f\<in>set fs. Suc d + nesting (snd f) \<le> 8)"
        using maximum_le[of "map (\<lambda>f. nesting (snd f)) fs" "7 - d"] by auto
      then show ?thesis using 7 False by (auto simp: maximum_le)
    qed (use 7 in simp)
  qed simp_all
  from this[of 0] show ?thesis by simp
qed

section \<open>Assignment rules\<close>

text \<open>How the accepted body reads as the typed input of the repository.\<close>

definition as_string :: "js \<Rightarrow> string option" where
  "as_string v = (case v of Some (JString s) \<Rightarrow> Some s | _ \<Rightarrow> None)"

definition as_bool :: "js \<Rightarrow> bool option" where
  "as_bool v = (case v of Some (JBool b) \<Rightarrow> Some b | _ \<Rightarrow> None)"

definition as_int :: "js \<Rightarrow> int option" where
  "as_int v = (case v of Some (JNum q) \<Rightarrow> if rat_of_int \<lfloor>q\<rfloor> = q then Some \<lfloor>q\<rfloor> else None | _ \<Rightarrow> None)"

definition as_list :: "(js \<Rightarrow> 'v option) \<Rightarrow> js \<Rightarrow> 'v list option" where
  "as_list f v = (case v of Some (JArray xs) \<Rightarrow> those (map (\<lambda>x. f (Some x)) xs) | _ \<Rightarrow> None)"

definition as_name :: "(string \<times> 'v) list \<Rightarrow> js \<Rightarrow> 'v option" where
  "as_name names v = Option.bind (as_string v) (map_of names)"

definition as_optional :: "(js \<Rightarrow> 'v option) \<Rightarrow> js \<Rightarrow> 'v option option" where
  "as_optional f v = (case v of None \<Rightarrow> Some None | Some _ \<Rightarrow> map_option Some (f v))"

definition strategy_names :: "(string \<times> assignment_strategy) list" where
  "strategy_names = [(''fixed_owner'', FixedOwner), (''round_robin'', RoundRobin)]"

definition source_names :: "(string \<times> lead_source) list" where
  "source_names = zip lead_source_names [SrcManual, SrcCsvImport, SrcWebsite, SrcFacebook, SrcInstagram,
     SrcGoogleAds, SrcIndiaMart, SrcApi, SrcIntegration, SrcUnknown]"

definition temperature_names :: "(string \<times> lead_temperature) list" where
  "temperature_names = [(''cold'', Cold), (''warm'', Warm), (''hot'', Hot)]"

definition read_conditions :: "js \<Rightarrow> assignment_conditions option" where
  "read_conditions v = Option.bind (as_record v) (\<lambda>c.
     Option.bind (as_optional (as_list (as_name source_names)) (field c ''sources'')) (\<lambda>ss.
     Option.bind (as_optional (as_list (as_name temperature_names)) (field c ''temperatures'')) (\<lambda>ts.
     Option.bind (as_optional (as_list as_string) (field c ''statusIds'')) (\<lambda>is.
     Some \<lparr>cond_sources = ss, cond_temperatures = ts, cond_statusIds = is\<rparr>))))"

definition read_rule :: "js \<Rightarrow> create_rule_input option" where
  "read_rule v = Option.bind (as_record v) (\<lambda>r.
     Option.bind (as_string (field r ''name'')) (\<lambda>name.
     Option.bind (as_int (field r ''priority'')) (\<lambda>priority.
     Option.bind (as_optional as_bool (field r ''active'')) (\<lambda>active.
     Option.bind (as_optional read_conditions (field r ''conditions'')) (\<lambda>conditions.
     Option.bind (as_name strategy_names (field r ''strategy'')) (\<lambda>strategy.
     Option.bind (as_list as_string (field r ''employeeIds'')) (\<lambda>owners.
     Some \<lparr>cri_name = name, cri_priority = priority, cri_active = active, cri_conditions = conditions,
       cri_strategy = strategy, cri_employeeIds = owners\<rparr>)))))))"

lemma those_list_all: "(\<forall>x\<in>set xs. \<exists>y. f x = Some y) \<Longrightarrow> \<exists>ys. those (map f xs) = Some ys \<and> length ys = length xs"
  by (induction xs) auto

lemma string_andE: "string_and p v \<Longrightarrow> (\<And>s. v = Some (JString s) \<Longrightarrow> p s \<Longrightarrow> P) \<Longrightarrow> P"
  by (auto simp: string_and_def split: option.splits json.splits)

lemma record_andE: "record_and p v \<Longrightarrow> (\<And>fs. v = Some (JObject fs) \<Longrightarrow> p fs \<Longrightarrow> P) \<Longrightarrow> P"
  by (auto simp: record_and_def split: option.splits json.splits)

lemma array_andE: "array_and p v \<Longrightarrow> (\<And>xs. v = Some (JArray xs) \<Longrightarrow> p xs \<Longrightarrow> P) \<Longrightarrow> P"
  by (auto simp: array_and_def split: option.splits json.splits)

lemma number_andE: "number_and p v \<Longrightarrow> (\<And>q. v = Some (JNum q) \<Longrightarrow> p q \<Longrightarrow> P) \<Longrightarrow> P"
  by (auto simp: number_and_def split: option.splits json.splits)

lemma one_ofE: "one_of names v \<Longrightarrow> (\<And>s. v = Some (JString s) \<Longrightarrow> s \<in> set names \<Longrightarrow> P) \<Longrightarrow> P"
  by (auto simp: one_of_def split: option.splits json.splits)

lemma read_optional: "optionally p v \<Longrightarrow> (\<And>v. p v \<Longrightarrow> \<exists>x. f v = Some x) \<Longrightarrow> \<exists>x. as_optional f v = Some x"
  by (auto simp: optionally_def as_optional_def split: option.splits)

lemma read_list:
  "array_and (list_all (\<lambda>x. p (Some x))) v \<Longrightarrow> (\<And>v. p v \<Longrightarrow> \<exists>x. f v = Some x) \<Longrightarrow> \<exists>xs. as_list f v = Some xs"
proof (erule array_andE)
  fix xs assume v: "v = Some (JArray xs)" "list_all (\<lambda>x. p (Some x)) xs" and f: "\<And>v. p v \<Longrightarrow> \<exists>x. f v = Some x"
  then show ?thesis using those_list_all[of xs "\<lambda>x. f (Some x)"] by (auto simp: as_list_def list_all_iff)
qed

lemma read_name: "one_of (map fst names) v \<Longrightarrow> \<exists>x. as_name names v = Some x"
  by (erule one_ofE) (auto simp: as_name_def as_string_def map_of_eq_None_iff dest: weak_map_of_SomeI)

lemma read_string: "isNonEmptyString v \<Longrightarrow> \<exists>s. as_string v = Some s"
  by (auto simp: isNonEmptyString_def as_string_def elim: string_andE)

lemma read_bool: "is_bool v \<Longrightarrow> \<exists>b. as_bool v = Some b"
  by (auto simp: is_bool_def as_bool_def split: option.splits json.splits)

lemma read_conditions_accepts: "isLeadAssignmentConditions v \<Longrightarrow> \<exists>c. read_conditions v = Some c"
  unfolding isLeadAssignmentConditions_def
proof (erule record_andE, elim conjE)
  fix c
  assume v: "v = Some (JObject c)" and ss: "optionally (array_and (list_all (\<lambda>x. isLeadSource (Some x)))) (field c ''sources'')"
    and ts: "optionally (array_and (list_all (\<lambda>x. isLeadTemperature (Some x)))) (field c ''temperatures'')"
    and st: "optionally isStringArray (field c ''statusIds'')"
  have "\<exists>x. as_name source_names w = Some x" if "isLeadSource w" for w
    using that by (intro read_name) (simp add: isLeadSource_def source_names_def lead_source_names_def)
  then have 1: "\<exists>x. as_optional (as_list (as_name source_names)) (field c ''sources'') = Some x"
    by (intro read_optional[OF ss] read_list[of isLeadSource]) auto
  have "\<exists>x. as_name temperature_names w = Some x" if "isLeadTemperature w" for w
    using that by (intro read_name) (simp add: isLeadTemperature_def temperature_names_def)
  then have 2: "\<exists>x. as_optional (as_list (as_name temperature_names)) (field c ''temperatures'') = Some x"
    by (intro read_optional[OF ts] read_list[of isLeadTemperature]) auto
  have 3: "\<exists>x. as_optional (as_list as_string) (field c ''statusIds'') = Some x"
    by (intro read_optional[OF st] read_list[of isNonEmptyString]) (auto simp: isStringArray_def intro: read_string)
  from 1 2 3 show ?thesis by (auto simp: read_conditions_def v as_record_def)
qed

text \<open>
  A body the rule validator accepts has the type it claims: it reads as the typed input, with
  a name, a priority from 1 to 10000, between one and a hundred owners, and exactly one owner when
  the strategy is a fixed owner.
\<close>

theorem accepted_rule_typed:
  assumes "isCreateLeadAssignmentRuleInput v"
  shows "\<exists>inp. read_rule v = Some inp \<and> js_trim (cri_name inp) \<noteq> [] \<and> length (cri_name inp) \<le> 120
    \<and> 1 \<le> cri_priority inp \<and> cri_priority inp \<le> 10000
    \<and> 1 \<le> length (cri_employeeIds inp) \<and> length (cri_employeeIds inp) \<le> 100
    \<and> (cri_strategy inp = FixedOwner \<longrightarrow> length (cri_employeeIds inp) = 1)"
proof -
  obtain r where v: "v = Some (JObject r)" and ok: "hasValidRuleShape r"
    using assms by (auto simp: isCreateLeadAssignmentRuleInput_def elim: record_andE)
  obtain name where name: "field r ''name'' = Some (JString name)" "js_trim name \<noteq> []" "length name \<le> 120"
    using ok by (auto simp: hasValidRuleShape_def short_string_def elim: string_andE)
  obtain q where q: "field r ''priority'' = Some (JNum q)" "safe_integer q" "1 \<le> q" "q \<le> 10000"
    using ok by (auto simp: hasValidRuleShape_def rule_priority_def elim: number_andE)
  then have int: "as_int (field r ''priority'') = Some \<lfloor>q\<rfloor>" "1 \<le> \<lfloor>q\<rfloor>" "\<lfloor>q\<rfloor> \<le> 10000"
    by (auto simp: as_int_def safe_integer_def le_floor_iff floor_le_iff)
  obtain st where st: "field r ''strategy'' = Some (JString st)" "st = ''fixed_owner'' \<or> st = ''round_robin''"
    using ok by (auto simp: hasValidRuleShape_def isLeadAssignmentStrategy_def elim: one_ofE)
  then obtain s where s: "as_name strategy_names (field r ''strategy'') = Some s" "s = FixedOwner \<longleftrightarrow> st = ''fixed_owner''"
    by (auto simp: as_name_def as_string_def strategy_names_def)
  obtain xs where xs: "field r ''employeeIds'' = Some (JArray xs)" "list_all (\<lambda>x. isNonEmptyString (Some x)) xs"
    "xs \<noteq> []" "length xs \<le> 100"
    using ok by (auto simp: hasValidRuleShape_def owner_list_def elim: array_andE)
  then obtain os where os: "as_list as_string (field r ''employeeIds'') = Some os" "length os = length xs"
    using those_list_all[of xs "\<lambda>x. as_string (Some x)"] read_string by (auto simp: as_list_def list_all_iff)
  have one: "st = ''fixed_owner'' \<Longrightarrow> length xs = 1"
    using ok xs(1) st(1) by (auto simp: hasValidRuleShape_def one_of_def array_and_def)
  obtain act where act: "as_optional as_bool (field r ''active'') = Some act"
    using ok read_optional[of is_bool _ as_bool] read_bool by (auto simp: hasValidRuleShape_def)
  obtain cs where cs: "as_optional read_conditions (field r ''conditions'') = Some cs"
    using ok read_optional[of isLeadAssignmentConditions _ read_conditions] read_conditions_accepts
    by (auto simp: hasValidRuleShape_def)
  have nm: "as_string (field r ''name'') = Some name" using name(1) by (simp add: as_string_def)
  show ?thesis
    using name(2,3) int s os xs(3,4) one act cs
    by (auto simp: read_rule_def v as_record_def nm Suc_le_eq)
qed

section \<open>Call-log items\<close>

definition late_item :: json where
  "late_item = JObject [(''localId'', JString ''m''), (''phoneNumber'', JString ''+911234567890''),
     (''direction'', JString ''incoming''), (''disposition'', JString ''answered''),
     (''startedAt'', JString ''2026-01-01T05:00:00Z''), (''endedAt'', JString ''2026-01-01T09:00:00+05:30''),
     (''durationSeconds'', JNum 60)]"

lemma late_item_texts:
  "fits date_classes (take 11 ''2026-01-01T05:00:00Z'')" "fits date_classes (take 11 ''2026-01-01T09:00:00+05:30'')"
  "rfc3339_shape ''2026-01-01T05:00:00Z''" "rfc3339_shape ''2026-01-01T09:00:00+05:30''"
  "''2026-01-01T05:00:00Z'' \<le> ''2026-01-01T09:00:00+05:30''" "e164 ''+911234567890''"
  by code_simp+

text \<open>
  The order of a call-log item's timestamps is checked on their text. An item whose end, given
  with another offset, lies before its start is accepted.
\<close>

theorem item_may_end_before_it_starts:
  assumes "h_parse h ''2026-01-01T05:00:00Z'' = Some a" "h_parse h ''2026-01-01T09:00:00+05:30'' = Some b" "b < a"
  shows "isCallLogSyncItem h (Some late_item) \<and> \<not> date_le h ''2026-01-01T05:00:00Z'' ''2026-01-01T09:00:00+05:30''"
  using assms late_item_texts
  by (simp add: late_item_def isCallLogSyncItem_def guard_defs field_def date_le_def isBoundedString_def
      isCallDirection_def isCallDisposition_def isExplicitIsoDateTime_def explicit_date_time_def iso_date_time_def
      isBoundedInteger_def safe_integer_def not_before_def js_trim_def js_space_def)

end
