(* ===== verification/Parsing.thy ===== *)
theory Parsing
  imports Guards Calls
begin

text \<open>
  How the API reads requests (\<open>app.ts\<close>): the parsers of bodies, queries and headers, the masking
  of telephone numbers, each as a function that answers the typed input or the error it throws.
\<close>

section \<open>The run time and the error monad\<close>

text \<open>
  What the parsers use of the run time besides the host: \<open>new Date(ms).toISOString()\<close>, how a number
  prints, and \<open>Number(text)\<close> (\<open>None\<close> when it is not finite).
\<close>

record runtime =
  rt_host :: host
  rt_iso :: "int \<Rightarrow> string"
  rt_number_text :: "rat \<Rightarrow> string"
  rt_to_number :: "string \<Rightarrow> rat option"

definition attempt :: "thrown + 'a \<Rightarrow> ('a \<Rightarrow> thrown + 'b) \<Rightarrow> thrown + 'b" where
  "attempt m f = (case m of Inl e \<Rightarrow> Inl e | Inr x \<Rightarrow> f x)"

definition check :: "bool \<Rightarrow> thrown \<Rightarrow> thrown + unit" where
  "check ok e = (if ok then Inr () else Inl e)"

text \<open>\<open>value === undefined ? undefined : f(value)\<close>, and the same with \<open>null\<close> kept.\<close>

definition if_defined :: "(js \<Rightarrow> thrown + 'a) \<Rightarrow> js \<Rightarrow> thrown + 'a option" where
  "if_defined f v = (if v = None then Inr None else attempt (f v) (\<lambda>x. Inr (Some x)))"

definition if_not_null :: "(js \<Rightarrow> thrown + 'a) \<Rightarrow> js \<Rightarrow> thrown + 'a option option" where
  "if_not_null f v = (if v = None then Inr None else if v = Some JNull then Inr (Some None)
     else attempt (f v) (\<lambda>x. Inr (Some (Some x))))"

text \<open>\<open>value ?? fallback\<close>.\<close>

definition or_else :: "js \<Rightarrow> json \<Rightarrow> js" where
  "or_else v d = (if v = None \<or> v = Some JNull then Some d else v)"

text \<open>Reading a string that was found among the names of a type.\<close>

definition named :: "(string \<times> 'v) list \<Rightarrow> js \<Rightarrow> 'v option" where
  "named names v = (case v of Some (JString s) \<Rightarrow> map_of names s | _ \<Rightarrow> None)"

definition expect :: "'v option \<Rightarrow> thrown \<Rightarrow> thrown + 'v" where
  "expect v e = (case v of None \<Rightarrow> Inl e | Some x \<Rightarrow> Inr x)"

section \<open>Scalars\<close>

definition bodyRecord :: "js \<Rightarrow> thrown + json_record" where
  "bodyRecord body = expect (as_record body) (badRequest ''Request body must be a JSON object'' None)"

definition requiredString :: "nat \<Rightarrow> js \<Rightarrow> string \<Rightarrow> thrown + string" where
  "requiredString maximum v f =
     (case v of
        Some (JString s) \<Rightarrow>
          if js_trim s = [] then Inl (badRequest (f @ '' is required'') (Some f))
          else if length (js_trim s) > maximum
          then Inl (badRequest (f @ '' must not exceed '' @ decimal maximum @ '' characters'') (Some f))
          else Inr (js_trim s)
      | _ \<Rightarrow> Inl (badRequest (f @ '' is required'') (Some f)))"

definition optionalString :: "nat \<Rightarrow> js \<Rightarrow> string \<Rightarrow> thrown + string option" where
  "optionalString maximum v f = if_defined (\<lambda>v. requiredString maximum v f) v"

definition optionalQueryString :: "js \<Rightarrow> string \<Rightarrow> thrown + string option" where
  "optionalQueryString v f = attempt
     (check (\<not> array_and (\<lambda>_. True) v) (badRequest (f @ '' must be supplied once'') (Some f)))
     (\<lambda>_. optionalString 255 v f)"

definition integerQuery :: "runtime \<Rightarrow> js \<Rightarrow> string \<Rightarrow> nat \<Rightarrow> nat \<Rightarrow> thrown + int" where
  "integerQuery rt v f fallback maximum =
     (if v = None then Inr (int fallback)
      else attempt (optionalQueryString v f) (\<lambda>s.
        case Option.bind s (rt_to_number rt) of
          Some q \<Rightarrow> if safe_integer q \<and> 0 < q \<and> q \<le> of_nat maximum then Inr \<lfloor>q\<rfloor>
            else Inl (badRequest (f @ '' must be an integer between 1 and '' @ decimal maximum) (Some f))
        | None \<Rightarrow> Inl (badRequest (f @ '' must be an integer between 1 and '' @ decimal maximum) (Some f))))"

fun each_string :: "nat \<Rightarrow> string \<Rightarrow> nat \<Rightarrow> json list \<Rightarrow> thrown + string list" where
  "each_string maximum f i [] = Inr []"
| "each_string maximum f i (x # xs) = attempt (requiredString maximum (Some x) (f @ ''.'' @ decimal i)) (\<lambda>s.
     attempt (each_string maximum f (Suc i) xs) (\<lambda>ss. Inr (s # ss)))"

definition stringArray :: "nat \<Rightarrow> js \<Rightarrow> string \<Rightarrow> thrown + string list" where
  "stringArray maximum v f =
     (case v of
        Some (JArray xs) \<Rightarrow> if length xs < 1 \<or> maximum < length xs
          then Inl (badRequest (f @ '' must contain between 1 and '' @ decimal maximum @ '' values'') (Some f))
          else each_string 320 f 0 xs
      | _ \<Rightarrow> Inl (badRequest (f @ '' must contain between 1 and '' @ decimal maximum @ '' values'') (Some f)))"

definition one_name :: "nat \<Rightarrow> string list \<Rightarrow> string \<Rightarrow> js \<Rightarrow> thrown + string" where
  "one_name maximum names f v = attempt (requiredString maximum v f) (\<lambda>s.
     if s \<in> set names then Inr s else Inl (badRequest (f @ '' is unsupported'') (Some f)))"

definition reportKind :: "js \<Rightarrow> thrown + string" where
  "reportKind = one_name 50 [''call_summary'', ''employee_performance'', ''client_activity'', ''never_attended'',
     ''client_not_pickup'', ''lead_performance'', ''lead_status'', ''lead_not_contacted'', ''status_change''] ''kind''"

definition reportFormat :: "js \<Rightarrow> thrown + string" where
  "reportFormat = one_name 10 [''csv'', ''xlsx'', ''pdf''] ''format''"

text \<open>\<open>/^Bearer\s+([^\s]+)$/i\<close>\<close>

definition ascii_lower :: "char \<Rightarrow> char" where
  "ascii_lower c = (if in_range 65 90 c then char_of (of_char c + 32 :: nat) else c)"

definition parseBearerToken :: "string option \<Rightarrow> thrown + string" where
  "parseBearerToken header =
     (if \<not> truthy header then Inl (unauthenticated ''Authentication is required'')
      else let s = the header; rest = drop 6 s; tok = dropWhile js_space rest in
        if map ascii_lower (take 6 s) = ''bearer'' \<and> rest \<noteq> tok \<and> tok \<noteq> [] \<and> list_all (\<lambda>c. \<not> js_space c) tok
        then Inr tok else Inl (unauthenticated ''Authorization must use a Bearer token''))"

definition role_names :: "(string \<times> system_role_key) list" where
  "role_names = [(''owner'', RoleOwner), (''admin'', RoleAdmin), (''manager'', RoleManager),
     (''analyst'', RoleAnalyst), (''employee'', RoleEmployee)]"

definition asRole :: "js \<Rightarrow> thrown + system_role_key" where
  "asRole v = expect (named role_names v) (badRequest ''role must be a supported system role'' (Some ''role''))"

definition asEmployeeStatus :: "js \<Rightarrow> thrown + employee_status option" where
  "asEmployeeStatus = if_defined (\<lambda>v. expect (named [(''invited'', EmpInvited), (''active'', EmpActive),
     (''paused'', EmpPaused), (''deactivated'', EmpDeactivated)] v) (badRequest ''status is invalid'' (Some ''status'')))"

definition asTimestamp :: "runtime \<Rightarrow> js \<Rightarrow> string \<Rightarrow> thrown + string option" where
  "asTimestamp rt v f = if_defined (\<lambda>v.
     case v of
       Some (JString s) \<Rightarrow> (case h_parse (rt_host rt) s of
           Some ms \<Rightarrow> if explicit_date_time (rt_host rt) s then Inr (rt_iso rt ms)
             else Inl (badRequest (f @ '' must be an RFC 3339 timestamp with an explicit Z or UTC offset'') (Some f))
         | None \<Rightarrow> Inl (badRequest (f @ '' must be an RFC 3339 timestamp with an explicit Z or UTC offset'') (Some f)))
     | _ \<Rightarrow> Inl (badRequest (f @ '' must be an RFC 3339 timestamp with an explicit Z or UTC offset'') (Some f))) v"

definition nullableOptionalString :: "nat \<Rightarrow> js \<Rightarrow> string \<Rightarrow> thrown + string option option" where
  "nullableOptionalString maximum v f = if_not_null (\<lambda>v. requiredString maximum v f) v"

definition e164Phone :: "js \<Rightarrow> string \<Rightarrow> thrown + string" where
  "e164Phone v f = attempt (requiredString 20 v f) (\<lambda>s.
     if e164 s then Inr s else Inl (badRequest (f @ '' must be in E.164 format'') (Some f)))"

definition lowered_email :: "runtime \<Rightarrow> nat \<Rightarrow> js \<Rightarrow> string \<Rightarrow> thrown + string" where
  "lowered_email rt maximum v f = attempt (requiredString maximum v f) (\<lambda>s.
     let e = h_lower (rt_host rt) s in
     if e \<noteq> [] \<and> \<not> email_ok e then Inl (badRequest (f @ '' is invalid'') (Some f)) else Inr e)"

definition optionalEmail :: "runtime \<Rightarrow> js \<Rightarrow> string \<Rightarrow> thrown + string option" where
  "optionalEmail rt v f = if_defined (\<lambda>v. lowered_email rt 320 v f) v"

definition nullableOptionalEmail :: "runtime \<Rightarrow> js \<Rightarrow> string \<Rightarrow> thrown + string option option" where
  "nullableOptionalEmail rt v f = if_not_null (\<lambda>v. lowered_email rt 320 v f) v"

definition temperature_of :: "js \<Rightarrow> string \<Rightarrow> thrown + lead_temperature" where
  "temperature_of v f = expect (named [(''cold'', Cold), (''warm'', Warm), (''hot'', Hot)] v)
     (badRequest (f @ '' must be cold, warm, or hot'') (Some f))"

definition leadTemperature :: "js \<Rightarrow> string \<Rightarrow> thrown + lead_temperature option" where
  "leadTemperature v f = if_defined (\<lambda>v. temperature_of v f) v"

definition leadTagIds :: "js \<Rightarrow> string \<Rightarrow> thrown + string list option" where
  "leadTagIds v f = if_defined (\<lambda>v.
     case v of
       Some (JArray xs) \<Rightarrow>
         if 50 < length xs then Inl (badRequest (f @ '' must be an array containing at most 50 IDs'') (Some f))
         else attempt (each_string 100 f 0 xs) (\<lambda>tags.
           if distinct tags then Inr tags else Inl (badRequest (f @ '' must not contain duplicates'') (Some f)))
     | _ \<Rightarrow> Inl (badRequest (f @ '' must be an array containing at most 50 IDs'') (Some f))) v"

fun isJsonValue :: "json \<Rightarrow> nat \<Rightarrow> bool" where
  "isJsonValue JNull depth = True"
| "isJsonValue (JString s) depth = True"
| "isJsonValue (JBool b) depth = True"
| "isJsonValue (JNum q) depth = True"
| "isJsonValue (JInfinite p) depth = False"
| "isJsonValue (JArray xs) depth = (if 8 \<le> depth then False
     else length xs \<le> 100 \<and> (\<forall>x\<in>set xs. isJsonValue x (depth + 1)))"
| "isJsonValue (JObject fs) depth = (if 8 \<le> depth then False
     else length fs \<le> 100 \<and> (\<forall>f\<in>set fs. isJsonValue (snd f) (depth + 1)))"

definition leadCustomFields :: "runtime \<Rightarrow> js \<Rightarrow> string \<Rightarrow> thrown + json_record option" where
  "leadCustomFields rt v f = if_defined (\<lambda>v.
     case v of
       Some (JObject fs) \<Rightarrow>
         if 100 < length fs \<or> \<not> list_all custom_field_key (map fst fs) \<or> \<not> list_all (\<lambda>x. isJsonValue x 0) (map snd fs)
         then Inl (badRequest (f @ '' must be a JSON object with valid field keys and values'') (Some f))
         else if 65536 < length (stringify (rt_number_text rt) (JObject fs))
         then Inl (badRequest (f @ '' is too large'') (Some f))
         else Inr fs
     | _ \<Rightarrow> Inl (badRequest (f @ '' must be a JSON object with valid field keys and values'') (Some f))) v"

section \<open>Employees and leads\<close>

definition parseCreateEmployeeInput :: "runtime \<Rightarrow> json_record \<Rightarrow> thrown + create_employee_input" where
  "parseCreateEmployeeInput rt body =
     attempt (requiredString 120 (field body ''displayName'') ''displayName'') (\<lambda>displayName.
     attempt (if_defined (\<lambda>v. lowered_email rt 254 v ''email'') (field body ''email'')) (\<lambda>email.
     attempt (optionalString 20 (field body ''primaryPhone'') ''primaryPhone'') (\<lambda>primaryPhone.
     attempt (check (\<not> (truthy primaryPhone \<and> \<not> e164 (the primaryPhone)))
       (badRequest ''primaryPhone must be in E.164 format'' (Some ''primaryPhone''))) (\<lambda>_.
     attempt (optionalString 100 (field body ''managerEmployeeId'') ''managerEmployeeId'') (\<lambda>manager.
     attempt (optionalString 50 (field body ''employeeCode'') ''employeeCode'') (\<lambda>code.
     attempt (optionalString 100 (field body ''jobTitle'') ''jobTitle'') (\<lambda>title.
     attempt (optionalString 100 (field body ''team'') ''team'') (\<lambda>team.
     Inr \<lparr>cei_displayName = displayName, cei_email = email, cei_primaryPhone = primaryPhone, cei_employeeCode = code,
       cei_jobTitle = title, cei_team = team, cei_managerEmployeeId = manager, cei_workingHours = None\<rparr>))))))))"

definition source_of_name :: "(string \<times> lead_source) list" where
  "source_of_name = zip lead_source_names [SrcManual, SrcCsvImport, SrcWebsite, SrcFacebook, SrcInstagram,
     SrcGoogleAds, SrcIndiaMart, SrcApi, SrcIntegration, SrcUnknown]"

definition parseCreateLeadInput :: "runtime \<Rightarrow> json_record \<Rightarrow> thrown + create_lead_input" where
  "parseCreateLeadInput rt body =
     attempt (optionalString 200 (field body ''lastName'') ''lastName'') (\<lambda>lastName.
     attempt (optionalString 300 (field body ''companyName'') ''companyName'') (\<lambda>companyName.
     attempt (if_defined (\<lambda>v. e164Phone v ''alternatePhoneNumber'') (field body ''alternatePhoneNumber'')) (\<lambda>alternate.
     attempt (optionalEmail rt (field body ''email'') ''email'') (\<lambda>email.
     attempt (expect (named source_of_name (or_else (field body ''source'') (JString ''manual'')))
       (badRequest ''source is invalid'' (Some ''source''))) (\<lambda>source.
     attempt (optionalString 255 (field body ''sourceReference'') ''sourceReference'') (\<lambda>sourceReference.
     attempt (optionalString 100 (field body ''statusId'') ''statusId'') (\<lambda>statusId.
     attempt (leadTemperature (field body ''temperature'') ''temperature'') (\<lambda>temperature.
     attempt (optionalString 100 (field body ''assignedEmployeeId'') ''assignedEmployeeId'') (\<lambda>assigned.
     attempt (leadTagIds (field body ''tagIds'') ''tagIds'') (\<lambda>tagIds.
     attempt (leadCustomFields rt (field body ''customFields'') ''customFields'') (\<lambda>customFields.
     attempt (requiredString 200 (field body ''firstName'') ''firstName'') (\<lambda>firstName.
     attempt (e164Phone (field body ''phoneNumber'') ''phoneNumber'') (\<lambda>phoneNumber.
     Inr \<lparr>cli_firstName = firstName, cli_lastName = lastName, cli_companyName = companyName,
       cli_phoneNumber = phoneNumber, cli_alternatePhoneNumber = alternate, cli_email = email,
       cli_source = Some source, cli_sourceReference = sourceReference, cli_statusId = statusId,
       cli_temperature = temperature, cli_assignedEmployeeId = assigned, cli_tagIds = tagIds,
       cli_customFields = customFields\<rparr>)))))))))))))"

definition positive_integer :: "js \<Rightarrow> string \<Rightarrow> thrown + int" where
  "positive_integer v f = (case v of Some (JNum q) \<Rightarrow>
       if safe_integer q \<and> 1 \<le> q then Inr \<lfloor>q\<rfloor> else Inl (badRequest (f @ '' must be a positive integer'') (Some f))
     | _ \<Rightarrow> Inl (badRequest (f @ '' must be a positive integer'') (Some f)))"

definition allowed_changes :: "string list" where
  "allowed_changes = [''firstName'', ''lastName'', ''companyName'', ''phoneNumber'', ''alternatePhoneNumber'', ''email'',
     ''statusId'', ''temperature'', ''assignedEmployeeId'', ''tagIds'', ''customFields'', ''archived'']"

definition requiredBoolean :: "js \<Rightarrow> string \<Rightarrow> thrown + bool" where
  "requiredBoolean v f = (case v of Some (JBool b) \<Rightarrow> Inr b | _ \<Rightarrow> Inl (badRequest (f @ '' must be a boolean'') (Some f)))"

definition parse_changes :: "runtime \<Rightarrow> json_record \<Rightarrow> thrown + update_lead_input" where
  "parse_changes rt c =
     attempt (if_defined (\<lambda>v. requiredString 200 v ''changes.firstName'') (field c ''firstName'')) (\<lambda>firstName.
     attempt (nullableOptionalString 200 (field c ''lastName'') ''changes.lastName'') (\<lambda>lastName.
     attempt (nullableOptionalString 300 (field c ''companyName'') ''changes.companyName'') (\<lambda>companyName.
     attempt (if_defined (\<lambda>v. e164Phone v ''changes.phoneNumber'') (field c ''phoneNumber'')) (\<lambda>phoneNumber.
     attempt (if_not_null (\<lambda>v. e164Phone v ''changes.alternatePhoneNumber'') (field c ''alternatePhoneNumber'')) (\<lambda>alternate.
     attempt (nullableOptionalEmail rt (field c ''email'') ''changes.email'') (\<lambda>email.
     attempt (if_defined (\<lambda>v. requiredString 100 v ''changes.statusId'') (field c ''statusId'')) (\<lambda>statusId.
     attempt (if_not_null (\<lambda>v. temperature_of v ''changes.temperature'') (field c ''temperature'')) (\<lambda>temperature.
     attempt (if_not_null (\<lambda>v. requiredString 100 v ''changes.assignedEmployeeId'') (field c ''assignedEmployeeId'')) (\<lambda>assigned.
     attempt (leadTagIds (field c ''tagIds'') ''changes.tagIds'') (\<lambda>tagIds.
     attempt (leadCustomFields rt (field c ''customFields'') ''changes.customFields'') (\<lambda>customFields.
     attempt (if_defined (\<lambda>v. requiredBoolean v ''changes.archived'') (field c ''archived'')) (\<lambda>archived.
     Inr \<lparr>uli_firstName = firstName, uli_lastName = lastName, uli_companyName = companyName,
       uli_phoneNumber = phoneNumber, uli_alternatePhoneNumber = alternate, uli_email = email,
       uli_statusId = statusId, uli_temperature = temperature, uli_assignedEmployeeId = assigned,
       uli_tagIds = tagIds, uli_customFields = customFields, uli_archived = archived\<rparr>))))))))))))"

definition parseUpdateLeadRequest :: "runtime \<Rightarrow> json_record \<Rightarrow> thrown + update_lead_request" where
  "parseUpdateLeadRequest rt body =
     attempt (positive_integer (field body ''expectedVersion'') ''expectedVersion'') (\<lambda>version.
     attempt (expect (case as_record (field body ''changes'') of Some c \<Rightarrow> if c = [] then None else Some c | None \<Rightarrow> None)
       (badRequest ''changes must contain at least one lead update'' (Some ''changes''))) (\<lambda>c.
     case find (\<lambda>k. k \<notin> set allowed_changes) (map fst c) of
       Some k \<Rightarrow> if k \<noteq> [] then Inl (badRequest (''changes.'' @ k @ '' is not supported'') (Some (''changes.'' @ k)))
         else attempt (parse_changes rt c) (\<lambda>ch. Inr \<lparr>ulr_expectedVersion = version, ulr_changes = ch\<rparr>)
     | None \<Rightarrow> attempt (parse_changes rt c) (\<lambda>ch. Inr \<lparr>ulr_expectedVersion = version, ulr_changes = ch\<rparr>)))"

definition parseCreateLeadNoteInput :: "json_record \<Rightarrow> thrown + create_lead_note_input" where
  "parseCreateLeadNoteInput body =
     attempt (if_defined (\<lambda>v. requiredBoolean v ''isPinned'') (field body ''isPinned'')) (\<lambda>pinned.
     attempt (requiredString 10000 (field body ''body'') ''body'') (\<lambda>text.
     Inr \<lparr>cni_body = text, cni_isPinned = pinned\<rparr>))"

section \<open>Follow-ups\<close>

definition priority_names :: "(string \<times> follow_up_priority) list" where
  "priority_names = [(''low'', PrioLow), (''normal'', PrioNormal), (''high'', PrioHigh), (''urgent'', PrioUrgent)]"

definition parseCreateFollowUpInput :: "runtime \<Rightarrow> json_record \<Rightarrow> thrown + create_follow_up_input" where
  "parseCreateFollowUpInput rt body =
     attempt (asTimestamp rt (field body ''dueAt'') ''dueAt'') (\<lambda>due.
     attempt (check (truthy due) (badRequest ''dueAt is required'' (Some ''dueAt''))) (\<lambda>_.
     attempt (asTimestamp rt (field body ''reminderAt'') ''reminderAt'') (\<lambda>reminder.
     attempt (check (\<not> (truthy reminder \<and> the due < the reminder))
       (badRequest ''reminderAt cannot be after dueAt'' (Some ''reminderAt''))) (\<lambda>_.
     attempt (expect (named priority_names (or_else (field body ''priority'') (JString ''normal'')))
       (badRequest ''priority is invalid'' (Some ''priority''))) (\<lambda>priority.
     attempt (optionalString 10000 (field body ''notes'') ''notes'') (\<lambda>notes.
     attempt (requiredString 100 (field body ''leadId'') ''leadId'') (\<lambda>leadId.
     attempt (requiredString 100 (field body ''assignedEmployeeId'') ''assignedEmployeeId'') (\<lambda>assigned.
     attempt (requiredString 300 (field body ''title'') ''title'') (\<lambda>title.
     Inr \<lparr>cfi_leadId = leadId, cfi_assignedEmployeeId = assigned, cfi_title = title, cfi_notes = notes,
       cfi_dueAt = the due, cfi_reminderAt = reminder, cfi_priority = Some priority\<rparr>)))))))))"

definition parseCompleteFollowUpInput :: "runtime \<Rightarrow> json_record \<Rightarrow> thrown + complete_follow_up_input" where
  "parseCompleteFollowUpInput rt body =
     attempt (positive_integer (field body ''expectedVersion'') ''expectedVersion'') (\<lambda>version.
     attempt (optionalString 10000 (field body ''completionNote'') ''completionNote'') (\<lambda>note.
     attempt (asTimestamp rt (field body ''completedAt'') ''completedAt'') (\<lambda>done.
     Inr \<lparr>cpi_expectedVersion = version, cpi_completionNote = note, cpi_completedAt = done\<rparr>)))"

section \<open>Devices\<close>

definition permission_names :: "(string \<times> device_permission_state) list" where
  "permission_names = [(''unknown'', PermUnknown), (''granted'', PermGranted), (''denied'', PermDenied),
     (''restricted'', PermRestricted)]"

definition parse_permission :: "json_record \<Rightarrow> string \<Rightarrow> thrown + device_permission_state" where
  "parse_permission v k = expect (named permission_names (field v k))
     (badRequest (''permissions.'' @ k @ '' is invalid'') (Some (''permissions.'' @ k)))"

definition parsePermissions :: "js \<Rightarrow> thrown + device_permissions" where
  "parsePermissions v = attempt (expect (as_record v) (badRequest ''permissions must be an object'' (Some ''permissions''))) (\<lambda>p.
     attempt (parse_permission p ''callLog'') (\<lambda>a. attempt (parse_permission p ''phoneState'') (\<lambda>b.
     attempt (parse_permission p ''contacts'') (\<lambda>c. attempt (parse_permission p ''notifications'') (\<lambda>d.
     attempt (parse_permission p ''recordingFiles'') (\<lambda>e. attempt (parse_permission p ''backgroundExecution'') (\<lambda>g.
     Inr \<lparr>perm_callLog = a, perm_phoneState = b, perm_contacts = c, perm_notifications = d,
       perm_recordingFiles = e, perm_backgroundExecution = g\<rparr>)))))))"

definition parseDeviceRegistration :: "json_record \<Rightarrow> thrown + device_registration" where
  "parseDeviceRegistration body =
     attempt (expect (named [(''android'', Android), (''ios'', Ios)] (field body ''platform''))
       (badRequest ''platform must be android or ios'' (Some ''platform''))) (\<lambda>platform.
     attempt (optionalString 100 (field body ''manufacturer'') ''manufacturer'') (\<lambda>manufacturer.
     attempt (optionalString 100 (field body ''model'') ''model'') (\<lambda>model.
     attempt (expect (named [(''android_call_log'', ModeAndroidCallLog), (''synthetic_demo'', ModeSyntheticDemo)]
         (or_else (field body ''collectionMode'') (JString ''android_call_log'')))
       (badRequest ''collectionMode must be android_call_log or synthetic_demo'' (Some ''collectionMode''))) (\<lambda>mode.
     attempt (requiredString 160 (field body ''installationId'') ''installationId'') (\<lambda>installationId.
     attempt (requiredString 50 (field body ''osVersion'') ''osVersion'') (\<lambda>osVersion.
     attempt (requiredString 50 (field body ''appVersion'') ''appVersion'') (\<lambda>appVersion.
     attempt (parsePermissions (field body ''permissions'')) (\<lambda>permissions.
     Inr \<lparr>reg_installationId = installationId, reg_platform = platform, reg_manufacturer = manufacturer,
       reg_model = model, reg_osVersion = osVersion, reg_appVersion = appVersion, reg_collectionMode = mode,
       reg_permissions = permissions\<rparr>))))))))"

section \<open>Calls\<close>

definition nonNegativeInteger :: "js \<Rightarrow> string \<Rightarrow> nat \<Rightarrow> thrown + int" where
  "nonNegativeInteger v f maximum = (case v of Some (JNum q) \<Rightarrow>
       if safe_integer q \<and> 0 \<le> q \<and> q \<le> of_nat maximum then Inr \<lfloor>q\<rfloor>
       else Inl (badRequest (f @ '' must be a non-negative integer no greater than '' @ decimal maximum) (Some f))
     | _ \<Rightarrow> Inl (badRequest (f @ '' must be a non-negative integer no greater than '' @ decimal maximum) (Some f)))"

definition direction_names :: "(string \<times> call_direction) list" where
  "direction_names = [(''incoming'', Incoming), (''outgoing'', Outgoing)]"

definition disposition_names :: "(string \<times> call_disposition) list" where
  "disposition_names = [(''answered'', Answered), (''missed'', Missed), (''rejected'', Rejected), (''busy'', Busy),
     (''blocked'', Blocked), (''voicemail'', Voicemail), (''unknown'', DispUnknown)]"

definition parseSimulatedCall :: "runtime \<Rightarrow> json_record \<Rightarrow> thrown + simulated_call" where
  "parseSimulatedCall rt body =
     attempt (expect (named direction_names (field body ''direction'')) (badRequest ''direction is invalid'' (Some ''direction''))) (\<lambda>direction.
     attempt (expect (named disposition_names (field body ''disposition''))
       (badRequest ''disposition is invalid'' (Some ''disposition''))) (\<lambda>disposition.
     attempt (asTimestamp rt (field body ''startedAt'') ''startedAt'') (\<lambda>started.
     attempt (check (truthy started) (badRequest ''startedAt is required'' (Some ''startedAt''))) (\<lambda>_.
     attempt (asTimestamp rt (field body ''answeredAt'') ''answeredAt'') (\<lambda>answered.
     attempt (asTimestamp rt (field body ''endedAt'') ''endedAt'') (\<lambda>ended.
     attempt (check (\<not> (truthy answered \<and> the answered < the started))
       (badRequest ''answeredAt cannot precede startedAt'' (Some ''answeredAt''))) (\<lambda>_.
     attempt (check (\<not> (truthy ended \<and> the ended < (case answered of Some a \<Rightarrow> a | None \<Rightarrow> the started)))
       (badRequest ''endedAt cannot precede the call start or answer'' (Some ''endedAt''))) (\<lambda>_.
     attempt (requiredString 20 (field body ''phoneNumber'') ''phoneNumber'') (\<lambda>phone.
     attempt (check (e164 phone) (badRequest ''phoneNumber must be in E.164 format'' (Some ''phoneNumber''))) (\<lambda>_.
     attempt (optionalString 160 (field body ''displayName'') ''displayName'') (\<lambda>displayName.
     attempt (optionalString 100 (field body ''deviceId'') ''deviceId'') (\<lambda>deviceId.
     attempt (if_defined (\<lambda>v. nonNegativeInteger v ''ringDurationSeconds'' 86400) (field body ''ringDurationSeconds'')) (\<lambda>ring.
     attempt (requiredString 160 (field body ''externalId'') ''externalId'') (\<lambda>externalId.
     attempt (requiredString 100 (field body ''employeeId'') ''employeeId'') (\<lambda>employeeId.
     attempt (nonNegativeInteger (field body ''durationSeconds'') ''durationSeconds'' (7 * 86400)) (\<lambda>duration.
     attempt (requiredBoolean (field body ''isInternal'') ''isInternal'') (\<lambda>internal.
     attempt (requiredBoolean (field body ''isWithinWorkingHours'') ''isWithinWorkingHours'') (\<lambda>working.
     Inr \<lparr>sc_externalId = externalId, sc_employeeId = employeeId, sc_deviceId = deviceId, sc_direction = direction,
       sc_disposition = disposition, sc_phoneNumber = phone, sc_displayName = displayName, sc_isInternal = internal,
       sc_startedAt = the started, sc_answeredAt = answered, sc_endedAt = ended, sc_durationSeconds = duration,
       sc_ringDurationSeconds = ring, sc_isWithinWorkingHours = working\<rparr>))))))))))))))))))"

section \<open>Headers and operation requests\<close>

text \<open>A header's value: absent, given once, or given more than once.\<close>

datatype header = NoHeader | OneHeader string | ManyHeaders "string list"

definition is_key_char :: char_class where
  "is_key_char c = (is_letter c \<or> is_digit c \<or> c \<in> {CHR ''.'', CHR ''_'', CHR '':'', CHR ''-''})"

definition idempotencyKey :: "header \<Rightarrow> thrown + string" where
  "idempotencyKey v = (case v of
       OneHeader s \<Rightarrow> if 8 \<le> length s \<and> length s \<le> 128 \<and> list_all is_key_char s then Inr s
         else Inl (badRequest ''Idempotency-Key must contain 8-128 safe characters'' (Some ''Idempotency-Key''))
     | _ \<Rightarrow> Inl (badRequest ''Idempotency-Key must contain 8-128 safe characters'' (Some ''Idempotency-Key'')))"

text \<open>\<open>fp\<close> stands for the SHA-256 fingerprint of the body.\<close>

definition operationRequest :: "(json_record \<Rightarrow> string) \<Rightarrow> header \<Rightarrow> js \<Rightarrow> thrown + string \<times> string" where
  "operationRequest fp hdr body =
     (case body of
        Some (JObject fs) \<Rightarrow>
          (case field fs ''requestId'' of
             Some (JString i) \<Rightarrow>
               if \<not> request_uuid i then Inl (badRequest ''requestId must be a UUID'' (Some ''requestId''))
               else attempt (idempotencyKey hdr) (\<lambda>key.
                 if key \<noteq> i then Inl (badRequest ''Idempotency-Key must exactly match requestId'' (Some ''Idempotency-Key''))
                 else Inr (i, fp fs))
           | _ \<Rightarrow> Inl (badRequest ''requestId must be a UUID'' (Some ''requestId'')))
      | _ \<Rightarrow> Inl (badRequest ''requestId must be a UUID'' (Some ''requestId'')))"

section \<open>Masking\<close>

text \<open>The bullet U+2022 is outside the characters of HOL's strings; its Windows-1252 code stands for it.\<close>

definition maskPhoneNumber :: "string \<Rightarrow> string" where
  "maskPhoneNumber s = (let ds = filter is_digit s in replicate 4 (CHR 0x95) @ '' '' @ drop (length ds - 4) ds)"

definition sees_masked :: "actor_context \<Rightarrow> bool" where
  "sees_masked actor = (actor_roleKey actor = RoleAnalyst
     \<and> set_maskPhoneNumbersForRestrictedUsers (org_settings (actor_organization actor)))"

definition presentCalls :: "actor_context \<Rightarrow> call_log list \<Rightarrow> call_log list" where
  "presentCalls actor cs = (if \<not> sees_masked actor then cs
     else map (\<lambda>c. c\<lparr>call_participant := (call_participant c)\<lparr>part_phoneNumber := maskPhoneNumber (part_phoneNumber (call_participant c))\<rparr>\<rparr>) cs)"

definition presentEmployees :: "actor_context \<Rightarrow> employee list \<Rightarrow> employee list" where
  "presentEmployees actor es = (if \<not> sees_masked actor then es
     else map (\<lambda>e. e\<lparr>emp_primaryPhone := map_option maskPhoneNumber (emp_primaryPhone e)\<rparr>) es)"

end
