(* ===== verification/LeadFacts.thy ===== *)
theory LeadFacts
  imports Leads
begin

text \<open>
  What makes the lead workspace correct: which leads a listing or a detail can show, complete
  pagination, the write set of each mutation, optimistic versions, single completion of
  follow-ups, and the invariant that ties a lead to its status and to its next follow-up.
\<close>

section \<open>What a mutation did\<close>

lemma add_activity_eq:
  "add_activity mk r = r\<lparr>ids := Suc (ids r), leadActivities :=
     map_set (sequential_id ''lead_activity'' (Suc (ids r))) (mk (sequential_id ''lead_activity'' (Suc (ids r))))
       (leadActivities r)\<rparr>"
  by (simp add: add_activity_def next_id_eq)

lemma add_note_eq:
  "add_note mk r = r\<lparr>ids := Suc (ids r), leadNotes :=
     map_set (sequential_id ''lead_note'' (Suc (ids r))) (mk (sequential_id ''lead_note'' (Suc (ids r))))
       (leadNotes r)\<rparr>"
  by (simp add: add_note_def next_id_eq)

lemma return_detail_state [simp]: "snd (return_detail h l ts r) = r"
  by (simp add: return_detail_def)

lemma createLeadE:
  assumes "createLead h o' r = (res, r')"
  obtains (refused) "res = Inr None" "r' = r"
  | (created) s r3 where "ls_organizationId s = clo_organizationId o'" "ls_isActive s"
      "truthy (cli_statusId (clo_input o')) \<longrightarrow> map_get (leadStatuses r) (the (cli_statusId (clo_input o'))) = Some s"
      "\<not> truthy (cli_statusId (clo_input o')) \<longrightarrow> defaultLeadStatus (clo_organizationId o') r = Some s"
      "truthy (cli_assignedEmployeeId (clo_input o')) \<longrightarrow> validateLeadAssignment (clo_organizationId o') (clo_scope o')
         (the (cli_assignedEmployeeId (clo_input o'))) r \<noteq> None"
      "\<forall>e. clo_scope o' = ScopeAssigned e \<longrightarrow> cli_assignedEmployeeId (clo_input o') = Some e"
      "r3 = r\<lparr>ids := Suc (ids r),
          leads := map_set (sequential_id ''lead'' (Suc (ids r))) (new_lead o' s (sequential_id ''lead'' (Suc (ids r)))) (leads r),
          leadTeams := (case new_lead_team o' r of Some t \<Rightarrow> if t \<noteq> [] then
             map_set (sequential_id ''lead'' (Suc (ids r))) t (leadTeams r) else leadTeams r | None \<Rightarrow> leadTeams r)\<rparr>"
      "r' = add_activity (user_activity (clo_organizationId o') (sequential_id ''lead'' (Suc (ids r))) ActCreated
         (clo_actorUserId o') (clo_at o') ''Lead created'' None) r3"
      "res = map_sum id Some (buildLeadDetail h (new_lead o' s (sequential_id ''lead'' (Suc (ids r)))) (clo_at o') r')"
proof -
  have team: "new_lead_team o' (r\<lparr>ids := n, leads := m\<rparr>) = new_lead_team o' r" for n m
    by (simp add: new_lead_team_def cong: option.case_cong lead_access_scope.case_cong)
  define s where "s = (if truthy (cli_statusId (clo_input o')) then map_get (leadStatuses r) (the (cli_statusId (clo_input o')))
            else defaultLeadStatus (clo_organizationId o') r)"
  show ?thesis
  proof (cases s)
    case None
    then show ?thesis using assms refused by (simp add: createLead_def s_def split: if_splits)
  next
    case (Some st)
    show ?thesis
    proof (cases "res = Inr None \<and> r' = r")
      case False
      have *: "ls_organizationId st = clo_organizationId o' \<and> ls_isActive st \<and>
         (truthy (cli_assignedEmployeeId (clo_input o')) \<longrightarrow> validateLeadAssignment (clo_organizationId o') (clo_scope o')
           (the (cli_assignedEmployeeId (clo_input o'))) r \<noteq> None) \<and>
         (\<forall>e. clo_scope o' = ScopeAssigned e \<longrightarrow> cli_assignedEmployeeId (clo_input o') = Some e)"
        using assms False Some unfolding createLead_def Let_def s_def[symmetric]
        by (auto split: if_splits lead_access_scope.splits)
      then have "\<not> (case clo_scope o' of ScopeAssigned e \<Rightarrow> cli_assignedEmployeeId (clo_input o') \<noteq> Some e | _ \<Rightarrow> False)"
        by (auto split: lead_access_scope.splits)
      with * assms Some show ?thesis
        unfolding createLead_def Let_def s_def[symmetric]
        by (intro created[of st]) (auto simp: s_def next_id_eq team return_detail_def split: option.splits if_splits)
    qed (use refused in blast)
  qed
qed

lemma updateLeadE:
  assumes "updateLead h o' r = (res, r')"
  obtains (refused) "res = Inr None \<or> (\<exists>msg. res = Inl (conflict msg))" "r' = r"
  | (committed) l where "map_get (leads r) (ulo_leadId o') = Some l"
      "lead_organizationId l = ulo_organizationId o'" "canAccessLead (ulo_scope o') l r"
      "lead_version l = ulr_expectedVersion (ulo_request o')" "changes_allowed o' r"
      "update_commit h o' l r = (res, r')"
  using assms by (auto simp: updateLead_def split: option.splits if_splits)

lemma createLeadNoteE:
  assumes "createLeadNote h o' r = (res, r')"
  obtains (refused) "res = Inr None" "r' = r"
  | (committed) l where "map_get (leads r) (cno_leadId o') = Some l"
      "lead_organizationId l = cno_organizationId o'" "canAccessLead (cno_scope o') l r"
      "r' = add_activity (user_activity (cno_organizationId o') (lead_id l) ActNoteAdded
              (cno_actorUserId o') (cno_at o') ''Note added'' None)
            (add_note (new_note (cno_organizationId o') (lead_id l) (cno_actorUserId o')
              (cni_body (cno_input o')) (case cni_isPinned (cno_input o') of None \<Rightarrow> False | Some b \<Rightarrow> b)
              (cno_at o')) r)"
  using assms by (auto simp: createLeadNote_def Let_def return_detail_def split: option.splits if_splits)

lemma createLeadFollowUpE:
  assumes "createLeadFollowUp h o' r = (res, r')"
  obtains (refused) "res = Inr None" "r' = r"
  | (committed) l i r2 due where "map_get (leads r) (cfo_leadId o') = Some l"
      "lead_organizationId l = cfo_organizationId o'" "canAccessLead (cfo_scope o') l r"
      "cfi_leadId (cfo_input o') = lead_id l"
      "i = sequential_id ''follow_up'' (Suc (ids r))"
      "r2 = r\<lparr>ids := Suc (ids r), leadFollowUps := map_set i (new_follow_up o' (lead_id l) i) (leadFollowUps r)\<rparr>"
      "due = next_due h (cfo_organizationId o') (lead_id l) r2"
      "r' = add_activity (user_activity (cfo_organizationId o') (lead_id l) ActFollowUpCreated
              (cfo_actorUserId o') (cfo_at o') ''Follow-up scheduled'' None)
            (r2\<lparr>leads := map_set (cfo_leadId o') (touch_lead (cfo_at o') (cfo_actorUserId o')
                   (if truthy due then l\<lparr>lead_nextFollowUpAt := due\<rparr> else l)) (leads r)\<rparr>)"
proof (cases "res = Inr None \<and> r' = r")
  case False
  with assms obtain l where "map_get (leads r) (cfo_leadId o') = Some l"
      "lead_organizationId l = cfo_organizationId o'" "canAccessLead (cfo_scope o') l r"
      "cfi_leadId (cfo_input o') = lead_id l"
      "validateLeadAssignment (cfo_organizationId o') (cfo_scope o') (cfi_assignedEmployeeId (cfo_input o')) r \<noteq> None"
    by (auto simp: createLeadFollowUp_def split: option.splits if_splits)
  with assms show ?thesis
    by (intro committed[OF _ _ _ _ refl refl refl])
      (auto simp: createLeadFollowUp_def Let_def next_id_eq return_detail_def split: option.splits if_splits)
qed (use refused in blast)

lemma completeLeadFollowUpE:
  assumes "completeLeadFollowUp h o' r = (res, r')"
  obtains (refused) "res = Inr None \<or> (\<exists>msg. res = Inl (conflict msg))" "r' = r"
  | (committed) f l where "map_get (leadFollowUps r) (cpo_followUpId o') = Some f"
      "fu_organizationId f = cpo_organizationId o'" "map_get (leads r) (fu_leadId f) = Some l"
      "canAccessLead (cpo_scope o') l r" "fu_version f = cpi_expectedVersion (cpo_input o')"
      "fu_status f = FuPending" "complete_commit h o' f l r = (res, r')"
  using assms by (auto simp: completeLeadFollowUp_def split: option.splits if_splits)

section \<open>The workspace invariant\<close>

lemma filter_values_update:
  "map_get m k = Some f \<Longrightarrow> \<not> P f \<Longrightarrow> \<not> P f' \<Longrightarrow>
   filter P (map_values (map_set k f' m)) = filter P (map_values m)"
  by (induction m) (auto simp: map_values_def)

text \<open>\<open>next_due\<close> reads nothing but the follow-ups.\<close>

lemma next_due_cong: "leadFollowUps r = leadFollowUps r' \<Longrightarrow> next_due h orgId i r = next_due h orgId i r'"
  by (simp add: next_due_def followUpsForLead_def)

lemma followUps_set:
  "set (followUpsForLead h orgId i r)
     = {f \<in> set (map_values (leadFollowUps r)). fu_organizationId f = orgId \<and> fu_leadId f = i}"
  by (auto simp: followUpsForLead_def)

lemma next_due_None_iff:
  "next_due h orgId i r = None \<longleftrightarrow>
   (\<forall>f \<in> set (map_values (leadFollowUps r)). fu_organizationId f = orgId \<longrightarrow> fu_leadId f = i \<longrightarrow> fu_status f \<noteq> FuPending)"
  by (auto simp: next_due_def find_None_iff followUps_set)

lemma comparator_follow_up_order: "comparator (follow_up_order h)"
  unfolding follow_up_order_def by (intro comparator_or comparator_on comparator_lcmp)

interpretation follow_ups: comparator "follow_up_order h" for h
  by (rule comparator_follow_up_order)

lemma next_due_Some:
  assumes "next_due h orgId i r = Some d"
  shows "\<exists>f \<in> set (map_values (leadFollowUps r)). fu_organizationId f = orgId \<and> fu_leadId f = i
    \<and> fu_status f = FuPending \<and> fu_dueAt f = d
    \<and> (\<forall>g \<in> set (map_values (leadFollowUps r)). fu_organizationId g = orgId \<longrightarrow> fu_leadId g = i \<longrightarrow>
         fu_status g = FuPending \<longrightarrow> localeCompare h d (fu_dueAt g) \<le> 0)"
proof -
  let ?fs = "followUpsForLead h orgId i r"
  obtain f where f: "find (\<lambda>f. fu_status f = FuPending) ?fs = Some f" "fu_dueAt f = d"
    using assms by (auto simp: next_due_def)
  then obtain n where n: "n < length ?fs" "?fs ! n = f" "fu_status f = FuPending"
    "\<forall>j < n. fu_status (?fs ! j) \<noteq> FuPending" by (auto simp: find_Some_iff)
  have srt: "sorted_wrt (\<lambda>x y. follow_up_order h x y \<le> 0) ?fs"
    by (simp add: followUpsForLead_def follow_ups.sorted_sort)
  have "localeCompare h d (fu_dueAt g) \<le> 0" if g: "g \<in> set ?fs" "fu_status g = FuPending" for g
  proof -
    obtain m where m: "m < length ?fs" "?fs ! m = g" using g(1) by (auto simp: in_set_conv_nth)
    have "n \<le> m" using n(4) m g(2) by (meson not_le)
    then have "follow_up_order h f g \<le> 0"
      using srt n m by (cases "n = m") (auto simp: sorted_wrt_iff_nth_less follow_ups.refl)
    then show ?thesis using f(2) by (auto simp: follow_up_order_def cmp_or_def cmp_on_def split: if_splits)
  qed
  moreover have "f \<in> set ?fs" using n by auto
  ultimately show ?thesis using n(3) f(2) by (intro bexI[of _ f]) (auto simp: followUps_set)
qed

definition lead_ok :: "host \<Rightarrow> 'a lead_state_scheme \<Rightarrow> lead \<Rightarrow> bool" where
  "lead_ok h r l \<longleftrightarrow>
     (\<exists>s. map_get (leadStatuses r) (lead_statusId l) = Some s \<and> ls_organizationId s = lead_organizationId l)
     \<and> lead_nextFollowUpAt l = next_due h (lead_organizationId l) (lead_id l) r"

definition follow_up_ok :: "'a lead_state_scheme \<Rightarrow> follow_up \<Rightarrow> bool" where
  "follow_up_ok r f \<longleftrightarrow> fu_dueAt f \<noteq> []
     \<and> (\<exists>l. map_get (leads r) (fu_leadId f) = Some l \<and> lead_organizationId l = fu_organizationId f)"

definition lead_inv :: "host \<Rightarrow> 'a lead_state_scheme \<Rightarrow> bool" where
  "lead_inv h r \<longleftrightarrow> keyed ls_id (leadStatuses r) \<and> keyed lead_id (leads r) \<and> keyed fu_id (leadFollowUps r)
     \<and> ids_fresh ''lead'' (ids r) (leads r) \<and> ids_fresh ''follow_up'' (ids r) (leadFollowUps r)
     \<and> ids_fresh ''lead_activity'' (ids r) (leadActivities r)
     \<and> (\<forall>k l. map_get (leads r) k = Some l \<longrightarrow> lead_ok h r l)
     \<and> (\<forall>k f. map_get (leadFollowUps r) k = Some f \<longrightarrow> follow_up_ok r f)"

lemma lead_inv_lead: "lead_inv h r \<Longrightarrow> map_get (leads r) k = Some l \<Longrightarrow> lead_ok h r l \<and> lead_id l = k"
  by (auto simp: lead_inv_def dest: keyedD)

lemma lead_inv_follow_up: "lead_inv h r \<Longrightarrow> map_get (leadFollowUps r) k = Some f \<Longrightarrow> follow_up_ok r f \<and> fu_id f = k"
  by (auto simp: lead_inv_def dest: keyedD)

lemma lead_inv_wf:
  assumes "lead_inv h r"
  shows "map_wf (leadStatuses r)" "map_wf (leads r)" "map_wf (leadFollowUps r)"
  using assms by (auto simp: lead_inv_def dest: keyed_wf)

lemma lead_ok_status: "lead_ok h r l \<Longrightarrow> \<exists>s. statusForLead l r = Inr s \<and> ls_organizationId s = lead_organizationId l"
  by (auto simp: lead_ok_def statusForLead_def)

lemma lead_ok_cong:
  "lead_ok h r l \<Longrightarrow> leadStatuses r' = leadStatuses r \<Longrightarrow> leadFollowUps r' = leadFollowUps r \<Longrightarrow>
   lead_statusId l' = lead_statusId l \<Longrightarrow> lead_organizationId l' = lead_organizationId l \<Longrightarrow>
   lead_id l' = lead_id l \<Longrightarrow> lead_nextFollowUpAt l' = lead_nextFollowUpAt l \<Longrightarrow> lead_ok h r' l'"
  using next_due_cong[of r' r] by (simp add: lead_ok_def)

text \<open>Rewriting one lead in place, with the follow-ups and the statuses as they were.\<close>

lemma lead_inv_write:
  assumes inv: "lead_inv h r" and l: "map_get (leads r) k = Some l"
    and same: "lead_id l' = lead_id l" "lead_organizationId l' = lead_organizationId l"
    and ok: "lead_ok h r l'" and n: "ids r \<le> ids r'"
    and eqs: "leads r' = map_set k l' (leads r)" "leadStatuses r' = leadStatuses r"
      "leadFollowUps r' = leadFollowUps r" and act: "ids_fresh ''lead_activity'' (ids r') (leadActivities r')"
  shows "lead_inv h r'"
proof -
  have id: "lead_id l = k" using lead_inv_lead[OF inv l] by simp
  have "lead_ok h r' x" if "map_get (leads r') k' = Some x" for k' x
  proof (cases "k' = k")
    case True
    with that have "x = l'" by (simp add: eqs store_simps)
    then show ?thesis using ok eqs by (auto intro: lead_ok_cong)
  next
    case False
    with that have "map_get (leads r) k' = Some x" by (simp add: eqs store_simps)
    then have "lead_ok h r x" using lead_inv_lead[OF inv] by blast
    then show ?thesis using eqs by (auto intro: lead_ok_cong)
  qed
  moreover have "follow_up_ok r' f" if "map_get (leadFollowUps r') j = Some f" for j f
    using lead_inv_follow_up[OF inv, of j f] that l same id by (auto simp: follow_up_ok_def eqs store_simps)
  ultimately show ?thesis
    using inv l id same n act
    by (auto simp: lead_inv_def eqs intro: ids_fresh_mono ids_fresh_update_present)
qed

text \<open>Adding a lead with no follow-ups.\<close>

lemma lead_inv_add:
  assumes inv: "lead_inv h r" and k: "k = sequential_id ''lead'' (Suc (ids r))"
    and l: "lead_id l = k" "lead_nextFollowUpAt l = None"
      "\<exists>s. map_get (leadStatuses r) (lead_statusId l) = Some s \<and> ls_organizationId s = lead_organizationId l"
    and eqs: "leads r' = map_set k l (leads r)" "leadStatuses r' = leadStatuses r"
      "leadFollowUps r' = leadFollowUps r" and act: "ids_fresh ''lead_activity'' (ids r') (leadActivities r')"
    and n: "ids r < ids r'"
  shows "lead_inv h r'"
proof -
  have new: "map_get (leads r) k = None" using inv k by (auto simp: lead_inv_def intro: ids_fresh_next)
  have orphan: "fu_leadId f \<noteq> k" if ff: "f \<in> set (map_values (leadFollowUps r))" for f
  proof -
    have "map_wf (leadFollowUps r)" using inv by (rule lead_inv_wf)
    then obtain j where "map_get (leadFollowUps r) j = Some f"
      using ff by (auto simp: in_values_iff)
    then have "follow_up_ok r f" using lead_inv_follow_up[OF inv] by blast
    then show ?thesis using new by (auto simp: follow_up_ok_def)
  qed
  have "next_due h (lead_organizationId l) k r = None"
    using orphan by (auto simp: next_due_None_iff)
  then have okl: "lead_ok h r' l"
    using l eqs next_due_cong[of r' r] by (simp add: lead_ok_def)
  have "lead_ok h r' x" if "map_get (leads r') k' = Some x" for k' x
  proof (cases "k' = k")
    case True with that okl show ?thesis by (simp add: eqs store_simps)
  next
    case False
    with that have "map_get (leads r) k' = Some x" by (simp add: eqs store_simps)
    then have "lead_ok h r x" using lead_inv_lead[OF inv] by blast
    then show ?thesis using eqs by (auto intro: lead_ok_cong)
  qed
  moreover have "follow_up_ok r' f" if "map_get (leadFollowUps r') j = Some f" for j f
    using lead_inv_follow_up[OF inv, of j f] that new by (auto simp: follow_up_ok_def eqs store_simps)
  moreover have "ids_fresh ''lead'' (ids r') (leads r')"
  proof -
    have "ids_fresh ''lead'' (Suc (ids r)) (map_set k l (leads r))"
      using inv by (auto simp: lead_inv_def k intro: ids_fresh_put)
    then show ?thesis using n by (auto simp: eqs intro: ids_fresh_mono)
  qed
  ultimately show ?thesis
    using inv l n act
    by (auto simp: lead_inv_def eqs intro: ids_fresh_mono)
qed

lemma ids_fresh_activity:
  "ids_fresh ''lead_activity'' (ids r) (leadActivities r) \<Longrightarrow>
   ids_fresh ''lead_activity'' (ids (add_activity mk r)) (leadActivities (add_activity mk r))"
  by (auto simp: add_activity_eq intro: ids_fresh_put)

lemma add_activity_frame [frame_simps]:
  "leads (add_activity mk r) = leads r" "leadStatuses (add_activity mk r) = leadStatuses r"
  "leadFollowUps (add_activity mk r) = leadFollowUps r" "leadTeams (add_activity mk r) = leadTeams r"
  "leadNotes (add_activity mk r) = leadNotes r" "employees (add_activity mk r) = employees r"
  "ids (add_activity mk r) = Suc (ids r)"
  by (simp_all add: add_activity_eq)

lemma add_note_frame [frame_simps]:
  "leads (add_note mk r) = leads r" "leadStatuses (add_note mk r) = leadStatuses r"
  "leadFollowUps (add_note mk r) = leadFollowUps r" "leadTeams (add_note mk r) = leadTeams r"
  "leadActivities (add_note mk r) = leadActivities r" "employees (add_note mk r) = employees r"
  "ids (add_note mk r) = Suc (ids r)"
  by (simp_all add: add_note_eq)

lemma lead_inv_notes:
  assumes "lead_inv h r" "leads r' = leads r" "leadStatuses r' = leadStatuses r" "leadFollowUps r' = leadFollowUps r"
    "ids r \<le> ids r'" "ids_fresh ''lead_activity'' (ids r') (leadActivities r')"
  shows "lead_inv h r'"
  using assms next_due_cong[of r' r]
  by (auto simp: lead_inv_def lead_ok_def follow_up_ok_def intro: ids_fresh_mono)

lemma lead_inv_createNote:
  assumes inv: "lead_inv h r" shows "lead_inv h (snd (createLeadNote h o' r))"
proof (cases "createLeadNote h o' r")
  case (Pair res r')
  from Pair show ?thesis
  proof (cases rule: createLeadNoteE)
    case (committed l)
    have "ids_fresh ''lead_activity'' (ids r') (leadActivities r')"
      unfolding committed(4) using inv
      by (intro ids_fresh_activity) (auto simp: frame_simps lead_inv_def intro: ids_fresh_mono)
    then have "lead_inv h r'" by (intro lead_inv_notes[OF inv]) (simp_all add: committed(4) frame_simps)
    then show ?thesis using Pair by simp
  qed (use assms Pair in simp)
qed

lemma new_lead_simps [simp]:
  "lead_id (new_lead o' s i) = i" "lead_organizationId (new_lead o' s i) = clo_organizationId o'"
  "lead_statusId (new_lead o' s i) = ls_id s" "lead_nextFollowUpAt (new_lead o' s i) = None"
  "lead_version (new_lead o' s i) = 1" "lead_assignedEmployeeId (new_lead o' s i) = cli_assignedEmployeeId (clo_input o')"
  "lead_archivedAt (new_lead o' s i) = None"
  by (simp_all add: new_lead_def Let_def)

lemma defaultLeadStatus_in: "defaultLeadStatus orgId r = Some s \<Longrightarrow> s \<in> set (map_values (leadStatuses r))"
proof -
  assume a: "defaultLeadStatus orgId r = Some s"
  then have "s \<in> set (js_sort status_default_order (filter (\<lambda>s. ls_organizationId s = orgId \<and> ls_isActive s)
         (map_values (leadStatuses r))))"
    by (simp add: defaultLeadStatus_def del: set_js_sort split: list.splits)
  then show ?thesis by simp
qed

lemma lead_inv_createLead:
  assumes inv: "lead_inv h r" shows "lead_inv h (snd (createLead h o' r))"
proof (cases "createLead h o' r")
  case (Pair res r')
  from Pair show ?thesis
  proof (cases rule: createLeadE)
    case (created s r3)
    have "s \<in> set (map_values (leadStatuses r))"
    proof (cases "truthy (cli_statusId (clo_input o'))")
      case True
      with created(3) show ?thesis by (auto dest: map_of_in_values)
    next
      case False
      with created(4) show ?thesis by (auto dest: defaultLeadStatus_in)
    qed
    moreover have ks: "keyed ls_id (leadStatuses r)" using inv by (simp add: lead_inv_def)
    ultimately obtain j where "map_get (leadStatuses r) j = Some s"
      using in_values_iff[OF keyed_wf] by metis
    then have "map_get (leadStatuses r) (ls_id s) = Some s" using keyedD[OF ks] by metis
    moreover have "ids_fresh ''lead_activity'' (ids r') (leadActivities r')"
      unfolding created(8) using inv
      by (intro ids_fresh_activity) (auto simp: created(7) lead_inv_def intro: ids_fresh_mono)
    ultimately have "lead_inv h r'"
      using created(1)
      by (intro lead_inv_add[OF inv refl, where l = "new_lead o' s (sequential_id ''lead'' (Suc (ids r)))"])
        (simp_all add: created(7,8) frame_simps)
    then show ?thesis using Pair by simp
  qed (use assms Pair in simp)
qed

lemma apply_changes_simps [simp]:
  "lead_id (apply_changes c ts l) = lead_id l" "lead_organizationId (apply_changes c ts l) = lead_organizationId l"
  "lead_nextFollowUpAt (apply_changes c ts l) = lead_nextFollowUpAt l"
  "lead_version (apply_changes c ts l) = lead_version l"
  "lead_statusId (apply_changes c ts l) = set_plain (uli_statusId c) (lead_statusId l)"
  by (simp_all add: apply_changes_def)

lemma touch_lead_simps [simp]:
  "lead_id (touch_lead ts a l) = lead_id l" "lead_organizationId (touch_lead ts a l) = lead_organizationId l"
  "lead_nextFollowUpAt (touch_lead ts a l) = lead_nextFollowUpAt l"
  "lead_version (touch_lead ts a l) = lead_version l + 1" "lead_statusId (touch_lead ts a l) = lead_statusId l"
  by (simp_all add: touch_lead_def)

lemma stamp_outcomes_simps [simp]:
  "lead_id (stamp_outcomes s ts l) = lead_id l" "lead_organizationId (stamp_outcomes s ts l) = lead_organizationId l"
  "lead_nextFollowUpAt (stamp_outcomes s ts l) = lead_nextFollowUpAt l"
  "lead_version (stamp_outcomes s ts l) = lead_version l" "lead_statusId (stamp_outcomes s ts l) = lead_statusId l"
  by (simp_all add: stamp_outcomes_def)

text \<open>Under the invariant the status lookup of \<open>updateLead\<close> succeeds, so the commit runs to its end.\<close>

lemma update_commitE:
  assumes inv: "lead_inv h r" and l: "map_get (leads r) (ulo_leadId o') = Some l"
    and org: "lead_organizationId l = ulo_organizationId o'" and ok: "changes_allowed o' r"
    and run: "update_commit h o' l r = (res, r')"
  obtains s l2 act where
    "map_get (leadStatuses r) (lead_statusId l2) = Some s" "ls_organizationId s = lead_organizationId l"
    "l2 = touch_lead (ulo_at o') (ulo_actorUserId o') (stamp_outcomes s (ulo_at o')
        (apply_changes (ulr_changes (ulo_request o')) (ulo_at o') l))"
    "leads r' = map_set (ulo_leadId o') l2 (leads r)" "leadStatuses r' = leadStatuses r"
    "leadFollowUps r' = leadFollowUps r" "leadNotes r' = leadNotes r" "employees r' = employees r"
    "ids r' = Suc (ids r)" "act_leadId act = lead_id l" "act_kind act = update_kind l l2"
    "leadActivities r' = map_set (sequential_id ''lead_activity'' (Suc (ids r))) act (leadActivities r)"
    "res = map_sum id Some (buildLeadDetail h l2 (ulo_at o') r')"
proof -
  let ?c = "ulr_changes (ulo_request o')" and ?ts = "ulo_at o'"
  let ?l1 = "apply_changes ?c ?ts l"
  have lok: "lead_ok h r l" using lead_inv_lead[OF inv l] by simp
  have "\<exists>s. map_get (leadStatuses r) (lead_statusId ?l1) = Some s \<and> ls_organizationId s = lead_organizationId l"
    using ok org lok by (auto simp: changes_allowed_def Let_def set_plain_def lead_ok_def split: option.splits)
  then obtain s where s: "map_get (leadStatuses r) (lead_statusId ?l1) = Some s" "ls_organizationId s = lead_organizationId l"
    by blast
  have st: "statusForLead ?l1 x = Inr s" if "leadStatuses x = leadStatuses r" for x :: "'a lead_state_scheme"
    using s that by (simp add: statusForLead_def)
  show ?thesis
    by (rule that[of _ s])
      (use run s in \<open>auto simp: update_commit_def Let_def st add_activity_eq return_detail_def user_activity_def\<close>)
qed

lemma lead_inv_updateLead:
  assumes inv: "lead_inv h r" shows "lead_inv h (snd (updateLead h o' r))"
proof (cases "updateLead h o' r")
  case (Pair res r')
  from Pair show ?thesis
  proof (cases rule: updateLeadE)
    case (committed l)
    note l = committed(1)
    show ?thesis
      using inv l committed(2,5,6)
    proof (rule update_commitE)
      fix s l2 act
      assume u: "map_get (leadStatuses r) (lead_statusId l2) = Some s" "ls_organizationId s = lead_organizationId l"
        "l2 = touch_lead (ulo_at o') (ulo_actorUserId o') (stamp_outcomes s (ulo_at o')
          (apply_changes (ulr_changes (ulo_request o')) (ulo_at o') l))"
        "leads r' = map_set (ulo_leadId o') l2 (leads r)" "leadStatuses r' = leadStatuses r"
        "leadFollowUps r' = leadFollowUps r" "ids r' = Suc (ids r)"
        "leadActivities r' = map_set (sequential_id ''lead_activity'' (Suc (ids r))) act (leadActivities r)"
      have f: "lead_id l2 = lead_id l" "lead_organizationId l2 = lead_organizationId l"
        "lead_nextFollowUpAt l2 = lead_nextFollowUpAt l"
        unfolding u(3) by simp_all
      have "lead_ok h r l2" using lead_inv_lead[OF inv l] u(1,2) f by (simp add: lead_ok_def)
      moreover have "ids_fresh ''lead_activity'' (ids r') (leadActivities r')"
        using inv by (auto simp: u(7,8) lead_inv_def intro: ids_fresh_put)
      ultimately have "lead_inv h r'"
        by (intro lead_inv_write[OF inv l f(1,2)]) (simp_all add: u(4-7))
      then show ?thesis using Pair by simp
    qed
  qed (use assms Pair in auto)
qed

text \<open>Follow-ups of one lead do not influence another lead's next due date.\<close>

lemma next_due_other:
  assumes "filter (\<lambda>f. fu_organizationId f = orgId \<and> fu_leadId f = i) (map_values (leadFollowUps r'))
    = filter (\<lambda>f. fu_organizationId f = orgId \<and> fu_leadId f = i) (map_values (leadFollowUps r))"
  shows "next_due h orgId i r' = next_due h orgId i r"
  using assms by (simp add: next_due_def followUpsForLead_def)

lemma lead_inv_follow_up_write:
  assumes inv: "lead_inv h r" and l: "map_get (leads r) (lead_id l) = Some l"
    and f: "fu_id f = j" "fu_leadId f = lead_id l" "fu_organizationId f = lead_organizationId l" "fu_dueAt f \<noteq> []"
    and j: "map_get (leadFollowUps r) j = None \<and> ids_fresh ''follow_up'' (ids r') (map_set j f (leadFollowUps r))
      \<or> (\<exists>g. map_get (leadFollowUps r) j = Some g \<and> fu_leadId g = lead_id l)"
    and l': "lead_id l' = lead_id l" "lead_organizationId l' = lead_organizationId l"
      "\<exists>s. map_get (leadStatuses r) (lead_statusId l') = Some s \<and> ls_organizationId s = lead_organizationId l"
      "lead_nextFollowUpAt l' = next_due h (lead_organizationId l) (lead_id l) r'"
    and eqs: "leads r' = map_set (lead_id l) l' (leads r)" "leadStatuses r' = leadStatuses r"
      "leadFollowUps r' = map_set j f (leadFollowUps r)"
    and act: "ids_fresh ''lead_activity'' (ids r') (leadActivities r')" and n: "ids r \<le> ids r'"
  shows "lead_inv h r'"
proof -
  have other: "next_due h orgId i r' = next_due h orgId i r" if ne: "i \<noteq> lead_id l" for orgId i
  proof (rule next_due_other, cases "map_get (leadFollowUps r) j")
    case None
    then show "filter (\<lambda>f. fu_organizationId f = orgId \<and> fu_leadId f = i) (map_values (leadFollowUps r'))
      = filter (\<lambda>f. fu_organizationId f = orgId \<and> fu_leadId f = i) (map_values (leadFollowUps r))"
      using ne f by (simp add: eqs values_update_fresh)
  next
    case (Some g)
    then show "filter (\<lambda>f. fu_organizationId f = orgId \<and> fu_leadId f = i) (map_values (leadFollowUps r'))
      = filter (\<lambda>f. fu_organizationId f = orgId \<and> fu_leadId f = i) (map_values (leadFollowUps r))"
      unfolding eqs using ne f j by (intro filter_values_update) auto
  qed
  have "lead_ok h r' x" if x: "map_get (leads r') k' = Some x" for k' x
  proof (cases "k' = lead_id l")
    case True
    with x have "x = l'" by (simp add: eqs store_simps)
    then show ?thesis using l' by (simp add: lead_ok_def eqs)
  next
    case False
    with x have "map_get (leads r) k' = Some x" by (simp add: eqs store_simps)
    then have "lead_ok h r x" "lead_id x = k'" using lead_inv_lead[OF inv] by blast+
    then show ?thesis using other[of k'] False by (simp add: lead_ok_def eqs)
  qed
  moreover have "follow_up_ok r' g" if g: "map_get (leadFollowUps r') j' = Some g" for j' g
  proof (cases "j' = j")
    case True with g f l' show ?thesis by (auto simp: eqs store_simps follow_up_ok_def)
  next
    case False
    with g have "map_get (leadFollowUps r) j' = Some g" by (simp add: eqs store_simps)
    then have "follow_up_ok r g" using lead_inv_follow_up[OF inv] by blast
    then show ?thesis using l l' by (auto simp: follow_up_ok_def eqs store_simps)
  qed
  moreover have "ids_fresh ''follow_up'' (ids r') (leadFollowUps r')"
    using j inv n by (auto simp: eqs lead_inv_def intro: ids_fresh_update_present ids_fresh_mono)
  ultimately show ?thesis
    using inv l l'(1) f(1) n act
    by (auto simp: lead_inv_def eqs intro: ids_fresh_mono ids_fresh_update_present)
qed

lemma lead_inv_createFollowUp:
  assumes inv: "lead_inv h r" and due: "cfi_dueAt (cfo_input o') \<noteq> []"
  shows "lead_inv h (snd (createLeadFollowUp h o' r))"
proof (cases "createLeadFollowUp h o' r")
  case (Pair res r')
  from Pair show ?thesis
  proof (cases rule: createLeadFollowUpE)
    case (committed l i r2 d)
    have lid: "lead_id l = cfo_leadId o'" using lead_inv_lead[OF inv committed(1)] by simp
    let ?f = "new_follow_up o' (lead_id l) i"
    have f: "fu_id ?f = i" "fu_leadId ?f = lead_id l" "fu_organizationId ?f = lead_organizationId l"
      "fu_dueAt ?f \<noteq> []" "fu_status ?f = FuPending" "fu_dueAt ?f = cfi_dueAt (cfo_input o')"
      using due committed(2) by (simp_all add: new_follow_up_def Let_def)
    have new: "map_get (leadFollowUps r) i = None"
      using inv by (auto simp: committed(5) lead_inv_def intro: ids_fresh_next)
    let ?l' = "touch_lead (cfo_at o') (cfo_actorUserId o') (if truthy d then l\<lparr>lead_nextFollowUpAt := d\<rparr> else l)"
    have F: "leadFollowUps r2 = map_set i ?f (leadFollowUps r)" by (simp add: committed(6))
    have "d \<noteq> None"
      unfolding committed(7) next_due_None_iff F values_update_fresh[OF new] using f committed(2) by auto
    then obtain t where t: "d = Some t" by auto
    obtain g where g: "g \<in> set (map_values (leadFollowUps r2))" "fu_dueAt g = t"
      using next_due_Some[of h "cfo_organizationId o'" "lead_id l" r2 t] committed(7) t by auto
    have "g = ?f \<or> g \<in> set (map_values (leadFollowUps r))" using g(1) by (auto simp: F values_update_fresh[OF new])
    moreover have "fu_dueAt x \<noteq> []" if x: "x \<in> set (map_values (leadFollowUps r))" for x
      using lead_inv_follow_up[OF inv] in_values_iff[OF lead_inv_wf(3)[OF inv], of x] x
      by (auto simp: follow_up_ok_def)
    ultimately have "t \<noteq> []" using f(4) g(2) by auto
    then have nxt: "lead_nextFollowUpAt ?l' = next_due h (lead_organizationId l) (lead_id l) r'"
      using t committed(2,7,8) next_due_cong[of r' r2] by (simp add: frame_simps)
    have "ids_fresh ''follow_up'' (Suc (ids r)) (map_set i ?f (leadFollowUps r))"
      unfolding committed(5) using inv by (auto simp: lead_inv_def intro: ids_fresh_put)
    then have fr: "ids_fresh ''follow_up'' (ids r') (map_set i ?f (leadFollowUps r))"
      by (rule ids_fresh_mono) (simp add: committed(6,8) frame_simps)
    have "ids_fresh ''lead_activity'' (ids r') (leadActivities r')"
      unfolding committed(8) using inv
      by (intro ids_fresh_activity) (auto simp: committed(6) lead_inv_def intro: ids_fresh_mono)
    then have "lead_inv h r'"
      using new fr nxt committed(1) lid lead_inv_lead[OF inv committed(1), unfolded lead_ok_def]
      by (intro lead_inv_follow_up_write[OF inv _ f(1-4), of r' ?l'])
        (simp_all add: committed(6,8) frame_simps touch_lead_def)
    then show ?thesis using Pair by simp
  qed (use assms Pair in simp)
qed

lemma completed_simps [simp]:
  "fu_id (completed_follow_up o' f) = fu_id f" "fu_leadId (completed_follow_up o' f) = fu_leadId f"
  "fu_organizationId (completed_follow_up o' f) = fu_organizationId f"
  "fu_dueAt (completed_follow_up o' f) = fu_dueAt f" "fu_status (completed_follow_up o' f) = FuCompleted"
  "fu_version (completed_follow_up o' f) = fu_version f + 1"
  by (simp_all add: completed_follow_up_def)

text \<open>A completion's state: the follow-up, its lead, at most one note and one activity.\<close>

lemma complete_commitE:
  assumes "complete_commit h o' f l r = (res, r')"
  obtains r2 where "leadFollowUps r2 = map_set (cpo_followUpId o') (completed_follow_up o' f) (leadFollowUps r)"
    "ids r \<le> ids r2" "leads r2 = leads r" "leadStatuses r2 = leadStatuses r"
    "leadActivities r2 = leadActivities r"
    "r' = add_activity (user_activity (cpo_organizationId o') (lead_id l) ActFollowUpCompleted (cpo_actorUserId o')
       (cpo_at o') ''Follow-up completed'' None)
      (r2\<lparr>leads := map_set (fu_leadId f) (touch_lead (cpo_at o') (cpo_actorUserId o')
         (l\<lparr>lead_nextFollowUpAt := (if truthy (next_due h (cpo_organizationId o') (lead_id l) r2)
            then next_due h (cpo_organizationId o') (lead_id l) r2 else None)\<rparr>)) (leads r2)\<rparr>)"
proof -
  define r1 where "r1 = r\<lparr>leadFollowUps := map_set (cpo_followUpId o') (completed_follow_up o' f) (leadFollowUps r)\<rparr>"
  show ?thesis
    by (rule that[of "if truthy (cpi_completionNote (cpo_input o'))
          then add_note (new_note (cpo_organizationId o') (lead_id l) (cpo_actorUserId o')
            (the (cpi_completionNote (cpo_input o'))) False (cpo_at o')) r1 else r1"])
      (use assms in \<open>auto simp: complete_commit_def Let_def r1_def frame_simps return_detail_def\<close>)
qed

lemma lead_inv_complete:
  fixes r :: "'a lead_state_scheme"
  assumes inv: "lead_inv h r" shows "lead_inv h (snd (completeLeadFollowUp h o' r))"
proof (cases "completeLeadFollowUp h o' r")
  case (Pair res r')
  from Pair show ?thesis
  proof (cases rule: completeLeadFollowUpE)
    case (committed f l)
    note f = committed(1) and l = committed(3)
    have fok: "follow_up_ok r f" "fu_id f = cpo_followUpId o'" using lead_inv_follow_up[OF inv f] by auto
    have lid: "lead_id l = fu_leadId f" using lead_inv_lead[OF inv l] by simp
    have org: "lead_organizationId l = fu_organizationId f" using fok(1) l by (auto simp: follow_up_ok_def)
    show ?thesis
      using committed(7)
    proof (rule complete_commitE)
      fix r2 :: "'a lead_state_scheme"
      let ?due = "next_due h (cpo_organizationId o') (lead_id l) r2"
      let ?l' = "touch_lead (cpo_at o') (cpo_actorUserId o')
         (l\<lparr>lead_nextFollowUpAt := (if truthy ?due then ?due else None)\<rparr>)"
      assume e: "leadFollowUps r2 = map_set (cpo_followUpId o') (completed_follow_up o' f) (leadFollowUps r)"
        "ids r \<le> ids r2" "leads r2 = leads r" "leadStatuses r2 = leadStatuses r"
        "leadActivities r2 = leadActivities r"
        "r' = add_activity (user_activity (cpo_organizationId o') (lead_id l) ActFollowUpCompleted (cpo_actorUserId o')
           (cpo_at o') ''Follow-up completed'' None) (r2\<lparr>leads := map_set (fu_leadId f) ?l' (leads r2)\<rparr>)"
      have "t \<noteq> []" if t: "?due = Some t" for t
      proof -
        obtain g where g: "g \<in> set (map_values (leadFollowUps r2))" "fu_dueAt g = t"
          using next_due_Some[OF t] by auto
        then obtain j where "map_get (leadFollowUps r2) j = Some g"
          using in_values_iff[of "leadFollowUps r2" g] lead_inv_wf(3)[OF inv] by (auto simp: e(1))
        then have "g = completed_follow_up o' f \<or> map_get (leadFollowUps r) j = Some g"
          by (auto simp: e(1) store_simps split: if_splits)
        then show ?thesis using g(2) fok(1) lead_inv_follow_up[OF inv] by (auto simp: follow_up_ok_def)
      qed
      then have "(if truthy ?due then ?due else None) = ?due" by (cases ?due) auto
      then have nxt: "lead_nextFollowUpAt ?l' = next_due h (lead_organizationId l) (lead_id l) r'"
        using org committed(2) next_due_cong[of r' r2] by (simp add: e(6) frame_simps)
      have act: "ids_fresh ''lead_activity'' (ids r') (leadActivities r')"
        unfolding e(6) using inv e(2,5)
        by (intro ids_fresh_activity) (auto simp: lead_inv_def intro: ids_fresh_mono)
      have "lead_inv h r'"
        by (rule lead_inv_follow_up_write[OF inv, where l = l and f = "completed_follow_up o' f"
              and j = "cpo_followUpId o'" and l' = ?l'])
          (use l lid fok org f nxt act e(2) lead_inv_lead[OF inv l] in
            \<open>auto simp: e(1,3,4,6) frame_simps follow_up_ok_def touch_lead_def lead_ok_def\<close>)
      then show ?thesis using Pair by simp
    qed
  qed (use assms Pair in auto)
qed

section \<open>The workspace as a step relation\<close>

text \<open>How a lead may change under the rest of the repository (call linking, assignment, imports).\<close>

definition lead_advances :: "lead \<Rightarrow> lead \<Rightarrow> bool" where
  "lead_advances l l' \<longleftrightarrow> lead_id l' = lead_id l \<and> lead_organizationId l' = lead_organizationId l
     \<and> lead_statusId l' = lead_statusId l \<and> lead_nextFollowUpAt l' = lead_nextFollowUpAt l
     \<and> lead_version l \<le> lead_version l'"

definition leads_evolve :: "'a lead_state_scheme \<Rightarrow> 'a lead_state_scheme \<Rightarrow> bool" where
  "leads_evolve r r' \<longleftrightarrow> ids r \<le> ids r' \<and> leadStatuses r' = leadStatuses r \<and> leadFollowUps r' = leadFollowUps r
     \<and> keyed lead_id (leads r') \<and> ids_fresh ''lead'' (ids r') (leads r')
     \<and> (\<exists>ys. leadActivities r' = leadActivities r @ ys)
     \<and> ids_fresh ''lead_activity'' (ids r') (leadActivities r')
     \<and> (\<forall>k l. map_get (leads r) k = Some l \<longrightarrow> (\<exists>l'. map_get (leads r') k = Some l' \<and> lead_advances l l'))
     \<and> (\<forall>k l'. map_get (leads r') k = Some l' \<longrightarrow> map_get (leads r) k = None \<longrightarrow>
          lead_nextFollowUpAt l' = None \<and> (\<exists>s. map_get (leadStatuses r) (lead_statusId l') = Some s
            \<and> ls_organizationId s = lead_organizationId l'))"

lemma leads_evolve_lead:
  "leads_evolve r r' \<Longrightarrow> map_get (leads r) k = Some l \<Longrightarrow> \<exists>l'. map_get (leads r') k = Some l' \<and> lead_advances l l'"
  by (simp add: leads_evolve_def)

inductive lead_step :: "host \<Rightarrow> 'a lead_state_scheme \<Rightarrow> 'a lead_state_scheme \<Rightarrow> bool" for h where
  step_create: "lead_step h r (snd (createLead h o' r))"
| step_update: "lead_step h r (snd (updateLead h u r))"
| step_note: "lead_step h r (snd (createLeadNote h n r))"
| step_follow_up: "cfi_dueAt (cfo_input f) \<noteq> [] \<Longrightarrow> lead_step h r (snd (createLeadFollowUp h f r))"
| step_complete: "lead_step h r (snd (completeLeadFollowUp h c r))"
| step_elsewhere: "leads_evolve r r' \<Longrightarrow> lead_step h r r'"

abbreviation lead_reaches :: "host \<Rightarrow> 'a lead_state_scheme \<Rightarrow> 'a lead_state_scheme \<Rightarrow> bool" where
  "lead_reaches h \<equiv> rtranclp (lead_step h)"

lemma lead_inv_evolve:
  assumes inv: "lead_inv h r" and ev: "leads_evolve r r'"
  shows "lead_inv h r'"
proof -
  have F: "leadFollowUps r' = leadFollowUps r" "leadStatuses r' = leadStatuses r"
    using ev by (simp_all add: leads_evolve_def)
  have "lead_ok h r' l'" if l': "map_get (leads r') k = Some l'" for k l'
  proof (cases "map_get (leads r) k")
    case (Some l)
    then have "lead_ok h r l" using lead_inv_lead[OF inv] by blast
    moreover have "lead_advances l l'" using leads_evolve_lead[OF ev Some] l' by auto
    ultimately show ?thesis using F by (auto simp: lead_advances_def intro: lead_ok_cong)
  next
    case None
    have "keyed lead_id (leads r')" using ev by (simp add: leads_evolve_def)
    then have k: "lead_id l' = k" using l' by (rule keyedD)
    have "fu_leadId f \<noteq> k" if ff: "f \<in> set (map_values (leadFollowUps r))" for f
    proof -
      obtain j where "map_get (leadFollowUps r) j = Some f"
        using ff in_values_iff[OF lead_inv_wf(3)[OF inv]] by blast
      then have "follow_up_ok r f" using lead_inv_follow_up[OF inv] by blast
      then show ?thesis using None by (auto simp: follow_up_ok_def)
    qed
    then have "next_due h (lead_organizationId l') k r' = None" by (auto simp: next_due_None_iff F)
    moreover have "lead_nextFollowUpAt l' = None" "\<exists>s. map_get (leadStatuses r) (lead_statusId l') = Some s
            \<and> ls_organizationId s = lead_organizationId l'"
      using ev l' None by (auto simp: leads_evolve_def)
    ultimately show ?thesis by (simp add: lead_ok_def k F)
  qed
  moreover have "follow_up_ok r' f" if f: "map_get (leadFollowUps r') j = Some f" for j f
  proof -
    have "follow_up_ok r f" using lead_inv_follow_up[OF inv] f F by simp
    then obtain l where l: "map_get (leads r) (fu_leadId f) = Some l" "lead_organizationId l = fu_organizationId f"
      "fu_dueAt f \<noteq> []" by (auto simp: follow_up_ok_def)
    then obtain l' where "map_get (leads r') (fu_leadId f) = Some l'" "lead_advances l l'"
      using leads_evolve_lead[OF ev] by blast
    with l show ?thesis by (auto simp: follow_up_ok_def lead_advances_def)
  qed
  ultimately show ?thesis
    using inv ev by (auto simp: lead_inv_def leads_evolve_def intro: ids_fresh_mono)
qed

lemma lead_inv_step: "lead_step h r r' \<Longrightarrow> lead_inv h r \<Longrightarrow> lead_inv h r'"
  by (induction rule: lead_step.induct)
    (auto intro: lead_inv_createLead lead_inv_updateLead lead_inv_createNote lead_inv_createFollowUp
      lead_inv_complete lead_inv_evolve)

lemma lead_inv_reaches: "lead_reaches h r r' \<Longrightarrow> lead_inv h r \<Longrightarrow> lead_inv h r'"
  by (induction rule: rtranclp_induct) (auto intro: lead_inv_step)

section \<open>The board never breaks\<close>

lemma lead_ok_item: "lead_ok h r l \<Longrightarrow> \<exists>item. buildLeadListItem h l ts r = Inr item"
  by (drule lead_ok_status) (auto simp: buildLeadListItem_def Let_def)


section \<open>Versions and histories\<close>

text \<open>What one step does to a lead, to a follow-up and to the history.\<close>

definition monotone_step :: "'a lead_state_scheme \<Rightarrow> 'a lead_state_scheme \<Rightarrow> bool" where
  "monotone_step r r' \<longleftrightarrow>
     (\<forall>k l. map_get (leads r) k = Some l \<longrightarrow> (\<exists>l'. map_get (leads r') k = Some l' \<and> lead_version l \<le> lead_version l'))
     \<and> (\<forall>k f. map_get (leadFollowUps r) k = Some f \<longrightarrow> fu_status f \<noteq> FuPending \<longrightarrow>
          (\<exists>f'. map_get (leadFollowUps r') k = Some f' \<and> fu_status f' \<noteq> FuPending))
     \<and> (\<exists>ys. leadActivities r' = leadActivities r @ ys)"

lemma monotone_refl [simp]: "monotone_step r r"
  by (auto simp: monotone_step_def)

lemma add_activity_appends:
  assumes "ids_fresh ''lead_activity'' (ids s) (leadActivities s)"
  shows "leadActivities (add_activity mk s) = leadActivities s @
    [(sequential_id ''lead_activity'' (Suc (ids s)), mk (sequential_id ''lead_activity'' (Suc (ids s))))]"
  using assms by (simp add: add_activity_eq update_fresh ids_fresh_next)

lemma lead_inv_activity_ids: "lead_inv h r \<Longrightarrow> ids r \<le> n \<Longrightarrow> ids_fresh ''lead_activity'' n (leadActivities r)"
  by (auto simp: lead_inv_def intro: ids_fresh_mono)

lemma monotone_create:
  assumes inv: "lead_inv h r" shows "monotone_step r (snd (createLead h o' r))"
proof (cases "createLead h o' r")
  case (Pair res r')
  from Pair show ?thesis
  proof (cases rule: createLeadE)
    case (created s r3)
    have "map_get (leads r) (sequential_id ''lead'' (Suc (ids r))) = None"
      using inv by (auto simp: lead_inv_def intro: ids_fresh_next)
    moreover have "ids_fresh ''lead_activity'' (ids r3) (leadActivities r3)"
      using lead_inv_activity_ids[OF inv, of "Suc (ids r)"] by (simp add: created(7))
    ultimately show ?thesis using Pair
      by (auto simp: monotone_step_def created(8) add_activity_appends frame_simps created(7) store_simps)
  qed (use Pair in simp)
qed

lemma monotone_update:
  assumes inv: "lead_inv h r" shows "monotone_step r (snd (updateLead h o' r))"
proof (cases "updateLead h o' r")
  case (Pair res r')
  from Pair show ?thesis
  proof (cases rule: updateLeadE)
    case (committed l)
    show ?thesis
      using inv committed(1,2,5,6)
    proof (rule update_commitE)
      fix s l2 act
      assume u: "l2 = touch_lead (ulo_at o') (ulo_actorUserId o') (stamp_outcomes s (ulo_at o')
          (apply_changes (ulr_changes (ulo_request o')) (ulo_at o') l))"
        "leads r' = map_set (ulo_leadId o') l2 (leads r)" "leadFollowUps r' = leadFollowUps r"
        "leadActivities r' = map_set (sequential_id ''lead_activity'' (Suc (ids r))) act (leadActivities r)"
      have "map_get (leadActivities r) (sequential_id ''lead_activity'' (Suc (ids r))) = None"
        using lead_inv_activity_ids[OF inv] by (auto intro: ids_fresh_next)
      then show ?thesis using Pair committed(1)
        by (auto simp: monotone_step_def u(2-4) store_simps update_fresh) (simp add: u(1))
    qed
  qed (use Pair in auto)
qed

lemma monotone_note:
  assumes inv: "lead_inv h r" shows "monotone_step r (snd (createLeadNote h o' r))"
proof (cases "createLeadNote h o' r")
  case (Pair res r')
  from Pair show ?thesis
  proof (cases rule: createLeadNoteE)
    case (committed l)
    have "ids_fresh ''lead_activity'' (ids (add_note mk r)) (leadActivities (add_note mk r))" for mk
      using lead_inv_activity_ids[OF inv] by (simp add: frame_simps)
    then show ?thesis using Pair
      by (auto simp: monotone_step_def committed(4) add_activity_appends frame_simps)
  qed (use Pair in simp)
qed

lemma monotone_follow_up:
  assumes inv: "lead_inv h r" shows "monotone_step r (snd (createLeadFollowUp h o' r))"
proof (cases "createLeadFollowUp h o' r")
  case (Pair res r')
  from Pair show ?thesis
  proof (cases rule: createLeadFollowUpE)
    case (committed l i r2 d)
    have new: "map_get (leadFollowUps r) i = None"
      using inv by (auto simp: committed(5) lead_inv_def intro: ids_fresh_next)
    have fr: "ids_fresh ''lead_activity'' (Suc (ids r)) (leadActivities r)"
      using lead_inv_activity_ids[OF inv] by simp
    then show ?thesis using Pair committed(1) new
      by (auto simp: monotone_step_def committed(8) add_activity_appends frame_simps committed(6) store_simps)
  qed (use Pair in simp)
qed

lemma monotone_complete:
  assumes inv: "lead_inv h r" shows "monotone_step r (snd (completeLeadFollowUp h o' r))"
proof (cases "completeLeadFollowUp h o' r")
  case (Pair res r')
  from Pair show ?thesis
  proof (cases rule: completeLeadFollowUpE)
    case (committed f l)
    from committed(7) obtain r2 l' mk where e:
      "leadFollowUps r2 = map_set (cpo_followUpId o') (completed_follow_up o' f) (leadFollowUps r)"
      "ids r \<le> ids r2" "leads r2 = leads r" "leadActivities r2 = leadActivities r"
      "r' = add_activity mk (r2\<lparr>leads := map_set (fu_leadId f) l' (leads r2)\<rparr>)"
      "lead_version l' = lead_version l + 1"
      by (elim complete_commitE) auto
    have "ids_fresh ''lead_activity'' (ids r2) (leadActivities r2)"
      using lead_inv_activity_ids[OF inv e(2)] by (simp add: e(4))
    then show ?thesis using Pair committed(3)
      by (auto simp: monotone_step_def e(1,3,4,5,6) add_activity_appends frame_simps store_simps)
  qed (use Pair in auto)
qed

lemma monotone_evolve: "leads_evolve r r' \<Longrightarrow> monotone_step r r'"
  by (auto simp: leads_evolve_def monotone_step_def lead_advances_def) blast

lemma monotone_lead_step: "lead_step h r r' \<Longrightarrow> lead_inv h r \<Longrightarrow> monotone_step r r'"
  by (induction rule: lead_step.induct)
    (auto intro: monotone_create monotone_update monotone_note monotone_follow_up monotone_complete monotone_evolve)

lemma monotone_version:
  "monotone_step r r' \<Longrightarrow> map_get (leads r) k = Some l \<Longrightarrow> \<exists>l'. map_get (leads r') k = Some l' \<and> lead_version l \<le> lead_version l'"
  by (simp add: monotone_step_def)

lemma monotone_closed:
  "monotone_step r r' \<Longrightarrow> map_get (leadFollowUps r) k = Some f \<Longrightarrow> fu_status f \<noteq> FuPending \<Longrightarrow>
   \<exists>f'. map_get (leadFollowUps r') k = Some f' \<and> fu_status f' \<noteq> FuPending"
  by (simp add: monotone_step_def)

lemma monotone_history: "monotone_step r r' \<Longrightarrow> \<exists>ys. leadActivities r' = leadActivities r @ ys"
  by (simp add: monotone_step_def)

lemma monotone_trans:
  assumes a: "monotone_step r r'" and b: "monotone_step r' r''" shows "monotone_step r r''"
  unfolding monotone_step_def
proof (intro conjI allI impI)
  fix k l assume "map_get (leads r) k = Some l"
  with monotone_version[OF a] obtain l' where "map_get (leads r') k = Some l'" "lead_version l \<le> lead_version l'" by blast
  with monotone_version[OF b] show "\<exists>l'. map_get (leads r'') k = Some l' \<and> lead_version l \<le> lead_version l'"
    by (meson order.trans)
next
  fix k f assume "map_get (leadFollowUps r) k = Some f" "fu_status f \<noteq> FuPending"
  with monotone_closed[OF a] obtain f' where "map_get (leadFollowUps r') k = Some f'" "fu_status f' \<noteq> FuPending" by blast
  then show "\<exists>f'. map_get (leadFollowUps r'') k = Some f' \<and> fu_status f' \<noteq> FuPending" by (rule monotone_closed[OF b])
next
  show "\<exists>ys. leadActivities r'' = leadActivities r @ ys"
    using monotone_history[OF a] monotone_history[OF b] by auto
qed

lemma monotone_reaches: "lead_reaches h r r' \<Longrightarrow> lead_inv h r \<Longrightarrow> monotone_step r r'"
proof (induction rule: rtranclp_induct)
  case (step y z)
  have "lead_inv h y" using step.hyps(1) step.prems by (rule lead_inv_reaches)
  with step show ?case by (blast intro: monotone_trans monotone_lead_step)
qed simp


text \<open>
  A follow-up is completed at most once: after a completion succeeded, every later attempt
  to complete the same follow-up is refused and changes nothing.
\<close>

theorem follow_up_completed_once:
  assumes "lead_inv h r" and "completeLeadFollowUp h o1 r = (Inr (Some d), r1)" and "lead_reaches h r1 r2"
    and "cpo_followUpId o2 = cpo_followUpId o1"
  shows "snd (completeLeadFollowUp h o2 r2) = r2 \<and> (\<nexists>d'. fst (completeLeadFollowUp h o2 r2) = Inr (Some d'))"
proof -
  have inv1: "lead_inv h r1" using lead_inv_complete[OF assms(1), of o1] assms(2) by simp
  have "\<exists>f. map_get (leadFollowUps r1) (cpo_followUpId o1) = Some f \<and> fu_status f = FuCompleted"
    using assms(2)
  proof (cases rule: completeLeadFollowUpE)
    case (committed f l)
    from committed(7) show ?thesis by (rule complete_commitE) (auto simp: frame_simps store_simps)
  qed simp
  then obtain f where "map_get (leadFollowUps r1) (cpo_followUpId o1) = Some f" "fu_status f \<noteq> FuPending" by auto
  then obtain f2 where "map_get (leadFollowUps r2) (cpo_followUpId o1) = Some f2" "fu_status f2 \<noteq> FuPending"
    using monotone_closed[OF monotone_reaches[OF assms(3) inv1]] by blast
  then show ?thesis using assms(4) by (auto simp: completeLeadFollowUp_def split: option.splits)
qed

text \<open>
  The activity history of the workspace is append-only: no operation removes, rewrites or
  reorders an activity that was recorded.
\<close>

theorem lead_history_append_only:
  assumes "lead_inv h r" and "lead_reaches h r r'"
  shows "\<exists>new. leadActivities r' = leadActivities r @ new"
  using monotone_history[OF monotone_reaches[OF assms(2,1)]] .

text \<open>
  An update that succeeds was allowed to see the lead, writes exactly that lead (one
  version up, same identity and organization), appends exactly one activity, of the kind that
  names what changed, and touches no other lead, note or follow-up.
\<close>

theorem updateLead_effect:
  assumes "lead_inv h r" and "updateLead h o' r = (Inr (Some d), r')"
  shows "\<exists>l l2 act. map_get (leads r) (ulo_leadId o') = Some l \<and> canAccessLead (ulo_scope o') l r
    \<and> lead_organizationId l = ulo_organizationId o'
    \<and> leads r' = map_set (ulo_leadId o') l2 (leads r) \<and> li_lead (ld_item d) = l2
    \<and> lead_version l2 = lead_version l + 1 \<and> lead_id l2 = lead_id l \<and> lead_organizationId l2 = lead_organizationId l
    \<and> leadActivities r' = leadActivities r @ [(sequential_id ''lead_activity'' (Suc (ids r)), act)]
    \<and> act_leadId act = lead_id l \<and> act_kind act = update_kind l l2
    \<and> leadNotes r' = leadNotes r \<and> leadFollowUps r' = leadFollowUps r"
  using assms(2)
proof (cases rule: updateLeadE)
  case (committed l)
  show ?thesis
    using assms(1) committed(1,2,5,6)
  proof (rule update_commitE)
    fix s l2 act
    assume u: "l2 = touch_lead (ulo_at o') (ulo_actorUserId o') (stamp_outcomes s (ulo_at o')
          (apply_changes (ulr_changes (ulo_request o')) (ulo_at o') l))"
      "leads r' = map_set (ulo_leadId o') l2 (leads r)" "leadFollowUps r' = leadFollowUps r" "leadNotes r' = leadNotes r"
      "act_leadId act = lead_id l" "act_kind act = update_kind l l2"
      "leadActivities r' = map_set (sequential_id ''lead_activity'' (Suc (ids r))) act (leadActivities r)"
      "Inr (Some d) = map_sum id Some (buildLeadDetail h l2 (ulo_at o') r')"
    have new: "map_get (leadActivities r) (sequential_id ''lead_activity'' (Suc (ids r))) = None"
      using lead_inv_activity_ids[OF assms(1)] by (auto intro: ids_fresh_next)
    have "li_lead (ld_item d) = l2"
      using u(8) by (auto simp: buildLeadDetail_def buildLeadListItem_def Let_def split: sum.splits)
    then show ?thesis
      using committed u(2-7) new
      by (intro exI[of _ l] exI[of _ l2] exI[of _ act]) (simp add: update_fresh u(1))
  qed
qed simp

section \<open>Listing leads\<close>

lemma traverse_Inr:
  assumes "\<And>x. x \<in> set xs \<Longrightarrow> \<exists>y. f x = Inr y"
  shows "\<exists>ys. traverse f xs = Inr ys \<and> list_all2 (\<lambda>x y. f x = Inr y) xs ys"
  using assms
proof (induction xs)
  case (Cons x xs)
  obtain y where "f x = Inr y" using Cons.prems[of x] by auto
  moreover obtain ys where "traverse f xs = Inr ys" "list_all2 (\<lambda>x y. f x = Inr y) xs ys"
    using Cons.IH Cons.prems by auto
  ultimately show ?case by simp
qed simp

lemma traverse_InrD: "traverse f xs = Inr ys \<Longrightarrow> list_all2 (\<lambda>x y. f x = Inr y) xs ys"
  by (induction xs arbitrary: ys) (auto split: sum.splits)

lemma item_lead: "buildLeadListItem h l ts r = Inr item \<Longrightarrow> li_lead item = l"
  by (auto simp: buildLeadListItem_def Let_def split: sum.splits)

lemma items_leads:
  "list_all2 (\<lambda>l i. buildLeadListItem h l ts r = Inr i) ls items \<Longrightarrow> map li_lead items = ls"
  by (induction ls items rule: list_all2_induct) (auto dest: item_lead)

lemma items_filter:
  "list_all2 (\<lambda>l i. buildLeadListItem h l ts r = Inr i) ls items \<Longrightarrow>
   map li_lead (filter P items) = filter (\<lambda>l. \<exists>i. buildLeadListItem h l ts r = Inr i \<and> P i) ls"
  by (induction ls items rule: list_all2_induct) (auto dest: item_lead)

lemma accessible_leads_set:
  "set (accessible_leads orgId scope r) = {l \<in> set (map_values (leads r)). lead_organizationId l = orgId
     \<and> \<not> truthy (lead_archivedAt l) \<and> canAccessLead scope l r}"
  by (auto simp: accessible_leads_def)

lemma listLeads_InrE:
  assumes "listLeads h orgId scope f c limit ts r = Inr res"
  obtains items where "list_all2 (\<lambda>l i. buildLeadListItem h l ts r = Inr i) (accessible_leads orgId scope r) items"
    "page_of limit (after_cursor (\<lambda>c i. lead_after c (li_lead i)) c
       (js_sort (cmp_on li_lead (lead_order h)) (filter (lead_matches h f) items))) = (llr_items res, llr_hasMore res)"
    "lq_total (llr_summary res) = length (accessible_leads orgId scope r)"
  using assms by (auto simp: listLeads_def Let_def split_beta split: sum.splits dest!: traverse_InrD)

text \<open>
  A lead listing never crosses a tenant or a scope: every item on every page is an
  unarchived lead of the organization that the actor may see, with a status of the same
  organization, and a page holds at most the requested number of items.
\<close>

theorem listLeads_scoped:
  assumes "listLeads h orgId scope f c limit ts r = Inr res"
  shows "length (llr_items res) \<le> limit
    \<and> (\<forall>i \<in> set (llr_items res). li_lead i \<in> set (map_values (leads r)) \<and> lead_organizationId (li_lead i) = orgId
         \<and> \<not> truthy (lead_archivedAt (li_lead i)) \<and> canAccessLead scope (li_lead i) r
         \<and> ls_organizationId (li_status i) = orgId)"
  using assms
proof (rule listLeads_InrE)
  fix items
  assume items: "list_all2 (\<lambda>l i. buildLeadListItem h l ts r = Inr i) (accessible_leads orgId scope r) items"
    and page: "page_of limit (after_cursor (\<lambda>c i. lead_after c (li_lead i)) c
       (js_sort (cmp_on li_lead (lead_order h)) (filter (lead_matches h f) items))) = (llr_items res, llr_hasMore res)"
  have "llr_items res = take limit (after_cursor (\<lambda>c i. lead_after c (li_lead i)) c
       (js_sort (cmp_on li_lead (lead_order h)) (filter (lead_matches h f) items)))"
    using page by (simp add: page_of_eq)
  then have sub: "set (llr_items res) \<subseteq> set items" and len: "length (llr_items res) \<le> limit"
    by (auto simp: after_cursor_def dest!: in_set_takeD split: option.splits)
  have "\<exists>l \<in> set (accessible_leads orgId scope r). buildLeadListItem h l ts r = Inr i" if "i \<in> set items" for i
    using items that by (auto simp: list_all2_conv_all_nth in_set_conv_nth) (metis nth_mem)
  then have "\<exists>l \<in> set (accessible_leads orgId scope r). buildLeadListItem h l ts r = Inr i" if "i \<in> set (llr_items res)" for i
    using sub that by blast
  moreover have "ls_organizationId (li_status i) = lead_organizationId l" if "buildLeadListItem h l ts r = Inr i" for i l
    using that by (auto simp: buildLeadListItem_def Let_def statusForLead_def split: sum.splits option.splits if_splits)
  ultimately show ?thesis using len item_lead by (fastforce simp: accessible_leads_set)
qed

definition lead_cursor_of :: "lead_list_item \<Rightarrow> lead_cursor" where
  "lead_cursor_of i = \<lparr>lc_createdAt = createdAt (li_lead i), lc_id = lead_id (li_lead i)\<rparr>"

text \<open>
  The list sorts by \<open>localeCompare\<close> but tests its cursor by code units; the two agree on the
  ASCII timestamps and identifiers the API issues.
\<close>

definition as_code_units :: "host \<Rightarrow> string \<Rightarrow> string \<Rightarrow> bool" where
  "as_code_units h x y \<longleftrightarrow> sgn (localeCompare h x y) = sgn (str_cmp x y)"

definition code_unit_pair :: "host \<Rightarrow> lead \<Rightarrow> lead \<Rightarrow> bool" where
  "code_unit_pair h x y \<longleftrightarrow> as_code_units h (createdAt y) (createdAt x) \<and> as_code_units h (lead_id y) (lead_id x)"

lemma as_code_units_D:
  assumes "as_code_units h x y"
  shows "localeCompare h x y < 0 \<longleftrightarrow> x < y" "localeCompare h x y = 0 \<longleftrightarrow> x = y"
  using assms str_cmp_less[of x y] str_cmp_eq[of x y]
  by (auto simp: as_code_units_def sgn_if simp del: str_cmp_less str_cmp_eq split: if_splits)

lemma comparator_lead_order: "comparator (lead_order h)"
  unfolding lead_order_def by (intro comparator_or comparator_desc comparator_on comparator_lcmp)

lemma lead_after_cursor:
  assumes "code_unit_pair h x y"
  shows "lead_after \<lparr>lc_createdAt = createdAt x, lc_id = lead_id x\<rparr> y \<longleftrightarrow> lead_order h x y < 0"
  using assms as_code_units_D[of h "createdAt y" "createdAt x"] as_code_units_D[of h "lead_id y" "lead_id x"]
  by (auto simp: code_unit_pair_def lead_after_def lead_order_def cmp_or_def cmp_desc_def cmp_on_def)

interpretation lead_pages: cursor_listing "cmp_on li_lead (lead_order h)" "\<lambda>c i. lead_after c (li_lead i)" lead_cursor_of
  "\<lambda>x y. code_unit_pair h (li_lead x) (li_lead y)" for h
  by (intro cursor_listing.intro comparator_on comparator_lead_order cursor_listing_axioms.intro)
    (simp add: cmp_on_def lead_cursor_of_def lead_after_cursor)

text \<open>
  Following the cursors of the lead list, whatever the page size, yields every lead the
  actor may see that matches the filter, exactly once and newest first; the summary counts
  every lead the actor may see.
\<close>

theorem listLeads_pages_complete:
  assumes inv: "lead_inv h r" and limit: "0 < limit" and fuel: "length (leads r) < fuel"
    and units: "\<forall>x \<in> set (map_values (leads r)). \<forall>y \<in> set (map_values (leads r)). code_unit_pair h x y"
  shows "let fetch = (\<lambda>c. case listLeads h orgId scope f c limit ts r of
             Inr res \<Rightarrow> (llr_items res, llr_hasMore res) | Inl _ \<Rightarrow> ([], False));
           ws = walk fetch lead_cursor_of fuel None
    in mset (map li_lead ws) = mset (filter (\<lambda>l. \<exists>i. buildLeadListItem h l ts r = Inr i \<and> lead_matches h f i)
         (accessible_leads orgId scope r))
       \<and> sorted_wrt (\<lambda>x y. lead_order h x y < 0) (map li_lead ws)
       \<and> (\<forall>c. \<exists>res. listLeads h orgId scope f c limit ts r = Inr res
            \<and> lq_total (llr_summary res) = length (accessible_leads orgId scope r))"
proof -
  let ?acc = "accessible_leads orgId scope r" and ?cmp = "cmp_on li_lead (lead_order h)"
  have kd: "keyed lead_id (leads r)" using inv by (simp add: lead_inv_def)
  have "\<exists>i. buildLeadListItem h l ts r = Inr i" if l: "l \<in> set ?acc" for l
  proof -
    obtain k where "map_get (leads r) k = Some l"
      using l in_values_iff[OF lead_inv_wf(2)[OF inv]] by (auto simp: accessible_leads_set)
    then show ?thesis using lead_inv_lead[OF inv] lead_ok_item by blast
  qed
  then obtain items where items: "traverse (\<lambda>l. buildLeadListItem h l ts r) ?acc = Inr items"
    "list_all2 (\<lambda>l i. buildLeadListItem h l ts r = Inr i) ?acc items"
    using traverse_Inr[of ?acc "\<lambda>l. buildLeadListItem h l ts r"] by blast
  let ?fs = "filter (lead_matches h f) items"
  have run: "listLeads h orgId scope f c limit ts r = Inr res \<Longrightarrow> page_of limit
      (after_cursor (\<lambda>c i. lead_after c (li_lead i)) c (js_sort ?cmp ?fs)) = (llr_items res, llr_hasMore res)"
    and run_ok: "\<exists>res. listLeads h orgId scope f c limit ts r = Inr res \<and> lq_total (llr_summary res) = length ?acc" for c res
    by (auto simp: listLeads_def Let_def items(1) split_beta)
  have leads: "map li_lead ?fs = filter (\<lambda>l. \<exists>i. buildLeadListItem h l ts r = Inr i \<and> lead_matches h f i) ?acc"
    by (rule items_filter[OF items(2)])
  have dv: "distinct (map_values (leads r))" using kd by (rule keyed_distinct)
  have dl: "distinct (map li_lead ?fs)" unfolding leads using dv by (simp add: accessible_leads_def)
  have sub: "li_lead i \<in> set (map_values (leads r))" if "i \<in> set ?fs" for i
  proof -
    have "li_lead i \<in> set (map li_lead ?fs)" using that by auto
    then show ?thesis unfolding leads by (auto simp: accessible_leads_set)
  qed
  have sep: "\<forall>x \<in> set ?fs. \<forall>y \<in> set ?fs. ?cmp x y = 0 \<longrightarrow> x = y"
  proof (intro ballI impI)
    fix x y assume xy: "x \<in> set ?fs" "y \<in> set ?fs" "?cmp x y = 0"
    then have "localeCompare h (lead_id (li_lead y)) (lead_id (li_lead x)) = 0"
      by (auto simp: cmp_on_def lead_order_def cmp_or_def cmp_desc_def split: if_splits)
    moreover have "as_code_units h (lead_id (li_lead y)) (lead_id (li_lead x))"
      using units sub xy(1,2) by (auto simp: code_unit_pair_def)
    ultimately have "lead_id (li_lead y) = lead_id (li_lead x)" using as_code_units_D(2) by blast
    then have "li_lead x = li_lead y" using keyed_inj[OF kd] sub xy(1,2) by metis
    then show "x = y" using dl xy(1,2) by (auto simp: distinct_map inj_on_def)
  qed
  have ag: "\<forall>x \<in> set ?fs. \<forall>y \<in> set ?fs. code_unit_pair h (li_lead x) (li_lead y)" using units sub by blast
  have dfs: "distinct ?fs" using dl by (simp add: distinct_map)
  define fetch where "fetch = (\<lambda>c. case listLeads h orgId scope f c limit ts r of
             Inr res \<Rightarrow> (llr_items res, llr_hasMore res) | Inl _ \<Rightarrow> ([], False))"
  have fetch: "fetch c = page_of limit (after_cursor (\<lambda>c i. lead_after c (li_lead i)) c (js_sort ?cmp ?fs))" for c
    using run run_ok[of c] by (auto simp: fetch_def split: sum.splits)
  have "length ?acc \<le> length (map_values (leads r))" unfolding accessible_leads_def by (rule length_filter_le)
  then have "length items < fuel" using fuel list_all2_lengthD[OF items(2)] by simp
  then have "length ?fs < fuel" by (rule le_less_trans[OF length_filter_le])
  then have walk: "walk fetch lead_cursor_of fuel None = js_sort ?cmp ?fs"
    by (intro lead_pages.walk_complete[OF dfs sep ag limit fetch])
  have "mset (map li_lead (js_sort ?cmp ?fs)) = mset (map li_lead ?fs)" by simp
  moreover have "sorted_wrt (\<lambda>x y. lead_order h x y < 0) (map li_lead (js_sort ?cmp ?fs))"
    using lead_pages.strict_sort[OF dfs sep] by (simp add: sorted_wrt_map cmp_on_def)
  ultimately show ?thesis using run_ok unfolding fetch_def[symmetric] Let_def walk leads[symmetric] by blast
qed

text \<open>
  Whoever creates a lead can see it: in the state \<open>createLead\<close> leaves, the new lead is
  within the creator's own scope, for every scope that names an employee or a first team.
\<close>

theorem created_lead_visible:
  assumes "createLead h o' r = (Inr (Some d), r')"
    and "case clo_scope o' of ScopeOrganization \<Rightarrow> True | ScopeAssigned e \<Rightarrow> e \<noteq> []
      | ScopeTeams names \<Rightarrow> names \<noteq> [] \<and> [] \<notin> set names"
  shows "canAccessLead (clo_scope o') (li_lead (ld_item d)) r'
    \<and> map_get (leads r') (lead_id (li_lead (ld_item d))) = Some (li_lead (ld_item d))
    \<and> lead_organizationId (li_lead (ld_item d)) = clo_organizationId o'"
  using assms(1)
proof (cases rule: createLeadE)
  case (created s r3)
  let ?i = "sequential_id ''lead'' (Suc (ids r))"
  have d: "li_lead (ld_item d) = new_lead o' s ?i"
    using created(9) by (auto simp: buildLeadDetail_def split: sum.splits dest: item_lead)
  have stored: "map_get (leads r') ?i = Some (new_lead o' s ?i)"
    by (simp add: created(7,8) frame_simps store_simps)
  have "canAccessLead (clo_scope o') (new_lead o' s ?i) r'"
  proof (cases "clo_scope o'")
    case (ScopeTeams names)
    have "\<exists>t. new_lead_team o' r = Some t \<and> t \<in> set names"
      using created(5) assms(2) ScopeTeams
      by (auto simp: new_lead_team_def Let_def validateLeadAssignment_def truthy_def
          split: option.splits if_splits list.splits)
    then obtain t where t: "new_lead_team o' r = Some t" "t \<in> set names" by blast
    moreover have "t \<noteq> []" using t(2) assms(2) ScopeTeams by auto
    ultimately show ?thesis using ScopeTeams
      by (auto simp: canAccessLead_def lead_team_def created(7,8) frame_simps store_simps)
  qed (use created(6) assms(2) in \<open>auto simp: canAccessLead_def\<close>)
  then show ?thesis using stored by (simp add: d)
qed simp

end
