(* ===== verification/ParsingFacts.thy ===== *)
theory ParsingFacts
  imports Parsing LeadFacts
begin

text \<open>
  What a parsed request guarantees to the repository behind it, what the parsers answer when they
  refuse, and what a masked list of calls still shows.
\<close>

section \<open>Reading results\<close>

named_theorems parse_results \<open>what a parser that answered established\<close>

lemma attempt_Inr [parse_results]: "attempt m f = Inr y \<longleftrightarrow> (\<exists>x. m = Inr x \<and> f x = Inr y)"
  by (auto simp: attempt_def split: sum.splits)

lemma check_Inr [parse_results]: "check ok e = Inr u \<longleftrightarrow> ok"
  by (simp add: check_def)

lemma expect_Inr [parse_results]: "expect v e = Inr x \<longleftrightarrow> v = Some x"
  by (auto simp: expect_def split: option.splits)

lemma if_defined_Inr [parse_results]:
  "if_defined f v = Inr y \<longleftrightarrow> (v = None \<and> y = None) \<or> (v \<noteq> None \<and> (\<exists>x. f v = Inr x \<and> y = Some x))"
  by (auto simp: if_defined_def parse_results)

lemma if_not_null_Inr [parse_results]:
  "if_not_null f v = Inr y \<longleftrightarrow> (v = None \<and> y = None) \<or> (v = Some JNull \<and> y = Some None)
     \<or> (v \<noteq> None \<and> v \<noteq> Some JNull \<and> (\<exists>x. f v = Inr x \<and> y = Some (Some x)))"
  by (auto simp: if_not_null_def parse_results)

text \<open>A stored text: trimmed, not empty and of bounded length.\<close>

definition text_ok :: "nat \<Rightarrow> string \<Rightarrow> bool" where
  "text_ok n s \<longleftrightarrow> s \<noteq> [] \<and> length s \<le> n"

lemma requiredString_Inr: "requiredString n v f = Inr s \<Longrightarrow> text_ok n s"
  by (auto simp: requiredString_def text_ok_def split: option.splits json.splits if_splits)

lemma optionalString_Inr: "optionalString n v f = Inr s \<Longrightarrow> pred_option (text_ok n) s"
  by (auto simp: optionalString_def parse_results dest: requiredString_Inr)

lemma e164Phone_Inr: "e164Phone v f = Inr s \<Longrightarrow> e164 s"
  by (auto simp: e164Phone_def parse_results split: if_splits)

lemma email_Inr: "lowered_email rt n v f = Inr s \<Longrightarrow> s = [] \<or> email_ok s"
  by (auto simp: lowered_email_def parse_results Let_def split: if_splits)

lemma each_string_Inr: "each_string n f i xs = Inr ss \<Longrightarrow> length ss = length xs \<and> list_all (text_ok n) ss"
  by (induction xs arbitrary: i ss) (auto simp: parse_results dest!: requiredString_Inr)

lemma leadTagIds_Inr: "leadTagIds v f = Inr t \<Longrightarrow> pred_option (\<lambda>ts. length ts \<le> 50 \<and> distinct ts \<and> list_all (text_ok 100) ts) t"
  by (auto simp: leadTagIds_def parse_results split: option.splits json.splits if_splits dest!: each_string_Inr)

lemma isJsonValue_eq: "isJsonValue v d = isBoundedLeadJsonValue v d"
  by (induction v d rule: isJsonValue.induct) auto

lemma leadCustomFields_Inr:
  "leadCustomFields rt v f = Inr c \<Longrightarrow> pred_option (\<lambda>fs. length fs \<le> 100 \<and> list_all (\<lambda>x. isBoundedLeadJsonValue x 0) (map snd fs)
     \<and> length (stringify (rt_number_text rt) (JObject fs)) \<le> 65536) c"
  by (auto simp: leadCustomFields_def parse_results isJsonValue_eq not_less split: option.splits json.splits if_splits)

text \<open>
  A lead the API hands to the repository is within bounds: its numbers are in E.164 format, its
  texts are not empty and bounded, its e-mail address is well formed, its tags are distinct and
  few, and its custom fields are a bounded JSON object of at most 64 KiB.
\<close>

theorem parsed_lead_bounded:
  assumes "parseCreateLeadInput rt body = Inr inp"
  shows "e164 (cli_phoneNumber inp) \<and> pred_option e164 (cli_alternatePhoneNumber inp)
    \<and> text_ok 200 (cli_firstName inp) \<and> pred_option (text_ok 200) (cli_lastName inp)
    \<and> pred_option (text_ok 300) (cli_companyName inp) \<and> pred_option (\<lambda>e. e = [] \<or> email_ok e) (cli_email inp)
    \<and> cli_source inp \<noteq> None \<and> pred_option (text_ok 100) (cli_statusId inp)
    \<and> pred_option (text_ok 100) (cli_assignedEmployeeId inp)
    \<and> pred_option (\<lambda>ts. length ts \<le> 50 \<and> distinct ts \<and> list_all (text_ok 100) ts) (cli_tagIds inp)
    \<and> pred_option (\<lambda>fs. length fs \<le> 100 \<and> list_all (\<lambda>x. isBoundedLeadJsonValue x 0) (map snd fs)
        \<and> length (stringify (rt_number_text rt) (JObject fs)) \<le> 65536) (cli_customFields inp)"
proof -
  obtain ln cn al em sr st as tg cf fn ph where r:
    "optionalString 200 (field body ''lastName'') ''lastName'' = Inr ln"
    "optionalString 300 (field body ''companyName'') ''companyName'' = Inr cn"
    "if_defined (\<lambda>v. e164Phone v ''alternatePhoneNumber'') (field body ''alternatePhoneNumber'') = Inr al"
    "optionalEmail rt (field body ''email'') ''email'' = Inr em"
    "optionalString 100 (field body ''statusId'') ''statusId'' = Inr st"
    "optionalString 100 (field body ''assignedEmployeeId'') ''assignedEmployeeId'' = Inr as"
    "leadTagIds (field body ''tagIds'') ''tagIds'' = Inr tg"
    "leadCustomFields rt (field body ''customFields'') ''customFields'' = Inr cf"
    "requiredString 200 (field body ''firstName'') ''firstName'' = Inr fn"
    "e164Phone (field body ''phoneNumber'') ''phoneNumber'' = Inr ph"
    "cli_lastName inp = ln" "cli_companyName inp = cn" "cli_alternatePhoneNumber inp = al" "cli_email inp = em"
    "cli_statusId inp = st" "cli_assignedEmployeeId inp = as" "cli_tagIds inp = tg" "cli_customFields inp = cf"
    "cli_firstName inp = fn" "cli_phoneNumber inp = ph" "cli_source inp = Some sr"
    using assms unfolding parseCreateLeadInput_def attempt_Inr by auto
  have "pred_option e164 al" using r(3) by (auto simp: if_defined_Inr dest: e164Phone_Inr)
  moreover have "pred_option (\<lambda>e. e = [] \<or> email_ok e) em"
    using r(4) by (auto simp: optionalEmail_def if_defined_Inr dest: email_Inr)
  ultimately show ?thesis
    using optionalString_Inr[OF r(1)] optionalString_Inr[OF r(2)] optionalString_Inr[OF r(5)] optionalString_Inr[OF r(6)]
      leadTagIds_Inr[OF r(7)] leadCustomFields_Inr[OF r(8)] requiredString_Inr[OF r(9)] e164Phone_Inr[OF r(10)] r(11-)
    by simp
qed

section \<open>Refusals\<close>

definition refuses_only :: "thrown + 'a \<Rightarrow> bool" where
  "refuses_only m \<longleftrightarrow> (\<forall>e. m = Inl e \<longrightarrow> (\<exists>msg f. e = badRequest msg f))"

named_theorems refusals \<open>parsers that throw bad requests only\<close>

lemma refuses_Inr [refusals]: "refuses_only (Inr x)"
  by (simp add: refuses_only_def)

lemma refuses_bad [refusals]: "refuses_only (Inl (badRequest msg f))"
  by (auto simp: refuses_only_def)

lemma refuses_attempt [refusals]: "refuses_only m \<Longrightarrow> (\<And>x. refuses_only (f x)) \<Longrightarrow> refuses_only (attempt m f)"
  by (auto simp: refuses_only_def attempt_def split: sum.splits)

lemma refuses_check [refusals]: "refuses_only (check ok (badRequest msg f))"
  by (auto simp: refuses_only_def check_def)

lemma refuses_expect [refusals]: "refuses_only (expect v (badRequest msg f))"
  by (auto simp: refuses_only_def expect_def split: option.splits)

lemma refuses_if_defined [refusals]: "(\<And>v. refuses_only (f v)) \<Longrightarrow> refuses_only (if_defined f v)"
  by (simp add: if_defined_def refusals)

lemma refuses_if_not_null [refusals]: "(\<And>v. refuses_only (f v)) \<Longrightarrow> refuses_only (if_not_null f v)"
  by (simp add: if_not_null_def refusals)

lemma refuses_requiredString [refusals]: "refuses_only (requiredString n v f)"
  by (auto simp: requiredString_def refusals split: option.split json.split)

lemma refuses_optionalString [refusals]: "refuses_only (optionalString n v f)"
  by (simp add: optionalString_def refusals)

lemma refuses_e164Phone [refusals]: "refuses_only (e164Phone v f)"
  by (auto simp: e164Phone_def intro!: refusals)

lemma refuses_email [refusals]: "refuses_only (lowered_email rt n v f)"
  by (auto simp: lowered_email_def Let_def intro!: refusals)

lemma refuses_each [refusals]: "refuses_only (each_string n f i xs)"
  by (induction xs arbitrary: i) (auto intro!: refusals)

lemma refuses_tags [refusals]: "refuses_only (leadTagIds v f)"
  by (auto simp: leadTagIds_def intro!: refusals split: option.split json.split)

lemma refuses_custom [refusals]: "refuses_only (leadCustomFields rt v f)"
  by (auto simp: leadCustomFields_def intro!: refusals split: option.split json.split)

lemma refuses_temperature [refusals]: "refuses_only (temperature_of v f)" "refuses_only (leadTemperature v f)"
  by (auto simp: temperature_of_def leadTemperature_def intro!: refusals)

lemma refuses_nullable [refusals]: "refuses_only (nullableOptionalString n v f)" "refuses_only (nullableOptionalEmail rt v f)"
  "refuses_only (optionalEmail rt v f)"
  by (auto simp: nullableOptionalString_def nullableOptionalEmail_def optionalEmail_def intro!: refusals)

lemma refuses_timestamp [refusals]: "refuses_only (asTimestamp rt v f)"
  by (auto simp: asTimestamp_def intro!: refusals split: option.split json.split)

lemma refuses_numbers [refusals]: "refuses_only (positive_integer v f)" "refuses_only (nonNegativeInteger v f k)"
  by (auto simp: positive_integer_def nonNegativeInteger_def refusals split: option.split json.split)

lemma refuses_bool [refusals]: "refuses_only (requiredBoolean v f)"
  by (auto simp: requiredBoolean_def refusals split: option.split json.split)

lemma refuses_permissions [refusals]: "refuses_only (parse_permission p k)" "refuses_only (parsePermissions v)"
  by (auto simp: parse_permission_def parsePermissions_def intro!: refusals)

lemma refuses_changes [refusals]: "refuses_only (parse_changes rt c)"
  unfolding parse_changes_def by (intro refusals)

lemma refuses_update: "refuses_only (parseUpdateLeadRequest rt body)"
  unfolding parseUpdateLeadRequest_def by (intro refusals) (auto intro!: refusals split: option.split)


section \<open>Follow-ups and calls\<close>

text \<open>
  A parsed follow-up has a due date and no reminder after it, and creating it is a step of the
  lead workspace, whoever creates it.
\<close>

theorem parsed_follow_up_is_step:
  assumes "parseCreateFollowUpInput rt body = Inr inp" and "cfo_input o' = inp"
  shows "cfi_dueAt inp \<noteq> [] \<and> pred_option (\<lambda>r. r \<le> cfi_dueAt inp) (cfi_reminderAt inp) \<and> text_ok 300 (cfi_title inp)
    \<and> lead_step h r (snd (createLeadFollowUp h o' r))"
proof -
  obtain due rem ti where p: "asTimestamp rt (field body ''dueAt'') ''dueAt'' = Inr due"
    "asTimestamp rt (field body ''reminderAt'') ''reminderAt'' = Inr rem" "truthy due" "\<not> (truthy rem \<and> the due < the rem)"
    "requiredString 300 (field body ''title'') ''title'' = Inr ti"
    "cfi_dueAt inp = the due" "cfi_reminderAt inp = rem" "cfi_title inp = ti"
    using assms(1) unfolding parseCreateFollowUpInput_def attempt_Inr check_Inr by auto
  have "cfi_dueAt inp \<noteq> []" using p(3,6) by (auto elim: truthyE)
  moreover have "pred_option (\<lambda>r. r \<le> cfi_dueAt inp) (cfi_reminderAt inp)"
    using p(4,6,7) by (cases rem) (auto simp: not_less)
  ultimately show ?thesis using requiredString_Inr[OF p(5)] p(8) assms(2) by (auto intro: step_follow_up)
qed

lemma nonNegativeInteger_Inr: "nonNegativeInteger v f k = Inr i \<Longrightarrow> 0 \<le> i \<and> i \<le> int k"
  by (auto simp: nonNegativeInteger_def floor_le_iff split: option.splits json.splits if_splits)

text \<open>
  A parsed call begins before it is answered and is answered before it ends, as normalized
  timestamps, lasts from nothing to seven days, rings at most a day, and has an E.164 number.
\<close>

theorem parsed_call_ordered:
  assumes "parseSimulatedCall rt body = Inr c"
  shows "pred_option (\<lambda>a. a \<noteq> [] \<longrightarrow> sc_startedAt c \<le> a) (sc_answeredAt c)
    \<and> pred_option (\<lambda>e. e \<noteq> [] \<longrightarrow> (case sc_answeredAt c of Some a \<Rightarrow> a \<le> e | None \<Rightarrow> sc_startedAt c \<le> e)) (sc_endedAt c)
    \<and> 0 \<le> sc_durationSeconds c \<and> sc_durationSeconds c \<le> 604800
    \<and> pred_option (\<lambda>s. 0 \<le> s \<and> s \<le> 86400) (sc_ringDurationSeconds c) \<and> e164 (sc_phoneNumber c)"
proof -
  obtain st an en ph ri du where p: "asTimestamp rt (field body ''startedAt'') ''startedAt'' = Inr st"
    "asTimestamp rt (field body ''answeredAt'') ''answeredAt'' = Inr an" "asTimestamp rt (field body ''endedAt'') ''endedAt'' = Inr en"
    "\<not> (truthy an \<and> the an < the st)" "\<not> (truthy en \<and> the en < (case an of Some a \<Rightarrow> a | None \<Rightarrow> the st))"
    "e164 ph" "if_defined (\<lambda>v. nonNegativeInteger v ''ringDurationSeconds'' 86400) (field body ''ringDurationSeconds'') = Inr ri"
    "nonNegativeInteger (field body ''durationSeconds'') ''durationSeconds'' (7 * 86400) = Inr du"
    "sc_startedAt c = the st" "sc_answeredAt c = an" "sc_endedAt c = en" "sc_phoneNumber c = ph"
    "sc_durationSeconds c = du" "sc_ringDurationSeconds c = ri"
    using assms unfolding parseSimulatedCall_def attempt_Inr check_Inr
    by auto
  have "pred_option (\<lambda>s. 0 \<le> s \<and> s \<le> 86400) ri"
    using p(7) by (auto simp: if_defined_Inr dest: nonNegativeInteger_Inr)
  moreover have "pred_option (\<lambda>a. a \<noteq> [] \<longrightarrow> the st \<le> a) an" using p(4) by (cases an) (auto simp: not_less)
  moreover have "pred_option (\<lambda>e. e \<noteq> [] \<longrightarrow> (case an of Some a \<Rightarrow> a \<le> e | None \<Rightarrow> the st \<le> e)) en"
    using p(5) by (cases en) (auto simp: not_less split: option.split)
  ultimately show ?thesis using nonNegativeInteger_Inr[OF p(8)] p(6,9-) by (simp cong: option.case_cong)
qed

section \<open>Masking\<close>

definition last_four :: "string \<Rightarrow> string" where
  "last_four s = (let ds = filter is_digit s in drop (length ds - 4) ds)"

text \<open>Two calls an analyst must not tell apart: equal but for the digits before the last four.\<close>

definition alike :: "call_log \<Rightarrow> call_log \<Rightarrow> bool" where
  "alike c d \<longleftrightarrow> (\<exists>n. last_four n = last_four (part_phoneNumber (call_participant c))
     \<and> d = c\<lparr>call_participant := (call_participant c)\<lparr>part_phoneNumber := n\<rparr>\<rparr>)"

lemma mask_last_four: "maskPhoneNumber s = replicate 4 (CHR 0x95) @ '' '' @ last_four s"
  by (simp add: maskPhoneNumber_def last_four_def Let_def)

lemma digits_last_four: "filter is_digit (last_four s) = last_four s"
  by (auto simp: last_four_def Let_def filter_id_conv dest: in_set_dropD)

text \<open>
  What an analyst of a masking organization sees of calls depends on the participants'
  numbers only through their last four digits, and shows no more than four of their digits.
\<close>

theorem masked_calls_reveal_last_four:
  assumes "sees_masked actor" and "list_all2 alike cs ds"
  shows "presentCalls actor cs = presentCalls actor ds
    \<and> list_all (\<lambda>c. length (filter is_digit (part_phoneNumber (call_participant c))) \<le> 4) (presentCalls actor cs)"
proof -
  let ?m = "\<lambda>c. c\<lparr>call_participant := (call_participant c)\<lparr>part_phoneNumber := maskPhoneNumber (part_phoneNumber (call_participant c))\<rparr>\<rparr>"
  have mask: "?m c = ?m d" if "alike c d" for c d using that by (auto simp: alike_def mask_last_four)
  have "map ?m cs = map ?m ds"
    using assms(2) by (auto simp: list_eq_iff_nth_eq list_all2_conv_all_nth intro!: mask)
  moreover have "length (filter is_digit (maskPhoneNumber s)) \<le> 4" for s
    by (simp add: mask_last_four digits_last_four) (simp add: last_four_def is_digit_def Let_def)
  ultimately show ?thesis using assms by (simp add: presentCalls_def list_all_iff)
qed

end
