(* ===== verification/ImportData.thy ===== *)
theory ImportData
  imports Guards Assignment
begin

text \<open>
  The transport types of lead imports (\<open>leads.ts\<close>, \<open>lead-operations.ts\<close>), shared by the repository,
  the API's error report and the web client's CSV reader. A row's source is a string: it may name
  no known source, which is a finding about the row.
\<close>

record lead_import_row =
  lir_firstName :: string
  lir_lastName :: "string option"
  lir_companyName :: "string option"
  lir_phoneNumber :: string
  lir_alternatePhoneNumber :: "string option"
  lir_email :: "string option"
  lir_source :: "string option"
  lir_statusName :: "string option"
  lir_assignedEmployeeCode :: "string option"
  lir_tagNames :: "string list option"
  lir_customFields :: "json_record option"

datatype import_job_status = JobPreviewReady | JobProcessing | JobCompleted | JobInterrupted | JobFailed

datatype row_decision = RowValid | RowDuplicate | RowInvalid | RowImported

datatype issue_code = IsRequired | IsInvalidPhone | IsInvalidEmail | IsInvalidSource | IsUnknownStatus
  | IsUnknownOwner | IsDuplicateInFile | IsDuplicateExisting

record import_issue =
  is_field :: string
  is_code :: issue_code
  is_message :: string

record import_row =
  ir_rowNumber :: nat
  ir_decision :: row_decision
  ir_input :: lead_import_row
  ir_issues :: "import_issue list"
  ir_duplicateLeadId :: "string option"
  ir_proposedAssignedEmployeeId :: "string option"

record import_job =
  ij_id :: string
  ij_organizationId :: string
  ij_fileName :: string
  ij_status :: import_job_status
  ij_totalRows :: nat
  ij_validRows :: int
  ij_duplicateRows :: int
  ij_errorRows :: int
  ij_importedRows :: int
  ij_processedRows :: nat
  ij_createdByUserId :: string
  ij_createdAt :: string
  ij_updatedAt :: string
  ij_completedAt :: "string option"
  ij_errorDownloadAvailable :: bool

record import_preview =
  ip_job :: import_job
  ip_rows :: "import_row list"
  ip_replayed :: bool

record import_result =
  im_job :: import_job
  im_replayed :: bool

text \<open>The names on the wire.\<close>

definition decision_name :: "row_decision \<Rightarrow> string" where
  "decision_name d = (case d of RowValid \<Rightarrow> ''valid'' | RowDuplicate \<Rightarrow> ''duplicate''
     | RowInvalid \<Rightarrow> ''invalid'' | RowImported \<Rightarrow> ''imported'')"

definition issue_code_name :: "issue_code \<Rightarrow> string" where
  "issue_code_name c = (case c of IsRequired \<Rightarrow> ''required'' | IsInvalidPhone \<Rightarrow> ''invalid_phone''
     | IsInvalidEmail \<Rightarrow> ''invalid_email'' | IsInvalidSource \<Rightarrow> ''invalid_source''
     | IsUnknownStatus \<Rightarrow> ''unknown_status'' | IsUnknownOwner \<Rightarrow> ''unknown_owner''
     | IsDuplicateInFile \<Rightarrow> ''duplicate_in_file'' | IsDuplicateExisting \<Rightarrow> ''duplicate_existing'')"

definition known_source :: "string \<Rightarrow> lead_source option" where
  "known_source s = map_of (zip lead_source_names [SrcManual, SrcCsvImport, SrcWebsite, SrcFacebook, SrcInstagram,
     SrcGoogleAds, SrcIndiaMart, SrcApi, SrcIntegration, SrcUnknown]) s"

end
