(* ===== verification/Csv.thy ===== *)
theory Csv
  imports ImportData
begin

text \<open>
  CSV at both ends of a lead import: the error report the API writes (\<open>leadImportErrorCsv\<close> of
  \<open>app.ts\<close>) and the reader of the web client (\<open>csv.ts\<close>).
\<close>

section \<open>The error report\<close>

text \<open>\<open>replace(/\r?\n/g, " ")\<close>\<close>

fun newlines_to_spaces :: "string \<Rightarrow> string" where
  "newlines_to_spaces [] = []"
| "newlines_to_spaces (c # cs) =
     (if c = CHR 0x0D \<and> (case cs of d # _ \<Rightarrow> d = CHR 0x0A | [] \<Rightarrow> False) then '' '' @ newlines_to_spaces (tl cs)
      else if c = CHR 0x0A then '' '' @ newlines_to_spaces cs
      else c # newlines_to_spaces cs)"

definition formula_start :: "string \<Rightarrow> bool" where
  "formula_start s = (case s of [] \<Rightarrow> False | c # _ \<Rightarrow> c \<in> {CHR ''='', CHR ''+'', CHR ''-'', CHR ''@''})"

definition plain_text :: "string \<Rightarrow> string" where
  "plain_text s = (let t = newlines_to_spaces s in if formula_start t then CHR 0x27 # t else t)"

definition double_quotes :: "string \<Rightarrow> string" where
  "double_quotes s = concat (map (\<lambda>c. if c = CHR 0x22 then [CHR 0x22, CHR 0x22] else [c]) s)"

definition cell :: "string \<Rightarrow> string" where
  "cell s = [CHR 0x22] @ double_quotes (plain_text s) @ [CHR 0x22]"

definition error_rows :: "import_preview \<Rightarrow> string list list" where
  "error_rows p = [''rowNumber'', ''decision'', ''field'', ''code'', ''message''] #
     concat (map (\<lambda>r. map (\<lambda>i. [decimal (ir_rowNumber r), decision_name (ir_decision r), is_field i,
       issue_code_name (is_code i), is_message i]) (ir_issues r)) (ip_rows p))"

fun join_with :: "string \<Rightarrow> string list \<Rightarrow> string" where
  "join_with sep [] = []"
| "join_with sep [x] = x"
| "join_with sep (x # y # xs) = x @ sep @ join_with sep (y # xs)"

definition crlf :: string where
  "crlf = [CHR 0x0D, CHR 0x0A]"

definition leadImportErrorCsv :: "import_preview \<Rightarrow> string" where
  "leadImportErrorCsv p = join_with crlf (map (\<lambda>row. join_with '','' (map cell row)) (error_rows p)) @ crlf"

section \<open>The reader\<close>

record csv_issue =
  ci_rowNumber :: "nat option"
  ci_field :: "string option"
  ci_message :: string

record csv_state =
  cs_records :: "string list list"
  cs_issues :: "csv_issue list"
  cs_record :: "string list"
  cs_field :: string
  cs_quoted :: bool
  cs_closedQuote :: bool
  cs_line :: nat
  cs_recordLine :: nat

definition csv_start :: csv_state where
  "csv_start = \<lparr>cs_records = [], cs_issues = [], cs_record = [], cs_field = [], cs_quoted = False,
     cs_closedQuote = False, cs_line = 1, cs_recordLine = 1\<rparr>"

definition finishField :: "csv_state \<Rightarrow> csv_state" where
  "finishField s = s\<lparr>cs_record := cs_record s @ [cs_field s], cs_field := [], cs_closedQuote := False\<rparr>"

definition finishRecord :: "csv_state \<Rightarrow> csv_state" where
  "finishRecord s0 = (let s = finishField s0; rec = cs_record s in
     s\<lparr>cs_records := (if 1 < length rec \<or> list_ex (\<lambda>v. js_trim v \<noteq> []) rec then cs_records s @ [rec] else cs_records s),
       cs_record := [], cs_recordLine := cs_line s + 1\<rparr>)"

definition csv_complain :: "string \<Rightarrow> csv_state \<Rightarrow> csv_state" where
  "csv_complain msg s = s\<lparr>cs_issues := cs_issues s @ [\<lparr>ci_rowNumber = Some (cs_recordLine s), ci_field = None, ci_message = msg\<rparr>]\<rparr>"

definition add_char :: "char \<Rightarrow> csv_state \<Rightarrow> csv_state" where
  "add_char c s = s\<lparr>cs_field := cs_field s @ [c]\<rparr>"

definition next_line :: "csv_state \<Rightarrow> csv_state" where
  "next_line s = s\<lparr>cs_line := cs_line s + 1\<rparr>"

text \<open>One turn of the scanner's loop: the new state and whether the next character is consumed too.\<close>

definition csv_char :: "char \<Rightarrow> char option \<Rightarrow> csv_state \<Rightarrow> csv_state \<times> bool" where
  "csv_char c nxt s =
     (if cs_quoted s then
        (if c = CHR 0x22 \<and> nxt = Some (CHR 0x22) then (add_char c s, True)
         else if c = CHR 0x22 then (s\<lparr>cs_quoted := False, cs_closedQuote := True\<rparr>, False)
         else ((if c = CHR 0x0A then next_line (add_char c s) else add_char c s), False))
      else if cs_closedQuote s \<and> c \<notin> {CHR '','', CHR 0x0A, CHR 0x0D} \<and> \<not> js_space c
      then ((add_char c (csv_complain ''Unexpected text after a closing quote.'' s))\<lparr>cs_closedQuote := False\<rparr>, False)
      else if c = CHR 0x22 then
        (if js_trim (cs_field s) \<noteq> []
         then (add_char c (csv_complain ''A quote must begin at the start of a CSV field.'' s), False)
         else (s\<lparr>cs_field := [], cs_quoted := True\<rparr>, False))
      else if c = CHR '','' then (finishField s, False)
      else if c = CHR 0x0A then (next_line (finishRecord s), False)
      else if c = CHR 0x0D then
        (if nxt = Some (CHR 0x0A) then (s, False) else (next_line (finishRecord s), False))
      else (add_char c s, False))"

fun csv_scan :: "string \<Rightarrow> csv_state \<Rightarrow> csv_state" where
  "csv_scan [] s = s"
| "csv_scan (c # cs) s =
     (case csv_char c (case cs of [] \<Rightarrow> None | d # _ \<Rightarrow> Some d) s of
        (s', skip) \<Rightarrow> csv_scan (if skip then tl cs else cs) s')"

definition splitCsv :: "string \<Rightarrow> string list list \<times> csv_issue list" where
  "splitCsv text =
     (let s = csv_scan text csv_start;
          s1 = (if cs_quoted s then csv_complain ''Quoted field is not closed.'' s else s);
          s2 = (if cs_field s1 \<noteq> [] \<or> cs_record s1 \<noteq> [] then finishRecord s1 else s1)
      in (cs_records s2, cs_issues s2))"

section \<open>From records to rows\<close>

text \<open>
  \<open>KInherited\<close>: the header \<open>constructor\<close> finds the property every JavaScript object inherits.
\<close>

datatype import_key = KFirstName | KLastName | KCompanyName | KPhoneNumber | KAlternatePhoneNumber | KEmail
  | KSource | KStatusName | KAssignedEmployeeCode | KTagNames | KInherited

definition header_aliases :: "(string \<times> import_key) list" where
  "header_aliases = [(''firstname'', KFirstName), (''first'', KFirstName), (''name'', KFirstName), (''leadname'', KFirstName),
     (''lastname'', KLastName), (''surname'', KLastName), (''company'', KCompanyName), (''companyname'', KCompanyName),
     (''phone'', KPhoneNumber), (''phonenumber'', KPhoneNumber), (''mobile'', KPhoneNumber), (''mobilenumber'', KPhoneNumber),
     (''alternatephone'', KAlternatePhoneNumber), (''alternatephonenumber'', KAlternatePhoneNumber), (''email'', KEmail),
     (''source'', KSource), (''status'', KStatusName), (''statusname'', KStatusName), (''owner'', KAssignedEmployeeCode),
     (''ownercode'', KAssignedEmployeeCode), (''assignedemployee'', KAssignedEmployeeCode),
     (''assignedemployeecode'', KAssignedEmployeeCode), (''tags'', KTagNames), (''constructor'', KInherited)]"

definition lower_ascii :: "char \<Rightarrow> char" where
  "lower_ascii c = (if in_range 65 90 c then char_of (of_char c + 32 :: nat) else c)"

definition normalizedHeader :: "string \<Rightarrow> string" where
  "normalizedHeader s = filter (\<lambda>c. in_range 97 122 c \<or> is_digit c) (map lower_ascii (js_trim s))"

definition emptyImportRow :: lead_import_row where
  "emptyImportRow = \<lparr>lir_firstName = [], lir_lastName = None, lir_companyName = None, lir_phoneNumber = [],
     lir_alternatePhoneNumber = None, lir_email = None, lir_source = None, lir_statusName = None,
     lir_assignedEmployeeCode = None, lir_tagNames = None, lir_customFields = None\<rparr>"

text \<open>\<open>split(/[;|]/)\<close> and \<open>replace(/[\s-]+/g, "_")\<close>\<close>

fun split_tags :: "string \<Rightarrow> string list" where
  "split_tags [] = [[]]"
| "split_tags (c # cs) = (if c \<in> {CHR '';'', CHR ''|''} then [] # split_tags cs
     else (case split_tags cs of [] \<Rightarrow> [[c]] | t # ts \<Rightarrow> (c # t) # ts))"

function underscore_runs :: "string \<Rightarrow> string" where
  "underscore_runs [] = []"
| "underscore_runs (c # cs) = (if js_space c \<or> c = CHR ''-''
     then CHR ''_'' # underscore_runs (dropWhile (\<lambda>d. js_space d \<or> d = CHR ''-'') cs) else c # underscore_runs cs)"
  by pat_completeness auto

termination
  by (relation "measure length") (auto simp: le_imp_less_Suc length_dropWhile_le)

definition csv_source :: "string \<Rightarrow> string" where
  "csv_source trimmed = (let n = underscore_runs (map lower_ascii trimmed) in if n \<in> set lead_source_names then n else trimmed)"

definition putValue :: "import_key \<Rightarrow> string \<Rightarrow> lead_import_row \<Rightarrow> lead_import_row" where
  "putValue key val row = (let t = js_trim val; opt = (\<lambda>old. if t \<noteq> [] then Some t else old) in
     case key of
       KTagNames \<Rightarrow> if t \<noteq> [] then row\<lparr>lir_tagNames := Some (filter (\<lambda>x. x \<noteq> []) (map js_trim (split_tags t)))\<rparr> else row
     | KSource \<Rightarrow> row\<lparr>lir_source := Some (csv_source t)\<rparr>
     | KFirstName \<Rightarrow> row\<lparr>lir_firstName := t\<rparr>
     | KPhoneNumber \<Rightarrow> row\<lparr>lir_phoneNumber := t\<rparr>
     | KLastName \<Rightarrow> row\<lparr>lir_lastName := opt (lir_lastName row)\<rparr>
     | KCompanyName \<Rightarrow> row\<lparr>lir_companyName := opt (lir_companyName row)\<rparr>
     | KAlternatePhoneNumber \<Rightarrow> row\<lparr>lir_alternatePhoneNumber := opt (lir_alternatePhoneNumber row)\<rparr>
     | KEmail \<Rightarrow> row\<lparr>lir_email := opt (lir_email row)\<rparr>
     | KStatusName \<Rightarrow> row\<lparr>lir_statusName := opt (lir_statusName row)\<rparr>
     | KAssignedEmployeeCode \<Rightarrow> row\<lparr>lir_assignedEmployeeCode := opt (lir_assignedEmployeeCode row)\<rparr>
     | KInherited \<Rightarrow> row)"

fun put_values :: "import_key option list \<Rightarrow> string list \<Rightarrow> lead_import_row \<Rightarrow> lead_import_row" where
  "put_values [] vs row = row"
| "put_values (k # ks) vs row = put_values ks (tl vs)
     (case k of None \<Rightarrow> row | Some key \<Rightarrow> putValue key (case vs of [] \<Rightarrow> [] | v # _ \<Rightarrow> v) row)"

record csv_row =
  cr_rowNumber :: nat
  cr_input :: lead_import_row

record csv_result =
  cv_headers :: "string list"
  cv_rows :: "csv_row list"
  cv_issues :: "csv_issue list"

definition file_issue :: "string option \<Rightarrow> string \<Rightarrow> csv_issue" where
  "file_issue f msg = \<lparr>ci_rowNumber = None, ci_field = f, ci_message = msg\<rparr>"

definition issue_if :: "bool \<Rightarrow> csv_issue \<Rightarrow> csv_issue list" where
  "issue_if b i = (if b then [i] else [])"

fun repeated :: "string list \<Rightarrow> string list \<Rightarrow> string list" where
  "repeated seen [] = []"
| "repeated seen (x # xs) = (if x \<noteq> [] \<and> x \<in> set seen then x # repeated seen xs else repeated (x # seen) xs)"

text \<open>The first header whose normal form occurs again later, for the message.\<close>

definition duplicate_issue :: "string list \<Rightarrow> csv_issue list" where
  "duplicate_issue headers = (case repeated [] (map normalizedHeader headers) of
       [] \<Rightarrow> []
     | d # _ \<Rightarrow> (case find (\<lambda>x. normalizedHeader x = d) headers of
           Some x \<Rightarrow> [file_issue None (''Duplicate CSV header: '' @ x @ ''.'')] | None \<Rightarrow> []))"

definition data_row :: "string list \<Rightarrow> import_key option list \<Rightarrow> nat \<Rightarrow> string list \<Rightarrow> csv_row \<times> csv_issue list" where
  "data_row headers mapped i vs =
     (\<lparr>cr_rowNumber = i + 2, cr_input = put_values mapped vs emptyImportRow\<rparr>,
      issue_if (length headers < length vs)
        \<lparr>ci_rowNumber = Some (i + 2), ci_field = None, ci_message = ''Row has more values than the header.''\<rparr>)"

definition parseLeadCsvText :: "string \<Rightarrow> string \<Rightarrow> csv_result" where
  "parseLeadCsvText text fileName =
     (case splitCsv text of (records, scanned) \<Rightarrow>
        let headers = map js_trim (case records of [] \<Rightarrow> [] | r # _ \<Rightarrow> r);
            mapped = map (\<lambda>x. map_of header_aliases (normalizedHeader x)) headers;
            body = tl records;
            rows = map (\<lambda>(i, vs). data_row headers mapped i vs) (enumerate 0 (take 1000 body))
        in \<lparr>cv_headers = headers, cv_rows = map fst rows,
            cv_issues = scanned
              @ issue_if (js_trim fileName = [] \<or> 255 < length fileName)
                  (file_issue None ''File name must be between 1 and 255 characters.'')
              @ issue_if (headers = []) (file_issue None ''CSV file must include a header row.'')
              @ duplicate_issue headers
              @ issue_if (Some KFirstName \<notin> set mapped)
                  (file_issue (Some ''firstName'') ''CSV needs a First name or Lead name column.'')
              @ issue_if (Some KPhoneNumber \<notin> set mapped) (file_issue (Some ''phoneNumber'') ''CSV needs a Phone column.'')
              @ issue_if (body = []) (file_issue None ''CSV file does not contain any lead rows.'')
              @ issue_if (1000 < length body)
                  (file_issue None (''CSV contains '' @ decimal (length body) @ '' rows; the maximum is 1000.''))
              @ concat (map snd rows)\<rparr>)"

definition parseLeadCsvFile :: "nat \<Rightarrow> string \<Rightarrow> string \<Rightarrow> csv_result" where
  "parseLeadCsvFile bytes name text =
     (if 2 * 1024 * 1024 < bytes
      then \<lparr>cv_headers = [], cv_rows = [], cv_issues = [file_issue None ''CSV files must be 2 MB or smaller.'']\<rparr>
      else if length name < 4 \<or> map lower_ascii (drop (length name - 4) name) \<noteq> ''.csv''
      then \<lparr>cv_headers = [], cv_rows = [], cv_issues = [file_issue None ''Choose a .csv file.'']\<rparr>
      else parseLeadCsvText text name)"

end
