(* ===== verification/Imports.thy ===== *)
theory Imports
  imports ImportData
begin

text \<open>
  Lead imports of \<open>repository.ts\<close>: the preview that checks every row and proposes owners, the access
  check, the listings, and the commit that creates leads in batches of fifty.
\<close>

section \<open>State and options\<close>

record commit_record =
  cm_fingerprint :: string
  cm_jobId :: string
  cm_result :: import_result

record import_state = rule_state +
  leadImports :: "(string, import_preview) jsmap"
  leadImportTeams :: "(string, string list) jsmap"
  leadImportRowTeams :: "(string, string) jsmap"
  leadImportRuleIds :: "(string, string) jsmap"
  leadImportIdByRequest :: "(string, string) jsmap"
  leadImportFingerprints :: "(string, string) jsmap"
  leadImportCommitRequests :: "(string, commit_record) jsmap"

record import_access =
  ia_organizationId :: string
  ia_scope :: lead_access_scope
  ia_actorUserId :: string

record preview_options = import_access +
  pio_requestId :: string
  pio_fileName :: string
  pio_rows :: "lead_import_row list"
  pio_requestFingerprint :: string
  pio_at :: string

record commit_options = import_access +
  cio_jobId :: string
  cio_requestId :: string
  cio_requestFingerprint :: string
  cio_at :: string

section \<open>Checking a row\<close>

definition row_issue :: "string \<Rightarrow> issue_code \<Rightarrow> string \<Rightarrow> import_issue" where
  "row_issue f c msg = \<lparr>is_field = f, is_code = c, is_message = msg\<rparr>"

definition when_issue :: "bool \<Rightarrow> import_issue \<Rightarrow> import_issue list" where
  "when_issue b i = (if b then [i] else [])"

definition duplicate_code :: "issue_code \<Rightarrow> bool" where
  "duplicate_code c \<longleftrightarrow> c \<in> {IsDuplicateInFile, IsDuplicateExisting}"

definition blocking :: "import_issue list \<Rightarrow> bool" where
  "blocking is \<longleftrightarrow> list_ex (\<lambda>i. \<not> duplicate_code (is_code i)) is"

definition row_phone :: "lead_import_row \<Rightarrow> string" where
  "row_phone inp = js_trim (lir_phoneNumber inp)"

definition row_alternate :: "lead_import_row \<Rightarrow> string option" where
  "row_alternate inp = map_option js_trim (lir_alternatePhoneNumber inp)"

definition valid_alternate :: "lead_import_row \<Rightarrow> bool" where
  "valid_alternate inp = (case row_alternate inp of None \<Rightarrow> False | Some a \<Rightarrow> e164 a)"

text \<open>The status a row names, or the default one.\<close>

definition row_status :: "host \<Rightarrow> string \<Rightarrow> lead_import_row \<Rightarrow> 'a lead_state_scheme \<Rightarrow> lead_status option" where
  "row_status h orgId inp r =
     (if truthy (lir_statusName inp)
      then find (\<lambda>s. ls_organizationId s = orgId \<and> ls_isActive s
          \<and> h_lower h (ls_name s) = h_lower h (js_trim (the (lir_statusName inp)))) (map_values (leadStatuses r))
      else defaultLeadStatus orgId r)"

definition active_employees :: "import_access \<Rightarrow> 'a identity_state_scheme \<Rightarrow> employee list" where
  "active_employees o' r = filter (\<lambda>e. emp_organizationId e = ia_organizationId o' \<and> emp_status e = EmpActive
     \<and> canAccessTeam (ia_scope o') (emp_team e) r) (map_values (employees r))"

definition team_order :: "host \<Rightarrow> employee \<Rightarrow> employee \<Rightarrow> int" where
  "team_order h = cmp_or (cmp_on (\<lambda>e. or_empty (emp_team e)) (localeCompare h)) (cmp_on emp_id (localeCompare h))"

definition default_employee :: "host \<Rightarrow> employee list \<Rightarrow> employee option" where
  "default_employee h es = (case js_sort (team_order h) (filter (\<lambda>e. truthy (emp_team e)) es) of [] \<Rightarrow> None | e # _ \<Rightarrow> Some e)"

definition explicit_owner :: "host \<Rightarrow> employee list \<Rightarrow> lead_import_row \<Rightarrow> employee option" where
  "explicit_owner h es inp =
     (if truthy (lir_assignedEmployeeCode inp)
      then find (\<lambda>e. map_option (h_lower h) (emp_employeeCode e) = Some (h_lower h (js_trim (the (lir_assignedEmployeeCode inp))))) es
      else None)"

definition row_team :: "host \<Rightarrow> employee list \<Rightarrow> lead_import_row \<Rightarrow> string option" where
  "row_team h es inp = (case Option.bind (explicit_owner h es inp) emp_team of
       Some t \<Rightarrow> Some t | None \<Rightarrow> Option.bind (default_employee h es) emp_team)"

text \<open>The issues found before the search for duplicates.\<close>

definition basic_issues :: "host \<Rightarrow> string \<Rightarrow> employee list \<Rightarrow> lead_import_row \<Rightarrow> 'a lead_state_scheme \<Rightarrow> import_issue list" where
  "basic_issues h orgId es inp r =
     when_issue (js_trim (lir_firstName inp) = []) (row_issue ''firstName'' IsRequired ''First name is required'')
     @ when_issue (\<not> e164 (row_phone inp)) (row_issue ''phoneNumber'' IsInvalidPhone ''Phone must use E.164 format'')
     @ when_issue (case lir_email inp of None \<Rightarrow> False | Some m \<Rightarrow> \<not> email_ok (js_trim m))
         (row_issue ''email'' IsInvalidEmail ''Email is invalid'')
     @ when_issue (case lir_source inp of None \<Rightarrow> False | Some s \<Rightarrow> \<not> isLeadSource (Some (JString s)))
         (row_issue ''source'' IsInvalidSource ''Lead source is invalid'')
     @ when_issue (row_status h orgId inp r = None)
         (row_issue ''statusName'' IsUnknownStatus ''Lead status was not found'')
     @ when_issue (truthy (lir_assignedEmployeeCode inp) \<and> explicit_owner h es inp = None)
         (row_issue ''assignedEmployeeCode'' IsUnknownOwner ''Active owner was not found'')
     @ when_issue (\<not> truthy (row_team h es inp))
         (row_issue ''assignedEmployeeCode'' IsUnknownOwner ''No accessible team is available'')
     @ when_issue (row_alternate inp \<noteq> None \<and> \<not> valid_alternate inp)
         (row_issue ''alternatePhoneNumber'' IsInvalidPhone ''Alternate phone must use E.164 format'')"

text \<open>\<open>`${team ?? "unresolved"}:${candidate}`\<close>\<close>

definition phone_key :: "string option \<Rightarrow> string \<Rightarrow> string" where
  "phone_key team candidate = key2 (case team of None \<Rightarrow> ''unresolved'' | Some t \<Rightarrow> t) candidate"

text \<open>The numbers of a row that are valid and not empty, with the field each came from.\<close>

definition candidates :: "lead_import_row \<Rightarrow> (string \<times> string) list" where
  "candidates inp =
     (if e164 (row_phone inp) then [(''phoneNumber'', row_phone inp)] else [])
     @ (if valid_alternate inp then [(''alternatePhoneNumber'', the (row_alternate inp))] else [])"

definition file_duplicate_issue ::
  "lead_import_row \<Rightarrow> string option \<Rightarrow> (string, nat) jsmap \<Rightarrow> string \<times> string \<Rightarrow> import_issue list" where
  "file_duplicate_issue inp team phones c =
     (case map_get phones (phone_key team (snd c)) of
        Some n \<Rightarrow> [row_issue (fst c) IsDuplicateInFile (''Duplicates row '' @ decimal n)]
      | None \<Rightarrow> when_issue (fst c = ''alternatePhoneNumber'' \<and> snd c = row_phone inp)
          (row_issue (fst c) IsDuplicateInFile ''Duplicates phoneNumber in this row''))"

text \<open>An open lead of the team with one of the numbers.\<close>

definition existing_lead :: "string \<Rightarrow> string option \<Rightarrow> string list \<Rightarrow> 'a lead_state_scheme \<Rightarrow> lead option" where
  "existing_lead orgId team phones r =
     find (\<lambda>l. lead_organizationId l = orgId \<and> \<not> truthy (lead_archivedAt l)
        \<and> map_get (leadTeams r) (lead_id l) = team
        \<and> list_ex (\<lambda>c. lead_phoneNumber l = c \<or> lead_alternatePhoneNumber l = Some c) phones) (map_values (leads r))"

text \<open>A known source reads as itself; a row with an unknown one never gets this far.\<close>

definition import_source :: "lead_import_row \<Rightarrow> lead_source" where
  "import_source inp = (case lir_source inp of None \<Rightarrow> SrcCsvImport
     | Some s \<Rightarrow> (case known_source s of None \<Rightarrow> SrcUnknown | Some x \<Rightarrow> x))"

definition proposed_lead :: "string \<Rightarrow> string \<Rightarrow> lead_import_row \<Rightarrow> string \<Rightarrow> string \<Rightarrow> lead" where
  "proposed_lead i orgId inp statusId ts =
     \<lparr>createdAt = ts, updatedAt = ts, createdBy = None, updatedBy = None, lead_id = i, lead_organizationId = orgId,
      lead_firstName = js_trim (lir_firstName inp), lead_lastName = None, lead_companyName = None,
      lead_phoneNumber = row_phone inp, lead_alternatePhoneNumber = None, lead_email = None,
      lead_source = import_source inp, lead_sourceReference = None, lead_statusId = statusId, lead_temperature = None,
      lead_assignedEmployeeId = None, lead_tagIds = [], lead_customFields = [], lead_lastContactedAt = None,
      lead_nextFollowUpAt = None, lead_convertedAt = None, lead_lostAt = None, lead_archivedAt = None, lead_version = 1\<rparr>"

section \<open>The preview\<close>

record preview_progress =
  pv_phones :: "(string, nat) jsmap"
  pv_teams :: "string list"
  pv_cursors :: "(string, nat) jsmap"
  pv_rowTeams :: "(nat, string) jsmap"
  pv_rowRuleIds :: "(nat, string) jsmap"
  pv_rows :: "import_row list"

definition preview_start :: preview_progress where
  "preview_start = \<lparr>pv_phones = [], pv_teams = [], pv_cursors = [], pv_rowTeams = [], pv_rowRuleIds = [], pv_rows = []\<rparr>"

definition preview_decision :: "bool \<Rightarrow> bool \<Rightarrow> row_decision" where
  "preview_decision invalid duplicate = (if invalid then RowInvalid else if duplicate then RowDuplicate else RowValid)"

text \<open>
  The owner the assignment rules propose for a row, with the rule and its cursor. The proposed
  lead's team is entered in \<open>leadTeams\<close> for the match and removed right after it.
\<close>

definition propose_owner ::
  "host \<Rightarrow> import_access \<Rightarrow> nat \<Rightarrow> lead_import_row \<Rightarrow> string \<Rightarrow> string \<Rightarrow> string \<Rightarrow> (string, nat) jsmap \<Rightarrow>
   'a rule_state_scheme \<Rightarrow> (employee \<times> assignment_rule \<times> nat) option" where
  "propose_owner h o' n inp statusId team ts cursors r =
     (let l = proposed_lead (''preview:'' @ decimal n) (ia_organizationId o') inp statusId ts;
          r1 = r\<lparr>leadTeams := map_set (lead_id l) team (leadTeams r)\<rparr>
      in case first_rule h (ia_organizationId o') (ia_scope o') l r1 of
           None \<Rightarrow> None
         | Some ru \<Rightarrow>
             let cursor = cursor_of cursors (ar_id ru) r;
                 i = (case js_at (ar_employeeIds ru) (owner_position ru cursor) of None \<Rightarrow> [] | Some i \<Rightarrow> i)
             in map_option (\<lambda>e. (e, ru, cursor)) (map_get (employees r) i))"

definition preview_row ::
  "host \<Rightarrow> import_access \<Rightarrow> string \<Rightarrow> employee list \<Rightarrow> 'a rule_state_scheme \<Rightarrow> nat \<times> lead_import_row \<Rightarrow>
   preview_progress \<Rightarrow> preview_progress" where
  "preview_row h o' ts es r row p =
     (let n = Suc (fst row); inp = snd row; orgId = ia_organizationId o';
          status = row_status h orgId inp r; explicit = explicit_owner h es inp; team = row_team h es inp;
          basic = basic_issues h orgId es inp r;
          inFile = concat (map (file_duplicate_issue inp team (pv_phones p)) (candidates inp));
          phones = map snd (candidates inp);
          existing = (if \<not> blocking basic \<and> inFile = [] \<and> phones \<noteq> [] \<and> truthy team
            then existing_lead orgId team phones r else None);
          issues = basic @ inFile @ when_issue (existing \<noteq> None)
            (row_issue ''phoneNumber'' IsDuplicateExisting ''An existing lead has this phone'');
          invalid = blocking issues; duplicate = (inFile \<noteq> [] \<or> existing \<noteq> None);
          fine = (\<not> invalid \<and> \<not> duplicate);
          phones' = (if fine then fold (\<lambda>c. map_set (phone_key team c) n) phones (pv_phones p) else pv_phones p);
          proposal = (if fine \<and> explicit = None \<and> status \<noteq> None \<and> truthy team
              \<and> list_all (\<lambda>i. is_code i \<noteq> IsUnknownOwner) issues
            then propose_owner h o' n inp (ls_id (the status)) (the team) ts (pv_cursors p) r else None);
          owner = (case explicit of Some e \<Rightarrow> Some e | None \<Rightarrow> map_option fst proposal)
      in \<lparr>pv_phones = phones',
          pv_teams = (if truthy team then set_add (the team) (pv_teams p) else pv_teams p),
          pv_cursors = (case proposal of Some (_, ru, c) \<Rightarrow>
              if ar_strategy ru = RoundRobin then map_set (ar_id ru) (Suc c) (pv_cursors p) else pv_cursors p
            | None \<Rightarrow> pv_cursors p),
          pv_rowTeams = (if truthy team then map_set n (the team) (pv_rowTeams p) else pv_rowTeams p),
          pv_rowRuleIds = (case proposal of Some (_, ru, _) \<Rightarrow> map_set n (ar_id ru) (pv_rowRuleIds p)
            | None \<Rightarrow> pv_rowRuleIds p),
          pv_rows = pv_rows p @ [\<lparr>ir_rowNumber = n, ir_decision = preview_decision invalid duplicate, ir_input = inp,
            ir_issues = issues, ir_duplicateLeadId = map_option lead_id existing,
            ir_proposedAssignedEmployeeId = map_option emp_id owner\<rparr>]\<rparr>)"

definition preview_rows ::
  "host \<Rightarrow> import_access \<Rightarrow> string \<Rightarrow> 'a rule_state_scheme \<Rightarrow> lead_import_row list \<Rightarrow> preview_progress" where
  "preview_rows h o' ts r rows = fold (preview_row h o' ts (active_employees o' r) r) (enumerate 0 rows) preview_start"

definition rows_with :: "row_decision \<Rightarrow> import_row list \<Rightarrow> nat" where
  "rows_with d rows = length (filter (\<lambda>row. ir_decision row = d) rows)"

definition rows_settled :: "import_row list \<Rightarrow> nat" where
  "rows_settled rows = length (filter (\<lambda>row. ir_decision row \<noteq> RowValid) rows)"

definition new_import_job :: "preview_options \<Rightarrow> import_row list \<Rightarrow> string \<Rightarrow> import_job" where
  "new_import_job o' rows i =
     \<lparr>ij_id = i, ij_organizationId = ia_organizationId o', ij_fileName = pio_fileName o', ij_status = JobPreviewReady,
      ij_totalRows = length rows, ij_validRows = int (rows_with RowValid rows),
      ij_duplicateRows = int (rows_with RowDuplicate rows), ij_errorRows = int (rows_with RowInvalid rows),
      ij_importedRows = 0, ij_processedRows = rows_settled rows, ij_createdByUserId = ia_actorUserId o',
      ij_createdAt = pio_at o', ij_updatedAt = pio_at o', ij_completedAt = None,
      ij_errorDownloadAvailable = list_ex (\<lambda>row. ir_issues row \<noteq> []) rows\<rparr>"

definition row_key :: "string \<Rightarrow> nat \<Rightarrow> string" where
  "row_key jobId n = key2 jobId (decimal n)"

definition canAccessImport :: "'b import_access_scheme \<Rightarrow> import_preview \<Rightarrow> 'a import_state_scheme \<Rightarrow> bool" where
  "canAccessImport o' p r =
     (if ij_organizationId (ip_job p) \<noteq> ia_organizationId o' then False
      else if ia_scope o' = ScopeOrganization then True
      else if ij_createdByUserId (ip_job p) \<noteq> ia_actorUserId o' then False
      else list_all (\<lambda>t. canAccessTeam (ia_scope o') (Some t) r)
        (case map_get (leadImportTeams r) (ij_id (ip_job p)) of None \<Rightarrow> [] | Some ts \<Rightarrow> ts))"

definition previewLeadImport ::
  "host \<Rightarrow> preview_options \<Rightarrow> 'a import_state_scheme \<Rightarrow> ('a import_state_scheme, import_preview) outcome" where
  "previewLeadImport h o' r =
     (let requestKey = key2 (ia_organizationId o') (pio_requestId o');
          existingId = map_get (leadImportIdByRequest r) requestKey
      in if truthy existingId
         then if map_get (leadImportFingerprints r) requestKey \<noteq> Some (pio_requestFingerprint o')
           then (Inl (conflict ''The import request ID was already used with a different payload''), r)
           else (case map_get (leadImports r) (the existingId) of
               None \<Rightarrow> (Inl (JsError ''In-memory lead import request is corrupt''), r)
             | Some p \<Rightarrow> if \<not> canAccessImport o' p r
                 then (Inl (forbidden ''The lead import is outside your current lead scope''), r)
                 else (Inr (p\<lparr>ip_replayed := True\<rparr>), r))
         else
           (let p = preview_rows h (import_access.truncate o') (pio_at o') r (pio_rows o');
                (i, r1) = next_id ''lead_import'' r;
                preview = \<lparr>ip_job = new_import_job o' (pv_rows p) i, ip_rows = pv_rows p, ip_replayed = False\<rparr>
            in (Inr preview, r1\<lparr>leadImports := map_set i preview (leadImports r1),
                 leadImportTeams := map_set i (pv_teams p) (leadImportTeams r1),
                 leadImportRowTeams := fold (\<lambda>(n, t). map_set (row_key i n) t) (pv_rowTeams p) (leadImportRowTeams r1),
                 leadImportRuleIds := fold (\<lambda>(n, ru). map_set (row_key i n) ru) (pv_rowRuleIds p) (leadImportRuleIds r1),
                 leadImportIdByRequest := map_set requestKey i (leadImportIdByRequest r1),
                 leadImportFingerprints := map_set requestKey (pio_requestFingerprint o') (leadImportFingerprints r1)\<rparr>)))"

section \<open>Reading imports\<close>

definition job_order :: "host \<Rightarrow> import_job \<Rightarrow> import_job \<Rightarrow> int" where
  "job_order h = cmp_or (cmp_desc (cmp_on ij_createdAt (localeCompare h))) (cmp_desc (cmp_on ij_id (localeCompare h)))"

definition listLeadImports :: "host \<Rightarrow> import_access \<Rightarrow> 'a import_state_scheme \<Rightarrow> import_job list" where
  "listLeadImports h o' r = js_sort (job_order h)
     (map ip_job (filter (\<lambda>p. canAccessImport o' p r) (map_values (leadImports r))))"

definition findLeadImport :: "import_access \<Rightarrow> string \<Rightarrow> 'a import_state_scheme \<Rightarrow> import_preview option" where
  "findLeadImport o' jobId r = (case map_get (leadImports r) jobId of None \<Rightarrow> None
     | Some p \<Rightarrow> if canAccessImport o' p r then Some p else None)"

section \<open>The commit\<close>

record commit_progress =
  cp_cursors :: "(string, nat) jsmap"
  cp_advanced :: "string list"

text \<open>Rewriting one row of the stored preview, and its job.\<close>

definition settle ::
  "nat \<Rightarrow> (import_row \<Rightarrow> import_row) \<Rightarrow> (import_job \<Rightarrow> import_job) \<Rightarrow> import_preview \<Rightarrow> import_preview" where
  "settle n f g p = p\<lparr>ip_job := g (ip_job p),
     ip_rows := map (\<lambda>row. if ir_rowNumber row = n then f row else row) (ip_rows p)\<rparr>"

definition store_settled ::
  "string \<Rightarrow> nat \<Rightarrow> (import_row \<Rightarrow> import_row) \<Rightarrow> (import_job \<Rightarrow> import_job) \<Rightarrow> 'a import_state_scheme \<Rightarrow> 'a import_state_scheme" where
  "store_settled jobId n f g r = r\<lparr>leadImports := map_modify jobId (settle n f g) (leadImports r)\<rparr>"

definition as_duplicate :: "lead \<Rightarrow> import_row \<Rightarrow> import_row" where
  "as_duplicate l row = row\<lparr>ir_decision := RowDuplicate, ir_duplicateLeadId := Some (lead_id l),
     ir_issues := ir_issues row @ [row_issue ''phoneNumber'' IsDuplicateExisting ''An existing lead has this phone'']\<rparr>"

definition as_invalid :: "import_issue \<Rightarrow> import_row \<Rightarrow> import_row" where
  "as_invalid i row = row\<lparr>ir_decision := RowInvalid, ir_issues := ir_issues row @ [i]\<rparr>"

definition as_imported :: "import_row \<Rightarrow> import_row" where
  "as_imported row = row\<lparr>ir_decision := RowImported\<rparr>"

definition count_duplicate :: "import_job \<Rightarrow> import_job" where
  "count_duplicate j = j\<lparr>ij_duplicateRows := ij_duplicateRows j + 1, ij_validRows := ij_validRows j - 1\<rparr>"

definition count_invalid :: "import_job \<Rightarrow> import_job" where
  "count_invalid j = j\<lparr>ij_errorRows := ij_errorRows j + 1, ij_validRows := ij_validRows j - 1\<rparr>"

text \<open>As the code has it, importing a row raises \<open>importedRows\<close> and leaves \<open>validRows\<close> alone.\<close>

definition count_imported :: "import_job \<Rightarrow> import_job" where
  "count_imported j = j\<lparr>ij_importedRows := ij_importedRows j + 1\<rparr>"

definition rule_eligible ::
  "commit_options \<Rightarrow> assignment_rule option \<Rightarrow> string option \<Rightarrow> string option \<Rightarrow> lead \<Rightarrow> 'a rule_state_scheme \<Rightarrow> bool" where
  "rule_eligible o' rule ruleTeam team l r =
     (case rule of None \<Rightarrow> False
      | Some ru \<Rightarrow> ar_active ru \<and> truthy team \<and> ruleTeam = team \<and> canAccessTeam (ia_scope o') team r
          \<and> ruleMatchesLead ru l \<and> owners_eligible (ia_organizationId o') team (ar_employeeIds ru) r)"

definition no_owner_issue :: import_issue where
  "no_owner_issue = row_issue ''assignedEmployeeCode'' IsUnknownOwner
     ''The assignment rule no longer has an eligible active owner''"

definition import_input :: "string \<Rightarrow> import_row \<Rightarrow> lead_status \<Rightarrow> string option \<Rightarrow> create_lead_input" where
  "import_input rowKey row status assigned =
     (let inp = ir_input row in
      \<lparr>cli_firstName = js_trim (lir_firstName inp), cli_lastName = lir_lastName inp, cli_companyName = lir_companyName inp,
       cli_phoneNumber = row_phone inp, cli_alternatePhoneNumber = lir_alternatePhoneNumber inp, cli_email = lir_email inp,
       cli_source = Some (import_source inp), cli_sourceReference = Some rowKey, cli_statusId = Some (ls_id status),
       cli_temperature = None, cli_assignedEmployeeId = assigned,
       cli_tagIds = map_option (map js_trim) (lir_tagNames inp), cli_customFields = lir_customFields inp\<rparr>)"

text \<open>The owner a row gets at commit: a fault, or the owner with the rule whose cursor advances.\<close>

definition commit_owner ::
  "commit_options \<Rightarrow> import_row \<Rightarrow> lead_status \<Rightarrow> string option \<Rightarrow> commit_progress \<Rightarrow> 'a import_state_scheme \<Rightarrow>
   import_issue + string option \<times> (string \<times> nat) option" where
  "commit_owner o' row status team q r =
     (let rowKey = row_key (cio_jobId o') (ir_rowNumber row); ruleId = map_get (leadImportRuleIds r) rowKey in
      if \<not> truthy ruleId then Inr (ir_proposedAssignedEmployeeId row, None)
      else
        (let rule = map_get (leadAssignmentRules r) (the ruleId);
             l = proposed_lead (''commit:'' @ rowKey) (ia_organizationId o') (ir_input row) (ls_id status) (cio_at o')
         in if \<not> rule_eligible o' rule (map_get (leadAssignmentRuleTeams r) (the ruleId)) team l r then Inl no_owner_issue
            else
              (let ru = the rule; cursor = cursor_of (cp_cursors q) (the ruleId) r;
                   assigned = js_at (ar_employeeIds ru) (owner_position ru cursor)
               in if \<not> truthy assigned then Inl no_owner_issue
                  else Inr (assigned, if ar_strategy ru = RoundRobin then Some (the ruleId, cursor) else None))))"

definition commit_row ::
  "host \<Rightarrow> commit_options \<Rightarrow> import_row \<Rightarrow> commit_progress \<Rightarrow> 'a import_state_scheme \<Rightarrow>
   ('a import_state_scheme, commit_progress) outcome" where
  "commit_row h o' row q r =
     (let jobId = cio_jobId o'; n = ir_rowNumber row; inp = ir_input row; orgId = ia_organizationId o';
          rowKey = row_key jobId n; team = map_get (leadImportRowTeams r) rowKey;
          phones = filter (\<lambda>c. c \<noteq> []) (row_phone inp # (case row_alternate inp of None \<Rightarrow> [] | Some a \<Rightarrow> [a]));
          existing = (if truthy team then existing_lead orgId team phones r else None)
      in case existing of
           Some l \<Rightarrow> (Inr q, store_settled jobId n (as_duplicate l) count_duplicate r)
         | None \<Rightarrow>
             (case row_status h orgId inp r of
                None \<Rightarrow> (Inr q, store_settled jobId n (as_invalid (row_issue ''statusName'' IsUnknownStatus
                    ''The staged lead status is no longer active'')) count_invalid r)
              | Some status \<Rightarrow>
                  (case commit_owner o' row status team q r of
                     Inl issue \<Rightarrow> (Inr q, store_settled jobId n (as_invalid issue) count_invalid r)
                   | Inr (assigned, advance) \<Rightarrow>
                       (case createLead h \<lparr>clo_organizationId = orgId, clo_scope = ia_scope o',
                             clo_actorUserId = ia_actorUserId o', clo_input = import_input rowKey row status assigned,
                             clo_at = cio_at o'\<rparr> r of
                          (Inl e, r1) \<Rightarrow> (Inl e, r1)
                        | (Inr None, r1) \<Rightarrow> (Inr q, store_settled jobId n (as_invalid (row_issue ''assignedEmployeeCode''
                            IsUnknownOwner ''Owner is no longer available'')) count_invalid r1)
                        | (Inr (Some _), r1) \<Rightarrow>
                            (Inr (case advance of None \<Rightarrow> q
                               | Some (ruleId, c) \<Rightarrow> q\<lparr>cp_cursors := map_set ruleId (Suc c) (cp_cursors q),
                                   cp_advanced := set_add ruleId (cp_advanced q)\<rparr>),
                             store_settled jobId n as_imported count_imported r1)))))"

fun commit_rows ::
  "host \<Rightarrow> commit_options \<Rightarrow> import_row list \<Rightarrow> commit_progress \<Rightarrow> 'a import_state_scheme \<Rightarrow>
   ('a import_state_scheme, commit_progress) outcome" where
  "commit_rows h o' [] q r = (Inr q, r)"
| "commit_rows h o' (row # rows) q r =
     (case commit_row h o' row q r of
        (Inl e, r1) \<Rightarrow> (Inl e, r1)
      | (Inr q1, r1) \<Rightarrow> commit_rows h o' rows q1 r1)"

definition begin_processing :: "string \<Rightarrow> import_preview \<Rightarrow> import_preview" where
  "begin_processing ts p = p\<lparr>ip_job := (ip_job p)\<lparr>ij_status := JobProcessing, ij_updatedAt := ts\<rparr>\<rparr>"

definition finish_processing :: "string \<Rightarrow> import_preview \<Rightarrow> import_preview" where
  "finish_processing ts p =
     (let remaining = list_ex (\<lambda>row. ir_decision row = RowValid) (ip_rows p) in
      p\<lparr>ip_job := (ip_job p)\<lparr>ij_processedRows := rows_settled (ip_rows p),
        ij_status := (if remaining then JobInterrupted else JobCompleted),
        ij_completedAt := (if remaining then ij_completedAt (ip_job p) else Some ts), ij_updatedAt := ts,
        ij_errorDownloadAvailable := list_ex (\<lambda>row. ir_issues row \<noteq> []) (ip_rows p)\<rparr>\<rparr>)"

definition import_batch :: "import_preview \<Rightarrow> import_row list" where
  "import_batch p = take 50 (filter (\<lambda>row. ir_decision row = RowValid) (ip_rows p))"

definition commit_key :: "commit_options \<Rightarrow> string" where
  "commit_key o' = key2 (ia_organizationId o') (cio_requestId o')"

definition store_commit :: "commit_options \<Rightarrow> import_result \<Rightarrow> 'a import_state_scheme \<Rightarrow> 'a import_state_scheme" where
  "store_commit o' res r = r\<lparr>leadImportCommitRequests := map_set (commit_key o')
     \<lparr>cm_fingerprint = cio_requestFingerprint o', cm_jobId = cio_jobId o', cm_result = res\<rparr> (leadImportCommitRequests r)\<rparr>"

text \<open>The batch of one commit.\<close>

definition commit_batch ::
  "host \<Rightarrow> commit_options \<Rightarrow> import_preview \<Rightarrow> 'a import_state_scheme \<Rightarrow> ('a import_state_scheme, import_result option) outcome" where
  "commit_batch h o' p r =
     (let jobId = cio_jobId o'; ts = cio_at o';
          r1 = r\<lparr>leadImports := map_modify jobId (begin_processing ts) (leadImports r)\<rparr>
      in case commit_rows h o' (import_batch p) \<lparr>cp_cursors = [], cp_advanced = []\<rparr> r1 of
           (Inl e, r2) \<Rightarrow> (Inl e, r2)
         | (Inr q, r2) \<Rightarrow>
             (let r3 = store_cursors (ia_actorUserId o') ts (cp_cursors q) (cp_advanced q) r2;
                  r4 = r3\<lparr>leadImports := map_modify jobId (finish_processing ts) (leadImports r3)\<rparr>
              in case map_get (leadImports r4) jobId of
                   None \<Rightarrow> (Inr None, r4)
                 | Some p' \<Rightarrow> (let res = \<lparr>im_job = ip_job p', im_replayed = False\<rparr> in
                     (Inr (Some res), store_commit o' res r4))))"

definition commitLeadImport ::
  "host \<Rightarrow> commit_options \<Rightarrow> 'a import_state_scheme \<Rightarrow> ('a import_state_scheme, import_result option) outcome" where
  "commitLeadImport h o' r =
     (case map_get (leadImports r) (cio_jobId o') of
        None \<Rightarrow> (Inr None, r)
      | Some p \<Rightarrow>
          if \<not> canAccessImport o' p r then (Inr None, r)
          else (case map_get (leadImportCommitRequests r) (commit_key o') of
              Some prior \<Rightarrow>
                if cm_fingerprint prior \<noteq> cio_requestFingerprint o' \<or> cm_jobId prior \<noteq> cio_jobId o'
                then (Inl (conflict ''The import commit request ID was already used with a different payload''), r)
                else (Inr (Some ((cm_result prior)\<lparr>im_replayed := True\<rparr>)), r)
            | None \<Rightarrow>
                if ij_status (ip_job p) = JobCompleted
                then (let res = \<lparr>im_job = ip_job p, im_replayed = True\<rparr> in (Inr (Some res), store_commit o' res r))
                else commit_batch h o' p r))"

end
