(* ===== verification/CallFacts.thy ===== *)
theory CallFacts
  imports Calls LeadFacts
begin

text \<open>
  What makes call ingestion correct: a call is stored once however often it is sent, a batch
  retry answers the same result, linking is unambiguous and stays within the tenant, and the
  operations keep the invariants of the lead workspace.
\<close>

section \<open>The call store\<close>

text \<open>Every index points at a stored call, so no lookup can find the store corrupt.\<close>

definition call_inv :: "'a call_state_scheme \<Rightarrow> bool" where
  "call_inv r \<longleftrightarrow> keyed call_id (calls r) \<and> ids_fresh ''call'' (ids r) (calls r)
     \<and> map_get (calls r) [] = None
     \<and> (\<forall>k i. map_get (callIdByExternalId r) k = Some i \<longrightarrow> map_get (calls r) i \<noteq> None)
     \<and> (\<forall>k p. map_get (idempotency r) k = Some p \<longrightarrow> map_get (calls r) (idm_callId p) \<noteq> None)"

lemma add_activity_call_frame [frame_simps]:
  "calls (add_activity mk r) = calls r" "callIdByExternalId (add_activity mk r) = callIdByExternalId r"
  "callFingerprintByExternalId (add_activity mk r) = callFingerprintByExternalId r"
  "idempotency (add_activity mk r) = idempotency r" "mobileBatches (add_activity mk r) = mobileBatches r"
  "leadIdByCallId (add_activity mk r) = leadIdByCallId r"
  "callLeadCorrectionRequests (add_activity mk r) = callLeadCorrectionRequests r"
  "mobileLeadUpdateRequests (add_activity mk r) = mobileLeadUpdateRequests r"
  by (simp_all add: add_activity_eq)

lemma add_activity_device_frame [frame_simps]:
  "devices (add_activity mk r) = devices r" "organizations (add_activity mk r) = organizations r"
  "deviceCredentialsByHash (add_activity mk r) = deviceCredentialsByHash r"
  "deviceCredentialHashById (add_activity mk r) = deviceCredentialHashById r"
  "activeConsentByDevice (add_activity mk r) = activeConsentByDevice r"
  "deviceCollectionModes (add_activity mk r) = deviceCollectionModes r"
  "mobilePolicies (add_activity mk r) = mobilePolicies r"
  by (simp_all add: add_activity_eq)

text \<open>Linking either does nothing or writes one lead, and at most one link and one activity.\<close>

lemma linkCallE:
  assumes "linkCallToUniqueLead c ts r = r'"
  obtains (same) "r' = r"
  | (contacted) k l where "map_get (leadIdByCallId r) (call_id c) = Some k" "k \<noteq> []" "map_get (leads r) k = Some l"
      "r' = r\<lparr>leads := map_set k (contact_lead c ts l) (leads r)\<rparr>"
  | (linked) k l team where "Option.bind (map_get (employees r) (call_employeeId c)) emp_team = Some team" "team \<noteq> []"
      "\<not> part_isInternal (call_participant c)"
      "\<not> truthy (map_get (leadIdByCallId r) (call_id c))"
      "filter (\<lambda>(k, l). phone_matches c team r l) (leads r) = [(k, l)]"
      "r' = add_activity (link_activity c (lead_id l)) (r\<lparr>leads := map_set k (contact_lead c ts l) (leads r),
              leadIdByCallId := map_set (call_id c) (lead_id l) (leadIdByCallId r)\<rparr>)"
proof (cases "r' = r")
  case False
  define team where "team = Option.bind (map_get (employees r) (call_employeeId c)) emp_team"
  have int: "\<not> part_isInternal (call_participant c)" and tm: "truthy team"
    using assms False by (auto simp: linkCallToUniqueLead_def team_def Let_def split: if_splits)
  then obtain t where t: "team = Some t" "t \<noteq> []" by (auto elim: truthyE)
  from assms False int tm obtain k l where cand: "link_candidates c t r = [(k, l)]"
    by (auto simp: linkCallToUniqueLead_def team_def[symmetric] Let_def t split: list.splits)
  show ?thesis
  proof (cases "truthy (map_get (leadIdByCallId r) (call_id c))")
    case True
    then obtain i where i: "map_get (leadIdByCallId r) (call_id c) = Some i" "i \<noteq> []" by (auto elim: truthyE)
    then have "k = i" "map_get (leads r) i = Some l"
      using cand by (auto simp: link_candidates_def Let_def split: option.splits)
    then show ?thesis
      using assms int t cand i
      by (intro contacted[of i l]) (auto simp: linkCallToUniqueLead_def team_def[symmetric] Let_def)
  next
    case notrue: False
    have "filter (\<lambda>(k, l). phone_matches c t r l) (leads r) = [(k, l)]"
      using cand notrue by (simp add: link_candidates_def Let_def)
    then show ?thesis
      using assms int t cand notrue
      by (intro linked[of t k l]) (auto simp: linkCallToUniqueLead_def team_def[symmetric] Let_def)
  qed
qed (use same in blast)

lemma link_frame [frame_simps]:
  "calls (linkCallToUniqueLead c ts r) = calls r"
  "callIdByExternalId (linkCallToUniqueLead c ts r) = callIdByExternalId r"
  "callFingerprintByExternalId (linkCallToUniqueLead c ts r) = callFingerprintByExternalId r"
  "idempotency (linkCallToUniqueLead c ts r) = idempotency r"
  "mobileBatches (linkCallToUniqueLead c ts r) = mobileBatches r"
  "employees (linkCallToUniqueLead c ts r) = employees r"
  "devices (linkCallToUniqueLead c ts r) = devices r"
  "organizations (linkCallToUniqueLead c ts r) = organizations r"
  "deviceCredentialsByHash (linkCallToUniqueLead c ts r) = deviceCredentialsByHash r"
  "deviceCredentialHashById (linkCallToUniqueLead c ts r) = deviceCredentialHashById r"
  "activeConsentByDevice (linkCallToUniqueLead c ts r) = activeConsentByDevice r"
  "deviceCollectionModes (linkCallToUniqueLead c ts r) = deviceCollectionModes r"
  "mobilePolicies (linkCallToUniqueLead c ts r) = mobilePolicies r"
  by (simp_all add: linkCallToUniqueLead_def Let_def frame_simps split: list.split prod.split)

lemma link_ids: "ids r \<le> ids (linkCallToUniqueLead c ts r)"
  by (simp add: linkCallToUniqueLead_def Let_def frame_simps split: list.split prod.split)

lemma contact_lead_simps [simp]:
  "lead_id (contact_lead c ts l) = lead_id l" "lead_organizationId (contact_lead c ts l) = lead_organizationId l"
  "lead_statusId (contact_lead c ts l) = lead_statusId l"
  "lead_nextFollowUpAt (contact_lead c ts l) = lead_nextFollowUpAt l"
  "lead_assignedEmployeeId (contact_lead c ts l) = lead_assignedEmployeeId l"
  by (simp_all add: contact_lead_def)

lemma contact_advances: "lead_advances l (contact_lead c ts l)"
  by (simp add: lead_advances_def contact_lead_def)

text \<open>Linking is one of the steps the workspace invariant allows for.\<close>

lemma evolve_write:
  assumes inv: "lead_inv h r" and l: "map_get (leads r) k = Some l" and adv: "lead_advances l l'"
    and eqs: "leads r' = map_set k l' (leads r)" "leadStatuses r' = leadStatuses r"
      "leadFollowUps r' = leadFollowUps r" and n: "ids r \<le> ids r'"
    and act: "\<exists>ys. leadActivities r' = leadActivities r @ ys"
      "ids_fresh ''lead_activity'' (ids r') (leadActivities r')"
  shows "leads_evolve r r'"
proof -
  have "lead_id l = k" using lead_inv_lead[OF inv l] by simp
  then have id: "lead_id l' = k" using adv by (simp add: lead_advances_def)
  have kd: "keyed lead_id (leads r)" "ids_fresh ''lead'' (ids r) (leads r)" using inv by (simp_all add: lead_inv_def)
  have "ids_fresh ''lead'' (ids r') (leads r')"
    unfolding eqs using kd(2) l n by (auto intro: ids_fresh_mono ids_fresh_update_present)
  then show ?thesis
    unfolding leads_evolve_def eqs using id kd(1) l adv n act
    by (auto simp: store_simps lead_advances_def)
qed

lemma evolve_same: "lead_inv h r \<Longrightarrow> leads_evolve r r"
  by (auto simp: leads_evolve_def lead_advances_def lead_inv_def)

lemma ids_fresh_append:
  "ids_fresh p n m \<Longrightarrow> ids_fresh p (Suc n) (m @ [(sequential_id p (Suc n), v)])"
  using ids_fresh_put[of p n m "Suc n" v] by (simp add: update_fresh ids_fresh_next)

lemma link_evolves:
  assumes inv: "lead_inv h r" shows "leads_evolve r (linkCallToUniqueLead c ts r)"
  using refl[of "linkCallToUniqueLead c ts r"]
proof (cases rule: linkCallE)
  case same
  then show ?thesis using inv by (simp add: evolve_same)
next
  case (contacted k l)
  show ?thesis unfolding contacted(4)
    by (rule evolve_write[OF inv contacted(3) contact_advances[of l c ts]])
      (use lead_inv_activity_ids[OF inv] in simp_all)
next
  case (linked k l team)
  have "(k, l) \<in> set (leads r)" using linked(5) by (metis (no_types, lifting) filter_is_subset list.set_intros(1) subsetD)
  then have l: "map_get (leads r) k = Some l" using lead_inv_wf(2)[OF inv] by (simp add: map_wf_def)
  have fr: "ids_fresh ''lead_activity'' (ids r) (leadActivities r)" using lead_inv_activity_ids[OF inv] by simp
  show ?thesis unfolding linked(6)
    by (rule evolve_write[OF inv l contact_advances[of l c ts]])
      (use fr in \<open>simp_all add: frame_simps add_activity_appends ids_fresh_append\<close>)
qed

text \<open>
  Automatic linking never guesses and never crosses a tenant: it links a call only when
  exactly one unarchived lead of the same organization and of the caller's own team carries the
  call's number, and then to that lead; otherwise no link is added.
\<close>

theorem link_unambiguous:
  assumes "map_wf (leads r)" and "map_get (leadIdByCallId (linkCallToUniqueLead c ts r)) (call_id c) = Some i"
    and "\<not> truthy (map_get (leadIdByCallId r) (call_id c))" and "i \<noteq> []"
  shows "\<exists>k l team. map_get (leads r) k = Some l \<and> lead_id l = i
    \<and> Option.bind (map_get (employees r) (call_employeeId c)) emp_team = Some team
    \<and> phone_matches c team r l \<and> lead_organizationId l = call_organizationId c
    \<and> (\<forall>k' l'. map_get (leads r) k' = Some l' \<longrightarrow> phone_matches c team r l' \<longrightarrow> k' = k)"
  using refl[of "linkCallToUniqueLead c ts r"]
proof (cases rule: linkCallE)
  case (linked k l team)
  have f: "(k', l') \<in> set (leads r) \<and> phone_matches c team r l' \<longleftrightarrow> k' = k \<and> l' = l" for k' l'
  proof -
    have "(k', l') \<in> set (filter (\<lambda>(k, l). phone_matches c team r l) (leads r)) \<longleftrightarrow> k' = k \<and> l' = l"
      unfolding linked(5) by simp
    then show ?thesis by simp
  qed
  have "i = lead_id l" using assms(2) linked(6) by (simp add: frame_simps store_simps)
  moreover have "map_get (leads r) k = Some l" using f[of k l] assms(1) by (simp add: map_wf_def)
  moreover have "phone_matches c team r l" using f[of k l] by simp
  ultimately show ?thesis using linked(1) f
    by (intro exI[of _ k] exI[of _ l] exI[of _ team]) (auto simp: phone_matches_def dest: map_of_SomeD)
qed (use assms in auto)

section \<open>A call is stored once\<close>

lemma call_inv_existing:
  "call_inv r \<Longrightarrow> map_get (callIdByExternalId r) k = Some i \<Longrightarrow> \<exists>c. map_get (calls r) i = Some c \<and> call_id c = i \<and> i \<noteq> []"
proof -
  assume inv: "call_inv r" and k: "map_get (callIdByExternalId r) k = Some i"
  then have "map_get (calls r) i \<noteq> None" unfolding call_inv_def by blast
  then obtain c where "map_get (calls r) i = Some c" by auto
  then show ?thesis using inv by (auto simp: call_inv_def dest: keyedD)
qed

lemma call_inv_id: "call_inv r \<Longrightarrow> map_get (calls r) i = Some c \<Longrightarrow> call_id c = i"
  by (auto simp: call_inv_def dest: keyedD)

lemma call_inv_link: "call_inv r \<Longrightarrow> call_inv (linkCallToUniqueLead c ts r)"
  using link_ids[of r c ts] by (auto simp: call_inv_def frame_simps intro: ids_fresh_mono)

text \<open>Storing a new call under an external key, as both ingestion paths do.\<close>

lemma call_inv_store:
  assumes inv: "call_inv r" and i: "i = sequential_id ''call'' (Suc (ids r))" and c: "call_id c = i"
    and eqs: "ids r' = Suc (ids r)" "calls r' = map_set i c (calls r)"
    and ext: "\<And>k j. map_get (callIdByExternalId r') k = Some j \<Longrightarrow> j = i \<or> map_get (callIdByExternalId r) k = Some j"
    and idem: "\<And>k p. map_get (idempotency r') k = Some p \<Longrightarrow> idm_callId p = i \<or> map_get (idempotency r) k = Some p"
  shows "call_inv r'"
proof -
  have "ids_fresh ''call'' (Suc (ids r)) (map_set i c (calls r))"
    using inv by (auto simp: call_inv_def i intro: ids_fresh_put)
  moreover have "i \<noteq> []" by (simp add: i)
  moreover have "map_get (calls r') j \<noteq> None" if "map_get (callIdByExternalId r') k = Some j" for k j
    using ext[OF that] inv by (auto simp: eqs store_simps call_inv_def)
  moreover have "map_get (calls r') (idm_callId p) \<noteq> None" if "map_get (idempotency r') k = Some p" for k p
    using idem[OF that] inv by (auto simp: eqs store_simps call_inv_def)
  moreover have "keyed call_id (calls r')" using inv c by (auto simp: call_inv_def eqs)
  moreover have "map_get (calls r) [] = None" using inv by (simp add: call_inv_def)
  ultimately show ?thesis by (simp add: call_inv_def eqs store_simps)
qed

lemma call_inv_ingest: "call_inv r \<Longrightarrow> call_inv (snd (ingestCall o' r))"
proof -
  assume inv: "call_inv r"
  show "call_inv (snd (ingestCall o' r))"
  proof (cases "map_get (idempotency r) (key2 (ino_organizationId o') (ino_idempotencyKey o'))")
    case None
    show ?thesis
    proof (cases "truthy (map_get (callIdByExternalId r) (ingest_external_key o'))")
      case True
      then obtain i where i: "map_get (callIdByExternalId r) (ingest_external_key o') = Some i" "i \<noteq> []"
        by (auto elim: truthyE)
      obtain c where c: "map_get (calls r) i = Some c" "call_id c = i" using call_inv_existing[OF inv i(1)] by blast
      have "call_inv (r\<lparr>idempotency := map_set k \<lparr>idm_fingerprint = f, idm_callId = i\<rparr> (idempotency r)\<rparr>)" for k f
        using inv c by (auto simp: call_inv_def store_simps split: if_splits)
      then show ?thesis using None i c inv
        by (simp add: ingestCall_def Let_def split: option.split)
    next
      case False
      show ?thesis
        using None False inv
        by (auto simp: ingestCall_def Let_def next_id_eq simulated_log_def store_simps
            intro!: call_inv_link call_inv_store[OF inv refl] split: if_splits)
    qed
  qed (use inv in \<open>auto simp: ingestCall_def Let_def split: option.splits\<close>)
qed

text \<open>
  C4: Sending a call twice stores it once: after a call was accepted, the same request again is
  answered with the same call as a duplicate, and another payload under the same key as a
  conflict; neither changes the repository.
\<close>

theorem ingestCall_exactly_once:
  assumes "call_inv r" and "ingestCall o1 r = (Inr v, r1)" and "\<not> inr_conflict v"
    and "ino_organizationId o2 = ino_organizationId o1" and "ino_idempotencyKey o2 = ino_idempotencyKey o1"
  shows "ingestCall o2 r1 = (Inr \<lparr>inr_call = inr_call v,
      inr_duplicate = (ino_fingerprint o2 = ino_fingerprint o1),
      inr_conflict = (ino_fingerprint o2 \<noteq> ino_fingerprint o1)\<rparr>, r1)
    \<and> (\<exists>c. map_get (calls r1) (call_id c) = Some c \<and> c = inr_call v)"
proof -
  let ?k = "key2 (ino_organizationId o1) (ino_idempotencyKey o1)"
  have "\<exists>p. map_get (idempotency r1) ?k = Some p \<and> idm_fingerprint p = ino_fingerprint o1
      \<and> map_get (calls r1) (idm_callId p) = Some (inr_call v) \<and> call_id (inr_call v) = idm_callId p"
  proof (cases "map_get (idempotency r) ?k")
    case (Some p)
    then show ?thesis
      using assms(1-3) by (auto simp: ingestCall_def Let_def dest: call_inv_id split: option.splits)
  next
    case None
    show ?thesis
    proof (cases "truthy (map_get (callIdByExternalId r) (ingest_external_key o1))")
      case True
      then obtain i where i: "map_get (callIdByExternalId r) (ingest_external_key o1) = Some i" "i \<noteq> []"
        by (auto elim: truthyE)
      obtain c where c: "map_get (calls r) i = Some c" "call_id c = i" using call_inv_existing[OF assms(1) i(1)] by blast
      show ?thesis using assms(2,3) None i c
        by (auto simp: ingestCall_def Let_def store_simps split: if_splits)
    next
      case False
      then show ?thesis using assms(2) None
        by (auto simp: ingestCall_def Let_def next_id_eq frame_simps store_simps simulated_log_def)
    qed
  qed
  then show ?thesis using assms(4,5) by (auto simp: ingestCall_def Let_def)
qed

section \<open>Batches\<close>

lemma item_rewrite_id [simp]: "call_id (item_rewrite ts it c) = call_id c"
  by (simp add: item_rewrite_def)

lemma item_log_id [simp]: "call_id (item_log o' it i) = i"
  by (simp add: item_log_def)

text \<open>What one item leaves: a stored call under its key, with the item's fingerprint.\<close>

lemma ingest_item_effect:
  assumes inv: "call_inv r"
  obtains x r' i where "ingest_item fp o' it r = (Inr x, r')" "call_inv r'"
    "sir_localId x = it_localId it" "sir_callLogId x = Some i"
    "map_get (callIdByExternalId r') (item_key o' it) = Some i"
    "map_get (callFingerprintByExternalId r') (item_key o' it) = Some (fp it)"
    "\<And>k. k \<noteq> item_key o' it \<Longrightarrow> map_get (callIdByExternalId r') k = map_get (callIdByExternalId r) k"
    "\<And>k. k \<noteq> item_key o' it \<Longrightarrow> map_get (callFingerprintByExternalId r') k = map_get (callFingerprintByExternalId r) k"
    "length (calls r') = length (calls r) + (if sir_outcome x = SyncCreated then 1 else 0)"
    "sir_outcome x = SyncCreated \<longleftrightarrow> map_get (callIdByExternalId r) (item_key o' it) = None"
proof (cases "map_get (callIdByExternalId r) (item_key o' it)")
  case None
  let ?i = "sequential_id ''call'' (Suc (ids r))"
  have "map_get (calls r) ?i = None" using inv by (auto simp: call_inv_def intro: ids_fresh_next)
  then have len: "length (map_set ?i x (calls r)) = Suc (length (calls r))" for x by (simp add: update_fresh)
  show ?thesis
    by (rule that[of "item_result it SyncCreated ?i" "snd (ingest_item fp o' it r)" ?i])
      (use None len inv in \<open>auto simp: ingest_item_def Let_def next_id_eq item_result_def frame_simps store_simps
        intro!: call_inv_link call_inv_store[OF inv refl] split: if_splits\<close>)
next
  case (Some i)
  obtain c where c: "map_get (calls r) i = Some c" "call_id c = i" "i \<noteq> []" using call_inv_existing[OF inv Some] by blast
  show ?thesis
  proof (cases "map_get (callFingerprintByExternalId r) (item_key o' it) = Some (fp it)")
    case True
    show ?thesis
      by (rule that[of "item_result it SyncDuplicate i" r i])
        (use Some True c inv in \<open>auto simp: ingest_item_def Let_def item_result_def\<close>)
  next
    case False
    let ?c = "item_rewrite (bo_at o') it c"
    have "call_inv (r\<lparr>calls := map_set i ?c (calls r), callFingerprintByExternalId := m\<rparr>)" for m
      using inv c by (auto simp: call_inv_def store_simps intro: ids_fresh_update_present split: if_splits)
    moreover have "length (map_set i ?c (calls r)) = length (calls r)"
      using keys_update_present[of "calls r" i ?c] c(1) by (metis length_map option.distinct(1))
    ultimately show ?thesis
      by (intro that[of "item_result it SyncUpdated i" "snd (ingest_item fp o' it r)" i])
        (use Some False c inv in \<open>auto simp: ingest_item_def Let_def item_result_def frame_simps store_simps
          intro!: call_inv_link\<close>)
  qed
qed

definition created_count :: "sync_item_result list \<Rightarrow> nat" where
  "created_count xs = length (filter (\<lambda>x. sir_outcome x = SyncCreated) xs)"

definition settled :: "(call_sync_item \<Rightarrow> string) \<Rightarrow> batch_options \<Rightarrow> 'a call_state_scheme \<Rightarrow> call_sync_item \<Rightarrow> sync_item_result \<Rightarrow> bool" where
  "settled fp o' r it x \<longleftrightarrow> sir_localId x = it_localId it
     \<and> map_get (callIdByExternalId r) (item_key o' it) = sir_callLogId x \<and> sir_callLogId x \<noteq> None
     \<and> map_get (callFingerprintByExternalId r) (item_key o' it) = Some (fp it)"

lemma ingest_items_effect:
  assumes "call_inv r" and "distinct (map (item_key o') its)"
  shows "\<exists>xs r'. ingest_items fp o' its r = (Inr xs, r') \<and> call_inv r' \<and> list_all2 (settled fp o' r') its xs
    \<and> length (calls r') = length (calls r) + created_count xs
    \<and> (\<forall>k. k \<notin> item_key o' ` set its \<longrightarrow>
         map_get (callIdByExternalId r') k = map_get (callIdByExternalId r) k
         \<and> map_get (callFingerprintByExternalId r') k = map_get (callFingerprintByExternalId r) k)"
  using assms
proof (induction its arbitrary: r)
  case Nil
  then show ?case by (simp add: created_count_def)
next
  case (Cons it its)
  from Cons.prems(1) show ?case
  proof (rule ingest_item_effect[of r fp o' it])
    fix x r1 i
    assume e: "ingest_item fp o' it r = (Inr x, r1)" "call_inv r1" "sir_localId x = it_localId it"
      "sir_callLogId x = Some i" "map_get (callIdByExternalId r1) (item_key o' it) = Some i"
      "map_get (callFingerprintByExternalId r1) (item_key o' it) = Some (fp it)"
      "\<And>k. k \<noteq> item_key o' it \<Longrightarrow> map_get (callIdByExternalId r1) k = map_get (callIdByExternalId r) k"
      "\<And>k. k \<noteq> item_key o' it \<Longrightarrow> map_get (callFingerprintByExternalId r1) k = map_get (callFingerprintByExternalId r) k"
      "length (calls r1) = length (calls r) + (if sir_outcome x = SyncCreated then 1 else 0)"
    obtain xs r' where t: "ingest_items fp o' its r1 = (Inr xs, r')" "call_inv r'" "list_all2 (settled fp o' r') its xs"
      "length (calls r') = length (calls r1) + created_count xs"
      "\<forall>k. k \<notin> item_key o' ` set its \<longrightarrow>
         map_get (callIdByExternalId r') k = map_get (callIdByExternalId r1) k
         \<and> map_get (callFingerprintByExternalId r') k = map_get (callFingerprintByExternalId r1) k"
      using Cons.IH[OF e(2)] Cons.prems(2) by auto
    have "item_key o' it \<notin> item_key o' ` set its" using Cons.prems(2) by auto
    then have "settled fp o' r' it x" using t(5) e(3-6) by (simp add: settled_def)
    then show ?case using e t
      by (intro exI[of _ "x # xs"] exI[of _ r']) (auto simp: created_count_def)
  qed
qed

lemma settled_items_again:
  assumes "call_inv r" "list_all2 (settled fp o1 r) its xs"
    and "ctx_organizationId (bo_context o2) = ctx_organizationId (bo_context o1)"
    and "ctx_deviceId (bo_context o2) = ctx_deviceId (bo_context o1)"
  shows "ingest_items fp o2 its r = (Inr (map (\<lambda>x. x\<lparr>sir_outcome := SyncDuplicate\<rparr>) xs), r)"
  using assms(2)
proof (induction its xs rule: list_all2_induct)
  case (Cons it its x xs)
  have key: "item_key o2 it = item_key o1 it" using assms(3,4) by (simp add: item_key_def)
  obtain i where i: "sir_callLogId x = Some i" "map_get (callIdByExternalId r) (item_key o1 it) = Some i"
    using Cons(1) by (auto simp: settled_def)
  obtain c where c: "map_get (calls r) i = Some c" "call_id c = i" "i \<noteq> []"
    using call_inv_existing[OF assms(1) i(2)] by blast
  have "ingest_item fp o2 it r = (Inr (x\<lparr>sir_outcome := SyncDuplicate\<rparr>), r)"
    using Cons(1) i c by (auto simp: ingest_item_def Let_def key settled_def item_result_def)
  with Cons show ?case by simp
qed simp

text \<open>
  A device that sends the same calls again changes nothing: every item of a batch that was
  accepted is answered as a duplicate of the call it created, in whatever batch it comes back,
  and the first time exactly as many calls were stored as items were reported created.
\<close>

theorem resent_items_are_duplicates:
  assumes "call_inv r" and "distinct (map it_localId its)" and "ingest_items fp o1 its r = (Inr xs, r1)"
    and "ctx_organizationId (bo_context o2) = ctx_organizationId (bo_context o1)"
    and "ctx_deviceId (bo_context o2) = ctx_deviceId (bo_context o1)"
  shows "ingest_items fp o2 its r1 = (Inr (map (\<lambda>x. x\<lparr>sir_outcome := SyncDuplicate\<rparr>) xs), r1)
    \<and> length (calls r1) = length (calls r) + created_count xs
    \<and> map sir_localId xs = map it_localId its"
proof -
  have "inj_on (item_key o1) (set its)"
    using assms(2) by (auto simp: inj_on_def item_key_def key3_def distinct_map)
  then have "distinct (map (item_key o1) its)" using assms(2) by (simp add: distinct_map)
  then have e: "call_inv r1" "list_all2 (settled fp o1 r1) its xs" "length (calls r1) = length (calls r) + created_count xs"
    using ingest_items_effect[OF assms(1), of o1 its fp] assms(3) by auto
  have "map sir_localId xs = map it_localId its"
    using e(2) by (induction its xs rule: list_all2_induct) (auto simp: settled_def)
  then show ?thesis using settled_items_again[OF e(1,2) assms(4,5)] e(3) by simp
qed

text \<open>No item can find the store corrupt: under the invariant a batch's loop never throws.\<close>

lemma ingest_items_total:
  "call_inv r \<Longrightarrow> \<exists>xs r'. ingest_items fp o' its r = (Inr xs, r') \<and> call_inv r'"
proof (induction its arbitrary: r)
  case (Cons it its)
  from Cons.prems show ?case
  proof (rule ingest_item_effect[of r fp o' it])
    fix x r1 assume "ingest_item fp o' it r = (Inr x, r1)" "call_inv r1"
    with Cons.IH[of r1] show ?thesis by auto
  qed
qed simp

lemma ingest_items_frame:
  assumes "ingest_items fp o' its r = (res, r')"
  shows "devices r' = devices r \<and> employees r' = employees r \<and> organizations r' = organizations r
    \<and> deviceCredentialsByHash r' = deviceCredentialsByHash r \<and> activeConsentByDevice r' = activeConsentByDevice r
    \<and> deviceCollectionModes r' = deviceCollectionModes r \<and> mobilePolicies r' = mobilePolicies r
    \<and> mobileBatches r' = mobileBatches r"
  using assms
proof (induction its arbitrary: r res)
  case (Cons it its)
  have one: "devices s = devices r \<and> employees s = employees r \<and> organizations s = organizations r
    \<and> deviceCredentialsByHash s = deviceCredentialsByHash r \<and> activeConsentByDevice s = activeConsentByDevice r
    \<and> deviceCollectionModes s = deviceCollectionModes r \<and> mobilePolicies s = mobilePolicies r
    \<and> mobileBatches s = mobileBatches r" if "ingest_item fp o' it r = (x, s)" for x s
    using that by (auto simp: ingest_item_def Let_def next_id_eq frame_simps split: option.splits if_splits)
  obtain x s where i: "ingest_item fp o' it r = (x, s)" by fastforce
  show ?case
  proof (cases x)
    case (Inl e)
    then show ?thesis using Cons.prems i one[OF i] by simp
  next
    case (Inr y)
    obtain z s' where n: "ingest_items fp o' its s = (z, s')" by fastforce
    have "s' = r'" using Cons.prems i Inr n by (auto split: sum.splits)
    then show ?thesis using Cons.IH[of s z] n one[OF i] by simp
  qed
qed simp

text \<open>A write to the sync fields of the current device leaves the credential current.\<close>

lemma findCurrent_after_sync:
  assumes cur: "findCurrentMobileCredential h ctx ty ts r = Some cur"
    and d: "dev_id d = dev_id (cur_device cur)" "dev_status d = dev_status (cur_device cur)"
      "dev_organizationId d = dev_organizationId (cur_device cur)"
      "dev_employeeId d = dev_employeeId (cur_device cur)"
      "dev_installationId d = dev_installationId (cur_device cur)"
    and eqs: "devices r' = map_set (ctx_deviceId ctx) d (devices r)" "employees r' = employees r"
      "organizations r' = organizations r" "deviceCredentialsByHash r' = deviceCredentialsByHash r"
      "activeConsentByDevice r' = activeConsentByDevice r" "deviceCollectionModes r' = deviceCollectionModes r"
  shows "findCurrentMobileCredential h ctx ty ts r' = Some (cur\<lparr>cur_device := d\<rparr>)"
proof -
  have f: "find_credential_for ctx ty r' = find_credential_for ctx ty r" by (simp add: find_credential_for_def eqs)
  have a: "device_admits ty d e c = device_admits ty (cur_device cur) e c" for e c
    by (simp add: device_admits_def d cong: credential_type.case_cong)
  show ?thesis
    using cur by (auto simp: findCurrentMobileCredential_def f eqs Let_def store_simps d a split: option.splits if_splits)
qed

lemma isConsentCurrent_cong:
  "activeConsentByDevice s = activeConsentByDevice r \<Longrightarrow> deviceCollectionModes s = deviceCollectionModes r \<Longrightarrow>
   mobilePolicies s = mobilePolicies r \<Longrightarrow> isConsentCurrent d s = isConsentCurrent d r"
  by (simp add: isConsentCurrent_def cong: option.case_cong)

text \<open>
  A batch is applied once: after it succeeded, the same batch again (same identifier, same
  payload) is answered with the identical result and changes nothing, and the same identifier
  with another payload is refused as a conflict.
\<close>

theorem batch_applied_once:
  assumes "ingestMobileCallBatch h fp o1 r = (Inr (Some res), r1)"
    and "bo_context o2 = bo_context o1" and "bo_batchId o2 = bo_batchId o1" and "bo_at o2 = bo_at o1"
    and "bo_allowWithoutCallLogPermission o2 = bo_allowWithoutCallLogPermission o1"
  shows "ingestMobileCallBatch h fp o2 r1 =
    (if bo_payloadHash o2 = bo_payloadHash o1 then Inr (Some res)
     else Inl (conflict ''The batch ID was already used with a different payload''), r1)"
proof -
  let ?ctx = "bo_context o1" and ?ts = "bo_at o1"
  obtain cur where cur: "findCurrentMobileCredential h ?ctx CredSession ?ts r = Some cur"
    "isConsentCurrent (ctx_deviceId ?ctx) r"
    "perm_callLog (dev_permissions (cur_device cur)) = PermGranted \<or> bo_allowWithoutCallLogPermission o1"
    using assms(1) by (auto simp: ingestMobileCallBatch_def Let_def split: option.splits if_splits)
  have key: "batch_key o2 = batch_key o1" using assms(2,3) by (simp add: batch_key_def)
  show ?thesis
  proof (cases "map_get (mobileBatches r) (batch_key o1)")
    case (Some p)
    then have "r1 = r" "res = btr_result p" "btr_payloadHash p = bo_payloadHash o1"
      using assms(1) cur by (auto simp: ingestMobileCallBatch_def Let_def split: if_splits)
    then show ?thesis using Some cur key assms(2-5)
      by (auto simp: ingestMobileCallBatch_def Let_def)
  next
    case None
    obtain results s where run: "ingest_items fp o1 (bo_items o1) r = (Inr results, s)"
      using assms(1) cur None by (auto simp: ingestMobileCallBatch_def Let_def split: prod.splits sum.splits if_splits)
    let ?d = "(cur_device cur)\<lparr>dev_lastSuccessfulSyncAt := Some ?ts, dev_lastSeenAt := Some ?ts,
                            dev_syncState := Idle, updatedAt := ?ts\<rparr>"
    have r1: "r1 = s\<lparr>devices := map_set (ctx_deviceId ?ctx) ?d (devices s), mobileBatches := map_set (batch_key o1)
        \<lparr>btr_payloadHash = bo_payloadHash o1, btr_result = res\<rparr> (mobileBatches s)\<rparr>"
      using assms(1) cur None run by (auto simp: ingestMobileCallBatch_def Let_def)
    note fr = ingest_items_frame[OF run]
    have cur1: "findCurrentMobileCredential h ?ctx CredSession ?ts r1 = Some (cur\<lparr>cur_device := ?d\<rparr>)"
      by (rule findCurrent_after_sync[OF cur(1)]) (use fr in \<open>simp_all add: r1\<close>)
    have con1: "isConsentCurrent (ctx_deviceId ?ctx) r1"
      using cur(2) fr isConsentCurrent_cong[of r1 r] by (simp add: r1)
    have "map_get (mobileBatches r1) (batch_key o1) = Some \<lparr>btr_payloadHash = bo_payloadHash o1, btr_result = res\<rparr>"
      by (simp add: r1 store_simps)
    then show ?thesis using cur1 con1 cur(3) key assms(2,4,5)
      by (auto simp: ingestMobileCallBatch_def Let_def)
  qed
qed

section \<open>The call operations are steps of the lead workspace\<close>

lemma evolve_frame:
  assumes "lead_inv h r" "leads r' = leads r" "leadStatuses r' = leadStatuses r" "leadFollowUps r' = leadFollowUps r"
    "leadActivities r' = leadActivities r" "ids r \<le> ids r'"
  shows "leads_evolve r r'"
  using assms by (auto simp: leads_evolve_def lead_advances_def lead_inv_def intro: ids_fresh_mono)

lemma reaches_frame_link:
  assumes "lead_inv h r" "leads s = leads r" "leadStatuses s = leadStatuses r" "leadFollowUps s = leadFollowUps r"
    "leadActivities s = leadActivities r" "ids r \<le> ids s"
  shows "lead_reaches h r (linkCallToUniqueLead c ts s)"
proof -
  have 1: "lead_step h r s" using evolve_frame[OF assms] by (rule step_elsewhere)
  have "lead_inv h s" using lead_inv_step[OF 1 assms(1)] .
  then have "lead_step h s (linkCallToUniqueLead c ts s)" by (intro step_elsewhere link_evolves)
  with 1 show ?thesis by (meson rtranclp.rtrancl_into_rtrancl r_into_rtranclp)
qed

lemma reaches_frame:
  assumes "lead_inv h r" "leads s = leads r" "leadStatuses s = leadStatuses r" "leadFollowUps s = leadFollowUps r"
    "leadActivities s = leadActivities r" "ids r \<le> ids s"
  shows "lead_reaches h r s"
  using step_elsewhere[OF evolve_frame[OF assms]] by (rule r_into_rtranclp)

lemma ingestCall_reaches:
  assumes "lead_inv h r" shows "lead_reaches h r (snd (ingestCall o' r))"
  using assms
  by (auto simp: ingestCall_def Let_def next_id_eq intro: reaches_frame_link reaches_frame split: option.split)

lemma ingest_item_reaches:
  assumes "lead_inv h r" shows "lead_reaches h r (snd (ingest_item fp o' it r))"
  using assms
  by (auto simp: ingest_item_def Let_def next_id_eq intro: reaches_frame_link reaches_frame split: option.split)

lemma ingest_items_reaches:
  "lead_inv h r \<Longrightarrow> ingest_items fp o' its r = (res, r') \<Longrightarrow> lead_reaches h r r'"
proof (induction its arbitrary: r res)
  case (Cons it its)
  obtain x s where i: "ingest_item fp o' it r = (x, s)" by fastforce
  have r1: "lead_reaches h r s" using ingest_item_reaches[OF Cons.prems(1), of fp o' it] i by simp
  have inv: "lead_inv h s" using r1 Cons.prems(1) by (rule lead_inv_reaches)
  show ?case
  proof (cases x)
    case (Inl e)
    then show ?thesis using Cons.prems(2) i r1 by simp
  next
    case (Inr y)
    obtain z s' where n: "ingest_items fp o' its s = (z, s')" by fastforce
    then have "s' = r'" using Cons.prems(2) i Inr by (auto split: sum.splits)
    then have "lead_reaches h s r'" using Cons.IH[OF inv] n by simp
    with r1 show ?thesis by (rule rtranclp_trans)
  qed
qed simp

lemma batch_reaches:
  assumes inv: "lead_inv h r" shows "lead_reaches h r (snd (ingestMobileCallBatch h fp o' r))"
proof (cases "ingest_items fp o' (bo_items o') r")
  case (Pair res s)
  have r1: "lead_reaches h r s" by (rule ingest_items_reaches[OF inv Pair])
  then have s: "lead_inv h s" using inv by (rule lead_inv_reaches)
  have "lead_reaches h r (s\<lparr>devices := D, mobileBatches := M\<rparr>)" for D M
    using r1 reaches_frame[OF s, of "s\<lparr>devices := D, mobileBatches := M\<rparr>"] by (simp add: rtranclp_trans)
  then show ?thesis using r1
    by (auto simp: ingestMobileCallBatch_def Let_def Pair split: option.split sum.split)
qed

text \<open>A manual correction writes links and appends activities.\<close>

lemma reaches_activity:
  assumes inv: "lead_inv h r" and s: "leads s = leads r" "leadStatuses s = leadStatuses r"
    "leadFollowUps s = leadFollowUps r" "leadActivities s = leadActivities r" "ids s = ids r"
  shows "lead_reaches h r (add_activity mk s)"
proof -
  have fr: "ids_fresh ''lead_activity'' (ids s) (leadActivities s)"
    using lead_inv_activity_ids[OF inv] by (simp add: s)
  have "leads_evolve r (add_activity mk s)"
    using inv fr lead_inv_activity_ids[OF inv, of "ids r"]
    by (auto simp: leads_evolve_def frame_simps s add_activity_appends lead_advances_def lead_inv_def
        intro: ids_fresh_mono ids_fresh_append)
  then show ?thesis by (intro r_into_rtranclp step_elsewhere)
qed

lemma correction_reaches:
  assumes inv: "lead_inv h r" shows "lead_reaches h r (snd (correctCallLeadLink o' r))"
proof -
  have "lead_reaches h r (snd (correction_commit o' c current replacement r))" for c current replacement
  proof -
    define r1 where "r1 = (if truthy current
            then add_activity (correction_activity o' c ActCallUnlinked (the current) ''Call link corrected'' [])
              (r\<lparr>leadIdByCallId := map_delete (call_id c) (leadIdByCallId r)\<rparr>) else r)"
    have 1: "lead_reaches h r r1" using inv by (auto simp: r1_def intro: reaches_activity)
    have i1: "lead_inv h r1" using 1 inv by (rule lead_inv_reaches)
    define r2 where "r2 = (case replacement of None \<Rightarrow> r1
            | Some l \<Rightarrow> add_activity (correction_activity o' c ActCallLinked (lead_id l) ''Call manually linked''
                  [(''linkSource'', JString ''manual'')])
                (r1\<lparr>leadIdByCallId := map_set (call_id c) (lead_id l) (leadIdByCallId r1)\<rparr>))"
    have 2: "lead_reaches h r1 r2" using i1 by (auto simp: r2_def intro: reaches_activity split: option.split)
    have i2: "lead_inv h r2" using 2 i1 by (rule lead_inv_reaches)
    have "lead_reaches h r2 (r2\<lparr>callLeadCorrectionRequests := m\<rparr>)" for m
      by (rule reaches_frame[OF i2]) simp_all
    then have "lead_reaches h r (r2\<lparr>callLeadCorrectionRequests := m\<rparr>)" for m
      using 1 2 by (meson rtranclp_trans)
    then show ?thesis by (simp add: correction_commit_def Let_def r1_def[symmetric] r2_def[symmetric])
  qed
  then show ?thesis by (auto simp: correctCallLeadLink_def Let_def split_beta split: option.split)
qed

text \<open>
  Ingesting a call, ingesting a mobile batch and correcting a link are steps of the lead
  workspace, so everything proved of the workspace's histories (consistent board, no lost
  update, single completion, append-only activities) holds with them interleaved.
\<close>

theorem call_operations_are_workspace_steps:
  assumes "lead_inv h r"
  shows "lead_reaches h r (snd (ingestCall o1 r)) \<and> lead_reaches h r (snd (ingestMobileCallBatch h fp o2 r))
    \<and> lead_reaches h r (snd (correctCallLeadLink o3 r))"
  using assms by (simp add: ingestCall_reaches batch_reaches correction_reaches)

section \<open>Mobile lead updates\<close>

lemma next_due_eqI:
  assumes f: "f \<in> set (map_values (leadFollowUps r))" "fu_organizationId f = orgId" "fu_leadId f = i"
      "fu_status f = FuPending" "fu_dueAt f = d"
    and least: "\<And>g. g \<in> set (map_values (leadFollowUps r)) \<Longrightarrow> fu_organizationId g = orgId \<Longrightarrow> fu_leadId g = i \<Longrightarrow>
       fu_status g = FuPending \<Longrightarrow> localeCompare h d (fu_dueAt g) \<le> 0"
    and units: "\<And>g. g \<in> set (map_values (leadFollowUps r)) \<Longrightarrow> as_code_units h d (fu_dueAt g)"
  shows "next_due h orgId i r = Some d"
proof -
  have "next_due h orgId i r \<noteq> None" using f by (auto simp: next_due_None_iff)
  then obtain d0 where d0: "next_due h orgId i r = Some d0" by auto
  from next_due_Some[OF d0] obtain g where g: "g \<in> set (map_values (leadFollowUps r))" "fu_organizationId g = orgId"
    "fu_leadId g = i" "fu_status g = FuPending" "fu_dueAt g = d0" "localeCompare h d0 d \<le> 0"
    using f by blast
  have "localeCompare h d d0 \<le> 0" using least[OF g(1-4)] g(5) by simp
  moreover have "0 \<le> localeCompare h d d0" using g(6) comparator.le_flip[OF comparator_lcmp] by blast
  ultimately have "localeCompare h d d0 = 0" by simp
  then have "d = d0" using units[OF g(1)] as_code_units_D(2) g(5) by blast
  then show ?thesis using d0 by simp
qed

lemma touch_mobile_status:
  "fst (mobile_status_step o' status l r) = (case status of None \<Rightarrow> l | Some s \<Rightarrow> l\<lparr>lead_statusId := ls_id s,
     lead_convertedAt := (if ls_isWon s then Some (muo_at o') else None),
     lead_lostAt := (if ls_isLost s then Some (muo_at o') else None)\<rparr>)"
  by (simp add: mobile_status_step_def Let_def split: option.split)

lemma mobileE:
  assumes "applyMobileLeadUpdate h o' r = (res, r')"
  obtains (same) "r' = r" "\<And>rc. res = Inr (Some rc) \<Longrightarrow> mrc_replayed rc"
  | (committed) cur l actor status where
      "findCurrentMobileCredential h (muo_context o') CredSession (muo_at o') r = Some cur"
      "isConsentCurrent (ctx_deviceId (muo_context o')) r"
      "map_get (mobileLeadUpdateRequests r) (mobile_update_key o') = None"
      "map_get (leads r) (muo_leadId o') = Some l" "lead_organizationId l = ctx_organizationId (muo_context o')"
      "\<not> truthy (lead_archivedAt l)" "lead_assignedEmployeeId l = Some (ctx_employeeId (muo_context o'))"
      "lead_version l = muo_expectedLeadVersion o'"
      "\<And>s. status = Some s \<Longrightarrow> map_get (leadStatuses r) (the (muo_statusId o')) = Some s
         \<and> ls_organizationId s = lead_organizationId l \<and> ls_isActive s"
      "mobile_commit h o' actor status l r = (res, r')"
proof (cases "r' = r \<and> (\<forall>rc. res = Inr (Some rc) \<longrightarrow> mrc_replayed rc)")
  case False
  define actor where "actor = Option.bind (map_get (employees r) (ctx_employeeId (muo_context o'))) emp_linkedUserId"
  define status where "status = (if truthy (muo_statusId o') then map_get (leadStatuses r) (the (muo_statusId o')) else None)"
  have "(\<exists>cur l. findCurrentMobileCredential h (muo_context o') CredSession (muo_at o') r = Some cur
      \<and> isConsentCurrent (ctx_deviceId (muo_context o')) r
      \<and> map_get (mobileLeadUpdateRequests r) (mobile_update_key o') = None
      \<and> map_get (leads r) (muo_leadId o') = Some l \<and> lead_organizationId l = ctx_organizationId (muo_context o')
      \<and> \<not> truthy (lead_archivedAt l) \<and> lead_assignedEmployeeId l = Some (ctx_employeeId (muo_context o'))
      \<and> lead_version l = muo_expectedLeadVersion o'
      \<and> (\<forall>s. status = Some s \<longrightarrow> ls_organizationId s = lead_organizationId l \<and> ls_isActive s)
      \<and> mobile_commit h o' (the actor) status l r = (res, r'))"
    using assms False unfolding applyMobileLeadUpdate_def Let_def actor_def[symmetric] status_def[symmetric]
    by (auto split: option.splits if_splits simp: status_def)
  then show ?thesis
    by (elim exE conjE) (rule committed, assumption+, auto simp: status_def split: if_splits)
qed (use same in blast)

text \<open>What each optional part of a mobile update writes: at most one activity, and its own map.\<close>

definition activities_ok :: "'a lead_state_scheme \<Rightarrow> bool" where
  "activities_ok r = ids_fresh ''lead_activity'' (ids r) (leadActivities r)"

lemma activity_part:
  assumes "activities_ok s"
  shows "activities_ok (add_activity mk s)" "\<exists>ys. leadActivities (add_activity mk s) = leadActivities s @ ys \<and> length ys = Suc 0"
  using assms by (auto simp: activities_ok_def frame_simps add_activity_appends ids_fresh_append)

lemma activities_ok_mono: "activities_ok r \<Longrightarrow> leadActivities s = leadActivities r \<Longrightarrow> ids r \<le> ids s \<Longrightarrow> activities_ok s"
  by (auto simp: activities_ok_def intro: ids_fresh_mono)

lemma status_part:
  assumes ok: "activities_ok r" and run: "mobile_status_step o' status l r = (l1, r1)"
  shows "activities_ok r1" "leads r1 = leads r" "leadStatuses r1 = leadStatuses r" "leadFollowUps r1 = leadFollowUps r"
    "ids r \<le> ids r1" "\<exists>ys. leadActivities r1 = leadActivities r @ ys \<and> length ys = (if status = None then 0 else 1)"
    "mobileLeadUpdateRequests r1 = mobileLeadUpdateRequests r"
    "lead_id l1 = lead_id l" "lead_organizationId l1 = lead_organizationId l" "lead_version l1 = lead_version l"
    "lead_nextFollowUpAt l1 = lead_nextFollowUpAt l"
    "lead_statusId l1 = (case status of None \<Rightarrow> lead_statusId l | Some s \<Rightarrow> ls_id s)"
  using run ok activity_part[OF ok]
  by (auto simp: mobile_status_step_def Let_def frame_simps split: option.splits)

lemma note_part:
  fixes r :: "'a call_state_scheme"
  assumes ok: "activities_ok r" and r2: "r2 = mobile_note_step o' actor l r"
  shows "activities_ok r2" "leads r2 = leads r" "leadStatuses r2 = leadStatuses r" "leadFollowUps r2 = leadFollowUps r"
    "ids r \<le> ids r2" "\<exists>ys. leadActivities r2 = leadActivities r @ ys \<and> length ys = (if muo_note o' = None then 0 else 1)"
    "mobileLeadUpdateRequests r2 = mobileLeadUpdateRequests r"
proof -
  have ok1: "activities_ok (add_note mk r)" for mk using ok by (rule activities_ok_mono) (simp_all add: frame_simps)
  have fr: "mobileLeadUpdateRequests (add_note mk r) = mobileLeadUpdateRequests r" for mk by (simp add: add_note_eq)
  show "activities_ok r2" "leads r2 = leads r" "leadStatuses r2 = leadStatuses r" "leadFollowUps r2 = leadFollowUps r"
    "ids r \<le> ids r2" "mobileLeadUpdateRequests r2 = mobileLeadUpdateRequests r"
    using ok activity_part(1)[OF ok1] fr
    by (auto simp: r2 mobile_note_step_def Let_def frame_simps split: option.split)
  show "\<exists>ys. leadActivities r2 = leadActivities r @ ys \<and> length ys = (if muo_note o' = None then 0 else 1)"
    using activity_part(2)[OF ok1]
    by (auto simp: r2 mobile_note_step_def Let_def frame_simps split: option.split)
qed

lemma follow_up_part:
  fixes r :: "'a call_state_scheme"
  assumes ok: "activities_ok r" and run: "mobile_follow_up_step o' actor l r = (l2, r3)"
  shows "activities_ok r3" "leads r3 = leads r" "leadStatuses r3 = leadStatuses r" "ids r \<le> ids r3"
    "\<exists>ys. leadActivities r3 = leadActivities r @ ys \<and> length ys = (if muo_followUp o' = None then 0 else 1)"
    "mobileLeadUpdateRequests r3 = mobileLeadUpdateRequests r"
    "leadFollowUps r3 = (case muo_followUp o' of None \<Rightarrow> leadFollowUps r
       | Some f \<Rightarrow> map_set (sequential_id ''follow_up'' (Suc (ids r)))
           (mobile_new_follow_up o' actor l f (sequential_id ''follow_up'' (Suc (ids r)))) (leadFollowUps r))"
    "muo_followUp o' \<noteq> None \<longrightarrow> ids r < ids r3"
    "lead_id l2 = lead_id l" "lead_organizationId l2 = lead_organizationId l" "lead_version l2 = lead_version l"
    "lead_statusId l2 = lead_statusId l"
    "lead_nextFollowUpAt l2 = (case muo_followUp o' of None \<Rightarrow> lead_nextFollowUpAt l
       | Some f \<Rightarrow> if \<not> truthy (lead_nextFollowUpAt l) \<or> mfu_dueAt f < the (lead_nextFollowUpAt l)
           then Some (mfu_dueAt f) else lead_nextFollowUpAt l)"
proof -
  have ok1: "activities_ok (r\<lparr>ids := Suc (ids r), leadFollowUps := m\<rparr>)" for m
    using ok by (rule activities_ok_mono) simp_all
  have app: "\<exists>ys. leadActivities (add_activity mk (r\<lparr>ids := Suc (ids r), leadFollowUps := m\<rparr>)) = leadActivities r @ ys
      \<and> length ys = Suc 0" for mk m
    using activity_part(2)[OF ok1, of mk m] by simp
  show "\<exists>ys. leadActivities r3 = leadActivities r @ ys \<and> length ys = (if muo_followUp o' = None then 0 else 1)"
  proof (cases "muo_followUp o'")
    case (Some f)
    then obtain mk m where "r3 = add_activity mk (r\<lparr>ids := Suc (ids r), leadFollowUps := m\<rparr>)"
      using run by (auto simp: mobile_follow_up_step_def Let_def next_id_eq)
    then show ?thesis using app[of mk m] Some by auto
  qed (use run in \<open>simp add: mobile_follow_up_step_def\<close>)
  show "activities_ok r3" "leads r3 = leads r" "leadStatuses r3 = leadStatuses r" "ids r \<le> ids r3"
    "mobileLeadUpdateRequests r3 = mobileLeadUpdateRequests r"
    "leadFollowUps r3 = (case muo_followUp o' of None \<Rightarrow> leadFollowUps r
       | Some f \<Rightarrow> map_set (sequential_id ''follow_up'' (Suc (ids r)))
           (mobile_new_follow_up o' actor l f (sequential_id ''follow_up'' (Suc (ids r)))) (leadFollowUps r))"
    "muo_followUp o' \<noteq> None \<longrightarrow> ids r < ids r3"
    "lead_id l2 = lead_id l" "lead_organizationId l2 = lead_organizationId l" "lead_version l2 = lead_version l"
    "lead_statusId l2 = lead_statusId l"
    "lead_nextFollowUpAt l2 = (case muo_followUp o' of None \<Rightarrow> lead_nextFollowUpAt l
       | Some f \<Rightarrow> if \<not> truthy (lead_nextFollowUpAt l) \<or> mfu_dueAt f < the (lead_nextFollowUpAt l)
           then Some (mfu_dueAt f) else lead_nextFollowUpAt l)"
    using run ok activity_part(1)[OF ok1]
    by (auto simp: mobile_follow_up_step_def Let_def next_id_eq frame_simps split: option.splits)
qed

definition mobile_parts :: "mobile_update_options \<Rightarrow> lead_status option \<Rightarrow> nat" where
  "mobile_parts o' status = (if status = None then 0 else 1) + (if muo_note o' = None then 0 else 1)
     + (if muo_followUp o' = None then 0 else 1)"

lemma mobile_commitE:
  fixes r :: "'a call_state_scheme"
  assumes ok: "activities_ok r" and run: "mobile_commit h o' actor status l r = (res, r')"
  obtains l1 l3 n where
    "leads r' = map_set (muo_leadId o') l3 (leads r)" "leadStatuses r' = leadStatuses r" "activities_ok r'"
    "ids r \<le> ids r'" "ids r \<le> n" "muo_followUp o' \<noteq> None \<longrightarrow> n < ids r'"
    "\<exists>ys. leadActivities r' = leadActivities r @ ys \<and> length ys = mobile_parts o' status"
    "leadFollowUps r' = (case muo_followUp o' of None \<Rightarrow> leadFollowUps r
       | Some f \<Rightarrow> map_set (sequential_id ''follow_up'' (Suc n))
           (mobile_new_follow_up o' actor l1 f (sequential_id ''follow_up'' (Suc n))) (leadFollowUps r))"
    "lead_id l1 = lead_id l" "lead_organizationId l1 = lead_organizationId l"
    "lead_id l3 = lead_id l" "lead_organizationId l3 = lead_organizationId l" "lead_version l3 = lead_version l + 1"
    "lead_statusId l3 = (case status of None \<Rightarrow> lead_statusId l | Some s \<Rightarrow> ls_id s)"
    "lead_nextFollowUpAt l3 = (case muo_followUp o' of None \<Rightarrow> lead_nextFollowUpAt l
       | Some f \<Rightarrow> if \<not> truthy (lead_nextFollowUpAt l) \<or> mfu_dueAt f < the (lead_nextFollowUpAt l)
           then Some (mfu_dueAt f) else lead_nextFollowUpAt l)"
    "\<And>rc. res = Inr (Some rc) \<Longrightarrow> mrc_replayed rc = False \<and> mrc_appliedLeadVersion rc = lead_version l3
       \<and> mrc_requestId rc = muo_requestId o'
       \<and> mobileLeadUpdateRequests r' = map_set (mobile_update_key o')
               \<lparr>mur_fingerprint = muo_requestFingerprint o', mur_leadId = muo_leadId o',
                mur_requestId = muo_requestId o', mur_appliedLeadVersion = lead_version l3\<rparr> (mobileLeadUpdateRequests r)"
proof -
  obtain l1 r1 where s: "mobile_status_step o' status l r = (l1, r1)" by fastforce
  define r2 where "r2 = mobile_note_step o' actor l1 r1"
  obtain l2 r3 where f: "mobile_follow_up_step o' actor l1 r2 = (l2, r3)" by fastforce
  note S = status_part[OF ok s] and N = note_part[OF status_part(1)[OF ok s] r2_def]
  note F = follow_up_part[OF N(1) f]
  define l3 where "l3 = touch_lead (muo_at o') actor l2"
  define r4 where "r4 = r3\<lparr>leads := map_set (muo_leadId o') l3 (leads r3)\<rparr>"
  have r': "r' = r4 \<or> (\<exists>m. r' = r4\<lparr>mobileLeadUpdateRequests := m\<rparr>)"
    using run by (auto simp: mobile_commit_def Let_def s f r2_def[symmetric] l3_def[symmetric] r4_def[symmetric] split: sum.splits)
  have res: "mrc_replayed rc = False \<and> mrc_appliedLeadVersion rc = lead_version l3
       \<and> mrc_requestId rc = muo_requestId o'
       \<and> mobileLeadUpdateRequests r' = map_set (mobile_update_key o')
               \<lparr>mur_fingerprint = muo_requestFingerprint o', mur_leadId = muo_leadId o',
                mur_requestId = muo_requestId o', mur_appliedLeadVersion = lead_version l3\<rparr> (mobileLeadUpdateRequests r)"
    if "res = Inr (Some rc)" for rc
    using run that S(7) N(7) F(6)
    by (auto simp: mobile_commit_def Let_def s f r2_def[symmetric] l3_def[symmetric] r4_def split: sum.splits)
  obtain y1 y2 y3 where "leadActivities r1 = leadActivities r @ y1" "length y1 = (if status = None then 0 else 1)"
    "leadActivities r2 = leadActivities r1 @ y2" "length y2 = (if muo_note o' = None then 0 else 1)"
    "leadActivities r3 = leadActivities r2 @ y3" "length y3 = (if muo_followUp o' = None then 0 else 1)"
    using S(6) N(6) F(5) by blast
  then have acts: "\<exists>ys. leadActivities r3 = leadActivities r @ ys \<and> length ys = mobile_parts o' status"
    by (auto simp: mobile_parts_def)
  have fields: "leads r' = map_set (muo_leadId o') l3 (leads r3)" "leadStatuses r' = leadStatuses r3"
    "leadActivities r' = leadActivities r3" "ids r' = ids r3" "leadFollowUps r' = leadFollowUps r3"
    using r' by (auto simp: r4_def)
  show ?thesis
    by (rule that[of l3 "ids r2" l1])
      (use fields acts S N F res in \<open>auto simp: l3_def activities_ok_def cong: option.case_cong if_cong\<close>)
qed

text \<open>
  A mobile update is accepted only for a live lead of the device's organization that is
  assigned to the device's employee, at the version the device saw; it raises that version by
  one, appends one activity for each of its parts, touches no other lead, and a retry answers
  the recorded version without applying it again.
\<close>

theorem mobile_update_effect:
  assumes "lead_inv h r" and "applyMobileLeadUpdate h o' r = (Inr (Some rc), r')" and "\<not> mrc_replayed rc"
  shows "\<exists>l l'. map_get (leads r) (muo_leadId o') = Some l
     \<and> lead_organizationId l = ctx_organizationId (muo_context o')
     \<and> lead_assignedEmployeeId l = Some (ctx_employeeId (muo_context o')) \<and> \<not> truthy (lead_archivedAt l)
     \<and> lead_version l = muo_expectedLeadVersion o' \<and> lead_version l' = lead_version l + 1
     \<and> mrc_appliedLeadVersion rc = lead_version l'
     \<and> leads r' = map_set (muo_leadId o') l' (leads r)
     \<and> (\<exists>ys. leadActivities r' = leadActivities r @ ys \<and> length ys \<le> 3)
     \<and> map_get (mobileLeadUpdateRequests r') (mobile_update_key o') = Some
         \<lparr>mur_fingerprint = muo_requestFingerprint o', mur_leadId = muo_leadId o',
          mur_requestId = muo_requestId o', mur_appliedLeadVersion = lead_version l'\<rparr>"
  using assms(2)
proof (cases rule: mobileE)
  case same
  then show ?thesis using assms(3) by simp
next
  case (committed cur l actor status)
  have ok: "activities_ok r" using lead_inv_activity_ids[OF assms(1)] by (simp add: activities_ok_def)
  show ?thesis
    using ok committed(10)
  proof (rule mobile_commitE)
    fix l1 l3 n
    assume e: "leads r' = map_set (muo_leadId o') l3 (leads r)" "lead_version l3 = lead_version l + 1"
      "\<exists>ys. leadActivities r' = leadActivities r @ ys \<and> length ys = mobile_parts o' status"
      "\<And>rc'. Inr (Some rc) = Inr (Some rc') \<Longrightarrow> mrc_replayed rc' = False \<and> mrc_appliedLeadVersion rc' = lead_version l3
       \<and> mrc_requestId rc' = muo_requestId o'
       \<and> mobileLeadUpdateRequests r' = map_set (mobile_update_key o')
               \<lparr>mur_fingerprint = muo_requestFingerprint o', mur_leadId = muo_leadId o',
                mur_requestId = muo_requestId o', mur_appliedLeadVersion = lead_version l3\<rparr> (mobileLeadUpdateRequests r)"
    have "mobile_parts o' status \<le> 3" by (simp add: mobile_parts_def)
    then show ?thesis using committed e(1-3) e(4)[OF refl]
      by (intro exI[of _ l] exI[of _ l3]) (auto simp: store_simps)
  qed
qed

text \<open>
  A mobile update keeps the board consistent: the statuses still resolve and every lead's
  next follow-up is still its earliest pending one, on due dates the collation orders by code
  units (as it does ISO timestamps).
\<close>

theorem mobile_update_keeps_board:
  fixes r :: "'a call_state_scheme"
  assumes inv: "lead_inv h r" and run: "applyMobileLeadUpdate h o' r = (res, r')"
    and due: "\<forall>f. muo_followUp o' = Some f \<longrightarrow> mfu_dueAt f \<noteq> []
      \<and> (\<forall>g \<in> set (map_values (leadFollowUps r)). as_code_units h (mfu_dueAt f) (fu_dueAt g)
           \<and> as_code_units h (fu_dueAt g) (mfu_dueAt f)
           \<and> (\<forall>g' \<in> set (map_values (leadFollowUps r)). as_code_units h (fu_dueAt g) (fu_dueAt g')))"
  shows "lead_inv h r'"
  using run
proof (cases rule: mobileE)
  case same
  then show ?thesis using inv by simp
next
  case (committed cur l actor status)
  have ok: "activities_ok r" using lead_inv_activity_ids[OF inv] by (simp add: activities_ok_def)
  note l = committed(4)
  have lok: "lead_ok h r l" "lead_id l = muo_leadId o'" using lead_inv_lead[OF inv l] by auto
  show ?thesis
    using ok committed(10)
  proof (rule mobile_commitE)
    fix l1 l3 n
    assume e: "leads r' = map_set (muo_leadId o') l3 (leads r)" "leadStatuses r' = leadStatuses r" "activities_ok r'"
      "ids r \<le> ids r'" "ids r \<le> n" "muo_followUp o' \<noteq> None \<longrightarrow> n < ids r'"
      "leadFollowUps r' = (case muo_followUp o' of None \<Rightarrow> leadFollowUps r
       | Some f \<Rightarrow> map_set (sequential_id ''follow_up'' (Suc n))
           (mobile_new_follow_up o' actor l1 f (sequential_id ''follow_up'' (Suc n))) (leadFollowUps r))"
      "lead_id l1 = lead_id l" "lead_organizationId l1 = lead_organizationId l"
      "lead_id l3 = lead_id l" "lead_organizationId l3 = lead_organizationId l"
      "lead_statusId l3 = (case status of None \<Rightarrow> lead_statusId l | Some s \<Rightarrow> ls_id s)"
      "lead_nextFollowUpAt l3 = (case muo_followUp o' of None \<Rightarrow> lead_nextFollowUpAt l
       | Some f \<Rightarrow> if \<not> truthy (lead_nextFollowUpAt l) \<or> mfu_dueAt f < the (lead_nextFollowUpAt l)
           then Some (mfu_dueAt f) else lead_nextFollowUpAt l)"
    have st: "\<exists>s. map_get (leadStatuses r) (lead_statusId l3) = Some s \<and> ls_organizationId s = lead_organizationId l"
    proof (cases status)
      case (Some s)
      have "ls_id s = the (muo_statusId o')"
        using committed(9)[OF Some] inv by (auto simp: lead_inv_def dest: keyedD)
      then show ?thesis using committed(9)[OF Some] Some e(12) by auto
    qed (use lok(1) e(12) in \<open>auto simp: lead_ok_def\<close>)
    have act: "ids_fresh ''lead_activity'' (ids r') (leadActivities r')" using e(3) by (simp add: activities_ok_def)
    show ?thesis
    proof (cases "muo_followUp o'")
      case None
      have "lead_ok h r l3" using st lok(1) e(10-13) None by (simp add: lead_ok_def)
      then show ?thesis
        using None by (intro lead_inv_write[OF inv l e(10,11) _ e(4) e(1,2) _ act]) (simp_all add: e(7))
    next
      case (Some f)
      let ?org = "lead_organizationId l" and ?i = "lead_id l" and ?F = "leadFollowUps r"
      let ?j = "sequential_id ''follow_up'' (Suc n)"
      let ?g = "mobile_new_follow_up o' actor l1 f ?j"
      have g: "fu_id ?g = ?j" "fu_leadId ?g = ?i" "fu_organizationId ?g = ?org" "fu_dueAt ?g = mfu_dueAt f"
        "fu_status ?g = FuPending" using e(8,9) by (simp_all add: mobile_new_follow_up_def)
      have fr: "ids_fresh ''follow_up'' n ?F" using inv e(5) by (auto simp: lead_inv_def intro: ids_fresh_mono)
      then have new: "map_get ?F ?j = None" by (rule ids_fresh_next)
      have F': "leadFollowUps r' = map_set ?j ?g ?F" using e(7) Some by simp
      have vals: "map_values (leadFollowUps r') = map_values ?F @ [?g]" by (simp add: F' values_update_fresh[OF new])
      have ids: "ids_fresh ''follow_up'' (ids r') (map_set ?j ?g ?F)"
        using ids_fresh_put[OF fr, of "Suc n" ?g] e(6) Some by (auto intro: ids_fresh_mono)
      have units: "as_code_units h (mfu_dueAt f) (fu_dueAt x) \<and> as_code_units h (fu_dueAt x) (mfu_dueAt f)
          \<and> (\<forall>y \<in> set (map_values ?F). as_code_units h (fu_dueAt x) (fu_dueAt y))" if "x \<in> set (map_values ?F)" for x
        using due Some that by blast
      have self: "as_code_units h x x" "localeCompare h x x = 0" for x
        by (simp_all add: as_code_units_def comparator.refl[OF comparator_lcmp] str_cmp.refl)
      have nxt: "lead_nextFollowUpAt l3 = next_due h ?org ?i r'"
      proof (cases "next_due h ?org ?i r")
        case None
        then have none: "fu_status x \<noteq> FuPending" if "x \<in> set (map_values ?F)" "fu_organizationId x = ?org" "fu_leadId x = ?i" for x
          using that by (simp add: next_due_None_iff)
        have "next_due h ?org ?i r' = Some (mfu_dueAt f)"
          by (rule next_due_eqI[of ?g]) (use g none units self in \<open>auto simp: vals\<close>)
        moreover have "lead_nextFollowUpAt l = None" using lok(1) None by (simp add: lead_ok_def)
        ultimately show ?thesis using e(13) Some by simp
      next
        case (Some d)
        then have ln: "lead_nextFollowUpAt l = Some d" using lok(1) by (simp add: lead_ok_def)
        from next_due_Some[OF Some] obtain x where x: "x \<in> set (map_values ?F)" "fu_organizationId x = ?org"
          "fu_leadId x = ?i" "fu_status x = FuPending" "fu_dueAt x = d"
          and least: "\<And>y. y \<in> set (map_values ?F) \<Longrightarrow> fu_organizationId y = ?org \<Longrightarrow> fu_leadId y = ?i \<Longrightarrow>
             fu_status y = FuPending \<Longrightarrow> localeCompare h d (fu_dueAt y) \<le> 0" by blast
        have "\<exists>k. map_get ?F k = Some x" using x(1) in_values_iff[OF lead_inv_wf(3)[OF inv]] by blast
        then have d: "d \<noteq> []" using lead_inv_follow_up[OF inv] x(5) by (auto simp: follow_up_ok_def)
        have ud: "as_code_units h d (mfu_dueAt f)" "as_code_units h (mfu_dueAt f) d"
          "\<forall>y \<in> set (map_values ?F). as_code_units h d (fu_dueAt y)" using units[OF x(1)] x(5) by auto
        show ?thesis
        proof (cases "mfu_dueAt f < d")
          case True
          then have "localeCompare h (mfu_dueAt f) d \<le> 0" using as_code_units_D(1)[OF ud(2)] by simp
          then have "localeCompare h (mfu_dueAt f) (fu_dueAt y) \<le> 0" if "localeCompare h d (fu_dueAt y) \<le> 0" for y
            using that by (rule comparator.trans[OF comparator_lcmp])
          then have "next_due h ?org ?i r' = Some (mfu_dueAt f)"
            by (intro next_due_eqI[of ?g]) (use g least units self in \<open>auto simp: vals\<close>)
          then show ?thesis using e(13) \<open>muo_followUp o' = Some f\<close> ln True by simp
        next
          case False
          then have "\<not> localeCompare h (mfu_dueAt f) d < 0" using as_code_units_D(1)[OF ud(2)] by simp
          then have le: "localeCompare h d (mfu_dueAt f) \<le> 0" using comparator.le_flip[OF comparator_lcmp] by fastforce
          have "next_due h ?org ?i r' = Some d"
            by (rule next_due_eqI[of x]) (use x g least ud le in \<open>auto simp: vals\<close>)
          then show ?thesis using e(13) \<open>muo_followUp o' = Some f\<close> ln False d by simp
        qed
      qed
      have "fu_dueAt ?g \<noteq> []" using due Some g(4) by auto
      then show ?thesis
        using l lok(2) new ids st nxt e(10,11)
        by (intro lead_inv_follow_up_write[OF inv _ g(1-3) _ _ e(10,11) st nxt _ e(2) F' act e(4)]) (simp_all add: e(1))
    qed
  qed
qed

section \<open>Correcting a link and listing calls\<close>

text \<open>
  A manual correction that succeeds found the call linked as the caller expected, leaves it
  linked to exactly the requested lead (or to none), only ever to an unarchived lead of the
  organization that the actor may see and that belongs to the caller's team, changes no other
  call's link, and is answered the same way when retried.
\<close>

theorem correction_effect:
  assumes "correctCallLeadLink o' r = (Inr (Some v), r')" and "\<not> cor_replayed v"
    and "keyed lead_id (leads r)" and "keyed call_id (calls r)"
  shows "map_get (leadIdByCallId r) (cro_callId o') = cro_expectedLeadId o'
    \<and> (truthy (cro_replacementLeadId o') \<longrightarrow> map_get (leadIdByCallId r') (cro_callId o') = cro_replacementLeadId o'
         \<and> (\<exists>l c. map_get (leads r) (the (cro_replacementLeadId o')) = Some l \<and> map_get (calls r) (cro_callId o') = Some c
              \<and> lead_organizationId l = cro_organizationId o' \<and> \<not> truthy (lead_archivedAt l)
              \<and> canAccessLead (cro_scope o') l r
              \<and> map_get (leadTeams r) (lead_id l) = Option.bind (map_get (employees r) (call_employeeId c)) emp_team))
    \<and> (\<not> truthy (cro_replacementLeadId o') \<longrightarrow> \<not> truthy (map_get (leadIdByCallId r') (cro_callId o')))
    \<and> (\<forall>k. k \<noteq> cro_callId o' \<longrightarrow> map_get (leadIdByCallId r') k = map_get (leadIdByCallId r) k)
    \<and> correctCallLeadLink o' r' = (Inr (Some (v\<lparr>cor_replayed := True\<rparr>)), r')"
proof -
  have none: "map_get (callLeadCorrectionRequests r) (correction_key o') = None"
    using assms(1,2) by (auto simp: correctCallLeadLink_def split: option.splits if_splits)
  define current where "current = map_get (leadIdByCallId r) (cro_callId o')"
  define replacement where "replacement = (if truthy (cro_replacementLeadId o')
    then map_get (leads r) (the (cro_replacementLeadId o')) else None)"
  obtain c where c: "map_get (calls r) (cro_callId o') = Some c" "call_organizationId c = cro_organizationId o'"
    using assms(1) none by (auto simp: correctCallLeadLink_def split: option.splits if_splits)
  have cid: "call_id c = cro_callId o'" using assms(4) c(1) by (auto dest: keyedD)
  have exp: "current = cro_expectedLeadId o'"
    using assms(1) none c cid by (auto simp: correctCallLeadLink_def Let_def current_def split: if_splits)
  have rep: "truthy (cro_replacementLeadId o') \<Longrightarrow> \<exists>l. replacement = Some l \<and> lead_organizationId l = cro_organizationId o'
      \<and> \<not> truthy (lead_archivedAt l) \<and> canAccessLead (cro_scope o') l r
      \<and> map_get (leadTeams r) (lead_id l) = Option.bind (map_get (employees r) (call_employeeId c)) emp_team"
    using assms(1) none c cid exp unfolding correctCallLeadLink_def Let_def replacement_def current_def[symmetric]
    by (auto simp: current_def[symmetric] split: option.splits if_splits)
  have commit: "correction_commit o' c current replacement r = (v, r')"
    using assms(1) none c cid exp unfolding correctCallLeadLink_def Let_def
    by (auto simp: current_def[symmetric] replacement_def[symmetric] split_beta prod_eq_iff split: if_splits)
  have lid: "\<And>l. replacement = Some l \<Longrightarrow> lead_id l = the (cro_replacementLeadId o')"
    using assms(3) by (auto simp: replacement_def dest: keyedD split: if_splits)
  have links: "map_get (leadIdByCallId r') k = (if k = cro_callId o' then
      (case replacement of Some l \<Rightarrow> Some (lead_id l) | None \<Rightarrow> if truthy current then None else current)
      else map_get (leadIdByCallId r) k)" for k
    using commit cid
    by (auto simp: correction_commit_def Let_def frame_simps store_simps current_def split: option.splits)
  have rec: "map_get (callLeadCorrectionRequests r') (correction_key o')
      = Some \<lparr>crr_fingerprint = cro_requestFingerprint o', crr_result = v\<rparr>"
    using commit by (auto simp: correction_commit_def Let_def frame_simps store_simps split: option.splits)
  have "map_get (leadIdByCallId r) (cro_callId o') = cro_expectedLeadId o'" using exp by (simp add: current_def)
  moreover have "correctCallLeadLink o' r' = (Inr (Some (v\<lparr>cor_replayed := True\<rparr>)), r')"
    by (simp add: correctCallLeadLink_def rec)
  moreover have "\<not> truthy (cro_replacementLeadId o') \<longrightarrow> \<not> truthy (map_get (leadIdByCallId r') (cro_callId o'))"
    by (simp add: links replacement_def)
  moreover have "\<forall>k. k \<noteq> cro_callId o' \<longrightarrow> map_get (leadIdByCallId r') k = map_get (leadIdByCallId r) k"
    by (simp add: links)
  moreover have "truthy (cro_replacementLeadId o') \<longrightarrow> map_get (leadIdByCallId r') (cro_callId o') = cro_replacementLeadId o'
         \<and> (\<exists>l c. map_get (leads r) (the (cro_replacementLeadId o')) = Some l \<and> map_get (calls r) (cro_callId o') = Some c
              \<and> lead_organizationId l = cro_organizationId o' \<and> \<not> truthy (lead_archivedAt l)
              \<and> canAccessLead (cro_scope o') l r
              \<and> map_get (leadTeams r) (lead_id l) = Option.bind (map_get (employees r) (call_employeeId c)) emp_team)"
  proof
    assume t: "truthy (cro_replacementLeadId o')"
    then obtain l where l: "replacement = Some l" "lead_organizationId l = cro_organizationId o'"
      "\<not> truthy (lead_archivedAt l)" "canAccessLead (cro_scope o') l r"
      "map_get (leadTeams r) (lead_id l) = Option.bind (map_get (employees r) (call_employeeId c)) emp_team"
      using rep by blast
    have "map_get (leads r) (the (cro_replacementLeadId o')) = Some l" using l(1) t by (simp add: replacement_def)
    moreover have "map_get (leadIdByCallId r') (cro_callId o') = cro_replacementLeadId o'"
      using links lid[OF l(1)] l(1) t by (auto elim: truthyE)
    ultimately show "map_get (leadIdByCallId r') (cro_callId o') = cro_replacementLeadId o'
         \<and> (\<exists>l c. map_get (leads r) (the (cro_replacementLeadId o')) = Some l \<and> map_get (calls r) (cro_callId o') = Some c
              \<and> lead_organizationId l = cro_organizationId o' \<and> \<not> truthy (lead_archivedAt l)
              \<and> canAccessLead (cro_scope o') l r
              \<and> map_get (leadTeams r) (lead_id l) = Option.bind (map_get (employees r) (call_employeeId c)) emp_team)"
      using l c(1) by blast
  qed
  ultimately show ?thesis by blast
qed

definition call_cursor_of :: "call_log \<Rightarrow> call_cursor" where
  "call_cursor_of c = \<lparr>cc_startedAt = call_startedAt c, cc_id = call_id c\<rparr>"

lemma comparator_call_order: "comparator (call_order h)"
  unfolding call_order_def by (intro comparator_or comparator_desc comparator_on comparator_lcmp)

lemma call_after_cursor:
  assumes "localeCompare h (call_startedAt y) (call_startedAt x) = 0 \<Longrightarrow> call_startedAt x = call_startedAt y"
  shows "call_after h (call_cursor_of x) y \<longleftrightarrow> call_order h x y < 0"
proof -
  have "localeCompare h a a = 0" for a by (rule comparator.refl[OF comparator_lcmp])
  then show ?thesis using assms
    by (auto simp: call_after_def call_cursor_of_def call_order_def cmp_or_def cmp_desc_def cmp_on_def)
qed

interpretation call_pages: cursor_listing "call_order h" "call_after h" call_cursor_of
  "\<lambda>x y. localeCompare h (call_startedAt y) (call_startedAt x) = 0 \<longrightarrow> call_startedAt x = call_startedAt y" for h
  by (intro cursor_listing.intro comparator_call_order cursor_listing_axioms.intro call_after_cursor) blast

text \<open>
  Following the cursors of the call listing, whatever the page size, yields every call of
  the organization that matches the filter exactly once and newest first, provided the
  collation tells the start times and the identifiers of stored calls apart.
\<close>

theorem listCalls_pages_complete:
  assumes store: "keyed call_id (calls r)" and limit: "0 < limit"
    and times: "separates h (call_startedAt ` set (map_values (calls r)))"
    and idents: "separates h (call_id ` set (map_values (calls r)))"
    and fuel: "length (calls r) < fuel"
  shows "let ws = walk (\<lambda>c. listCalls h orgId f c limit r) call_cursor_of fuel None
    in mset ws = mset (filter (call_matches orgId f) (map_values (calls r)))
       \<and> sorted_wrt (\<lambda>x y. call_order h x y < 0) ws"
proof -
  let ?xs = "filter (call_matches orgId f) (map_values (calls r))"
  have d: "distinct ?xs" using store by (simp add: keyed_distinct)
  have sep: "\<forall>x \<in> set ?xs. \<forall>y \<in> set ?xs. call_order h x y = 0 \<longrightarrow> x = y"
  proof (intro ballI impI)
    fix x y assume a: "x \<in> set ?xs" "y \<in> set ?xs" "call_order h x y = 0"
    then have "localeCompare h (call_id y) (call_id x) = 0"
      by (auto simp: call_order_def cmp_or_def cmp_desc_def cmp_on_def split: if_splits)
    then have "call_id y = call_id x" using idents a(1,2) by (auto simp: separates_def)
    then show "x = y" using keyed_inj[OF store] a(1,2) by auto
  qed
  have ag: "\<forall>x \<in> set ?xs. \<forall>y \<in> set ?xs.
      localeCompare h (call_startedAt y) (call_startedAt x) = 0 \<longrightarrow> call_startedAt x = call_startedAt y"
    using times by (force simp: separates_def)
  have "length ?xs < fuel" using fuel length_filter_le[of "call_matches orgId f" "map_values (calls r)"] by simp
  then have "walk (\<lambda>c. listCalls h orgId f c limit r) call_cursor_of fuel None = js_sort (call_order h) ?xs"
    by (intro call_pages.walk_complete[OF d sep ag limit]) (simp_all add: listCalls_def)
  then show ?thesis using call_pages.strict_sort[OF d sep] by (simp add: Let_def)
qed

end
