(* ===== verification/AssignmentFacts.thy ===== *)
theory AssignmentFacts
  imports Assignment CallFacts
begin

text \<open>
  What the assignment rules guarantee: a stored rule always names distinct owners, the dry run
  accounts for every lead it looks at, a round-robin rule shares its leads evenly, and applying
  the rules does to the leads exactly what the dry run announced.
\<close>

section \<open>Matching\<close>

lemma comparator_rule_order: "comparator (rule_order h)"
  unfolding rule_order_def by (intro comparator_or comparator_on comparator_lcmp int_cmp.comparator_axioms)

interpretation rule_order: comparator "rule_order h" for h
  by (rule comparator_rule_order)

lemma first_ruleD:
  assumes "first_rule h orgId scope l r = Some ru"
  shows "ru \<in> set (map_values (leadAssignmentRules r))" "rule_applies orgId scope l r ru"
proof -
  have "ru \<in> set (matchingRules h orgId scope l r)"
    using assms by (auto simp: first_rule_def split: list.splits)
  then show "ru \<in> set (map_values (leadAssignmentRules r))" "rule_applies orgId scope l r ru"
    by (auto simp: matchingRules_def)
qed

text \<open>An owner the matching rule names is an eligible employee.\<close>

lemma first_rule_owner:
  assumes "first_rule h orgId scope l r = Some ru"
  obtains i e where "js_at (ar_employeeIds ru) (owner_position ru cursor) = Some i" "i \<in> set (ar_employeeIds ru)"
    "map_get (employees r) i = Some e" "emp_organizationId e = orgId" "emp_status e = EmpActive"
    "emp_team e = lead_team l r" "canAccessTeam scope (lead_team l r) r"
proof -
  have a: "owners_eligible orgId (lead_team l r) (ar_employeeIds ru) r" "canAccessTeam scope (lead_team l r) r"
    using first_ruleD(2)[OF assms] by (auto simp: rule_applies_def Let_def)
  then have ne: "0 < length (ar_employeeIds ru)" by (simp add: owners_eligible_def)
  then have pos: "owner_position ru cursor < length (ar_employeeIds ru)" by (simp add: owner_position_def)
  let ?i = "ar_employeeIds ru ! owner_position ru cursor"
  have i: "?i \<in> set (ar_employeeIds ru)" using pos by simp
  with a(1) obtain e where "map_get (employees r) ?i = Some e" "emp_organizationId e = orgId"
    "emp_status e = EmpActive" "emp_team e = lead_team l r"
    by (auto simp: owners_eligible_def list_all_iff split: option.splits)
  with pos i a(2) show ?thesis by (intro that) (auto simp: js_at_def)
qed

section \<open>The plan\<close>

text \<open>
  The assignments a run makes, as a pure function of the leads in order: which lead goes to
  which owner, threading the cursors.
\<close>

definition advance :: "assignment_rule \<Rightarrow> nat \<Rightarrow> (string, nat) jsmap \<Rightarrow> (string, nat) jsmap" where
  "advance ru c cs = (if ar_strategy ru = RoundRobin then map_set (ar_id ru) (Suc c) cs else cs)"

fun plan :: "host \<Rightarrow> rule_access \<Rightarrow> 'a rule_state_scheme \<Rightarrow> (string, nat) jsmap \<Rightarrow> lead list \<Rightarrow> (string \<times> string) list" where
  "plan h o' r cs [] = []"
| "plan h o' r cs (l # ls) =
     (if \<not> unassigned_lead o' l r then plan h o' r cs ls
      else case first_rule h (rac_organizationId o') (rac_scope o') l r of
        None \<Rightarrow> plan h o' r cs ls
      | Some ru \<Rightarrow>
          let c = cursor_of cs (ar_id ru) r
          in (lead_id l, ar_employeeIds ru ! owner_position ru c) # plan h o' r (advance ru c cs) ls)"

definition tally :: "(string, nat) jsmap \<Rightarrow> string \<Rightarrow> nat" where
  "tally m e = (case map_get m e of None \<Rightarrow> 0 | Some n \<Rightarrow> n)"

definition nameless :: "'a identity_state_scheme \<Rightarrow> bool" where
  "nameless r \<longleftrightarrow> map_get (employees r) [] = None"

lemma dry_step_matched:
  assumes "nameless r" "unassigned_lead o' l r"
    and ru: "first_rule h (rac_organizationId o') (rac_scope o') l r = Some ru"
  shows "dry_step h o' r l s =
    (let c = cursor_of (ds_cursors s) (ar_id ru) r; e = ar_employeeIds ru ! owner_position ru c
     in s\<lparr>ds_matched := Suc (ds_matched s), ds_cursors := advance ru c (ds_cursors s),
          ds_distribution := map_set e (Suc (tally (ds_distribution s) e)) (ds_distribution s)\<rparr>)"
proof -
  let ?c = "cursor_of (ds_cursors s) (ar_id ru) r"
  obtain i e where i: "js_at (ar_employeeIds ru) (owner_position ru ?c) = Some i" "map_get (employees r) i = Some e"
    using first_rule_owner[OF ru] by metis
  then have "i = ar_employeeIds ru ! owner_position ru ?c" "i \<noteq> []"
    using assms(1) by (auto simp: js_at_def nameless_def split: if_splits)
  with i(1) assms(2) ru show ?thesis
    by (simp add: dry_step_def Let_def advance_def tally_def)
qed

lemma dry_step_skip: "\<not> unassigned_lead o' l r \<Longrightarrow> dry_step h o' r l s = s"
  by (simp add: dry_step_def)

lemma dry_step_unmatched:
  "unassigned_lead o' l r \<Longrightarrow> first_rule h (rac_organizationId o') (rac_scope o') l r = None
   \<Longrightarrow> dry_step h o' r l s = s\<lparr>ds_unmatched := Suc (ds_unmatched s)\<rparr>"
  by (simp add: dry_step_def)

lemma dry_fold:
  assumes "nameless r"
  shows "ds_matched (fold (dry_step h o' r) ls s) = ds_matched s + length (plan h o' r (ds_cursors s) ls)
    \<and> (\<forall>e. tally (ds_distribution (fold (dry_step h o' r) ls s)) e
         = tally (ds_distribution s) e + count_list (map snd (plan h o' r (ds_cursors s) ls)) e)
    \<and> ds_matched (fold (dry_step h o' r) ls s) + ds_unmatched (fold (dry_step h o' r) ls s)
       = ds_matched s + ds_unmatched s + length (filter (\<lambda>l. unassigned_lead o' l r) ls)"
proof (induction ls arbitrary: s)
  case (Cons l ls)
  show ?case
  proof (cases "unassigned_lead o' l r")
    case False
    then show ?thesis using Cons[of s] by (simp add: dry_step_skip)
  next
    case un: True
    show ?thesis
    proof (cases "first_rule h (rac_organizationId o') (rac_scope o') l r")
      case None
      then show ?thesis using Cons[of "dry_step h o' r l s"] un by (simp add: dry_step_unmatched[OF un None])
    next
      case (Some ru)
      show ?thesis
        using Cons[of "dry_step h o' r l s"] un Some
        by (simp add: dry_step_matched[OF assms un Some] Let_def) (simp add: tally_def store_simps)
    qed
  qed
qed simp

lemma dry_run_plan:
  assumes "nameless r"
  shows "dr_matchedLeads (dryRunLeadAssignmentRules h o' r) = length (plan h o' r [] (map_values (leads r)))"
    and "tally (dr_distribution (dryRunLeadAssignmentRules h o' r)) e
      = count_list (map snd (plan h o' r [] (map_values (leads r)))) e"
    and "dr_matchedLeads (dryRunLeadAssignmentRules h o' r) + dr_unmatchedLeads (dryRunLeadAssignmentRules h o' r)
      = length (filter (\<lambda>l. unassigned_lead o' l r) (map_values (leads r)))"
  using dry_fold[OF assms, of h o' "map_values (leads r)" dry_start]
  by (simp_all add: dryRunLeadAssignmentRules_def Let_def dry_start_def) (simp add: tally_def)

section \<open>Fairness\<close>

lemma count_residues: "0 < m \<Longrightarrow> j < m \<Longrightarrow> card {i. i < n \<and> i mod m = j} = (n + m - 1 - j) div m"
proof (induction n)
  case (Suc n)
  have step: "{i. i < Suc n \<and> i mod m = j} = (if n mod m = j then insert n else id) {i. i < n \<and> i mod m = j}"
    by (auto simp: less_Suc_eq)
  have fin: "finite {i. i < n \<and> i mod m = j}" by simp
  have "Suc (n + m - 1 - j) = n + (m - j)" using Suc.prems by simp
  then have "Suc (n + m - 1 - j) mod m = (n + (m - j)) mod m" by simp
  also have "(n + (m - j)) mod m = 0 \<longleftrightarrow> n mod m = j"
  proof -
    let ?t = "n mod m"
    have lt: "?t < m" using Suc.prems by simp
    have "(n + (m - j)) mod m = (?t + (m - j)) mod m" by (simp add: mod_add_left_eq)
    also have "\<dots> = (if ?t < j then ?t + (m - j) else ?t - j)"
    proof (cases "?t < j")
      case False
      then have "?t + (m - j) = (?t - j) + m" using Suc.prems by simp
      then have "(?t + (m - j)) mod m = ((?t - j) + m) mod m" by (rule arg_cong)
      also have "\<dots> = ?t - j" using lt by (simp add: less_imp_diff_less del: add_diff_assoc2 diff_add_assoc2)
      finally show ?thesis using False by simp
    qed (use Suc.prems in simp)
    finally show ?thesis using Suc.prems by auto
  qed
  finally have carry: "Suc (n + m - 1 - j) mod m = 0 \<longleftrightarrow> n mod m = j" .
  have "Suc n + m - 1 - j = Suc (n + m - 1 - j)" using Suc.prems by simp
  then have "(Suc n + m - 1 - j) div m = Suc (n + m - 1 - j) div m" by (rule arg_cong)
  also have "\<dots> = (if n mod m = j then Suc ((n + m - 1 - j) div m) else (n + m - 1 - j) div m)"
    using carry by (simp add: div_Suc)
  finally show ?case using Suc fin by (simp add: step)
qed simp

lemma shift_residues:
  "card {i. i < n \<and> (c + i) mod m = (j :: nat)} = card {k. k < c + n \<and> k mod m = j} - card {k. k < c \<and> k mod m = j}"
proof -
  have "bij_betw (\<lambda>i. c + i) {i. i < n \<and> (c + i) mod m = j} ({k. k < c + n \<and> k mod m = j} - {k. k < c \<and> k mod m = j})"
    by (rule bij_betw_byWitness[of _ "\<lambda>k. k - c"]) auto
  then have "card {i. i < n \<and> (c + i) mod m = j} = card ({k. k < c + n \<and> k mod m = j} - {k. k < c \<and> k mod m = j})"
    by (rule bij_betw_same_card)
  also have "\<dots> = card {k. k < c + n \<and> k mod m = j} - card {k. k < c \<and> k mod m = j}"
    by (rule card_Diff_subset) auto
  finally show ?thesis .
qed

lemma residues_even:
  assumes "0 < m" "j < m"
  shows "card {i. i < n \<and> (c + i) mod m = j} \<in> {n div m, Suc (n div m)}"
proof -
  let ?a = "c + m - 1 - j"
  have "c + n + m - 1 - j = ?a + n" using assms by simp
  then have "card {i. i < n \<and> (c + i) mod m = j} = (?a + n) div m - ?a div m"
    using assms by (simp add: shift_residues count_residues)
  also have "(?a + n) div m = ?a div m + n div m + (?a mod m + n mod m) div m"
    by (rule div_add1_eq)
  finally have "card {i. i < n \<and> (c + i) mod m = j} = n div m + (?a mod m + n mod m) div m" by simp
  moreover have "(?a mod m + n mod m) div m \<le> 1"
  proof -
    have "?a mod m + n mod m < 2 * m" using assms(1) by (simp add: add_strict_mono mult_2)
    then show ?thesis using assms(1) by (simp add: less_mult_imp_div_less less_Suc_eq_le[symmetric] mult.commute)
  qed
  ultimately show ?thesis by (auto simp: le_Suc_eq)
qed

section \<open>Applying what was planned\<close>

text \<open>What matching reads besides the lead itself.\<close>

definition same_rules :: "'a rule_state_scheme \<Rightarrow> 'a rule_state_scheme \<Rightarrow> bool" where
  "same_rules r r' \<longleftrightarrow> employees r' = employees r \<and> leadAssignmentRules r' = leadAssignmentRules r
     \<and> leadAssignmentRuleTeams r' = leadAssignmentRuleTeams r \<and> leadAssignmentRuleCursors r' = leadAssignmentRuleCursors r"

definition same_team :: "'a lead_state_scheme \<Rightarrow> 'a lead_state_scheme \<Rightarrow> lead \<Rightarrow> bool" where
  "same_team r r' l \<longleftrightarrow> map_get (leadTeams r') (lead_id l) = map_get (leadTeams r) (lead_id l)"

lemma same_lead_team: "same_rules r r' \<Longrightarrow> same_team r r' l \<Longrightarrow> lead_team l r' = lead_team l r"
  by (simp add: same_rules_def same_team_def lead_team_def split: option.split)

lemma same_matching:
  assumes s: "same_rules r r'" and t: "same_team r r' l"
  shows "first_rule h orgId scope l r' = first_rule h orgId scope l r"
    and "unassigned_lead o' l r' = unassigned_lead o' l r" and "cursor_of cs i r' = cursor_of cs i r"
proof -
  have "rule_applies orgId scope l r' ru = rule_applies orgId scope l r ru" for ru
    using s same_lead_team[OF s t]
    by (simp add: rule_applies_def owners_eligible_def same_rules_def canAccessTeam_def Let_def split: lead_access_scope.split)
  then have "rule_applies orgId scope l r' = rule_applies orgId scope l r" ..
  then show "first_rule h orgId scope l r' = first_rule h orgId scope l r"
    using s by (simp add: first_rule_def matchingRules_def same_rules_def)
  show "unassigned_lead o' l r' = unassigned_lead o' l r"
    using same_lead_team[OF s t] by (simp add: unassigned_lead_def canAccessLead_def split: lead_access_scope.split)
  show "cursor_of cs i r' = cursor_of cs i r" using s by (simp add: cursor_of_def same_rules_def split: option.split)
qed

lemma plan_cong:
  assumes s: "same_rules r r'"
  shows "\<forall>l\<in>set ls. same_team r r' l \<Longrightarrow> plan h o' r' cs ls = plan h o' r cs ls"
proof (induction ls arbitrary: cs)
  case (Cons l ls)
  then show ?case using same_matching[OF s, of l] by (simp add: Let_def split: option.split)
qed simp

lemma plan_leads: "set (map fst (plan h o' r cs ls)) \<subseteq> lead_id ` set ls"
proof (induction ls arbitrary: cs)
  case (Cons l ls)
  have "set (map fst (plan h o' r c ls)) \<subseteq> lead_id ` set (l # ls)" for c using Cons[of c] by auto
  then show ?case by (simp add: Let_def split: option.split)
qed simp

lemma plan_distinct: "distinct (map lead_id ls) \<Longrightarrow> distinct (map fst (plan h o' r cs ls))"
proof (induction ls arbitrary: cs)
  case (Cons l ls)
  have "lead_id l \<notin> set (map fst (plan h o' r c ls))" for c
    using plan_leads[of h o' r c ls] Cons.prems by auto
  then show ?case using Cons by (auto simp: Let_def split: option.split)
qed simp

lemma updateLead_rule_frame [frame_simps]:
  "leadAssignmentRules (snd (updateLead h u r)) = leadAssignmentRules r"
  "leadAssignmentRuleTeams (snd (updateLead h u r)) = leadAssignmentRuleTeams r"
  "leadAssignmentRuleCursors (snd (updateLead h u r)) = leadAssignmentRuleCursors r"
  "leadAssignmentApplyRequests (snd (updateLead h u r)) = leadAssignmentApplyRequests r"
  by (auto simp: updateLead_def update_commit_def Let_def add_activity_eq split: option.splits sum.splits)

lemma updateLead_teams:
  "map_get (leads r) (ulo_leadId u) = Some l \<Longrightarrow> i \<noteq> lead_id l \<Longrightarrow>
   map_get (leadTeams (snd (updateLead h u r))) i = map_get (leadTeams r) i"
  by (auto simp: updateLead_def update_commit_def Let_def add_activity_eq store_simps split: option.splits sum.splits)

lemma updateLead_same_rules: "same_rules r (snd (updateLead h u r))"
  by (auto simp: same_rules_def frame_simps) (auto simp: updateLead_def update_commit_def Let_def add_activity_eq split: option.splits sum.splits)

text \<open>Handing a matched lead to the owner its rule names always goes through.\<close>

lemma owner_assignable:
  assumes un: "unassigned_lead o' l r"
    and ru: "first_rule h (rac_organizationId o') (rac_scope o') l r = Some ru"
    and e: "js_at (ar_employeeIds ru) (owner_position ru c) = Some e"
  shows "validateLeadAssignment (rac_organizationId o') (rac_scope o') e r \<noteq> None"
proof -
  obtain e' emp where o: "js_at (ar_employeeIds ru) (owner_position ru c) = Some e'"
    "map_get (employees r) e' = Some emp" "emp_organizationId emp = rac_organizationId o'" "emp_status emp = EmpActive"
    "emp_team emp = lead_team l r" "canAccessTeam (rac_scope o') (lead_team l r) r"
    using first_rule_owner[OF ru] by metis
  then have "e' = e" using e by simp
  then show ?thesis using o un
    by (auto simp: validateLeadAssignment_def canAccessTeam_def unassigned_lead_def canAccessLead_def
        split: lead_access_scope.splits)
qed


lemma detail_builds: "lead_ok h r l \<Longrightarrow> \<exists>d. buildLeadDetail h l ts r = Inr d"
  using lead_ok_item[of h r l ts] by (auto simp: buildLeadDetail_def Let_def)

lemma assign_change_assigns:
  "lead_assignedEmployeeId (touch_lead ts a (stamp_outcomes s ts (apply_changes (assign_change e) ts l))) = Some e"
  by (simp add: touch_lead_def stamp_outcomes_def apply_changes_def assign_change_def set_optional_def)

lemma assign_options_simps [simp]:
  "ulo_organizationId (assign_options o' l e) = rac_organizationId o'" "ulo_scope (assign_options o' l e) = rac_scope o'"
  "ulo_leadId (assign_options o' l e) = lead_id l" "ulo_canAssign (assign_options o' l e)"
  "ulr_expectedVersion (ulo_request (assign_options o' l e)) = lead_version l"
  "ulr_changes (ulo_request (assign_options o' l e)) = assign_change e"
  by (simp_all add: assign_options_def)

lemma truncate_simps [simp]:
  "rac_organizationId (rule_access.truncate o') = rac_organizationId o'"
  "rac_scope (rule_access.truncate o') = rac_scope o'"
  by (simp_all add: rule_access.defs)

lemma assignment_goes_through:
  assumes inv: "lead_inv h r" and l: "map_get (leads r) (lead_id l) = Some l"
    and un: "unassigned_lead (rule_access.truncate o') l r"
    and ok: "validateLeadAssignment (rac_organizationId o') (rac_scope o') e r \<noteq> None"
  obtains d l' r' where "updateLead h (assign_options o' l e) r = (Inr (Some d), r')"
    "leads r' = map_set (lead_id l) l' (leads r)" "lead_assignedEmployeeId l' = Some e"
    "lead_inv h r'" "same_rules r r'" "\<And>k. k \<noteq> lead_id l \<Longrightarrow> map_get (leadTeams r') k = map_get (leadTeams r) k"
proof -
  let ?u = "assign_options o' l e"
  obtain res r' where run: "updateLead h ?u r = (res, r')" by fastforce
  have inv': "lead_inv h r'" using lead_inv_updateLead[OF inv, of ?u] run by simp
  have allowed: "changes_allowed ?u r" using ok by (auto simp: changes_allowed_def assign_change_def Let_def)
  have commit: "update_commit h ?u l r = (res, r')"
    using run l un allowed by (simp add: updateLead_def unassigned_lead_def)
  have org: "lead_organizationId l = ulo_organizationId ?u" using un by (simp add: unassigned_lead_def)
  have l': "map_get (leads r) (ulo_leadId ?u) = Some l" using l by simp
  show ?thesis
    using inv l' org allowed commit
  proof (rule update_commitE)
    fix s l2
    assume u: "l2 = touch_lead (ulo_at ?u) (ulo_actorUserId ?u) (stamp_outcomes s (ulo_at ?u)
        (apply_changes (ulr_changes (ulo_request ?u)) (ulo_at ?u) l))"
      "leads r' = map_set (ulo_leadId ?u) l2 (leads r)"
      "res = map_sum id Some (buildLeadDetail h l2 (ulo_at ?u) r')"
    have "map_get (leads r') (lead_id l) = Some l2" using u(2) by (simp add: store_simps)
    then have "lead_ok h r' l2" using lead_inv_lead[OF inv'] by blast
    then obtain d where "buildLeadDetail h l2 (ulo_at ?u) r' = Inr d" using detail_builds by blast
    then have d: "res = Inr (Some d)" using u(3) by simp
    have a: "lead_assignedEmployeeId l2 = Some e" unfolding u(1) by (simp add: assign_change_assigns)
    have s: "same_rules r r'" using updateLead_same_rules[of r h ?u] run by simp
    have tm: "map_get (leadTeams r') k = map_get (leadTeams r) k" if "k \<noteq> lead_id l" for k
      using updateLead_teams[OF l' that, of h] run by simp
    have lw: "leads r' = map_set (lead_id l) l2 (leads r)" using u(2) by simp
    show ?thesis by (rule that[OF _ lw a inv' s tm]) (use run d in simp_all)
  qed
qed

text \<open>The lead a key holds after a run that made the assignments of \<open>P\<close>.\<close>

definition assigned_by :: "(string \<times> string) list \<Rightarrow> string \<Rightarrow> lead option \<Rightarrow> lead option \<Rightarrow> bool" where
  "assigned_by P k old new \<longleftrightarrow> (case map_of P k of None \<Rightarrow> new = old
     | Some e \<Rightarrow> \<exists>l'. new = Some l' \<and> lead_assignedEmployeeId l' = Some e)"

lemma apply_leads_plan:
  assumes "lead_inv h r" "nameless r" "distinct ks" "set ks \<subseteq> dom (map_get (leads r))"
    and "P = plan h (rule_access.truncate o') r (ap_cursors p) (map (\<lambda>k. the (map_get (leads r) k)) ks)"
  shows "\<exists>p' r'. apply_leads h o' ks p r = (Inr p', r') \<and> ap_applied p' = ap_applied p + length P
    \<and> lead_inv h r' \<and> (\<forall>k. assigned_by P k (map_get (leads r) k) (map_get (leads r') k))"
  using assms
proof (induction ks arbitrary: r p P)
  case Nil
  then show ?case by (simp add: assigned_by_def)
next
  case (Cons k ks)
  let ?o = "rule_access.truncate o'"
  from Cons.prems(4) obtain l where lk: "map_get (leads r) k = Some l" by auto
  have id: "lead_id l = k" using lead_inv_lead[OF Cons.prems(1) lk] by simp
  have rest: "set ks \<subseteq> dom (map_get (leads r))" "distinct ks" "k \<notin> set ks" using Cons.prems(3,4) by auto
  let ?ls = "map (\<lambda>k. the (map_get (leads r) k)) ks"
  show ?case
  proof (cases "unassigned_lead ?o l r \<and> first_rule h (rac_organizationId o') (rac_scope o') l r \<noteq> None")
    case False
    have P: "P = plan h ?o r (ap_cursors p) ?ls" using False Cons.prems(5) lk by auto
    have "apply_lead h o' k p r = (Inr p, r)" using False lk by (auto simp: apply_lead_def)
    then show ?thesis using Cons.IH[OF Cons.prems(1,2) rest(2,1) P] by simp
  next
    case True
    then obtain ru where un: "unassigned_lead ?o l r"
      and ru: "first_rule h (rac_organizationId o') (rac_scope o') l r = Some ru" by blast
    define c where "c = cursor_of (ap_cursors p) (ar_id ru) r"
    define e where "e = ar_employeeIds ru ! owner_position ru c"
    obtain i emp where o: "js_at (ar_employeeIds ru) (owner_position ru c) = Some i" "map_get (employees r) i = Some emp"
      using first_rule_owner[OF ru] by metis
    then have e: "js_at (ar_employeeIds ru) (owner_position ru c) = Some e" "e \<noteq> []"
      using Cons.prems(2) by (auto simp: js_at_def nameless_def e_def split: if_splits)
    have val: "validateLeadAssignment (rac_organizationId o') (rac_scope o') e r \<noteq> None"
      using owner_assignable[OF un _ e(1), of h] ru by simp
    have l: "map_get (leads r) (lead_id l) = Some l" using lk id by simp
    obtain d l' s where u: "updateLead h (assign_options o' l e) r = (Inr (Some d), s)"
      "leads s = map_set (lead_id l) l' (leads r)" "lead_assignedEmployeeId l' = Some e"
      "lead_inv h s" "same_rules r s" "\<And>k. k \<noteq> lead_id l \<Longrightarrow> map_get (leadTeams s) k = map_get (leadTeams r) k"
      using assignment_goes_through[OF Cons.prems(1) l un val] by metis
    obtain q where q: "apply_lead h o' k p r = (Inr q, s)" "ap_applied q = Suc (ap_applied p)"
      "ap_cursors q = advance ru c (ap_cursors p)"
      using un ru e lk u(1) by (simp add: apply_lead_def Let_def c_def[symmetric] advance_def)
    have leads: "map_get (leads s) j = map_get (leads r) j" if "j \<noteq> k" for j using that u(2) id by (simp add: store_simps)
    have same: "map (\<lambda>k. the (map_get (leads s) k)) ks = ?ls" using rest(3) leads by (intro map_cong refl) metis
    have "same_team r s x" if x: "x \<in> set ?ls" for x
    proof -
      obtain j y where j: "j \<in> set ks" "map_get (leads r) j = Some y" "x = y" using x rest(1) by fastforce
      then have "lead_id x = j" using lead_inv_lead[OF Cons.prems(1)] by blast
      then have "lead_id x \<noteq> lead_id l" using j(1) rest(3) id by auto
      then show ?thesis using u(6) by (simp add: same_team_def)
    qed
    then have Q: "plan h ?o r (advance ru c (ap_cursors p)) ?ls
        = plan h ?o s (ap_cursors q) (map (\<lambda>k. the (map_get (leads s) k)) ks)"
      using plan_cong[OF u(5), of ?ls] by (simp add: same q(3))
    have P: "P = (k, e) # plan h ?o r (advance ru c (ap_cursors p)) ?ls"
      using Cons.prems(5) un ru lk id by (simp add: Let_def c_def e_def)
    have "nameless s" "set ks \<subseteq> dom (map_get (leads s))"
    proof -
      show "nameless s" using Cons.prems(2) u(5) by (simp add: nameless_def same_rules_def)
      have "map_get (leads s) x = map_get (leads r) x" if "x \<in> set ks" for x using that rest(3) by (intro leads) auto
      then show "set ks \<subseteq> dom (map_get (leads s))" using rest(1) by fastforce
    qed
    then obtain p' r' where n: "apply_leads h o' ks q s = (Inr p', r')" "ap_applied p' = ap_applied q + length (tl P)"
      "lead_inv h r'" "\<forall>k. assigned_by (tl P) k (map_get (leads s) k) (map_get (leads r') k)"
      using Cons.IH[OF u(4) _ rest(2), of "tl P" q] P Q by auto
    have "map_of (tl P) k = None"
    proof -
      have "set (map fst (tl P)) \<subseteq> lead_id ` set ?ls" unfolding P list.sel by (rule plan_leads)
      also have "lead_id ` set ?ls \<subseteq> set ks"
        using rest(1) lead_inv_lead[OF Cons.prems(1)] by fastforce
      finally show ?thesis using rest(3) by (auto simp: map_of_eq_None_iff)
    qed
    then have "map_get (leads r') k = Some l'"
      using n(4) u(2) id by (auto simp: assigned_by_def store_simps dest!: spec[of _ k])
    then have "assigned_by P j (map_get (leads r) j) (map_get (leads r') j)" for j
      using n(4)[rule_format, of j] u(3) leads[of j] by (cases "j = k") (auto simp: P assigned_by_def split: option.splits)
    then show ?thesis using n(1-3) q by (auto simp: P)
  qed
qed


text \<open>How often an owner occurs in the plan is how many leads became theirs.\<close>

definition newly_assigned :: "'a lead_state_scheme \<Rightarrow> 'a lead_state_scheme \<Rightarrow> string \<Rightarrow> string set" where
  "newly_assigned r r' e = {k. \<exists>l l'. map_get (leads r) k = Some l \<and> map_get (leads r') k = Some l'
     \<and> lead_assignedEmployeeId l \<noteq> Some e \<and> lead_assignedEmployeeId l' = Some e}"

lemma count_second: "distinct (map fst P) \<Longrightarrow> count_list (map snd P) e = card {k. map_of P k = Some e}"
proof (induction P)
  case (Cons x P)
  obtain k v where x: "x = (k, v)" by fastforce
  have fr: "map_of P k = None" using Cons.prems by (simp add: x map_of_eq_None_iff)
  have "{j. map_of (x # P) j = Some e} = (if v = e then insert k else id) {j. map_of P j = Some e}"
    using fr by (auto simp: x)
  moreover have "finite {j. map_of P j = Some e}"
    by (rule finite_subset[of _ "dom (map_of P)"]) (auto simp: finite_dom_map_of)
  moreover have "k \<notin> {j. map_of P j = Some e}" using fr by simp
  moreover have "count_list (map snd P) e = card {j. map_of P j = Some e}" using Cons by simp
  ultimately have "card {j. map_of (x # P) j = Some e} = (if v = e then 1 else 0) + count_list (map snd P) e"
    by (simp split: if_split)
  then show ?case by (simp add: x del: map_of.simps)
qed simp

lemma plan_entry:
  assumes "nameless r" "(k, e) \<in> set (plan h o' r cs ls)"
  shows "e \<noteq> [] \<and> (\<exists>l\<in>set ls. lead_id l = k \<and> \<not> truthy (lead_assignedEmployeeId l))"
  using assms(2)
proof (induction ls arbitrary: cs)
  case (Cons l ls)
  show ?case
  proof (cases "unassigned_lead o' l r \<and> first_rule h (rac_organizationId o') (rac_scope o') l r \<noteq> None")
    case True
    then obtain ru where un: "unassigned_lead o' l r"
      and ru: "first_rule h (rac_organizationId o') (rac_scope o') l r = Some ru" by blast
    let ?c = "cursor_of cs (ar_id ru) r"
    obtain i emp where "js_at (ar_employeeIds ru) (owner_position ru ?c) = Some i" "map_get (employees r) i = Some emp"
      using first_rule_owner[OF ru] by metis
    then have "ar_employeeIds ru ! owner_position ru ?c \<noteq> []"
      using assms(1) by (auto simp: js_at_def nameless_def split: if_splits)
    then show ?thesis using Cons un ru by (auto simp: Let_def unassigned_lead_def)
  next
    case False
    then have "plan h o' r cs (l # ls) = plan h o' r cs ls" by auto
    then show ?thesis using Cons.IH[of cs] Cons.prems by auto
  qed
qed simp

lemma store_cursors_frame [frame_simps]:
  "leads (store_cursors a ts cs is r) = leads r" "leadAssignmentApplyRequests (store_cursors a ts cs is r) = leadAssignmentApplyRequests r"
  by (induction "is" arbitrary: r) (simp_all add: store_cursors_def store_cursor_def split: option.split)


section \<open>Round robin is fair\<close>

text \<open>\<open>ru\<close> shares no owner with any other rule.\<close>

definition owns_alone :: "'a rule_state_scheme \<Rightarrow> assignment_rule \<Rightarrow> bool" where
  "owns_alone r ru \<longleftrightarrow> (\<forall>ru'\<in>set (map_values (leadAssignmentRules r)).
     ru' = ru \<or> set (ar_employeeIds ru') \<inter> set (ar_employeeIds ru) = {})"

lemma residues_head:
  "card {i. i < Suc n \<and> (c + i) mod m = j} = (if c mod m = j then 1 else 0) + card {i. i < n \<and> (Suc c + i) mod m = (j :: nat)}"
proof -
  have "{i. i < Suc n \<and> (c + i) mod m = j} = (if c mod m = j then {0} else {}) \<union> Suc ` {i. i < n \<and> (Suc c + i) mod m = j}"
    by (auto simp: image_def less_Suc_eq_0_disj)
  moreover have "card (Suc ` {i. i < n \<and> (Suc c + i) mod m = j}) = card {i. i < n \<and> (Suc c + i) mod m = j}"
    by (rule card_image) simp
  ultimately show ?thesis by (auto simp: card_insert_if)
qed

text \<open>The owners of a round-robin rule are used cyclically, from the cursor on.\<close>

lemma plan_cyclic:
  assumes keys: "keyed ar_id (leadAssignmentRules r)" and ru: "ru \<in> set (map_values (leadAssignmentRules r))"
    and rr: "ar_strategy ru = RoundRobin" and d: "distinct (ar_employeeIds ru)" and alone: "owns_alone r ru"
  shows "\<exists>n. \<forall>j < length (ar_employeeIds ru).
    count_list (map snd (plan h o' r cs ls)) (ar_employeeIds ru ! j)
      = card {i. i < n \<and> (cursor_of cs (ar_id ru) r + i) mod length (ar_employeeIds ru) = j}"
proof (induction ls arbitrary: cs)
  case Nil
  show ?case by (intro exI[of _ 0]) simp
next
  case (Cons l ls)
  let ?es = "ar_employeeIds ru" and ?m = "length (ar_employeeIds ru)"
  show ?case
  proof (cases "unassigned_lead o' l r \<and> first_rule h (rac_organizationId o') (rac_scope o') l r \<noteq> None")
    case False
    then have "plan h o' r cs (l # ls) = plan h o' r cs ls" by auto
    then show ?thesis using Cons.IH by simp
  next
    case True
    then obtain rv where un: "unassigned_lead o' l r"
      and rv: "first_rule h (rac_organizationId o') (rac_scope o') l r = Some rv" by blast
    let ?c = "cursor_of cs (ar_id rv) r"
    let ?cs = "advance rv ?c cs" and ?e = "ar_employeeIds rv ! owner_position rv ?c"
    have P: "plan h o' r cs (l # ls) = (lead_id l, ?e) # plan h o' r ?cs ls" using un rv by (simp add: Let_def)
    obtain n where n: "\<forall>j < ?m. count_list (map snd (plan h o' r ?cs ls)) (?es ! j)
        = card {i. i < n \<and> (cursor_of ?cs (ar_id ru) r + i) mod ?m = j}" using Cons.IH by blast
    have rvin: "rv \<in> set (map_values (leadAssignmentRules r))" using first_ruleD(1)[OF rv] .
    obtain emp where "js_at (ar_employeeIds rv) (owner_position rv ?c) = Some ?e"
      using first_rule_owner[OF rv, of ?c] by (metis js_at_def option.discI option.sel)
    then have e: "?e \<in> set (ar_employeeIds rv)" "owner_position rv ?c < length (ar_employeeIds rv)"
      by (auto simp: js_at_def split: if_splits)
    show ?thesis
    proof (cases "rv = ru")
      case True
      have "cursor_of ?cs (ar_id ru) r = Suc ?c" using True rr by (simp add: advance_def cursor_of_def store_simps)
      moreover have "?e = ?es ! j \<longleftrightarrow> ?c mod ?m = j" if "j < ?m" for j
        using e(2) True rr d that by (simp add: owner_position_def nth_eq_iff_index_eq)
      ultimately show ?thesis using n True
        by (intro exI[of _ "Suc n"]) (simp only: P residues_head, simp)
    next
      case False
      have "map_get (leadAssignmentRules r) (ar_id ru) = Some ru" "map_get (leadAssignmentRules r) (ar_id rv) = Some rv"
        using ru rvin in_values_iff[OF keyed_wf[OF keys]] keyedD[OF keys] by metis+
      then have "ar_id rv \<noteq> ar_id ru" using False by auto
      then have "cursor_of ?cs (ar_id ru) r = cursor_of cs (ar_id ru) r"
        by (simp add: advance_def cursor_of_def store_simps)
      moreover have "?e \<noteq> ?es ! j" if "j < ?m" for j
        using alone rvin e(1) False nth_mem[OF that] unfolding owns_alone_def by fastforce
      ultimately show ?thesis using n by (intro exI[of _ n]) (simp only: P, simp)
    qed
  qed
qed

text \<open>
  C31: A round-robin rule shares its leads evenly: when its owners are pairwise distinct and no
  other rule names them, the numbers of leads a run gives to any two of them differ by at most one.
\<close>

theorem round_robin_fair:
  assumes "nameless r" "keyed ar_id (leadAssignmentRules r)" "map_get (leadAssignmentRules r) i = Some ru"
    and "ar_strategy ru = RoundRobin" "distinct (ar_employeeIds ru)" "owns_alone r ru"
    and "e1 \<in> set (ar_employeeIds ru)" "e2 \<in> set (ar_employeeIds ru)"
  shows "tally (dr_distribution (dryRunLeadAssignmentRules h o' r)) e1
     \<le> Suc (tally (dr_distribution (dryRunLeadAssignmentRules h o' r)) e2)"
proof -
  let ?m = "length (ar_employeeIds ru)"
  obtain n where n: "\<forall>j < ?m. count_list (map snd (plan h o' r [] (map_values (leads r)))) (ar_employeeIds ru ! j)
      = card {i. i < n \<and> (cursor_of [] (ar_id ru) r + i) mod ?m = j}"
    using plan_cyclic[OF assms(2) map_of_in_values[OF assms(3)] assms(4-6)] by blast
  have m: "0 < ?m" using assms(7) by (rule length_pos_if_in_set)
  have "tally (dr_distribution (dryRunLeadAssignmentRules h o' r)) e \<in> {n div ?m, Suc (n div ?m)}"
    if mem: "e \<in> set (ar_employeeIds ru)" for e
  proof -
    obtain j where j: "j < ?m" "e = ar_employeeIds ru ! j" using mem by (auto simp: in_set_conv_nth)
    show ?thesis using n[rule_format, OF j(1)] residues_even[OF m j(1), of n "cursor_of [] (ar_id ru) r"]
      by (simp only: dry_run_plan(2)[OF assms(1)] j(2))
  qed
  from this[OF assms(7)] this[OF assms(8)] show ?thesis by auto
qed

text \<open>
  The dry run accounts for every lead: matched and unmatched leads together are exactly the
  accessible, unassigned, unarchived leads of the organization, and its distribution adds up to
  the matched ones.
\<close>

theorem dry_run_accounts:
  assumes no: "nameless r"
  shows "dr_matchedLeads (dryRunLeadAssignmentRules h o' r) + dr_unmatchedLeads (dryRunLeadAssignmentRules h o' r)
      = length (filter (\<lambda>l. unassigned_lead o' l r) (map_values (leads r)))
    \<and> (\<Sum>e\<in>set (map_keys (dr_distribution (dryRunLeadAssignmentRules h o' r))).
        tally (dr_distribution (dryRunLeadAssignmentRules h o' r)) e) = dr_matchedLeads (dryRunLeadAssignmentRules h o' r)"
proof -
  let ?D = "dr_distribution (dryRunLeadAssignmentRules h o' r)"
  let ?P = "map snd (plan h o' r [] (map_values (leads r)))"
  have "set ?P \<subseteq> set (map_keys ?D)"
  proof
    fix e assume "e \<in> set ?P"
    then have "tally ?D e \<noteq> 0" by (simp only: dry_run_plan(2)[OF no] count_list_0_iff) simp
    then show "e \<in> set (map_keys ?D)"
      by (cases "map_get ?D e") (auto simp: tally_def map_keys_def dest!: map_of_SomeD intro: rev_image_eqI)
  qed
  then have "(\<Sum>e\<in>set (map_keys ?D). tally ?D e) = length ?P"
    by (simp only: dry_run_plan(2)[OF no]) (rule sum_count_set, simp_all)
  then show ?thesis using dry_run_plan(1,3)[OF no, of h o'] by simp
qed

section \<open>Retried applications\<close>

interpretation rule_application: idempotent_request "applyLeadAssignmentRules h" "\<lambda>_ _. True"
  "\<lambda>o' r. map_get (leadAssignmentApplyRequests r) (apply_key o')" "\<lambda>o' p. apc_fingerprint p = apo_requestFingerprint o'"
  "\<lambda>p. (apc_result p)\<lparr>apr_replayed := True\<rparr>" "\<lambda>v. v\<lparr>apr_replayed := True\<rparr>" for h
  by unfold_locales
    (auto simp: applyLeadAssignmentRules_def Let_def store_simps apply_key_def split: option.splits sum.splits prod.splits)

section \<open>The rule book\<close>

text \<open>Every rule is stored under its identifier, names at least one owner and none twice, and has a team.\<close>

definition rule_ok :: "'a rule_state_scheme \<Rightarrow> assignment_rule \<Rightarrow> bool" where
  "rule_ok r ru \<longleftrightarrow> ar_employeeIds ru \<noteq> [] \<and> distinct (ar_employeeIds ru)
     \<and> truthy (map_get (leadAssignmentRuleTeams r) (ar_id ru))"

definition rule_inv :: "'a rule_state_scheme \<Rightarrow> bool" where
  "rule_inv r \<longleftrightarrow> keyed ar_id (leadAssignmentRules r)
     \<and> ids_fresh ''lead_assignment_rule'' (ids r) (leadAssignmentRules r)
     \<and> (\<forall>i ru. map_get (leadAssignmentRules r) i = Some ru \<longrightarrow> rule_ok r ru)"

text \<open>How a rule may change: never its team, its organization or its author, and never back in version.\<close>

definition rule_advances :: "assignment_rule \<Rightarrow> assignment_rule \<Rightarrow> bool" where
  "rule_advances ru ru' \<longleftrightarrow> ar_organizationId ru' = ar_organizationId ru \<and> ar_createdByUserId ru' = ar_createdByUserId ru
     \<and> ar_version ru \<le> ar_version ru' \<and> (ar_employeeIds ru' \<noteq> ar_employeeIds ru \<longrightarrow> ar_version ru < ar_version ru')"

definition rule_kept :: "'a rule_state_scheme \<Rightarrow> 'a rule_state_scheme \<Rightarrow> bool" where
  "rule_kept r r' \<longleftrightarrow> (\<forall>i ru. map_get (leadAssignmentRules r) i = Some ru \<longrightarrow>
     map_get (leadAssignmentRuleTeams r') i = map_get (leadAssignmentRuleTeams r) i
     \<and> (\<exists>ru'. map_get (leadAssignmentRules r') i = Some ru' \<and> rule_advances ru ru'))"

inductive rule_step :: "host \<Rightarrow> 'a rule_state_scheme \<Rightarrow> 'a rule_state_scheme \<Rightarrow> bool" for h where
  step_create_rule: "rule_step h r (snd (createLeadAssignmentRule o' inp r))"
| step_update_rule: "rule_step h r (snd (updateLeadAssignmentRule o' i u r))"
| step_apply_rules: "rule_step h r (snd (applyLeadAssignmentRules h a r))"
| step_other: "same_rules r r' \<Longrightarrow> ids r \<le> ids r' \<Longrightarrow> rule_step h r r'"

lemma rule_advances_refl [simp]: "rule_advances ru ru"
  by (simp add: rule_advances_def)

lemma rule_advances_trans: "rule_advances x y \<Longrightarrow> rule_advances y z \<Longrightarrow> rule_advances x z"
  by (auto simp: rule_advances_def)

lemma rule_kept_refl [simp]: "rule_kept r r"
  by (simp add: rule_kept_def)

lemma rule_keptD:
  "rule_kept r s \<Longrightarrow> map_get (leadAssignmentRules r) i = Some ru \<Longrightarrow>
   map_get (leadAssignmentRuleTeams s) i = map_get (leadAssignmentRuleTeams r) i
   \<and> (\<exists>ru'. map_get (leadAssignmentRules s) i = Some ru' \<and> rule_advances ru ru')"
  by (simp add: rule_kept_def)

lemma rule_kept_trans: assumes "rule_kept r s" "rule_kept s t" shows "rule_kept r t"
  unfolding rule_kept_def
proof (intro allI impI)
  fix i ru assume ru: "map_get (leadAssignmentRules r) i = Some ru"
  from rule_keptD[OF assms(1) this] obtain ru' where 1: "map_get (leadAssignmentRules s) i = Some ru'" "rule_advances ru ru'"
    "map_get (leadAssignmentRuleTeams s) i = map_get (leadAssignmentRuleTeams r) i" by blast
  from rule_keptD[OF assms(2) 1(1)] 1 show "map_get (leadAssignmentRuleTeams t) i = map_get (leadAssignmentRuleTeams r) i
     \<and> (\<exists>ru'. map_get (leadAssignmentRules t) i = Some ru' \<and> rule_advances ru ru')"
    by (auto intro: rule_advances_trans)
qed

lemma rule_inv_id: "rule_inv r \<Longrightarrow> map_get (leadAssignmentRules r) i = Some ru \<Longrightarrow> ar_id ru = i \<and> rule_ok r ru"
  by (auto simp: rule_inv_def dest: keyedD)

lemma same_rules_kept:
  assumes "same_rules r s" "ids r \<le> ids s" "rule_inv r"
  shows "rule_inv s \<and> rule_kept r s"
  using assms by (auto simp: rule_inv_def rule_kept_def same_rules_def rule_ok_def intro: ids_fresh_mono)

text \<open>Rewriting one rule in place.\<close>

lemma rule_write:
  assumes inv: "rule_inv r" and ru: "map_get (leadAssignmentRules r) i = Some ru"
    and s: "leadAssignmentRules s = map_set i ru' (leadAssignmentRules r)" "ids s = ids r"
      "\<And>j. map_get (leadAssignmentRuleTeams s) j = map_get (leadAssignmentRuleTeams r) j"
    and ru': "ar_id ru' = ar_id ru" "ar_organizationId ru' = ar_organizationId ru"
      "ar_createdByUserId ru' = ar_createdByUserId ru" "ar_version ru < ar_version ru'"
      "ar_employeeIds ru' \<noteq> []" "distinct (ar_employeeIds ru')"
  shows "rule_inv s \<and> rule_kept r s"
proof -
  have id: "ar_id ru = i" "truthy (map_get (leadAssignmentRuleTeams r) i)"
    using rule_inv_id[OF inv ru] by (auto simp: rule_ok_def)
  have "rule_inv s"
    using inv id ru' ru
    by (auto simp: rule_inv_def s store_simps rule_ok_def intro!: keyed_put ids_fresh_update_present)
  moreover have "rule_kept r s" using ru ru' by (auto simp: rule_kept_def rule_advances_def s store_simps)
  ultimately show ?thesis ..
qed

lemma create_rule_kept:
  assumes inv: "rule_inv r" shows "rule_inv (snd (createLeadAssignmentRule o' inp r)) \<and> rule_kept r (snd (createLeadAssignmentRule o' inp r))"
proof (cases "fst (createLeadAssignmentRule o' inp r)")
  case None
  then have "snd (createLeadAssignmentRule o' inp r) = r"
    by (auto simp: createLeadAssignmentRule_def Let_def split: prod.splits)
  then show ?thesis using inv by simp
next
  case (Some ru)
  let ?i = "sequential_id ''lead_assignment_rule'' (Suc (ids r))"
  let ?s = "snd (createLeadAssignmentRule o' inp r)"
  have s: "leadAssignmentRules ?s = map_set ?i (new_rule o' inp ?i) (leadAssignmentRules r)" "ids ?s = Suc (ids r)"
    "leadAssignmentRuleTeams ?s = map_set ?i (the (first_team (cri_employeeIds inp) r)) (leadAssignmentRuleTeams r)"
    "distinct (cri_employeeIds inp)" "truthy (first_team (cri_employeeIds inp) r)"
    using Some by (auto simp: createLeadAssignmentRule_def Let_def next_id_eq split: if_splits)
  have fresh: "map_get (leadAssignmentRules r) ?i = None" using inv by (auto simp: rule_inv_def intro: ids_fresh_next)
  have new: "ar_id (new_rule o' inp ?i) = ?i" "ar_employeeIds (new_rule o' inp ?i) = cri_employeeIds inp"
    by (simp_all add: new_rule_def)
  have "cri_employeeIds inp \<noteq> []" using s(5) by (auto simp: first_team_def)
  then have "rule_ok ?s (new_rule o' inp ?i)" using s(4,5) by (auto simp: rule_ok_def new s(3) store_simps elim!: truthyE)
  moreover have "rule_ok ?s ru" if "map_get (leadAssignmentRules r) j = Some ru" for j ru
    using rule_inv_id[OF inv that] that fresh by (auto simp: rule_ok_def s(3) store_simps)
  ultimately have "rule_inv ?s"
    using inv new by (auto simp: rule_inv_def s(1,2) store_simps intro!: keyed_put ids_fresh_put split: if_splits)
  moreover have "rule_kept r ?s" using fresh by (auto simp: rule_kept_def s(1,3) store_simps)
  ultimately show ?thesis ..
qed

lemma change_rule_simps [simp]:
  "ar_id (change_rule o' u ru) = ar_id ru" "ar_organizationId (change_rule o' u ru) = ar_organizationId ru"
  "ar_createdByUserId (change_rule o' u ru) = ar_createdByUserId ru" "ar_version (change_rule o' u ru) = ar_version ru + 1"
  "ar_employeeIds (change_rule o' u ru) = set_plain (uri_employeeIds u) (ar_employeeIds ru)"
  by (simp_all add: change_rule_def)

text \<open>An operation that committed passed each guard before its writes.\<close>

lemma committed_iff:
  "(if P then (Inr None, r) else y) = (Inr (Some v), s) \<longleftrightarrow> \<not> P \<and> y = (Inr (Some v), s)"
  "(if P then (Inl e, r) else y) = (Inr (Some v), s) \<longleftrightarrow> \<not> P \<and> y = (Inr (Some v), s)"
  "(Inr (Some w), r) = (Inr (Some v), s) \<longleftrightarrow> w = v \<and> s = r"
  by auto

lemma guarded_state:
  "snd (if A then (a, r) else if B then (b, r) else if C then (c, r) else if D then (d, r)
     else if E then (e, r) else if F then (f, r) else (Inr (Some v), s)) = r
   \<or> (\<exists>w. fst (if A then (a, r) else if B then (b, r) else if C then (c, r) else if D then (d, r)
     else if E then (e, r) else if F then (f, r) else (Inr (Some v), s)) = Inr (Some w))"
  by simp

lemma update_rule_kept:
  assumes inv: "rule_inv r"
  shows "rule_inv (snd (updateLeadAssignmentRule o' i u r)) \<and> rule_kept r (snd (updateLeadAssignmentRule o' i u r))"
proof (cases "\<exists>v. fst (updateLeadAssignmentRule o' i u r) = Inr (Some v)")
  case False
  moreover have "snd (updateLeadAssignmentRule o' i u r) = r \<or> (\<exists>v. fst (updateLeadAssignmentRule o' i u r) = Inr (Some v))"
  proof (cases "map_get (leadAssignmentRules r) i")
    case (Some ru)
    show ?thesis unfolding updateLeadAssignmentRule_def Let_def Some option.case by (rule guarded_state)
  qed (simp add: updateLeadAssignmentRule_def)
  ultimately show ?thesis using inv by auto
next
  case True
  then obtain v s where run: "updateLeadAssignmentRule o' i u r = (Inr (Some v), s)"
    by (metis prod.collapse)
  then obtain ru where ru: "map_get (leadAssignmentRules r) i = Some ru"
    by (auto simp: updateLeadAssignmentRule_def split: option.splits)
  let ?owners = "set_plain (uri_employeeIds u) (ar_employeeIds ru)"
  have s: "leadAssignmentRules s = map_set i (change_rule o' u ru) (leadAssignmentRules r)" "ids s = ids r"
    "leadAssignmentRuleTeams s = map_set (ar_id ru) (the (first_team ?owners r)) (leadAssignmentRuleTeams r)"
    "distinct ?owners" "truthy (first_team ?owners r)" "map_get (leadAssignmentRuleTeams r) (ar_id ru) = first_team ?owners r"
  proof -
    have "s = r\<lparr>leadAssignmentRules := map_set i (change_rule o' u ru) (leadAssignmentRules r),
        leadAssignmentRuleTeams := map_set (ar_id ru) (the (first_team ?owners r)) (leadAssignmentRuleTeams r)\<rparr>
      \<and> distinct ?owners \<and> truthy (first_team ?owners r)
      \<and> map_get (leadAssignmentRuleTeams r) (ar_id ru) = first_team ?owners r"
      using run unfolding updateLeadAssignmentRule_def Let_def ru option.case committed_iff by blast
    then show "leadAssignmentRules s = map_set i (change_rule o' u ru) (leadAssignmentRules r)" "ids s = ids r"
      "leadAssignmentRuleTeams s = map_set (ar_id ru) (the (first_team ?owners r)) (leadAssignmentRuleTeams r)"
      "distinct ?owners" "truthy (first_team ?owners r)" "map_get (leadAssignmentRuleTeams r) (ar_id ru) = first_team ?owners r"
      by simp_all
  qed
  have "?owners \<noteq> []" using s(5) by (auto simp: first_team_def)
  moreover have "map_get (leadAssignmentRuleTeams s) j = map_get (leadAssignmentRuleTeams r) j" for j
    using s(5,6) by (auto simp: s(3) store_simps elim!: truthyE)
  ultimately have "rule_inv s \<and> rule_kept r s" using s(4) by (intro rule_write[OF inv ru s(1,2)]) simp_all
  then show ?thesis by (simp add: run)
qed

lemma store_cursor_kept:
  assumes inv: "rule_inv r"
  shows "rule_inv (store_cursor a ts cs i r) \<and> rule_kept r (store_cursor a ts cs i r)"
proof (cases "map_get (leadAssignmentRules r) i")
  case None
  have "rule_inv (r\<lparr>leadAssignmentRuleCursors := X\<rparr>) \<and> rule_kept r (r\<lparr>leadAssignmentRuleCursors := X\<rparr>)" for X
    using inv by (auto simp: rule_inv_def rule_kept_def rule_ok_def)
  then show ?thesis using None inv by (auto simp: store_cursor_def map_modify_def split: option.split)
next
  case (Some ru)
  show ?thesis
  proof (cases "map_get cs i")
    case None
    then show ?thesis using inv by (simp add: store_cursor_def)
  next
    case (Some c)
    let ?ru = "ru\<lparr>ar_version := ar_version ru + 1, ar_updatedByUserId := a, ar_updatedAt := ts\<rparr>"
    note ru = \<open>map_get (leadAssignmentRules r) i = Some ru\<close>
    have "rule_ok r ru" using rule_inv_id[OF inv ru] by simp
    moreover have "leadAssignmentRules (store_cursor a ts cs i r) = map_set i ?ru (leadAssignmentRules r)"
      by (simp add: store_cursor_def Some map_modify_def ru)
    ultimately show ?thesis
      by (intro rule_write[OF inv ru, where ru' = ?ru]) (simp_all add: store_cursor_def Some rule_ok_def)
  qed
qed

lemma store_cursors_kept: "rule_inv r \<Longrightarrow> rule_inv (store_cursors a ts cs is r) \<and> rule_kept r (store_cursors a ts cs is r)"
proof (induction "is" arbitrary: r)
  case (Cons i "is")
  then show ?case using store_cursor_kept[OF Cons.prems, of a ts cs i]
    by (auto simp: store_cursors_def intro: rule_kept_trans)
qed (simp add: store_cursors_def)

lemma updateLead_ids: "ids r \<le> ids (snd (updateLead h u r))"
  by (auto simp: updateLead_def update_commit_def Let_def add_activity_eq split: option.splits sum.splits)

lemma same_rules_trans: "same_rules r s \<Longrightarrow> same_rules s t \<Longrightarrow> same_rules r t"
  by (simp add: same_rules_def)

lemma apply_lead_frame: "same_rules r (snd (apply_lead h o' k p r)) \<and> ids r \<le> ids (snd (apply_lead h o' k p r))"
  using updateLead_same_rules[of r h] updateLead_ids[of r h]
  by (auto simp: apply_lead_def Let_def same_rules_def split: option.split sum.split prod.split) (metis snd_conv)+

lemma apply_leads_frame: "same_rules r (snd (apply_leads h o' ks p r)) \<and> ids r \<le> ids (snd (apply_leads h o' ks p r))"
proof (induction ks arbitrary: p r)
  case (Cons k ks)
  obtain x s where a: "apply_lead h o' k p r = (x, s)" by fastforce
  have f: "same_rules r s" "ids r \<le> ids s" using apply_lead_frame[of r h o' k p] a by auto
  show ?case
  proof (cases x)
    case (Inr q)
    then show ?thesis using Cons.IH[of s q] f a by (auto intro: same_rules_trans)
  qed (use f a in simp)
qed (simp add: same_rules_def)

lemma apply_rules_kept:
  assumes inv: "rule_inv r"
  shows "rule_inv (snd (applyLeadAssignmentRules h o' r)) \<and> rule_kept r (snd (applyLeadAssignmentRules h o' r))"
proof -
  obtain x s where a: "apply_leads h o' (if apo_includeExistingUnassigned o' then map_keys (leads r) else []) no_progress r = (x, s)"
    by fastforce
  have s: "rule_inv s \<and> rule_kept r s"
    using same_rules_kept[OF _ _ inv] apply_leads_frame[of r h o' _ no_progress] a by (metis snd_conv)
  have "rule_inv (store_cursors b ts cs is s) \<and> rule_kept r (store_cursors b ts cs is s)" for b ts cs "is"
    using store_cursors_kept[of s] s by (blast intro: rule_kept_trans)
  moreover have "rule_inv (t\<lparr>leadAssignmentApplyRequests := X\<rparr>) \<and> rule_kept r (t\<lparr>leadAssignmentApplyRequests := X\<rparr>)"
    if "rule_inv t \<and> rule_kept r t" for t :: "'a rule_state_scheme" and X
    using that by (simp add: rule_inv_def rule_kept_def rule_ok_def)
  ultimately show ?thesis using s inv a
    by (auto simp: applyLeadAssignmentRules_def Let_def split: option.split sum.split)
qed

lemma rule_step_kept: "rule_step h r r' \<Longrightarrow> rule_inv r \<Longrightarrow> rule_inv r' \<and> rule_kept r r'"
  by (induction rule: rule_step.induct)
    (simp_all add: create_rule_kept update_rule_kept apply_rules_kept same_rules_kept)

text \<open>
  Whatever is created, updated and applied, every stored rule names at least one owner and
  none twice and has a team; a rule never disappears and never changes its team, organization or
  author, its version never goes back, and its owners change only with a new version.
\<close>

theorem rule_book_invariant:
  assumes "(rule_step h)\<^sup>*\<^sup>* r r'" and inv: "rule_inv r"
  shows "rule_inv r' \<and> rule_kept r r'"
  using assms(1)
proof (induction rule: rtranclp_induct)
  case (step s t)
  then show ?case using rule_step_kept[of h s t] by (blast intro: rule_kept_trans)
qed (simp add: inv)

text \<open>
  Retrying an application of the rules that succeeded, any number of times, assigns nothing
  more and answers the recorded numbers, marked as replayed.
\<close>

theorem apply_retry_idempotent:
  assumes "applyLeadAssignmentRules h o' r = (Inr (Some v), r')"
  shows "((\<lambda>s. snd (applyLeadAssignmentRules h o' s)) ^^ n) r' = r'
    \<and> applyLeadAssignmentRules h o' r' = (Inr (Some (v\<lparr>apr_replayed := True\<rparr>)), r')"
  using rule_application.retry_many[OF assms] rule_application.retry[OF assms] by simp

end
