(* ===== verification/Trust.thy ===== *)
theory Trust
  imports Pairing
begin

text \<open>
  The mobile trust protocol as a state machine: every operation that can touch a device, a
  credential or a pairing code is a step, and the facts below hold of every state reachable by
  steps in any order. A step carries what the callers in \<open>app.ts\<close> guarantee of its inputs:
  random credential identifiers and token hashes that are not in use, and a clock that prints
  a nonempty timestamp.
\<close>

section \<open>Inversions\<close>

named_theorems trust_frames \<open>what the protocol operations leave alone\<close>

lemma redeemE:
  assumes "redeemPairingCode h o' r = (res, r')"
  obtains (same) "r' = r"
  | (commit) rec e existing v where "r' = snd (redeem_commit o' rec e existing r)"
      "res = Inr (Some v)" "v = fst (redeem_commit o' rec e existing r)"
      "map_get (pairingRedemptions r) (ro_requestId o') = None"
      "\<exists>i. map_get (pairingCodeIdByHash r) (ro_codeHash o') = Some i \<and> map_get (pairingCodesById r) i = Some rec"
      "\<not> truthy (pc_revokedAt rec)" "\<not> truthy (pc_consumedAt rec)"
      "\<not> date_le h (pc_expiresAt rec) (ro_at o')"
      "map_get (employees r) (pc_employeeId rec) = Some e" "emp_organizationId e = pc_organizationId rec"
      "emp_status e \<notin> {EmpPaused, EmpDeactivated}"
      "pc_collectionMode rec = reg_collectionMode (ro_registration o')"
      "existing = None \<or> (\<exists>i d. existing = Some d \<and> map_get (devices r) i = Some d
         \<and> map_get (devicesByInstallation r) (key2 (pc_organizationId rec)
             (reg_installationId (ro_registration o'))) = Some i
         \<and> dev_employeeId d = pc_employeeId rec)"
proof (cases "r' = r")
  case True
  then show ?thesis by (rule same)
next
  case False
  with assms show ?thesis
    by (auto simp: redeemPairingCode_def bind_eq_Some_conv Let_def split_beta
        split: option.splits if_splits intro: commit)
qed

lemma policies_agree_None [simp]: "\<not> policies_agree None read accepted"
  by (simp add: policies_agree_def)

lemma activateE:
  assumes "activateMobileDevice h o' r = (res, r')"
  obtains (same) "r' = r"
  | (commit) cur pol where "res = Inr (Some (fst (activate_commit o' cur pol r)))" "r' = snd (activate_commit o' cur pol r)"
      "findCurrentMobileCredential h (ao_context o') CredBootstrap (ao_at o') r = Some cur"
      "session_credential_ok (ao_sessionCredential o') LcActive (ai_requestId (ao_activation o')) r"
      "map_get (mobilePolicies r) (ctx_collectionMode (ao_context o')) = Some pol"
      "map_get (credentialRequests r) (activate_key o') = None"
      "policies_agree (Some pol) (ao_policy o') (ai_policy (ao_activation o'))"
      "\<not> consent_stale h (ci_acceptedAt (ai_consent (ao_activation o'))) (ao_at o')"
proof (cases "r' = r")
  case True
  then show ?thesis by (rule same)
next
  case False
  with assms show ?thesis
    by (cases "map_get (mobilePolicies r) (ctx_collectionMode (ao_context o'))")
      (auto simp: activateMobileDevice_def Let_def split_beta
        split: option.splits if_splits intro: commit)
qed

lemma reconsentE:
  assumes "reconsentMobileDevice h o' r = (res, r')"
  obtains (same) "r' = r"
  | (commit) cur pol where "res = Inr (Some (fst (reconsent_commit o' cur pol r)))" "r' = snd (reconsent_commit o' cur pol r)"
      "findCurrentMobileCredential h (rco_context o') CredSession (rco_at o') r = Some cur"
      "map_get (mobilePolicies r) (ctx_collectionMode (rco_context o')) = Some pol"
      "map_get (credentialRequests r) (reconsent_key o') = None"
      "policies_agree (Some pol) (rco_policy o') (ri_policy (rco_reconsent o'))"
proof (cases "r' = r")
  case True
  then show ?thesis by (rule same)
next
  case False
  with assms show ?thesis
    by (cases "map_get (mobilePolicies r) (ctx_collectionMode (rco_context o'))")
      (auto simp: reconsentMobileDevice_def Let_def split_beta
        split: option.splits if_splits intro: commit)
qed

lemma prepareE:
  assumes "prepareDeviceSessionRotation h o' r = (res, r')"
  obtains (same) "r' = r"
  | (commit) cur where "res = Inr (Some (fst (prepare_commit o' r)))" "r' = snd (prepare_commit o' r)"
      "findCurrentMobileCredential h (po_context o') CredSession (po_at o') r = Some cur"
      "session_credential_ok (po_sessionCredential o') LcPending (po_requestId o') r"
      "cred_rotatedFromCredentialId (po_sessionCredential o') = Some (ctx_credentialId (po_context o'))"
      "map_get (credentialRequests r) (prepare_key o') = None"
proof (cases "r' = r")
  case True
  then show ?thesis by (rule same)
next
  case False
  with assms show ?thesis
    by (auto simp: prepareDeviceSessionRotation_def Let_def split_beta
        split: option.splits if_splits intro: commit)
qed

lemma credential_by_idD:
  "credential_by_id i r = Some (k, c) \<Longrightarrow>
   map_get (deviceCredentialHashById r) i = Some k \<and> map_get (deviceCredentialsByHash r) k = Some c"
  by (auto simp: credential_by_id_def split: option.splits if_splits)

lemma confirmE:
  assumes "confirmDeviceSessionRotation h o' r = (res, r')"
  obtains (same) "r' = r"
  | (commit) ph p oh old i where "res = Inr (Some (fst (confirm_commit o' ph p oh r)))" "r' = snd (confirm_commit o' ph p oh r)"
      "credential_by_id (ctx_credentialId (co_context o')) r = Some (ph, p)"
      "cred_lifecycleState p = LcPending" "cred_rotatedFromCredentialId p = Some i"
      "credential_by_id i r = Some (oh, old)" "cred_lifecycleState old = LcActive"
      "\<not> truthy (cred_revokedAt old)" "\<not> date_le h (cred_expiresAt p) (co_at o')"
      "map_get (credentialRequests r) (confirm_key o') = None"
proof (cases "r' = r")
  case True
  then show ?thesis by (rule same)
next
  case False
  with assms show ?thesis
    by (auto simp: confirmDeviceSessionRotation_def bind_eq_Some_conv Let_def split_beta
        split: option.splits if_splits prod.splits intro: commit)
qed

lemma revokeE:
  assumes "revokeMobileSession h o' r = (res, r')"
  obtains (same) "r' = r"
  | (commit) cur consent where "res = Inr (Some (fst (revoke_commit o' cur consent r)))" "r' = snd (revoke_commit o' cur consent r)"
      "findCurrentMobileCredential h (rvo_context o') CredSession (rvo_at o') r = Some cur"
      "cur_consent cur = Some consent" "map_get (credentialRequests r) (revoke_key o') = None"
proof (cases "r' = r")
  case True
  then show ?thesis by (rule same)
next
  case False
  with assms show ?thesis
    by (auto simp: revokeMobileSession_def Let_def split_beta
        split: option.splits if_splits intro: commit)
qed

lemma admin_revokeE:
  assumes "revokeDeviceByAdministrator o' r = (res, r')"
  obtains (same) "r' = r"
  | (commit) d events where "res = Inr (Some (fst (admin_revoke_commit o' d events r)))" "r' = snd (admin_revoke_commit o' d events r)"
      "map_get (devices r) (avo_deviceId o') = Some d" "dev_organizationId d = avo_organizationId o'"
      "dev_status d \<noteq> DevRevoked" "map_get (audits r) (avo_organizationId o') = Some events"
      "map_get (adminDeviceRevocations r) (admin_revoke_key o') = None"
      "map_get (adminRecoveryOutboxEvents r) (avo_outboxEventId o') = None"
proof (cases "r' = r")
  case True
  then show ?thesis by (rule same)
next
  case False
  with assms show ?thesis
    by (auto simp: revokeDeviceByAdministrator_def map_has_def Let_def split_beta
        split: option.splits if_splits intro: commit)
qed

section \<open>The credential invariant\<close>

text \<open>A session credential that could authenticate, whatever the time.\<close>

definition live_session :: "stored_credential \<Rightarrow> bool" where
  "live_session c \<longleftrightarrow> cred_credentialType c = CredSession \<and> cred_lifecycleState c = LcActive
     \<and> \<not> truthy (cred_revokedAt c)"

text \<open>What holds of one stored credential, given the other stores.\<close>

definition cred_ok ::
  "(string, employee_device) jsmap \<Rightarrow> (string, stored_credential) jsmap \<Rightarrow> (string, string) jsmap \<Rightarrow>
   string \<Rightarrow> stored_credential \<Rightarrow> bool" where
  "cred_ok D C B k c \<longleftrightarrow>
     map_get B (cred_id c) = Some k
     \<and> (\<exists>d. map_get D (cred_deviceId c) = Some d \<and> (live_session c \<longrightarrow> dev_status d \<noteq> DevPending))
     \<and> (cred_lifecycleState c = LcPending \<longrightarrow> cred_credentialType c = CredSession
          \<and> (\<exists>k0 c0. map_get C k0 = Some c0 \<and> cred_rotatedFromCredentialId c = Some (cred_id c0)
               \<and> cred_credentialType c0 = CredSession \<and> cred_deviceId c0 = cred_deviceId c))"

definition single_session :: "(string, stored_credential) jsmap \<Rightarrow> bool" where
  "single_session C \<longleftrightarrow>
     (\<forall>k c k' c'. map_get C k = Some c \<longrightarrow> map_get C k' = Some c' \<longrightarrow> live_session c \<longrightarrow> live_session c'
        \<longrightarrow> cred_deviceId c = cred_deviceId c' \<longrightarrow> k = k')"

definition cred_inv ::
  "nat \<Rightarrow> (string, employee_device) jsmap \<Rightarrow> (string, stored_credential) jsmap \<Rightarrow> (string, string) jsmap \<Rightarrow> bool" where
  "cred_inv n D C B \<longleftrightarrow> map_wf C \<and> keyed dev_id D \<and> ids_fresh ''device'' n D
     \<and> (\<forall>k c. map_get C k = Some c \<longrightarrow> cred_ok D C B k c) \<and> single_session C"

definition trust_inv :: "'a pairing_state_scheme \<Rightarrow> bool" where
  "trust_inv r = cred_inv (ids r) (devices r) (deviceCredentialsByHash r) (deviceCredentialHashById r)"

text \<open>A write that leaves a credential's identity alone and takes no step towards being live.\<close>

definition dims :: "stored_credential \<Rightarrow> stored_credential \<Rightarrow> bool" where
  "dims c c' \<longleftrightarrow> cred_id c' = cred_id c \<and> cred_deviceId c' = cred_deviceId c
     \<and> cred_credentialType c' = cred_credentialType c
     \<and> cred_rotatedFromCredentialId c' = cred_rotatedFromCredentialId c
     \<and> (live_session c' \<longrightarrow> live_session c)
     \<and> (cred_lifecycleState c' = LcPending \<longrightarrow> cred_lifecycleState c = LcPending)"

lemma dims_refl [simp]: "dims c c"
  by (simp add: dims_def)

lemma dims_revoke [simp]:
  "t \<noteq> [] \<Longrightarrow> dims c (c\<lparr>cred_revokedAt := Some t\<rparr>)"
  "dims c (c\<lparr>cred_revokedAt := Some t, cred_lifecycleState := LcRevoked\<rparr>)"
  "dims c (c\<lparr>cred_consumedAt := Some t, cred_lifecycleState := LcConsumed\<rparr>)"
  by (simp_all add: dims_def live_session_def)

text \<open>Two stores related credential by credential.\<close>

definition shrinks :: "(string, stored_credential) jsmap \<Rightarrow> (string, stored_credential) jsmap \<Rightarrow> bool" where
  "shrinks C C' \<longleftrightarrow> map_wf C' \<and> (\<forall>k. rel_option dims (map_get C k) (map_get C' k))"

lemma shrinks_refl: "map_wf C \<Longrightarrow> shrinks C C"
  by (simp add: shrinks_def option.rel_refl)

lemma shrinks_where:
  "map_wf C \<Longrightarrow> (\<And>c. dims c (f c)) \<Longrightarrow> shrinks C (map_update_where p f C)"
  by (auto simp: shrinks_def store_simps option.rel_map intro!: option.rel_refl)

lemma shrinks_modify:
  "map_wf C \<Longrightarrow> (\<And>c. dims c (f c)) \<Longrightarrow> shrinks C (map_modify k f C)"
  by (auto simp: shrinks_def store_simps option.rel_map intro!: option.rel_refl)

lemma shrinks_set:
  "map_wf C \<Longrightarrow> map_get C k = Some c \<Longrightarrow> dims c c' \<Longrightarrow> shrinks C (map_set k c' C)"
  by (auto simp: shrinks_def store_simps intro!: option.rel_refl)

lemma shrinks_fwd: "shrinks C C' \<Longrightarrow> map_get C k = Some c \<Longrightarrow> \<exists>c'. map_get C' k = Some c' \<and> dims c c'"
  by (auto simp: shrinks_def option_rel_Some1 dest: spec[of _ k])

lemma shrinks_back: "shrinks C C' \<Longrightarrow> map_get C' k = Some c' \<Longrightarrow> \<exists>c. map_get C k = Some c \<and> dims c c'"
  by (auto simp: shrinks_def option_rel_Some2 dest: spec[of _ k])

lemma single_session_shrinks: "single_session C \<Longrightarrow> shrinks C C' \<Longrightarrow> single_session C'"
  unfolding single_session_def
proof (intro allI impI)
  fix k c k' c'
  assume one: "\<forall>k c k' c'. map_get C k = Some c \<longrightarrow> map_get C k' = Some c' \<longrightarrow> live_session c \<longrightarrow>
      live_session c' \<longrightarrow> cred_deviceId c = cred_deviceId c' \<longrightarrow> k = k'"
    and sh: "shrinks C C'" and a: "map_get C' k = Some c" "map_get C' k' = Some c'"
    "live_session c" "live_session c'" "cred_deviceId c = cred_deviceId c'"
  from shrinks_back[OF sh a(1)] obtain b where b: "map_get C k = Some b" "dims b c" by blast
  from shrinks_back[OF sh a(2)] obtain b' where b': "map_get C k' = Some b'" "dims b' c'" by blast
  have "live_session b" "live_session b'" "cred_deviceId b = cred_deviceId b'"
    using b(2) b'(2) a(3-5) by (simp_all add: dims_def)
  with one b(1) b'(1) show "k = k'" by blast
qed

text \<open>The four kinds of write the operations are made of.\<close>

lemma cred_inv_shrink:
  assumes inv: "cred_inv n D C B" and sh: "shrinks C C'"
    and dev: "keyed dev_id D'" "ids_fresh ''device'' n' D'"
    and pend: "\<And>i d. map_get D i = Some d \<Longrightarrow> \<exists>d'. map_get D' i = Some d' \<and>
      (dev_status d' = DevPending \<longrightarrow> dev_status d = DevPending
        \<or> (\<forall>k c. map_get C' k = Some c \<longrightarrow> cred_deviceId c = i \<longrightarrow> \<not> live_session c))"
  shows "cred_inv n' D' C' B"
proof -
  have "cred_ok D' C' B k c'" if c': "map_get C' k = Some c'" for k c'
  proof -
    obtain c where c: "map_get C k = Some c" "dims c c'" using shrinks_back[OF sh c'] by blast
    have ok: "cred_ok D C B k c" using inv c by (simp add: cred_inv_def)
    obtain d where d: "map_get D (cred_deviceId c) = Some d" "live_session c \<longrightarrow> dev_status d \<noteq> DevPending"
      using ok by (auto simp: cred_ok_def)
    obtain d' where d': "map_get D' (cred_deviceId c) = Some d'"
      "dev_status d' = DevPending \<longrightarrow> dev_status d = DevPending
        \<or> (\<forall>k c'. map_get C' k = Some c' \<longrightarrow> cred_deviceId c' = cred_deviceId c \<longrightarrow> \<not> live_session c')"
      using pend[OF d(1)] by blast
    have live: "live_session c' \<longrightarrow> dev_status d' \<noteq> DevPending"
      using d d' c c' by (auto simp: dims_def)
    have "\<exists>k0 c0. map_get C' k0 = Some c0 \<and> cred_rotatedFromCredentialId c' = Some (cred_id c0)
        \<and> cred_credentialType c0 = CredSession \<and> cred_deviceId c0 = cred_deviceId c'"
      if "cred_lifecycleState c' = LcPending"
    proof -
      from that c(2) have "cred_lifecycleState c = LcPending" by (simp add: dims_def)
      with ok obtain k0 c0 where c0: "map_get C k0 = Some c0" "cred_rotatedFromCredentialId c = Some (cred_id c0)"
        "cred_credentialType c0 = CredSession" "cred_deviceId c0 = cred_deviceId c"
        by (auto simp: cred_ok_def)
      obtain c0' where "map_get C' k0 = Some c0'" "dims c0 c0'" using shrinks_fwd[OF sh c0(1)] by blast
      with c0 c(2) show ?thesis by (intro exI[of _ k0] exI[of _ c0']) (simp add: dims_def)
    qed
    then show ?thesis using ok c d' live by (auto simp: cred_ok_def dims_def)
  qed
  then show ?thesis
    using inv sh dev single_session_shrinks by (auto simp: cred_inv_def shrinks_def)
qed

lemma cred_inv_insert:
  assumes inv: "cred_inv n D C B" and fresh: "map_get C k = None" "map_get B (cred_id c) = None"
    and ok: "cred_ok D (map_set k c C) (map_set (cred_id c) k B) k c"
    and alone: "live_session c \<Longrightarrow> (\<forall>k' c'. map_get C k' = Some c' \<longrightarrow> cred_deviceId c' = cred_deviceId c \<longrightarrow> \<not> live_session c')"
  shows "cred_inv n D (map_set k c C) (map_set (cred_id c) k B)"
proof -
  have "cred_ok D (map_set k c C) (map_set (cred_id c) k B) k' c'" if "map_get C k' = Some c'" for k' c'
  proof -
    have old: "cred_ok D C B k' c'" using inv that by (simp add: cred_inv_def)
    then have ne: "cred_id c' \<noteq> cred_id c" using fresh by (auto simp: cred_ok_def)
    have kept: "map_get (map_set k c C) k0 = Some c0" if "map_get C k0 = Some c0" for k0 c0
      using that fresh by (auto simp: store_simps)
    obtain d where d: "map_get D (cred_deviceId c') = Some d" "live_session c' \<longrightarrow> dev_status d \<noteq> DevPending"
      using old by (auto simp: cred_ok_def)
    have rot: "\<exists>k0 c0. map_get (map_set k c C) k0 = Some c0 \<and> cred_rotatedFromCredentialId c' = Some (cred_id c0)
        \<and> cred_credentialType c0 = CredSession \<and> cred_deviceId c0 = cred_deviceId c'"
      if "cred_lifecycleState c' = LcPending"
      using old that kept unfolding cred_ok_def by blast
    show ?thesis
      using old ne d rot by (simp add: cred_ok_def store_simps)
  qed
  then have "\<forall>k' c'. map_get (map_set k c C) k' = Some c' \<longrightarrow> cred_ok D (map_set k c C) (map_set (cred_id c) k B) k' c'"
    using ok by (simp add: map_of_update)
  moreover have "single_session (map_set k c C)"
  proof -
    have "single_session C" using inv by (simp add: cred_inv_def)
    then show ?thesis unfolding single_session_def map_of_update
      using alone by (metis option.inject)
  qed
  ultimately show ?thesis using inv by (simp add: cred_inv_def)
qed

lemma cred_inv_promote:
  assumes inv: "cred_inv n D C B" and c: "map_get C k = Some c" "cred_lifecycleState c = LcPending"
    and dev: "map_get D (cred_deviceId c) = Some d" "dev_status d \<noteq> DevPending"
    and alone: "\<forall>k' c'. map_get C k' = Some c' \<longrightarrow> cred_deviceId c' = cred_deviceId c \<longrightarrow> \<not> live_session c'"
  shows "cred_inv n D (map_modify k (\<lambda>c. c\<lparr>cred_lifecycleState := LcActive\<rparr>) C) B"
proof -
  let ?f = "\<lambda>c. c\<lparr>cred_lifecycleState := LcActive\<rparr>"
  have "cred_ok D (map_modify k ?f C) B k' c'" if c': "map_get (map_modify k ?f C) k' = Some c'" for k' c'
  proof -
    from c' obtain c1 where c1: "map_get C k' = Some c1" "c' = (if k' = k then ?f c1 else c1)"
      by (auto simp: store_simps split: if_splits)
    have ok: "cred_ok D C B k' c1" using inv c1 by (simp add: cred_inv_def)
    have "\<exists>k0 c0. map_get (map_modify k ?f C) k0 = Some c0 \<and> cred_rotatedFromCredentialId c1 = Some (cred_id c0)
        \<and> cred_credentialType c0 = CredSession \<and> cred_deviceId c0 = cred_deviceId c1"
      if "cred_lifecycleState c1 = LcPending"
    proof -
      from that ok obtain k0 c0 where "map_get C k0 = Some c0" "cred_rotatedFromCredentialId c1 = Some (cred_id c0)"
        "cred_credentialType c0 = CredSession" "cred_deviceId c0 = cred_deviceId c1"
        by (auto simp: cred_ok_def)
      then show ?thesis
        by (intro exI[of _ k0] exI[of _ "if k0 = k then ?f c0 else c0"]) (auto simp: store_simps)
    qed
    then show ?thesis using ok c c1 dev
      by (auto simp: cred_ok_def live_session_def)
  qed
  then show ?thesis
    using inv alone c by (auto simp: cred_inv_def store_simps single_session_def live_session_def split: if_splits)
qed

section \<open>Every operation preserves the invariant\<close>

definition fresh_credential :: "new_device_credential \<Rightarrow> 'a device_state_scheme \<Rightarrow> bool" where
  "fresh_credential c r \<longleftrightarrow> map_get (deviceCredentialsByHash r) (cred_tokenHash c) = None
     \<and> map_get (deviceCredentialHashById r) (cred_id c) = None"

lemma cred_inv_wf: "cred_inv n D C B \<Longrightarrow> map_wf C"
  by (simp add: cred_inv_def)

lemma cred_inv_keyed: "cred_inv n D C B \<Longrightarrow> keyed dev_id D"
  by (simp add: cred_inv_def)

lemma cred_inv_cong:
  assumes "cred_inv n D C B" "map_of C = map_of C'" "map_wf C'"
  shows "cred_inv n D C' B"
  using assms by (simp add: cred_inv_def cred_ok_def single_session_def)

lemma cred_inv_device:
  assumes inv: "cred_inv n D C B" and sh: "shrinks C C'" and d: "map_get D i = Some d" "dev_id d' = dev_id d"
    and st: "dev_status d' = DevPending \<Longrightarrow> dev_status d = DevPending
      \<or> (\<forall>k c. map_get C' k = Some c \<longrightarrow> cred_deviceId c = i \<longrightarrow> \<not> live_session c)"
  shows "cred_inv n (map_set i d' D) C' B"
proof (rule cred_inv_shrink[OF inv sh])
  have "dev_id d = i" using inv d(1) by (auto simp: cred_inv_def dest: keyedD)
  then show "keyed dev_id (map_set i d' D)" using inv d(2) by (auto simp: cred_inv_def)
  show "ids_fresh ''device'' n (map_set i d' D)"
    using inv d(1) by (auto simp: cred_inv_def intro: ids_fresh_update_present)
  show "\<exists>d''. map_get (map_set i d' D) j = Some d'' \<and> (dev_status d'' = DevPending \<longrightarrow> dev_status e = DevPending
      \<or> (\<forall>k c. map_get C' k = Some c \<longrightarrow> cred_deviceId c = j \<longrightarrow> \<not> live_session c))"
    if "map_get D j = Some e" for j e
    using that d(1) st by (auto simp: store_simps)
qed

lemma trust_inv_suspend_device:
  assumes "trust_inv r" "ts \<noteq> []" shows "trust_inv (suspend_device orgId actor ts i r)"
  using assms unfolding trust_inv_def suspend_device_def
  by (auto split: option.splits intro!: cred_inv_device shrinks_where dest: cred_inv_wf)

lemma trust_inv_suspend_devices:
  "trust_inv s \<Longrightarrow> ts \<noteq> [] \<Longrightarrow> trust_inv (fold (suspend_device orgId actor ts) xs s)"
  by (induction xs arbitrary: s) (simp_all add: trust_inv_suspend_device)

lemma trust_inv_employees [simp]: "trust_inv (r\<lparr>employees := m\<rparr>) = trust_inv r"
  by (simp add: trust_inv_def)

lemma trust_inv_suspend:
  assumes "trust_inv r" "ts \<noteq> []" shows "trust_inv (snd (suspendEmployee orgId e actor ts r))"
  using assms by (simp add: suspendEmployee_def Let_def trust_inv_suspend_devices split: option.splits)

lemma current_credential:
  assumes "trust_inv r" "findCurrentMobileCredential h ctx ty ts r = Some k"
  shows "map_get (deviceCredentialsByHash r) (cur_key k) = Some (cur_credential k)"
    "cred_id (cur_credential k) = ctx_credentialId ctx" "cred_credentialType (cur_credential k) = ty"
    "cred_deviceId (cur_credential k) = ctx_deviceId ctx"
    "map_get (devices r) (ctx_deviceId ctx) = Some (cur_device k)"
    "dev_id (cur_device k) = ctx_deviceId ctx"
    "device_admits ty (cur_device k) (cur_employee k) (cur_consent k)"
    "credential_usable h ts (cur_credential k)"
proof -
  have wf: "map_wf (deviceCredentialsByHash r)" using assms(1) by (simp add: trust_inv_def cred_inv_wf)
  have kd: "keyed dev_id (devices r)" using assms(1) by (simp add: trust_inv_def cred_inv_keyed)
  show "map_get (deviceCredentialsByHash r) (cur_key k) = Some (cur_credential k)"
    "cred_id (cur_credential k) = ctx_credentialId ctx" "cred_credentialType (cur_credential k) = ty"
    "cred_deviceId (cur_credential k) = ctx_deviceId ctx"
    using wf assms(2) by (auto elim!: findCurrentE dest!: find_credential_forD simp: map_wf_def)
  show "map_get (devices r) (ctx_deviceId ctx) = Some (cur_device k)"
    "device_admits ty (cur_device k) (cur_employee k) (cur_consent k)"
    "credential_usable h ts (cur_credential k)"
    using assms(2) by (auto elim!: findCurrentE)
  then show "dev_id (cur_device k) = ctx_deviceId ctx" using kd by (auto dest: keyedD)
qed

lemma trust_inv_heartbeat:
  assumes "trust_inv r" shows "trust_inv (snd (recordDeviceHeartbeat h ctx hb ts r))"
proof (cases "findCurrentMobileCredential h ctx CredSession ts r")
  case (Some k)
  note cur = current_credential[OF assms Some]
  have "shrinks (deviceCredentialsByHash r) (deviceCredentialsByHash r)"
    using assms by (simp add: trust_inv_def shrinks_refl cred_inv_wf)
  then show ?thesis
    using assms cur(5,6) by (auto simp: recordDeviceHeartbeat_def Some Let_def trust_inv_def intro!: cred_inv_device)
qed (use assms in \<open>simp add: recordDeviceHeartbeat_def\<close>)

lemma trust_inv_reconsent:
  assumes "trust_inv r" shows "trust_inv (snd (reconsentMobileDevice h o' r))"
proof (cases "reconsentMobileDevice h o' r")
  case (Pair res r')
  have sh: "shrinks (deviceCredentialsByHash r) (deviceCredentialsByHash r)"
    using assms by (simp add: trust_inv_def shrinks_refl cred_inv_wf)
  from Pair show ?thesis
  proof (cases rule: reconsentE)
    case (commit cur pol)
    note c = current_credential[OF assms commit(3)]
    show ?thesis
      using assms sh c(5,6) Pair commit(2)
      by (auto simp: reconsent_commit_def Let_def trust_inv_def intro!: cred_inv_device)
  qed (use assms Pair in simp)
qed

lemma trust_inv_revoke_live:
  assumes "cred_inv n D C B" "ts \<noteq> []" "map_get D i = Some d" "dev_id d' = dev_id d" "i = dev_id d"
    and "\<And>c. cred_deviceId c = i \<Longrightarrow> live_session c \<Longrightarrow> p c"
    and "\<And>c. dims c (f c)" "\<And>c. \<not> live_session (f c)"
  shows "cred_inv n (map_set i d' D) (map_update_where p f C) B"
  using assms
  by (intro cred_inv_device[OF assms(1) shrinks_where]) (auto simp: cred_inv_wf store_simps dims_def split: if_splits)

lemma not_live_revoked [simp]:
  "\<not> live_session (c\<lparr>cred_revokedAt := t, cred_lifecycleState := LcRevoked\<rparr>)"
  "\<not> live_session (c\<lparr>cred_lifecycleState := LcRevoked, cred_revokedAt := t\<rparr>)"
  by (simp_all add: live_session_def)

lemma dims_revoke' [simp]: "dims c (c\<lparr>cred_lifecycleState := LcRevoked, cred_revokedAt := Some t\<rparr>)"
  by (simp add: dims_def live_session_def)

lemma trust_inv_revoke_session:
  assumes "trust_inv r" "rvo_at o' \<noteq> []" shows "trust_inv (snd (revokeMobileSession h o' r))"
proof (cases "revokeMobileSession h o' r")
  case (Pair res r')
  from Pair show ?thesis
  proof (cases rule: revokeE)
    case (commit cur consent)
    note c = current_credential[OF assms(1) commit(3)]
    show ?thesis
      using assms c(5,6) Pair commit(2)
      by (auto simp: revoke_commit_def revoke_live_credentials_def Let_def trust_inv_def live_session_def
          intro!: trust_inv_revoke_live)
  qed (use assms Pair in simp)
qed

lemma trust_inv_admin_revoke:
  assumes "trust_inv r" "avo_at o' \<noteq> []" shows "trust_inv (snd (revokeDeviceByAdministrator o' r))"
proof (cases "revokeDeviceByAdministrator o' r")
  case (Pair res r')
  from Pair show ?thesis
  proof (cases rule: admin_revokeE)
    case (commit d events)
    have "dev_id d = avo_deviceId o'"
      using assms(1) commit(3) by (auto simp: trust_inv_def dest!: cred_inv_keyed dest: keyedD)
    then show ?thesis
      using assms Pair commit(2,3)
      by (auto simp: admin_revoke_commit_def admin_revocable_def Let_def trust_inv_def live_session_def
          intro!: trust_inv_revoke_live)
  qed (use assms Pair in simp)
qed

text \<open>What \<open>store_credential\<close> leaves: the two credential maps extended, the rest untouched.\<close>

lemma store_credential_frame [frame_simps]:
  "ids (store_credential c orgId e d ts r) = ids r"
  "devices (store_credential c orgId e d ts r) = devices r"
  "employees (store_credential c orgId e d ts r) = employees r"
  "credentialRequests (store_credential c orgId e d ts r) = credentialRequests r"
  "pairingRedemptions (store_credential c orgId e d ts r) = pairingRedemptions r"
  "pairingCodesById (store_credential c orgId e d ts r) = pairingCodesById r"
  "pairingCodeIdByHash (store_credential c orgId e d ts r) = pairingCodeIdByHash r"
  "activeConsentByDevice (store_credential c orgId e d ts r) = activeConsentByDevice r"
  by (simp_all add: store_credential_def Let_def)

definition stored_form :: "new_device_credential \<Rightarrow> string \<Rightarrow> string \<Rightarrow> string \<Rightarrow> string \<Rightarrow> stored_credential" where
  "stored_form c orgId e d ts = \<lparr>cred_id = cred_id c, cred_tokenHash = cred_tokenHash c,
     cred_expiresAt = cred_expiresAt c, cred_credentialType = cred_credentialType c,
     cred_rotatedFromCredentialId = cred_rotatedFromCredentialId c,
     cred_requestId = cred_requestId c, cred_lifecycleState = cred_lifecycleState c,
     cred_organizationId = orgId, cred_employeeId = e, cred_deviceId = d,
     cred_createdAt = ts, cred_consumedAt = None, cred_revokedAt = None\<rparr>"

lemma store_credential_maps [frame_simps]:
  "deviceCredentialsByHash (store_credential c orgId e d ts r)
     = map_set (cred_tokenHash c) (stored_form c orgId e d ts) (deviceCredentialsByHash r)"
  "deviceCredentialHashById (store_credential c orgId e d ts r)
     = map_set (cred_id c) (cred_tokenHash c) (deviceCredentialHashById r)"
  by (simp_all add: store_credential_def stored_form_def Let_def)

lemma cred_inv_store:
  assumes inv: "cred_inv n D C B" and fresh: "map_get C (cred_tokenHash c) = None" "map_get B (cred_id c) = None"
    and dev: "map_get D dev = Some d"
    and kind: "cred_credentialType c = CredBootstrap \<and> cred_lifecycleState c \<noteq> LcPending
      \<or> cred_lifecycleState c = LcActive \<and> dev_status d \<noteq> DevPending
          \<and> (\<forall>k' c'. map_get C k' = Some c' \<longrightarrow> cred_deviceId c' = dev \<longrightarrow> \<not> live_session c')
      \<or> cred_credentialType c = CredSession \<and> cred_lifecycleState c = LcPending
          \<and> (\<exists>k0 c0. map_get C k0 = Some c0 \<and> cred_rotatedFromCredentialId c = Some (cred_id c0)
               \<and> cred_credentialType c0 = CredSession \<and> cred_deviceId c0 = dev)"
  shows "cred_inv n D (map_set (cred_tokenHash c) (stored_form c orgId e dev ts) C)
    (map_set (cred_id c) (cred_tokenHash c) B)"
proof -
  let ?c = "stored_form c orgId e dev ts"
  have s: "cred_id ?c = cred_id c" "cred_deviceId ?c = dev" "cred_lifecycleState ?c = cred_lifecycleState c"
    "cred_credentialType ?c = cred_credentialType c" "cred_revokedAt ?c = None"
    "cred_rotatedFromCredentialId ?c = cred_rotatedFromCredentialId c"
    by (simp_all add: stored_form_def)
  have kept: "map_get (map_set (cred_tokenHash c) ?c C) k0 = Some c0" if "map_get C k0 = Some c0" for k0 c0
    using that fresh by (auto simp: store_simps)
  have "cred_ok D (map_set (cred_tokenHash c) ?c C) (map_set (cred_id c) (cred_tokenHash c) B) (cred_tokenHash c) ?c"
    unfolding cred_ok_def s
  proof (intro conjI impI exI[of _ d])
    assume p: "cred_lifecycleState c = LcPending"
    with kind show "cred_credentialType c = CredSession" by auto
    from p kind obtain k0 c0 where "map_get C k0 = Some c0" "cred_rotatedFromCredentialId c = Some (cred_id c0)"
      "cred_credentialType c0 = CredSession" "cred_deviceId c0 = dev" by auto
    with kept show "\<exists>k0 c0. map_get (map_set (cred_tokenHash c) ?c C) k0 = Some c0
        \<and> cred_rotatedFromCredentialId c = Some (cred_id c0)
        \<and> cred_credentialType c0 = CredSession \<and> cred_deviceId c0 = dev" by blast
  qed (use kind dev in \<open>auto simp: map_of_update live_session_def s\<close>)
  moreover have "live_session ?c \<Longrightarrow> \<forall>k' c'. map_get C k' = Some c' \<longrightarrow> cred_deviceId c' = cred_deviceId ?c \<longrightarrow> \<not> live_session c'"
    using kind by (auto simp: live_session_def s)
  ultimately show ?thesis using cred_inv_insert[OF inv fresh(1), of ?c] fresh(2) by (simp add: s)
qed

lemma pending_device_has_no_live:
  assumes "cred_inv n D C B" "map_get D i = Some d" "dev_status d = DevPending"
    "map_get C k = Some c" "cred_deviceId c = i"
  shows "\<not> live_session c"
proof -
  have "cred_ok D C B k c" using assms(1,4) by (simp add: cred_inv_def)
  then show ?thesis using assms(2,3,5) by (auto simp: cred_ok_def)
qed

lemma shrinks_no_live:
  "shrinks C C' \<Longrightarrow> (\<And>k c. map_get C k = Some c \<Longrightarrow> cred_deviceId c = i \<Longrightarrow> \<not> live_session c) \<Longrightarrow>
   map_get C' k = Some c \<Longrightarrow> cred_deviceId c = i \<Longrightarrow> \<not> live_session c"
  by (drule (1) shrinks_back) (auto simp: dims_def)

lemma trust_inv_activate:
  assumes inv: "trust_inv r" and ts: "ao_at o' \<noteq> []"
    and fresh: "fresh_credential (ao_sessionCredential o') r"
  shows "trust_inv (snd (activateMobileDevice h o' r))"
proof (cases "activateMobileDevice h o' r")
  case (Pair res r')
  from Pair show ?thesis
  proof (cases rule: activateE)
    case (commit cur pol)
    note c = current_credential[OF inv commit(3)]
    let ?i = "ctx_deviceId (ao_context o')" and ?s = "ao_sessionCredential o'"
    let ?C = "deviceCredentialsByHash r" and ?b = "(cur_credential cur)\<lparr>cred_consumedAt := Some (ao_at o'),
      cred_lifecycleState := LcConsumed\<rparr>"
    let ?C1 = "map_set (cur_key cur) ?b ?C"
    let ?d = "(cur_device cur)\<lparr>dev_status := DevConnected, dev_permissions := ai_permissions (ao_activation o'),
                 dev_lastSeenAt := Some (ao_at o'), updatedAt := ao_at o'\<rparr>"
    let ?D = "map_set ?i ?d (devices r)"
    have cinv: "cred_inv (ids r) (devices r) ?C (deviceCredentialHashById r)" using inv by (simp add: trust_inv_def)
    have sh: "shrinks ?C ?C1" using c(1) cinv by (intro shrinks_set) (auto simp: cred_inv_wf)
    have 1: "cred_inv (ids r) ?D ?C1 (deviceCredentialHashById r)"
      using cinv sh c(5) by (rule cred_inv_device) simp_all
    have pend: "dev_status (cur_device cur) = DevPending" using c(7) by (simp add: device_admits_def)
    have none: "\<And>k c. map_get ?C1 k = Some c \<Longrightarrow> cred_deviceId c = ?i \<Longrightarrow> \<not> live_session c"
      using shrinks_no_live[OF sh, of ?i] pending_device_has_no_live[OF cinv c(5) pend] by blast
    have "cred_inv (ids r) ?D (map_set (cred_tokenHash ?s) (stored_form ?s orgId e ?i (ao_at o')) ?C1)
      (map_set (cred_id ?s) (cred_tokenHash ?s) (deviceCredentialHashById r))" for orgId e
    proof (rule cred_inv_store[OF 1])
      show "map_get ?C1 (cred_tokenHash ?s) = None"
        using fresh c(1) by (auto simp: fresh_credential_def store_simps)
      show "map_get (deviceCredentialHashById r) (cred_id ?s) = None"
        using fresh by (simp add: fresh_credential_def)
      show "map_get ?D ?i = Some ?d" by (simp add: store_simps)
    qed (use commit(4) none in \<open>auto simp: session_credential_ok_def\<close>)
    then show ?thesis
      using Pair commit(2) by (simp add: activate_commit_def Let_def trust_inv_def frame_simps)
  qed (use assms Pair in simp)
qed

lemma trust_inv_prepare:
  assumes inv: "trust_inv r" and fresh: "fresh_credential (po_sessionCredential o') r"
  shows "trust_inv (snd (prepareDeviceSessionRotation h o' r))"
proof (cases "prepareDeviceSessionRotation h o' r")
  case (Pair res r')
  from Pair show ?thesis
  proof (cases rule: prepareE)
    case (commit cur)
    note c = current_credential[OF inv commit(3)]
    let ?s = "po_sessionCredential o'" and ?i = "ctx_deviceId (po_context o')"
    have cinv: "cred_inv (ids r) (devices r) (deviceCredentialsByHash r) (deviceCredentialHashById r)"
      using inv by (simp add: trust_inv_def)
    have "cred_inv (ids r) (devices r)
        (map_set (cred_tokenHash ?s) (stored_form ?s orgId e ?i ts) (deviceCredentialsByHash r))
        (map_set (cred_id ?s) (cred_tokenHash ?s) (deviceCredentialHashById r))" for orgId e ts
    proof (rule cred_inv_store[OF cinv _ _ c(5)])
      have "cred_credentialType ?s = CredSession \<and> cred_lifecycleState ?s = LcPending
          \<and> (\<exists>k0 c0. map_get (deviceCredentialsByHash r) k0 = Some c0
               \<and> cred_rotatedFromCredentialId ?s = Some (cred_id c0)
               \<and> cred_credentialType c0 = CredSession \<and> cred_deviceId c0 = ?i)"
        using commit(4,5) c(1-4)
        by (intro conjI exI[of _ "cur_key cur"] exI[of _ "cur_credential cur"])
          (simp_all add: session_credential_ok_def)
      then show "cred_credentialType ?s = CredBootstrap \<and> cred_lifecycleState ?s \<noteq> LcPending
        \<or> cred_lifecycleState ?s = LcActive \<and> dev_status (cur_device cur) \<noteq> DevPending
          \<and> (\<forall>k' c'. map_get (deviceCredentialsByHash r) k' = Some c' \<longrightarrow> cred_deviceId c' = ?i \<longrightarrow> \<not> live_session c')
        \<or> cred_credentialType ?s = CredSession \<and> cred_lifecycleState ?s = LcPending
          \<and> (\<exists>k0 c0. map_get (deviceCredentialsByHash r) k0 = Some c0
               \<and> cred_rotatedFromCredentialId ?s = Some (cred_id c0)
               \<and> cred_credentialType c0 = CredSession \<and> cred_deviceId c0 = ?i)" by blast
    qed (use fresh in \<open>simp_all add: fresh_credential_def\<close>)
    then show ?thesis
      using Pair commit(2) by (simp add: prepare_commit_def Let_def trust_inv_def frame_simps)
  qed (use assms Pair in simp)
qed

lemma trust_inv_confirm:
  assumes inv: "trust_inv r" shows "trust_inv (snd (confirmDeviceSessionRotation h o' r))"
proof (cases "confirmDeviceSessionRotation h o' r")
  case (Pair res r')
  from Pair show ?thesis
  proof (cases rule: confirmE)
    case (commit ph p oh old i)
    let ?C = "deviceCredentialsByHash r" and ?D = "devices r" and ?B = "deviceCredentialHashById r"
    let ?rev = "\<lambda>c. c\<lparr>cred_lifecycleState := LcRevoked, cred_revokedAt := Some (co_at o')\<rparr>"
    let ?act = "\<lambda>c. c\<lparr>cred_lifecycleState := LcActive\<rparr>"
    let ?C1 = "map_modify oh ?rev ?C"
    have cinv: "cred_inv (ids r) ?D ?C ?B" using inv by (simp add: trust_inv_def)
    have p: "map_get ?C ph = Some p" and old: "map_get ?B i = Some oh" "map_get ?C oh = Some old"
      using commit(3,6) by (auto dest: credential_by_idD)
    have okp: "cred_ok ?D ?C ?B ph p" and oko: "cred_ok ?D ?C ?B oh old"
      using cinv p old by (simp_all add: cred_inv_def)
    obtain k0 c0 where c0: "map_get ?C k0 = Some c0" "i = cred_id c0" "cred_credentialType c0 = CredSession"
      "cred_deviceId c0 = cred_deviceId p"
      using okp commit(4,5) by (auto simp: cred_ok_def)
    have "k0 = oh" using cinv c0(1,2) old(1) by (auto simp: cred_inv_def cred_ok_def)
    with c0 old have same: "c0 = old" by simp
    have live: "live_session old" using c0 same commit(7,8) by (simp add: live_session_def)
    obtain d where d: "map_get ?D (cred_deviceId p) = Some d" "dev_status d \<noteq> DevPending"
      using oko live c0(4) same by (auto simp: cred_ok_def)
    have ne: "ph \<noteq> oh" using p old commit(4,7) by auto
    have sh: "shrinks ?C ?C1" using cinv by (intro shrinks_modify) (auto simp: cred_inv_wf)
    have 1: "cred_inv (ids r) ?D ?C1 ?B"
      by (rule cred_inv_shrink[OF cinv sh]) (use cinv in \<open>auto simp: cred_inv_def\<close>)
    have alone: "\<forall>k' c'. map_get ?C1 k' = Some c' \<longrightarrow> cred_deviceId c' = cred_deviceId p \<longrightarrow> \<not> live_session c'"
    proof (intro allI impI notI)
      fix k' c' assume a: "map_get ?C1 k' = Some c'" "cred_deviceId c' = cred_deviceId p" "live_session c'"
      then have "k' \<noteq> oh" by (auto simp: store_simps)
      with a(1) have "map_get ?C k' = Some c'" by (simp add: store_simps)
      moreover have "single_session ?C" using cinv by (simp add: cred_inv_def)
      ultimately have "k' = oh"
        using a(2,3) old(2) live c0(4) same unfolding single_session_def by metis
      with \<open>k' \<noteq> oh\<close> show False ..
    qed
    have p1: "map_get ?C1 ph = Some p" using p ne by (simp add: store_simps)
    have "cred_inv (ids r) ?D (map_modify ph ?act ?C1) ?B"
      by (rule cred_inv_promote[OF 1 p1 commit(4) d alone])
    moreover have "map_of (map_modify ph ?act ?C1) = map_of (map_modify oh ?rev (map_modify ph ?act ?C))"
      using ne by (auto simp: store_simps fun_eq_iff)
    ultimately have "cred_inv (ids r) ?D (map_modify oh ?rev (map_modify ph ?act ?C)) ?B"
      by (rule cred_inv_cong) (use cinv in \<open>simp add: cred_inv_wf\<close>)
    then show ?thesis
      using Pair commit(2) by (simp add: confirm_commit_def Let_def trust_inv_def)
  qed (use assms Pair in simp)
qed

lemma trust_inv_redeem:
  assumes inv: "trust_inv r" and ts: "ro_at o' \<noteq> []"
    and fresh: "fresh_credential (ro_bootstrapCredential o') r"
    and boot: "cred_credentialType (ro_bootstrapCredential o') = CredBootstrap"
      "cred_lifecycleState (ro_bootstrapCredential o') = LcActive"
  shows "trust_inv (snd (redeemPairingCode h o' r))"
proof (cases "redeemPairingCode h o' r")
  case (Pair res r')
  let ?C = "deviceCredentialsByHash r" and ?D = "devices r" and ?B = "deviceCredentialHashById r"
  let ?s = "ro_bootstrapCredential o'"
  have cinv: "cred_inv (ids r) ?D ?C ?B" using inv by (simp add: trust_inv_def)
  from Pair show ?thesis
  proof (cases rule: redeemE)
    case (commit rec e existing v)
    show ?thesis
    proof (cases existing)
      case None
      let ?i = "sequential_id ''device'' (Suc (ids r))"
      let ?d = "fresh_device o' rec ?i"
      have di: "dev_id ?d = ?i" by (simp add: fresh_device_def Let_def)
      have new: "map_get ?D ?i = None" using cinv by (auto simp: cred_inv_def intro: ids_fresh_next)
      have 1: "cred_inv (Suc (ids r)) (map_set ?i ?d ?D) ?C ?B"
      proof (rule cred_inv_shrink[OF cinv])
        show "shrinks ?C ?C" using cinv by (simp add: shrinks_refl cred_inv_wf)
        show "keyed dev_id (map_set ?i ?d ?D)" using cinv di by (auto simp: cred_inv_def)
        show "ids_fresh ''device'' (Suc (ids r)) (map_set ?i ?d ?D)"
          using cinv by (auto simp: cred_inv_def intro: ids_fresh_put)
        show "\<exists>d'. map_get (map_set ?i ?d ?D) j = Some d' \<and> (dev_status d' = DevPending \<longrightarrow> dev_status d = DevPending
          \<or> (\<forall>k c. map_get ?C k = Some c \<longrightarrow> cred_deviceId c = j \<longrightarrow> \<not> live_session c))"
          if "map_get ?D j = Some d" for j d using that new by (auto simp: store_simps)
      qed
      have "cred_inv (Suc (ids r)) (map_set ?i ?d ?D)
          (map_set (cred_tokenHash ?s) (stored_form ?s orgId emp ?i (ro_at o')) ?C)
          (map_set (cred_id ?s) (cred_tokenHash ?s) ?B)" for orgId emp
        by (rule cred_inv_store[OF 1, where d = ?d]) (use fresh boot in \<open>simp_all add: fresh_credential_def store_simps\<close>)
      then show ?thesis
        using Pair commit(1) None di
        by (simp add: redeem_commit_def redeem_device_def Let_def next_id_eq trust_inv_def frame_simps)
    next
      case (Some d)
      let ?i = "dev_id d" and ?d = "repaired_device o' d"
      let ?C1 = "map_update_where (\<lambda>c. cred_deviceId c = ?i \<and> \<not> truthy (cred_revokedAt c))
         (\<lambda>c. c\<lparr>cred_revokedAt := Some (ro_at o'), cred_lifecycleState := LcRevoked\<rparr>) ?C"
      have di: "dev_id ?d = ?i" by (simp add: repaired_device_def Let_def)
      from commit(13) Some obtain i where "map_get ?D i = Some d" by auto
      then have at_i: "map_get ?D ?i = Some d" using cinv by (auto simp: cred_inv_def dest: keyedD)
      have 1: "cred_inv (ids r) (map_set ?i ?d ?D) ?C1 ?B"
        by (rule trust_inv_revoke_live[OF cinv ts at_i di]) (simp_all add: live_session_def dims_def)
      have "cred_inv (ids r) (map_set ?i ?d ?D)
          (map_set (cred_tokenHash ?s) (stored_form ?s orgId emp ?i (ro_at o')) ?C1)
          (map_set (cred_id ?s) (cred_tokenHash ?s) ?B)" for orgId emp
        by (rule cred_inv_store[OF 1, where d = ?d]) (use fresh boot in \<open>simp_all add: fresh_credential_def store_simps\<close>)
      then show ?thesis
        using Pair commit(1) Some di
        by (simp add: redeem_commit_def redeem_device_def revoke_live_credentials_def Let_def trust_inv_def frame_simps)
    qed
  qed (use inv Pair in simp)
qed

section \<open>The protocol as a step relation\<close>

definition fresh_code :: "pairing_code \<Rightarrow> 'a pairing_state_scheme \<Rightarrow> bool" where
  "fresh_code rec r \<longleftrightarrow> map_get (pairingCodesById r) (pc_id rec) = None
     \<and> map_get (pairingCodeIdByHash r) (pc_codeHash rec) = None"

text \<open>
  What every operation outside the protocol leaves as it is: it may only draw identifiers and, as an
  accepted call batch does, write what a device reports of itself (\<open>step_report\<close>).
\<close>

definition trust_frame :: "'a pairing_state_scheme \<Rightarrow> 'a pairing_state_scheme \<Rightarrow> bool" where
  "trust_frame r r' \<longleftrightarrow> ids r \<le> ids r' \<and> devices r' = devices r
     \<and> deviceCredentialsByHash r' = deviceCredentialsByHash r
     \<and> deviceCredentialHashById r' = deviceCredentialHashById r
     \<and> pairingCodesById r' = pairingCodesById r \<and> pairingCodeIdByHash r' = pairingCodeIdByHash r"

inductive trust_step :: "host \<Rightarrow> 'a pairing_state_scheme \<Rightarrow> 'a pairing_state_scheme \<Rightarrow> bool" for h where
  step_create_code: "fresh_code rec r \<Longrightarrow> trust_step h r (createPairingCode rec r)"
| step_revoke_code: "ts \<noteq> [] \<Longrightarrow> trust_step h r (snd (revokePairingCode orgId codeId ts r))"
| step_redeem: "ro_at o' \<noteq> [] \<Longrightarrow> fresh_credential (ro_bootstrapCredential o') r \<Longrightarrow>
    cred_credentialType (ro_bootstrapCredential o') = CredBootstrap \<Longrightarrow>
    cred_lifecycleState (ro_bootstrapCredential o') = LcActive \<Longrightarrow>
    trust_step h r (snd (redeemPairingCode h o' r))"
| step_activate: "ao_at a \<noteq> [] \<Longrightarrow> fresh_credential (ao_sessionCredential a) r \<Longrightarrow>
    trust_step h r (snd (activateMobileDevice h a r))"
| step_reconsent: "trust_step h r (snd (reconsentMobileDevice h c r))"
| step_prepare: "fresh_credential (po_sessionCredential p) r \<Longrightarrow>
    trust_step h r (snd (prepareDeviceSessionRotation h p r))"
| step_confirm: "co_at f \<noteq> [] \<Longrightarrow> trust_step h r (snd (confirmDeviceSessionRotation h f r))"
| step_heartbeat: "trust_step h r (snd (recordDeviceHeartbeat h ctx hb ts r))"
| step_revoke: "rvo_at v \<noteq> [] \<Longrightarrow> trust_step h r (snd (revokeMobileSession h v r))"
| step_admin_revoke: "avo_at w \<noteq> [] \<Longrightarrow> trust_step h r (snd (revokeDeviceByAdministrator w r))"
| step_suspend: "ts \<noteq> [] \<Longrightarrow> trust_step h r (snd (suspendEmployee orgId e actor ts r))"
| step_report: "map_get (devices r) i = Some d \<Longrightarrow> dev_id d' = dev_id d \<Longrightarrow> dev_status d' = dev_status d \<Longrightarrow>
    trust_step h r (r\<lparr>devices := map_set i d' (devices r)\<rparr>)"
| step_elsewhere: "trust_frame r r' \<Longrightarrow> trust_step h r r'"

abbreviation trust_reaches :: "host \<Rightarrow> 'a pairing_state_scheme \<Rightarrow> 'a pairing_state_scheme \<Rightarrow> bool" where
  "trust_reaches h \<equiv> rtranclp (trust_step h)"

text \<open>A repository before any device was paired (the seed may hold device records).\<close>

definition trust_start :: "'a pairing_state_scheme \<Rightarrow> bool" where
  "trust_start r \<longleftrightarrow> keyed dev_id (devices r) \<and> ids_fresh ''device'' (ids r) (devices r)
     \<and> deviceCredentialsByHash r = [] \<and> keyed pc_id (pairingCodesById r)"

lemma trust_start_inv: "trust_start r \<Longrightarrow> trust_inv r"
  by (simp add: trust_start_def trust_inv_def cred_inv_def single_session_def)

lemma trust_inv_codes:
  "trust_inv r \<Longrightarrow> trust_inv (createPairingCode rec r)"
  "trust_inv r \<Longrightarrow> trust_inv (snd (revokePairingCode orgId codeId ts r))"
  by (simp_all add: createPairingCode_def revokePairingCode_def trust_inv_def Let_def split: option.splits)

lemma trust_inv_frame: "trust_inv r \<Longrightarrow> trust_frame r r' \<Longrightarrow> trust_inv r'"
  by (auto simp: trust_inv_def trust_frame_def cred_inv_def intro: ids_fresh_mono)

lemma trust_inv_report:
  "trust_inv r \<Longrightarrow> map_get (devices r) i = Some d \<Longrightarrow> dev_id d' = dev_id d \<Longrightarrow> dev_status d' = dev_status d \<Longrightarrow>
   trust_inv (r\<lparr>devices := map_set i d' (devices r)\<rparr>)"
  unfolding trust_inv_def by (auto intro!: cred_inv_device shrinks_refl dest: cred_inv_wf)

lemmas trust_inv_ops = trust_inv_codes trust_inv_redeem trust_inv_activate trust_inv_reconsent
  trust_inv_prepare trust_inv_confirm trust_inv_heartbeat trust_inv_revoke_session
  trust_inv_admin_revoke trust_inv_suspend trust_inv_report trust_inv_frame

lemma trust_inv_step: "trust_step h r r' \<Longrightarrow> trust_inv r \<Longrightarrow> trust_inv r'"
  by (induction rule: trust_step.induct) (simp_all add: trust_inv_ops)

lemma trust_inv_reaches: "trust_reaches h r r' \<Longrightarrow> trust_inv r \<Longrightarrow> trust_inv r'"
  by (induction rule: rtranclp_induct) (auto intro: trust_inv_step)

text \<open>
  C1: However pairing, activation, rotation, revocation, suspension and every other operation
  interleave, a device never has two session credentials that could authenticate.
\<close>

theorem one_live_session_per_device:
  assumes "trust_start r0" and "trust_reaches h r0 r"
    and "map_get (deviceCredentialsByHash r) k = Some c" and "live_session c"
    and "map_get (deviceCredentialsByHash r) k' = Some c'" and "live_session c'"
    and "cred_deviceId c = cred_deviceId c'"
  shows "k = k'"
proof -
  have "trust_inv r" using trust_inv_reaches[OF assms(2) trust_start_inv[OF assms(1)]] .
  then show ?thesis
    using assms(3-7) by (auto simp: trust_inv_def cred_inv_def single_session_def)
qed

section \<open>Retirement is final\<close>

definition retired :: "stored_credential \<Rightarrow> bool" where
  "retired c \<longleftrightarrow> truthy (cred_revokedAt c) \<or> truthy (cred_consumedAt c)
     \<or> cred_lifecycleState c \<in> {LcConsumed, LcRevoked}"

definition retains :: "(string, stored_credential) jsmap \<Rightarrow> (string, stored_credential) jsmap \<Rightarrow> bool" where
  "retains C C' \<longleftrightarrow> (\<forall>k c. map_get C k = Some c \<longrightarrow> retired c \<longrightarrow> (\<exists>c'. map_get C' k = Some c' \<and> retired c'))"

lemma usable_not_retired: "credential_usable h ts c \<Longrightarrow> \<not> retired c"
  by (auto simp: credential_usable_def retired_def)

lemma retains_refl [simp]: "retains C C"
  by (simp add: retains_def)

lemma retains_trans: "retains C C' \<Longrightarrow> retains C' C'' \<Longrightarrow> retains C C''"
  unfolding retains_def by blast

lemma retains_where [intro]: "(\<And>c. retired (f c)) \<Longrightarrow> retains C (map_update_where p f C)"
  by (auto simp: retains_def store_simps)

lemma retains_set [intro]: "map_get C k = None \<or> retired c \<Longrightarrow> retains C (map_set k c C)"
  by (auto simp: retains_def store_simps)

lemma retired_writes [simp]:
  "t \<noteq> [] \<Longrightarrow> retired (c\<lparr>cred_revokedAt := Some t\<rparr>)"
  "retired (c\<lparr>cred_revokedAt := t', cred_lifecycleState := LcRevoked\<rparr>)"
  "retired (c\<lparr>cred_lifecycleState := LcRevoked, cred_revokedAt := t'\<rparr>)"
  "retired (c\<lparr>cred_consumedAt := t', cred_lifecycleState := LcConsumed\<rparr>)"
  by (simp_all add: retired_def)

lemma retains_suspend:
  assumes "ts \<noteq> []"
  shows "retains (deviceCredentialsByHash r) (deviceCredentialsByHash (fold (suspend_device orgId actor ts) xs r))"
proof (induction xs arbitrary: r)
  case (Cons x xs)
  have "retains (deviceCredentialsByHash r) (deviceCredentialsByHash (suspend_device orgId actor ts x r))"
    using assms by (auto simp: suspend_device_def split: option.splits)
  with Cons show ?case by (auto intro: retains_trans)
qed simp

lemma retains_redeem:
  assumes "fresh_credential (ro_bootstrapCredential o') r"
  shows "retains (deviceCredentialsByHash r) (deviceCredentialsByHash (snd (redeemPairingCode h o' r)))"
proof (cases "redeemPairingCode h o' r")
  case (Pair res r')
  from Pair show ?thesis
  proof (cases rule: redeemE)
    case (commit rec e existing v)
    let ?C = "deviceCredentialsByHash r"
    let ?s = "ro_bootstrapCredential o'"
    have new: "map_get ?C (cred_tokenHash ?s) = None" using assms by (simp add: fresh_credential_def)
    let ?C1 = "\<lambda>i. map_update_where (\<lambda>c. cred_deviceId c = i \<and> \<not> truthy (cred_revokedAt c))
         (\<lambda>c. c\<lparr>cred_revokedAt := Some (ro_at o'), cred_lifecycleState := LcRevoked\<rparr>) ?C"
    have "retains ?C (map_set (cred_tokenHash ?s) x (?C1 i))" for i x
      by (rule retains_trans[of _ "?C1 i"]) (use new in \<open>auto simp: store_simps\<close>)
    moreover have "retains ?C (map_set (cred_tokenHash ?s) x ?C)" for x using new by auto
    ultimately show ?thesis using Pair commit(1)
      by (auto simp: redeem_commit_def redeem_device_def revoke_live_credentials_def Let_def next_id_eq
          frame_simps split: option.splits)
  qed (use Pair in simp)
qed

lemma retains_activate:
  assumes "trust_inv r" "fresh_credential (ao_sessionCredential o') r"
  shows "retains (deviceCredentialsByHash r) (deviceCredentialsByHash (snd (activateMobileDevice h o' r)))"
proof (cases "activateMobileDevice h o' r")
  case (Pair res r')
  from Pair show ?thesis
  proof (cases rule: activateE)
    case (commit cur pol)
    let ?C = "deviceCredentialsByHash r" and ?s = "ao_sessionCredential o'"
    let ?b = "(cur_credential cur)\<lparr>cred_consumedAt := Some (ao_at o'), cred_lifecycleState := LcConsumed\<rparr>"
    have new: "map_get ?C (cred_tokenHash ?s) = None" using assms by (simp add: fresh_credential_def)
    have "cur_key cur \<noteq> cred_tokenHash ?s"
      using current_credential(1)[OF assms(1) commit(3)] new by auto
    then have gone: "map_get (map_set (cur_key cur) ?b ?C) (cred_tokenHash ?s) = None"
      using new by (simp add: store_simps)
    have 1: "retains ?C (map_set (cur_key cur) ?b ?C)" by (rule retains_set) (simp add: retired_def)
    have "retains ?C (map_set (cred_tokenHash ?s) x (map_set (cur_key cur) ?b ?C))" for x
      using 1 by (rule retains_trans) (rule retains_set, simp add: gone)
    then show ?thesis using Pair commit(2) by (simp add: activate_commit_def Let_def frame_simps)
  qed (use Pair in simp)
qed

lemma retains_confirm:
  assumes "co_at o' \<noteq> []"
  shows "retains (deviceCredentialsByHash r) (deviceCredentialsByHash (snd (confirmDeviceSessionRotation h o' r)))"
proof (cases "confirmDeviceSessionRotation h o' r")
  case (Pair res r')
  from Pair show ?thesis
  proof (cases rule: confirmE)
    case (commit ph p oh old i)
    have "map_get (deviceCredentialsByHash r) ph = Some p" using commit(3) by (auto dest: credential_by_idD)
    then show ?thesis using Pair commit(2,4)
      by (auto simp: confirm_commit_def Let_def retains_def store_simps retired_def)
  qed (use Pair in simp)
qed

lemma retains_step:
  assumes "trust_step h r r'" "trust_inv r"
  shows "retains (deviceCredentialsByHash r) (deviceCredentialsByHash r')"
  using assms
proof (induction rule: trust_step.induct)
  case (step_revoke_code ts r orgId codeId)
  then show ?case by (simp add: revokePairingCode_def Let_def split: option.splits)
next
  case (step_reconsent r c)
  then show ?case
    by (cases "reconsentMobileDevice h c r") (auto elim!: reconsentE simp: reconsent_commit_def Let_def)
next
  case (step_prepare p r)
  then show ?case
    by (cases "prepareDeviceSessionRotation h p r")
      (auto elim!: prepareE simp: prepare_commit_def Let_def frame_simps fresh_credential_def)
next
  case (step_heartbeat r ctx hb ts)
  then show ?case by (simp add: recordDeviceHeartbeat_def Let_def split: option.splits)
next
  case (step_revoke v r)
  then show ?case
    by (cases "revokeMobileSession h v r")
      (auto elim!: revokeE simp: revoke_commit_def revoke_live_credentials_def Let_def intro!: retains_where)
next
  case (step_admin_revoke w r)
  then show ?case
    by (cases "revokeDeviceByAdministrator w r")
      (auto elim!: admin_revokeE simp: admin_revoke_commit_def Let_def intro!: retains_where)
next
  case (step_suspend ts r orgId e actor)
  then show ?case
    using retains_suspend[of ts "r\<lparr>employees := m\<rparr>" for m]
    by (simp add: suspendEmployee_def Let_def split: option.splits)
qed (simp_all add: createPairingCode_def retains_redeem retains_activate retains_confirm trust_frame_def)

lemma retains_reaches:
  "trust_reaches h r r' \<Longrightarrow> trust_inv r \<Longrightarrow> retains (deviceCredentialsByHash r) (deviceCredentialsByHash r')"
proof (induction rule: rtranclp_induct)
  case (step y z)
  have "trust_inv y" using step.hyps(1) step.prems by (rule trust_inv_reaches)
  with step show ?case by (blast intro: retains_trans retains_step)
qed simp

lemma retired_unresolvable:
  assumes inv: "trust_inv r" and c: "map_get (deviceCredentialsByHash r) k = Some c" "retired c"
  shows "resolveDeviceCredential h k ty t r = None"
proof (rule ccontr)
  assume "resolveDeviceCredential h k ty t r \<noteq> None"
  then obtain ctx where "resolveDeviceCredential h k ty t r = Some ctx" by auto
  then obtain c1 cur where r: "map_get (deviceCredentialsByHash r) k = Some c1"
    "contextForCredential c1 r = Some ctx" "findCurrentMobileCredential h ctx ty t r = Some cur"
    by (rule resolveDeviceCredentialE)
  note cc = current_credential[OF inv r(3)]
  have "cred_id (cur_credential cur) = cred_id c"
    using cc(2) r(1,2) c(1) by (auto dest: contextForCredentialD)
  moreover have "map_get (deviceCredentialHashById r) (cred_id c) = Some k"
    "map_get (deviceCredentialHashById r) (cred_id (cur_credential cur)) = Some (cur_key cur)"
    using inv c(1) cc(1) by (auto simp: trust_inv_def cred_inv_def cred_ok_def)
  ultimately have "cur_credential cur = c" using cc(1) c(1) by simp
  with cc(8) c(2) usable_not_retired show False by blast
qed


section \<open>Pairing codes are used once\<close>

definition spent :: "pairing_code \<Rightarrow> bool" where
  "spent rec \<longleftrightarrow> truthy (pc_consumedAt rec) \<or> truthy (pc_revokedAt rec)"

definition hash_spent :: "string \<Rightarrow> 'a pairing_state_scheme \<Rightarrow> bool" where
  "hash_spent k r \<longleftrightarrow> (\<exists>i rec. map_get (pairingCodeIdByHash r) k = Some i
     \<and> map_get (pairingCodesById r) i = Some rec \<and> spent rec)"

lemma redeem_fresh_code:
  assumes "redeemPairingCode h o' r = (Inr (Some v), r')" "red_replayed v = Some False"
  shows "\<not> hash_spent (ro_codeHash o') r"
  using assms
  by (auto simp: redeemPairingCode_def Let_def split_beta bind_eq_Some_conv redemption_only_def
      hash_spent_def spent_def split: option.splits if_splits)

text \<open>What each operation does to the codes: nothing, except the three that are about codes.\<close>

definition codes_frame :: "'a pairing_state_scheme \<Rightarrow> 'a pairing_state_scheme \<Rightarrow> bool" where
  "codes_frame r r' \<longleftrightarrow> pairingCodesById r' = pairingCodesById r \<and> pairingCodeIdByHash r' = pairingCodeIdByHash r"

lemma codes_frame_suspend_devices:
  "pairingCodesById (fold (suspend_device orgId actor ts) xs r) = pairingCodesById r"
  "pairingCodeIdByHash (fold (suspend_device orgId actor ts) xs r) = pairingCodeIdByHash r"
  by (induction xs arbitrary: r) (simp_all add: suspend_device_def split: option.splits)

lemma codes_frame_step:
  "codes_frame r (snd (activateMobileDevice h a r))"
  "codes_frame r (snd (reconsentMobileDevice h c r))"
  "codes_frame r (snd (prepareDeviceSessionRotation h p r))"
  "codes_frame r (snd (confirmDeviceSessionRotation h f r))"
  "codes_frame r (snd (recordDeviceHeartbeat h ctx hb ts r))"
  "codes_frame r (snd (revokeMobileSession h v r))"
  "codes_frame r (snd (revokeDeviceByAdministrator w r))"
  "codes_frame r (snd (suspendEmployee orgId e actor ts r))"
proof -
  show "codes_frame r (snd (activateMobileDevice h a r))"
    by (cases "activateMobileDevice h a r")
      (auto elim!: activateE simp: codes_frame_def activate_commit_def Let_def frame_simps)
  show "codes_frame r (snd (reconsentMobileDevice h c r))"
    by (cases "reconsentMobileDevice h c r")
      (auto elim!: reconsentE simp: codes_frame_def reconsent_commit_def Let_def)
  show "codes_frame r (snd (prepareDeviceSessionRotation h p r))"
    by (cases "prepareDeviceSessionRotation h p r")
      (auto elim!: prepareE simp: codes_frame_def prepare_commit_def Let_def frame_simps)
  show "codes_frame r (snd (confirmDeviceSessionRotation h f r))"
    by (cases "confirmDeviceSessionRotation h f r")
      (auto elim!: confirmE simp: codes_frame_def confirm_commit_def Let_def)
  show "codes_frame r (snd (recordDeviceHeartbeat h ctx hb ts r))"
    by (simp add: codes_frame_def recordDeviceHeartbeat_def Let_def split: option.splits)
  show "codes_frame r (snd (revokeMobileSession h v r))"
    by (cases "revokeMobileSession h v r")
      (auto elim!: revokeE simp: codes_frame_def revoke_commit_def revoke_live_credentials_def Let_def)
  show "codes_frame r (snd (revokeDeviceByAdministrator w r))"
    by (cases "revokeDeviceByAdministrator w r")
      (auto elim!: admin_revokeE simp: codes_frame_def admin_revoke_commit_def Let_def)
  show "codes_frame r (snd (suspendEmployee orgId e actor ts r))"
    by (simp add: codes_frame_def suspendEmployee_def Let_def codes_frame_suspend_devices split: option.splits)
qed

lemmas codes_frames [frame_simps] = codes_frame_step[unfolded codes_frame_def, THEN conjunct1]
  codes_frame_step[unfolded codes_frame_def, THEN conjunct2]

lemma redeem_codes:
  assumes "redeemPairingCode h o' r = (res, r')"
  shows "pairingCodeIdByHash r' = pairingCodeIdByHash r \<and> (pairingCodesById r' = pairingCodesById r
    \<or> (\<exists>rec. pairingCodesById r' = map_set (pc_id rec) (rec\<lparr>pc_consumedAt := Some (ro_at o')\<rparr>) (pairingCodesById r)
        \<and> (\<exists>i. map_get (pairingCodeIdByHash r) (ro_codeHash o') = Some i \<and> map_get (pairingCodesById r) i = Some rec)))"
  using assms
proof (cases rule: redeemE)
  case (commit rec e existing v)
  then show ?thesis
    by (auto simp: redeem_commit_def redeem_device_def revoke_live_credentials_def Let_def next_id_eq
        frame_simps split: option.splits)
qed simp

lemma keyed_codes_step:
  assumes "trust_step h r r'" "keyed pc_id (pairingCodesById r)"
  shows "keyed pc_id (pairingCodesById r')"
  using assms
proof (induction rule: trust_step.induct)
  case (step_redeem o' r)
  then show ?case
    using redeem_codes[of h o' r "fst (redeemPairingCode h o' r)" "snd (redeemPairingCode h o' r)"]
    by (auto intro!: keyed_put)
next
  case (step_revoke_code ts r orgId codeId)
  then show ?case by (auto simp: revokePairingCode_def Let_def intro!: keyed_put dest: keyedD split: option.splits)
qed (auto simp: createPairingCode_def trust_frame_def frame_simps)

lemma hash_spent_step:
  assumes "trust_step h r r'" "keyed pc_id (pairingCodesById r)" "hash_spent k r"
  shows "hash_spent k r'"
  using assms
proof (induction rule: trust_step.induct)
  case (step_create_code rec r)
  then show ?case
    by (fastforce simp: createPairingCode_def hash_spent_def store_simps fresh_code_def)
next
  case (step_redeem o' r)
  then show ?case
    using redeem_codes[of h o' r "fst (redeemPairingCode h o' r)" "snd (redeemPairingCode h o' r)"]
    by (auto simp: hash_spent_def store_simps spent_def)
next
  case (step_revoke_code ts r orgId codeId)
  then show ?case
    by (auto simp: revokePairingCode_def Let_def hash_spent_def store_simps spent_def split: option.splits)
qed (simp_all add: hash_spent_def trust_frame_def frame_simps)

lemma hash_spent_reaches:
  "trust_reaches h r r' \<Longrightarrow> keyed pc_id (pairingCodesById r) \<Longrightarrow> hash_spent k r \<Longrightarrow>
   keyed pc_id (pairingCodesById r') \<and> hash_spent k r'"
  by (induction rule: rtranclp_induct) (auto intro: hash_spent_step keyed_codes_step)

lemma keyed_codes_reaches:
  "trust_reaches h r r' \<Longrightarrow> keyed pc_id (pairingCodesById r) \<Longrightarrow> keyed pc_id (pairingCodesById r')"
  by (induction rule: rtranclp_induct) (auto intro: keyed_codes_step)

lemma redeem_new_commits:
  assumes "redeemPairingCode h o' r = (Inr (Some v), r')" "red_replayed v = Some False"
  shows "(\<exists>p. map_get (pairingRedemptions r) (ro_requestId o') = Some p)
    \<or> (\<exists>rec e existing i. redeem_commit o' rec e existing r = (v, r')
        \<and> map_get (pairingCodeIdByHash r) (ro_codeHash o') = Some i \<and> map_get (pairingCodesById r) i = Some rec)"
  using assms
  by (auto simp: redeemPairingCode_def Let_def split_beta bind_eq_Some_conv redemption_only_def prod_eq_iff
      split: option.splits if_splits)

lemma redeem_spends:
  assumes "redeemPairingCode h o' r = (Inr (Some v), r')" "red_replayed v = Some False"
    and "keyed pc_id (pairingCodesById r)" "ro_at o' \<noteq> []"
  shows "hash_spent (ro_codeHash o') r'"
proof -
  have "map_get (pairingRedemptions r) (ro_requestId o') = None"
    using assms(1,2) by (auto simp: redeemPairingCode_def split: option.splits if_splits)
  then obtain rec e existing i where c: "redeem_commit o' rec e existing r = (v, r')"
    "map_get (pairingCodeIdByHash r) (ro_codeHash o') = Some i" "map_get (pairingCodesById r) i = Some rec"
    using redeem_new_commits[OF assms(1,2)] by auto
  have "pairingCodesById r' = map_set (pc_id rec) (rec\<lparr>pc_consumedAt := Some (ro_at o')\<rparr>) (pairingCodesById r)"
    "pairingCodeIdByHash r' = pairingCodeIdByHash r"
    using c(1) by (auto simp: redeem_commit_def redeem_device_def revoke_live_credentials_def Let_def next_id_eq
        frame_simps split: option.splits)
  then show ?thesis using c(2,3) assms(3,4)
    by (auto simp: hash_spent_def store_simps spent_def dest: keyedD)
qed

text \<open>
  C12: A pairing code pairs at most one device: once a redemption of it has succeeded, no later
  request, in any later state, is answered with a new redemption of the same code.
\<close>

theorem pairing_code_single_use:
  assumes "trust_start r0" and "trust_reaches h r0 r"
    and "redeemPairingCode h o1 r = (Inr (Some v1), r1)" and "red_replayed v1 = Some False" and "ro_at o1 \<noteq> []"
    and "trust_reaches h r1 r2" and "ro_codeHash o2 = ro_codeHash o1"
    and "redeemPairingCode h o2 r2 = (Inr (Some v2), r3)"
  shows "red_replayed v2 \<noteq> Some False"
proof -
  have k: "keyed pc_id (pairingCodesById r)"
    using keyed_codes_reaches[OF assms(2)] assms(1) by (simp add: trust_start_def)
  have "hash_spent (ro_codeHash o1) r1" by (rule redeem_spends[OF assms(3,4) k assms(5)])
  moreover have "keyed pc_id (pairingCodesById r1)"
    using redeem_codes[OF assms(3)] k by (auto intro!: keyed_put)
  ultimately have "hash_spent (ro_codeHash o2) r2" using hash_spent_reaches[OF assms(6)] assms(7) by simp
  then show ?thesis using redeem_fresh_code[OF assms(8)] by blast
qed

section \<open>Rotation and administrative revocation\<close>

lemma confirm_records:
  "confirmDeviceSessionRotation h o' r = (Inr (Some v), r') \<Longrightarrow> map_get (credentialRequests r') (confirm_key o') \<noteq> None"
  by (auto simp: confirmDeviceSessionRotation_def Let_def split_beta confirm_commit_def store_simps
      split: option.splits if_splits)

text \<open>
  Confirming a rotation swaps the two tokens and nothing else: the pending token becomes
  active, the token it was prepared from is revoked, every other credential is as before, and
  the old token never authenticates again.
\<close>

theorem confirm_rotation_swaps:
  assumes "trust_start r0" and "trust_reaches h r0 r" and "co_at o' \<noteq> []"
    and "confirmDeviceSessionRotation h o' r = (Inr (Some v), r')"
    and "map_get (credentialRequests r) (confirm_key o') = None"
  shows "\<exists>ph p oh old. map_get (deviceCredentialsByHash r) ph = Some p \<and> cred_lifecycleState p = LcPending
     \<and> map_get (deviceCredentialHashById r) (ctx_credentialId (co_context o')) = Some ph
     \<and> map_get (deviceCredentialsByHash r) oh = Some old \<and> live_session old
     \<and> cred_deviceId old = cred_deviceId p
     \<and> deviceCredentialsByHash r' = map_set oh (old\<lparr>cred_lifecycleState := LcRevoked, cred_revokedAt := Some (co_at o')\<rparr>)
          (map_set ph (p\<lparr>cred_lifecycleState := LcActive\<rparr>) (deviceCredentialsByHash r))
     \<and> (\<forall>r'' ty t. trust_reaches h r' r'' \<longrightarrow> resolveDeviceCredential h oh ty t r'' = None)"
  using assms(4)
proof (cases rule: confirmE)
  case same
  then show ?thesis using confirm_records[OF assms(4)] assms(5) by simp
next
  case (commit ph p oh old i)
  have inv: "trust_inv r" using trust_inv_reaches[OF assms(2) trust_start_inv[OF assms(1)]] .
  let ?C = "deviceCredentialsByHash r"
  have p: "map_get (deviceCredentialHashById r) (ctx_credentialId (co_context o')) = Some ph" "map_get ?C ph = Some p"
    and old: "map_get (deviceCredentialHashById r) i = Some oh" "map_get ?C oh = Some old"
    using commit(3,6) by (auto dest: credential_by_idD)
  have okp: "cred_ok (devices r) ?C (deviceCredentialHashById r) ph p"
    using inv p by (simp add: trust_inv_def cred_inv_def)
  obtain k0 c0 where c0: "map_get ?C k0 = Some c0" "i = cred_id c0" "cred_credentialType c0 = CredSession"
    "cred_deviceId c0 = cred_deviceId p"
    using okp commit(4,5) by (auto simp: cred_ok_def)
  have "k0 = oh" using inv c0(1,2) old(1) by (auto simp: trust_inv_def cred_inv_def cred_ok_def)
  with c0 old have same: "c0 = old" by simp
  have ne: "oh \<noteq> ph" using p old commit(4,7) by auto
  have C': "deviceCredentialsByHash r' = map_set oh (old\<lparr>cred_lifecycleState := LcRevoked, cred_revokedAt := Some (co_at o')\<rparr>)
          (map_set ph (p\<lparr>cred_lifecycleState := LcActive\<rparr>) ?C)"
    using commit(2) p(2) old(2) ne by (simp add: confirm_commit_def Let_def map_modify_def store_simps)
  have inv': "trust_inv r'" using trust_inv_confirm[OF inv, of h o'] assms(4) by simp
  have dead: "resolveDeviceCredential h oh ty t r'' = None" if rr: "trust_reaches h r' r''" for r'' ty t
  proof -
    have "map_get (deviceCredentialsByHash r') oh
        = Some (old\<lparr>cred_lifecycleState := LcRevoked, cred_revokedAt := Some (co_at o')\<rparr>)"
      by (simp add: C' store_simps)
    then obtain c where "map_get (deviceCredentialsByHash r'') oh = Some c" "retired c"
      using retains_reaches[OF rr inv'] unfolding retains_def by (metis retired_writes(3))
    then show ?thesis by (rule retired_unresolvable[OF trust_inv_reaches[OF rr inv']])
  qed
  have live: "live_session old" using c0(3) same commit(7,8) by (simp add: live_session_def)
  show ?thesis
    by (rule exI[of _ ph], rule exI[of _ p], rule exI[of _ oh], rule exI[of _ old], intro conjI)
      (use p old commit(4) live c0(4) same C' dead in blast)+
qed

text \<open>
  C15: An administrator's revocation of a device is complete and leaves its evidence: no
  credential of the device stays active or pending, the answer counts exactly those it
  revoked, other devices' credentials are untouched, and exactly one audit event and one outbox
  event record it.
\<close>

theorem admin_revocation_complete:
  assumes "trust_inv r" and "revokeDeviceByAdministrator o' r = (Inr (Some v), r')"
    and "map_get (adminDeviceRevocations r) (admin_revoke_key o') = None"
  shows "av_revokedCredentialCount v
      = length (filter (admin_revocable (avo_deviceId o')) (map_values (deviceCredentialsByHash r)))
    \<and> filter (admin_revocable (avo_deviceId o')) (map_values (deviceCredentialsByHash r')) = []
    \<and> (\<forall>k c. map_get (deviceCredentialsByHash r) k = Some c \<longrightarrow> cred_deviceId c \<noteq> avo_deviceId o' \<longrightarrow>
         map_get (deviceCredentialsByHash r') k = Some c)
    \<and> (\<exists>d. map_get (devices r') (avo_deviceId o') = Some d \<and> dev_status d = DevRevoked)
    \<and> (\<exists>events ev. map_get (audits r) (avo_organizationId o') = Some events
         \<and> audits r' = map_set (avo_organizationId o') (events @ [ev]) (audits r)
         \<and> au_id ev = avo_auditEventId o' \<and> au_entityId ev = avo_deviceId o')
    \<and> countAdminRecoveryOutboxEvents (avo_organizationId o') (avo_requestId o') r'
        = Suc (countAdminRecoveryOutboxEvents (avo_organizationId o') (avo_requestId o') r)"
proof -
  have records: "map_get (adminDeviceRevocations r') (admin_revoke_key o') \<noteq> None"
    using assms(2) by (auto simp: revokeDeviceByAdministrator_def Let_def split_beta admin_revoke_commit_def
        store_simps split: option.splits if_splits)
  from assms(2) show ?thesis
  proof (cases rule: admin_revokeE)
    case same
    with records assms(3) show ?thesis by simp
  next
    case (commit d events)
    have di: "dev_id d = avo_deviceId o'"
      using assms(1) commit(3) by (auto simp: trust_inv_def dest!: cred_inv_keyed dest: keyedD)
    let ?P = "admin_revocable (avo_deviceId o')"
      and ?f = "\<lambda>c. c\<lparr>cred_lifecycleState := LcRevoked, cred_revokedAt := Some (avo_at o')\<rparr>"
    have C': "deviceCredentialsByHash r' = map_update_where ?P ?f (deviceCredentialsByHash r)"
      and D': "map_get (devices r') (avo_deviceId o')
        = Some (d\<lparr>dev_status := DevRevoked, dev_revokedAt := Some (avo_at o'), updatedAt := avo_at o'\<rparr>)"
      and cnt: "av_revokedCredentialCount v = length (filter ?P (map_values (deviceCredentialsByHash r)))"
      and ob: "\<exists>x. map_values (adminRecoveryOutboxEvents r') = map_values (adminRecoveryOutboxEvents r) @ [x]
         \<and> ob_organizationId x = avo_organizationId o' \<and> ob_requestId x = avo_requestId o'"
      using commit(1,2) di commit(8)
      by (simp_all add: admin_revoke_commit_def Let_def store_simps values_update_fresh)
    have ev: "\<exists>ev. audits r' = map_set (avo_organizationId o') (events @ [ev]) (audits r)
         \<and> au_id ev = avo_auditEventId o' \<and> au_entityId ev = avo_deviceId o'"
      unfolding commit(2) admin_revoke_commit_def Let_def
      by (simp add: di) (intro exI conjI, rule refl, simp_all)
    have none: "filter ?P (map_values (deviceCredentialsByHash r')) = []"
      by (auto simp: C' values_update_where filter_empty_conv admin_revocable_def)
    have other: "\<forall>k c. map_get (deviceCredentialsByHash r) k = Some c \<longrightarrow> cred_deviceId c \<noteq> avo_deviceId o' \<longrightarrow>
         map_get (deviceCredentialsByHash r') k = Some c"
      by (simp add: C' store_simps admin_revocable_def)
    have out: "countAdminRecoveryOutboxEvents (avo_organizationId o') (avo_requestId o') r'
        = Suc (countAdminRecoveryOutboxEvents (avo_organizationId o') (avo_requestId o') r)"
      using ob by (auto simp: countAdminRecoveryOutboxEvents_def)
    show ?thesis
      using cnt none other D' ev commit(6) out by (intro conjI) auto
  qed
qed

end
