(* ===== verification/Retries.thy ===== *)
theory Retries
  imports Trust
begin

text \<open>
  The mutations a mobile client or an administrator may retry are idempotent: each is an
  instance of \<open>idempotent_request\<close>, so that repeating a request that succeeded answers the
  same result, marked as replayed, and changes nothing.
\<close>

section \<open>The seven retried operations\<close>

text \<open>An operation considered in the states that satisfy an indexing invariant.\<close>

definition guarded :: "('o \<Rightarrow> 's \<Rightarrow> bool) \<Rightarrow> ('o \<Rightarrow> 's \<Rightarrow> ('s, 'r option) outcome) \<Rightarrow> 'o \<Rightarrow> 's \<Rightarrow> ('s, 'r option) outcome" where
  "guarded P run o' r = (if P o' r then run o' r else (Inr None, r))"

lemma current_id: "findCurrentMobileCredential h ctx ty ts r = Some k \<Longrightarrow> cred_id (cur_credential k) = ctx_credentialId ctx"
  by (auto elim!: findCurrentE dest!: find_credential_forD)

interpretation activation: idempotent_request "activateMobileDevice h" "\<lambda>_ _. True"
  "\<lambda>o' r. map_get (credentialRequests r) (activate_key o')" activate_matches
  "\<lambda>p. (response_activate p)\<lparr>ar_replayed := True\<rparr>" "\<lambda>v. v\<lparr>ar_replayed := True\<rparr>" for h
  by unfold_locales
    (auto simp: activateMobileDevice_def Let_def split_beta activate_commit_def store_simps
      activate_matches_def make_request_def response_activate_def frame_simps current_id
      split: option.splits if_splits)

interpretation reconsent: idempotent_request "reconsentMobileDevice h" "\<lambda>_ _. True"
  "\<lambda>o' r. map_get (credentialRequests r) (reconsent_key o')" reconsent_matches
  "\<lambda>p. (response_reconsent p)\<lparr>rr_replayed := True\<rparr>" "\<lambda>v. v\<lparr>rr_replayed := True\<rparr>" for h
  by unfold_locales
    (auto simp: reconsentMobileDevice_def Let_def split_beta reconsent_commit_def store_simps
      reconsent_matches_def make_request_def response_reconsent_def
      split: option.splits if_splits)

interpretation preparation: idempotent_request "prepareDeviceSessionRotation h" "\<lambda>_ _. True"
  "\<lambda>o' r. map_get (credentialRequests r) (prepare_key o')" prepare_matches
  "\<lambda>p. (response_prepare p)\<lparr>ppr_replayed := True\<rparr>" "\<lambda>v. v\<lparr>ppr_replayed := True\<rparr>" for h
  by unfold_locales
    (auto simp: prepareDeviceSessionRotation_def Let_def split_beta prepare_commit_def store_simps
      prepare_matches_def make_request_def response_prepare_def frame_simps
      split: option.splits if_splits)

interpretation self_revocation: idempotent_request "revokeMobileSession h" "\<lambda>_ _. True"
  "\<lambda>o' r. map_get (credentialRequests r) (revoke_key o')" revoke_matches
  "\<lambda>p. (response_revoke p)\<lparr>vr_replayed := True\<rparr>" "\<lambda>v. v\<lparr>vr_replayed := True\<rparr>" for h
  by unfold_locales
    (auto simp: revokeMobileSession_def Let_def split_beta revoke_commit_def store_simps
      revoke_matches_def make_request_def response_revoke_def
      split: option.splits if_splits)

text \<open>
  A confirmation is recorded under the pending credential's own identifier, so its replay
  relies on the identifier index of the credential store.
\<close>

definition ids_indexed :: "'a device_state_scheme \<Rightarrow> bool" where
  "ids_indexed r \<longleftrightarrow> (\<forall>i k c. map_get (deviceCredentialHashById r) i = Some k \<longrightarrow>
     map_get (deviceCredentialsByHash r) k = Some c \<longrightarrow> cred_id c = i)"

lemma ids_indexed_by_id: "ids_indexed r \<Longrightarrow> credential_by_id i r = Some (k, c) \<Longrightarrow> cred_id c = i"
  by (drule credential_by_idD) (auto simp: ids_indexed_def)

lemma ids_indexed_confirm:
  assumes "ids_indexed r" shows "ids_indexed (snd (confirmDeviceSessionRotation h o' r))"
proof (cases "confirmDeviceSessionRotation h o' r")
  case (Pair res r')
  from Pair show ?thesis
  proof (cases rule: confirmE)
    case (commit ph p oh old i)
    then show ?thesis using Pair assms
      by (auto simp: confirm_commit_def Let_def ids_indexed_def store_simps split: if_splits)
  qed (use Pair assms in simp)
qed

lemma confirm_new_commits:
  assumes "confirmDeviceSessionRotation h o' r = (Inr (Some v), r')"
    and "map_get (credentialRequests r) (confirm_key o') = None"
  obtains ph p oh where "credential_by_id (ctx_credentialId (co_context o')) r = Some (ph, p)"
    "confirm_commit o' ph p oh r = (v, r')"
  using assms
  by (auto simp: confirmDeviceSessionRotation_def Let_def split_beta prod_eq_iff bind_eq_Some_conv
      split: option.splits if_splits)

interpretation confirmation: idempotent_request "guarded (\<lambda>_ r. ids_indexed r) (confirmDeviceSessionRotation h)" "\<lambda>_ r. ids_indexed r"
  "\<lambda>o' r. map_get (credentialRequests r) (confirm_key o')" confirm_matches
  "\<lambda>p. (response_confirm p)\<lparr>cr_replayed := True\<rparr>" "\<lambda>v. v\<lparr>cr_replayed := True\<rparr>" for h
proof (unfold_locales, goal_cases)
  case (3 o' s v s')
  then have ix: "ids_indexed s" and run: "confirmDeviceSessionRotation h o' s = (Inr (Some v), s')"
    by (auto simp: guarded_def split: if_splits)
  from run 3(2) obtain ph p oh where c: "credential_by_id (ctx_credentialId (co_context o')) s = Some (ph, p)"
    "confirm_commit o' ph p oh s = (v, s')" by (rule confirm_new_commits)
  have "cred_id p = ctx_credentialId (co_context o')" by (rule ids_indexed_by_id[OF ix c(1)])
  moreover have "ids_indexed s'" using ids_indexed_confirm[OF ix, of h o'] run by simp
  ultimately show ?case using c(2)
    by (auto simp: confirm_commit_def Let_def store_simps confirm_matches_def make_request_def response_confirm_def)
qed (auto simp: guarded_def confirmDeviceSessionRotation_def split: if_splits)

definition device_indexed :: "admin_revoke_options \<Rightarrow> 'a pairing_state_scheme \<Rightarrow> bool" where
  "device_indexed o' r \<longleftrightarrow> (\<forall>d. map_get (devices r) (avo_deviceId o') = Some d \<longrightarrow> dev_id d = avo_deviceId o')"

lemma trust_inv_device_indexed: "trust_inv r \<Longrightarrow> device_indexed o' r"
  by (auto simp: device_indexed_def trust_inv_def cred_inv_def dest: keyedD)

interpretation admin_revocation: idempotent_request "guarded device_indexed revokeDeviceByAdministrator"
  device_indexed
  "\<lambda>o' r. map_get (adminDeviceRevocations r) (admin_revoke_key o')" admin_revoke_matches
  "\<lambda>p. (sar_result p)\<lparr>av_replayed := True\<rparr>" "\<lambda>v. v\<lparr>av_replayed := True\<rparr>"
  by unfold_locales
    (auto simp: guarded_def revokeDeviceByAdministrator_def Let_def split_beta admin_revoke_commit_def store_simps
      admin_revoke_matches_def device_indexed_def split: option.splits if_splits)

text \<open>
  A redemption that answers a device; the other outcomes change nothing and are not recorded.
  The installation index must point at devices of that installation.
\<close>

definition redeem_device_for ::
  "host \<Rightarrow> redeem_options \<Rightarrow> 'a pairing_state_scheme \<Rightarrow> ('a pairing_state_scheme, redemption_result option) outcome" where
  "redeem_device_for h o' r =
     (case redeemPairingCode h o' r of
        (Inr (Some v), r') \<Rightarrow> (Inr (if red_replayed v = None then None else Some v), r')
      | out \<Rightarrow> out)"

definition installation_indexed :: "redeem_options \<Rightarrow> 'a pairing_state_scheme \<Rightarrow> bool" where
  "installation_indexed o' r \<longleftrightarrow> (\<forall>orgId i d.
     map_get (devicesByInstallation r) (key2 orgId (reg_installationId (ro_registration o'))) = Some i \<longrightarrow>
     map_get (devices r) i = Some d \<longrightarrow> dev_installationId d = reg_installationId (ro_registration o'))"

lemma redeem_commit_writes:
  assumes "redeem_commit o' rec e existing r = (v, r')"
    and "case existing of None \<Rightarrow> True | Some d \<Rightarrow> dev_installationId d = reg_installationId (ro_registration o')"
  obtains d where "red_device v = Some d" "dev_installationId d = reg_installationId (ro_registration o')"
    "devices r' = map_set (dev_id d) d (devices r)"
    "devicesByInstallation r' = map_set (key2 (pc_organizationId rec) (reg_installationId (ro_registration o')))
       (dev_id d) (devicesByInstallation r)"
    "red_replayed v = Some False"
    "map_get (pairingRedemptions r') (ro_requestId o') = Some \<lparr>sr_requestId = ro_requestId o',
       sr_codeHash = ro_codeHash o', sr_requestFingerprint = ro_requestFingerprint o', sr_result = v\<rparr>"
proof -
  let ?d = "fst (redeem_device o' rec existing r)"
  have inst: "dev_installationId ?d = reg_installationId (ro_registration o')"
    using assms(2) by (auto simp: redeem_device_def fresh_device_def repaired_device_def Let_def split_beta split: option.splits)
  have frame: "devices (snd (redeem_device o' rec existing r)) = devices r"
    "devicesByInstallation (snd (redeem_device o' rec existing r)) = devicesByInstallation r"
    by (auto simp: redeem_device_def revoke_live_credentials_def Let_def next_id_eq split: option.splits)
  have sc: "devicesByInstallation (store_credential c orgId emp i ts s) = devicesByInstallation s"
    for c orgId emp i ts and s :: "'a pairing_state_scheme" by (simp add: store_credential_def Let_def)
  show ?thesis
    by (rule that[of ?d])
      (use assms(1) inst in \<open>auto simp: redeem_commit_def Let_def split_beta frame sc frame_simps store_simps\<close>)
qed

lemma installation_indexed_commit:
  assumes "installation_indexed o' r" "redeem_commit o' rec e existing r = (v, r')"
    and "case existing of None \<Rightarrow> True | Some d \<Rightarrow> dev_installationId d = reg_installationId (ro_registration o')"
  shows "installation_indexed o' r'"
proof -
  from assms(2,3) obtain d where d: "dev_installationId d = reg_installationId (ro_registration o')"
    "devices r' = map_set (dev_id d) d (devices r)"
    "devicesByInstallation r' = map_set (key2 (pc_organizationId rec) (reg_installationId (ro_registration o')))
       (dev_id d) (devicesByInstallation r)" by (rule redeem_commit_writes)
  show ?thesis using assms(1) by (auto simp: installation_indexed_def d store_simps split: if_splits)
qed

lemma redeem_new_commits_indexed:
  assumes "redeemPairingCode h o' r = (Inr (Some v), r')" "red_replayed v \<noteq> None"
    and "map_get (pairingRedemptions r) (ro_requestId o') = None" "installation_indexed o' r"
  obtains rec e existing where "redeem_commit o' rec e existing r = (v, r')"
    "case existing of None \<Rightarrow> True | Some d \<Rightarrow> dev_installationId d = reg_installationId (ro_registration o')"
  using assms
  by (auto simp: redeemPairingCode_def Let_def split_beta bind_eq_Some_conv redemption_only_def prod_eq_iff
      installation_indexed_def split: option.splits if_splits)

interpretation redemption: idempotent_request "guarded installation_indexed (redeem_device_for h)" installation_indexed
  "\<lambda>o' r. map_get (pairingRedemptions r) (ro_requestId o')" redemption_matches
  "\<lambda>p. (sr_result p)\<lparr>red_replayed := Some True\<rparr>" "\<lambda>v. v\<lparr>red_replayed := Some True\<rparr>" for h
proof (unfold_locales, goal_cases)
  case (3 o' s v s')
  then have ix: "installation_indexed o' s" and run: "redeemPairingCode h o' s = (Inr (Some v), s')"
    "red_replayed v \<noteq> None"
    by (auto simp: guarded_def redeem_device_for_def split: if_splits prod.splits sum.splits option.splits)
  obtain rec e existing where c: "redeem_commit o' rec e existing s = (v, s')"
    "case existing of None \<Rightarrow> True | Some d \<Rightarrow> dev_installationId d = reg_installationId (ro_registration o')"
    using run 3(2) ix by (rule redeem_new_commits_indexed)
  then obtain d where d: "red_device v = Some d" "dev_installationId d = reg_installationId (ro_registration o')"
    "map_get (pairingRedemptions s') (ro_requestId o') = Some \<lparr>sr_requestId = ro_requestId o',
       sr_codeHash = ro_codeHash o', sr_requestFingerprint = ro_requestFingerprint o', sr_result = v\<rparr>"
    by (rule redeem_commit_writes)
  have "installation_indexed o' s'" using ix c by (rule installation_indexed_commit)
  then show ?case using d by (simp add: redemption_matches_def)
qed (auto simp: guarded_def redeem_device_for_def redeemPairingCode_def split: if_splits)

text \<open>
  Retrying an activation that succeeded, any number of times, changes nothing and answers
  the same device, session expiry and policy, marked as replayed.
\<close>

theorem activation_retry_idempotent:
  assumes "activateMobileDevice h o' r = (Inr (Some v), r')"
  shows "((\<lambda>s. snd (activateMobileDevice h o' s)) ^^ n) r' = r'
    \<and> activateMobileDevice h o' r' = (Inr (Some (v\<lparr>ar_replayed := True\<rparr>)), r')"
  using activation.retry_many[OF assms] activation.retry[OF assms] by simp

text \<open>
  Retrying a redemption that paired a device, any number of times, pairs nothing more and
  answers the same device, marked as replayed.
\<close>

theorem redemption_retry_idempotent:
  assumes "redeemPairingCode h o' r = (Inr (Some v), r')" and "red_replayed v \<noteq> None"
    and "installation_indexed o' r"
  shows "redeemPairingCode h o' r' = (Inr (Some (v\<lparr>red_replayed := Some True\<rparr>)), r')
    \<and> ((\<lambda>s. snd (redeemPairingCode h o' s)) ^^ n) r' = r'"
proof -
  have "guarded installation_indexed (redeem_device_for h) o' r = (Inr (Some v), r')"
    using assms by (simp add: guarded_def redeem_device_for_def)
  then have "guarded installation_indexed (redeem_device_for h) o' r' = (Inr (Some (v\<lparr>red_replayed := Some True\<rparr>)), r')"
    by (rule redemption.retry)
  then have once: "redeemPairingCode h o' r' = (Inr (Some (v\<lparr>red_replayed := Some True\<rparr>)), r')"
    by (auto simp: guarded_def redeem_device_for_def split: if_splits prod.splits sum.splits option.splits)
  then have "((\<lambda>s. snd (redeemPairingCode h o' s)) ^^ n) r' = r'" by (induction n) auto
  with once show ?thesis by simp
qed

end
