(* ===== verification/ImportFacts.thy ===== *)
theory ImportFacts
  imports Imports CallFacts AssignmentFacts Retries
begin

text \<open>
  What a lead import guarantees: its counters always match its rows, a preview's valid rows are
  free of duplicates, every commit settles its batch whatever happens to single rows, so that
  enough commits complete the job, and a repeated commit changes nothing.
\<close>

section \<open>Counting rows\<close>

lemma rows_with_settle:
  assumes "distinct (map ir_rowNumber rows)" "row \<in> set rows" "ir_rowNumber row = n"
  shows "rows_with d (map (\<lambda>x. if ir_rowNumber x = n then f x else x) rows) + (if ir_decision row = d then 1 else 0)
     = rows_with d rows + (if ir_decision (f row) = d then 1 else 0)"
  using assms
proof (induction rows)
  case (Cons x rows)
  show ?case
  proof (cases "x = row")
    case True
    have "map (\<lambda>x. if ir_rowNumber x = n then f x else x) rows = rows"
      using Cons.prems True by (intro map_idI) (force simp: image_iff)
    then show ?thesis using Cons.prems True by (simp add: rows_with_def)
  next
    case False
    then have "row \<in> set rows" "ir_rowNumber x \<noteq> n" using Cons.prems by auto
    then show ?thesis using Cons by (auto simp: rows_with_def)
  qed
qed simp

text \<open>The job's counters count the rows; imported rows stay counted as valid.\<close>

definition row_numbers :: "nat \<Rightarrow> nat list" where
  "row_numbers n = [1..<Suc n]"

definition counts_ok :: "import_preview \<Rightarrow> bool" where
  "counts_ok p \<longleftrightarrow> (let j = ip_job p; rows = ip_rows p in
     map ir_rowNumber rows = row_numbers (length rows) \<and> ij_totalRows j = length rows
     \<and> ij_validRows j = int (rows_with RowValid rows) + int (rows_with RowImported rows)
     \<and> ij_duplicateRows j = int (rows_with RowDuplicate rows) \<and> ij_errorRows j = int (rows_with RowInvalid rows)
     \<and> ij_importedRows j = int (rows_with RowImported rows))"

definition import_ok :: "import_preview \<Rightarrow> bool" where
  "import_ok p \<longleftrightarrow> counts_ok p
     \<and> (ij_status (ip_job p) \<noteq> JobProcessing \<longrightarrow> ij_processedRows (ip_job p) = rows_settled (ip_rows p))
     \<and> (ij_status (ip_job p) = JobCompleted \<longrightarrow> rows_with RowValid (ip_rows p) = 0)"

definition import_inv :: "'a import_state_scheme \<Rightarrow> bool" where
  "import_inv r \<longleftrightarrow> ids_fresh ''lead_import'' (ids r) (leadImports r)
     \<and> (\<forall>i p. map_get (leadImports r) i = Some p \<longrightarrow> ij_id (ip_job p) = i \<and> import_ok p)"

text \<open>How a commit settles one row.\<close>

definition settling :: "(import_row \<Rightarrow> import_row) \<Rightarrow> (import_job \<Rightarrow> import_job) \<Rightarrow> bool" where
  "settling f g \<longleftrightarrow> (\<exists>l. f = as_duplicate l \<and> g = count_duplicate) \<or> (\<exists>i. f = as_invalid i \<and> g = count_invalid)
     \<or> (f = as_imported \<and> g = count_imported)"

lemma settling_row:
  assumes "settling f g"
  shows "ir_rowNumber (f row) = ir_rowNumber row" "ir_input (f row) = ir_input row" "ir_decision (f row) \<noteq> RowValid"
  using assms by (auto simp: settling_def as_duplicate_def as_invalid_def as_imported_def)

lemma settling_job:
  assumes "settling f g"
  shows "ij_id (g j) = ij_id j" "ij_status (g j) = ij_status j" "ij_totalRows (g j) = ij_totalRows j"
    "ij_organizationId (g j) = ij_organizationId j" "ij_createdByUserId (g j) = ij_createdByUserId j"
  using assms by (auto simp: settling_def count_duplicate_def count_invalid_def count_imported_def)

lemma counts_ok_distinct: "counts_ok p \<Longrightarrow> distinct (map ir_rowNumber (ip_rows p))"
  by (simp add: counts_ok_def row_numbers_def Let_def del: upt_Suc)

lemma settle_rows:
  assumes "settling f g"
  shows "map ir_rowNumber (ip_rows (settle n f g p)) = map ir_rowNumber (ip_rows p)"
  using settling_row(1)[OF assms] by (simp add: settle_def)

lemma settle_valid:
  assumes s: "settling f g" and c: "counts_ok p" and row: "row \<in> set (ip_rows p)" "ir_decision row = RowValid"
  shows "Suc (rows_with RowValid (ip_rows (settle (ir_rowNumber row) f g p))) = rows_with RowValid (ip_rows p)"
  using rows_with_settle[OF counts_ok_distinct[OF c] row(1) refl, of RowValid f] row(2) settling_row(3)[OF s, of row]
  by (simp add: settle_def)

lemma counts_settle:
  assumes s: "settling f g" and c: "counts_ok p" and row: "row \<in> set (ip_rows p)" "ir_decision row = RowValid"
  shows "counts_ok (settle (ir_rowNumber row) f g p)"
proof -
  define rows where "rows = ip_rows (settle (ir_rowNumber row) f g p)"
  have step: "rows_with d rows + (if ir_decision row = d then 1 else 0)
      = rows_with d (ip_rows p) + (if ir_decision (f row) = d then 1 else 0)" for d
    using rows_with_settle[OF counts_ok_distinct[OF c] row(1) refl, of d f] by (simp add: rows_def settle_def)
  have nums: "map ir_rowNumber rows = row_numbers (length (ip_rows p))" "length rows = length (ip_rows p)"
    using settle_rows[OF s] c unfolding rows_def by (simp_all add: counts_ok_def Let_def) (simp add: settle_def)
  have job: "ip_job (settle (ir_rowNumber row) f g p) = g (ip_job p)" by (simp add: settle_def)
  have kinds: "ir_decision (as_duplicate l x) = RowDuplicate" "ir_decision (as_invalid i x) = RowInvalid"
    "ir_decision (as_imported x) = RowImported" for l i x
    by (simp_all add: as_duplicate_def as_invalid_def as_imported_def)
  note num = step[of RowValid] step[of RowImported] step[of RowDuplicate] step[of RowInvalid]
  note c' = c[unfolded counts_ok_def Let_def]
  have ok: "counts_ok (settle (ir_rowNumber row) f g p) \<longleftrightarrow> map ir_rowNumber rows = row_numbers (length rows)
     \<and> ij_totalRows (g (ip_job p)) = length rows
     \<and> ij_validRows (g (ip_job p)) = int (rows_with RowValid rows) + int (rows_with RowImported rows)
     \<and> ij_duplicateRows (g (ip_job p)) = int (rows_with RowDuplicate rows) \<and> ij_errorRows (g (ip_job p)) = int (rows_with RowInvalid rows)
     \<and> ij_importedRows (g (ip_job p)) = int (rows_with RowImported rows)"
    by (simp add: counts_ok_def Let_def job rows_def)
  from s consider l where "f = as_duplicate l" "g = count_duplicate" | i where "f = as_invalid i" "g = count_invalid"
    | "f = as_imported" "g = count_imported" by (auto simp: settling_def)
  then show ?thesis
  proof cases
    case 1
    then show ?thesis using num row(2) c' nums
      unfolding ok by (simp add: kinds count_duplicate_def)
  next
    case 2
    then show ?thesis using num row(2) c' nums
      unfolding ok by (simp add: kinds count_invalid_def)
  next
    case 3
    then show ?thesis using num row(2) c' nums
      unfolding ok by (simp add: kinds count_imported_def)
  qed
qed

section \<open>One row\<close>

lemma createLead_import_frame [frame_simps]:
  "leadImports (snd (createLead h o' r)) = leadImports r"
  "leadImportCommitRequests (snd (createLead h o' r)) = leadImportCommitRequests r"
  "leadImportTeams (snd (createLead h o' r)) = leadImportTeams r"
  "employees (snd (createLead h o' r)) = employees r"
  by (auto simp: createLead_def Let_def add_activity_eq next_id_eq split: option.splits if_splits lead_access_scope.splits)

lemma createLead_ids: "ids r \<le> ids (snd (createLead h o' r))"
  by (auto simp: createLead_def Let_def add_activity_eq next_id_eq split: option.splits if_splits lead_access_scope.splits)

lemma createLead_answers:
  assumes inv: "lead_inv h r" shows "\<exists>v r'. createLead h o' r = (Inr v, r')"
proof (cases "createLead h o' r")
  case (Pair res r')
  have inv': "lead_inv h r'" using lead_inv_createLead[OF inv, of o'] Pair by simp
  from Pair show ?thesis
  proof (cases rule: createLeadE)
    case (created s r3)
    let ?i = "sequential_id ''lead'' (Suc (ids r))"
    have "map_get (leads r') ?i = Some (new_lead o' s ?i)"
      by (simp add: created(7,8) frame_simps store_simps)
    then have "lead_ok h r' (new_lead o' s ?i)" using lead_inv_lead[OF inv'] by blast
    then obtain d where "buildLeadDetail h (new_lead o' s ?i) (clo_at o') r' = Inr d" using detail_builds by blast
    then show ?thesis using created(9) Pair by simp
  qed (use Pair in simp)
qed

text \<open>What settling a row changes of the state.\<close>

definition row_settled :: "string \<Rightarrow> nat \<Rightarrow> 'a import_state_scheme \<Rightarrow> 'a import_state_scheme \<Rightarrow> bool" where
  "row_settled jobId n r r' \<longleftrightarrow> (\<exists>f g. settling f g \<and> leadImports r' = map_modify jobId (settle n f g) (leadImports r))
     \<and> leadImportCommitRequests r' = leadImportCommitRequests r \<and> leadImportTeams r' = leadImportTeams r
     \<and> employees r' = employees r \<and> ids r \<le> ids r'"

lemma row_settled_store:
  "settling f g \<Longrightarrow> row_settled jobId n r (store_settled jobId n f g r)"
  by (auto simp: row_settled_def store_settled_def)

lemma commit_row_settles:
  assumes inv: "lead_inv h r"
  shows "\<exists>q' r'. commit_row h o' row q r = (Inr q', r') \<and> row_settled (cio_jobId o') (ir_rowNumber row) r r' \<and> lead_inv h r'
    \<and> lead_reaches h r r'"
proof -
  have store: "lead_inv h (store_settled jobId n f g s)" "lead_reaches h s (store_settled jobId n f g s)"
    if "lead_inv h s" for s :: "'a import_state_scheme" and jobId n f g
  proof -
    show "lead_reaches h s (store_settled jobId n f g s)" by (rule reaches_frame[OF that]) (simp_all add: store_settled_def)
    then show "lead_inv h (store_settled jobId n f g s)" using that by (rule lead_inv_reaches)
  qed
  have kinds: "settling (as_duplicate l) count_duplicate" "settling (as_invalid i) count_invalid" "settling as_imported count_imported"
    for l i by (auto simp: settling_def)
  define team where "team = map_get (leadImportRowTeams r) (row_key (cio_jobId o') (ir_rowNumber row))"
  define ex where "ex = (if truthy team then existing_lead (ia_organizationId o') team
     (filter (\<lambda>c. c \<noteq> []) (row_phone (ir_input row) # (case row_alternate (ir_input row) of None \<Rightarrow> [] | Some a \<Rightarrow> [a]))) r else None)"
  note defs = commit_row_def Let_def team_def[symmetric] ex_def[symmetric]
  show ?thesis
  proof (cases ex)
    case (Some l)
    then show ?thesis unfolding defs using store[OF inv] kinds by (auto intro: row_settled_store)
  next
    case None
    show ?thesis
    proof (cases "row_status h (ia_organizationId o') (ir_input row) r")
      case None
      then show ?thesis using \<open>ex = None\<close> unfolding defs using store[OF inv] kinds by (auto intro: row_settled_store)
    next
      case (Some status)
      note st = this
      show ?thesis
      proof (cases "commit_owner o' row status team q r")
        case (Inl i)
        then show ?thesis using \<open>ex = None\<close> st unfolding defs using store[OF inv] kinds by (auto intro: row_settled_store)
      next
        case (Inr own)
        obtain assigned adv where own: "own = (assigned, adv)" by fastforce
        let ?c = "\<lparr>clo_organizationId = ia_organizationId o', clo_scope = ia_scope o', clo_actorUserId = ia_actorUserId o',
          clo_input = import_input (row_key (cio_jobId o') (ir_rowNumber row)) row status assigned, clo_at = cio_at o'\<rparr>"
        obtain v s where cr: "createLead h ?c r = (Inr v, s)" using createLead_answers[OF inv] by blast
        have s: "lead_inv h s" "lead_reaches h r s" "leadImports s = leadImports r" "employees s = employees r"
          "ids r \<le> ids s" "leadImportCommitRequests s = leadImportCommitRequests r" "leadImportTeams s = leadImportTeams r"
          using lead_inv_createLead[OF inv, of ?c] step_create[of h r ?c] createLead_import_frame[of h ?c r] createLead_ids[of r h ?c] cr by auto
        have fin: "row_settled (cio_jobId o') (ir_rowNumber row) r (store_settled (cio_jobId o') (ir_rowNumber row) f g s)
            \<and> lead_inv h (store_settled (cio_jobId o') (ir_rowNumber row) f g s)
            \<and> lead_reaches h r (store_settled (cio_jobId o') (ir_rowNumber row) f g s)" if "settling f g" for f g
          using that store[OF s(1)] s rtranclp_trans[OF s(2)]
          by (auto simp: row_settled_def store_settled_def)
        show ?thesis using \<open>ex = None\<close> st Inr own cr unfolding defs
          using fin[OF kinds(2)] fin[OF kinds(3)] by (cases v) auto
      qed
    qed
  qed
qed

section \<open>A commit\<close>

lemma settle_job: "ip_job (settle n f g p) = g (ip_job p)"
  by (simp add: settle_def)

lemma settle_keeps: "x \<in> set (ip_rows p) \<Longrightarrow> ir_rowNumber x \<noteq> n \<Longrightarrow> x \<in> set (ip_rows (settle n f g p))"
  by (force simp: settle_def)

text \<open>The imports other than the one committed, and what decides who may access it.\<close>

definition import_frame :: "string \<Rightarrow> 'a import_state_scheme \<Rightarrow> 'a import_state_scheme \<Rightarrow> bool" where
  "import_frame jobId r r' \<longleftrightarrow> (\<forall>i. i \<noteq> jobId \<longrightarrow> map_get (leadImports r') i = map_get (leadImports r) i)
     \<and> leadImportTeams r' = leadImportTeams r \<and> employees r' = employees r \<and> ids r \<le> ids r'"

lemma import_frame_refl [simp]: "import_frame jobId r r"
  by (simp add: import_frame_def)

lemma import_frame_trans: "import_frame i r s \<Longrightarrow> import_frame i s t \<Longrightarrow> import_frame i r t"
  by (auto simp: import_frame_def)

text \<open>What a commit leaves of a job: who it belongs to, its size and every row already settled.\<close>

definition job_kept :: "import_preview \<Rightarrow> import_preview \<Rightarrow> bool" where
  "job_kept p p' \<longleftrightarrow> ij_id (ip_job p') = ij_id (ip_job p) \<and> ij_organizationId (ip_job p') = ij_organizationId (ip_job p)
     \<and> ij_createdByUserId (ip_job p') = ij_createdByUserId (ip_job p) \<and> ij_totalRows (ip_job p') = ij_totalRows (ip_job p)
     \<and> (\<forall>row\<in>set (ip_rows p). ir_decision row \<noteq> RowValid \<longrightarrow> row \<in> set (ip_rows p'))"

lemma job_kept_refl [simp]: "job_kept p p"
  by (simp add: job_kept_def)

lemma job_kept_trans: "job_kept p q \<Longrightarrow> job_kept q s \<Longrightarrow> job_kept p s"
  by (simp add: job_kept_def)

lemma job_kept_settle:
  assumes s: "settling f g" and c: "counts_ok p" and row: "row \<in> set (ip_rows p)" "ir_decision row = RowValid"
  shows "job_kept p (settle (ir_rowNumber row) f g p)"
proof -
  have "x \<in> set (ip_rows (settle (ir_rowNumber row) f g p))" if x: "x \<in> set (ip_rows p)" "ir_decision x \<noteq> RowValid" for x
  proof (rule settle_keeps[OF x(1)])
    show "ir_rowNumber x \<noteq> ir_rowNumber row"
      using counts_ok_distinct[OF c] x row by (auto simp: distinct_map dest: inj_onD)
  qed
  then show ?thesis using settling_job[OF s] by (simp add: job_kept_def settle_job)
qed

lemma access_kept:
  assumes "job_kept p p'" "import_frame jobId r r'"
  shows "canAccessImport o' p' r' = canAccessImport o' p r"
proof -
  have "canAccessTeam sc t r' = canAccessTeam sc t r" for sc t
    using assms(2) by (simp add: canAccessTeam_def import_frame_def cong: lead_access_scope.case_cong)
  then show ?thesis using assms by (simp add: canAccessImport_def job_kept_def import_frame_def cong: option.case_cong)
qed

lemma commit_rows_settle:
  assumes "lead_inv h r" "map_get (leadImports r) (cio_jobId o') = Some p" "counts_ok p"
    "distinct (map ir_rowNumber rows)" "set rows \<subseteq> set (ip_rows p)" "\<forall>row\<in>set rows. ir_decision row = RowValid"
  shows "\<exists>q' r' p'. commit_rows h o' rows q r = (Inr q', r') \<and> map_get (leadImports r') (cio_jobId o') = Some p'
    \<and> counts_ok p' \<and> job_kept p p' \<and> rows_with RowValid (ip_rows p') + length rows = rows_with RowValid (ip_rows p)
    \<and> lead_inv h r' \<and> lead_reaches h r r' \<and> import_frame (cio_jobId o') r r'
    \<and> leadImportCommitRequests r' = leadImportCommitRequests r"
  using assms
proof (induction rows arbitrary: r p q)
  case Nil
  then show ?case by auto
next
  case (Cons row rows)
  obtain q1 s where row: "commit_row h o' row q r = (Inr q1, s)" "row_settled (cio_jobId o') (ir_rowNumber row) r s"
    "lead_inv h s" "lead_reaches h r s"
    using commit_row_settles[OF Cons.prems(1)] by blast
  obtain f g where fg: "settling f g" "leadImports s = map_modify (cio_jobId o') (settle (ir_rowNumber row) f g) (leadImports r)"
    using row(2) by (auto simp: row_settled_def)
  let ?p = "settle (ir_rowNumber row) f g p"
  have p: "map_get (leadImports s) (cio_jobId o') = Some ?p" using fg(2) Cons.prems(2) by (simp add: store_simps)
  have frame: "import_frame (cio_jobId o') r s"
    using row(2) fg(2) by (simp add: row_settled_def import_frame_def store_simps)
  have in_p: "row \<in> set (ip_rows p)" "ir_decision row = RowValid" using Cons.prems(5,6) by auto
  have c: "counts_ok ?p" by (rule counts_settle[OF fg(1) Cons.prems(3) in_p])
  have v: "Suc (rows_with RowValid (ip_rows ?p)) = rows_with RowValid (ip_rows p)"
    by (rule settle_valid[OF fg(1) Cons.prems(3) in_p])
  have "x \<in> set (ip_rows ?p)" if x: "x \<in> set rows" for x
  proof -
    have "ir_rowNumber x \<noteq> ir_rowNumber row" using x Cons.prems(4) by (force simp: image_iff)
    then show ?thesis using x Cons.prems(5) by (intro settle_keeps) auto
  qed
  then have "set rows \<subseteq> set (ip_rows ?p)" by blast
  with Cons.IH[OF row(3) p c, of q1] Cons.prems(4,6)
  obtain q' r' p' where n: "commit_rows h o' rows q1 s = (Inr q', r')" "map_get (leadImports r') (cio_jobId o') = Some p'"
    "counts_ok p'" "job_kept ?p p'" "rows_with RowValid (ip_rows p') + length rows = rows_with RowValid (ip_rows ?p)"
    "lead_inv h r'" "lead_reaches h s r'" "import_frame (cio_jobId o') s r'"
    "leadImportCommitRequests r' = leadImportCommitRequests s"
    by auto
  have "job_kept p p'" using job_kept_settle[OF fg(1) Cons.prems(3) in_p] n(4) by (rule job_kept_trans)
  moreover have "rows_with RowValid (ip_rows p') + length (row # rows) = rows_with RowValid (ip_rows p)" using v n(5) by simp
  moreover have "lead_reaches h r r'" using row(4) n(7) by (rule rtranclp_trans)
  moreover have "leadImportCommitRequests r' = leadImportCommitRequests r" using row(2) n(9) by (simp add: row_settled_def)
  ultimately show ?case using row(1) n(1-3,6) import_frame_trans[OF frame n(8)] by auto
qed

lemma store_cursors_import_frame [frame_simps]:
  "leadImports (store_cursors a ts cs is r) = leadImports r" "leadImportTeams (store_cursors a ts cs is r) = leadImportTeams r"
  "leadImportCommitRequests (store_cursors a ts cs is r) = leadImportCommitRequests r"
  "employees (store_cursors a ts cs is r) = employees r" "leadStatuses (store_cursors a ts cs is r) = leadStatuses r"
  "leadFollowUps (store_cursors a ts cs is r) = leadFollowUps r" "leadActivities (store_cursors a ts cs is r) = leadActivities r"
  "ids (store_cursors a ts cs is r) = ids r"
  by (induction "is" arbitrary: r) (simp_all add: store_cursors_def store_cursor_def split: option.split)

lemma rows_with_zero: "rows_with d rows = 0 \<longleftrightarrow> \<not> list_ex (\<lambda>row. ir_decision row = d) rows"
  by (auto simp: rows_with_def filter_empty_conv list_ex_iff)

lemma rows_total: "rows_with RowValid rows + rows_settled rows = length rows"
  unfolding rows_with_def rows_settled_def by (rule sum_length_filter_compl)

lemma finish_ok:
  assumes "counts_ok p"
  shows "import_ok (finish_processing ts p)" "job_kept p (finish_processing ts p)"
    "ip_rows (finish_processing ts p) = ip_rows p"
    "ij_status (ip_job (finish_processing ts p)) = (if rows_with RowValid (ip_rows p) = 0 then JobCompleted else JobInterrupted)"
  using assms by (auto simp: import_ok_def counts_ok_def finish_processing_def job_kept_def Let_def rows_with_zero)

lemma begin_ok:
  assumes "counts_ok p"
  shows "counts_ok (begin_processing ts p)" "job_kept p (begin_processing ts p)" "ip_rows (begin_processing ts p) = ip_rows p"
  using assms by (auto simp: counts_ok_def begin_processing_def job_kept_def Let_def)

text \<open>A commit of an open job succeeds, settles fifty rows or all that are left, and closes the job with the last.\<close>

lemma commit_batch_effect:
  assumes inv: "lead_inv h r" and p: "map_get (leadImports r) (cio_jobId o') = Some p" and c: "counts_ok p"
  shows "\<exists>r' p'. commit_batch h o' p r = (Inr (Some \<lparr>im_job = ip_job p', im_replayed = False\<rparr>), r')
    \<and> map_get (leadImports r') (cio_jobId o') = Some p' \<and> import_ok p' \<and> job_kept p p'
    \<and> rows_with RowValid (ip_rows p') = rows_with RowValid (ip_rows p) - 50
    \<and> ij_status (ip_job p') = (if rows_with RowValid (ip_rows p') = 0 then JobCompleted else JobInterrupted)
    \<and> lead_inv h r' \<and> lead_reaches h r r' \<and> import_frame (cio_jobId o') r r'
    \<and> leadImportCommitRequests r' = map_set (commit_key o') \<lparr>cm_fingerprint = cio_requestFingerprint o', cm_jobId = cio_jobId o',
        cm_result = \<lparr>im_job = ip_job p', im_replayed = False\<rparr>\<rparr> (leadImportCommitRequests r)"
proof -
  let ?j = "cio_jobId o'" and ?ts = "cio_at o'"
  define r1 where "r1 = r\<lparr>leadImports := map_modify ?j (begin_processing ?ts) (leadImports r)\<rparr>"
  let ?p1 = "begin_processing ?ts p"
  have reach1: "lead_reaches h r r1" by (rule reaches_frame[OF inv]) (simp_all add: r1_def)
  have inv1: "lead_inv h r1" using reach1 inv by (rule lead_inv_reaches)
  have p1: "map_get (leadImports r1) ?j = Some ?p1" using p by (simp add: r1_def store_simps)
  have frame1: "import_frame ?j r r1" by (simp add: import_frame_def r1_def store_simps)
  have d: "distinct (map ir_rowNumber (import_batch p))"
    using counts_ok_distinct[OF c] unfolding import_batch_def
    by (metis distinct_map_filter distinct_take take_map)
  have batch: "set (import_batch p) \<subseteq> set (ip_rows ?p1)" "\<forall>row\<in>set (import_batch p). ir_decision row = RowValid"
    using begin_ok(3)[OF c] by (auto simp: import_batch_def dest: in_set_takeD)
  have len: "length (import_batch p) = min 50 (rows_with RowValid (ip_rows p))"
    by (simp add: import_batch_def rows_with_def)
  obtain q s p2 where n: "commit_rows h o' (import_batch p) \<lparr>cp_cursors = [], cp_advanced = []\<rparr> r1 = (Inr q, s)"
    "map_get (leadImports s) ?j = Some p2" "counts_ok p2" "job_kept ?p1 p2"
    "rows_with RowValid (ip_rows p2) + length (import_batch p) = rows_with RowValid (ip_rows ?p1)"
    "lead_inv h s" "lead_reaches h r1 s" "import_frame ?j r1 s" "leadImportCommitRequests s = leadImportCommitRequests r1"
    using commit_rows_settle[OF inv1 p1 begin_ok(1)[OF c] d batch] by blast
  define r3 where "r3 = store_cursors (ia_actorUserId o') ?ts (cp_cursors q) (cp_advanced q) s"
  let ?p' = "finish_processing ?ts p2"
  define r' where "r' = store_commit o' \<lparr>im_job = ip_job ?p', im_replayed = False\<rparr>
      (r3\<lparr>leadImports := map_modify ?j (finish_processing ?ts) (leadImports r3)\<rparr>)"
  have run: "commit_batch h o' p r = (Inr (Some \<lparr>im_job = ip_job ?p', im_replayed = False\<rparr>), r')"
    using n(1,2) by (simp add: commit_batch_def Let_def r1_def[symmetric] r3_def[symmetric] r'_def store_simps) (simp add: r3_def frame_simps Let_def)
  have r': "map_get (leadImports r') ?j = Some ?p'" "import_frame ?j s r'"
    "leadImportCommitRequests r' = map_set (commit_key o') \<lparr>cm_fingerprint = cio_requestFingerprint o', cm_jobId = ?j,
        cm_result = \<lparr>im_job = ip_job ?p', im_replayed = False\<rparr>\<rparr> (leadImportCommitRequests s)"
    using n(2) by (simp_all add: r'_def r3_def store_commit_def frame_simps store_simps import_frame_def)
  have reach: "lead_reaches h s r'"
    by (rule reaches_frame[OF n(6)]) (simp_all add: r'_def r3_def store_commit_def frame_simps)
  have "lead_inv h r'" using reach n(6) by (rule lead_inv_reaches)
  moreover have "lead_reaches h r r'" using reach1 n(7) reach by (meson rtranclp_trans)
  moreover have "import_frame ?j r r'" using frame1 n(8) r'(2) by (meson import_frame_trans)
  moreover have "job_kept p ?p'" using job_kept_trans[OF job_kept_trans[OF begin_ok(2)[OF c] n(4)] finish_ok(2)[OF n(3)]] .
  moreover have "rows_with RowValid (ip_rows ?p') = rows_with RowValid (ip_rows p) - 50"
    using n(5) len begin_ok(3)[OF c] finish_ok(3)[OF n(3)] by simp
  moreover have "leadImportCommitRequests s = leadImportCommitRequests r" using n(9) by (simp add: r1_def)
  ultimately show ?thesis using run r'(1,3) finish_ok(1,3,4)[OF n(3), of ?ts] by auto
qed


lemma import_inv_job:
  assumes "import_inv r" "map_get (leadImports r) j = Some p"
  shows "ij_id (ip_job p) = j" "import_ok p" "counts_ok p"
  using assms by (auto simp: import_inv_def import_ok_def)

text \<open>The same of a commit the caller may make, whether the job is open or complete.\<close>

lemma commit_effect:
  assumes inv: "lead_inv h r" "import_inv r" and p: "map_get (leadImports r) (cio_jobId o') = Some p"
    and acc: "canAccessImport o' p r" and fresh: "map_get (leadImportCommitRequests r) (commit_key o') = None"
  shows "\<exists>r' p' b. commitLeadImport h o' r = (Inr (Some \<lparr>im_job = ip_job p', im_replayed = b\<rparr>), r')
    \<and> map_get (leadImports r') (cio_jobId o') = Some p' \<and> import_ok p' \<and> job_kept p p'
    \<and> rows_with RowValid (ip_rows p') = rows_with RowValid (ip_rows p) - 50
    \<and> (rows_with RowValid (ip_rows p') = 0 \<longrightarrow> ij_status (ip_job p') = JobCompleted)
    \<and> lead_inv h r' \<and> lead_reaches h r r' \<and> import_frame (cio_jobId o') r r'
    \<and> leadImportCommitRequests r' = map_set (commit_key o') \<lparr>cm_fingerprint = cio_requestFingerprint o', cm_jobId = cio_jobId o',
        cm_result = \<lparr>im_job = ip_job p', im_replayed = b\<rparr>\<rparr> (leadImportCommitRequests r)"
proof (cases "ij_status (ip_job p) = JobCompleted")
  case True
  let ?res = "\<lparr>im_job = ip_job p, im_replayed = True\<rparr>"
  have "commitLeadImport h o' r = (Inr (Some ?res), store_commit o' ?res r)"
    using p acc fresh True by (simp add: commitLeadImport_def Let_def)
  moreover have reach: "lead_reaches h r (store_commit o' ?res r)"
    by (rule reaches_frame[OF inv(1)]) (simp_all add: store_commit_def)
  moreover have "lead_inv h (store_commit o' ?res r)" using reach inv(1) by (rule lead_inv_reaches)
  moreover have "import_ok p" "rows_with RowValid (ip_rows p) = 0" using import_inv_job[OF inv(2) p] True by (auto simp: import_ok_def)
  ultimately show ?thesis using p True
    by (intro exI[of _ "store_commit o' ?res r"] exI[of _ p] exI[of _ True]) (simp add: store_commit_def import_frame_def)
next
  case False
  then have "commitLeadImport h o' r = commit_batch h o' p r" using p acc fresh by (simp add: commitLeadImport_def)
  with commit_batch_effect[OF inv(1) p import_inv_job(3)[OF inv(2) p]] show ?thesis
    by (elim exE) (rule exI, rule exI, rule exI[of _ False], auto)
qed

lemma import_inv_put:
  assumes inv: "import_inv r" and f: "import_frame j r r'" and p: "map_get (leadImports r) j = Some p"
    and p': "map_get (leadImports r') j = Some p'" "import_ok p'" "job_kept p p'"
  shows "import_inv r'"
proof -
  have same: "\<forall>i. i \<noteq> j \<longrightarrow> map_get (leadImports r') i = map_get (leadImports r) i" "ids r \<le> ids r'"
    using f by (simp_all add: import_frame_def)
  have "map_get (leadImports r') i = None \<longleftrightarrow> map_get (leadImports r) i = None" for i
    using same(1) p p'(1) by (cases "i = j") auto
  then have "ids_fresh ''lead_import'' (ids r') (leadImports r')"
    using inv same(2) by (auto simp: import_inv_def ids_fresh_def)
  moreover have "ij_id (ip_job q) = i \<and> import_ok q" if q: "map_get (leadImports r') i = Some q" for i q
    using q same(1) p'(1,2,3) import_inv_job[OF inv p] inv by (cases "i = j") (auto simp: import_inv_def job_kept_def)
  ultimately show ?thesis by (simp add: import_inv_def)
qed

lemma commit_none: "commitLeadImport h o' r = (Inr None, r)"
  if "\<not> (\<exists>p. map_get (leadImports r) (cio_jobId o') = Some p \<and> canAccessImport o' p r)"
  using that by (auto simp: commitLeadImport_def split: option.split)

text \<open>Every import of a state is still there in the next, with its settled rows.\<close>

definition imports_kept :: "'a import_state_scheme \<Rightarrow> 'a import_state_scheme \<Rightarrow> bool" where
  "imports_kept r r' \<longleftrightarrow> (\<forall>i p. map_get (leadImports r) i = Some p \<longrightarrow> (\<exists>p'. map_get (leadImports r') i = Some p' \<and> job_kept p p'))"

lemma imports_kept_trans: "imports_kept r s \<Longrightarrow> imports_kept s t \<Longrightarrow> imports_kept r t"
  unfolding imports_kept_def by (blast intro: job_kept_trans)

lemma imports_kept_same: "leadImports r' = leadImports r \<Longrightarrow> imports_kept r r'"
  by (simp add: imports_kept_def)

lemma commit_kept:
  assumes inv: "lead_inv h r" "import_inv r"
  shows "lead_inv h (snd (commitLeadImport h o' r)) \<and> import_inv (snd (commitLeadImport h o' r))
    \<and> imports_kept r (snd (commitLeadImport h o' r)) \<and> lead_reaches h r (snd (commitLeadImport h o' r))"
proof (cases "\<exists>p. map_get (leadImports r) (cio_jobId o') = Some p \<and> canAccessImport o' p r")
  case False
  then show ?thesis using inv by (simp add: commit_none imports_kept_same)
next
  case True
  then obtain p where p: "map_get (leadImports r) (cio_jobId o') = Some p" "canAccessImport o' p r" by blast
  show ?thesis
  proof (cases "map_get (leadImportCommitRequests r) (commit_key o')")
    case None
    from commit_effect[OF inv p None] obtain r' p' b where c: "snd (commitLeadImport h o' r) = r'"
      "map_get (leadImports r') (cio_jobId o') = Some p'" "import_ok p'" "job_kept p p'" "lead_inv h r'" "lead_reaches h r r'"
      "import_frame (cio_jobId o') r r'" by auto
    have "imports_kept r r'" using c(2,4,7) p(1)
      by (auto simp: imports_kept_def import_frame_def) (metis job_kept_refl option.inject)
    then show ?thesis using c import_inv_put[OF inv(2) c(7) p(1) c(2-4)] by simp
  next
    case (Some prior)
    then have "snd (commitLeadImport h o' r) = r" using p by (simp add: commitLeadImport_def)
    then show ?thesis using inv by (simp add: imports_kept_same)
  qed
qed


section \<open>Enough commits complete an import\<close>

definition run_commits :: "host \<Rightarrow> commit_options list \<Rightarrow> 'a import_state_scheme \<Rightarrow> 'a import_state_scheme" where
  "run_commits h os r = fold (\<lambda>o' s. snd (commitLeadImport h o' s)) os r"

lemma run_commits_settle:
  assumes "lead_inv h r" "import_inv r" "map_get (leadImports r) j = Some p" "os \<noteq> []"
    "\<forall>o'\<in>set os. cio_jobId o' = j \<and> canAccessImport o' p r \<and> map_get (leadImportCommitRequests r) (commit_key o') = None"
    "distinct (map commit_key os)"
  shows "\<exists>p'. map_get (leadImports (run_commits h os r)) j = Some p' \<and> import_ok p' \<and> job_kept p p'
    \<and> rows_with RowValid (ip_rows p') = rows_with RowValid (ip_rows p) - 50 * length os
    \<and> (rows_with RowValid (ip_rows p') = 0 \<longrightarrow> ij_status (ip_job p') = JobCompleted)"
  using assms
proof (induction os arbitrary: r p)
  case (Cons o' os)
  have o': "cio_jobId o' = j" "canAccessImport o' p r" "map_get (leadImportCommitRequests r) (commit_key o') = None"
    using Cons.prems(5) by simp_all
  from commit_effect[OF Cons.prems(1,2) _ o'(2,3), unfolded o'(1), OF Cons.prems(3)]
  obtain s q b where n: "commitLeadImport h o' r = (Inr (Some \<lparr>im_job = ip_job q, im_replayed = b\<rparr>), s)" "map_get (leadImports s) j = Some q" "import_ok q" "job_kept p q"
    "rows_with RowValid (ip_rows q) = rows_with RowValid (ip_rows p) - 50"
    "rows_with RowValid (ip_rows q) = 0 \<longrightarrow> ij_status (ip_job q) = JobCompleted" "lead_inv h s" "import_frame j r s"
    "leadImportCommitRequests s = map_set (commit_key o') \<lparr>cm_fingerprint = cio_requestFingerprint o', cm_jobId = j,
        cm_result = \<lparr>im_job = ip_job q, im_replayed = b\<rparr>\<rparr> (leadImportCommitRequests r)"
    by (elim exE conjE) (rule that)
  have run: "run_commits h (o' # os) r = run_commits h os s" using n(1) by (simp add: run_commits_def)
  show ?case
  proof (cases "os = []")
    case True
    then show ?thesis unfolding run using n by (simp add: run_commits_def)
  next
    case False
    have "cio_jobId x = j \<and> canAccessImport x q s \<and> map_get (leadImportCommitRequests s) (commit_key x) = None"
      if x: "x \<in> set os" for x
    proof -
      have "commit_key x \<noteq> commit_key o'" using Cons.prems(6) x by (force simp: image_iff)
      then show ?thesis using Cons.prems(5) x n(9) access_kept[OF n(4,8), of x] by (auto simp: store_simps)
    qed
    then obtain p' where "map_get (leadImports (run_commits h os s)) j = Some p'" "import_ok p'" "job_kept q p'"
      "rows_with RowValid (ip_rows p') = rows_with RowValid (ip_rows q) - 50 * length os"
      "rows_with RowValid (ip_rows p') = 0 \<longrightarrow> ij_status (ip_job p') = JobCompleted"
      using Cons.IH[OF n(7) import_inv_put[OF Cons.prems(2) n(8) Cons.prems(3) n(2,3,4)] n(2) False] Cons.prems(6) by auto
    then show ?thesis unfolding run using n(5) job_kept_trans[OF n(4)] by auto
  qed
qed simp


section \<open>A preview\<close>

lemma preview_row_row:
  "\<exists>row. pv_rows (preview_row h o' ts es r (k, inp) p) = pv_rows p @ [row] \<and> ir_rowNumber row = Suc k
     \<and> ir_input row = inp \<and> ir_decision row \<noteq> RowImported"
  by (simp add: preview_row_def Let_def preview_decision_def)

lemma preview_fold_rows:
  "\<exists>rows. pv_rows (fold (preview_row h o' ts es r) (enumerate k xs) p) = pv_rows p @ rows
     \<and> map ir_rowNumber rows = [Suc k..<Suc k + length xs] \<and> map ir_input rows = xs
     \<and> (\<forall>row\<in>set rows. ir_decision row \<noteq> RowImported)"
proof (induction xs arbitrary: k p)
  case (Cons x xs)
  obtain row where row: "pv_rows (preview_row h o' ts es r (k, x) p) = pv_rows p @ [row]" "ir_rowNumber row = Suc k"
    "ir_input row = x" "ir_decision row \<noteq> RowImported" using preview_row_row by blast
  obtain rows where "pv_rows (fold (preview_row h o' ts es r) (enumerate (Suc k) xs) (preview_row h o' ts es r (k, x) p))
      = (pv_rows p @ [row]) @ rows" "map ir_rowNumber rows = [Suc (Suc k)..<Suc (Suc k) + length xs]" "map ir_input rows = xs"
    "\<forall>row\<in>set rows. ir_decision row \<noteq> RowImported" using Cons.IH[of "Suc k"] row(1) by metis
  then show ?case using row(2-4) upt_conv_Cons[of "Suc k" "Suc k + length (x # xs)"]
    by (intro exI[of _ "row # rows"]) (simp del: upt_Suc)
qed simp

lemma preview_rows_shape:
  "map ir_rowNumber (pv_rows (preview_rows h o' ts r xs)) = row_numbers (length xs)"
  "map ir_input (pv_rows (preview_rows h o' ts r xs)) = xs"
  "\<forall>row\<in>set (pv_rows (preview_rows h o' ts r xs)). ir_decision row \<noteq> RowImported"
  using preview_fold_rows[of h o' ts "active_employees o' r" r 0 xs preview_start]
  by (auto simp: preview_rows_def preview_start_def row_numbers_def simp del: upt_Suc)


text \<open>The numbers the valid rows hold are entered for their team, and no two valid rows of a team share one.\<close>

definition phones_entered :: "host \<Rightarrow> employee list \<Rightarrow> preview_progress \<Rightarrow> bool" where
  "phones_entered h es p \<longleftrightarrow> (\<forall>row\<in>set (pv_rows p). ir_decision row = RowValid \<longrightarrow>
     (\<forall>c\<in>set (candidates (ir_input row)). map_get (pv_phones p) (phone_key (row_team h es (ir_input row)) (snd c)) \<noteq> None))"

definition row_phones :: "lead_import_row \<Rightarrow> string set" where
  "row_phones inp = set (map snd (candidates inp))"

definition rows_disjoint :: "host \<Rightarrow> employee list \<Rightarrow> import_row list \<Rightarrow> bool" where
  "rows_disjoint h es rows \<longleftrightarrow> (\<forall>x\<in>set rows. \<forall>y\<in>set rows. ir_decision x = RowValid \<longrightarrow> ir_decision y = RowValid \<longrightarrow>
     ir_rowNumber x \<noteq> ir_rowNumber y \<longrightarrow> row_team h es (ir_input x) = row_team h es (ir_input y) \<longrightarrow>
     row_phones (ir_input x) \<inter> row_phones (ir_input y) = {})"

definition row_clean :: "host \<Rightarrow> string \<Rightarrow> employee list \<Rightarrow> 'a lead_state_scheme \<Rightarrow> import_row \<Rightarrow> bool" where
  "row_clean h orgId es r row \<longleftrightarrow> (ir_decision row = RowValid \<longrightarrow>
     e164 (row_phone (ir_input row)) \<and> truthy (row_team h es (ir_input row))
     \<and> existing_lead orgId (row_team h es (ir_input row)) (map snd (candidates (ir_input row))) r = None)"

lemma fold_enter_phones:
  "map_get (fold (\<lambda>c. map_set (key c) n) cs m) k \<noteq> None \<longleftrightarrow> k \<in> key ` set cs \<or> map_get m k \<noteq> None"
  by (induction cs arbitrary: m) (auto simp: store_simps)

lemma blocking_append: "blocking (xs @ ys) \<longleftrightarrow> blocking xs \<or> blocking ys"
  by (auto simp: blocking_def)

lemma blocking_when: "blocking (when_issue b i) \<longleftrightarrow> b \<and> \<not> duplicate_code (is_code i)"
  by (simp add: when_issue_def blocking_def)

lemma row_issue_code [simp]: "is_code (row_issue f c m) = c"
  by (simp add: row_issue_def)

lemma basic_clean:
  assumes "\<not> blocking (basic_issues h orgId es inp r)"
  shows "e164 (row_phone inp)" "truthy (row_team h es inp)" "row_status h orgId inp r \<noteq> None" "js_trim (lir_firstName inp) \<noteq> []"
  using assms by (auto simp: basic_issues_def blocking_append blocking_when duplicate_code_def)

lemma no_file_duplicate:
  assumes "concat (map (file_duplicate_issue inp team phones) cs) = []" "c \<in> set cs"
  shows "map_get phones (phone_key team (snd c)) = None"
  using assms by (auto simp: file_duplicate_issue_def split: option.splits)

lemma preview_row_effect:
  fixes h o' ts es r k inp p
  defines "q \<equiv> preview_row h o' ts es r (k, inp) p" and "team \<equiv> row_team h es inp"
  shows "\<exists>row. pv_rows q = pv_rows p @ [row] \<and> ir_rowNumber row = Suc k \<and> ir_input row = inp
    \<and> row_clean h (ia_organizationId o') es r row
    \<and> (ir_decision row = RowValid \<longrightarrow> concat (map (file_duplicate_issue inp team (pv_phones p)) (candidates inp)) = [])
    \<and> pv_phones q = (if ir_decision row = RowValid
        then fold (\<lambda>c. map_set (phone_key team c) (Suc k)) (map snd (candidates inp)) (pv_phones p) else pv_phones p)"
proof -
  let ?basic = "basic_issues h (ia_organizationId o') es inp r"
  let ?file = "concat (map (file_duplicate_issue inp team (pv_phones p)) (candidates inp))"
  define ex where "ex = (if \<not> blocking ?basic \<and> ?file = [] \<and> map snd (candidates inp) \<noteq> [] \<and> truthy team
      then existing_lead (ia_organizationId o') team (map snd (candidates inp)) r else None)"
  define issues where "issues = ?basic @ ?file @ when_issue (ex \<noteq> None) (row_issue ''phoneNumber'' IsDuplicateExisting ''An existing lead has this phone'')"
  define d where "d = preview_decision (blocking issues) (?file \<noteq> [] \<or> ex \<noteq> None)"
  have valid: "\<not> blocking ?basic \<and> ?file = [] \<and> ex = None" if "d = RowValid"
    using that by (auto simp: d_def issues_def preview_decision_def blocking_append split: if_splits)
  have decision: "d = RowValid \<longleftrightarrow> \<not> blocking issues \<and> \<not> (?file \<noteq> [] \<or> ex \<noteq> None)"
    by (simp add: d_def preview_decision_def)
  have clean: "e164 (row_phone inp) \<and> truthy team \<and> existing_lead (ia_organizationId o') team (map snd (candidates inp)) r = None"
    if "d = RowValid"
  proof -
    have b: "e164 (row_phone inp)" "truthy team" using basic_clean[of h "ia_organizationId o'" es inp r] valid[OF that] by (auto simp: team_def)
    then have "candidates inp \<noteq> []" by (simp add: candidates_def)
    then show ?thesis using b valid[OF that] by (simp add: ex_def split: if_splits)
  qed
  have phones: "pv_phones q = (if d = RowValid
      then fold (\<lambda>c. map_set (phone_key team c) (Suc k)) (map snd (candidates inp)) (pv_phones p) else pv_phones p)"
    unfolding decision unfolding issues_def ex_def team_def q_def preview_row_def Let_def
    by (simp only: preview_progress.select_convs fst_conv snd_conv)
  have "\<exists>x. pv_rows q = pv_rows p @ [\<lparr>ir_rowNumber = Suc k, ir_decision = d, ir_input = inp, ir_issues = issues,
      ir_duplicateLeadId = map_option lead_id ex, ir_proposedAssignedEmployeeId = x\<rparr>]"
    unfolding d_def issues_def ex_def team_def q_def preview_row_def Let_def
    by (simp only: preview_progress.select_convs fst_conv snd_conv) (rule exI, rule refl)
  then obtain row where "pv_rows q = pv_rows p @ [row]" "ir_rowNumber row = Suc k" "ir_input row = inp" "ir_decision row = d"
    by fastforce
  then show ?thesis using phones clean valid by (intro exI[of _ row]) (simp add: row_clean_def team_def)
qed


definition preview_inv :: "host \<Rightarrow> string \<Rightarrow> employee list \<Rightarrow> 'a lead_state_scheme \<Rightarrow> preview_progress \<Rightarrow> bool" where
  "preview_inv h orgId es r p \<longleftrightarrow> phones_entered h es p \<and> rows_disjoint h es (pv_rows p)
     \<and> (\<forall>row\<in>set (pv_rows p). row_clean h orgId es r row)"

lemma preview_row_inv:
  assumes inv: "preview_inv h (ia_organizationId o') es r p"
  shows "preview_inv h (ia_organizationId o') es r (preview_row h o' ts es r (k, inp) p)"
proof -
  let ?q = "preview_row h o' ts es r (k, inp) p"
  obtain row where row: "pv_rows ?q = pv_rows p @ [row]" "ir_input row = inp" "row_clean h (ia_organizationId o') es r row"
    "ir_decision row = RowValid \<longrightarrow> concat (map (file_duplicate_issue inp (row_team h es inp) (pv_phones p)) (candidates inp)) = []"
    "pv_phones ?q = (if ir_decision row = RowValid
        then fold (\<lambda>c. map_set (phone_key (row_team h es inp) c) (Suc k)) (map snd (candidates inp)) (pv_phones p) else pv_phones p)"
    using preview_row_effect[of h o' ts es r k inp p] by auto
  note inv' = inv[unfolded preview_inv_def phones_entered_def rows_disjoint_def]
  have kept: "map_get (pv_phones p) key \<noteq> None \<Longrightarrow> map_get (pv_phones ?q) key \<noteq> None" for key
    using row(5) by (simp add: fold_enter_phones[unfolded not_None_eq])
  have own: "map_get (pv_phones ?q) (phone_key (row_team h es inp) (snd c)) \<noteq> None"
    if "ir_decision row = RowValid" "c \<in> set (candidates inp)" for c
    using row(5) that by (force simp: fold_enter_phones[unfolded not_None_eq])
  have entered: "phones_entered h es ?q"
    using inv' own kept unfolding phones_entered_def row(1) by (auto simp: row(2))
  have fresh: "map_get (pv_phones p) (phone_key (row_team h es inp) c) = None"
    if "ir_decision row = RowValid" "c \<in> set (map snd (candidates inp))" for c
    using no_file_duplicate[OF row(4)[rule_format, OF that(1)]] that(2) by auto
  have clash: "row_phones (ir_input x) \<inter> row_phones inp = {}" "row_phones inp \<inter> row_phones (ir_input x) = {}"
    if x: "x \<in> set (pv_rows p)" "ir_decision x = RowValid" "row_team h es (ir_input x) = row_team h es inp"
      and d: "ir_decision row = RowValid" for x
  proof -
    have "map_get (pv_phones p) (phone_key (row_team h es inp) c) \<noteq> None" if "c \<in> set (map snd (candidates (ir_input x)))" for c
      using inv' x that by force
    then show "row_phones (ir_input x) \<inter> row_phones inp = {}" "row_phones inp \<inter> row_phones (ir_input x) = {}"
      using fresh[OF d] unfolding row_phones_def by blast+
  qed
  have "rows_disjoint h es (pv_rows ?q)"
    using inv' clash unfolding rows_disjoint_def row(1) by (auto simp: row(2))
  then show ?thesis using entered inv' row(3) by (auto simp: preview_inv_def row(1))
qed

lemma preview_fold_inv:
  "preview_inv h (ia_organizationId o') es r p
    \<Longrightarrow> preview_inv h (ia_organizationId o') es r (fold (preview_row h o' ts es r) (enumerate k xs) p)"
  by (induction xs arbitrary: k p) (simp_all add: preview_row_inv)

lemma preview_rows_inv: "preview_inv h (ia_organizationId o') (active_employees o' r) r (preview_rows h o' ts r xs)"
  unfolding preview_rows_def
  by (rule preview_fold_inv) (simp add: preview_inv_def phones_entered_def rows_disjoint_def preview_start_def)

text \<open>A preview that is not a replay stores a new job over exactly the rows it was given.\<close>

lemma previewLeadImport_new:
  assumes "\<not> truthy (map_get (leadImportIdByRequest r) (key2 (ia_organizationId o') (pio_requestId o')))"
  shows "\<exists>r'. previewLeadImport h o' r = (Inr \<lparr>ip_job = new_import_job o' (pv_rows (preview_rows h (import_access.truncate o') (pio_at o') r (pio_rows o')))
      (sequential_id ''lead_import'' (Suc (ids r))), ip_rows = pv_rows (preview_rows h (import_access.truncate o') (pio_at o') r (pio_rows o')),
      ip_replayed = False\<rparr>, r')
    \<and> leadImports r' = map_set (sequential_id ''lead_import'' (Suc (ids r)))
        \<lparr>ip_job = new_import_job o' (pv_rows (preview_rows h (import_access.truncate o') (pio_at o') r (pio_rows o')))
          (sequential_id ''lead_import'' (Suc (ids r))), ip_rows = pv_rows (preview_rows h (import_access.truncate o') (pio_at o') r (pio_rows o')),
          ip_replayed = False\<rparr> (leadImports r)
    \<and> leads r' = leads r \<and> leadStatuses r' = leadStatuses r \<and> leadFollowUps r' = leadFollowUps r
    \<and> leadActivities r' = leadActivities r \<and> ids r' = Suc (ids r)"
  using assms by (simp add: previewLeadImport_def Let_def next_id_eq)

lemma previewLeadImport_replayed:
  assumes "truthy (map_get (leadImportIdByRequest r) (key2 (ia_organizationId o') (pio_requestId o')))"
  shows "snd (previewLeadImport h o' r) = r"
  using assms by (simp add: previewLeadImport_def Let_def split: option.split)

lemma new_job_ok:
  assumes "map ir_rowNumber rows = row_numbers (length rows)" "\<forall>row\<in>set rows. ir_decision row \<noteq> RowImported"
  shows "import_ok \<lparr>ip_job = new_import_job o' rows i, ip_rows = rows, ip_replayed = b\<rparr>"
proof -
  have "rows_with RowImported rows = 0" using assms(2) by (auto simp: rows_with_zero list_ex_iff)
  then show ?thesis using assms(1) by (simp add: import_ok_def counts_ok_def new_import_job_def Let_def del: upt_Suc)
qed

lemma preview_kept:
  assumes inv: "lead_inv h r" "import_inv r"
  shows "lead_inv h (snd (previewLeadImport h o' r)) \<and> import_inv (snd (previewLeadImport h o' r))
    \<and> imports_kept r (snd (previewLeadImport h o' r))"
proof (cases "truthy (map_get (leadImportIdByRequest r) (key2 (ia_organizationId o') (pio_requestId o')))")
  case True
  then show ?thesis using inv by (simp add: previewLeadImport_replayed imports_kept_same)
next
  case False
  let ?i = "sequential_id ''lead_import'' (Suc (ids r))"
  define rows where "rows = pv_rows (preview_rows h (import_access.truncate o') (pio_at o') r (pio_rows o'))"
  define p where "p = \<lparr>ip_job = new_import_job o' rows ?i, ip_rows = rows, ip_replayed = False\<rparr>"
  obtain r' where n: "snd (previewLeadImport h o' r) = r'" "leadImports r' = map_set ?i p (leadImports r)"
    "leads r' = leads r" "leadStatuses r' = leadStatuses r" "leadFollowUps r' = leadFollowUps r"
    "leadActivities r' = leadActivities r" "ids r' = Suc (ids r)"
    using previewLeadImport_new[OF False, of h] unfolding rows_def p_def by auto
  have reach: "lead_reaches h r r'" by (rule reaches_frame[OF inv(1)]) (simp_all add: n)
  have fresh: "map_get (leadImports r) ?i = None" using inv(2) by (auto simp: import_inv_def intro: ids_fresh_next)
  have len: "length rows = length (pio_rows o')"
    using preview_rows_shape(2) by (metis length_map rows_def)
  have ok: "import_ok p" unfolding p_def
    by (rule new_job_ok) (use preview_rows_shape(1,3) len in \<open>simp_all add: rows_def\<close>)
  have "import_inv r'"
    using inv(2) ok by (auto simp: import_inv_def n(2,7) store_simps p_def new_import_job_def intro: ids_fresh_put split: if_splits)
  moreover have "imports_kept r r'" using fresh by (auto simp: imports_kept_def n(2) store_simps)
  ultimately show ?thesis using lead_inv_reaches[OF reach inv(1)] n(1) by simp
qed


lemma existing_lead_None:
  "existing_lead orgId team phones r = None \<longleftrightarrow> (\<forall>l\<in>set (map_values (leads r)). lead_organizationId l = orgId \<longrightarrow>
     \<not> truthy (lead_archivedAt l) \<longrightarrow> map_get (leadTeams r) (lead_id l) = team \<longrightarrow>
     lead_phoneNumber l \<notin> set phones \<and> lead_alternatePhoneNumber l \<notin> Some ` set phones)"
  by (auto simp: existing_lead_def find_None_iff list_ex_iff)

text \<open>
  C24: A new preview keeps every row in order, and its valid rows are free of duplicates: two valid
  rows of one team share no number, as main or alternate number, and none of a valid row's numbers
  belongs to an open lead of its team.
\<close>

theorem preview_free_of_duplicates:
  assumes new: "\<not> truthy (map_get (leadImportIdByRequest r) (key2 (ia_organizationId o') (pio_requestId o')))"
    and run: "previewLeadImport h o' r = (Inr p, r')"
  defines "es \<equiv> active_employees (import_access.truncate o') r"
  shows "map ir_input (ip_rows p) = pio_rows o' \<and> rows_disjoint h es (ip_rows p)
    \<and> (\<forall>row\<in>set (ip_rows p). ir_decision row = RowValid \<longrightarrow> e164 (row_phone (ir_input row)) \<and>
         (\<forall>l\<in>set (map_values (leads r)). lead_organizationId l = ia_organizationId o' \<longrightarrow> \<not> truthy (lead_archivedAt l) \<longrightarrow>
            map_get (leadTeams r) (lead_id l) = row_team h es (ir_input row) \<longrightarrow>
            lead_phoneNumber l \<notin> row_phones (ir_input row) \<and> lead_alternatePhoneNumber l \<notin> Some ` row_phones (ir_input row)))"
proof -
  have p: "ip_rows p = pv_rows (preview_rows h (import_access.truncate o') (pio_at o') r (pio_rows o'))"
    using previewLeadImport_new[OF new, of h] run by auto
  have org: "ia_organizationId (import_access.truncate o') = ia_organizationId o'" by (simp add: import_access.defs)
  note inv = preview_rows_inv[of h "import_access.truncate o'" r "pio_at o'" "pio_rows o'", folded p es_def, unfolded preview_inv_def org]
  have clean: "e164 (row_phone (ir_input row)) \<and> existing_lead (ia_organizationId o') (row_team h es (ir_input row))
      (map snd (candidates (ir_input row))) r = None" if "row \<in> set (ip_rows p)" "ir_decision row = RowValid" for row
    using inv that by (auto simp: row_clean_def p)
  show ?thesis
    using preview_rows_shape(2)[of h "import_access.truncate o'" "pio_at o'" r "pio_rows o'"] inv clean
    by (auto simp: p[symmetric] existing_lead_None row_phones_def preview_inv_def simp del: set_map)
qed

section \<open>The life of an import\<close>

inductive import_step :: "host \<Rightarrow> 'a import_state_scheme \<Rightarrow> 'a import_state_scheme \<Rightarrow> bool" for h where
  step_preview: "import_step h r (snd (previewLeadImport h p r))"
| step_commit: "import_step h r (snd (commitLeadImport h c r))"
| step_lead: "lead_step h r r' \<Longrightarrow> leadImports r' = leadImports r \<Longrightarrow> ids r \<le> ids r' \<Longrightarrow> import_step h r r'"

lemma import_step_kept:
  "import_step h r r' \<Longrightarrow> lead_inv h r \<and> import_inv r \<Longrightarrow> lead_inv h r' \<and> import_inv r' \<and> imports_kept r r'"
proof (induction rule: import_step.induct)
  case (step_lead r r')
  then show ?case using lead_inv_step[OF step_lead.hyps(1)]
    by (auto simp: import_inv_def imports_kept_same intro: ids_fresh_mono)
qed (simp_all add: preview_kept commit_kept)


section \<open>Retried commits\<close>

definition commit_admitted :: "host \<Rightarrow> commit_options \<Rightarrow> 'a import_state_scheme \<Rightarrow> bool" where
  "commit_admitted h o' r \<longleftrightarrow> lead_inv h r \<and> import_inv r
     \<and> (\<exists>p. map_get (leadImports r) (cio_jobId o') = Some p \<and> canAccessImport o' p r)"

interpretation import_commit: idempotent_request "guarded (commit_admitted h) (commitLeadImport h)" "commit_admitted h"
  "\<lambda>o' r. map_get (leadImportCommitRequests r) (commit_key o')"
  "\<lambda>o' c. cm_fingerprint c = cio_requestFingerprint o' \<and> cm_jobId c = cio_jobId o'"
  "\<lambda>c. (cm_result c)\<lparr>im_replayed := True\<rparr>" "\<lambda>v. v\<lparr>im_replayed := True\<rparr>" for h
proof (unfold_locales, goal_cases)
  case (3 o' s v s')
  then have adm: "commit_admitted h o' s" and run: "commitLeadImport h o' s = (Inr (Some v), s')"
    by (auto simp: guarded_def split: if_splits)
  from adm obtain p where inv: "lead_inv h s" "import_inv s" and p: "map_get (leadImports s) (cio_jobId o') = Some p"
    "canAccessImport o' p s" by (auto simp: commit_admitted_def)
  from commit_effect[OF inv p 3(2)] run obtain p' b where c: "v = \<lparr>im_job = ip_job p', im_replayed = b\<rparr>"
    "map_get (leadImports s') (cio_jobId o') = Some p'" "import_ok p'" "job_kept p p'" "lead_inv h s'"
    "import_frame (cio_jobId o') s s'"
    "leadImportCommitRequests s' = map_set (commit_key o') \<lparr>cm_fingerprint = cio_requestFingerprint o', cm_jobId = cio_jobId o',
        cm_result = \<lparr>im_job = ip_job p', im_replayed = b\<rparr>\<rparr> (leadImportCommitRequests s)" by auto
  have "commit_admitted h o' s'"
    using c(2,5) import_inv_put[OF inv(2) c(6) p(1) c(2-4)] access_kept[OF c(4,6), of o'] p(2) by (auto simp: commit_admitted_def)
  then show ?case by (simp add: c(1,7) store_simps)
qed (auto simp: guarded_def commit_admitted_def commitLeadImport_def split: if_splits)

text \<open>
  Retrying a commit that succeeded, any number of times, imports nothing more and answers the
  recorded job, marked as replayed.
\<close>

theorem import_commit_retry:
  assumes inv: "lead_inv h r" "import_inv r" and run: "commitLeadImport h o' r = (Inr (Some v), r')"
  shows "((\<lambda>s. snd (commitLeadImport h o' s)) ^^ n) r' = r'
    \<and> commitLeadImport h o' r' = (Inr (Some (v\<lparr>im_replayed := True\<rparr>)), r')"
proof -
  have adm: "commit_admitted h o' r" using run commit_none[of r o' h] inv by (fastforce simp: commit_admitted_def)
  then have g: "guarded (commit_admitted h) (commitLeadImport h) o' r = (Inr (Some v), r')" using run by (simp add: guarded_def)
  have "commitLeadImport h o' r' = (Inr (Some (v\<lparr>im_replayed := True\<rparr>)), r')"
    using import_commit.retry[OF g] by (simp add: guarded_def split: if_splits)
  moreover from this have "((\<lambda>s. snd (commitLeadImport h o' s)) ^^ n) r' = r'" by (induction n) simp_all
  ultimately show ?thesis by blast
qed

end
