(* ===== verification/Seed.thy ===== *)
theory Seed
  imports CallFacts Retries
begin

text \<open>
  The constructor of \<open>InMemoryCalloraRepository\<close> (\<open>repository.ts\<close>): the empty maps, then
  \<open>seed\<close> and \<open>seedLeadWorkspace\<close>. The result is the state every history of the in-memory
  repository starts from; that it satisfies the invariants of the components is proved here.
\<close>

section \<open>Seeded rows\<close>

definition seed_time :: string where
  "seed_time = ''2026-07-14T00:00:00.000Z''"

definition seededOrganization :: "string \<Rightarrow> string \<Rightarrow> string \<Rightarrow> organization" where
  "seededOrganization i nm slug =
     \<lparr>createdAt = seed_time, updatedAt = seed_time, createdBy = None, updatedBy = None,
      org_id = i, org_name = nm, org_slug = slug, org_status = OrgActive, org_plan = PlanGrowth,
      org_industry = None, org_logoUrl = None, org_supportEmail = None, org_primaryPhone = None,
      org_billingAddress = None,
      org_settings = \<lparr>set_timeZone = ''Asia/Kolkata'', set_defaultCountryCode = ''IN'',
        set_workingWeekDays = [1, 2, 3, 4, 5, 6], set_workingDayStartsAt = ''09:00'',
        set_workingDayEndsAt = ''19:00'', set_recordingRetentionDays = 90, set_callLogRetentionDays = 365,
        set_requireRecordingConsent = True, set_maskPhoneNumbersForRestrictedUsers = True\<rparr>,
      org_trialEndsAt = None\<rparr>"

definition seededEmployee ::
  "string \<Rightarrow> string \<Rightarrow> string \<Rightarrow> employee_status \<Rightarrow> string \<Rightarrow> string list \<Rightarrow> string option \<Rightarrow> employee" where
  "seededEmployee i orgId nm status team ds linked =
     \<lparr>createdAt = seed_time, updatedAt = seed_time, createdBy = None, updatedBy = None,
      emp_id = i, emp_organizationId = orgId, emp_linkedUserId = linked, emp_employeeCode = None,
      emp_displayName = nm, emp_email = Some (i @ ''@example.test''),
      emp_primaryPhone = Some (if orgId = ''org_alpha'' then ''+919800000001'' else ''+919900000001''),
      emp_jobTitle = None, emp_team = Some team, emp_status = status, emp_managerEmployeeId = None,
      emp_workingHours = None, emp_deviceIds = ds\<rparr>"

definition defaultPermissions :: device_permissions where
  "defaultPermissions = \<lparr>perm_callLog = PermGranted, perm_phoneState = PermGranted,
     perm_contacts = PermDenied, perm_notifications = PermGranted, perm_recordingFiles = PermUnknown,
     perm_backgroundExecution = PermGranted\<rparr>"

definition seededDevice :: "string \<Rightarrow> string \<Rightarrow> string \<Rightarrow> string \<Rightarrow> employee_device" where
  "seededDevice i orgId employeeId installationId =
     \<lparr>createdAt = seed_time, updatedAt = seed_time, createdBy = None, updatedBy = None,
      dev_id = i, dev_organizationId = orgId, dev_employeeId = employeeId,
      dev_installationId = installationId, dev_platform = Android, dev_manufacturer = Some ''Google'',
      dev_model = Some ''Pixel'', dev_osVersion = ''16'', dev_appVersion = ''0.1.0'',
      dev_status = DevConnected, dev_syncState = Idle, dev_permissions = defaultPermissions,
      dev_simCards = [], dev_registeredAt = seed_time, dev_lastSeenAt = Some seed_time,
      dev_lastHeartbeatAt = None, dev_lastSuccessfulSyncAt = Some seed_time, dev_batteryPercent = None,
      dev_isCharging = None, dev_networkType = None, dev_pendingCallCount = None,
      dev_pendingRecordingCount = None, dev_revokedAt = None\<rparr>"

definition seeded_policies :: "(mobile_collection_mode, mobile_policy) jsmap" where
  "seeded_policies =
    [(ModeAndroidCallLog, \<lparr>pol_id = ''30000000-0000-4000-8000-000000000002'',
        pol_contentHash = ''31124ef8f171f23b6adc6d5e96bb5e3b3907a9bf5461c216c383cafe7d749941'',
        pol_policyVersion = ''2026.1-enterprise-call-metadata'',
        pol_disclosureVersion = ''2026.1-enterprise-disclosure'',
        pol_collectionMode = ModeAndroidCallLog, pol_title = ''Callora enterprise call metadata'',
        pol_summary = ''With employee consent and Android permission, reads call-history metadata and synchronizes it to the organization workspace.'',
        pol_disclosures =
         [''Reads Android call-history metadata only after prominent disclosure, consent, and READ_CALL_LOG permission.'',
          ''Includes phone number, direction, start time, duration, disposition, SIM-slot reference, and device-scoped external ID.'',
          ''Synchronizes the metadata to the employee organization workspace.'',
          ''Does not collect call audio, microphone audio, SMS content, or the contacts address book.''],
        pol_effectiveAt = ''2026-01-01T00:00:00.000Z''\<rparr>),
     (ModeSyntheticDemo, \<lparr>pol_id = ''30000000-0000-4000-8000-000000000001'',
        pol_contentHash = ''a00aad253c906bc2e9d93d3ea393f49b2580d3ac7b1e724e96fb3ff6408dce1a'',
        pol_policyVersion = ''2026.1-demo-call-metadata'',
        pol_disclosureVersion = ''2026.1-demo-disclosure'',
        pol_collectionMode = ModeSyntheticDemo, pol_title = ''Callora demo call metadata'',
        pol_summary = ''Uses generated demonstration calls only. It does not read the device call log.'',
        pol_disclosures =
         [''Uses synthetic demonstration data generated inside the app.'',
          ''Includes phone number, direction, start time, duration, disposition, and device-scoped external ID.'',
          ''Requires no Android call-log permission.'',
          ''Does not collect call audio, microphone audio, SMS content, or the contacts address book.''],
        pol_effectiveAt = ''2026-01-01T00:00:00.000Z''\<rparr>)]"

section \<open>The workspace rows\<close>

definition seeded_status ::
  "string \<Rightarrow> string \<Rightarrow> string \<Rightarrow> string \<Rightarrow> int \<Rightarrow> bool \<Rightarrow> bool \<Rightarrow> bool \<Rightarrow> lead_status" where
  "seeded_status i orgId nm color pos initial won lost =
     \<lparr>ls_id = i, ls_organizationId = orgId, ls_name = nm, ls_color = color, ls_position = pos,
      ls_isInitial = initial, ls_isWon = won, ls_isLost = lost, ls_isActive = True\<rparr>"

definition seeded_statuses :: "lead_status list" where
  "seeded_statuses =
    [seeded_status ''lead_status_alpha_new'' ''org_alpha'' ''New'' ''#2f83ee'' 1 True False False,
     seeded_status ''lead_status_alpha_contacted'' ''org_alpha'' ''Contacted'' ''#f3942b'' 2 False False False,
     seeded_status ''lead_status_alpha_qualified'' ''org_alpha'' ''Qualified'' ''#0b9277'' 3 False False False,
     seeded_status ''lead_status_alpha_won'' ''org_alpha'' ''Won'' ''#08755f'' 4 False True False,
     seeded_status ''lead_status_alpha_lost'' ''org_alpha'' ''Lost'' ''#f35a46'' 5 False False True,
     seeded_status ''lead_status_beta_new'' ''org_beta'' ''New'' ''#2f83ee'' 1 True False False,
     seeded_status ''lead_status_beta_contacted'' ''org_beta'' ''Contacted'' ''#f3942b'' 2 False False False]"

text \<open>The columns the seeded leads differ in; every other field is absent, empty or 1.\<close>

definition seeded_lead ::
  "string \<Rightarrow> string \<Rightarrow> string \<Rightarrow> string option \<Rightarrow> string option \<Rightarrow> string \<Rightarrow> lead_source \<Rightarrow> string \<Rightarrow> string \<Rightarrow>
   string option \<Rightarrow> string option \<Rightarrow> string option \<Rightarrow> string \<Rightarrow> string \<Rightarrow> lead" where
  "seeded_lead i orgId frst lst company phone src status owner contacted due converted c u =
     \<lparr>createdAt = c, updatedAt = u, createdBy = None, updatedBy = None,
      lead_id = i, lead_organizationId = orgId, lead_firstName = frst, lead_lastName = lst,
      lead_companyName = company, lead_phoneNumber = phone, lead_alternatePhoneNumber = None,
      lead_email = None, lead_source = src, lead_sourceReference = None, lead_statusId = status,
      lead_temperature = None, lead_assignedEmployeeId = Some owner, lead_tagIds = [],
      lead_customFields = [], lead_lastContactedAt = contacted, lead_nextFollowUpAt = due,
      lead_convertedAt = converted, lead_lostAt = None, lead_archivedAt = None, lead_version = 1\<rparr>"

definition seeded_leads :: "lead list" where
  "seeded_leads =
    [seeded_lead ''lead_alpha_ramesh'' ''org_alpha'' ''Ramesh'' None (Some ''Ramesh Traders'') ''+919876543210'' SrcManual
       ''lead_status_alpha_qualified'' ''emp_alpha_amit''
       (Some ''2026-07-14T04:51:00.000Z'') (Some ''2026-07-14T11:00:00.000Z'') None
       ''2026-07-10T06:00:00.000Z'' ''2026-07-14T10:25:00.000Z'',
     seeded_lead ''lead_alpha_aarav'' ''org_alpha'' ''Aarav'' (Some ''Shah'') None ''+919123456789'' SrcWebsite
       ''lead_status_alpha_new'' ''emp_alpha_amit''
       None (Some ''2026-07-15T05:30:00.000Z'') None
       ''2026-07-13T06:00:00.000Z'' ''2026-07-13T06:00:00.000Z'',
     seeded_lead ''lead_alpha_shree'' ''org_alpha'' ''Shree'' None (Some ''Shree Enterprises'') ''+918765432109'' SrcIntegration
       ''lead_status_alpha_contacted'' ''emp_alpha_amit''
       (Some ''2026-07-13T10:15:00.000Z'') (Some ''2026-07-16T08:30:00.000Z'') None
       ''2026-07-11T05:30:00.000Z'' ''2026-07-13T10:15:00.000Z'',
     seeded_lead ''lead_alpha_meera'' ''org_alpha'' ''Meera'' None (Some ''Meera Textiles'') ''+919988766554'' SrcManual
       ''lead_status_alpha_won'' ''emp_alpha_amit''
       (Some ''2026-07-09T07:40:00.000Z'') None (Some ''2026-07-09T07:40:00.000Z'')
       ''2026-07-02T04:30:00.000Z'' ''2026-07-09T07:40:00.000Z'',
     seeded_lead ''lead_alpha_nisha'' ''org_alpha'' ''Nisha'' (Some ''Patel'') None ''+919345678901'' SrcManual
       ''lead_status_alpha_new'' ''emp_alpha_amit''
       None (Some ''2026-07-18T05:00:00.000Z'') None
       ''2026-07-14T05:20:00.000Z'' ''2026-07-14T05:20:00.000Z'',
     seeded_lead ''lead_beta_private'' ''org_beta'' ''Beta'' None (Some ''Beta Services'') ''+919900123456'' SrcManual
       ''lead_status_beta_new'' ''emp_beta_riya''
       None None None
       ''2026-07-12T05:20:00.000Z'' ''2026-07-12T05:20:00.000Z'']"

definition seeded_follow_up :: "string \<Rightarrow> string \<Rightarrow> string \<Rightarrow> string \<Rightarrow> follow_up_priority \<Rightarrow> string \<Rightarrow> follow_up" where
  "seeded_follow_up i leadId title due prio c =
     \<lparr>createdAt = c, updatedAt = c, createdBy = None, updatedBy = None,
      fu_id = i, fu_organizationId = ''org_alpha'', fu_leadId = leadId,
      fu_assignedEmployeeId = ''emp_alpha_amit'', fu_title = title, fu_notes = None, fu_dueAt = due,
      fu_reminderAt = None, fu_priority = prio, fu_status = FuPending, fu_completedAt = None,
      fu_completedByUserId = None, fu_version = 1\<rparr>"

definition seeded_follow_ups :: "follow_up list" where
  "seeded_follow_ups =
    [seeded_follow_up ''followup_alpha_ramesh'' ''lead_alpha_ramesh'' ''Discuss annual order''
       ''2026-07-14T11:00:00.000Z'' PrioHigh ''2026-07-14T04:52:00.000Z'',
     seeded_follow_up ''followup_alpha_aarav'' ''lead_alpha_aarav'' ''First contact''
       ''2026-07-15T05:30:00.000Z'' PrioNormal ''2026-07-13T06:00:00.000Z'']"

definition seed_workspace_time :: string where
  "seed_workspace_time = ''2026-07-14T10:25:00.000Z''"

definition seeded_note :: lead_note where
  "seeded_note = \<lparr>createdAt = seed_workspace_time, updatedAt = seed_workspace_time, createdBy = None,
     updatedBy = None, note_id = ''lead_note_alpha_ramesh'', note_organizationId = ''org_alpha'',
     note_leadId = ''lead_alpha_ramesh'', note_authorUserId = ''user_org_alpha_owner'',
     note_body = ''Interested in our premium textile range.'', note_isPinned = False\<rparr>"

definition seeded_activity ::
  "string \<Rightarrow> lead_activity_kind \<Rightarrow> string option \<Rightarrow> string \<Rightarrow> string \<Rightarrow> lead_activity" where
  "seeded_activity i kind actor ts summary =
     \<lparr>act_id = i, act_organizationId = ''org_alpha'', act_leadId = ''lead_alpha_ramesh'', act_kind = kind,
      act_actorUserId = actor, act_actorEmployeeId = None, act_callLogId = None, act_occurredAt = ts,
      act_summary = summary, act_metadata = None\<rparr>"

definition seeded_activities :: "lead_activity list" where
  "seeded_activities =
    [seeded_activity ''lead_activity_alpha_1'' ActCallLinked None ''2026-07-14T04:51:00.000Z''
       ''Missed incoming call'',
     seeded_activity ''lead_activity_alpha_2'' ActFollowUpCreated (Some ''user_org_alpha_owner'')
       ''2026-07-14T04:52:00.000Z'' ''Follow-up scheduled'',
     seeded_activity ''lead_activity_alpha_3'' ActStatusChanged (Some ''user_org_alpha_owner'')
       ''2026-07-14T04:53:00.000Z'' ''Status changed to Qualified'',
     seeded_activity ''lead_activity_alpha_4'' ActNoteAdded (Some ''user_org_alpha_owner'')
       seed_workspace_time ''Note added'']"

definition seedLeadWorkspace :: "'a lead_state_scheme \<Rightarrow> 'a lead_state_scheme" where
  "seedLeadWorkspace r =
     (let r1 = r\<lparr>leadStatuses := fold (\<lambda>s. map_set (ls_id s) s) seeded_statuses (leadStatuses r)\<rparr>;
          r2 = fold (\<lambda>l q.
            (let assigned = (if truthy (lead_assignedEmployeeId l)
                   then map_get (employees q) (the (lead_assignedEmployeeId l)) else None);
                 team = Option.bind assigned emp_team;
                 q1 = q\<lparr>leads := map_set (lead_id l) l (leads q)\<rparr>
             in if truthy team then q1\<lparr>leadTeams := map_set (lead_id l) (the team) (leadTeams q1)\<rparr> else q1))
            seeded_leads r1
      in r2\<lparr>leadFollowUps := fold (\<lambda>f. map_set (fu_id f) f) seeded_follow_ups (leadFollowUps r2),
            leadNotes := map_set (note_id seeded_note) seeded_note (leadNotes r2),
            leadActivities := fold (\<lambda>a. map_set (act_id a) a) seeded_activities (leadActivities r2)\<rparr>)"

section \<open>The constructor\<close>

text \<open>\<open>roleKey.charAt(0).toUpperCase() + roleKey.slice(1)\<close> of the five role keys.\<close>

primrec role_title :: "system_role_key \<Rightarrow> string" where
  "role_title RoleOwner = ''Owner''"
| "role_title RoleAdmin = ''Admin''"
| "role_title RoleManager = ''Manager''"
| "role_title RoleAnalyst = ''Analyst''"
| "role_title RoleEmployee = ''Employee''"

definition seed_role :: "organization \<Rightarrow> system_role_key \<Rightarrow> 'a identity_state_scheme \<Rightarrow> 'a identity_state_scheme" where
  "seed_role org key r =
     (let roleId = ''role_'' @ org_id org @ ''_'' @ role_key_string key;
          userId = ''user_'' @ org_id org @ ''_'' @ role_key_string key
      in r\<lparr>roles := map_set roleId
            \<lparr>createdAt = seed_time, updatedAt = seed_time, createdBy = None, updatedBy = None,
             role_id = roleId, role_organizationId = org_id org, role_name = role_title key,
             role_description = None, role_systemKey = Some key,
             role_permissions = ROLE_PERMISSIONS key, role_isEditable = False\<rparr> (roles r),
           users := map_set userId
            \<lparr>createdAt = seed_time, updatedAt = seed_time, createdBy = None, updatedBy = None,
             user_id = userId, user_organizationId = org_id org,
             user_email = role_key_string key @ ''@'' @ org_slug org @ ''.test'',
             user_displayName = org_name org @ '' '' @ role_key_string key, user_phoneNumber = None,
             user_avatarUrl = None, user_status = UserActive, user_roleIds = [roleId],
             user_lastSignedInAt = None\<rparr> (users r),
           developmentActors := map_set (key2 (org_id org) (role_key_string key)) userId (developmentActors r)\<rparr>)"

definition seed_organization :: "organization \<Rightarrow> 'a identity_state_scheme \<Rightarrow> 'a identity_state_scheme" where
  "seed_organization org r =
     fold (seed_role org) ROLE_KEYS
       (r\<lparr>organizations := map_set (org_id org) org (organizations r),
          audits := map_set (org_id org) [] (audits r)\<rparr>)"

definition seed_device :: "employee_device \<Rightarrow> 'a device_state_scheme \<Rightarrow> 'a device_state_scheme" where
  "seed_device d r =
     r\<lparr>devices := map_set (dev_id d) d (devices r),
       devicesByInstallation := map_set (key2 (dev_organizationId d) (dev_installationId d)) (dev_id d)
         (devicesByInstallation r),
       deviceCollectionModes := map_set (dev_id d) ModeAndroidCallLog (deviceCollectionModes r)\<rparr>"

definition seed :: "'a lead_state_scheme \<Rightarrow> 'a lead_state_scheme" where
  "seed r =
     (let r1 = r\<lparr>mobilePolicies := fold (\<lambda>(m, p). map_set m p) seeded_policies (mobilePolicies r)\<rparr>;
          r2 = fold seed_organization
            [seededOrganization ''org_alpha'' ''Callora Alpha'' ''callora-alpha'',
             seededOrganization ''org_beta'' ''Callora Beta'' ''callora-beta''] r1;
          r3 = fold (\<lambda>e q. q\<lparr>employees := map_set (emp_id e) e (employees q)\<rparr>)
            [seededEmployee ''emp_alpha_amit'' ''org_alpha'' ''Amit Patel'' EmpActive ''Sales''
               [''device_alpha_amit''] (Some ''user_org_alpha_employee''),
             seededEmployee ''emp_alpha_priya'' ''org_alpha'' ''Priya Sharma'' EmpInvited ''Sales''
               [] (Some ''user_org_alpha_manager''),
             seededEmployee ''emp_beta_riya'' ''org_beta'' ''Riya Mehta'' EmpActive ''Support''
               [''device_beta_riya''] (Some ''user_org_beta_employee'')] r2;
          r4 = fold seed_device
            [seededDevice ''device_alpha_amit'' ''org_alpha'' ''emp_alpha_amit'' ''install-alpha-amit'',
             seededDevice ''device_beta_riya'' ''org_beta'' ''emp_beta_riya'' ''install-beta-riya''] r3
      in seedLeadWorkspace r4)"

definition empty_repository :: call_state where
  "empty_repository = \<lparr>ids = 0, ready = True, organizations = [], roles = [], users = [],
     developmentActors = [], externalIdentityUsers = [], employees = [], audits = [],
     devices = [], devicesByInstallation = [], deviceCredentialsByHash = [],
     deviceCredentialHashById = [], activeConsentByDevice = [], deviceCollectionModes = [],
     mobilePolicies = [],
     pairingCodesById = [], pairingCodeIdByHash = [], credentialRequests = [], pairingRedemptions = [],
     adminDeviceRevocations = [], adminRecoveryOutboxEvents = [],
     leadStatuses = [], leads = [], leadTeams = [], leadNotes = [], leadFollowUps = [],
     leadActivities = [],
     leadIdByCallId = [], calls = [], callIdByExternalId = [], callFingerprintByExternalId = [],
     idempotency = [], mobileBatches = [], callLeadCorrectionRequests = [],
     mobileLeadUpdateRequests = []\<rparr>"

definition new_repository :: call_state where
  "new_repository = seed empty_repository"

end
