(* ===== verification/Scenario.thy ===== *)
theory Scenario
  imports Seed
begin

text \<open>
  One small concrete workspace and a run of the operations on it: the inputs at which the
  properties of the other theories are applied.
\<close>

section \<open>The workspace\<close>

definition w_host :: host where
  "w_host = \<lparr>h_collator = code_unit_collator, h_lower = (\<lambda>s. s),
     h_parse = (\<lambda>s. if s = [] then None else Some (int (undecimal s)))\<rparr>"

definition w_org :: organization where
  "w_org = seededOrganization ''o'' ''O'' ''o''"

definition w_role :: role where
  "w_role = \<lparr>createdAt = ''1'', updatedAt = ''1'', createdBy = None, updatedBy = None,
     role_id = ''r'', role_organizationId = ''o'', role_name = ''Owner'', role_description = None,
     role_systemKey = Some RoleOwner, role_permissions = [leads_read, leads_manage], role_isEditable = False\<rparr>"

definition w_user :: user where
  "w_user = \<lparr>createdAt = ''1'', updatedAt = ''1'', createdBy = None, updatedBy = None,
     user_id = ''u'', user_organizationId = ''o'', user_email = ''u'', user_displayName = ''U'',
     user_phoneNumber = None, user_avatarUrl = None, user_status = UserActive, user_roleIds = [''r''],
     user_lastSignedInAt = None\<rparr>"

definition w_employee :: employee where
  "w_employee = \<lparr>createdAt = ''1'', updatedAt = ''1'', createdBy = None, updatedBy = None,
     emp_id = ''e'', emp_organizationId = ''o'', emp_linkedUserId = Some ''u'', emp_employeeCode = None,
     emp_displayName = ''E'', emp_email = None, emp_primaryPhone = None, emp_jobTitle = None,
     emp_team = Some ''s'', emp_status = EmpActive, emp_managerEmployeeId = None,
     emp_workingHours = None, emp_deviceIds = []\<rparr>"

definition w_policy :: mobile_policy where
  "w_policy = \<lparr>pol_id = ''p'', pol_contentHash = ''h'', pol_policyVersion = ''v'',
     pol_disclosureVersion = ''v'', pol_collectionMode = ModeAndroidCallLog, pol_title = [],
     pol_summary = [], pol_disclosures = [], pol_effectiveAt = ''1''\<rparr>"

definition w_status :: lead_status where
  "w_status = seeded_status ''n'' ''o'' ''New'' [] 1 True False False"

definition w_lead :: lead where
  "w_lead = seeded_lead ''l'' ''o'' ''L'' None None ''+1'' SrcManual ''n'' ''e'' None (Some ''9'') None ''1'' ''1''"

definition w_follow_up :: follow_up where
  "w_follow_up = (seeded_follow_up ''f'' ''l'' ''F'' ''9'' PrioHigh ''1'')
     \<lparr>fu_organizationId := ''o'', fu_assignedEmployeeId := ''e''\<rparr>"

definition w0 :: call_state where
  "w0 = empty_repository\<lparr>organizations := [(''o'', w_org)], roles := [(''r'', w_role)],
     users := [(''u'', w_user)], employees := [(''e'', w_employee)], audits := [(''o'', [])],
     mobilePolicies := [(ModeAndroidCallLog, w_policy)], leadStatuses := [(''n'', w_status)],
     leads := [(''l'', w_lead)], leadTeams := [(''l'', ''s'')], leadFollowUps := [(''f'', w_follow_up)]\<rparr>"

section \<open>Pairing a device\<close>

definition w_code :: pairing_code where
  "w_code = \<lparr>pc_id = ''c'', pc_codeHash = ''k'', pc_codeLastFour = [], pc_organizationId = ''o'',
     pc_employeeId = ''e'', pc_createdAt = ''1'', pc_expiresAt = ''5'', pc_createdByUserId = ''u'',
     pc_collectionMode = ModeAndroidCallLog, pc_consumedAt = None, pc_revokedAt = None\<rparr>"

definition w_new_credential ::
  "string \<Rightarrow> string \<Rightarrow> credential_type \<Rightarrow> string option \<Rightarrow> string \<Rightarrow> credential_state \<Rightarrow> new_device_credential" where
  "w_new_credential i tok ty frm req st = \<lparr>cred_id = i, cred_tokenHash = tok, cred_expiresAt = ''8'',
     cred_credentialType = ty, cred_rotatedFromCredentialId = frm, cred_requestId = req,
     cred_lifecycleState = st\<rparr>"

definition w_redeem :: redeem_options where
  "w_redeem = \<lparr>ro_codeHash = ''k'',
     ro_registration = \<lparr>reg_installationId = ''i'', reg_platform = Android, reg_manufacturer = None,
       reg_model = None, reg_osVersion = ''1'', reg_appVersion = ''1'',
       reg_collectionMode = ModeAndroidCallLog, reg_permissions = defaultPermissions\<rparr>,
     ro_bootstrapCredential = w_new_credential ''b'' ''B'' CredBootstrap None ''q'' LcActive,
     ro_requestId = ''q'', ro_requestFingerprint = ''x'', ro_at = ''2''\<rparr>"

definition w_device :: string where
  "w_device = ''device_000001''"

definition w_context :: "string \<Rightarrow> credential_type \<Rightarrow> mobile_context" where
  "w_context i ty = \<lparr>ctx_credentialId = i, ctx_credentialType = ty, ctx_organizationId = ''o'',
     ctx_employeeId = ''e'', ctx_deviceId = w_device, ctx_installationId = ''i'',
     ctx_collectionMode = ModeAndroidCallLog, ctx_permissions = defaultPermissions,
     ctx_credentialState = LcActive, ctx_consentCurrent = False, ctx_authenticatedReplay = None\<rparr>"

definition w_token :: "char \<Rightarrow> string" where
  "w_token c = replicate 64 c"

definition w_activate :: activate_options where
  "w_activate = \<lparr>ao_context = w_context ''b'' CredBootstrap,
     ao_activation = \<lparr>ai_requestId = ''q'', ai_proposedSessionCredential = [],
       ai_policy = \<lparr>pr_id = ''p'', pr_contentHash = ''h''\<rparr>,
       ai_consent = \<lparr>ci_acceptedAt = ''3'', ci_locale = None\<rparr>, ai_permissions = defaultPermissions\<rparr>,
     ao_sessionCredential = w_new_credential ''s'' (w_token (CHR ''a'')) CredSession None ''q'' LcActive,
     ao_requestFingerprint = ''x'', ao_policy = Some w_policy, ao_at = ''3''\<rparr>"

definition w_prepare :: prepare_options where
  "w_prepare = \<lparr>po_context = w_context ''s'' CredSession,
     po_sessionCredential = w_new_credential ''t'' (w_token (CHR ''b'')) CredSession (Some ''s'') ''q'' LcPending,
     po_requestId = ''q'', po_requestFingerprint = ''x'', po_at = ''4''\<rparr>"

definition w_confirm :: confirm_options where
  "w_confirm = \<lparr>co_context = w_context ''t'' CredSession, co_requestId = ''z'', co_prepareRequestId = ''q'',
     co_requestFingerprint = ''x'', co_at = ''5''\<rparr>"

definition w_admin_revoke :: admin_revoke_options where
  "w_admin_revoke = \<lparr>avo_organizationId = ''o'', avo_deviceId = w_device, avo_actorUserId = ''u'',
     avo_requestId = ''q'', avo_requestFingerprint = ''x'', avo_reason = ''lost'', avo_auditEventId = ''a'',
     avo_outboxEventId = ''x'', avo_at = ''6''\<rparr>"

text \<open>The state after each operation, in order (the administrator's revocation follows the activation).\<close>

definition w1 :: call_state where
  "w1 = createPairingCode w_code w0"

definition w2 :: call_state where
  "w2 = snd (redeemPairingCode w_host w_redeem w1)"

definition w3 :: call_state where
  "w3 = snd (activateMobileDevice w_host w_activate w2)"

definition w4 :: call_state where
  "w4 = snd (prepareDeviceSessionRotation w_host w_prepare w3)"

definition w5 :: call_state where
  "w5 = snd (confirmDeviceSessionRotation w_host w_confirm w4)"

definition w6 :: call_state where
  "w6 = snd (revokeDeviceByAdministrator w_admin_revoke w3)"

section \<open>Evaluating the run\<close>

lemmas w_rows = w_host_def w_org_def w_role_def w_user_def w_employee_def w_policy_def w_status_def
  w_lead_def w_follow_up_def empty_repository_def w_code_def w_new_credential_def
  w_redeem_def w_device_def w_context_def w_activate_def w_prepare_def w_confirm_def
  w_admin_revoke_def seededOrganization_def seeded_status_def seeded_lead_def seeded_follow_up_def
  defaultPermissions_def

lemma w_ids:
  "sequential_id ''device'' (Suc 0) = ''device_000001''"
  by code_simp

lemma w_tokens:
  "is_hex64 (w_token (CHR ''a''))" "is_hex64 (w_token (CHR ''b''))"
  "w_token (CHR ''a'') \<noteq> w_token (CHR ''b'')" "w_token (CHR ''b'') \<noteq> w_token (CHR ''a'')"
  "w_token (CHR ''a'') \<noteq> [x]" "w_token (CHR ''b'') \<noteq> [x]"
  "[x] \<noteq> w_token (CHR ''a'')" "[x] \<noteq> w_token (CHR ''b'')"
  "w_token (CHR ''a'') \<noteq> []" "w_token (CHR ''b'') \<noteq> []"
  by (simp_all add: w_token_def is_hex64_def is_digit_def numeral_eq_Suc)

lemmas w_basics = w_ids w_tokens Let_def key2_def key3_def map_has_def next_id_def date_le_def
  undecimal_def map_modify_def map_values_def map_update_where_def

lemmas w_checks = find_credential_for_def credential_usable_def device_admits_def
  findCurrentMobileCredential_def credentialRequestKey_def session_credential_ok_def
  consent_stale_def policies_agree_def isConsentCurrent_def credential_by_id_def
  store_credential_def make_consent_def make_request_def

lemmas w_trust = createPairingCode_def redeemPairingCode_def redeem_commit_def redeem_device_def
  fresh_device_def activateMobileDevice_def activate_key_def activate_commit_def
  prepareDeviceSessionRotation_def prepare_key_def prepare_commit_def
  confirmDeviceSessionRotation_def confirm_key_def confirm_commit_def
  revokeDeviceByAdministrator_def admin_revoke_key_def admin_revoke_commit_def admin_revocable_def

lemmas w_run = w_rows w_basics w_checks w_trust

lemmas w_states = w4_def w3_def w2_def w1_def w0_def

lemma runI: "\<exists>v. fst x = Inr (Some v) \<and> P v \<Longrightarrow> \<exists>v. x = (Inr (Some v), snd x) \<and> P v"
  by (metis prod.collapse)

lemma w0_start: "trust_start w0"
  by (simp add: trust_start_def w0_def w_rows ids_fresh_def)

lemma w_separates: "separates w_host S"
  by (simp add: separates_def w_host_def)

lemma w2_facts:
  "\<exists>v. fst (redeemPairingCode w_host w_redeem w1) = Inr (Some v) \<and> red_replayed v = Some False"
  "fresh_code w_code w0" "fresh_credential (ro_bootstrapCredential w_redeem) w1"
  "installation_indexed w_redeem w1"
  by (simp_all add: w_states w_run fresh_code_def fresh_credential_def installation_indexed_def)

lemma w3_facts:
  "\<exists>v. fst (activateMobileDevice w_host w_activate w2) = Inr (Some v) \<and> True"
  "fresh_credential (ao_sessionCredential w_activate) w2"
  "map_get (deviceCredentialsByHash w3) (w_token (CHR ''a''))
     = Some (stored_form (ao_sessionCredential w_activate) ''o'' ''e'' w_device ''3'')"
  "live_session (stored_form (ao_sessionCredential w_activate) ''o'' ''e'' w_device ''3'')"
  "\<exists>c. map_get (deviceCredentialsByHash w3) ''B'' = Some c \<and> retired c"
  "\<exists>c. resolveDeviceCredential w_host (w_token (CHR ''a'')) CredSession ''4'' w3 = Some c"
  by (simp_all add: w_states w_run fresh_credential_def stored_form_def live_session_def retired_def
      resolveDeviceCredential_def contextForCredential_def)

lemma w5_facts:
  "fresh_credential (po_sessionCredential w_prepare) w3"
  "\<exists>v. fst (confirmDeviceSessionRotation w_host w_confirm w4) = Inr (Some v) \<and> True"
  "map_get (credentialRequests w4) (confirm_key w_confirm) = None"
  by (simp_all add: w_states w_run fresh_credential_def)

lemma w6_facts:
  "\<exists>v. fst (revokeDeviceByAdministrator w_admin_revoke w3) = Inr (Some v) \<and> av_revokedCredentialCount v = 1"
  "map_get (adminDeviceRevocations w3) (admin_revoke_key w_admin_revoke) = None"
  by (simp_all add: w_states w_run)

lemma w_inputs: "ro_at w_redeem \<noteq> []" "ao_at w_activate \<noteq> []" "co_at w_confirm \<noteq> []"
  "cred_credentialType (ro_bootstrapCredential w_redeem) = CredBootstrap"
  "cred_lifecycleState (ro_bootstrapCredential w_redeem) = LcActive"
  by (simp_all add: w_rows)

lemma w_steps:
  "trust_step w_host w0 w1" "trust_step w_host w1 w2" "trust_step w_host w2 w3" "trust_step w_host w3 w4"
  using w2_facts w3_facts w5_facts w_inputs
  by (auto simp: w1_def w2_def w3_def w4_def intro: trust_step.intros)

lemma w_onward: "trust_reaches w_host w3 w4" "trust_reaches w_host w2 w3"
  using w_steps by (blast intro: r_into_rtranclp)+

lemma w_reaches: "trust_reaches w_host w0 w1" "trust_reaches w_host w0 w2" "trust_reaches w_host w0 w3"
  "trust_reaches w_host w0 w4"
  using w_steps by (meson r_into_rtranclp rtranclp.rtrancl_into_rtrancl)+

section \<open>Identity, workforce and trust\<close>

theorem findActor_tenant_witness:
  "\<exists>a. findActor ''o'' ''u'' w0 = Some a \<and> user_organizationId (actor_user a) = ''o''
     \<and> set (actor_permissions a) = (\<Union>ro \<in> set (actor_roles a). set (role_permissions ro))"
proof -
  obtain a where a: "findActor ''o'' ''u'' w0 = Some a"
    by (simp add: findActor_def roles_of_def w0_def w_rows List.map_filter_def)
  then show ?thesis using findActor_tenant[OF a] by blast
qed

theorem listEmployees_pages_complete_witness:
  "mset (walk (\<lambda>c. listEmployees w_host ''o'' \<lparr>ef_search = None, ef_status = None, ef_team = Some ''s''\<rparr> c 1 w0)
      employee_cursor_of 2 None) = {#w_employee#}"
proof -
  have "keyed emp_id (employees w0)" by (simp add: w0_def w_rows keyed_def map_wf_def)
  moreover have "length (employees w0) < 2" by (simp add: w0_def)
  ultimately show ?thesis
    using listEmployees_pages_complete[of w0 1 w_host 2 "''o''" "\<lparr>ef_search = None, ef_status = None, ef_team = Some ''s''\<rparr>"]
      w_separates by (simp add: Let_def w0_def w_rows employee_matches_def map_values_def)
qed

theorem resolveDeviceCredential_sound_witness:
  "\<exists>ctx d. resolveDeviceCredential w_host (w_token (CHR ''a'')) CredSession ''4'' w3 = Some ctx
     \<and> map_get (devices w3) (ctx_deviceId ctx) = Some d \<and> dev_status d = DevConnected"
proof -
  obtain ctx where c: "resolveDeviceCredential w_host (w_token (CHR ''a'')) CredSession ''4'' w3 = Some ctx"
    using w3_facts(6) by blast
  from resolveDeviceCredential_sound[OF c] c show ?thesis by blast
qed

theorem suspendEmployee_locks_out_witness:
  "\<exists>e' r' d'. suspendEmployee ''o'' ''e'' ''u'' ''6'' w3 = (Some e', r') \<and> map_get (devices r') w_device = Some d'
     \<and> dev_status d' = DevRevoked"
proof -
  have "\<exists>e' r' d. suspendEmployee ''o'' ''e'' ''u'' ''6'' w3 = (Some e', r') \<and> w_device \<in> set (emp_deviceIds e')
      \<and> map_get (devices w3) w_device = Some d \<and> dev_organizationId d = ''o''"
    by (simp add: suspendEmployee_def w_states w_run)
  then obtain e' r' d where run: "suspendEmployee ''o'' ''e'' ''u'' ''6'' w3 = (Some e', r')"
    and d: "w_device \<in> set (emp_deviceIds e')" "map_get (devices w3) w_device = Some d" "dev_organizationId d = ''o''"
    by blast
  have "\<exists>d'. map_get (devices r') w_device = Some d' \<and> dev_status d' = DevRevoked"
    using suspendEmployee_locks_out[OF run] d by blast
  with run show ?thesis by blast
qed

theorem one_live_session_per_device_witness:
  "\<exists>c. map_get (deviceCredentialsByHash w3) (w_token (CHR ''a'')) = Some c \<and> live_session c
     \<and> fst (the (find (\<lambda>(k, x). live_session x) (deviceCredentialsByHash w3))) = w_token (CHR ''a'')"
proof -
  let ?c = "stored_form (ao_sessionCredential w_activate) ''o'' ''e'' w_device ''3''"
  have "\<exists>k x. find (\<lambda>(k, x). live_session x) (deviceCredentialsByHash w3) = Some (k, x)
      \<and> map_get (deviceCredentialsByHash w3) k = Some x \<and> live_session x \<and> cred_deviceId x = w_device"
    by (simp add: w_states w_run live_session_def)
  then obtain k x where "find (\<lambda>(k, x). live_session x) (deviceCredentialsByHash w3) = Some (k, x)"
    "map_get (deviceCredentialsByHash w3) k = Some x" "live_session x" "cred_deviceId x = w_device"
    by blast
  with one_live_session_per_device[OF w0_start w_reaches(3), of k x "w_token (CHR ''a'')" ?c] w3_facts(3,4)
  show ?thesis by (simp add: stored_form_def)
qed


theorem pairing_code_single_use_witness:
  "\<exists>v. fst (redeemPairingCode w_host (w_redeem\<lparr>ro_requestId := ''other''\<rparr>) w3) = Inr (Some v)
     \<and> red_replayed v \<noteq> Some False"
proof -
  obtain v1 where v1: "redeemPairingCode w_host w_redeem w1 = (Inr (Some v1), w2)" "red_replayed v1 = Some False"
    using runI[OF w2_facts(1)] by (auto simp: w2_def)
  have "\<exists>v. fst (redeemPairingCode w_host (w_redeem\<lparr>ro_requestId := ''other''\<rparr>) w3) = Inr (Some v) \<and> True"
    by (simp add: w_states w_run redemption_only_def)
  from runI[OF this] obtain v where
    v: "redeemPairingCode w_host (w_redeem\<lparr>ro_requestId := ''other''\<rparr>) w3 = (Inr (Some v), snd (redeemPairingCode w_host (w_redeem\<lparr>ro_requestId := ''other''\<rparr>) w3))"
    by blast
  have "red_replayed v \<noteq> Some False"
    by (rule pairing_code_single_use[OF w0_start w_reaches(1) v1 w_inputs(1) w_onward(2) _ v]) simp
  with v show ?thesis by (metis fst_conv)
qed

theorem confirm_rotation_swaps_witness:
  "\<exists>oh old. map_get (deviceCredentialsByHash w4) oh = Some old \<and> live_session old
     \<and> resolveDeviceCredential w_host oh CredSession ''7'' w5 = None"
proof -
  obtain v where v: "confirmDeviceSessionRotation w_host w_confirm w4 = (Inr (Some v), w5)"
    using runI[OF w5_facts(2)] by (auto simp: w5_def)
  from confirm_rotation_swaps[OF w0_start w_reaches(4) w_inputs(3) v w5_facts(3)]
  show ?thesis by blast
qed

theorem admin_revocation_complete_witness:
  "\<exists>d. map_get (devices w6) w_device = Some d \<and> dev_status d = DevRevoked
     \<and> filter (admin_revocable w_device) (map_values (deviceCredentialsByHash w6)) = []"
proof -
  obtain v where v: "revokeDeviceByAdministrator w_admin_revoke w3 = (Inr (Some v), w6)"
    using runI[OF w6_facts(1)] by (auto simp: w6_def)
  from admin_revocation_complete[OF trust_inv_reaches[OF w_reaches(3) trust_start_inv[OF w0_start]] v w6_facts(2)]
  show ?thesis by (auto simp: w_admin_revoke_def)
qed

theorem activation_retry_idempotent_witness:
  "\<exists>v. activateMobileDevice w_host w_activate w3 = (Inr (Some (v\<lparr>ar_replayed := True\<rparr>)), w3)"
proof -
  obtain v where v: "activateMobileDevice w_host w_activate w2 = (Inr (Some v), w3)"
    using runI[OF w3_facts(1)] by (auto simp: w3_def)
  from activation_retry_idempotent[OF v] show ?thesis by blast
qed

theorem redemption_retry_idempotent_witness:
  "\<exists>v. redeemPairingCode w_host w_redeem w2 = (Inr (Some (v\<lparr>red_replayed := Some True\<rparr>)), w2)"
proof -
  obtain v where v: "redeemPairingCode w_host w_redeem w1 = (Inr (Some v), w2)" "red_replayed v = Some False"
    using runI[OF w2_facts(1)] by (auto simp: w2_def)
  then have "red_replayed v \<noteq> None" by simp
  from redemption_retry_idempotent[OF v(1) this w2_facts(4)] show ?thesis by blast
qed

end
