(* ===== verification/LeadScenario.thy ===== *)
theory LeadScenario
  imports Scenario
begin

text \<open>
  The run of \<open>Scenario\<close> continued into the lead workspace and the calls: the inputs at which
  their properties are applied.
\<close>

section \<open>Inputs\<close>

definition w_no_changes :: update_lead_input where
  "w_no_changes = \<lparr>uli_firstName = None, uli_lastName = None, uli_companyName = None, uli_phoneNumber = None,
     uli_alternatePhoneNumber = None, uli_email = None, uli_statusId = None, uli_temperature = None,
     uli_assignedEmployeeId = None, uli_tagIds = None, uli_customFields = None, uli_archived = None\<rparr>"

definition w_update :: update_lead_options where
  "w_update = \<lparr>ulo_organizationId = ''o'', ulo_scope = ScopeTeams [''s''], ulo_leadId = ''l'', ulo_actorUserId = ''u'',
     ulo_canAssign = False,
     ulo_request = \<lparr>ulr_expectedVersion = 1, ulr_changes = w_no_changes\<lparr>uli_firstName := Some ''M''\<rparr>\<rparr>,
     ulo_at = ''2''\<rparr>"

definition w_complete :: complete_follow_up_options where
  "w_complete = \<lparr>cpo_organizationId = ''o'', cpo_scope = ScopeAssigned ''e'', cpo_followUpId = ''f'',
     cpo_actorUserId = ''u'', cpo_input = \<lparr>cpi_expectedVersion = 1, cpi_completionNote = None,
       cpi_completedAt = None\<rparr>, cpo_at = ''2''\<rparr>"

definition w_create :: create_lead_options where
  "w_create = \<lparr>clo_organizationId = ''o'', clo_scope = ScopeTeams [''s''], clo_actorUserId = ''u'',
     clo_input = \<lparr>cli_firstName = ''N'', cli_lastName = None, cli_companyName = None,
       cli_phoneNumber = ''+2'', cli_alternatePhoneNumber = None, cli_email = None, cli_source = None,
       cli_sourceReference = None, cli_statusId = None, cli_temperature = None,
       cli_assignedEmployeeId = None, cli_tagIds = None, cli_customFields = None\<rparr>,
     clo_at = ''2''\<rparr>"

definition w_filter :: lead_filter where
  "w_filter = \<lparr>lf_search = None, lf_statusId = None, lf_assignedEmployeeId = None, lf_queue = QueueAll\<rparr>"

definition w_call :: ingest_options where
  "w_call = \<lparr>ino_organizationId = ''o'',
     ino_input = \<lparr>sc_externalId = ''x'', sc_employeeId = ''e'', sc_deviceId = None, sc_direction = Incoming,
       sc_disposition = Answered, sc_phoneNumber = ''+1'', sc_displayName = None, sc_isInternal = False,
       sc_startedAt = ''2'', sc_answeredAt = None, sc_endedAt = None, sc_durationSeconds = 7,
       sc_ringDurationSeconds = None, sc_isWithinWorkingHours = True\<rparr>,
     ino_idempotencyKey = ''k'', ino_fingerprint = ''x'', ino_actorUserId = ''u'', ino_at = ''3''\<rparr>"

definition w_item :: call_sync_item where
  "w_item = \<lparr>it_localId = ''m'', it_nativeCallId = None, it_simCardId = None, it_phoneNumber = ''+1'',
     it_contactName = None, it_direction = Outgoing, it_disposition = Answered, it_startedAt = ''3'',
     it_answeredAt = None, it_endedAt = None, it_durationSeconds = 5, it_ringDurationSeconds = None,
     it_isInternal = None, it_nativeLastModifiedAt = None, it_recordingLocalId = None\<rparr>"

definition w_batch :: batch_options where
  "w_batch = \<lparr>bo_context = w_context ''s'' CredSession, bo_batchId = ''j'', bo_items = [w_item],
     bo_payloadHash = ''y'', bo_nextCursor = ''n'', bo_at = ''4'', bo_allowWithoutCallLogPermission = False\<rparr>"

definition w_print :: "call_sync_item \<Rightarrow> string" where
  "w_print it = it_phoneNumber it @ it_startedAt it"

definition w_mobile :: mobile_update_options where
  "w_mobile = \<lparr>muo_context = w_context ''s'' CredSession, muo_leadId = ''l'', muo_requestId = ''q'',
     muo_expectedLeadVersion = 1, muo_occurredAt = ''4'', muo_statusId = None, muo_note = Some ''Spoke'',
     muo_followUp = Some \<lparr>mfu_title = ''Again'', mfu_notes = None, mfu_dueAt = ''7'', mfu_reminderAt = None,
       mfu_priority = None\<rparr>,
     muo_requestFingerprint = ''x'', muo_at = ''4''\<rparr>"

definition w_correct :: correction_options where
  "w_correct = \<lparr>cro_organizationId = ''o'', cro_scope = ScopeOrganization,
     cro_callId = sequential_id ''call'' (Suc 0), cro_requestId = ''q'', cro_expectedLeadId = Some ''l'',
     cro_replacementLeadId = None, cro_reason = ''wrong'', cro_actorUserId = ''u'',
     cro_requestFingerprint = ''x'', cro_at = ''4''\<rparr>"

lemmas w_lead_inputs = w_no_changes_def w_update_def w_complete_def w_create_def w_filter_def w_call_def
  w_item_def w_batch_def w_print_def w_mobile_def w_correct_def

section \<open>Evaluating the operations\<close>

lemmas w_lead_reads = canAccessLead_def lead_team_def buildLeadDetail_def buildLeadListItem_def statusForLead_def
  pending_follow_ups_def followUpsForLead_def unreturnedMissedCallCount_def linked_call_activities_def
  return_detail_def add_activity_def add_note_def next_due_def js_sort_def follow_up_order_def
  cmp_or_def cmp_on_def cmp_desc_def accessible_leads_def page_of_def after_cursor_def

lemmas w_lead_writes = createLead_def updateLead_def update_commit_def completeLeadFollowUp_def
  complete_commit_def completed_follow_up_def changes_allowed_def apply_changes_def set_optional_def
  set_plain_def stamp_outcomes_def touch_lead_def new_lead_def new_lead_team_def defaultLeadStatus_def
  validateLeadAssignment_def status_default_order_def

lemmas w_call_ops = ingestCall_def simulated_log_def ingest_external_key_def linkCallToUniqueLead_def
  link_candidates_def phone_matches_def contact_lead_def ingestMobileCallBatch_def batch_key_def
  ingest_item_def item_log_def item_key_def item_result_def item_participant_def
  applyMobileLeadUpdate_def mobile_update_key_def outside_window_def reminder_late_def mobile_commit_def
  mobile_status_step_def mobile_note_step_def mobile_follow_up_step_def mobile_new_follow_up_def
  correctCallLeadLink_def correction_key_def correction_commit_def

lemmas w_lead_run = w_lead_inputs w_lead_reads w_lead_writes w_call_ops

lemma w_distinct_ids: "sequential_id ''call'' n \<noteq> []" "sequential_id ''lead'' n \<noteq> ''l''"
  "''l'' \<noteq> sequential_id ''lead'' n" "sequential_id ''follow_up'' n \<noteq> ''f''" "''f'' \<noteq> sequential_id ''follow_up'' n"
  by (simp_all add: sequential_id_def)

lemma w0_lead_inv: "lead_inv w_host w0"
  by (simp add: lead_inv_def lead_ok_def follow_up_ok_def keyed_def map_wf_def ids_fresh_def w0_def w_rows
      sequential_id_def w_lead_reads map_values_def)

text \<open>Pairing and activation leave the workspace as it was.\<close>

definition w_part where
  "w_part (r :: call_state) = (leadStatuses r, leads r, leadTeams r, leadNotes r, leadFollowUps r, leadActivities r,
     leadIdByCallId r, calls r, callIdByExternalId r, callFingerprintByExternalId r, idempotency r,
     mobileBatches r, callLeadCorrectionRequests r, mobileLeadUpdateRequests r)"

lemma w_frames:
  "w_part (createPairingCode c r) = w_part r"
  "w_part (snd (redeemPairingCode w_host a r)) = w_part r"
  "w_part (snd (activateMobileDevice w_host b r)) = w_part r"
  by (simp_all add: w_part_def createPairingCode_def redeemPairingCode_def redeem_commit_def redeem_device_def
      store_credential_def revoke_live_credentials_def activateMobileDevice_def activate_commit_def
      next_id_def Let_def split: option.split)

lemma w3_part: "w_part w3 = w_part w0"
  unfolding w3_def w2_def w1_def w_frames ..

lemmas w3_workspace = w3_part [unfolded w_part_def prod.inject]

lemma w3_trust:
  "ids w3 = 1" "isConsentCurrent w_device w3"
  "employees w3 = [(''e'', w_employee\<lparr>emp_deviceIds := [w_device], updatedAt := ''3''\<rparr>)]"
  by (simp_all add: w_states w_run)

lemma w3_current:
  "\<exists>k. findCurrentMobileCredential w_host (w_context ''s'' CredSession) CredSession ''4'' w3 = Some k
     \<and> perm_callLog (dev_permissions (cur_device k)) = PermGranted"
  by (simp add: w_states w_run)

lemma w3_lead_inv: "lead_inv w_host w3"
  by (simp add: lead_inv_def lead_ok_def follow_up_ok_def keyed_def map_wf_def ids_fresh_def w3_workspace
      sequential_id_def w_lead_reads map_values_def w0_def w_rows)

lemma w_call_inv: "call_inv w0" "call_inv w3"
  by (simp_all add: call_inv_def w3_workspace w0_def w_rows keyed_def map_wf_def ids_fresh_def)

lemma w_lead_results:
  "\<exists>d. fst (updateLead w_host w_update w0) = Inr (Some d) \<and> True"
  "\<exists>d. fst (completeLeadFollowUp w_host w_complete w0) = Inr (Some d) \<and> True"
  "\<exists>d. fst (createLead w_host w_create w0) = Inr (Some d) \<and> True"
  by (simp_all add: w0_def w_run w_lead_run w_distinct_ids)

lemma w_ingest_result: "\<exists>v. fst (ingestCall w_call w0) = Inr v \<and> \<not> inr_conflict v"
  by (simp add: w0_def w_run w_lead_run w_distinct_ids)

lemma w_correct_result:
  "\<exists>v. fst (correctCallLeadLink w_correct (snd (ingestCall w_call w0))) = Inr (Some v) \<and> \<not> cor_replayed v"
  by (simp add: w0_def w_run w_lead_run w_distinct_ids)

lemma w_batch_result: "\<exists>v. fst (ingestMobileCallBatch w_host w_print w_batch w3) = Inr (Some v) \<and> True"
proof -
  obtain k where "findCurrentMobileCredential w_host (w_context ''s'' CredSession) CredSession ''4'' w3 = Some k"
    "perm_callLog (dev_permissions (cur_device k)) = PermGranted" using w3_current by blast
  then show ?thesis using w3_trust(2)
    by (simp add: w_call_ops w_batch_def w_print_def w_item_def w3_workspace w3_trust Let_def key3_def next_id_def
        w_context_def w0_def w_rows split: option.split)
qed

lemma w_mobile_result: "\<exists>v. fst (applyMobileLeadUpdate w_host w_mobile w3) = Inr (Some v) \<and> \<not> mrc_replayed v"
proof -
  obtain k where "findCurrentMobileCredential w_host (w_context ''s'' CredSession) CredSession ''4'' w3 = Some k"
    using w3_current by blast
  then show ?thesis using w3_trust(2)
    by (simp add: applyMobileLeadUpdate_def mobile_update_key_def outside_window_def reminder_late_def
        mobile_commit_def mobile_status_step_def mobile_note_step_def mobile_follow_up_step_def add_note_def
        add_activity_def buildLeadDetail_def buildLeadListItem_def statusForLead_def w_mobile_def w3_workspace
        w3_trust Let_def key3_def next_id_def w_context_def w0_def w_rows undecimal_def touch_lead_def)
qed

lemma w_code_units: "as_code_units w_host x y"
  by (simp add: as_code_units_def w_host_def)

section \<open>Leads\<close>



theorem follow_up_completed_once_witness:
  "\<nexists>d. fst (completeLeadFollowUp w_host w_complete (snd (completeLeadFollowUp w_host w_complete w0))) = Inr (Some d)"
proof -
  obtain d where d: "completeLeadFollowUp w_host w_complete w0 = (Inr (Some d), snd (completeLeadFollowUp w_host w_complete w0))"
    using runI[OF w_lead_results(2)] by blast
  from follow_up_completed_once[OF w0_lead_inv d rtranclp.rtrancl_refl refl] show ?thesis by blast
qed

theorem lead_history_append_only_witness:
  "\<exists>new. leadActivities (snd (createLead w_host w_create w0)) = leadActivities w0 @ new"
proof -
  have "lead_reaches w_host w0 (snd (createLead w_host w_create w0))"
    by (rule r_into_rtranclp) (rule lead_step.intros)
  from lead_history_append_only[OF w0_lead_inv this] show ?thesis .
qed

theorem updateLead_effect_witness:
  "\<exists>l2. leads (snd (updateLead w_host w_update w0)) = map_set ''l'' l2 (leads w0) \<and> lead_version l2 = 2"
proof -
  obtain d where d: "updateLead w_host w_update w0 = (Inr (Some d), snd (updateLead w_host w_update w0))"
    using runI[OF w_lead_results(1)] by blast
  from updateLead_effect[OF w0_lead_inv d] obtain l l2 where
    "map_get (leads w0) ''l'' = Some l" "leads (snd (updateLead w_host w_update w0)) = map_set ''l'' l2 (leads w0)"
    "lead_version l2 = lead_version l + 1" by (auto simp: w_update_def)
  then show ?thesis by (auto simp: w0_def w_rows)
qed

theorem listLeads_scoped_witness:
  "\<exists>res. listLeads w_host ''o'' (ScopeAssigned ''e'') w_filter None 5 ''2'' w0 = Inr res \<and> length (llr_items res) \<le> 5"
proof -
  have "\<exists>res. listLeads w_host ''o'' (ScopeAssigned ''e'') w_filter None 5 ''2'' w0 = Inr res"
    by (simp add: listLeads_def w_lead_reads w0_def w_rows Let_def map_values_def)
  then obtain res where res: "listLeads w_host ''o'' (ScopeAssigned ''e'') w_filter None 5 ''2'' w0 = Inr res" by blast
  from listLeads_scoped[OF res] res show ?thesis by blast
qed

theorem listLeads_pages_complete_witness:
  "\<exists>res. listLeads w_host ''o'' ScopeOrganization w_filter None 1 ''2'' w0 = Inr res \<and> lq_total (llr_summary res) = 1"
proof -
  have "length (leads w0) < 2" by (simp add: w0_def)
  from listLeads_pages_complete[OF w0_lead_inv, of 1 2 "''o''" ScopeOrganization w_filter "''2''"] this
  obtain res where "listLeads w_host ''o'' ScopeOrganization w_filter None 1 ''2'' w0 = Inr res"
    "lq_total (llr_summary res) = length (accessible_leads ''o'' ScopeOrganization w0)"
    by (auto simp: Let_def code_unit_pair_def w_code_units)
  then show ?thesis by (simp add: w_lead_reads w0_def w_rows map_values_def)
qed

theorem created_lead_visible_witness:
  "\<exists>d r'. createLead w_host w_create w0 = (Inr (Some d), r') \<and> canAccessLead (ScopeTeams [''s'']) (li_lead (ld_item d)) r'"
proof -
  obtain d where d: "createLead w_host w_create w0 = (Inr (Some d), snd (createLead w_host w_create w0))"
    using runI[OF w_lead_results(3)] by blast
  have "clo_scope w_create = ScopeTeams [''s'']" by (simp add: w_create_def)
  with created_lead_visible[OF d] d show ?thesis by auto
qed

section \<open>Calls\<close>

theorem link_unambiguous_witness:
  "\<exists>k l. map_get (leads w0) k = Some l \<and> lead_id l = ''l'' \<and> lead_organizationId l = ''o''"
proof -
  let ?c = "simulated_log w_call ''x''"
  have "map_wf (leads w0)" "\<not> truthy (map_get (leadIdByCallId w0) (call_id ?c))"
    by (simp_all add: w0_def map_wf_def empty_repository_def)
  moreover have "map_get (leadIdByCallId (linkCallToUniqueLead ?c ''3'' w0)) (call_id ?c) = Some ''l''"
    by (simp add: w0_def w_run w_lead_run)
  moreover have "call_organizationId ?c = ''o''" by (simp add: simulated_log_def w_call_def Let_def)
  ultimately show ?thesis using link_unambiguous[of w0 ?c "''3''" "''l''"] by auto
qed

theorem ingestCall_exactly_once_witness:
  "\<exists>v. ingestCall w_call w0 = (Inr v, snd (ingestCall w_call w0))
     \<and> ingestCall w_call (snd (ingestCall w_call w0))
       = (Inr (v\<lparr>inr_duplicate := True, inr_conflict := False\<rparr>), snd (ingestCall w_call w0))"
proof -
  obtain v where v: "ingestCall w_call w0 = (Inr v, snd (ingestCall w_call w0))" "\<not> inr_conflict v"
    using w_ingest_result by (metis prod.collapse)
  from ingestCall_exactly_once[OF w_call_inv(1) v refl refl] v(1) show ?thesis by auto
qed

theorem resent_items_are_duplicates_witness:
  "\<exists>xs r1. ingest_items w_print w_batch [w_item] w0 = (Inr xs, r1)
     \<and> ingest_items w_print w_batch [w_item] r1 = (Inr (map (\<lambda>x. x\<lparr>sir_outcome := SyncDuplicate\<rparr>) xs), r1)"
proof -
  have "\<exists>xs r1. ingest_items w_print w_batch [w_item] w0 = (Inr xs, r1)"
    by (simp add: w0_def w_run w_lead_run w_distinct_ids)
  then obtain xs r1 where run: "ingest_items w_print w_batch [w_item] w0 = (Inr xs, r1)" by blast
  from resent_items_are_duplicates[OF w_call_inv(1) _ run refl refl] run show ?thesis by auto
qed

theorem batch_applied_once_witness:
  "\<exists>res. ingestMobileCallBatch w_host w_print w_batch (snd (ingestMobileCallBatch w_host w_print w_batch w3))
     = (Inr (Some res), snd (ingestMobileCallBatch w_host w_print w_batch w3))"
proof -
  obtain res where "ingestMobileCallBatch w_host w_print w_batch w3
      = (Inr (Some res), snd (ingestMobileCallBatch w_host w_print w_batch w3))"
    using runI[OF w_batch_result] by blast
  from batch_applied_once[OF this refl refl refl refl] show ?thesis by auto
qed

theorem call_operations_are_workspace_steps_witness:
  "lead_reaches w_host w3 (snd (ingestMobileCallBatch w_host w_print w_batch w3))"
  using call_operations_are_workspace_steps[OF w3_lead_inv] by blast

theorem mobile_update_effect_witness:
  "\<exists>l'. leads (snd (applyMobileLeadUpdate w_host w_mobile w3)) = map_set ''l'' l' (leads w3) \<and> lead_version l' = 2"
proof -
  obtain v where v: "applyMobileLeadUpdate w_host w_mobile w3 = (Inr (Some v), snd (applyMobileLeadUpdate w_host w_mobile w3))"
    "\<not> mrc_replayed v" using runI[OF w_mobile_result] by blast
  from mobile_update_effect[OF w3_lead_inv v] obtain l l' where
    "map_get (leads w3) ''l'' = Some l" "lead_version l' = lead_version l + 1"
    "leads (snd (applyMobileLeadUpdate w_host w_mobile w3)) = map_set ''l'' l' (leads w3)"
    by (auto simp: w_mobile_def)
  then show ?thesis by (auto simp: w3_workspace w0_def w_rows)
qed

theorem mobile_update_keeps_board_witness:
  "lead_inv w_host (snd (applyMobileLeadUpdate w_host w_mobile w3))"
proof -
  have "applyMobileLeadUpdate w_host w_mobile w3
      = (fst (applyMobileLeadUpdate w_host w_mobile w3), snd (applyMobileLeadUpdate w_host w_mobile w3))" by simp
  from mobile_update_keeps_board[OF w3_lead_inv this] show ?thesis by (simp add: w_code_units w_mobile_def)
qed

theorem correction_effect_witness:
  "\<not> truthy (map_get (leadIdByCallId (snd (correctCallLeadLink w_correct (snd (ingestCall w_call w0))))) (cro_callId w_correct))"
proof -
  let ?r = "snd (ingestCall w_call w0)"
  obtain v where v: "correctCallLeadLink w_correct ?r = (Inr (Some v), snd (correctCallLeadLink w_correct ?r))" "\<not> cor_replayed v"
    using runI[OF w_correct_result] by blast
  have "lead_inv w_host ?r" and "call_inv ?r"
    using lead_inv_reaches[OF ingestCall_reaches w0_lead_inv] w0_lead_inv call_inv_ingest[OF w_call_inv(1)] by blast+
  then have "keyed lead_id (leads ?r)" "keyed call_id (calls ?r)" by (simp_all add: lead_inv_def call_inv_def)
  from correction_effect[OF v this] show ?thesis by (auto simp: w_correct_def)
qed

theorem listCalls_pages_complete_witness:
  "mset (walk (\<lambda>c. listCalls w_host ''o'' \<lparr>clf_employeeId = None, clf_direction = None, clf_disposition = None,
      clf_from = None, clf_to = None\<rparr> c 1 w0) call_cursor_of 1 None) = {#}"
proof -
  have "keyed call_id (calls w0)" "length (calls w0) < 1" by (simp_all add: w0_def empty_repository_def)
  then show ?thesis
    using listCalls_pages_complete[of w0 1 w_host 1 "''o''" "\<lparr>clf_employeeId = None, clf_direction = None,
      clf_disposition = None, clf_from = None, clf_to = None\<rparr>"] w_separates
    by (simp add: Let_def w0_def empty_repository_def map_values_def)
qed

end
