(* ===== verification/RuleScenario.thy ===== *)
theory RuleScenario
  imports AssignmentFacts LeadScenario
begin

text \<open>
  The workspace of \<open>Scenario\<close> with one more, unassigned lead and one round-robin rule: the inputs
  at which the properties of the assignment rules are applied.
\<close>

definition w_rule :: assignment_rule where
  "w_rule = \<lparr>ar_id = ''a'', ar_organizationId = ''o'', ar_name = ''A'', ar_priority = 1, ar_active = True,
     ar_conditions = no_conditions, ar_strategy = RoundRobin, ar_employeeIds = [''e''], ar_version = 1,
     ar_createdByUserId = ''u'', ar_updatedByUserId = ''u'', ar_createdAt = ''1'', ar_updatedAt = ''1''\<rparr>"

definition w_spare :: lead where
  "w_spare = w_lead\<lparr>lead_id := ''m'', lead_assignedEmployeeId := None, lead_nextFollowUpAt := None\<rparr>"

definition w_book :: rule_state where
  "w_book = call_state.extend (w0\<lparr>leads := [(''l'', w_lead), (''m'', w_spare)], leadTeams := [(''l'', ''s''), (''m'', ''s'')]\<rparr>)
     (rule_state.fields [(''a'', w_rule)] [(''a'', ''s'')] [(''a'', 0)] [])"

definition w_access :: rule_access where
  "w_access = \<lparr>rac_organizationId = ''o'', rac_scope = ScopeTeams [''s''], rac_actorUserId = ''u'', rac_at = ''4''\<rparr>"

definition w_apply :: apply_options where
  "w_apply = rule_access.extend w_access (apply_options.fields ''q'' True ''x'')"

lemmas w_book_simps = w_book_def w_rule_def w_spare_def w_access_def w_apply_def w0_def w_rows
  call_state.defs rule_state.defs rule_access.defs apply_options.defs

lemma w_book_fields:
  "employees w_book = [(''e'', w_employee)]" "leadAssignmentRules w_book = [(''a'', w_rule)]"
  "leadAssignmentRuleTeams w_book = [(''a'', ''s'')]" "leadAssignmentRuleCursors w_book = [(''a'', 0)]"
  "leadAssignmentApplyRequests w_book = []" "leadStatuses w_book = [(''n'', w_status)]"
  "leads w_book = [(''l'', w_lead), (''m'', w_spare)]" "leadTeams w_book = [(''l'', ''s''), (''m'', ''s'')]"
  "leadFollowUps w_book = [(''f'', w_follow_up)]" "leadActivities w_book = []" "leadNotes w_book = []" "ids w_book = 0"
  by (simp_all add: w_book_simps empty_repository_def)

lemma w_book_inv: "lead_inv w_host w_book"
  by (simp add: lead_inv_def lead_ok_def follow_up_ok_def keyed_def map_wf_def ids_fresh_def w_book_fields w_rows w_spare_def
      sequential_id_def w_lead_reads map_values_def)

lemma w_book_nameless: "nameless w_book"
  by (simp add: nameless_def w_book_fields)

lemma w_book_rules: "rule_inv w_book"
  by (simp add: rule_inv_def keyed_def map_wf_def ids_fresh_def w_book_fields rule_ok_def w_rule_def sequential_id_def)

lemma w_apply_simps [simp]: "apo_includeExistingUnassigned w_apply" "map_get (leadAssignmentApplyRequests w_book) (apply_key w_apply) = None"
  by (simp_all add: w_book_fields w_apply_def rule_access.defs apply_options.defs)


theorem round_robin_fair_witness:
  "tally (dr_distribution (dryRunLeadAssignmentRules w_host w_access w_book)) ''e''
     \<le> Suc (tally (dr_distribution (dryRunLeadAssignmentRules w_host w_access w_book)) ''e'')"
proof (rule round_robin_fair[OF w_book_nameless])
  show "keyed ar_id (leadAssignmentRules w_book)" using w_book_rules by (simp add: rule_inv_def)
  show "map_get (leadAssignmentRules w_book) ''a'' = Some w_rule" by (simp add: w_book_fields)
qed (simp_all add: w_rule_def owns_alone_def w_book_fields map_values_def)

theorem dry_run_accounts_witness:
  "dr_matchedLeads (dryRunLeadAssignmentRules w_host w_access w_book)
     + dr_unmatchedLeads (dryRunLeadAssignmentRules w_host w_access w_book) = 1"
  using dry_run_accounts[OF w_book_nameless, of w_host w_access]
  by (simp add: w_book_fields map_values_def unassigned_lead_def w_rows w_spare_def w_access_def canAccessLead_def lead_team_def)

theorem rule_book_invariant_witness: "rule_inv (snd (applyLeadAssignmentRules w_host w_apply w_book))"
proof -
  have "(rule_step w_host)\<^sup>*\<^sup>* w_book (snd (applyLeadAssignmentRules w_host w_apply w_book))"
    using step_apply_rules[of w_host w_book w_apply] by (rule r_into_rtranclp)
  from rule_book_invariant[OF this w_book_rules] show ?thesis by simp
qed

lemma w_apply_runs: "\<exists>v r'. applyLeadAssignmentRules w_host w_apply w_book = (Inr (Some v), r')"
proof -
  have k: "distinct (map_keys (leads w_book))" "set (map_keys (leads w_book)) \<subseteq> dom (map_get (leads w_book))"
    by (simp_all add: w_book_fields map_keys_def dom_def)
  from apply_leads_plan[OF w_book_inv w_book_nameless k refl, of w_apply no_progress]
  show ?thesis by (auto simp: applyLeadAssignmentRules_def Let_def)
qed

theorem apply_retry_idempotent_witness:
  "\<exists>v (r' :: rule_state). applyLeadAssignmentRules w_host w_apply r' = (Inr (Some (v\<lparr>apr_replayed := True\<rparr>)), r')"
proof -
  obtain v r' where "applyLeadAssignmentRules w_host w_apply w_book = (Inr (Some v), r')"
    using w_apply_runs by blast
  from apply_retry_idempotent[OF this, of 2] show ?thesis by blast
qed

end
