(* ===== verification/EdgeScenario.thy ===== *)
theory EdgeScenario
  imports FormatFacts GuardFacts ParsingFacts CsvFacts ImportFacts RuleScenario
begin

text \<open>
  Concrete request bodies, texts and an import into the workspace of \<open>RuleScenario\<close>: the inputs at
  which the properties of validators, parsers and imports are applied.
\<close>

section \<open>Formats and validators\<close>

definition w_clock :: host where
  "w_clock = w_host\<lparr>h_parse := (\<lambda>s. Some (if length s = 20 then 2 else 1))\<rparr>"

theorem canonical_date_time_rendered_witness:
  "canonical_date_time w_clock (render_date_time 2024 2 29 23 59 59 ''Z'')
    \<and> \<not> canonical_date_time w_clock (render_date_time 2023 2 29 23 59 59 ''Z'')"
  using canonical_date_time_rendered[of 2024 2 29 23 59 59 "''Z''" w_clock]
    canonical_date_time_rendered[of 2023 2 29 23 59 59 "''Z''" w_clock]
  by (simp add: zone_ok_def month_length_def utc_year_def leap_year_def w_clock_def)

definition w_rule_body :: json where
  "w_rule_body = JObject [(''name'', JString ''A''), (''priority'', JNum 1), (''strategy'', JString ''fixed_owner''),
     (''employeeIds'', JArray [JString ''e''])]"

theorem accepted_rule_typed_witness: "\<exists>inp. read_rule (Some w_rule_body) = Some inp \<and> length (cri_employeeIds inp) \<le> 100"
proof -
  have "isCreateLeadAssignmentRuleInput (Some w_rule_body)" by (simp add: w_rule_body_def) code_simp
  from accepted_rule_typed[OF this] show ?thesis by blast
qed

theorem item_may_end_before_it_starts_witness: "isCallLogSyncItem w_clock (Some late_item)"
  using item_may_end_before_it_starts[of w_clock 2 1] by (simp add: w_clock_def)

section \<open>Request bodies\<close>

definition w_runtime :: runtime where
  "w_runtime = \<lparr>rt_host = w_clock, rt_iso = (\<lambda>ms. decimal (nat ms)), rt_number_text = (\<lambda>_. ''0''), rt_to_number = (\<lambda>_. None)\<rparr>"

definition w_lead_body :: json_record where
  "w_lead_body = [(''firstName'', JString ''N''), (''phoneNumber'', JString ''+15550001111''),
     (''tagIds'', JArray [JString ''a'', JString ''b'']), (''customFields'', JObject [(''k'', JNum 1)])]"

definition w_follow_up_body :: json_record where
  "w_follow_up_body = [(''leadId'', JString ''l''), (''assignedEmployeeId'', JString ''e''), (''title'', JString ''T''),
     (''dueAt'', JString ''2026-01-01T05:00:00Z''), (''reminderAt'', JString ''2026-01-01T09:00:00+05:30'')]"

definition w_call_body :: json_record where
  "w_call_body = [(''externalId'', JString ''x''), (''employeeId'', JString ''e''), (''isInternal'', JBool False),
     (''isWithinWorkingHours'', JBool True), (''phoneNumber'', JString ''+15550001111''), (''direction'', JString ''incoming''),
     (''disposition'', JString ''answered''), (''startedAt'', JString ''2026-01-01T09:00:00+05:30''),
     (''endedAt'', JString ''2026-01-01T05:00:00Z''), (''durationSeconds'', JNum 60)]"

text \<open>Whether a body parses, as a test that evaluates.\<close>

definition parses :: "thrown + 'a \<Rightarrow> bool" where
  "parses m = (case m of Inl _ \<Rightarrow> False | Inr _ \<Rightarrow> True)"

lemma parses_Inr: "parses m \<Longrightarrow> \<exists>x. m = Inr x"
  by (cases m) (simp_all add: parses_def)

lemma w_lead_fields:
  "optionalString 200 (field w_lead_body ''lastName'') ''lastName'' = Inr None"
  "optionalString 300 (field w_lead_body ''companyName'') ''companyName'' = Inr None"
  "if_defined (\<lambda>v. e164Phone v ''alternatePhoneNumber'') (field w_lead_body ''alternatePhoneNumber'') = Inr None"
  "optionalEmail w_runtime (field w_lead_body ''email'') ''email'' = Inr None"
  "named source_of_name (or_else (field w_lead_body ''source'') (JString ''manual'')) = Some SrcManual"
  "optionalString 255 (field w_lead_body ''sourceReference'') ''sourceReference'' = Inr None"
  "optionalString 100 (field w_lead_body ''statusId'') ''statusId'' = Inr None"
  "leadTemperature (field w_lead_body ''temperature'') ''temperature'' = Inr None"
  "optionalString 100 (field w_lead_body ''assignedEmployeeId'') ''assignedEmployeeId'' = Inr None"
  "leadTagIds (field w_lead_body ''tagIds'') ''tagIds'' = Inr (Some [''a'', ''b''])"
  "requiredString 200 (field w_lead_body ''firstName'') ''firstName'' = Inr ''N''"
  "e164Phone (field w_lead_body ''phoneNumber'') ''phoneNumber'' = Inr ''+15550001111''"
  "length (stringify (rt_number_text w_runtime) (JObject [(''k'', JNum 1)])) = 7" "custom_field_key ''k''"
  by code_simp+

lemma w_lead_custom: "leadCustomFields w_runtime (field w_lead_body ''customFields'') ''customFields'' = Inr (Some [(''k'', JNum 1)])"
  using w_lead_fields(13,14)
  by (simp add: leadCustomFields_def if_defined_def field_def w_lead_body_def attempt_def del: stringify.simps)

lemma w_lead_parses: "parses (parseCreateLeadInput w_runtime w_lead_body)"
  unfolding parseCreateLeadInput_def w_lead_fields w_lead_custom by (simp add: attempt_def expect_def parses_def)

lemma w_follow_up_parses: "parses (parseCreateFollowUpInput w_runtime w_follow_up_body)"
  by code_simp

lemma w_call_fields:
  "named direction_names (field w_call_body ''direction'') \<noteq> None"
  "named disposition_names (field w_call_body ''disposition'') \<noteq> None"
  "asTimestamp w_runtime (field w_call_body ''startedAt'') ''startedAt'' = Inr (Some ''1'')"
  "asTimestamp w_runtime (field w_call_body ''answeredAt'') ''answeredAt'' = Inr None"
  "asTimestamp w_runtime (field w_call_body ''endedAt'') ''endedAt'' = Inr (Some ''2'')"
  "requiredString 20 (field w_call_body ''phoneNumber'') ''phoneNumber'' = Inr ''+15550001111''"
  "optionalString 160 (field w_call_body ''displayName'') ''displayName'' = Inr None"
  "optionalString 100 (field w_call_body ''deviceId'') ''deviceId'' = Inr None"
  "requiredString 160 (field w_call_body ''externalId'') ''externalId'' = Inr ''x''"
  "requiredString 100 (field w_call_body ''employeeId'') ''employeeId'' = Inr ''e''"
  "requiredBoolean (field w_call_body ''isInternal'') ''isInternal'' = Inr False"
  "requiredBoolean (field w_call_body ''isWithinWorkingHours'') ''isWithinWorkingHours'' = Inr True"
  "e164 ''+15550001111''" "\<not> ''2'' < ''1''"
  by code_simp+

lemma w_call_numbers:
  "nonNegativeInteger (field w_call_body ''durationSeconds'') ''durationSeconds'' (7 * 86400) = Inr 60"
  "if_defined (\<lambda>v. nonNegativeInteger v ''ringDurationSeconds'' 86400) (field w_call_body ''ringDurationSeconds'') = Inr None"
  by (simp_all add: field_def w_call_body_def if_defined_def nonNegativeInteger_def safe_integer_def)

lemma w_call_parses: "parses (parseSimulatedCall w_runtime w_call_body)"
  using w_call_fields(1,2) unfolding parseSimulatedCall_def w_call_fields(3-) w_call_numbers
  by (auto simp: attempt_def check_def expect_def parses_def w_call_fields(13,14))

theorem parsed_lead_bounded_witness:
  "\<exists>inp. parseCreateLeadInput w_runtime w_lead_body = Inr inp \<and> e164 (cli_phoneNumber inp)"
proof -
  obtain inp where inp: "parseCreateLeadInput w_runtime w_lead_body = Inr inp" using parses_Inr[OF w_lead_parses] by blast
  then show ?thesis using parsed_lead_bounded[OF inp] by blast
qed

definition w_create_follow_up :: "create_follow_up_input \<Rightarrow> create_follow_up_options" where
  "w_create_follow_up inp = \<lparr>cfo_organizationId = ''o'', cfo_scope = ScopeOrganization, cfo_leadId = ''l'', cfo_actorUserId = ''u'',
     cfo_input = inp, cfo_at = ''2''\<rparr>"

theorem parsed_follow_up_is_step_witness:
  "\<exists>inp. lead_step w_host w0 (snd (createLeadFollowUp w_host (w_create_follow_up inp) w0)) \<and> cfi_dueAt inp \<noteq> []"
proof -
  obtain inp where inp: "parseCreateFollowUpInput w_runtime w_follow_up_body = Inr inp"
    using parses_Inr[OF w_follow_up_parses] by blast
  have "cfo_input (w_create_follow_up inp) = inp" by (simp add: w_create_follow_up_def)
  from parsed_follow_up_is_step[OF inp this, of w_host w0] show ?thesis by blast
qed

theorem parsed_call_ordered_witness:
  "\<exists>c. parseSimulatedCall w_runtime w_call_body = Inr c \<and> sc_durationSeconds c \<le> 604800"
proof -
  obtain c where c: "parseSimulatedCall w_runtime w_call_body = Inr c" using parses_Inr[OF w_call_parses] by blast
  then show ?thesis using parsed_call_ordered[OF c] by blast
qed

section \<open>Masked calls\<close>

definition w_analyst :: actor_context where
  "w_analyst = \<lparr>actor_user = w_user,
     actor_organization = w_org\<lparr>org_settings := (org_settings w_org)\<lparr>set_maskPhoneNumbersForRestrictedUsers := True\<rparr>\<rparr>,
     actor_roles = [], actor_permissions = [], actor_roleKey = RoleAnalyst, actor_leadScope = ScopeOrganization\<rparr>"

definition w_seen :: "string \<Rightarrow> call_log" where
  "w_seen n = simulated_log w_call ''c'' \<lparr>call_participant := (call_participant (simulated_log w_call ''c''))\<lparr>part_phoneNumber := n\<rparr>\<rparr>"

theorem masked_calls_reveal_last_four_witness:
  "presentCalls w_analyst [w_seen ''+15550001111''] = presentCalls w_analyst [w_seen ''+99991111'']"
proof -
  have "alike (w_seen ''+15550001111'') (w_seen ''+99991111'')"
    by (auto simp: alike_def w_seen_def last_four_def is_digit_def intro!: exI[of _ "''+99991111''"])
  then have "list_all2 alike [w_seen ''+15550001111''] [w_seen ''+99991111'']" by simp
  moreover have "sees_masked w_analyst" by (simp add: sees_masked_def w_analyst_def)
  ultimately show ?thesis using masked_calls_reveal_last_four by blast
qed

section \<open>An import\<close>

definition w_store :: import_state where
  "w_store = rule_state.extend w_book (import_state.fields [] [] [] [] [] [] [])"

lemmas w_store_simps = w_store_def w_book_simps import_state.defs

lemma w_store_fields:
  "employees w_store = [(''e'', w_employee)]" "leadStatuses w_store = [(''n'', w_status)]"
  "leads w_store = [(''l'', w_lead), (''m'', w_spare)]" "leadTeams w_store = [(''l'', ''s''), (''m'', ''s'')]"
  "leadFollowUps w_store = [(''f'', w_follow_up)]" "leadActivities w_store = []" "leadNotes w_store = []" "ids w_store = 0"
  "leadImports w_store = []" "leadImportIdByRequest w_store = []" "leadImportCommitRequests w_store = []"
  by (simp_all add: w_store_simps empty_repository_def)

lemma w_store_inv: "lead_inv w_host w_store"
  by (simp add: lead_inv_def lead_ok_def follow_up_ok_def keyed_def map_wf_def ids_fresh_def w_store_fields w_rows w_spare_def
      sequential_id_def w_lead_reads map_values_def)

lemma w_store_imports: "import_inv w_store"
  by (simp add: import_inv_def ids_fresh_def w_store_fields)

definition w_import_row :: "string \<Rightarrow> lead_import_row" where
  "w_import_row n = \<lparr>lir_firstName = ''A'', lir_lastName = None, lir_companyName = None, lir_phoneNumber = n,
     lir_alternatePhoneNumber = None, lir_email = None, lir_source = None, lir_statusName = None,
     lir_assignedEmployeeCode = None, lir_tagNames = None, lir_customFields = None\<rparr>"

definition w_import_access :: import_access where
  "w_import_access = \<lparr>ia_organizationId = ''o'', ia_scope = ScopeOrganization, ia_actorUserId = ''u''\<rparr>"

definition w_preview :: preview_options where
  "w_preview = import_access.extend w_import_access (preview_options.fields ''q'' ''f''
     [w_import_row ''+15550001111'', w_import_row ''+15550001111'', w_import_row ''x''] ''x'' ''4'')"

definition w_commit :: commit_options where
  "w_commit = import_access.extend w_import_access (commit_options.fields (sequential_id ''lead_import'' 1) ''c'' ''x'' ''5'')"

lemmas w_import_simps = w_preview_def w_commit_def w_import_access_def import_access.defs preview_options.defs commit_options.defs

text \<open>The state after the preview; the first row is valid, the second duplicates it, the third is invalid.\<close>

definition w_staged :: import_state where
  "w_staged = snd (previewLeadImport w_host w_preview w_store)"

lemma w_fresh: "\<not> truthy (map_get (leadImportIdByRequest w_store) (key2 (ia_organizationId w_preview) (pio_requestId w_preview)))"
  by (simp add: w_store_fields)

lemma w_staged_inv: "lead_inv w_host w_staged" "import_inv w_staged"
  using preview_kept[OF w_store_inv w_store_imports, of w_preview] by (simp_all add: w_staged_def)

lemma w_preview_rows: "length (pio_rows w_preview) = 3"
  by (simp add: w_import_simps)

lemma w_staged_job: "\<exists>p. map_get (leadImports w_staged) (cio_jobId w_commit) = Some p \<and> canAccessImport w_commit p w_staged
    \<and> length (ip_rows p) = 3 \<and> map_get (leadImportCommitRequests w_staged) (commit_key w_commit) = None"
proof -
  define rows where "rows = pv_rows (preview_rows w_host (import_access.truncate w_preview) (pio_at w_preview) w_store (pio_rows w_preview))"
  define p where "p = \<lparr>ip_job = new_import_job w_preview rows (cio_jobId w_commit), ip_rows = rows, ip_replayed = False\<rparr>"
  have i: "sequential_id ''lead_import'' (Suc (ids w_store)) = cio_jobId w_commit"
    by (simp add: w_store_fields w_import_simps)
  have "leadImports w_staged = map_set (cio_jobId w_commit) p (leadImports w_store)"
    using previewLeadImport_new[OF w_fresh, of w_host] unfolding rows_def p_def w_staged_def i[symmetric] by auto
  then have "map_get (leadImports w_staged) (cio_jobId w_commit) = Some p" by (simp add: store_simps)
  moreover have "length rows = 3"
    using arg_cong[OF preview_rows_shape(2)[of w_host "import_access.truncate w_preview" "pio_at w_preview" w_store "pio_rows w_preview"], of length]
    by (simp add: rows_def w_preview_rows)
  moreover have "leadImportCommitRequests w_staged = []"
    using w_fresh by (simp add: w_staged_def previewLeadImport_def Let_def next_id_eq w_store_fields)
  moreover have "canAccessImport w_commit p w_staged"
    by (simp add: canAccessImport_def p_def new_import_job_def w_import_simps)
  ultimately show ?thesis by (simp add: p_def)
qed

theorem preview_free_of_duplicates_witness:
  "\<exists>p r'. previewLeadImport w_host w_preview w_store = (Inr p, r') \<and> map ir_input (ip_rows p) = pio_rows w_preview"
proof -
  obtain p r' where run: "previewLeadImport w_host w_preview w_store = (Inr p, r')"
    using previewLeadImport_new[OF w_fresh, of w_host] by auto
  from preview_free_of_duplicates[OF w_fresh run] run show ?thesis by blast
qed



theorem import_commit_retry_witness:
  "\<exists>v (r' :: import_state). commitLeadImport w_host w_commit r' = (Inr (Some (v\<lparr>im_replayed := True\<rparr>)), r')"
proof -
  obtain p where p: "map_get (leadImports w_staged) (cio_jobId w_commit) = Some p" "canAccessImport w_commit p w_staged"
    "map_get (leadImportCommitRequests w_staged) (commit_key w_commit) = None" using w_staged_job by blast
  obtain v r' where run: "commitLeadImport w_host w_commit w_staged = (Inr (Some v), r')"
    using commit_effect[OF w_staged_inv p] by blast
  from import_commit_retry[OF w_staged_inv run, of 2] show ?thesis by blast
qed

end
