(* ===== verification/Security.thy ===== *)
theory Security
  imports Guards Workforce
begin

text \<open>
  \<open>security.ts\<close>: signed access tokens and cursors, the messages that are hashed, and the limiter
  of pairing attempts. The primitives of the platform are parameters.
\<close>

section \<open>Primitives\<close>

text \<open>
  HMAC-SHA-256 in base64url and in hexadecimal (secret, message), \<open>Buffer\<close>'s base64url of a UTF-8
  text and its inverse, \<open>JSON.parse\<close> (\<open>None\<close> when it throws), how a number prints,
  \<open>toUpperCase\<close>, \<open>toISOString\<close> and SHA-256 in hexadecimal.
\<close>

record primitives =
  pr_sign :: "string \<Rightarrow> string \<Rightarrow> string"
  pr_hmac :: "string \<Rightarrow> string \<Rightarrow> string"
  pr_encode :: "string \<Rightarrow> string"
  pr_decode :: "string \<Rightarrow> string"
  pr_parse :: "string \<Rightarrow> json option"
  pr_number :: "rat \<Rightarrow> string"
  pr_upper :: "string \<Rightarrow> string"
  pr_iso :: "int \<Rightarrow> string"
  pr_sha256 :: "string \<Rightarrow> string"

definition sign :: "primitives \<Rightarrow> string \<Rightarrow> string \<Rightarrow> string" where
  "sign pr v secret = pr_sign pr secret v"

definition signaturesMatch :: "string \<Rightarrow> string \<Rightarrow> bool" where
  "signaturesMatch l r = (length l = length r \<and> list_all2 (=) l r)"

text \<open>\<open>text.split(".")\<close>\<close>

fun split_dots :: "string \<Rightarrow> string list" where
  "split_dots [] = [[]]"
| "split_dots (c # cs) = (if c = CHR ''.'' then [] # split_dots cs
     else (case split_dots cs of [] \<Rightarrow> [[c]] | p # ps \<Rightarrow> (c # p) # ps))"

text \<open>What tokens and cursors share: a JSON text in base64url, a dot, and its signature.\<close>

definition seal :: "primitives \<Rightarrow> string \<Rightarrow> json \<Rightarrow> string" where
  "seal pr secret v = (let encoded = pr_encode pr (stringify (pr_number pr) v) in encoded @ ''.'' @ sign pr encoded secret)"

definition unseal :: "primitives \<Rightarrow> string \<Rightarrow> (string \<Rightarrow> thrown) \<Rightarrow> string \<Rightarrow> string \<Rightarrow> thrown + json" where
  "unseal pr secret refuse what text =
     (case split_dots text of
        [payload, signature] \<Rightarrow>
          if payload = [] \<or> signature = [] then Inl (refuse (''The '' @ what @ '' is malformed''))
          else if \<not> signaturesMatch signature (sign pr payload secret) then Inl (refuse (''The '' @ what @ '' signature is invalid''))
          else (case pr_parse pr (pr_decode pr payload) of
              None \<Rightarrow> Inl (refuse (''The '' @ what @ '' payload is invalid''))
            | Some v \<Rightarrow> Inr v)
      | _ \<Rightarrow> Inl (refuse (''The '' @ what @ '' is malformed'')))"

section \<open>Access tokens\<close>

record token_service =
  ts_secret :: string
  ts_ttlSeconds :: int

definition now_seconds :: "int \<Rightarrow> int" where
  "now_seconds ms = ms div 1000"

definition token_payload :: "string \<Rightarrow> string \<Rightarrow> int \<Rightarrow> int \<Rightarrow> json" where
  "token_payload subject orgId issued expires = JObject [(''version'', JNum 1), (''subject'', JString subject),
     (''organizationId'', JString orgId), (''issuedAt'', JNum (of_int issued)), (''expiresAt'', JNum (of_int expires))]"

definition issue_token :: "primitives \<Rightarrow> token_service \<Rightarrow> int \<Rightarrow> string \<Rightarrow> string \<Rightarrow> string \<times> string" where
  "issue_token pr s now subject orgId =
     (let issued = now_seconds now; expires = issued + ts_ttlSeconds s
      in (seal pr (ts_secret s) (token_payload subject orgId issued expires), pr_iso pr (expires * 1000)))"

text \<open>\<open>typeof v === "number"\<close>, \<open>v <= n\<close> and \<open>v > n\<close>.\<close>

definition is_number :: "js \<Rightarrow> bool" where
  "is_number v = (case v of Some (JNum _) \<Rightarrow> True | Some (JInfinite _) \<Rightarrow> True | _ \<Rightarrow> False)"

definition number_le :: "js \<Rightarrow> int \<Rightarrow> bool" where
  "number_le v n = (case v of Some (JNum q) \<Rightarrow> q \<le> of_int n | Some (JInfinite positive) \<Rightarrow> \<not> positive | _ \<Rightarrow> False)"

definition number_gt :: "js \<Rightarrow> int \<Rightarrow> bool" where
  "number_gt v n = (case v of Some (JNum q) \<Rightarrow> of_int n < q | Some (JInfinite positive) \<Rightarrow> positive | _ \<Rightarrow> False)"

definition token_shape :: "json_record \<Rightarrow> bool" where
  "token_shape c = (field c ''version'' = Some (JNum 1) \<and> isNonEmptyString (field c ''subject'')
     \<and> isNonEmptyString (field c ''organizationId'') \<and> is_number (field c ''issuedAt'') \<and> is_number (field c ''expiresAt''))"

definition verify_token :: "primitives \<Rightarrow> token_service \<Rightarrow> int \<Rightarrow> string \<Rightarrow> thrown + json_record" where
  "verify_token pr s now token =
     (case unseal pr (ts_secret s) unauthenticated ''bearer token'' token of
        Inl e \<Rightarrow> Inl e
      | Inr v \<Rightarrow>
          (case as_record (Some v) of
             None \<Rightarrow> Inl (unauthenticated ''The bearer token payload is invalid'')
           | Some c \<Rightarrow>
               if \<not> token_shape c then Inl (unauthenticated ''The bearer token payload is invalid'')
               else if number_le (field c ''expiresAt'') (now_seconds now) then Inl (unauthenticated ''The bearer token has expired'')
               else if number_gt (field c ''issuedAt'') (now_seconds now + 60)
               then Inl (unauthenticated ''The bearer token was issued in the future'')
               else Inr c))"

section \<open>Cursors\<close>

definition cursor_envelope :: "string \<Rightarrow> string \<Rightarrow> json \<Rightarrow> json" where
  "cursor_envelope kind orgId v = JObject [(''version'', JNum 1), (''kind'', JString kind),
     (''organizationId'', JString orgId), (''value'', v)]"

definition encode_cursor :: "primitives \<Rightarrow> string \<Rightarrow> string \<Rightarrow> string \<Rightarrow> json \<Rightarrow> string" where
  "encode_cursor pr secret kind orgId v = seal pr secret (cursor_envelope kind orgId v)"

definition cursor_refused :: "string \<Rightarrow> thrown" where
  "cursor_refused msg = badRequest msg (Some ''cursor'')"

definition decode_cursor :: "primitives \<Rightarrow> string \<Rightarrow> string \<Rightarrow> string \<Rightarrow> string \<Rightarrow> thrown + json" where
  "decode_cursor pr secret cursor kind orgId =
     (case unseal pr secret cursor_refused ''cursor'' cursor of
        Inl e \<Rightarrow> Inl e
      | Inr v \<Rightarrow>
          (case as_record (Some v) of
             None \<Rightarrow> Inl (cursor_refused ''The cursor does not belong to this resource'')
           | Some c \<Rightarrow>
               if field c ''version'' \<noteq> Some (JNum 1) \<or> field c ''kind'' \<noteq> Some (JString kind)
                 \<or> field c ''organizationId'' \<noteq> Some (JString orgId)
               then Inl (cursor_refused ''The cursor does not belong to this resource'')
               else (case field c ''value'' of
                   None \<Rightarrow> Inl (cursor_refused ''The cursor does not belong to this resource'')
                 | Some x \<Rightarrow> Inr x)))"

section \<open>Hashed messages\<close>

datatype limiter_dimension = DimIp | DimCode | DimInstallation

definition dimension_name :: "limiter_dimension \<Rightarrow> string" where
  "dimension_name d = (case d of DimIp \<Rightarrow> ''ip'' | DimCode \<Rightarrow> ''code'' | DimInstallation \<Rightarrow> ''installation'')"

definition kind_name :: "credential_type \<Rightarrow> string" where
  "kind_name k = (case k of CredBootstrap \<Rightarrow> ''bootstrap'' | CredSession \<Rightarrow> ''session'')"

definition kind_prefix :: "credential_type \<Rightarrow> string" where
  "kind_prefix k = (case k of CredBootstrap \<Rightarrow> ''clb'' | CredSession \<Rightarrow> ''cls'')"

definition pairing_message :: "primitives \<Rightarrow> string \<Rightarrow> string" where
  "pairing_message pr code = ''pairing:'' @ pr_upper pr (js_trim code)"

definition rate_limit_message :: "limiter_dimension \<Rightarrow> string \<Rightarrow> string" where
  "rate_limit_message d v = ''pairing-rate-limit:'' @ dimension_name d @ '':'' @ v"

definition credential_message :: "credential_type \<Rightarrow> string \<Rightarrow> string" where
  "credential_message k token = ''device-credential:'' @ kind_name k @ '':'' @ token"

definition hashPairingCode :: "primitives \<Rightarrow> string \<Rightarrow> string \<Rightarrow> string" where
  "hashPairingCode pr code secret = pr_hmac pr secret (pairing_message pr code)"

definition hashPairingRateLimitDimension :: "primitives \<Rightarrow> limiter_dimension \<Rightarrow> string \<Rightarrow> string \<Rightarrow> string" where
  "hashPairingRateLimitDimension pr d v secret = pr_hmac pr secret (rate_limit_message d v)"

definition hashDeviceCredential :: "primitives \<Rightarrow> string \<Rightarrow> string \<Rightarrow> credential_type \<Rightarrow> string" where
  "hashDeviceCredential pr token secret k = pr_hmac pr secret (credential_message k token)"

record issued_credential =
  icr_token :: string
  icr_tokenHash :: string
  icr_expiresAt :: string

text \<open>\<open>random\<close> is the text of \<open>randomBytes(32).toString("base64url")\<close>; the clock is read only without \<open>issuedAt\<close>.\<close>

definition issueDeviceCredential ::
  "primitives \<Rightarrow> string \<Rightarrow> credential_type \<Rightarrow> string \<Rightarrow> int \<Rightarrow> int option \<Rightarrow> int \<Rightarrow> issued_credential" where
  "issueDeviceCredential pr random k secret ttlSeconds issuedAt now =
     (let token = kind_prefix k @ ''_'' @ random; issued = (case issuedAt of None \<Rightarrow> now | Some t \<Rightarrow> t)
      in \<lparr>icr_token = token, icr_tokenHash = hashDeviceCredential pr token secret k,
          icr_expiresAt = pr_iso pr (issued + ttlSeconds * 1000)\<rparr>)"

definition isOpaqueDeviceCredential :: "string \<Rightarrow> credential_type \<Rightarrow> bool" where
  "isOpaqueDeviceCredential token k = device_credential (kind_prefix k) token"

definition fingerprint :: "primitives \<Rightarrow> json \<Rightarrow> string" where
  "fingerprint pr v = pr_sha256 pr (stringify (pr_number pr) v)"

definition fingerprintMobileCallBatch :: "primitives \<Rightarrow> json \<Rightarrow> string \<Rightarrow> thrown + string" where
  "fingerprintMobileCallBatch pr v secret =
     (if length secret < 32 then Inl (JsError ''Mobile batch fingerprint secret must contain at least 32 characters'')
      else Inr (pr_hmac pr secret (''callora:mobile-call-batch-payload:v1'' @ [CHR 0x00] @ stringify (pr_number pr) v)))"

definition fingerprintSensitivePayload :: "primitives \<Rightarrow> json \<Rightarrow> string \<Rightarrow> string \<Rightarrow> thrown + string" where
  "fingerprintSensitivePayload pr v secret domain =
     (if length secret < 32 then Inl (JsError ''Sensitive-payload fingerprint secret must contain at least 32 characters'')
      else Inr (pr_hmac pr secret (''callora:'' @ domain @ '':v1'' @ [CHR 0x00] @ stringify (pr_number pr) v)))"

definition fingerprintLeadImport :: "primitives \<Rightarrow> json \<Rightarrow> string \<Rightarrow> thrown + string" where
  "fingerprintLeadImport pr v secret = fingerprintSensitivePayload pr v secret ''lead-import-payload''"

definition fingerprintMobileLeadUpdate :: "primitives \<Rightarrow> json \<Rightarrow> string \<Rightarrow> thrown + string" where
  "fingerprintMobileLeadUpdate pr v secret = fingerprintSensitivePayload pr v secret ''mobile-lead-update-payload''"

section \<open>The limiter of pairing attempts\<close>

record limiter =
  lim_maximumAttempts :: nat
  lim_windowSeconds :: nat
  lim_maximumTrackedKeys :: nat

type_synonym attempts = "(string, int list) jsmap"

definition valid_after :: "limiter \<Rightarrow> int \<Rightarrow> int" where
  "valid_after l now = now - int (lim_windowSeconds l) * 1000"

definition recent_attempts :: "limiter \<Rightarrow> int \<Rightarrow> int list \<Rightarrow> int list" where
  "recent_attempts l now ts = filter (\<lambda>t. valid_after l now < t) ts"

definition pruneExpired :: "limiter \<Rightarrow> int \<Rightarrow> attempts \<Rightarrow> attempts" where
  "pruneExpired l now fs = filter (\<lambda>e. snd e \<noteq> []) (map (\<lambda>(k, ts). (k, recent_attempts l now ts)) fs)"

definition rateLimited :: "nat \<Rightarrow> thrown" where
  "rateLimited s = ApiDomainError \<lparr>err_statusCode = 429, err_code = RATE_LIMITED,
     err_message = ''Too many pairing attempts. Try again later.'', err_details = None, err_retryAfterSeconds = Some s\<rparr>"

text \<open>\<open>Math.ceil(ms / 1_000)\<close>, at least one.\<close>

definition retry_seconds :: "limiter \<Rightarrow> int \<Rightarrow> int list \<Rightarrow> nat" where
  "retry_seconds l now ts =
     (let oldest = (case ts of [] \<Rightarrow> now | t # _ \<Rightarrow> t)
      in nat (max 1 (- ((- (oldest + int (lim_windowSeconds l) * 1000 - now)) div 1000))))"

definition attempts_of :: "attempts \<Rightarrow> string \<Rightarrow> int list" where
  "attempts_of fs key = (case map_get fs key of None \<Rightarrow> [] | Some ts \<Rightarrow> ts)"

text \<open>The clock is read twice, when entries are pruned and when the attempt is judged.\<close>

definition consumeAttempt :: "limiter \<Rightarrow> int \<Rightarrow> int \<Rightarrow> string \<Rightarrow> attempts \<Rightarrow> (attempts, unit) outcome" where
  "consumeAttempt l pruned now key fs0 =
     (let fs = pruneExpired l pruned fs0; recent = recent_attempts l now (attempts_of fs key)
      in if lim_maximumAttempts l \<le> length recent then (Inl (rateLimited (retry_seconds l now recent)), fs)
         else if \<not> map_has fs key \<and> lim_maximumTrackedKeys l \<le> length fs then (Inl (rateLimited (lim_windowSeconds l)), fs)
         else (Inr (), map_set key (recent @ [now]) fs))"

definition getRetryAfterSeconds :: "limiter \<Rightarrow> int \<Rightarrow> string \<Rightarrow> attempts \<Rightarrow> nat option" where
  "getRetryAfterSeconds l now key fs =
     (if length (attempts_of fs key) < lim_maximumAttempts l then None else Some (retry_seconds l now (attempts_of fs key)))"

definition reset_attempts :: "string \<Rightarrow> attempts \<Rightarrow> attempts" where
  "reset_attempts key fs = map_delete key fs"

definition trackedKeyCount :: "limiter \<Rightarrow> int \<Rightarrow> attempts \<Rightarrow> nat \<times> attempts" where
  "trackedKeyCount l now fs = (let fs' = pruneExpired l now fs in (length fs', fs'))"

end
