(* ===== verification/Doubles.thy ===== *)
theory Doubles
  imports Calls "HOL-Library.Log_Nat"
begin

text \<open>
  The numbers of the reports: binary64 arithmetic on rationals (53 bits, ties to even; the values here
  are far from overflow and from the subnormal range), \<open>Math.round\<close>, the percentages and averages of
  \<open>analytics.ts\<close> and \<open>repository.ts\<close>, and the insertion-ordered \<open>Set\<close> they count with.
\<close>

section \<open>Rounding to a double\<close>

definition round_even :: "rat \<Rightarrow> int" where
  "round_even x = (let f = \<lfloor>x\<rfloor>; d = x - of_int f in if d < 1 / 2 \<or> (d = 1 / 2 \<and> even f) then f else f + 1)"

lemma round_even_bounds: "\<lfloor>x\<rfloor> \<le> round_even x" "round_even x \<le> \<lfloor>x\<rfloor> + 1"
  by (simp_all add: round_even_def Let_def)

lemma round_even_mono: "x \<le> y \<Longrightarrow> round_even x \<le> round_even y"
proof (cases "\<lfloor>x\<rfloor> = \<lfloor>y\<rfloor>")
  case True
  assume "x \<le> y"
  then show ?thesis using True by (auto simp: round_even_def Let_def)
next
  case False
  assume "x \<le> y"
  then have "\<lfloor>x\<rfloor> + 1 \<le> \<lfloor>y\<rfloor>" using False floor_mono[of x y] by linarith
  then show ?thesis using round_even_bounds[of x] round_even_bounds[of y] by linarith
qed

lemma round_even_int [simp]: "round_even (of_int k) = k"
  by (simp add: round_even_def Let_def)

text \<open>The exponent of a positive number: from the bits of its numerator and denominator, give or take one.\<close>

definition binade :: "rat \<Rightarrow> int" where
  "binade x = (let (n, d) = quotient_of x; m = bitlen n - bitlen d in if 2 powi m \<le> x then m else m - 1)"

lemma bitlen_rat:
  assumes "0 < n" shows "2 powi (bitlen n - 1) \<le> (of_int n :: rat)" "(of_int n :: rat) < 2 powi bitlen n" "0 < bitlen n"
proof -
  note b = bitlen_bounds[OF assms]
  show p: "0 < bitlen n" using assms by (simp add: bitlen_eq_zero_iff bitlen_nonneg order_less_le)
  have "(of_int (2 ^ nat (bitlen n - 1)) :: rat) \<le> of_int n" "(of_int n :: rat) < of_int (2 ^ nat (bitlen n))"
    using b unfolding of_int_le_iff of_int_less_iff by simp_all
  then show "2 powi (bitlen n - 1) \<le> (of_int n :: rat)" "(of_int n :: rat) < 2 powi bitlen n"
    using p by (simp_all add: power_int_def)
qed

lemma binade_bounds:
  assumes "0 < x" shows "2 powi binade x \<le> x" "x < 2 powi (binade x + 1)"
proof -
  obtain n d where q: "quotient_of x = (n, d)" by (cases "quotient_of x") auto
  have d: "0 < d" and x: "x = of_int n / of_int d" using quotient_of_denom_pos[OF q] quotient_of_div[OF q] by auto
  have n: "0 < n" using assms d unfolding x by (simp add: zero_less_divide_iff)
  let ?m = "bitlen n - bitlen d"
  have "x < 2 powi bitlen n / 2 powi (bitlen d - 1)"
    unfolding x using bitlen_rat[OF n] bitlen_rat[OF d] n d by (intro frac_less) auto
  then have hi: "x < 2 powi (?m + 1)" by (simp add: power_int_diff power_int_add field_simps)
  have "2 powi (bitlen n - 1) / 2 powi bitlen d \<le> x"
    unfolding x using bitlen_rat[OF n] bitlen_rat[OF d] n d by (intro frac_le) auto
  then have lo: "2 powi (?m - 1) \<le> x" by (simp add: power_int_diff power_int_add field_simps)
  show "2 powi binade x \<le> x" "x < 2 powi (binade x + 1)" using hi lo by (auto simp: binade_def q Let_def)
qed

definition fl :: "rat \<Rightarrow> rat" where
  "fl x = (if x = 0 then 0 else
     let m = binade \<bar>x\<bar> in sgn x * of_int (round_even (\<bar>x\<bar> * 2 powi (52 - m))) * 2 powi (m - 52))"

lemma fl_zero [simp]: "fl 0 = 0"
  by (simp add: fl_def)

lemma fl_pos: "0 < x \<Longrightarrow> fl x = of_int (round_even (x * 2 powi (52 - binade x))) * 2 powi (binade x - 52)"
  by (simp add: fl_def Let_def)

lemma powi_split: "2 powi m = (2 :: rat) ^ 52 * 2 powi (m - 52)" "2 powi (m + 1) = (2 :: rat) ^ 53 * 2 powi (m - 52)"
  by (simp_all add: power_int_diff power_int_add)

text \<open>A rounded number stays in its binade, or reaches the next power of two.\<close>

lemma fl_binade:
  assumes "0 < x" shows "2 powi binade x \<le> fl x" "fl x \<le> 2 powi (binade x + 1)"
proof -
  let ?m = "binade x"
  have one: "2 powi ?m * 2 powi (52 - ?m) = (2 :: rat) ^ 52" "2 powi (?m + 1) * 2 powi (52 - ?m) = (2 :: rat) ^ 53"
    by (simp_all flip: power_int_add)
  have "2 ^ 52 \<le> x * 2 powi (52 - ?m)" "x * 2 powi (52 - ?m) \<le> 2 ^ 53"
    using mult_right_mono[OF binade_bounds(1)[OF assms], of "2 powi (52 - ?m)"]
      mult_right_mono[OF less_imp_le[OF binade_bounds(2)[OF assms]], of "2 powi (52 - ?m)"] unfolding one by simp_all
  then have "round_even (of_int (2 ^ 52)) \<le> round_even (x * 2 powi (52 - ?m))"
    "round_even (x * 2 powi (52 - ?m)) \<le> round_even (of_int (2 ^ 53))" by (intro round_even_mono; simp)+
  then have "(2 ^ 52 :: int) \<le> round_even (x * 2 powi (52 - ?m))" "round_even (x * 2 powi (52 - ?m)) \<le> (2 ^ 53 :: int)"
    unfolding round_even_int .
  then have "(of_int (2 ^ 52) :: rat) \<le> of_int (round_even (x * 2 powi (52 - ?m)))"
    "(of_int (round_even (x * 2 powi (52 - ?m))) :: rat) \<le> of_int (2 ^ 53)" unfolding of_int_le_iff .
  then show "2 powi ?m \<le> fl x" "fl x \<le> 2 powi (?m + 1)"
    unfolding fl_pos[OF assms] powi_split[of ?m] by (intro mult_right_mono; simp)+
qed

lemma fl_nonneg: "0 \<le> x \<Longrightarrow> 0 \<le> fl x"
  using fl_binade(1)[of x] zero_le_power_int[of "2 :: rat" "binade x"] by (cases "x = 0") (simp, linarith)

lemma binade_mono: "0 < x \<Longrightarrow> x \<le> y \<Longrightarrow> binade x \<le> binade y"
proof (rule ccontr)
  assume x: "0 < x" "x \<le> y" "\<not> binade x \<le> binade y"
  then have "(2 :: rat) powi (binade y + 1) \<le> 2 powi binade x" by (intro power_int_increasing) auto
  then show False using binade_bounds(2)[of y] binade_bounds(1)[of x] x by linarith
qed

lemma fl_mono: "0 \<le> x \<Longrightarrow> x \<le> y \<Longrightarrow> fl x \<le> fl y"
proof (cases "0 < x")
  case True
  assume le: "x \<le> y"
  then have y: "0 < y" using True by simp
  show ?thesis
  proof (cases "binade x = binade y")
    case same: True
    have "round_even (x * 2 powi (52 - binade y)) \<le> round_even (y * 2 powi (52 - binade y))"
      using le by (intro round_even_mono mult_right_mono) simp_all
    then show ?thesis unfolding fl_pos[OF True] fl_pos[OF y] same by (intro mult_right_mono) simp_all
  next
    case False
    then have "(2 :: rat) powi (binade x + 1) \<le> 2 powi binade y"
      using binade_mono[OF True le] by (intro power_int_increasing) auto
    then show ?thesis using fl_binade(2)[OF True] fl_binade(1)[OF y] by linarith
  qed
qed (use fl_nonneg in auto)

text \<open>Integers up to \<open>Number.MAX_SAFE_INTEGER\<close> are doubles.\<close>

lemma fl_int:
  assumes "0 \<le> k" "k < 2 ^ 53" shows "fl (of_int k) = of_int k"
proof (cases "k = 0")
  case False
  then have k: "0 < (of_int k :: rat)" using assms by simp
  let ?m = "binade (of_int k)"
  have "(2 :: rat) powi ?m < 2 powi 53"
  proof -
    have "(of_int k :: rat) < of_int (2 ^ 53)" using assms(2) unfolding of_int_less_iff .
    then show ?thesis using binade_bounds(1)[OF k] by simp
  qed
  then have "?m < 53" by (metis linorder_not_less one_le_numeral power_int_increasing)
  then have "(of_int k * 2 powi (52 - ?m) :: rat) = of_int (k * 2 ^ nat (52 - ?m))" by (simp add: power_int_def)
  then have "fl (of_int k) = of_int k * (2 powi (52 - ?m) * 2 powi (?m - 52))"
    unfolding fl_pos[OF k] \<open>of_int k * 2 powi (52 - ?m) = of_int (k * 2 ^ nat (52 - ?m))\<close> round_even_int
    using \<open>of_int k * 2 powi (52 - ?m) = of_int (k * 2 ^ nat (52 - ?m))\<close>[symmetric] by (simp only: mult.assoc)
  then show ?thesis by (simp flip: power_int_add)
qed simp

section \<open>Rates and averages\<close>

text \<open>\<open>Math.round\<close>: the nearest integer, ties upwards.\<close>

definition js_round :: "rat \<Rightarrow> int" where
  "js_round x = \<lfloor>x + 1 / 2\<rfloor>"

lemma js_round_mono: "x \<le> y \<Longrightarrow> js_round x \<le> js_round y"
  by (simp add: js_round_def floor_mono)

lemma js_round_int [simp]: "js_round (of_int k) = k"
  by (simp add: js_round_def floor_eq_iff)

text \<open>Hundredths of a percent, then percent.\<close>

definition hundredths :: "rat \<Rightarrow> rat" where
  "hundredths x = fl (of_int (js_round x) / 100)"

lemma hundredths_range: "0 \<le> x \<Longrightarrow> x \<le> 10000 \<Longrightarrow> 0 \<le> hundredths x \<and> hundredths x \<le> 100"
proof -
  assume x: "0 \<le> x" "x \<le> 10000"
  have "js_round (of_int 0) \<le> js_round x" "js_round x \<le> js_round (of_int 10000)"
    using x by (intro js_round_mono; simp)+
  then have r: "0 \<le> js_round x" "js_round x \<le> 10000" unfolding js_round_int .
  then have "(of_int (js_round x) :: rat) / 100 \<le> of_int 100" by simp
  then have "fl (of_int (js_round x) / 100) \<le> fl (of_int 100)" using r by (intro fl_mono) simp_all
  moreover have "0 \<le> fl (of_int (js_round x) / 100)" using r by (intro fl_nonneg) simp
  ultimately show ?thesis using fl_int[of 100] by (simp add: hundredths_def)
qed

text \<open>\<open>Math.round(sum / count)\<close>, for a count that is not zero.\<close>

definition average :: "int \<Rightarrow> nat \<Rightarrow> int" where
  "average s n = js_round (fl (of_int s / of_nat n))"

lemma average_bounds:
  assumes "0 < n" "lo * int n \<le> s" "s \<le> hi * int n" "0 \<le> lo" "hi < 2 ^ 53"
  shows "lo \<le> average s n" "average s n \<le> hi"
proof -
  have n: "(0 :: rat) < of_nat n" using assms(1) by simp
  have lohi: "lo \<le> hi" using assms(1,2,3) by (meson mult_le_cancel_right of_nat_0_less_iff order_trans order.asym)
  have "(of_int (lo * int n) :: rat) \<le> of_int s" "(of_int s :: rat) \<le> of_int (hi * int n)"
    using assms(2,3) unfolding of_int_le_iff by simp_all
  then have q: "of_int lo \<le> (of_int s / of_nat n :: rat)" "(of_int s / of_nat n :: rat) \<le> of_int hi"
    using n by (simp_all add: field_simps)
  have "fl (of_int lo) \<le> fl (of_int s / of_nat n)" "fl (of_int s / of_nat n) \<le> fl (of_int hi)"
    using q assms(4) by (intro fl_mono; simp add: order_trans[OF _ q(1)])+
  then have "of_int lo \<le> fl (of_int s / of_nat n)" "fl (of_int s / of_nat n) \<le> of_int hi"
    using fl_int[of lo] fl_int[of hi] assms(4,5) lohi by simp_all
  then have "js_round (of_int lo) \<le> average s n" "average s n \<le> js_round (of_int hi)"
    unfolding average_def by (intro js_round_mono; simp)+
  then show "lo \<le> average s n" "average s n \<le> hi" unfolding js_round_int .
qed

section \<open>Counting\<close>

lemma length_js_set: "length (js_set xs) = card (set xs)"
  by (simp add: js_set_def length_remdups_card_conv)

text \<open>Counting by classes: every element is in exactly one of the distinct classes that cover them.\<close>

lemma sum_list_by_class:
  assumes "distinct ks" "\<forall>x \<in> set xs. f x \<in> set ks"
  shows "sum_list (map (\<lambda>k. length (filter (\<lambda>x. f x = k \<and> P x) xs)) ks) = length (filter P xs)"
  using assms(2)
proof (induction xs)
  case (Cons x xs)
  have "sum_list (map (\<lambda>k. if f x = k \<and> P x then 1 else 0) ks) = (if P x then 1 else (0 :: nat))"
    using assms(1) Cons.prems[THEN bspec, of x] by (induction ks) (auto simp: sum_list_0)
  moreover have "sum_list (map (\<lambda>k. length (filter (\<lambda>y. f y = k \<and> P y) (x # xs))) ks)
      = sum_list (map (\<lambda>k. if f x = k \<and> P x then 1 else 0) ks) + sum_list (map (\<lambda>k. length (filter (\<lambda>y. f y = k \<and> P y) xs)) ks)"
    unfolding sum_list_addf[symmetric] by (rule arg_cong[where f = sum_list]) auto
  ultimately show ?case using Cons by simp
qed simp

end
