(* ===== verification/Calendar.thy ===== *)
theory Calendar
  imports Contracts
begin

text \<open>
  The calendar of ECMAScript's \<open>Date\<close> (days numbered from 1 January 1970) and the civil time of a
  time zone, as the report and dashboard code use them. A time zone is a parameter: its offset
  from UTC, in milliseconds, at an instant.
\<close>

section \<open>Days, months and years\<close>

definition leap :: "int \<Rightarrow> bool" where
  "leap y = (y mod 4 = 0 \<and> (y mod 100 \<noteq> 0 \<or> y mod 400 = 0))"

definition days_in_year :: "int \<Rightarrow> int" where
  "days_in_year y = (if leap y then 366 else 365)"

definition day_from_year :: "int \<Rightarrow> int" where
  "day_from_year y = 365 * (y - 1970) + (y - 1969) div 4 - (y - 1901) div 100 + (y - 1601) div 400"

lemma div_step: "(x + 1) div k = x div k + (if (x + 1) mod k = 0 then 1 else 0)" if "0 < k" for x k :: int
proof (cases "(x + 1) mod k = 0")
  case True
  then obtain q where q: "x + 1 = k * q" by fastforce
  have "x = k * (q - 1) + (k - 1)" using q by (simp add: algebra_simps)
  then have "x div k = q - 1"
    by (metis add_diff_cancel_left' diff_less div_mult_self2 div_pos_pos_trivial less_numeral_extra(1) order_less_imp_not_eq
        that zle_diff1_eq add.commute diff_ge_0_iff_ge int_one_le_iff_zero_less add_0)
  moreover have "(x + 1) div k = q" using q that by simp
  ultimately show ?thesis using True by simp
next
  case False
  have "x + 1 = k * ((x + 1) div k) + (x + 1) mod k" by simp
  moreover have "1 \<le> (x + 1) mod k" "(x + 1) mod k < k" using False that pos_mod_bound[of k "x + 1"] pos_mod_sign[of k "x + 1"] by linarith+
  ultimately have "x = k * ((x + 1) div k) + ((x + 1) mod k - 1)" "0 \<le> (x + 1) mod k - 1" "(x + 1) mod k - 1 < k" by linarith+
  then have "x div k = (x + 1) div k" using int_div_pos_eq[of x k "(x + 1) div k" "(x + 1) mod k - 1"] by simp
  then show ?thesis using False by simp
qed

lemma year_divs:
  "(y + 1 - 1969) div 4 = (y - 1969) div 4 + (if y mod 4 = 0 then 1 else 0)"
  "(y + 1 - 1901) div 100 = (y - 1901) div 100 + (if y mod 100 = 0 then 1 else 0)"
  "(y + 1 - 1601) div 400 = (y - 1601) div 400 + (if y mod 400 = 0 then 1 else 0)" for y :: int
proof -
  have shift: "(y - 1969 + 1) mod 4 = y mod 4" "(y - 1901 + 1) mod 100 = y mod 100" "(y - 1601 + 1) mod 400 = y mod 400"
    using mod_mult_self2[of y 4 "- 492"] mod_mult_self2[of y 100 "- 19"] mod_mult_self2[of y 400 "- 4"] by simp_all
  show "(y + 1 - 1969) div 4 = (y - 1969) div 4 + (if y mod 4 = 0 then 1 else 0)"
    using div_step[of 4 "y - 1969"] unfolding shift by (simp add: algebra_simps)
  show "(y + 1 - 1901) div 100 = (y - 1901) div 100 + (if y mod 100 = 0 then 1 else 0)"
    using div_step[of 100 "y - 1901"] unfolding shift by (simp add: algebra_simps)
  show "(y + 1 - 1601) div 400 = (y - 1601) div 400 + (if y mod 400 = 0 then 1 else 0)"
    using div_step[of 400 "y - 1601"] unfolding shift by (simp add: algebra_simps)
qed

lemma leap_count:
  "(p \<longrightarrow> q) \<Longrightarrow> (q \<longrightarrow> r) \<Longrightarrow>
   365 * (y + 1 - 1970) + (a + (if r then 1 else 0)) - (b + (if q then 1 else 0)) + (c + (if p then 1 else 0))
     = 365 * (y - 1970) + a - b + c + (if r \<and> (\<not> q \<or> p) then 366 else (365 :: int))"
  by (cases p; cases q; cases r) simp_all

lemma year_mods: "y mod 400 = 0 \<longrightarrow> y mod 100 = 0" "y mod 100 = 0 \<longrightarrow> y mod 4 = 0" for y :: int
proof -
  have d: "(100 :: int) dvd 400" "(4 :: int) dvd 100" by simp_all
  show "y mod 400 = 0 \<longrightarrow> y mod 100 = 0" "y mod 100 = 0 \<longrightarrow> y mod 4 = 0"
    using dvd_trans[OF d(1), of y] dvd_trans[OF d(2), of y] by (auto intro: dvd_imp_mod_0 mod_0_imp_dvd)
qed

lemma day_from_year_step: "day_from_year (y + 1) = day_from_year y + days_in_year y"
  unfolding day_from_year_def year_divs days_in_year_def leap_def by (rule leap_count[OF year_mods])

lemma days_in_year_pos: "365 \<le> days_in_year y" "days_in_year y \<le> 366"
  by (simp_all add: days_in_year_def)

text \<open>The year of a day: from an estimate, down while it begins too late and up while the next begins in time.\<close>

function year_down :: "int \<Rightarrow> int \<Rightarrow> int" where
  "year_down y n = (if day_from_year y \<le> n then y else year_down (y - 1) n)"
  by pat_completeness auto
termination
proof (relation "measure (\<lambda>(y, n). nat (day_from_year y - n))")
  fix y n assume "\<not> day_from_year y \<le> n"
  then show "((y - 1, n), y, n) \<in> measure (\<lambda>(y, n). nat (day_from_year y - n))"
    using day_from_year_step[of "y - 1"] days_in_year_pos(1)[of "y - 1"] by simp
qed simp

function year_up :: "int \<Rightarrow> int \<Rightarrow> int" where
  "year_up y n = (if day_from_year (y + 1) \<le> n then year_up (y + 1) n else y)"
  by pat_completeness auto
termination
proof (relation "measure (\<lambda>(y, n). nat (n - day_from_year y))")
  fix y n assume "day_from_year (y + 1) \<le> n"
  then show "((y + 1, n), y, n) \<in> measure (\<lambda>(y, n). nat (n - day_from_year y))"
    using day_from_year_step[of y] days_in_year_pos(1)[of y] by simp
qed simp

declare year_down.simps [simp del] year_up.simps [simp del]

definition year_of_day :: "int \<Rightarrow> int" where
  "year_of_day n = year_up (year_down (1970 + n div 366) n) n"

lemma year_down_le: "day_from_year (year_down y n) \<le> n"
  by (induction y n rule: year_down.induct) (subst year_down.simps, simp)

lemma year_up_bounds: "day_from_year y \<le> n \<Longrightarrow> day_from_year (year_up y n) \<le> n \<and> n < day_from_year (year_up y n + 1)"
  by (induction y n rule: year_up.induct) (subst (1 2) year_up.simps, auto)

lemma year_of_day_bounds: "day_from_year (year_of_day n) \<le> n" "n < day_from_year (year_of_day n) + days_in_year (year_of_day n)"
  using year_up_bounds[OF year_down_le] by (simp_all add: year_of_day_def day_from_year_step)

lemma day_from_year_less: "x < y \<Longrightarrow> day_from_year x + days_in_year x \<le> day_from_year y"
proof (induction "nat (y - x)" arbitrary: y)
  case (Suc k)
  have step: "day_from_year y = day_from_year (y - 1) + days_in_year (y - 1)" using day_from_year_step[of "y - 1"] by simp
  show ?case
  proof (cases "x = y - 1")
    case False
    then have "x < y - 1" "k = nat (y - 1 - x)" using Suc by simp_all
    then show ?thesis using Suc.hyps(1)[of "y - 1"] step days_in_year_pos(1)[of "y - 1"] by simp
  qed (use step in simp)
qed simp

lemma year_unique: "day_from_year y \<le> n \<Longrightarrow> n < day_from_year y + days_in_year y \<Longrightarrow> year_of_day n = y"
  using day_from_year_less[of y "year_of_day n"] day_from_year_less[of "year_of_day n" y] year_of_day_bounds[of n]
  by (cases y "year_of_day n" rule: linorder_cases) auto

text \<open>How many days of the year come before each month.\<close>

definition month_starts :: "bool \<Rightarrow> int list" where
  "month_starts l = (if l then [0, 31, 60, 91, 121, 152, 182, 213, 244, 274, 305, 335]
     else [0, 31, 59, 90, 120, 151, 181, 212, 243, 273, 304, 334])"

definition days_before :: "bool \<Rightarrow> int \<Rightarrow> int" where
  "days_before l m = month_starts l ! nat (m - 1)"

definition month_of :: "bool \<Rightarrow> int \<Rightarrow> int" where
  "month_of l k = int (length (filter (\<lambda>s. s \<le> k) (month_starts l)))"

definition month_days :: "bool \<Rightarrow> int \<Rightarrow> int" where
  "month_days l m = (if m = 2 then if l then 29 else 28 else if m \<in> {4, 6, 9, 11} then 30 else 31)"

text \<open>\<open>MakeDay\<close>: months and days beyond their range carry over.\<close>

definition make_day :: "int \<Rightarrow> int \<Rightarrow> int \<Rightarrow> int" where
  "make_day y m d = (let y' = y + (m - 1) div 12; m' = (m - 1) mod 12 + 1
     in day_from_year y' + days_before (leap y') m' + d - 1)"

record calendar_date =
  cd_year :: int
  cd_month :: int
  cd_day :: int

definition date_of_day :: "int \<Rightarrow> calendar_date" where
  "date_of_day n = (let y = year_of_day n; k = n - day_from_year y; m = month_of (leap y) k
     in \<lparr>cd_year = y, cd_month = m, cd_day = k - days_before (leap y) m + 1\<rparr>)"

definition valid_date :: "calendar_date \<Rightarrow> bool" where
  "valid_date c \<longleftrightarrow> 1 \<le> cd_month c \<and> cd_month c \<le> 12 \<and> 1 \<le> cd_day c \<and> cd_day c \<le> month_days (leap (cd_year c)) (cd_month c)"

lemma months: "1 \<le> m \<Longrightarrow> m \<le> 12 \<Longrightarrow> m \<in> {1, 2, 3, 4, 5, 6, 7, 8, 9, 10, 11, 12 :: int}"
  by simp presburger

lemma month_of_start:
  assumes "1 \<le> m" "m \<le> 12" "0 \<le> j" "j < month_days l m"
  shows "month_of l (days_before l m + j) = m" "days_before l m + j < (if l then 366 else 365)" "0 \<le> days_before l m"
proof -
  have "month_of l (days_before l m + j) = m \<and> days_before l m + j < (if l then 366 else 365) \<and> 0 \<le> days_before l m"
    using months[OF assms(1,2)] assms(3,4) unfolding insert_iff empty_iff
    by (elim disjE FalseE; cases l; simp add: month_of_def days_before_def month_starts_def month_days_def)
  then show "month_of l (days_before l m + j) = m" "days_before l m + j < (if l then 366 else 365)" "0 \<le> days_before l m"
    by auto
qed

lemma month_covers:
  assumes "0 \<le> k" "k < (if l then 366 else 365)"
  shows "\<exists>m j. 1 \<le> m \<and> m \<le> 12 \<and> 0 \<le> j \<and> j < month_days l m \<and> k = days_before l m + j"
proof -
  have "\<exists>m\<in>{1, 2, 3, 4, 5, 6, 7, 8, 9, 10, 11, 12 :: int}. days_before l m \<le> k \<and> k < days_before l m + month_days l m"
    using assms by (cases l) (simp_all add: days_before_def month_starts_def month_days_def, linarith+)
  then obtain m where "m \<in> {1, 2, 3, 4, 5, 6, 7, 8, 9, 10, 11, 12 :: int}" "days_before l m \<le> k" "k < days_before l m + month_days l m"
    by blast
  then show ?thesis by (intro exI[of _ m] exI[of _ "k - days_before l m"]) auto
qed

lemma date_of_make:
  assumes "valid_date c" shows "date_of_day (make_day (cd_year c) (cd_month c) (cd_day c)) = c"
proof -
  let ?y = "cd_year c" and ?m = "cd_month c"
  let ?n = "make_day ?y ?m (cd_day c)"
  have v: "1 \<le> ?m" "?m \<le> 12" "0 \<le> cd_day c - 1" "cd_day c - 1 < month_days (leap ?y) ?m" using assms by (auto simp: valid_date_def)
  note k = month_of_start[OF v]
  have "(?m - 1) div 12 = 0" "(?m - 1) mod 12 = ?m - 1" using v by simp_all
  then have n: "?n = day_from_year ?y + (days_before (leap ?y) ?m + (cd_day c - 1))" by (simp add: make_day_def Let_def)
  then have y: "year_of_day ?n = ?y" using k(2,3) v(3) by (intro year_unique) (simp_all add: days_in_year_def)
  then have "?n - day_from_year (year_of_day ?n) = days_before (leap ?y) ?m + (cd_day c - 1)" using n by simp
  then show ?thesis using k(1) y by (simp add: date_of_day_def Let_def)
qed

lemma make_of_date:
  "make_day (cd_year (date_of_day n)) (cd_month (date_of_day n)) (cd_day (date_of_day n)) = n" "valid_date (date_of_day n)"
proof -
  let ?y = "year_of_day n"
  let ?k = "n - day_from_year ?y"
  have "0 \<le> ?k" "?k < (if leap ?y then 366 else 365)" using year_of_day_bounds[of n] by (simp_all add: days_in_year_def)
  from month_covers[OF this] obtain m j where m: "1 \<le> m" "m \<le> 12" "0 \<le> j" "j < month_days (leap ?y) m"
    and k: "?k = days_before (leap ?y) m + j" by blast
  have "month_of (leap ?y) ?k = m" unfolding k by (rule month_of_start(1)[OF m])
  then have d: "date_of_day n = \<lparr>cd_year = ?y, cd_month = m, cd_day = j + 1\<rparr>" using k by (simp add: date_of_day_def Let_def)
  have "(m - 1) div 12 = 0" "(m - 1) mod 12 = m - 1" using m by simp_all
  then show "make_day (cd_year (date_of_day n)) (cd_month (date_of_day n)) (cd_day (date_of_day n)) = n"
    using k by (simp add: d make_day_def Let_def)
  show "valid_date (date_of_day n)" using m by (simp add: d valid_date_def)
qed

end
