(* ===== verification/Zones.thy ===== *)
theory Zones
  imports Calendar FormatFacts
begin

text \<open>
  Civil time in a time zone: \<open>repository.ts\<close> (\<open>zonedDateKey\<close>, \<open>zonedMidnightIso\<close>) and \<open>analytics.ts\<close>
  (\<open>addCalendarDays\<close>, \<open>zonedMidnight\<close>). The time-zone data base of \<open>Intl.DateTimeFormat\<close> is a parameter:
  the offset from UTC, in milliseconds, of each instant. Instants are milliseconds since 1970, within
  the range of \<open>Date\<close>.
\<close>

section \<open>Instants and clocks\<close>

type_synonym zone = "int \<Rightarrow> int"

record wall_clock = calendar_date +
  wc_hour :: int
  wc_minute :: int
  wc_second :: int

abbreviation day_ms :: int where
  "day_ms \<equiv> 86400000"

text \<open>The year as a calendar without eras prints it: 1 BC is year 1.\<close>

definition era_year :: "int \<Rightarrow> int" where
  "era_year y = (if y \<le> 0 then 1 - y else y)"

definition local_date :: "zone \<Rightarrow> int \<Rightarrow> calendar_date" where
  "local_date z x = (let d = date_of_day ((x + z x) div day_ms) in d\<lparr>cd_year := era_year (cd_year d)\<rparr>)"

definition zonedDateParts :: "zone \<Rightarrow> int \<Rightarrow> wall_clock" where
  "zonedDateParts z x = (let s = (x + z x) mod day_ms div 1000 in
     calendar_date.extend (local_date z x) \<lparr>wc_hour = s div 3600, wc_minute = s mod 3600 div 60, wc_second = s mod 60\<rparr>)"

text \<open>\<open>Date.UTC\<close>, with months counted from one: a year below 100 is one of the 1900s.\<close>

definition full_year :: "int \<Rightarrow> int" where
  "full_year y = (if 0 \<le> y \<and> y \<le> 99 then 1900 + y else y)"

definition date_utc :: "int \<Rightarrow> int \<Rightarrow> int \<Rightarrow> int \<Rightarrow> int \<Rightarrow> int \<Rightarrow> int" where
  "date_utc y m d h mi s = make_day (full_year y) m d * day_ms + h * 3600000 + mi * 60000 + s * 1000"

definition represented :: "zone \<Rightarrow> int \<Rightarrow> int" where
  "represented z x = (let p = zonedDateParts z x
     in date_utc (cd_year p) (cd_month p) (cd_day p) (wc_hour p) (wc_minute p) (wc_second p))"

definition midnight_utc :: "calendar_date \<Rightarrow> int" where
  "midnight_utc c = date_utc (cd_year c) (cd_month c) (cd_day c) 0 0 0"

definition number_text :: "nat \<Rightarrow> int \<Rightarrow> string" where
  "number_text w n = pad_start w (CHR ''0'') (decimal (nat n))"

text \<open>\<open>Date.prototype.toISOString\<close>: four digits of the year, or a sign and six.\<close>

definition iso_year :: "int \<Rightarrow> string" where
  "iso_year y = (if 0 \<le> y \<and> y \<le> 9999 then number_text 4 y
     else if 0 \<le> y then ''+'' @ number_text 6 y else ''-'' @ number_text 6 (- y))"

definition to_iso :: "int \<Rightarrow> string" where
  "to_iso x = (let c = date_of_day (x div day_ms); t = x mod day_ms in
     iso_year (cd_year c) @ ''-'' @ number_text 2 (cd_month c) @ ''-'' @ number_text 2 (cd_day c) @ ''T''
       @ number_text 2 (t div 3600000) @ '':'' @ number_text 2 (t mod 3600000 div 60000) @ '':''
       @ number_text 2 (t mod 60000 div 1000) @ ''.'' @ number_text 3 (t mod 1000) @ ''Z'')"

section \<open>The repository's functions\<close>

definition date_key :: "calendar_date \<Rightarrow> string" where
  "date_key c = number_text 4 (cd_year c) @ ''-'' @ number_text 2 (cd_month c) @ ''-'' @ number_text 2 (cd_day c)"

definition zonedDateKey :: "zone \<Rightarrow> int \<Rightarrow> string" where
  "zonedDateKey z x = date_key (local_date z x)"

fun split_on :: "char \<Rightarrow> string \<Rightarrow> string list" where
  "split_on k [] = [[]]"
| "split_on k (c # cs) = (if c = k then [] # split_on k cs
     else (case split_on k cs of [] \<Rightarrow> [[c]] | p # ps \<Rightarrow> (c # p) # ps))"

text \<open>The keys are those of \<open>zonedDateKey\<close>: three decimal numbers with a dash between them.\<close>

definition key_date :: "string \<Rightarrow> calendar_date" where
  "key_date s = (let ns = map (\<lambda>p. int (undecimal p)) (split_on (CHR ''-'') s)
     in \<lparr>cd_year = ns ! 0, cd_month = ns ! 1, cd_day = ns ! 2\<rparr>)"

fun midnight_loop :: "nat \<Rightarrow> zone \<Rightarrow> int \<Rightarrow> int \<Rightarrow> int" where
  "midnight_loop 0 z target x = x"
| "midnight_loop (Suc n) z target x = (let adjustment = target - represented z x; x' = x + adjustment
     in if adjustment = 0 then x' else midnight_loop n z target x')"

definition zonedMidnightInstant :: "zone \<Rightarrow> string \<Rightarrow> int" where
  "zonedMidnightInstant z key = (let target = midnight_utc (key_date key) in midnight_loop 4 z target target)"

definition zonedMidnightIso :: "zone \<Rightarrow> string \<Rightarrow> string" where
  "zonedMidnightIso z key = to_iso (zonedMidnightInstant z key)"

section \<open>The dashboard's functions\<close>

definition addCalendarDays :: "calendar_date \<Rightarrow> int \<Rightarrow> calendar_date" where
  "addCalendarDays c n = date_of_day (date_utc (cd_year c) (cd_month c) (cd_day c + n) 0 0 0 div day_ms)"

fun midnight_steps :: "nat \<Rightarrow> zone \<Rightarrow> int \<Rightarrow> int \<Rightarrow> int" where
  "midnight_steps 0 z desired x = x"
| "midnight_steps (Suc n) z desired x = midnight_steps n z desired (x + desired - represented z x)"

definition zonedMidnight :: "zone \<Rightarrow> calendar_date \<Rightarrow> int" where
  "zonedMidnight z c = midnight_steps 3 z (midnight_utc c) (midnight_utc c)"

section \<open>Reading a clock\<close>

lemma day_from_year_mono: "x \<le> y \<Longrightarrow> day_from_year x \<le> day_from_year y"
  using day_from_year_less[of x y] days_in_year_pos(1)[of x] by (cases "x = y") auto

lemma year_of_day_ge: "day_from_year y \<le> n \<Longrightarrow> y \<le> year_of_day n"
  using day_from_year_less[of "year_of_day n" y] year_of_day_bounds(2)[of n] by (cases "year_of_day n < y") auto

lemma cd_year_date: "cd_year (date_of_day n) = year_of_day n"
  by (simp add: date_of_day_def Let_def)

lemma clock_of_seconds: "(s div 3600) * 3600000 + (s mod 3600 div 60) * 60000 + (s mod 60) * 1000 = s * 1000" for s :: int
proof -
  have "s = 3600 * (s div 3600) + s mod 3600" "s mod 3600 = 60 * (s mod 3600 div 60) + s mod 3600 mod 60" by simp_all
  moreover have "s mod 3600 mod 60 = s mod 60" by (rule mod_mod_cancel) simp
  ultimately show ?thesis by linarith
qed

lemma parts_fields:
  "cd_year (zonedDateParts z x) = cd_year (local_date z x)" "cd_month (zonedDateParts z x) = cd_month (local_date z x)"
  "cd_day (zonedDateParts z x) = cd_day (local_date z x)"
  "wc_hour (zonedDateParts z x) = (x + z x) mod day_ms div 1000 div 3600"
  "wc_minute (zonedDateParts z x) = (x + z x) mod day_ms div 1000 mod 3600 div 60"
  "wc_second (zonedDateParts z x) = (x + z x) mod day_ms div 1000 mod 60"
  by (simp_all only: zonedDateParts_def Let_def calendar_date.defs wall_clock.simps calendar_date.simps)

lemma local_date_modern:
  assumes "day_from_year 100 \<le> (x + z x) div day_ms"
  shows "local_date z x = date_of_day ((x + z x) div day_ms)" "full_year (cd_year (local_date z x)) = cd_year (local_date z x)"
proof -
  have y: "100 \<le> cd_year (date_of_day ((x + z x) div day_ms))" using year_of_day_ge[OF assms] by (simp only: cd_year_date)
  then have "era_year (cd_year (date_of_day ((x + z x) div day_ms))) = cd_year (date_of_day ((x + z x) div day_ms))"
    by (simp only: era_year_def split: if_split) linarith
  then show d: "local_date z x = date_of_day ((x + z x) div day_ms)" by (simp only: local_date_def Let_def) simp
  show "full_year (cd_year (local_date z x)) = cd_year (local_date z x)"
    using y unfolding d by (simp only: full_year_def split: if_split) linarith
qed

lemma represented_local:
  assumes "day_from_year 100 \<le> (x + z x) div day_ms" "(x + z x) mod 1000 = 0"
  shows "represented z x = x + z x"
proof -
  let ?l = "x + z x"
  define q r where "q = ?l div day_ms" and "r = ?l mod day_ms"
  have l: "q * day_ms + r = ?l" by (simp only: q_def r_def div_mult_mod_eq)
  have "r mod 1000 = ?l mod 1000" unfolding r_def by (rule mod_mod_cancel) simp
  then have r: "r div 1000 * 1000 = r" using assms(2) div_mult_mod_eq[of r 1000] by linarith
  note m = local_date_modern[where x = x and z = z, OF assms(1)]
  have "represented z x = q * day_ms + r div 1000 * 1000"
    unfolding represented_def Let_def parts_fields date_utc_def m(2)
    unfolding m(1) q_def[symmetric] r_def[symmetric] make_of_date(1)
    using clock_of_seconds[of "r div 1000"] by linarith
  then show ?thesis unfolding r l .
qed

section \<open>Finding midnight\<close>

text \<open>
  Around a date the zone changes its offset at most once (at \<open>T\<close>, from \<open>a\<close> to \<open>b\<close>; \<open>a = b\<close> when it does
  not); offsets are whole seconds and less than a day.
\<close>

definition changes_once :: "zone \<Rightarrow> int \<Rightarrow> int \<Rightarrow> int \<Rightarrow> int \<Rightarrow> bool" where
  "changes_once z target T a b \<longleftrightarrow> \<bar>a\<bar> \<le> day_ms \<and> \<bar>b\<bar> \<le> day_ms \<and> a mod 1000 = 0 \<and> b mod 1000 = 0
     \<and> (\<forall>x. \<bar>x - target\<bar> \<le> day_ms \<longrightarrow> z x = (if x < T then a else b))"

abbreviation modern :: "calendar_date \<Rightarrow> bool" where
  "modern c \<equiv> valid_date c \<and> 100 < cd_year c"

lemma midnight_utc_modern: "modern c \<Longrightarrow> midnight_utc c = make_day (cd_year c) (cd_month c) (cd_day c) * day_ms"
  by (simp add: midnight_utc_def date_utc_def full_year_def)

lemma date_lower:
  assumes "modern c" shows "day_from_year 101 \<le> make_day (cd_year c) (cd_month c) (cd_day c)"
proof -
  have "year_of_day (make_day (cd_year c) (cd_month c) (cd_day c)) = cd_year c"
    using date_of_make[of c] assms cd_year_date by metis
  then show ?thesis
    using year_of_day_bounds(1)[of "make_day (cd_year c) (cd_month c) (cd_day c)"] day_from_year_mono[of 101 "cd_year c"] assms by simp
qed

lemma midnight_step:
  assumes "changes_once z (midnight_utc c) T a b" "modern c" "\<bar>x - midnight_utc c\<bar> \<le> day_ms" "x mod 1000 = 0"
  shows "represented z x = x + z x" "\<bar>midnight_utc c - z x - midnight_utc c\<bar> \<le> day_ms" "(midnight_utc c - z x) mod 1000 = 0"
    "z x = (if x < T then a else b)"
proof -
  let ?n = "make_day (cd_year c) (cd_month c) (cd_day c)"
  show z: "z x = (if x < T then a else b)" using assms(1,3) by (simp add: changes_once_def)
  have ab: "\<bar>a\<bar> \<le> day_ms" "\<bar>b\<bar> \<le> day_ms" "a mod 1000 = 0" "b mod 1000 = 0" using assms(1) by (auto simp: changes_once_def)
  have zx: "\<bar>z x\<bar> \<le> day_ms" "z x mod 1000 = 0" using z ab by (auto split: if_splits)
  show "\<bar>midnight_utc c - z x - midnight_utc c\<bar> \<le> day_ms" using zx(1) by linarith
  have "midnight_utc c mod 1000 = 0" unfolding midnight_utc_modern[OF assms(2)] by (simp add: mod_mult_left_eq mod_eq_0_iff_dvd)
  then show "(midnight_utc c - z x) mod 1000 = 0" using zx(2) by (simp add: mod_eq_0_iff_dvd)
  have "(?n - 2) * day_ms \<le> x + z x" using assms(3) zx(1) unfolding midnight_utc_modern[OF assms(2)] by (simp add: algebra_simps)
  then have "?n - 2 \<le> (x + z x) div day_ms" by (metis div_mult_self_is_m zdiv_mono1 nonzero_mult_div_cancel_right zero_less_numeral zero_neq_numeral)
  moreover have "day_from_year 101 - 2 \<ge> day_from_year 100" using day_from_year_step[of 100] days_in_year_pos(1)[of 100] by simp
  ultimately have "day_from_year 100 \<le> (x + z x) div day_ms" using date_lower[OF assms(2)] by linarith
  moreover have "(x + z x) mod 1000 = 0" using assms(4) zx(2) by (simp add: mod_eq_0_iff_dvd)
  ultimately show "represented z x = x + z x" by (rule represented_local)
qed

lemma midnight_loop_steps: "midnight_loop n z target x = midnight_steps n z target x"
proof (induction n arbitrary: x)
  case (Suc n)
  show ?case
  proof (cases "target = represented z x")
    case True
    then have "midnight_steps n z target x = x" for n by (induction n) simp_all
    then show ?thesis using True by (simp add: Let_def)
  qed (simp add: Let_def Suc add_diff_eq)
qed simp

text \<open>Every candidate is the target less one of the two offsets.\<close>

lemma midnight_candidates:
  assumes "changes_once z (midnight_utc c) T a b" "modern c"
  defines "target \<equiv> midnight_utc c"
  shows "\<bar>x - target\<bar> \<le> day_ms \<Longrightarrow> x mod 1000 = 0 \<Longrightarrow>
      midnight_steps (Suc n) z target x = midnight_steps n z target (if x < T then target - a else target - b)"
    "\<bar>(if p then target - a else target - b) - target\<bar> \<le> day_ms" "(if p then target - a else target - b) mod 1000 = 0"
    "target mod 1000 = 0"
proof -
  have ab: "\<bar>a\<bar> \<le> day_ms" "\<bar>b\<bar> \<le> day_ms" "a mod 1000 = 0" "b mod 1000 = 0" using assms(1) by (auto simp: changes_once_def)
  show t: "target mod 1000 = 0" unfolding target_def midnight_utc_modern[OF assms(2)] by (simp add: mod_mult_left_eq mod_eq_0_iff_dvd)
  show "\<bar>(if p then target - a else target - b) - target\<bar> \<le> day_ms" using ab by simp
  show "(if p then target - a else target - b) mod 1000 = 0" using t ab by (simp add: mod_eq_0_iff_dvd)
  assume "\<bar>x - target\<bar> \<le> day_ms" "x mod 1000 = 0"
  from midnight_step(1,4)[OF assms(1,2) this[unfolded target_def]]
  show "midnight_steps (Suc n) z target x = midnight_steps n z target (if x < T then target - a else target - b)"
    by (simp add: target_def)
qed

lemma midnight_run:
  assumes "changes_once z (midnight_utc c) T a b" "modern c"
  defines "target \<equiv> midnight_utc c"
  shows "midnight_steps (Suc n) z target (if p then target - a else target - b)
      = midnight_steps n z target (if (if p then target - a else target - b) < T then target - a else target - b)"
    "midnight_steps (Suc n) z target target = midnight_steps n z target (if target < T then target - a else target - b)"
  using midnight_candidates[OF assms(1,2), folded target_def] by (simp_all del: midnight_steps.simps)

text \<open>When the clock does show midnight, two steps find it and no later one leaves it.\<close>

lemma midnight_reached:
  assumes "changes_once z (midnight_utc c) T a b" "modern c" "\<bar>y - midnight_utc c\<bar> \<le> day_ms" "y + z y = midnight_utc c" "2 \<le> n"
  shows "midnight_steps n z (midnight_utc c) (midnight_utc c) = midnight_steps 2 z (midnight_utc c) (midnight_utc c)"
    "midnight_steps 2 z (midnight_utc c) (midnight_utc c) + z (midnight_steps 2 z (midnight_utc c) (midnight_utc c)) = midnight_utc c"
proof -
  let ?D = "midnight_utc c"
  note run = midnight_run[OF assms(1,2)]
  define x where "x = midnight_steps 2 z ?D ?D"
  define q where "q = ((if ?D < T then ?D - a else ?D - b) < T)"
  have zero: "midnight_steps 0 z ?D u = u" for u by simp
  have two: "midnight_steps (Suc (Suc m)) z ?D ?D = midnight_steps m z ?D (if q then ?D - a else ?D - b)" for m
    unfolding run q_def ..
  have x: "x = (if q then ?D - a else ?D - b)" using two[of 0] by (simp add: x_def numeral_2_eq_2)
  have "z y = (if y < T then a else b)" using assms(1,3) by (simp add: changes_once_def)
  then have fixed: "(x < T) = q" using assms(4) by (auto simp: x q_def split: if_splits)
  have step: "midnight_steps (Suc m) z ?D x = midnight_steps m z ?D (if x < T then ?D - a else ?D - b)" for m
    unfolding x by (rule run(1))
  have "midnight_steps m z ?D x = x" for m
  proof (induction m)
    case (Suc m)
    then show ?case unfolding step fixed x[symmetric] .
  qed (rule zero)
  then show "midnight_steps n z ?D ?D = midnight_steps 2 z ?D ?D"
    using assms(5) two[of "n - 2"] unfolding x_def[symmetric] x[symmetric] by (metis Suc_diff_le diff_Suc_Suc le_add_diff_inverse2 numeral_2_eq_2 add_2_eq_Suc')
  have "z x = (if x < T then a else b)"
    using midnight_step(4)[OF assms(1,2), of x] midnight_candidates(2,3)[OF assms(1,2), of q] by (simp add: x)
  then show "midnight_steps 2 z ?D ?D + z (midnight_steps 2 z ?D ?D) = ?D"
    unfolding x_def[symmetric] using fixed by (simp add: x)
qed

lemma split_on_part: "k \<notin> set p \<Longrightarrow> split_on k (p @ k # s) = p # split_on k s"
  by (induction p) auto

lemma split_on_last: "k \<notin> set p \<Longrightarrow> split_on k p = [p]"
  by (induction p) auto

lemma number_text_no_dash: "CHR ''-'' \<notin> set (number_text w n)"
  using decimal_digits[of "nat n"] by (auto simp: number_text_def pad_start_def list_all_iff is_digit_def)

lemma key_date_key: "0 \<le> cd_year c \<Longrightarrow> 0 \<le> cd_month c \<Longrightarrow> 0 \<le> cd_day c \<Longrightarrow> key_date (date_key c) = c"
  unfolding key_date_def date_key_def append_Cons append_Nil
  by (simp add: split_on_part split_on_last number_text_no_dash) (simp add: number_text_def undecimal_pad undecimal_decimal)

lemma parts_at_midnight:
  assumes "modern c" "x + z x = midnight_utc c"
  shows "zonedDateParts z x = calendar_date.extend c \<lparr>wc_hour = 0, wc_minute = 0, wc_second = 0\<rparr>" "local_date z x = c"
proof -
  let ?n = "make_day (cd_year c) (cd_month c) (cd_day c)"
  have n: "(x + z x) div day_ms = ?n" "(x + z x) mod day_ms = 0" using assms(2) unfolding midnight_utc_modern[OF assms(1)] by simp_all
  have "day_from_year 100 \<le> ?n" using date_lower[OF assms(1)] day_from_year_mono[of 100 101] by simp
  then show d: "local_date z x = c" using local_date_modern(1)[where x = x and z = z] date_of_make[of c] assms(1) unfolding n by simp
  show "zonedDateParts z x = calendar_date.extend c \<lparr>wc_hour = 0, wc_minute = 0, wc_second = 0\<rparr>"
    unfolding zonedDateParts_def Let_def d n by simp
qed

lemma searches:
  assumes "modern c"
  shows "zonedMidnightInstant z (date_key c) = midnight_steps 4 z (midnight_utc c) (midnight_utc c)"
    "zonedMidnight z c = midnight_steps 3 z (midnight_utc c) (midnight_utc c)"
  using assms by (simp_all add: zonedMidnightInstant_def zonedMidnight_def key_date_key valid_date_def midnight_loop_steps Let_def)

text \<open>C28: Where the zone's offset changes at most once around a date and the local clock does show
  midnight of that date, the search of the lead report and the search of the dashboard both end on an
  instant that shows it exactly, the same one, and the search had converged: any number of steps from
  two on gives the same answer, so the bounds of 3 and 4 attempts are enough.\<close>

theorem midnight_search_converges:
  assumes "changes_once z (midnight_utc c) T a b" "valid_date c" "100 < cd_year c"
    "\<bar>y - midnight_utc c\<bar> \<le> day_ms" "y + z y = midnight_utc c" "2 \<le> n"
  shows "zonedDateParts z (zonedMidnight z c) = calendar_date.extend c \<lparr>wc_hour = 0, wc_minute = 0, wc_second = 0\<rparr>
    \<and> zonedMidnightInstant z (date_key c) = zonedMidnight z c
    \<and> zonedMidnight z c + z (zonedMidnight z c) = midnight_utc c
    \<and> midnight_loop n z (midnight_utc c) (midnight_utc c) = zonedMidnight z c
    \<and> midnight_steps n z (midnight_utc c) (midnight_utc c) = zonedMidnight z c"
proof -
  have m: "modern c" using assms(2,3) by simp
  note reached = midnight_reached[OF assms(1) m assms(4,5)]
  have same: "zonedMidnight z c = midnight_steps 2 z (midnight_utc c) (midnight_utc c)"
    unfolding searches[OF m] by (rule reached(1)) simp
  have "midnight_steps 4 z (midnight_utc c) (midnight_utc c) = midnight_steps 2 z (midnight_utc c) (midnight_utc c)"
    by (rule reached(1)) simp
  then show ?thesis
    using reached[OF assms(6)] parts_at_midnight(1)[OF m] unfolding same searches(1)[OF m] midnight_loop_steps by auto
qed

text \<open>C26: Where summer time begins at midnight (the clock of the date starts at \<open>T\<close>, an instant that would
  have been midnight, and jumps forward by \<open>b - a\<close>), the two searches disagree: the date really begins
  at \<open>T\<close>, but east of Greenwich the dashboard answers an instant \<open>b - a\<close> earlier, still on the day before,
  and west of it the lead report does.\<close>

theorem skipped_midnight_off_by_gap:
  assumes "changes_once z (midnight_utc c) T a b" "valid_date c" "100 < cd_year c" "a < b" "T + a = midnight_utc c"
  shows "zonedMidnight z c = (if 0 \<le> a then T - (b - a) else T)
    \<and> zonedMidnightInstant z (date_key c) = (if 0 \<le> a then T else T - (b - a))"
proof -
  let ?D = "midnight_utc c"
  have m: "modern c" using assms(2,3) by simp
  note run = midnight_run[OF assms(1) m]
  have late: "\<not> ?D - a < T" and early: "?D - b < T" and side: "?D < T \<longleftrightarrow> \<not> 0 \<le> a" using assms(4,5) by linarith+
  have toggle: "midnight_steps (Suc n) z ?D (if p then ?D - a else ?D - b) = midnight_steps n z ?D (if \<not> p then ?D - a else ?D - b)" for n p
    unfolding run using late early by (cases p) simp_all
  have zero: "midnight_steps 0 z ?D u = u" for u by simp
  have "midnight_steps 3 z ?D ?D = (if ?D < T then ?D - a else ?D - b)" "midnight_steps 4 z ?D ?D = (if \<not> ?D < T then ?D - a else ?D - b)"
    unfolding eval_nat_numeral BitM.simps numeral_3_eq_3 run(2) toggle not_not zero by (rule refl)+
  then show ?thesis unfolding searches[OF m] side using assms(5) by (cases "0 \<le> a") simp_all
qed

text \<open>Moving a calendar date by days and back is moving by days: the dashboard's date arithmetic
  carries over months and years exactly as the day count does.\<close>

theorem addCalendarDays_exact:
  assumes "valid_date c" "100 \<le> cd_year c"
  shows "make_day (cd_year (addCalendarDays c n)) (cd_month (addCalendarDays c n)) (cd_day (addCalendarDays c n))
      = make_day (cd_year c) (cd_month c) (cd_day c) + n \<and> valid_date (addCalendarDays c n)"
proof -
  have "date_utc (cd_year c) (cd_month c) (cd_day c + n) 0 0 0 = (make_day (cd_year c) (cd_month c) (cd_day c) + n) * day_ms"
    using assms by (simp add: date_utc_def full_year_def make_day_def Let_def)
  then have "addCalendarDays c n = date_of_day (make_day (cd_year c) (cd_month c) (cd_day c) + n)"
    by (simp add: addCalendarDays_def)
  then show ?thesis using make_of_date by simp
qed

end
