(* ===== verification/Analytics.thy ===== *)
theory Analytics
  imports Doubles Zones
begin

text \<open>
  The dashboard, \<open>analytics.ts\<close>: the period a query asks for in the organization's time zone, the call
  key figures, the activity by hour, the outcomes, and each employee's performance, put together by
  \<open>buildDashboardOverview\<close>.
\<close>

section \<open>Data\<close>

datatype dashboard_preset = Today | Yesterday | Last7Days
datatype period_preset = PerToday | PerYesterday | PerThisWeek | PerLastWeek | PerThisMonth | PerCustom

record dashboard_query =
  dq_preset :: "dashboard_preset option"
  dq_from :: "string option"
  dq_to :: "string option"
  dq_employeeId :: "string option"

record dashboard_period =
  dp_from :: string
  dp_to :: string
  dp_summaryPreset :: "period_preset option"

record call_kpis =
  ck_totalCalls :: nat
  ck_incomingCalls :: nat
  ck_outgoingCalls :: nat
  ck_answeredCalls :: nat
  ck_missedCalls :: nat
  ck_rejectedCalls :: nat
  ck_connectedCalls :: nat
  ck_neverAttendedCalls :: nat
  ck_clientNotPickupCalls :: nat
  ck_uniqueClients :: nat
  ck_totalTalkDurationSeconds :: int
  ck_averageTalkDurationSeconds :: int
  ck_answerRate :: rat

record lead_kpis =
  lk_totalLeads :: nat
  lk_newLeads :: nat
  lk_contactedLeads :: nat
  lk_uncontactedLeads :: nat
  lk_dueFollowUps :: nat
  lk_overdueFollowUps :: nat
  lk_wonLeads :: nat
  lk_lostLeads :: nat
  lk_conversionRate :: rat

record dashboard_summary =
  ds_organizationId :: string
  ds_generatedAt :: string
  ds_from :: string
  ds_to :: string
  ds_preset :: "period_preset option"
  ds_calls :: call_kpis
  ds_leads :: lead_kpis

record dashboard_metrics =
  dm_totalCalls :: nat
  dm_totalTalkDurationSeconds :: int
  dm_connectedCalls :: nat
  dm_missedCalls :: nat
  dm_uniqueClients :: nat
  dm_workingHoursSeconds :: int

record hour_bucket =
  hb_hour :: string
  hb_label :: string
  hb_incoming :: nat
  hb_outgoing :: nat

record outcome_row =
  oc_key :: string
  oc_label :: string
  oc_color :: string
  oc_value :: nat

record attention_row =
  at_key :: string
  at_label :: string
  at_value :: nat

record performance_row =
  pf_employeeId :: string
  pf_employeeName :: string
  pf_team :: "string option"
  pf_totalCalls :: nat
  pf_connectedCalls :: nat
  pf_missedCalls :: nat
  pf_uniqueClients :: nat
  pf_talkDurationSeconds :: int
  pf_averageCallDurationSeconds :: int
  pf_answerRate :: rat
  pf_assignedLeads :: nat
  pf_contactedLeads :: nat
  pf_wonLeads :: nat
  pf_overdueFollowUps :: nat

record activity_row =
  ay_id :: string
  ay_kind :: string
  ay_title :: string
  ay_detail :: string
  ay_occurredAt :: string

record dashboard_overview =
  ov_summary :: dashboard_summary
  ov_metrics :: dashboard_metrics
  ov_hourlyActivity :: "hour_bucket list"
  ov_outcomes :: "outcome_row list"
  ov_attention :: "attention_row list"
  ov_teamPerformance :: "performance_row list"
  ov_recentActivity :: "activity_row list"

section \<open>The period\<close>

definition validTimestamp :: "host \<Rightarrow> string \<Rightarrow> bool" where
  "validTimestamp h s = (rfc3339_shape s \<and> h_parse h s \<noteq> None)"

definition custom_period :: "host \<Rightarrow> dashboard_query \<Rightarrow> thrown + dashboard_period" where
  "custom_period h q =
     (if \<not> truthy (dq_from q) \<or> \<not> truthy (dq_to q) \<or> \<not> validTimestamp h (the (dq_from q)) \<or> \<not> validTimestamp h (the (dq_to q))
      then Inl (badRequest ''Both from and to must be valid RFC 3339 timestamps'' (Some ''from''))
      else (let f = the (h_parse h (the (dq_from q))); t = the (h_parse h (the (dq_to q))) in
        if t \<le> f then Inl (badRequest ''from must be earlier than to'' (Some ''from''))
        else Inr \<lparr>dp_from = to_iso f, dp_to = to_iso t, dp_summaryPreset = Some PerCustom\<rparr>))"

definition preset_dates :: "dashboard_preset \<Rightarrow> calendar_date \<Rightarrow> calendar_date \<times> calendar_date" where
  "preset_dates p today =
     ((case p of Yesterday \<Rightarrow> addCalendarDays today (- 1) | Last7Days \<Rightarrow> addCalendarDays today (- 6) | Today \<Rightarrow> today),
      (if p = Yesterday then today else addCalendarDays today 1))"

definition preset_period :: "zone \<Rightarrow> dashboard_preset \<Rightarrow> int \<Rightarrow> int \<times> int" where
  "preset_period z p now = (let (f, t) = preset_dates p (local_date z now) in (zonedMidnight z f, zonedMidnight z t))"

definition resolveDashboardPeriod ::
  "host \<Rightarrow> (string \<Rightarrow> zone) \<Rightarrow> dashboard_query \<Rightarrow> organization \<Rightarrow> int \<Rightarrow> thrown + dashboard_period" where
  "resolveDashboardPeriod h zones q org now =
     (if dq_from q \<noteq> None \<or> dq_to q \<noteq> None then custom_period h q
      else (let p = (case dq_preset q of None \<Rightarrow> Today | Some p \<Rightarrow> p);
                (f, t) = preset_period (zones (set_timeZone (org_settings org))) p now
            in Inr \<lparr>dp_from = to_iso f, dp_to = to_iso t,
                 dp_summaryPreset = (case p of Last7Days \<Rightarrow> None | Today \<Rightarrow> Some PerToday | Yesterday \<Rightarrow> Some PerYesterday)\<rparr>))"

section \<open>Key figures\<close>

definition percentage :: "nat \<Rightarrow> nat \<Rightarrow> rat" where
  "percentage n d = (if d = 0 then 0 else hundredths (fl (fl (of_nat n / of_nat d) * 10000)))"

abbreviation with_disposition :: "call_disposition \<Rightarrow> call_log list \<Rightarrow> call_log list" where
  "with_disposition d \<equiv> filter (\<lambda>c. call_disposition c = d)"

definition talk_seconds :: "call_log list \<Rightarrow> int" where
  "talk_seconds cs = sum_list (map call_durationSeconds (with_disposition Answered cs))"

definition average_talk :: "call_log list \<Rightarrow> int" where
  "average_talk cs = (let connected = with_disposition Answered cs
     in if connected = [] then 0 else average (talk_seconds cs) (length connected))"

definition callKpis :: "call_log list \<Rightarrow> call_kpis" where
  "callKpis cs = (let connected = with_disposition Answered cs in
     \<lparr>ck_totalCalls = length cs,
      ck_incomingCalls = length (filter (\<lambda>c. call_direction c = Incoming) cs),
      ck_outgoingCalls = length (filter (\<lambda>c. call_direction c = Outgoing) cs),
      ck_answeredCalls = length connected,
      ck_missedCalls = length (with_disposition Missed cs),
      ck_rejectedCalls = length (with_disposition Rejected cs),
      ck_connectedCalls = length connected,
      ck_neverAttendedCalls = length (filter (\<lambda>c. call_direction c = Incoming \<and> call_disposition c = Missed) cs),
      ck_clientNotPickupCalls = length (filter (\<lambda>c. call_direction c = Outgoing \<and> call_disposition c \<in> {Missed, Busy, Voicemail}) cs),
      ck_uniqueClients = length (js_set (map (\<lambda>c. part_phoneNumber (call_participant c))
        (filter (\<lambda>c. \<not> part_isInternal (call_participant c)) cs))),
      ck_totalTalkDurationSeconds = talk_seconds cs,
      ck_averageTalkDurationSeconds = average_talk cs,
      ck_answerRate = percentage (length connected) (length cs)\<rparr>)"

definition empty_lead_kpis :: lead_kpis where
  "empty_lead_kpis = \<lparr>lk_totalLeads = 0, lk_newLeads = 0, lk_contactedLeads = 0, lk_uncontactedLeads = 0,
     lk_dueFollowUps = 0, lk_overdueFollowUps = 0, lk_wonLeads = 0, lk_lostLeads = 0, lk_conversionRate = 0\<rparr>"

section \<open>Activity by hour\<close>

definition hour_label :: "nat \<Rightarrow> string" where
  "hour_label k = (if k = 0 then ''12 AM'' else if k < 12 then decimal k @ '' AM''
     else if k = 12 then ''12 PM'' else decimal (k - 12) @ '' PM'')"

definition empty_buckets :: "hour_bucket list" where
  "empty_buckets = map (\<lambda>k. \<lparr>hb_hour = pad_start 2 (CHR ''0'') (decimal k), hb_label = hour_label k, hb_incoming = 0, hb_outgoing = 0\<rparr>) [0..<24]"

definition bump :: "call_direction \<Rightarrow> hour_bucket \<Rightarrow> hour_bucket" where
  "bump d b = (case d of Incoming \<Rightarrow> b\<lparr>hb_incoming := hb_incoming b + 1\<rparr> | Outgoing \<Rightarrow> b\<lparr>hb_outgoing := hb_outgoing b + 1\<rparr>)"

definition local_hour :: "zone \<Rightarrow> int \<Rightarrow> nat" where
  "local_hour z x = nat (wc_hour (zonedDateParts z x))"

fun hour_counts :: "host \<Rightarrow> zone \<Rightarrow> call_log list \<Rightarrow> hour_bucket list \<Rightarrow> thrown + hour_bucket list" where
  "hour_counts h z [] buckets = Inr buckets"
| "hour_counts h z (c # cs) buckets =
     (case h_parse h (call_startedAt c) of
        None \<Rightarrow> Inl (JsError ''Invalid time value'')
      | Some x \<Rightarrow> (let k = local_hour z x in
          hour_counts h z cs (if k < length buckets then buckets[k := bump (call_direction c) (buckets ! k)] else buckets)))"

definition hourlyActivity :: "host \<Rightarrow> zone \<Rightarrow> call_log list \<Rightarrow> thrown + hour_bucket list" where
  "hourlyActivity h z cs = hour_counts h z cs empty_buckets"

section \<open>Outcomes and employees\<close>

definition outcome_style :: "(call_disposition \<times> string \<times> string) list" where
  "outcome_style =
     [(Answered, ''Connected'', ''#12a983''), (Missed, ''Missed'', ''#f25e48''), (Rejected, ''Rejected'', ''#d15bad''),
      (Busy, ''Busy'', ''#ff9d36''), (Voicemail, ''Voicemail'', ''#2f83ee''), (Blocked, ''Blocked'', ''#64748b''),
      (DispUnknown, ''Unknown'', ''#94a3b8'')]"

definition count_outcome :: "call_log \<Rightarrow> (call_disposition, nat) jsmap \<Rightarrow> (call_disposition, nat) jsmap" where
  "count_outcome c m = map_set (call_disposition c) ((case map_get m (call_disposition c) of None \<Rightarrow> 0 | Some n \<Rightarrow> n) + 1) m"

definition outcomes_of :: "call_log list \<Rightarrow> outcome_row list" where
  "outcomes_of cs = (let counts = fold count_outcome cs [] in
     map (\<lambda>(d, label, color). \<lparr>oc_key = disposition_string d, oc_label = label, oc_color = color,
       oc_value = (case map_get counts d of None \<Rightarrow> 0 | Some n \<Rightarrow> n)\<rparr>) outcome_style)"

definition employeePerformance :: "call_log list \<Rightarrow> string \<Rightarrow> string \<Rightarrow> string option \<Rightarrow> performance_row" where
  "employeePerformance cs employeeId employeeName team =
     (let own = filter (\<lambda>c. call_employeeId c = employeeId) cs; connected = with_disposition Answered own in
      \<lparr>pf_employeeId = employeeId, pf_employeeName = employeeName, pf_team = team,
       pf_totalCalls = length own, pf_connectedCalls = length connected, pf_missedCalls = length (with_disposition Missed own),
       pf_uniqueClients = length (js_set (map (\<lambda>c. part_phoneNumber (call_participant c)) own)),
       pf_talkDurationSeconds = talk_seconds own, pf_averageCallDurationSeconds = average_talk own,
       pf_answerRate = percentage (length connected) (length own),
       pf_assignedLeads = 0, pf_contactedLeads = 0, pf_wonLeads = 0, pf_overdueFollowUps = 0\<rparr>)"

text \<open>The bullet, U+2022, is written with its code in the single-byte code page.\<close>

definition maskedPhone :: "string \<Rightarrow> string" where
  "maskedPhone s = (let ds = filter is_digit s in replicate 4 (CHR 0x95) @ '' '' @ drop (length ds - 4) ds)"

definition recent_row :: "(string, string) jsmap \<Rightarrow> call_log \<Rightarrow> activity_row" where
  "recent_row names c =
     \<lparr>ay_id = call_id c,
      ay_kind = (if call_disposition c = Answered then ''connected'' else ''missed''),
      ay_title = (if call_disposition c = Answered
        then (case map_get names (call_employeeId c) of None \<Rightarrow> ''Employee'' | Some n \<Rightarrow> n) @ '' connected a call''
        else ''Call '' @ disposition_string (call_disposition c)),
      ay_detail = maskedPhone (part_phoneNumber (call_participant c)), ay_occurredAt = call_startedAt c\<rparr>"

definition recent_order :: "host \<Rightarrow> call_log \<Rightarrow> call_log \<Rightarrow> int" where
  "recent_order h = cmp_desc (cmp_on call_startedAt (localeCompare h))"

definition no_employee_filter :: employee_filter where
  "no_employee_filter = \<lparr>ef_search = None, ef_status = None, ef_team = None\<rparr>"

definition names_of :: "employee list \<Rightarrow> (string, string) jsmap" where
  "names_of es = fold (\<lambda>e. map_set (emp_id e) (emp_displayName e)) es []"

definition buildDashboardOverview ::
  "host \<Rightarrow> (string \<Rightarrow> zone) \<Rightarrow> organization \<Rightarrow> dashboard_query \<Rightarrow> int \<Rightarrow> 'a call_state_scheme \<Rightarrow> thrown + dashboard_overview" where
  "buildDashboardOverview h zones org q now r =
     (case resolveDashboardPeriod h zones q org now of
        Inl e \<Rightarrow> Inl e
      | Inr period \<Rightarrow>
          (let cs = listCallsInPeriod (org_id org) (dp_from period) (dp_to period) (dq_employeeId q) r;
               kpis = callKpis cs;
               es = fst (listEmployees h (org_id org) no_employee_filter None 1000 r);
               selected = (case dq_employeeId q of None \<Rightarrow> es | Some i \<Rightarrow> filter (\<lambda>e. emp_id e = i) es);
               offline = countOfflineDevices (org_id org) (dq_employeeId q) r
           in case hourlyActivity h (zones (set_timeZone (org_settings org))) cs of
                Inl e \<Rightarrow> Inl e
              | Inr hours \<Rightarrow> Inr
                  \<lparr>ov_summary = \<lparr>ds_organizationId = org_id org, ds_generatedAt = to_iso now, ds_from = dp_from period,
                     ds_to = dp_to period, ds_preset = dp_summaryPreset period, ds_calls = kpis, ds_leads = empty_lead_kpis\<rparr>,
                   ov_metrics = \<lparr>dm_totalCalls = ck_totalCalls kpis, dm_totalTalkDurationSeconds = ck_totalTalkDurationSeconds kpis,
                     dm_connectedCalls = ck_connectedCalls kpis, dm_missedCalls = ck_missedCalls kpis,
                     dm_uniqueClients = ck_uniqueClients kpis,
                     dm_workingHoursSeconds = sum_list (map call_durationSeconds (filter call_isWithinWorkingHours cs))\<rparr>,
                   ov_hourlyActivity = hours,
                   ov_outcomes = outcomes_of cs,
                   ov_attention = [\<lparr>at_key = ''missed'', at_label = ''Missed incoming calls'', at_value = ck_neverAttendedCalls kpis\<rparr>,
                     \<lparr>at_key = ''leads'', at_label = ''Leads overdue'', at_value = 0\<rparr>,
                     \<lparr>at_key = ''devices'', at_label = ''Devices offline'', at_value = offline\<rparr>],
                   ov_teamPerformance = map (\<lambda>e. employeePerformance cs (emp_id e) (emp_displayName e) (emp_team e)) selected,
                   ov_recentActivity = map (recent_row (names_of es)) (take 5 (js_sort (recent_order h) cs))\<rparr>))"

end
