(* ===== verification/LeadReports.thy ===== *)
theory LeadReports
  imports Parsing Doubles Zones
begin

text \<open>
  \<open>getLeadReport\<close> of \<open>repository.ts\<close>: the cohort of leads created in a period, the first response to each,
  and the report's key figures, pipeline, trend by local day, owners and sources. A number that may be
  \<open>NaN\<close> (a difference of dates that do not parse) is an option.
\<close>

section \<open>Data\<close>

record report_filter =
  rf_from :: string
  rf_to :: string
  rf_employeeId :: "string option"
  rf_team :: "string option"
  rf_source :: "lead_source option"

record report_options =
  rpo_organizationId :: string
  rpo_scope :: lead_access_scope
  rpo_filter :: report_filter
  rpo_timeZone :: string
  rpo_at :: string

type_synonym number = "int option"

record report_kpis =
  rk_totalLeads :: nat
  rk_convertedLeads :: nat
  rk_conversionRate :: rat
  rk_followUpsDue :: nat
  rk_averageFirstResponseSeconds :: "number option"

record pipeline_row =
  pl_statusId :: string
  pl_statusName :: string
  pl_color :: string
  pl_leadCount :: nat
  pl_percentageOfTotal :: rat
  pl_isWon :: bool
  pl_isLost :: bool

record trend_counts =
  tc_created :: nat
  tc_won :: nat

record trend_row = trend_counts +
  tr_bucketStart :: string

record owner_row =
  ow_employeeId :: "string option"
  ow_displayName :: string
  ow_assigned :: nat
  ow_contacted :: nat
  ow_won :: nat
  ow_conversionRate :: rat
  ow_overdueFollowUps :: nat
  ow_averageResponseSeconds :: "number option"

record source_row =
  so_source :: lead_source
  so_leads :: nat
  so_contacted :: nat
  so_qualified :: nat
  so_won :: nat
  so_conversionRate :: rat
  so_percentageOfTotal :: rat

record lead_report =
  lr_filter :: report_filter
  lr_kpis :: report_kpis
  lr_pipeline :: "pipeline_row list"
  lr_trend :: "trend_row list"
  lr_owners :: "owner_row list"
  lr_sources :: "source_row list"
  lr_generatedAt :: string
  lr_timeZone :: string
  lr_metricDefinitionVersion :: string

section \<open>First response\<close>

text \<open>Walking \<open>leadIdByCallId\<close>: the earliest answer, not before the lead, of a call linked to it now.\<close>

definition response_step :: "host \<Rightarrow> lead \<Rightarrow> 'a call_state_scheme \<Rightarrow> string \<times> string \<Rightarrow> number option \<Rightarrow> number option" where
  "response_step h l r link first =
     (if snd link \<noteq> lead_id l then first
      else (case map_get (calls r) (fst link) of
          None \<Rightarrow> first
        | Some c \<Rightarrow>
            if call_organizationId c \<noteq> lead_organizationId l \<or> call_disposition c \<noteq> Answered \<or> call_answeredAt c = None then first
            else (let answered = h_parse h (the (call_answeredAt c)) in
              if date_gt_ms (h_parse h (createdAt l)) answered then first
              else if first = None \<or> date_gt_ms (the first) answered then Some answered else first)))"

definition firstLeadResponseSeconds :: "host \<Rightarrow> lead \<Rightarrow> 'a call_state_scheme \<Rightarrow> number option" where
  "firstLeadResponseSeconds h l r =
     map_option (\<lambda>first. case (first, h_parse h (createdAt l)) of
         (Some x, Some y) \<Rightarrow> Some (js_round (fl (of_int (x - y) / 1000)))
       | _ \<Rightarrow> None)
       (fold (response_step h l r) (leadIdByCallId r) None)"

definition mean :: "number list \<Rightarrow> number" where
  "mean values = (if None \<in> set values then None else Some (average (sum_list (map the values)) (length values)))"

definition averageResponse :: "host \<Rightarrow> 'a call_state_scheme \<Rightarrow> lead list \<Rightarrow> number option" where
  "averageResponse h r ls = (let values = List.map_filter (\<lambda>l. firstLeadResponseSeconds h l r) ls
     in if values = [] then None else Some (mean values))"

section \<open>The report\<close>

definition in_cohort :: "report_options \<Rightarrow> 'a lead_state_scheme \<Rightarrow> lead \<Rightarrow> bool" where
  "in_cohort o' r l \<longleftrightarrow> (let f = rpo_filter o' in
     lead_organizationId l = rpo_organizationId o' \<and> \<not> truthy (lead_archivedAt l) \<and> canAccessLead (rpo_scope o') l r
     \<and> rf_from f \<le> createdAt l \<and> createdAt l < rf_to f
     \<and> (truthy (rf_employeeId f) \<longrightarrow> lead_assignedEmployeeId l = rf_employeeId f)
     \<and> (truthy (rf_team f) \<longrightarrow> map_get (leadTeams r) (lead_id l) = rf_team f)
     \<and> (rf_source f \<noteq> None \<longrightarrow> Some (lead_source l) = rf_source f))"

definition cohort_of :: "report_options \<Rightarrow> 'a lead_state_scheme \<Rightarrow> lead list" where
  "cohort_of o' r = filter (in_cohort o' r) (map_values (leads r))"

text \<open>\<open>Math.round(value * 10_000 / total) / 100\<close>, and zero of nothing.\<close>

definition rate :: "nat \<Rightarrow> nat \<Rightarrow> rat" where
  "rate v n = (if n = 0 then 0 else hundredths (fl (fl (of_nat v * 10000) / of_nat n)))"

definition won_of :: "lead list \<Rightarrow> nat" where
  "won_of ls = length (filter (\<lambda>l. truthy (lead_convertedAt l)) ls)"

definition contacted_of :: "lead list \<Rightarrow> nat" where
  "contacted_of ls = length (filter (\<lambda>l. truthy (lead_lastContactedAt l)) ls)"

definition pipeline_row_of :: "lead list \<Rightarrow> lead_status \<Rightarrow> pipeline_row" where
  "pipeline_row_of cohort s = (let n = length (filter (\<lambda>l. lead_statusId l = ls_id s) cohort)
     in \<lparr>pl_statusId = ls_id s, pl_statusName = ls_name s, pl_color = ls_color s, pl_leadCount = n,
       pl_percentageOfTotal = rate n (length cohort), pl_isWon = ls_isWon s, pl_isLost = ls_isLost s\<rparr>)"

definition pipeline_of :: "string \<Rightarrow> lead list \<Rightarrow> 'a lead_state_scheme \<Rightarrow> pipeline_row list" where
  "pipeline_of orgId cohort r = map (pipeline_row_of cohort) (js_sort (cmp_on ls_position cmp_int)
     (filter (\<lambda>s. ls_organizationId s = orgId \<and> ls_isActive s) (map_values (leadStatuses r))))"

text \<open>The owners: nobody, then each assignee of the cohort.\<close>

definition owner_ids :: "lead list \<Rightarrow> string option list" where
  "owner_ids cohort = None # map Some (js_set (List.map_filter (\<lambda>l. if truthy (lead_assignedEmployeeId l)
     then lead_assignedEmployeeId l else None) cohort))"

definition owner_row_of ::
  "host \<Rightarrow> string \<Rightarrow> 'a call_state_scheme \<Rightarrow> lead list \<Rightarrow> string option \<Rightarrow> thrown + owner_row" where
  "owner_row_of h ts r cohort employeeId =
     (let ls = filter (\<lambda>l. lead_assignedEmployeeId l = employeeId) cohort;
          won = won_of ls;
          owner = (if truthy employeeId then map_get (employees r) (the employeeId) else None)
      in attempt (traverse (\<lambda>l. buildLeadListItem h l ts r) ls) (\<lambda>items. Inr
        \<lparr>ow_employeeId = employeeId,
         ow_displayName = (case owner of None \<Rightarrow> ''Unassigned'' | Some e \<Rightarrow> emp_displayName e),
         ow_assigned = length ls, ow_contacted = contacted_of ls, ow_won = won, ow_conversionRate = rate won (length ls),
         ow_overdueFollowUps = sum_list (map li_overdueFollowUpCount items),
         ow_averageResponseSeconds = averageResponse h r ls\<rparr>))"

definition source_row_of ::
  "host \<Rightarrow> 'a call_state_scheme \<Rightarrow> lead list \<Rightarrow> lead_source \<Rightarrow> thrown + source_row" where
  "source_row_of h r cohort src =
     (let ls = filter (\<lambda>l. lead_source l = src) cohort;
          won = won_of ls
      in attempt (traverse (\<lambda>l. statusForLead l r) ls) (\<lambda>statuses. Inr
        \<lparr>so_source = src, so_leads = length ls, so_contacted = contacted_of ls,
         so_qualified = length (filter (\<lambda>s. h_lower h (ls_name s) = ''qualified'') statuses),
         so_won = won, so_conversionRate = rate won (length ls), so_percentageOfTotal = rate (length ls) (length cohort)\<rparr>))"

text \<open>The day buckets: formatting a date that does not parse throws.\<close>

definition lead_day :: "host \<Rightarrow> zone \<Rightarrow> lead \<Rightarrow> thrown + string" where
  "lead_day h z l = (case h_parse h (createdAt l) of
     None \<Rightarrow> Inl (JsError ''Invalid time value'') | Some x \<Rightarrow> Inr (zonedDateKey z x))"

definition count_lead :: "string \<times> lead \<Rightarrow> (string, trend_counts) jsmap \<Rightarrow> (string, trend_counts) jsmap" where
  "count_lead dl buckets =
     (let b = (case map_get buckets (fst dl) of None \<Rightarrow> \<lparr>tc_created = 0, tc_won = 0\<rparr> | Some b \<Rightarrow> b)
      in map_set (fst dl) \<lparr>tc_created = tc_created b + 1,
           tc_won = (if truthy (lead_convertedAt (snd dl)) then tc_won b + 1 else tc_won b)\<rparr> buckets)"

definition trend_of :: "host \<Rightarrow> zone \<Rightarrow> lead list \<Rightarrow> thrown + trend_row list" where
  "trend_of h z cohort =
     attempt (traverse (lead_day h z) cohort) (\<lambda>days. Inr
       (map (\<lambda>(day, b). trend_counts.extend b \<lparr>tr_bucketStart = zonedMidnightIso z day\<rparr>)
         (js_sort (cmp_on fst (localeCompare h)) (fold count_lead (zip days cohort) []))))"

definition follow_ups_due :: "host \<Rightarrow> string \<Rightarrow> string \<Rightarrow> 'a lead_state_scheme \<Rightarrow> lead \<Rightarrow> nat" where
  "follow_ups_due h orgId ts r l =
     length (filter (\<lambda>f. fu_status f = FuPending \<and> fu_dueAt f \<le> ts) (followUpsForLead h orgId (lead_id l) r))"

definition getLeadReport ::
  "host \<Rightarrow> (string \<Rightarrow> zone) \<Rightarrow> report_options \<Rightarrow> 'a call_state_scheme \<Rightarrow> thrown + lead_report" where
  "getLeadReport h zones o' r =
     (let cohort = cohort_of o' r;
          converted = won_of cohort;
          z = zones (rpo_timeZone o')
      in attempt (traverse (owner_row_of h (rpo_at o') r cohort) (owner_ids cohort)) (\<lambda>owners.
         attempt (traverse (source_row_of h r cohort) (js_set (map lead_source cohort))) (\<lambda>sources.
         attempt (trend_of h z cohort) (\<lambda>trend. Inr
           \<lparr>lr_filter = rpo_filter o',
            lr_kpis = \<lparr>rk_totalLeads = length cohort, rk_convertedLeads = converted,
              rk_conversionRate = rate converted (length cohort),
              rk_followUpsDue = sum_list (map (follow_ups_due h (rpo_organizationId o') (rpo_at o') r) cohort),
              rk_averageFirstResponseSeconds = averageResponse h r cohort\<rparr>,
            lr_pipeline = pipeline_of (rpo_organizationId o') cohort r,
            lr_trend = trend, lr_owners = owners, lr_sources = sources,
            lr_generatedAt = rpo_at o', lr_timeZone = rpo_timeZone o', lr_metricDefinitionVersion = ''2026-07-15''\<rparr>))))"

end
