(* ===== verification/Exports.thy ===== *)
theory Exports
  imports Imports "HOL-Library.Word"
begin

text \<open>
  Report automation of \<open>repository.ts\<close>: saved views, schedules, notification preferences and the inbox,
  export jobs, and the download of a finished report with a secret token that works once. Token hashes
  are lists of bytes, compared without an early exit as the code does.
\<close>

section \<open>Data and state\<close>

datatype report_format = FmtCsv | FmtXlsx | FmtPdf
datatype report_kind = RkCallSummary | RkEmployeePerformance | RkClientActivity | RkNeverAttended
  | RkClientNotPickup | RkLeadPerformance | RkLeadStatus | RkLeadNotContacted | RkStatusChange
datatype report_cadence = Daily | Weekly
datatype notification_event = EvMissedCall | EvOverdueFollowUp | EvDeviceOffline | EvImportCompleted | EvExportReady
datatype schedule_status = SchedActive | SchedPaused
datatype export_status = ExQueued | ExProcessing | ExReady | ExFailed | ExExpired

record saved_view =
  sv_id :: string
  sv_organizationId :: string
  sv_ownerUserId :: string
  sv_name :: string
  sv_kind :: report_kind
  sv_filters :: "(string \<times> (string + string list)) list"
  sv_createdAt :: string
  sv_updatedAt :: string

record report_schedule =
  rs_id :: string
  rs_organizationId :: string
  rs_savedViewId :: string
  rs_name :: string
  rs_cadence :: report_cadence
  rs_weekDay :: "int option"
  rs_localTime :: string
  rs_timeZone :: string
  rs_format :: report_format
  rs_recipients :: "string list"
  rs_status :: schedule_status
  rs_nextRunAt :: string
  rs_lastRunAt :: "string option"

record notification_preference =
  np_event :: notification_event
  np_email :: bool
  np_inApp :: bool

record export_job =
  ej_id :: string
  ej_kind :: report_kind
  ej_format :: report_format
  ej_status :: export_status
  ej_requestedAt :: string
  ej_completedAt :: "string option"
  ej_downloadUrl :: "string option"
  ej_expiresAt :: "string option"
  ej_failureMessage :: "string option"

record report_artifact =
  ra_objectKey :: string
  ra_tokenHash :: "8 word list"
  ra_expiresAt :: string
  ra_redeemedAt :: "string option"

record notification =
  nt_id :: string
  nt_event :: notification_event
  nt_title :: string
  nt_body :: string
  nt_actionUrl :: "string option"
  nt_createdAt :: string
  nt_readAt :: "string option"

record stored_notification = notification +
  nt_organizationId :: string
  nt_userId :: string

record automation_snapshot =
  as_savedViews :: "saved_view list"
  as_schedules :: "report_schedule list"
  as_preferences :: "notification_preference list"
  as_jobs :: "export_job list"

record report_state = import_state +
  savedReportViews :: "(string, saved_view) jsmap"
  reportSchedules :: "(string, report_schedule) jsmap"
  notificationPreferences :: "(string, notification_preference list) jsmap"
  reportExportJobs :: "(string, export_job) jsmap"
  reportExportOwners :: "(string, string) jsmap"
  reportArtifacts :: "(string, report_artifact) jsmap"
  inAppNotifications :: "(string, stored_notification) jsmap"

section \<open>Views, schedules, preferences\<close>

definition default_preferences :: "notification_preference list" where
  "default_preferences = map (\<lambda>ev. \<lparr>np_event = ev, np_email = True, np_inApp = True\<rparr>)
     [EvMissedCall, EvOverdueFollowUp, EvDeviceOffline, EvImportCompleted, EvExportReady]"

text \<open>\<open>id.split(":").slice(1).join(":")\<close>: what follows the first colon.\<close>

definition after_colon :: "string \<Rightarrow> string" where
  "after_colon s = drop 1 (dropWhile (\<lambda>c. c \<noteq> CHR '':'') s)"

definition starts_with :: "string \<Rightarrow> string \<Rightarrow> bool" where
  "starts_with s p = (take (length p) s = p)"

definition getReportAutomation :: "string \<Rightarrow> string \<Rightarrow> 'a report_state_scheme \<Rightarrow> automation_snapshot" where
  "getReportAutomation orgId userId r =
     \<lparr>as_savedViews = filter (\<lambda>v. sv_organizationId v = orgId \<and> sv_ownerUserId v = userId) (map_values (savedReportViews r)),
      as_schedules = filter (\<lambda>s. rs_organizationId s = orgId) (map_values (reportSchedules r)),
      as_preferences = (case map_get (notificationPreferences r) (key2 orgId userId) of
          None \<Rightarrow> default_preferences | Some ps \<Rightarrow> ps),
      as_jobs = map (\<lambda>j. j\<lparr>ej_id := after_colon (ej_id j)\<rparr>)
        (filter (\<lambda>j. starts_with (ej_id j) (orgId @ '':'')) (map_values (reportExportJobs r)))\<rparr>"

record view_options =
  vo_organizationId :: string
  vo_userId :: string
  vo_name :: string
  vo_kind :: report_kind
  vo_filters :: "(string \<times> (string + string list)) list"
  vo_at :: string

definition createSavedReportView :: "view_options \<Rightarrow> 'a report_state_scheme \<Rightarrow> saved_view \<times> 'a report_state_scheme" where
  "createSavedReportView o' r =
     (let (i, r1) = next_id ''report_view'' r;
          v = \<lparr>sv_id = i, sv_organizationId = vo_organizationId o', sv_ownerUserId = vo_userId o', sv_name = vo_name o',
            sv_kind = vo_kind o', sv_filters = vo_filters o', sv_createdAt = vo_at o', sv_updatedAt = vo_at o'\<rparr>
      in (v, r1\<lparr>savedReportViews := map_set i v (savedReportViews r1)\<rparr>))"

record schedule_options =
  sd_organizationId :: string
  sd_userId :: string
  sd_savedViewId :: string
  sd_name :: string
  sd_cadence :: report_cadence
  sd_weekDay :: "int option"
  sd_localTime :: string
  sd_timeZone :: string
  sd_format :: report_format
  sd_recipients :: "string list"
  sd_nextRunAt :: string
  sd_at :: string

definition createReportSchedule ::
  "schedule_options \<Rightarrow> 'a report_state_scheme \<Rightarrow> report_schedule option \<times> 'a report_state_scheme" where
  "createReportSchedule o' r =
     (case map_get (savedReportViews r) (sd_savedViewId o') of
        None \<Rightarrow> (None, r)
      | Some v \<Rightarrow>
          if sv_organizationId v \<noteq> sd_organizationId o' then (None, r)
          else (let (i, r1) = next_id ''report_schedule'' r;
                    s = \<lparr>rs_id = i, rs_organizationId = sd_organizationId o', rs_savedViewId = sd_savedViewId o',
                      rs_name = sd_name o', rs_cadence = sd_cadence o', rs_weekDay = sd_weekDay o',
                      rs_localTime = sd_localTime o', rs_timeZone = sd_timeZone o', rs_format = sd_format o',
                      rs_recipients = sd_recipients o', rs_status = SchedActive, rs_nextRunAt = sd_nextRunAt o',
                      rs_lastRunAt = None\<rparr>
                in (Some s, r1\<lparr>reportSchedules := map_set i s (reportSchedules r1)\<rparr>)))"

definition updateReportSchedule ::
  "string \<Rightarrow> string \<Rightarrow> schedule_status \<Rightarrow> 'a report_state_scheme \<Rightarrow> report_schedule option \<times> 'a report_state_scheme" where
  "updateReportSchedule orgId scheduleId st r =
     (case map_get (reportSchedules r) scheduleId of
        None \<Rightarrow> (None, r)
      | Some s \<Rightarrow>
          if rs_organizationId s \<noteq> orgId then (None, r)
          else (let s' = s\<lparr>rs_status := st\<rparr> in (Some s', r\<lparr>reportSchedules := map_set scheduleId s' (reportSchedules r)\<rparr>)))"

definition updateNotificationPreferences ::
  "string \<Rightarrow> string \<Rightarrow> notification_preference list \<Rightarrow> 'a report_state_scheme \<Rightarrow> notification_preference list \<times> 'a report_state_scheme" where
  "updateNotificationPreferences orgId userId ps r =
     (ps, r\<lparr>notificationPreferences := map_set (key2 orgId userId) ps (notificationPreferences r)\<rparr>)"

section \<open>Export jobs and downloads\<close>

definition createReportExportJob ::
  "string \<Rightarrow> string \<Rightarrow> report_kind \<Rightarrow> report_format \<Rightarrow> string \<Rightarrow> 'a report_state_scheme \<Rightarrow> export_job \<times> 'a report_state_scheme" where
  "createReportExportJob orgId userId kind fmt ts r =
     (let (publicId, r1) = next_id ''report_export'' r;
          j = \<lparr>ej_id = key2 orgId publicId, ej_kind = kind, ej_format = fmt, ej_status = ExQueued, ej_requestedAt = ts,
            ej_completedAt = None, ej_downloadUrl = None, ej_expiresAt = None, ej_failureMessage = None\<rparr>
      in (j\<lparr>ej_id := publicId\<rparr>,
          r1\<lparr>reportExportJobs := map_set (ej_id j) j (reportExportJobs r1),
             reportExportOwners := map_set (ej_id j) userId (reportExportOwners r1)\<rparr>))"

record complete_options =
  co_organizationId :: string
  co_jobId :: string
  co_objectKey :: string
  co_tokenHash :: "8 word list"
  co_expiresAt :: string
  co_at :: string

definition completeReportExportJob :: "complete_options \<Rightarrow> 'a report_state_scheme \<Rightarrow> bool \<times> 'a report_state_scheme" where
  "completeReportExportJob o' r =
     (let key = key2 (co_organizationId o') (co_jobId o') in
      case map_get (reportExportJobs r) key of
        None \<Rightarrow> (False, r)
      | Some j \<Rightarrow>
          if ej_status j \<noteq> ExQueued \<and> ej_status j \<noteq> ExProcessing then (False, r)
          else (True, r\<lparr>reportExportJobs := map_set key (j\<lparr>ej_status := ExReady, ej_completedAt := Some (co_at o'),
                   ej_expiresAt := Some (co_expiresAt o')\<rparr>) (reportExportJobs r),
                 reportArtifacts := map_set key \<lparr>ra_objectKey = co_objectKey o', ra_tokenHash = co_tokenHash o',
                   ra_expiresAt = co_expiresAt o', ra_redeemedAt = None\<rparr> (reportArtifacts r)\<rparr>))"

record token_options =
  to_organizationId :: string
  to_userId :: string
  to_jobId :: string
  to_tokenHash :: "8 word list"
  to_expiresAt :: string

definition issueReportDownloadToken :: "token_options \<Rightarrow> 'a report_state_scheme \<Rightarrow> bool \<times> 'a report_state_scheme" where
  "issueReportDownloadToken o' r =
     (let key = key2 (to_organizationId o') (to_jobId o') in
      case (map_get (reportExportJobs r) key, map_get (reportArtifacts r) key) of
        (Some j, Some a) \<Rightarrow>
          if ej_status j \<noteq> ExReady \<or> map_get (reportExportOwners r) key \<noteq> Some (to_userId o')
            \<or> length (to_tokenHash o') \<noteq> 32 \<or> truthy (ra_redeemedAt a) then (False, r)
          else (True, r\<lparr>reportArtifacts := map_set key (a\<lparr>ra_tokenHash := to_tokenHash o', ra_expiresAt := to_expiresAt o'\<rparr>)
                   (reportArtifacts r),
                 reportExportJobs := map_set key (j\<lparr>ej_expiresAt := Some (to_expiresAt o')\<rparr>) (reportExportJobs r)\<rparr>)
      | _ \<Rightarrow> (False, r))"

text \<open>Every byte is compared, whatever the first ones say.\<close>

definition hash_difference :: "8 word list \<Rightarrow> 8 word list \<Rightarrow> 8 word" where
  "hash_difference xs ys = fold (\<lambda>(x, y) d. or d (xor x y)) (zip xs ys) 0"

record redeem_download_options =
  rd_organizationId :: string
  rd_userId :: string
  rd_jobId :: string
  rd_tokenHash :: "8 word list"
  rd_redemptionId :: string
  rd_at :: string

record download_grant =
  dg_objectKey :: string
  dg_expiresAt :: string

definition redeemReportDownload ::
  "redeem_download_options \<Rightarrow> 'a report_state_scheme \<Rightarrow> download_grant option \<times> 'a report_state_scheme" where
  "redeemReportDownload o' r =
     (let key = key2 (rd_organizationId o') (rd_jobId o') in
      case map_get (reportArtifacts r) key of
        None \<Rightarrow> (None, r)
      | Some a \<Rightarrow>
          if truthy (ra_redeemedAt a) \<or> ra_expiresAt a \<le> rd_at o' \<or> length (ra_tokenHash a) \<noteq> length (rd_tokenHash o') then (None, r)
          else if hash_difference (ra_tokenHash a) (rd_tokenHash o') \<noteq> 0 then (None, r)
          else (Some \<lparr>dg_objectKey = ra_objectKey a, dg_expiresAt = ra_expiresAt a\<rparr>,
                r\<lparr>reportArtifacts := map_set key (a\<lparr>ra_redeemedAt := Some (rd_at o')\<rparr>) (reportArtifacts r)\<rparr>))"

section \<open>The inbox\<close>

definition notification_order :: "host \<Rightarrow> stored_notification \<Rightarrow> stored_notification \<Rightarrow> int" where
  "notification_order h = cmp_desc (cmp_on nt_createdAt (localeCompare h))"

definition listNotificationInbox :: "host \<Rightarrow> string \<Rightarrow> string \<Rightarrow> nat \<Rightarrow> 'a report_state_scheme \<Rightarrow> notification list \<times> nat" where
  "listNotificationInbox h orgId userId limit r =
     (let mine = js_sort (notification_order h)
        (filter (\<lambda>n. nt_organizationId n = orgId \<and> nt_userId n = userId) (map_values (inAppNotifications r)))
      in (map notification.truncate (take limit mine), length (filter (\<lambda>n. \<not> truthy (nt_readAt n)) mine)))"

definition markNotificationRead ::
  "string \<Rightarrow> string \<Rightarrow> string \<Rightarrow> string \<Rightarrow> 'a report_state_scheme \<Rightarrow> notification option \<times> 'a report_state_scheme" where
  "markNotificationRead orgId userId i ts r =
     (case map_get (inAppNotifications r) i of
        None \<Rightarrow> (None, r)
      | Some n \<Rightarrow>
          if nt_organizationId n \<noteq> orgId \<or> nt_userId n \<noteq> userId then (None, r)
          else (let n' = (if nt_readAt n = None then n\<lparr>nt_readAt := Some ts\<rparr> else n)
                in (Some (notification.truncate n'), r\<lparr>inAppNotifications := map_set i n' (inAppNotifications r)\<rparr>)))"

end
