(* ===== verification/Http.thy ===== *)
theory Http
  imports GuardFacts Parsing Security Analytics LeadReports Exports
begin

text \<open>
  What the routes of \<open>app.ts\<close> are built from: the server's configuration and state, a request, the
  state-and-error sequencing of a handler, the authentication hooks, and the error handler.
\<close>

section \<open>The server\<close>

record server_config =
  cf_production :: bool
  cf_builtinAuth :: bool
  cf_builtinAuthKeyHash :: string
  cf_enableDevAuth :: bool
  cf_authSecret :: string
  cf_tokenTtlSeconds :: int
  cf_pairingCodeTtlSeconds :: int
  cf_deviceBootstrapTtlSeconds :: int
  cf_deviceSessionTtlSeconds :: int
  cf_limiter :: limiter

text \<open>
  What the run time supplies: besides the host and the primitives, the n-th reading of the clock, the
  n-th drawing of a random text, the identity an external verifier finds in a token (organization,
  issuer, subject; \<open>None\<close> when it refuses), time zones, the fingerprints of calls, the bytes of a
  SHA-256 digest, and the reader of report artifacts, if one is configured.
\<close>

record artifact =
  af_contentType :: string
  af_fileName :: string
  af_body :: string

record environment =
  en_config :: server_config
  en_runtime :: runtime
  en_primitives :: primitives
  en_zones :: "string \<Rightarrow> zone"
  en_clock :: "nat \<Rightarrow> int"
  en_random :: "nat \<Rightarrow> string"
  en_identity :: "string \<Rightarrow> (string \<times> string \<times> string) option"
  en_itemFingerprint :: "call_sync_item \<Rightarrow> string"
  en_callFingerprint :: "simulated_call \<Rightarrow> string"
  en_digest :: "string \<Rightarrow> 8 word list"
  en_artifacts :: "(string \<Rightarrow> artifact option) option"

abbreviation en_host :: "environment \<Rightarrow> host" where
  "en_host en \<equiv> rt_host (en_runtime en)"

abbreviation en_secret :: "environment \<Rightarrow> string" where
  "en_secret en \<equiv> cf_authSecret (en_config en)"

text \<open>The repository, the limiter's map, the server's own identifier generator, and how often the
  clock and the random source have been read.\<close>

record app_state = report_state +
  failures :: attempts
  appIds :: nat
  clockReads :: nat
  draws :: nat

record http_request =
  rq_authorization :: "string option"
  rq_idempotencyKey :: header
  rq_body :: js
  rq_query :: json_record
  rq_params :: json_record
  rq_ip :: string

record 'x reply =
  rep_status :: nat
  rep_data :: 'x

section \<open>Sequencing\<close>

text \<open>A handler's steps run on the state until one throws.\<close>

type_synonym 'x app = "app_state \<Rightarrow> (app_state, 'x) outcome"

definition give :: "'x \<Rightarrow> 'x app" where
  "give x s = (Inr x, s)"

definition fail :: "thrown \<Rightarrow> 'x app" where
  "fail e s = (Inl e, s)"

definition andThen :: "'x app \<Rightarrow> ('x \<Rightarrow> 'y app) \<Rightarrow> 'y app" where
  "andThen m f s = (case m s of (Inl e, s') \<Rightarrow> (Inl e, s') | (Inr x, s') \<Rightarrow> f x s')"

definition pure :: "thrown + 'x \<Rightarrow> 'x app" where
  "pure m s = (m, s)"

definition look :: "(app_state \<Rightarrow> 'x) \<Rightarrow> 'x app" where
  "look f s = (Inr (f s), s)"

definition consult :: "(app_state \<Rightarrow> thrown + 'x) \<Rightarrow> 'x app" where
  "consult f s = (f s, s)"

definition act :: "(app_state \<Rightarrow> 'x \<times> app_state) \<Rightarrow> 'x app" where
  "act f s = (let (x, s') = f s in (Inr x, s'))"

definition require :: "bool \<Rightarrow> thrown \<Rightarrow> unit app" where
  "require b e = pure (check b e)"

definition found :: "'x option \<Rightarrow> thrown \<Rightarrow> 'x app" where
  "found v e = pure (expect v e)"

definition clock_now :: "environment \<Rightarrow> int app" where
  "clock_now en s = (Inr (en_clock en (clockReads s)), s\<lparr>clockReads := Suc (clockReads s)\<rparr>)"

definition iso_of :: "environment \<Rightarrow> int \<Rightarrow> string" where
  "iso_of en = rt_iso (en_runtime en)"

definition now_iso :: "environment \<Rightarrow> string app" where
  "now_iso en = andThen (clock_now en) (\<lambda>t. give (iso_of en t))"

definition draw :: "environment \<Rightarrow> string app" where
  "draw en s = (Inr (en_random en (draws s)), s\<lparr>draws := Suc (draws s)\<rparr>)"

definition app_id :: "string \<Rightarrow> string app" where
  "app_id prefix s = (let n = Suc (appIds s) in (Inr (sequential_id prefix n), s\<lparr>appIds := n\<rparr>))"

definition reply_ok :: "'x \<Rightarrow> 'x reply app" where
  "reply_ok x = give \<lparr>rep_status = 200, rep_data = x\<rparr>"

definition reply_created :: "'x \<Rightarrow> 'x reply app" where
  "reply_created x = give \<lparr>rep_status = 201, rep_data = x\<rparr>"

section \<open>Errors on the wire\<close>

record wire_error =
  we_status :: nat
  we_code :: api_error_code
  we_message :: string
  we_details :: "api_error_detail list option"
  we_retryAfterSeconds :: "nat option"

definition onError :: "thrown \<Rightarrow> wire_error" where
  "onError e = (case e of
      ApiDomainError d \<Rightarrow> \<lparr>we_status = err_statusCode d, we_code = err_code d, we_message = err_message d,
        we_details = err_details d, we_retryAfterSeconds = err_retryAfterSeconds d\<rparr>
    | JsError _ \<Rightarrow> \<lparr>we_status = 500, we_code = INTERNAL_ERROR, we_message = ''An unexpected error occurred'',
        we_details = None, we_retryAfterSeconds = None\<rparr>)"

section \<open>Actors\<close>

definition token_service_of :: "environment \<Rightarrow> token_service" where
  "token_service_of en = \<lparr>ts_secret = en_secret en, ts_ttlSeconds = cf_tokenTtlSeconds (en_config en)\<rparr>"

definition inactive_message :: "environment \<Rightarrow> string" where
  "inactive_message en = (if cf_production (en_config en) then ''The bearer token is invalid''
     else ''The authenticated membership is no longer active'')"

definition external_actor :: "environment \<Rightarrow> string \<Rightarrow> actor_context option app" where
  "external_actor en token =
     andThen (found (en_identity en token) (unauthenticated ''The bearer token is invalid'')) (\<lambda>(orgId, issuer, subject).
     look (resolveActorByExternalIdentity orgId issuer subject))"

definition token_actor :: "environment \<Rightarrow> string \<Rightarrow> actor_context option app" where
  "token_actor en token =
     andThen (clock_now en) (\<lambda>now.
     andThen (pure (verify_token (en_primitives en) (token_service_of en) now token)) (\<lambda>payload.
     look (findActor (or_empty (as_string (field payload ''organizationId''))) (or_empty (as_string (field payload ''subject''))))))"

definition authenticate :: "environment \<Rightarrow> http_request \<Rightarrow> actor_context app" where
  "authenticate en rq =
     andThen (pure (parseBearerToken (rq_authorization rq))) (\<lambda>token.
     andThen (if cf_production (en_config en) \<and> \<not> cf_builtinAuth (en_config en)
       then external_actor en token else token_actor en token) (\<lambda>actor.
     found actor (unauthenticated (inactive_message en))))"

definition no_permission :: thrown where
  "no_permission = forbidden ''You do not have permission to perform this action''"

definition requirePermission :: "permission \<Rightarrow> actor_context \<Rightarrow> unit app" where
  "requirePermission p actor = require (p \<in> set (actor_permissions actor)) no_permission"

definition protect :: "environment \<Rightarrow> permission \<Rightarrow> http_request \<Rightarrow> actor_context app" where
  "protect en p rq = andThen (authenticate en rq) (\<lambda>actor. andThen (requirePermission p actor) (\<lambda>_. give actor))"

definition requireFullOrganizationReadScope :: "actor_context \<Rightarrow> unit app" where
  "requireFullOrganizationReadScope actor = require (actor_roleKey actor \<in> {RoleOwner, RoleAdmin, RoleAnalyst})
     (forbidden ''Team and self data scopes are not implemented for this role'')"

definition requireFullOrganizationAdminScope :: "actor_context \<Rightarrow> unit app" where
  "requireFullOrganizationAdminScope actor = require (actor_roleKey actor \<in> {RoleOwner, RoleAdmin})
     (forbidden ''This action requires an owner or admin organization scope'')"

definition protectOrganizationRead :: "environment \<Rightarrow> permission \<Rightarrow> http_request \<Rightarrow> actor_context app" where
  "protectOrganizationRead en p rq =
     andThen (protect en p rq) (\<lambda>actor. andThen (requireFullOrganizationReadScope actor) (\<lambda>_. give actor))"

definition protectOrganizationAdmin :: "environment \<Rightarrow> permission \<Rightarrow> http_request \<Rightarrow> actor_context app" where
  "protectOrganizationAdmin en p rq =
     andThen (protect en p rq) (\<lambda>actor. andThen (requireFullOrganizationAdminScope actor) (\<lambda>_. give actor))"

section \<open>Devices\<close>

definition invalid_device :: thrown where
  "invalid_device = unauthenticated ''The device credential is invalid''"

text \<open>\<open>try { parseBearerToken } catch { throw unauthenticated }\<close>\<close>

definition device_token :: "http_request \<Rightarrow> string app" where
  "device_token rq = pure (case parseBearerToken (rq_authorization rq) of Inl _ \<Rightarrow> Inl invalid_device | Inr t \<Rightarrow> Inr t)"

definition hashed :: "environment \<Rightarrow> credential_type \<Rightarrow> string \<Rightarrow> string" where
  "hashed en ty token = hashDeviceCredential (en_primitives en) token (en_secret en) ty"

definition resolve_device :: "environment \<Rightarrow> credential_type \<Rightarrow> string \<Rightarrow> mobile_context option app" where
  "resolve_device en ty token = andThen (now_iso en) (\<lambda>ts. look (resolveDeviceCredential (en_host en) (hashed en ty token) ty ts))"

definition authenticateMobile :: "environment \<Rightarrow> credential_type \<Rightarrow> http_request \<Rightarrow> mobile_context app" where
  "authenticateMobile en ty rq =
     andThen (device_token rq) (\<lambda>token.
     andThen (require (isOpaqueDeviceCredential token ty) invalid_device) (\<lambda>_.
     andThen (resolve_device en ty token) (\<lambda>ctx. found ctx invalid_device)))"

definition authenticateMobileEither :: "environment \<Rightarrow> http_request \<Rightarrow> mobile_context app" where
  "authenticateMobileEither en rq =
     andThen (device_token rq) (\<lambda>token.
     andThen (found (if isOpaqueDeviceCredential token CredBootstrap then Some CredBootstrap
       else if isOpaqueDeviceCredential token CredSession then Some CredSession else None) invalid_device) (\<lambda>ty.
     andThen (resolve_device en ty token) (\<lambda>ctx. found ctx invalid_device)))"

definition operation_request :: "environment \<Rightarrow> http_request \<Rightarrow> (string \<times> string) app" where
  "operation_request en rq =
     pure (operationRequest (\<lambda>fs. fingerprint (en_primitives en) (JObject fs)) (rq_idempotencyKey rq) (rq_body rq))"

text \<open>\<open>replay ?? await \<dots>\<close>: the second lookup runs only when the first finds nothing.\<close>

definition or_resolve :: "mobile_context option \<Rightarrow> mobile_context option app \<Rightarrow> mobile_context app" where
  "or_resolve replay m = (case replay of Some ctx \<Rightarrow> give ctx | None \<Rightarrow> andThen m (\<lambda>ctx. found ctx invalid_device))"

definition find_replay :: "environment \<Rightarrow> credential_type \<Rightarrow> credential_operation \<Rightarrow> string \<Rightarrow> string \<times> string \<Rightarrow>
    mobile_context option app" where
  "find_replay en ty op token request =
     andThen (now_iso en) (\<lambda>_. look (resolveDeviceCredentialReplay \<lparr>rp_tokenHash = hashed en ty token,
       rp_credentialType = ty, rp_operation = op, rp_requestId = fst request, rp_requestFingerprint = snd request\<rparr>))"

definition authenticateMobileWithReplay ::
  "environment \<Rightarrow> credential_type \<Rightarrow> credential_operation \<Rightarrow> http_request \<Rightarrow> mobile_context app" where
  "authenticateMobileWithReplay en ty op rq =
     andThen (device_token rq) (\<lambda>token.
     andThen (require (isOpaqueDeviceCredential token ty \<and> isRecord (rq_body rq)) invalid_device) (\<lambda>_.
     andThen (operation_request en rq) (\<lambda>request.
     andThen (find_replay en ty op token request) (\<lambda>replay.
     or_resolve replay (resolve_device en ty token)))))"

definition authenticateRotationConfirmation :: "environment \<Rightarrow> http_request \<Rightarrow> mobile_context app" where
  "authenticateRotationConfirmation en rq =
     andThen (device_token rq) (\<lambda>token.
     andThen (found (if isOpaqueDeviceCredential token CredSession then as_record (rq_body rq) else None) invalid_device) (\<lambda>body.
     andThen (operation_request en rq) (\<lambda>request.
     andThen (require (isRequestId (field body ''prepareRequestId'')) invalid_device) (\<lambda>_.
     andThen (find_replay en CredSession OpRotationConfirm token request) (\<lambda>replay.
     or_resolve replay (andThen (now_iso en) (\<lambda>ts.
       look (resolvePendingRotationCredential (en_host en) (hashed en CredSession token)
         (or_empty (as_string (field body ''prepareRequestId''))) ts))))))))"

definition requireMatchingMobileContext :: "mobile_context \<Rightarrow> json_record \<Rightarrow> unit app" where
  "requireMatchingMobileContext ctx v = require
     (field v ''organizationId'' = Some (JString (ctx_organizationId ctx)) \<and> field v ''employeeId'' = Some (JString (ctx_employeeId ctx))
        \<and> field v ''deviceId'' = Some (JString (ctx_deviceId ctx)))
     (forbidden ''The mobile device context does not match the credential'')"

section \<open>The audit trail\<close>

definition audit :: "string \<Rightarrow> (string \<Rightarrow> string \<Rightarrow> audit_event) \<Rightarrow> unit app" where
  "audit ts ev = andThen (app_id ''audit'') (\<lambda>i. appendAuditEvent (ev ts i))"

definition user_event ::
  "actor_context \<Rightarrow> string option \<Rightarrow> string \<Rightarrow> audit_entity \<Rightarrow> string \<Rightarrow> json_record \<Rightarrow> string \<Rightarrow> string \<Rightarrow> audit_event" where
  "user_event actor requestId action entity entityId metadata ts i =
     \<lparr>au_id = i, au_organizationId = org_id (actor_organization actor), au_actorUserId = Some (user_id (actor_user actor)),
      au_actorDeviceId = None, au_requestId = requestId, au_action = action, au_entityType = entity, au_entityId = entityId,
      au_occurredAt = ts, au_metadata = metadata\<rparr>"

definition device_event ::
  "string \<Rightarrow> string \<Rightarrow> string \<Rightarrow> audit_entity \<Rightarrow> json_record \<Rightarrow> string \<Rightarrow> string \<Rightarrow> audit_event" where
  "device_event orgId deviceId action entity metadata ts i =
     \<lparr>au_id = i, au_organizationId = orgId, au_actorUserId = None, au_actorDeviceId = Some deviceId, au_requestId = None,
      au_action = action, au_entityType = entity, au_entityId = deviceId, au_occurredAt = ts, au_metadata = metadata\<rparr>"

end
