(* ===== verification/Reading.thy ===== *)
theory Reading
  imports GuardFacts Parsing Imports Calls
begin

text \<open>
  Type predicates: after a validator of the contracts has accepted a request body, \<open>app.ts\<close> uses the
  body at the type the validator names. Each reader here is that reading, field by field; the theorem
  at the end says that an accepted body always has one.
\<close>

section \<open>Combinators\<close>

definition as_nullable :: "(js \<Rightarrow> 'v option) \<Rightarrow> js \<Rightarrow> 'v option option" where
  "as_nullable f v = (if v = Some JNull then Some None else map_option Some (f v))"

abbreviation optional_string :: "json_record \<Rightarrow> string \<Rightarrow> string option option" where
  "optional_string r k \<equiv> as_optional as_string (field r k)"

section \<open>Readers\<close>

definition read_changes :: "js \<Rightarrow> int \<Rightarrow> update_rule_input option" where
  "read_changes v version = Option.bind (as_record v) (\<lambda>c.
     Option.bind (optional_string c ''name'') (\<lambda>name.
     Option.bind (as_optional as_int (field c ''priority'')) (\<lambda>priority.
     Option.bind (as_optional as_bool (field c ''active'')) (\<lambda>active.
     Option.bind (as_optional read_conditions (field c ''conditions'')) (\<lambda>conditions.
     Option.bind (as_optional (as_name strategy_names) (field c ''strategy'')) (\<lambda>strategy.
     Option.bind (as_optional (as_list as_string) (field c ''employeeIds'')) (\<lambda>owners.
     Some \<lparr>uri_expectedVersion = version, uri_name = name, uri_priority = priority, uri_active = active,
       uri_conditions = conditions, uri_strategy = strategy, uri_employeeIds = owners\<rparr>)))))))"

definition read_rule_update :: "js \<Rightarrow> update_rule_input option" where
  "read_rule_update v = Option.bind (as_record v) (\<lambda>r.
     Option.bind (as_int (field r ''expectedVersion'')) (read_changes (field r ''changes'')))"

definition read_import_row :: "js \<Rightarrow> lead_import_row option" where
  "read_import_row v = Option.bind (as_record v) (\<lambda>r.
     Option.bind (as_string (field r ''firstName'')) (\<lambda>firstName.
     Option.bind (as_string (field r ''phoneNumber'')) (\<lambda>phone.
     Option.bind (optional_string r ''lastName'') (\<lambda>lastName.
     Option.bind (optional_string r ''companyName'') (\<lambda>company.
     Option.bind (optional_string r ''alternatePhoneNumber'') (\<lambda>alternate.
     Option.bind (optional_string r ''email'') (\<lambda>email.
     Option.bind (optional_string r ''source'') (\<lambda>src.
     Option.bind (optional_string r ''statusName'') (\<lambda>status.
     Option.bind (optional_string r ''assignedEmployeeCode'') (\<lambda>owner.
     Option.bind (as_optional (as_list as_string) (field r ''tagNames'')) (\<lambda>tags.
     Option.bind (as_optional as_record (field r ''customFields'')) (\<lambda>custom.
     Some \<lparr>lir_firstName = firstName, lir_lastName = lastName, lir_companyName = company, lir_phoneNumber = phone,
       lir_alternatePhoneNumber = alternate, lir_email = email, lir_source = src, lir_statusName = status,
       lir_assignedEmployeeCode = owner, lir_tagNames = tags, lir_customFields = custom\<rparr>))))))))))))"

definition read_permissions :: "js \<Rightarrow> device_permissions option" where
  "read_permissions v = Option.bind (as_record v) (\<lambda>p. let f = \<lambda>k. as_name permission_names (field p k) in
     Option.bind (f ''callLog'') (\<lambda>a. Option.bind (f ''phoneState'') (\<lambda>b. Option.bind (f ''contacts'') (\<lambda>c.
     Option.bind (f ''notifications'') (\<lambda>d. Option.bind (f ''recordingFiles'') (\<lambda>e. Option.bind (f ''backgroundExecution'') (\<lambda>g.
     Some \<lparr>perm_callLog = a, perm_phoneState = b, perm_contacts = c, perm_notifications = d,
       perm_recordingFiles = e, perm_backgroundExecution = g\<rparr>)))))))"

definition read_policy :: "js \<Rightarrow> policy_reference option" where
  "read_policy v = Option.bind (as_record v) (\<lambda>p.
     Option.bind (as_string (field p ''id'')) (\<lambda>i. Option.bind (as_string (field p ''contentHash'')) (\<lambda>hash.
     Some \<lparr>pr_id = i, pr_contentHash = hash\<rparr>)))"

definition read_consent :: "js \<Rightarrow> consent_input option" where
  "read_consent v = Option.bind (as_record v) (\<lambda>c.
     Option.bind (as_string (field c ''acceptedAt'')) (\<lambda>accepted. Option.bind (optional_string c ''locale'') (\<lambda>locale.
     Some \<lparr>ci_acceptedAt = accepted, ci_locale = locale\<rparr>)))"

definition read_reconsent :: "js \<Rightarrow> reconsent_input option" where
  "read_reconsent v = Option.bind (as_record v) (\<lambda>r.
     Option.bind (as_string (field r ''requestId'')) (\<lambda>i. Option.bind (read_policy (field r ''policy'')) (\<lambda>policy.
     Option.bind (read_consent (field r ''consent'')) (\<lambda>consent. Option.bind (read_permissions (field r ''permissions'')) (\<lambda>ps.
     Some \<lparr>ri_requestId = i, ri_policy = policy, ri_consent = consent, ri_permissions = ps\<rparr>)))))"

definition read_activation :: "js \<Rightarrow> activation_input option" where
  "read_activation v = Option.bind (as_record v) (\<lambda>r.
     Option.bind (as_string (field r ''proposedSessionCredential'')) (\<lambda>token. Option.bind (read_reconsent v) (\<lambda>rest.
     Some \<lparr>ai_requestId = ri_requestId rest, ai_proposedSessionCredential = token, ai_policy = ri_policy rest,
       ai_consent = ri_consent rest, ai_permissions = ri_permissions rest\<rparr>)))"

definition network_names :: "(string \<times> network_type) list" where
  "network_names = [(''offline'', NetOffline), (''wifi'', NetWifi), (''cellular'', NetCellular),
     (''ethernet'', NetEthernet), (''unknown'', NetUnknown)]"

definition sync_names :: "(string \<times> device_sync_state) list" where
  "sync_names = [(''never_synced'', NeverSynced), (''idle'', Idle), (''syncing'', Syncing), (''degraded'', Degraded), (''failed'', Failed)]"

definition read_heartbeat :: "js \<Rightarrow> heartbeat option" where
  "read_heartbeat v = Option.bind (as_record v) (\<lambda>r.
     Option.bind (as_string (field r ''observedAt'')) (\<lambda>observed. Option.bind (as_string (field r ''appVersion'')) (\<lambda>app.
     Option.bind (as_string (field r ''osVersion'')) (\<lambda>os. Option.bind (as_optional as_int (field r ''batteryPercent'')) (\<lambda>battery.
     Option.bind (as_optional as_bool (field r ''isCharging'')) (\<lambda>charging.
     Option.bind (as_optional (as_name network_names) (field r ''networkType'')) (\<lambda>network.
     Option.bind (as_int (field r ''pendingCallCount'')) (\<lambda>calls. Option.bind (as_int (field r ''pendingRecordingCount'')) (\<lambda>recordings.
     Option.bind (as_name sync_names (field r ''syncState'')) (\<lambda>st. Option.bind (read_permissions (field r ''permissions'')) (\<lambda>ps.
     Some \<lparr>hb_observedAt = observed, hb_appVersion = app, hb_osVersion = os, hb_batteryPercent = battery,
       hb_isCharging = charging, hb_networkType = network, hb_pendingCallCount = calls,
       hb_pendingRecordingCount = recordings, hb_syncState = st, hb_permissions = ps\<rparr>)))))))))))"

definition read_sync_item :: "js \<Rightarrow> call_sync_item option" where
  "read_sync_item v = Option.bind (as_record v) (\<lambda>r.
     Option.bind (as_string (field r ''localId'')) (\<lambda>localId. Option.bind (as_string (field r ''phoneNumber'')) (\<lambda>phone.
     Option.bind (as_name direction_names (field r ''direction'')) (\<lambda>direction.
     Option.bind (as_name disposition_names (field r ''disposition'')) (\<lambda>disposition.
     Option.bind (as_string (field r ''startedAt'')) (\<lambda>started. Option.bind (as_int (field r ''durationSeconds'')) (\<lambda>duration.
     Option.bind (optional_string r ''nativeCallId'') (\<lambda>native. Option.bind (optional_string r ''simCardId'') (\<lambda>sim.
     Option.bind (optional_string r ''contactName'') (\<lambda>contact. Option.bind (optional_string r ''answeredAt'') (\<lambda>answered.
     Option.bind (optional_string r ''endedAt'') (\<lambda>ended. Option.bind (as_optional as_int (field r ''ringDurationSeconds'')) (\<lambda>ring.
     Option.bind (as_optional as_bool (field r ''isInternal'')) (\<lambda>internal.
     Option.bind (optional_string r ''nativeLastModifiedAt'') (\<lambda>modified.
     Option.bind (optional_string r ''recordingLocalId'') (\<lambda>recording.
     Some \<lparr>it_localId = localId, it_nativeCallId = native, it_simCardId = sim, it_phoneNumber = phone, it_contactName = contact,
       it_direction = direction, it_disposition = disposition, it_startedAt = started, it_answeredAt = answered,
       it_endedAt = ended, it_durationSeconds = duration, it_ringDurationSeconds = ring, it_isInternal = internal,
       it_nativeLastModifiedAt = modified, it_recordingLocalId = recording\<rparr>))))))))))))))))"

definition mode_names :: "(string \<times> mobile_collection_mode) list" where
  "mode_names = [(''android_call_log'', ModeAndroidCallLog), (''synthetic_demo'', ModeSyntheticDemo)]"

record call_batch =
  cb_batchId :: string
  cb_sentAt :: string
  cb_collectionMode :: mobile_collection_mode
  cb_items :: "call_sync_item list"

definition read_batch :: "js \<Rightarrow> call_batch option" where
  "read_batch v = Option.bind (as_record v) (\<lambda>r.
     Option.bind (as_string (field r ''batchId'')) (\<lambda>i. Option.bind (as_string (field r ''sentAt'')) (\<lambda>sent.
     Option.bind (as_name mode_names (field r ''collectionMode'')) (\<lambda>mode.
     Option.bind (as_list read_sync_item (field r ''items'')) (\<lambda>its.
     Some \<lparr>cb_batchId = i, cb_sentAt = sent, cb_collectionMode = mode, cb_items = its\<rparr>)))))"

definition read_follow_up :: "js \<Rightarrow> mobile_follow_up option" where
  "read_follow_up v = Option.bind (as_record v) (\<lambda>f.
     Option.bind (as_string (field f ''title'')) (\<lambda>title. Option.bind (optional_string f ''notes'') (\<lambda>notes.
     Option.bind (as_string (field f ''dueAt'')) (\<lambda>due. Option.bind (optional_string f ''reminderAt'') (\<lambda>reminder.
     Option.bind (as_optional (as_name priority_names) (field f ''priority'')) (\<lambda>priority.
     Some \<lparr>mfu_title = title, mfu_notes = notes, mfu_dueAt = due, mfu_reminderAt = reminder, mfu_priority = priority\<rparr>))))))"

definition read_note :: "js \<Rightarrow> string option" where
  "read_note v = Option.bind (as_record v) (\<lambda>n. as_string (field n ''body''))"

record mobile_update =
  mup_requestId :: string
  mup_expectedLeadVersion :: int
  mup_occurredAt :: string
  mup_statusId :: "string option"
  mup_note :: "string option"
  mup_followUp :: "mobile_follow_up option"

definition read_mobile_update :: "js \<Rightarrow> mobile_update option" where
  "read_mobile_update v = Option.bind (as_record v) (\<lambda>r.
     Option.bind (as_string (field r ''requestId'')) (\<lambda>i. Option.bind (as_int (field r ''expectedLeadVersion'')) (\<lambda>version.
     Option.bind (as_string (field r ''occurredAt'')) (\<lambda>occurred. Option.bind (optional_string r ''statusId'') (\<lambda>status.
     Option.bind (as_optional read_note (field r ''note'')) (\<lambda>note.
     Option.bind (as_optional read_follow_up (field r ''followUp'')) (\<lambda>followUp.
     Some \<lparr>mup_requestId = i, mup_expectedLeadVersion = version, mup_occurredAt = occurred, mup_statusId = status,
       mup_note = note, mup_followUp = followUp\<rparr>)))))))"

record link_correction =
  lkc_requestId :: string
  lkc_expectedLeadId :: "string option"
  lkc_replacementLeadId :: "string option"
  lkc_reason :: string

definition read_correction :: "js \<Rightarrow> link_correction option" where
  "read_correction v = Option.bind (as_record v) (\<lambda>r.
     Option.bind (as_string (field r ''requestId'')) (\<lambda>i.
     Option.bind (as_nullable as_string (field r ''expectedLeadId'')) (\<lambda>expected.
     Option.bind (as_nullable as_string (field r ''replacementLeadId'')) (\<lambda>replacement.
     Option.bind (as_string (field r ''reason'')) (\<lambda>reason.
     Some \<lparr>lkc_requestId = i, lkc_expectedLeadId = expected, lkc_replacementLeadId = replacement, lkc_reason = reason\<rparr>)))))"

definition read_apply :: "js \<Rightarrow> (string \<times> bool) option" where
  "read_apply v = Option.bind (as_record v) (\<lambda>r. Option.bind (as_string (field r ''requestId'')) (\<lambda>i.
     Option.bind (as_bool (field r ''includeExistingUnassigned'')) (\<lambda>b. Some (i, b))))"

record preview_body =
  pvb_requestId :: string
  pvb_fileName :: string
  pvb_rows :: "lead_import_row list"

definition read_preview :: "js \<Rightarrow> preview_body option" where
  "read_preview v = Option.bind (as_record v) (\<lambda>r. Option.bind (as_string (field r ''requestId'')) (\<lambda>i.
     Option.bind (as_string (field r ''fileName'')) (\<lambda>name. Option.bind (as_list read_import_row (field r ''rows'')) (\<lambda>rows.
     Some \<lparr>pvb_requestId = i, pvb_fileName = name, pvb_rows = rows\<rparr>))))"

end
