(* ===== verification/ActorRoutes.thy ===== *)
theory ActorRoutes
  imports Http Reading Csv
begin

text \<open>
  The routes of \<open>app.ts\<close> that act for a signed-in user, first part: sessions, employees, the lead
  workspace, lead imports and assignment rules. Each definition is one route: its hooks, then its
  handler, in the order of the source.
\<close>

section \<open>Shared pieces\<close>

abbreviation org_of :: "actor_context \<Rightarrow> string" where
  "org_of actor \<equiv> org_id (actor_organization actor)"

abbreviation user_of :: "actor_context \<Rightarrow> string" where
  "user_of actor \<equiv> user_id (actor_user actor)"

text \<open>A query value, a path parameter, and the body as a record.\<close>

definition query_string :: "http_request \<Rightarrow> string \<Rightarrow> string option app" where
  "query_string rq k = pure (optionalQueryString (field (rq_query rq) k) k)"

definition path_param :: "http_request \<Rightarrow> string \<Rightarrow> nat \<Rightarrow> string app" where
  "path_param rq k most = pure (requiredString most (field (rq_params rq) k) k)"

definition body_of :: "http_request \<Rightarrow> json_record app" where
  "body_of rq = pure (bodyRecord (rq_body rq))"

definition limit_of :: "environment \<Rightarrow> http_request \<Rightarrow> nat \<Rightarrow> nat \<Rightarrow> nat app" where
  "limit_of en rq fallback most =
     andThen (pure (integerQuery (en_runtime en) (field (rq_query rq) ''limit'') ''limit'' fallback most)) (\<lambda>n. give (nat n))"

text \<open>\<open>if (!isT(request.body)) throw badRequest(\<dots>)\<close>, then the body at its type.\<close>

definition narrow :: "bool \<Rightarrow> 'v option \<Rightarrow> string \<Rightarrow> 'v app" where
  "narrow accepted v msg = andThen (require accepted (badRequest msg None)) (\<lambda>_. found v (JsError ''unreadable body''))"

section \<open>Cursors\<close>

record page_info =
  pg_hasMore :: bool
  pg_nextCursor :: "string option"

definition falsy :: "json \<Rightarrow> bool" where
  "falsy v = (v = JNull \<or> v = JString [] \<or> v = JBool False \<or> v = JNum 0)"

text \<open>A decoded cursor carries the sort key of a listing under \<open>k\<close>, which must pass \<open>ok\<close>, and an identifier.\<close>

definition read_cursor :: "string \<Rightarrow> (js \<Rightarrow> bool) \<Rightarrow> json \<Rightarrow> thrown + (string \<times> string) option" where
  "read_cursor k ok v =
     (if falsy v then Inr None
      else case as_record (Some v) of
        None \<Rightarrow> Inl (cursor_refused ''The cursor payload is invalid'')
      | Some c \<Rightarrow> if ok (field c k) \<and> isNonEmptyString (field c ''id'')
          then Inr (Some (or_empty (as_string (field c k)), or_empty (as_string (field c ''id''))))
          else Inl (cursor_refused ''The cursor payload is invalid''))"

definition cursor_query ::
  "environment \<Rightarrow> http_request \<Rightarrow> string \<Rightarrow> string \<Rightarrow> string \<Rightarrow> (js \<Rightarrow> bool) \<Rightarrow> (string \<times> string) option app" where
  "cursor_query en rq kind orgId k ok =
     andThen (query_string rq ''cursor'') (\<lambda>c. case c of
         None \<Rightarrow> give None
       | Some text' \<Rightarrow> pure (attempt (decode_cursor (en_primitives en) (en_secret en) text' kind orgId) (read_cursor k ok)))"

definition page_info_of :: "environment \<Rightarrow> string \<Rightarrow> string \<Rightarrow> string \<Rightarrow> bool \<Rightarrow> (string \<times> string) list \<Rightarrow> page_info" where
  "page_info_of en kind orgId k further keys = \<lparr>pg_hasMore = further,
     pg_nextCursor = (if further \<and> keys \<noteq> [] then Some (encode_cursor (en_primitives en) (en_secret en) kind orgId
       (JObject [(k, JString (fst (last keys))), (''id'', JString (snd (last keys)))])) else None)\<rparr>"

section \<open>Sessions\<close>

record session_view =
  sw_userId :: string
  sw_displayName :: string
  sw_email :: string
  sw_organizationId :: string
  sw_organizationName :: string
  sw_role :: system_role_key
  sw_permissions :: "permission list"

definition session_of :: "actor_context \<Rightarrow> session_view" where
  "session_of actor = \<lparr>sw_userId = user_of actor, sw_displayName = user_displayName (actor_user actor),
     sw_email = user_email (actor_user actor), sw_organizationId = org_of actor,
     sw_organizationName = org_name (actor_organization actor), sw_role = actor_roleKey actor, sw_permissions = actor_permissions actor\<rparr>"

definition get_session :: "environment \<Rightarrow> http_request \<Rightarrow> session_view reply app" where
  "get_session en rq = andThen (authenticate en rq) (\<lambda>actor. reply_ok (session_of actor))"

record issued_session =
  iss_accessToken :: string
  iss_expiresAt :: string
  iss_actor :: session_view

definition issue_session :: "environment \<Rightarrow> actor_context \<Rightarrow> issued_session reply app" where
  "issue_session en actor =
     andThen (clock_now en) (\<lambda>now. let t = issue_token (en_primitives en) (token_service_of en) now (user_of actor) (org_of actor)
       in reply_ok \<lparr>iss_accessToken = fst t, iss_expiresAt = snd t, iss_actor = session_of actor\<rparr>)"

definition route_missing :: thrown where
  "route_missing = notFound ''Route not found''"

definition post_dev_session :: "environment \<Rightarrow> http_request \<Rightarrow> issued_session reply app" where
  "post_dev_session en rq =
     andThen (require (\<not> cf_production (en_config en) \<and> cf_enableDevAuth (en_config en)) route_missing) (\<lambda>_.
     andThen (body_of rq) (\<lambda>body.
     andThen (pure (requiredString 100 (field body ''organizationId'') ''organizationId'')) (\<lambda>orgId.
     andThen (pure (asRole (field body ''role''))) (\<lambda>role.
     andThen (look (findDevelopmentActor orgId role)) (\<lambda>actor.
     andThen (found actor (notFound ''Development actor not found'')) (issue_session en))))))"

definition default_organization :: string where
  "default_organization = ''00000000-0000-4000-8000-000000000001''"

text \<open>Digests are compared by length and then by content; the configured one is a digest by validation.\<close>

definition post_builtin_session :: "environment \<Rightarrow> http_request \<Rightarrow> issued_session reply app" where
  "post_builtin_session en rq =
     andThen (require (cf_builtinAuth (en_config en)) route_missing) (\<lambda>_.
     andThen (body_of rq) (\<lambda>body.
     andThen (pure (requiredString 512 (field body ''accessKey'') ''accessKey'')) (\<lambda>key.
     andThen (require (map ascii_lower (pr_sha256 (en_primitives en) key) = map ascii_lower (cf_builtinAuthKeyHash (en_config en)))
       (unauthenticated ''The access key is invalid'')) (\<lambda>_.
     andThen (pure (requiredString 100 (or_else (field body ''organizationId'') (JString default_organization)) ''organizationId'')) (\<lambda>orgId.
     andThen (look (findDevelopmentActor orgId RoleOwner)) (\<lambda>actor.
     andThen (found actor (notFound ''Built-in administrator is unavailable'')) (issue_session en)))))))"

section \<open>Employees\<close>

record 'x listing =
  lst_items :: "'x list"
  lst_cursorInfo :: page_info

definition status_query :: "http_request \<Rightarrow> employee_status option app" where
  "status_query rq = andThen (query_string rq ''status'') (\<lambda>s. pure (asEmployeeStatus (map_option JString s)))"

definition get_employees :: "environment \<Rightarrow> http_request \<Rightarrow> employee listing reply app" where
  "get_employees en rq =
     andThen (protectOrganizationRead en employees_read rq) (\<lambda>actor.
     andThen (limit_of en rq 50 100) (\<lambda>limit.
     andThen (cursor_query en rq ''employees'' (org_of actor) ''displayName'' isNonEmptyString) (\<lambda>after.
     andThen (query_string rq ''search'') (\<lambda>search.
     andThen (query_string rq ''team'') (\<lambda>team.
     andThen (status_query rq) (\<lambda>status.
     andThen (look (listEmployees (en_host en) (org_of actor) \<lparr>ef_search = search, ef_status = status, ef_team = team\<rparr>
       (map_option (\<lambda>(name, i). \<lparr>ec_displayName = name, ec_id = i\<rparr>) after) limit)) (\<lambda>(items, further).
     reply_ok \<lparr>lst_items = presentEmployees actor items,
       lst_cursorInfo = page_info_of en ''employees'' (org_of actor) ''displayName'' further
         (map (\<lambda>e. (emp_displayName e, emp_id e)) items)\<rparr>)))))))"

definition post_employee :: "environment \<Rightarrow> http_request \<Rightarrow> employee reply app" where
  "post_employee en rq =
     andThen (protectOrganizationAdmin en employees_manage rq) (\<lambda>actor.
     andThen (body_of rq) (\<lambda>body.
     andThen (pure (parseCreateEmployeeInput (en_runtime en) body)) (\<lambda>input.
     andThen (consult (\<lambda>s. check (\<not> truthy (cei_managerEmployeeId input)
         \<or> findEmployee (org_of actor) (or_empty (cei_managerEmployeeId input)) s \<noteq> None)
       (badRequest ''managerEmployeeId does not belong to this organization'' (Some ''managerEmployeeId'')))) (\<lambda>_.
     andThen (now_iso en) (\<lambda>ts.
     andThen (act (createEmployee (org_of actor) input (user_of actor) ts)) (\<lambda>e.
     andThen (audit ts (user_event actor None ''employee.created'' AuEmployee (emp_id e)
       [(''displayName'', JString (emp_displayName e))])) (\<lambda>_.
     reply_created e)))))))"

definition post_suspend :: "environment \<Rightarrow> http_request \<Rightarrow> employee reply app" where
  "post_suspend en rq =
     andThen (protectOrganizationAdmin en employees_manage rq) (\<lambda>actor.
     andThen (path_param rq ''employeeId'' 100) (\<lambda>employeeId.
     andThen (now_iso en) (\<lambda>ts.
     andThen (act (suspendEmployee (org_of actor) employeeId (user_of actor) ts)) (\<lambda>e.
     andThen (found e (notFound ''Employee not found'')) (\<lambda>e.
     andThen (audit ts (user_event actor None ''employee.suspended'' AuEmployee (emp_id e) [])) (\<lambda>_.
     reply_ok e))))))"

section \<open>The lead workspace\<close>

definition get_lead_statuses :: "environment \<Rightarrow> http_request \<Rightarrow> lead_status list reply app" where
  "get_lead_statuses en rq =
     andThen (protect en leads_read rq) (\<lambda>actor. andThen (look (listLeadStatuses (en_host en) (org_of actor))) reply_ok)"

definition owner_filter :: "string option \<Rightarrow> employee_filter" where
  "owner_filter team = \<lparr>ef_search = None, ef_status = Some EmpActive, ef_team = team\<rparr>"

definition owner_candidates :: "host \<Rightarrow> actor_context \<Rightarrow> app_state \<Rightarrow> employee list" where
  "owner_candidates h actor s = (case actor_leadScope actor of
      ScopeOrganization \<Rightarrow> fst (listEmployees h (org_of actor) (owner_filter None) None 100 s)
    | ScopeTeams names \<Rightarrow> concat (map (\<lambda>team. fst (listEmployees h (org_of actor) (owner_filter (Some team)) None 100 s)) names)
    | ScopeAssigned i \<Rightarrow> if i = [] then [] else (case findEmployee (org_of actor) i s of
          None \<Rightarrow> [] | Some e \<Rightarrow> if emp_status e = EmpActive then [e] else []))"

text \<open>\<open>[...new Map(es.map((e) => [e.id, e])).values()]\<close>, sorted and projected.\<close>

definition owner_view :: "host \<Rightarrow> employee list \<Rightarrow> lead_owner_summary list" where
  "owner_view h es = map (\<lambda>e. \<lparr>own_id = emp_id e, own_displayName = emp_displayName e, own_team = emp_team e\<rparr>)
     (js_sort (employee_order h) (map_values (fold (\<lambda>e. map_set (emp_id e) e) es [])))"

definition get_lead_owners :: "environment \<Rightarrow> http_request \<Rightarrow> lead_owner_summary list reply app" where
  "get_lead_owners en rq =
     andThen (protect en leads_read rq) (\<lambda>actor.
     andThen (look (owner_candidates (en_host en) actor)) (\<lambda>es. reply_ok (owner_view (en_host en) es)))"

record leads_page = "lead_list_item listing" +
  lpg_summary :: lead_queue_summary
  lpg_generatedAt :: string
  lpg_timeZone :: "string option"

definition queue_names :: "(string \<times> lead_queue_key) list" where
  "queue_names = [(''all'', QueueAll), (''not_contacted'', QueueNotContacted), (''overdue'', QueueOverdue),
     (''unreturned_calls'', QueueUnreturnedCalls)]"

definition queue_query :: "http_request \<Rightarrow> lead_queue_key app" where
  "queue_query rq = andThen (query_string rq ''queue'') (\<lambda>q.
     found (map_of queue_names (case q of None \<Rightarrow> ''all'' | Some s \<Rightarrow> s)) (badRequest ''queue is invalid'' (Some ''queue'')))"

definition search_query :: "http_request \<Rightarrow> string option app" where
  "search_query rq = andThen (query_string rq ''search'') (\<lambda>q.
     andThen (require (length (or_empty q) \<le> 160) (badRequest ''search must not exceed 160 characters'' (Some ''search''))) (\<lambda>_. give q))"

definition lead_cursor_query :: "environment \<Rightarrow> http_request \<Rightarrow> string \<Rightarrow> string \<Rightarrow> lead_cursor option app" where
  "lead_cursor_query en rq kind orgId =
     andThen (cursor_query en rq kind orgId ''createdAt'' (isIsoDateTime (en_host en))) (\<lambda>c.
     give (map_option (\<lambda>(created, i). \<lparr>lc_createdAt = created, lc_id = i\<rparr>) c))"

definition leads_page_of :: "environment \<Rightarrow> string \<Rightarrow> string \<Rightarrow> string \<Rightarrow> string option \<Rightarrow> lead_list_result \<Rightarrow> leads_page" where
  "leads_page_of en kind orgId ts zone res =
     \<lparr>lst_items = llr_items res,
      lst_cursorInfo = page_info_of en kind orgId ''createdAt'' (llr_hasMore res)
        (map (\<lambda>it. (createdAt (li_lead it), lead_id (li_lead it))) (llr_items res)),
      lpg_summary = llr_summary res, lpg_generatedAt = ts, lpg_timeZone = zone\<rparr>"

definition get_leads :: "environment \<Rightarrow> http_request \<Rightarrow> leads_page reply app" where
  "get_leads en rq =
     andThen (protect en leads_read rq) (\<lambda>actor.
     andThen (limit_of en rq 50 100) (\<lambda>limit.
     andThen (lead_cursor_query en rq ''leads'' (org_of actor)) (\<lambda>after.
     andThen (queue_query rq) (\<lambda>queue.
     andThen (search_query rq) (\<lambda>search.
     andThen (query_string rq ''statusId'') (\<lambda>status.
     andThen (query_string rq ''assignedEmployeeId'') (\<lambda>owner.
     andThen (now_iso en) (\<lambda>ts.
     andThen (consult (listLeads (en_host en) (org_of actor) (actor_leadScope actor)
       \<lparr>lf_search = search, lf_statusId = status, lf_assignedEmployeeId = owner, lf_queue = queue\<rparr> after limit ts)) (\<lambda>res.
     reply_ok (leads_page_of en ''leads'' (org_of actor) ts
       (Some (set_timeZone (org_settings (actor_organization actor)))) res))))))))))"

definition get_lead :: "environment \<Rightarrow> http_request \<Rightarrow> lead_detail reply app" where
  "get_lead en rq =
     andThen (protect en leads_read rq) (\<lambda>actor.
     andThen (path_param rq ''leadId'' 100) (\<lambda>leadId.
     andThen (now_iso en) (\<lambda>ts.
     andThen (consult (findLeadDetail (en_host en) (org_of actor) (actor_leadScope actor) leadId ts)) (\<lambda>d.
     andThen (found d (notFound ''Lead not found'')) reply_ok))))"

end
