(* ===== verification/WorkRoutes.thy ===== *)
theory WorkRoutes
  imports ActorRoutes
begin

text \<open>
  The routes of \<open>app.ts\<close> that change the lead workspace for a signed-in user: leads, notes,
  follow-ups, lead imports and assignment rules.
\<close>

text \<open>The spelling of an enumeration's value.\<close>

definition spelled :: "(string \<times> 'v) list \<Rightarrow> 'v \<Rightarrow> json" where
  "spelled names x = JString (case find (\<lambda>e. snd e = x) names of None \<Rightarrow> [] | Some e \<Rightarrow> fst e)"

definition count_json :: "nat \<Rightarrow> json" where
  "count_json n = JNum (of_nat n)"

definition int_json :: "int \<Rightarrow> json" where
  "int_json i = JNum (of_int i)"

section \<open>Leads\<close>

text \<open>An agent creates leads for the linked employee only; a manager must name the owner.\<close>

definition scoped_input :: "lead_access_scope \<Rightarrow> create_lead_input \<Rightarrow> thrown + create_lead_input" where
  "scoped_input scope input = (case scope of
      ScopeAssigned i \<Rightarrow>
        if i = [] then Inl (forbidden ''No active employee profile is linked to this user'')
        else if truthy (cli_assignedEmployeeId input) \<and> cli_assignedEmployeeId input \<noteq> Some i then Inl no_permission
        else Inr (input\<lparr>cli_assignedEmployeeId := Some i\<rparr>)
    | ScopeTeams _ \<Rightarrow>
        if truthy (cli_assignedEmployeeId input) then Inr input
        else Inl (badRequest ''assignedEmployeeId is required for a team-scoped lead'' (Some ''assignedEmployeeId''))
    | ScopeOrganization \<Rightarrow> Inr input)"

definition lead_metadata :: "lead \<Rightarrow> json_record" where
  "lead_metadata l = [(''source'', spelled source_names (lead_source l)), (''statusId'', JString (lead_statusId l)),
     (''assignedEmployeeId'', json_or_null (lead_assignedEmployeeId l))]"

definition post_lead :: "environment \<Rightarrow> http_request \<Rightarrow> lead_detail reply app" where
  "post_lead en rq =
     andThen (protect en leads_manage rq) (\<lambda>actor.
     andThen (body_of rq) (\<lambda>body.
     andThen (pure (attempt (parseCreateLeadInput (en_runtime en) body) (scoped_input (actor_leadScope actor)))) (\<lambda>input.
     andThen (now_iso en) (\<lambda>ts.
     andThen (createLead (en_host en) \<lparr>clo_organizationId = org_of actor, clo_scope = actor_leadScope actor,
       clo_actorUserId = user_of actor, clo_input = input, clo_at = ts\<rparr>) (\<lambda>d.
     andThen (found d (badRequest ''The status or assigned employee is not available in your lead scope'' None)) (\<lambda>d.
     andThen (audit ts (user_event actor None ''lead.created'' AuLead (lead_id (li_lead (ld_item d)))
       (lead_metadata (li_lead (ld_item d))))) (\<lambda>_.
     reply_created d)))))))"

definition update_metadata :: "lead \<Rightarrow> lead \<Rightarrow> json_record" where
  "update_metadata old new = [(''oldVersion'', int_json (lead_version old)), (''newVersion'', int_json (lead_version new)),
     (''oldStatusId'', JString (lead_statusId old)), (''newStatusId'', JString (lead_statusId new)),
     (''oldAssignedEmployeeId'', json_or_null (lead_assignedEmployeeId old)),
     (''newAssignedEmployeeId'', json_or_null (lead_assignedEmployeeId new))]"

definition patch_lead :: "environment \<Rightarrow> http_request \<Rightarrow> lead_detail reply app" where
  "patch_lead en rq =
     andThen (protect en leads_manage rq) (\<lambda>actor.
     andThen (path_param rq ''leadId'' 100) (\<lambda>leadId.
     andThen (body_of rq) (\<lambda>body.
     andThen (pure (parseUpdateLeadRequest (en_runtime en) body)) (\<lambda>update.
     let canAssign = leads_assign \<in> set (actor_permissions actor) in
     andThen (require (uli_assignedEmployeeId (ulr_changes update) = None \<or> canAssign)
       (forbidden ''Lead assignment permission is required'')) (\<lambda>_.
     andThen (now_iso en) (\<lambda>ts.
     andThen (consult (findLeadDetail (en_host en) (org_of actor) (actor_leadScope actor) leadId ts)) (\<lambda>before.
     andThen (found before (notFound ''Lead not found'')) (\<lambda>before.
     andThen (updateLead (en_host en) \<lparr>ulo_organizationId = org_of actor, ulo_scope = actor_leadScope actor, ulo_leadId = leadId,
       ulo_actorUserId = user_of actor, ulo_canAssign = canAssign, ulo_request = update, ulo_at = ts\<rparr>) (\<lambda>d.
     andThen (found d (notFound ''Lead not found'')) (\<lambda>d.
     andThen (audit ts (user_event actor None ''lead.updated'' AuLead leadId
       (update_metadata (li_lead (ld_item before)) (li_lead (ld_item d))))) (\<lambda>_.
     reply_ok d)))))))))))"

definition post_note :: "environment \<Rightarrow> http_request \<Rightarrow> lead_detail reply app" where
  "post_note en rq =
     andThen (protect en leads_manage rq) (\<lambda>actor.
     andThen (path_param rq ''leadId'' 100) (\<lambda>leadId.
     andThen (body_of rq) (\<lambda>body.
     andThen (pure (parseCreateLeadNoteInput body)) (\<lambda>input.
     andThen (now_iso en) (\<lambda>ts.
     andThen (createLeadNote (en_host en) \<lparr>cno_organizationId = org_of actor, cno_scope = actor_leadScope actor, cno_leadId = leadId,
       cno_actorUserId = user_of actor, cno_input = input, cno_at = ts\<rparr>) (\<lambda>d.
     andThen (found d (notFound ''Lead not found'')) (\<lambda>d.
     andThen (audit ts (user_event actor None ''lead.note_added'' AuLead leadId
       [(''isPinned'', JBool (cni_isPinned input = Some True))])) (\<lambda>_.
     reply_created d))))))))"

definition post_follow_up :: "environment \<Rightarrow> http_request \<Rightarrow> lead_detail reply app" where
  "post_follow_up en rq =
     andThen (protect en leads_manage rq) (\<lambda>actor.
     andThen (path_param rq ''leadId'' 100) (\<lambda>leadId.
     andThen (body_of rq) (\<lambda>body.
     andThen (pure (parseCreateFollowUpInput (en_runtime en) body)) (\<lambda>input.
     andThen (require (cfi_leadId input = leadId) (badRequest ''leadId must match the route'' (Some ''leadId''))) (\<lambda>_.
     andThen (now_iso en) (\<lambda>ts.
     andThen (createLeadFollowUp (en_host en) \<lparr>cfo_organizationId = org_of actor, cfo_scope = actor_leadScope actor,
       cfo_leadId = leadId, cfo_actorUserId = user_of actor, cfo_input = input, cfo_at = ts\<rparr>) (\<lambda>d.
     andThen (found d (notFound ''Lead or assigned employee not found'')) (\<lambda>d.
     andThen (found (find (\<lambda>f. createdAt f = ts \<and> fu_assignedEmployeeId f = cfi_assignedEmployeeId input \<and> fu_dueAt f = cfi_dueAt input)
       (ld_followUps d)) (JsError ''Created follow-up is missing from the lead detail'')) (\<lambda>f.
     andThen (audit ts (user_event actor None ''follow_up.created'' AuFollowUp (fu_id f)
       [(''leadId'', JString leadId), (''assignedEmployeeId'', JString (fu_assignedEmployeeId f)),
        (''priority'', spelled priority_names (fu_priority f))])) (\<lambda>_.
     reply_created d))))))))))"

definition post_complete :: "environment \<Rightarrow> http_request \<Rightarrow> lead_detail reply app" where
  "post_complete en rq =
     andThen (protect en leads_manage rq) (\<lambda>actor.
     andThen (path_param rq ''followUpId'' 100) (\<lambda>followUpId.
     andThen (body_of rq) (\<lambda>body.
     andThen (pure (parseCompleteFollowUpInput (en_runtime en) body)) (\<lambda>input.
     andThen (now_iso en) (\<lambda>ts.
     andThen (completeLeadFollowUp (en_host en) \<lparr>cpo_organizationId = org_of actor, cpo_scope = actor_leadScope actor,
       cpo_followUpId = followUpId, cpo_actorUserId = user_of actor, cpo_input = input, cpo_at = ts\<rparr>) (\<lambda>d.
     andThen (found d (notFound ''Follow-up not found'')) (\<lambda>d.
     andThen (audit ts (user_event actor None ''follow_up.completed'' AuFollowUp followUpId
       [(''leadId'', JString (lead_id (li_lead (ld_item d)))), (''newVersion'', int_json (cpi_expectedVersion input + 1))])) (\<lambda>_.
     reply_ok d))))))))"

section \<open>Lead imports\<close>

definition import_access_of :: "actor_context \<Rightarrow> import_access" where
  "import_access_of actor = \<lparr>ia_organizationId = org_of actor, ia_scope = actor_leadScope actor, ia_actorUserId = user_of actor\<rparr>"

text \<open>What runs only when an answer is not a replay.\<close>

definition unless :: "bool \<Rightarrow> unit app \<Rightarrow> unit app" where
  "unless replayed m = (if replayed then give () else m)"

definition preview_metadata :: "import_job \<Rightarrow> json_record" where
  "preview_metadata j = [(''totalRows'', count_json (ij_totalRows j)), (''validRows'', int_json (ij_validRows j)),
     (''duplicateRows'', int_json (ij_duplicateRows j)), (''errorRows'', int_json (ij_errorRows j))]"

definition job_status_names :: "(string \<times> import_job_status) list" where
  "job_status_names = [(''preview_ready'', JobPreviewReady), (''processing'', JobProcessing), (''completed'', JobCompleted),
     (''interrupted'', JobInterrupted), (''failed'', JobFailed)]"

definition post_import_preview :: "environment \<Rightarrow> http_request \<Rightarrow> import_preview reply app" where
  "post_import_preview en rq =
     andThen (protect en leads_assign rq) (\<lambda>actor.
     andThen (narrow (isPreviewLeadImportInput (pr_number (en_primitives en)) (rq_body rq)) (read_preview (rq_body rq))
       ''The lead import preview payload is invalid'') (\<lambda>body.
     andThen (operation_request en rq) (\<lambda>_.
     andThen (now_iso en) (\<lambda>ts.
     andThen (pure (fingerprintLeadImport (en_primitives en) (the (rq_body rq)) (en_secret en))) (\<lambda>fp.
     andThen (previewLeadImport (en_host en) (import_access.extend (import_access_of actor) \<lparr>pio_requestId = pvb_requestId body,
       pio_fileName = pvb_fileName body, pio_rows = pvb_rows body, pio_requestFingerprint = fp, pio_at = ts\<rparr>)) (\<lambda>p.
     andThen (unless (ip_replayed p) (audit ts (user_event actor (Some (pvb_requestId body)) ''lead_import.previewed''
       AuLeadImport (ij_id (ip_job p)) (preview_metadata (ip_job p))))) (\<lambda>_.
     reply_created p)))))))"

definition get_imports :: "environment \<Rightarrow> http_request \<Rightarrow> import_job list reply app" where
  "get_imports en rq =
     andThen (protect en leads_assign rq) (\<lambda>actor.
     andThen (look (listLeadImports (en_host en) (import_access_of actor))) reply_ok)"

definition find_import :: "environment \<Rightarrow> http_request \<Rightarrow> import_preview app" where
  "find_import en rq =
     andThen (protect en leads_assign rq) (\<lambda>actor.
     andThen (path_param rq ''jobId'' 100) (\<lambda>jobId.
     andThen (look (findLeadImport (import_access_of actor) jobId)) (\<lambda>p. found p (notFound ''Lead import not found''))))"

definition get_import :: "environment \<Rightarrow> http_request \<Rightarrow> import_preview reply app" where
  "get_import en rq = andThen (find_import en rq) reply_ok"

definition get_import_errors :: "environment \<Rightarrow> http_request \<Rightarrow> string reply app" where
  "get_import_errors en rq = andThen (find_import en rq) (\<lambda>p. reply_ok (leadImportErrorCsv p))"

definition request_of :: "js \<Rightarrow> string option" where
  "request_of v = Option.bind (as_record v) (\<lambda>r. as_string (field r ''requestId''))"

definition post_import_commit :: "environment \<Rightarrow> http_request \<Rightarrow> import_result reply app" where
  "post_import_commit en rq =
     andThen (protect en leads_assign rq) (\<lambda>actor.
     andThen (narrow (isCommitLeadImportInput (rq_body rq)) (request_of (rq_body rq)) ''The lead import commit payload is invalid'') (\<lambda>requestId.
     andThen (path_param rq ''jobId'' 100) (\<lambda>jobId.
     andThen (operation_request en rq) (\<lambda>(_, fp).
     andThen (now_iso en) (\<lambda>ts.
     andThen (commitLeadImport (en_host en) (import_access.extend (import_access_of actor)
       \<lparr>cio_jobId = jobId, cio_requestId = requestId, cio_requestFingerprint = fp, cio_at = ts\<rparr>)) (\<lambda>res.
     andThen (found res (notFound ''Lead import not found'')) (\<lambda>res.
     andThen (unless (im_replayed res) (audit ts (user_event actor (Some requestId) ''lead_import.committed'' AuLeadImport jobId
       [(''status'', spelled job_status_names (ij_status (im_job res))), (''importedRows'', int_json (ij_importedRows (im_job res)))]))) (\<lambda>_.
     reply_ok res))))))))"

section \<open>Assignment rules\<close>

definition rule_access_of :: "actor_context \<Rightarrow> string \<Rightarrow> rule_access" where
  "rule_access_of actor ts = \<lparr>rac_organizationId = org_of actor, rac_scope = actor_leadScope actor,
     rac_actorUserId = user_of actor, rac_at = ts\<rparr>"

definition get_rules :: "environment \<Rightarrow> http_request \<Rightarrow> assignment_rule list reply app" where
  "get_rules en rq =
     andThen (protect en leads_assign rq) (\<lambda>actor.
     andThen (now_iso en) (\<lambda>ts.
     andThen (look (listLeadAssignmentRules (en_host en) (rule_access_of actor ts))) reply_ok))"

definition post_rule :: "environment \<Rightarrow> http_request \<Rightarrow> assignment_rule reply app" where
  "post_rule en rq =
     andThen (protect en leads_assign rq) (\<lambda>actor.
     andThen (narrow (isCreateLeadAssignmentRuleInput (rq_body rq)) (read_rule (rq_body rq)) ''The assignment rule payload is invalid'') (\<lambda>input.
     andThen (now_iso en) (\<lambda>ts.
     andThen (act (createLeadAssignmentRule (rule_access_of actor ts) input)) (\<lambda>ru.
     andThen (found ru (badRequest ''Rule employees or statuses are outside your active lead scope'' None)) (\<lambda>ru.
     andThen (audit ts (user_event actor None ''assignment_rule.created'' AuAssignmentRule (ar_id ru)
       [(''strategy'', spelled strategy_names (ar_strategy ru)), (''employeeCount'', count_json (length (ar_employeeIds ru)))])) (\<lambda>_.
     reply_created ru))))))"

definition patch_rule :: "environment \<Rightarrow> http_request \<Rightarrow> assignment_rule reply app" where
  "patch_rule en rq =
     andThen (protect en leads_assign rq) (\<lambda>actor.
     andThen (narrow (isUpdateLeadAssignmentRuleInput (rq_body rq)) (read_rule_update (rq_body rq)) ''The assignment rule update is invalid'') (\<lambda>input.
     andThen (path_param rq ''ruleId'' 100) (\<lambda>ruleId.
     andThen (now_iso en) (\<lambda>ts.
     andThen (updateLeadAssignmentRule (rule_access_of actor ts) ruleId input) (\<lambda>ru.
     andThen (found ru (notFound ''Assignment rule not found'')) (\<lambda>ru.
     andThen (audit ts (user_event actor None ''assignment_rule.updated'' AuAssignmentRule (ar_id ru)
       [(''version'', int_json (ar_version ru)), (''active'', JBool (ar_active ru))])) (\<lambda>_.
     reply_ok ru)))))))"

definition post_dry_run :: "environment \<Rightarrow> http_request \<Rightarrow> dry_run reply app" where
  "post_dry_run en rq =
     andThen (protect en leads_assign rq) (\<lambda>actor.
     andThen (require (rq_body rq = None \<or> rq_body rq = Some (JObject [])) (badRequest ''The dry-run body must be an empty JSON object'' None)) (\<lambda>_.
     andThen (now_iso en) (\<lambda>ts.
     andThen (look (dryRunLeadAssignmentRules (en_host en) (rule_access_of actor ts))) reply_ok)))"

text \<open>Reading a property of \<open>undefined\<close> throws a plain error.\<close>

definition post_apply_rules :: "environment \<Rightarrow> http_request \<Rightarrow> apply_result reply app" where
  "post_apply_rules en rq =
     andThen (protect en leads_assign rq) (\<lambda>actor.
     andThen (narrow (isApplyLeadAssignmentRulesInput (rq_body rq)) (read_apply (rq_body rq)) ''The assignment apply payload is invalid'') (\<lambda>(requestId, existing).
     andThen (operation_request en rq) (\<lambda>(_, fp).
     andThen (now_iso en) (\<lambda>ts.
     andThen (applyLeadAssignmentRules (en_host en) (rule_access.extend (rule_access_of actor ts) \<lparr>apo_requestId = requestId,
       apo_includeExistingUnassigned = existing, apo_requestFingerprint = fp\<rparr>)) (\<lambda>res.
     andThen (found res (JsError ''Cannot read properties of undefined'')) (\<lambda>res.
     andThen (unless (apr_replayed res \<or> apr_appliedLeads res = 0) (audit ts (user_event actor (Some requestId) ''assignment_rule.applied''
       AuAssignmentRule (org_of actor)
       [(''appliedLeads'', count_json (apr_appliedLeads res)), (''matchedLeads'', count_json (dr_matchedLeads res))]))) (\<lambda>_.
     reply_ok res)))))))"

end
