(* ===== verification/MobileRoutes.thy ===== *)
theory MobileRoutes
  imports WorkRoutes
begin

text \<open>
  The routes of \<open>app.ts\<close> for devices: pairing codes and their redemption behind the attempt limiter,
  activation, re-consent, the agent's leads, heartbeats, call batches, session rotation, and the two
  ways to revoke.
\<close>

section \<open>Pairing codes\<close>

definition expiry :: "environment \<Rightarrow> int \<Rightarrow> int \<Rightarrow> string" where
  "expiry en now ttlSeconds = iso_of en (now + ttlSeconds * 1000)"

definition synthetic_refused :: "environment \<Rightarrow> mobile_collection_mode \<Rightarrow> unit app" where
  "synthetic_refused en mode = require (\<not> (mode = ModeSyntheticDemo \<and> cf_production (en_config en)))
     (forbidden ''Synthetic demo pairing is not available in production'')"

record pairing_view =
  pvw_id :: string
  pvw_code :: string
  pvw_organizationId :: string
  pvw_employeeId :: string
  pvw_collectionMode :: mobile_collection_mode
  pvw_expiresAt :: string

definition pairing_ttl :: "environment \<Rightarrow> json_record \<Rightarrow> int app" where
  "pairing_ttl en body =
     andThen (if field body ''ttlSeconds'' = None then give (cf_pairingCodeTtlSeconds (en_config en))
       else pure (nonNegativeInteger (field body ''ttlSeconds'') ''ttlSeconds'' 3600)) (\<lambda>ttl.
     andThen (require (60 \<le> ttl) (badRequest ''ttlSeconds must be an integer between 60 and 3600'' (Some ''ttlSeconds''))) (\<lambda>_. give ttl))"

definition new_code :: "environment \<Rightarrow> actor_context \<Rightarrow> string \<Rightarrow> mobile_collection_mode \<Rightarrow> string \<Rightarrow> int \<Rightarrow> int \<Rightarrow> string \<Rightarrow> pairing_code" where
  "new_code en actor employeeId mode code now ttl i =
     \<lparr>pc_id = i, pc_codeHash = hashPairingCode (en_primitives en) code (en_secret en),
      pc_codeLastFour = drop (length code - 4) code, pc_organizationId = org_of actor, pc_employeeId = employeeId,
      pc_createdAt = iso_of en now, pc_expiresAt = expiry en now ttl, pc_createdByUserId = user_of actor,
      pc_collectionMode = mode, pc_consumedAt = None, pc_revokedAt = None\<rparr>"

definition post_pairing_code :: "environment \<Rightarrow> http_request \<Rightarrow> pairing_view reply app" where
  "post_pairing_code en rq =
     andThen (protectOrganizationAdmin en devices_manage rq) (\<lambda>actor.
     andThen (path_param rq ''employeeId'' 100) (\<lambda>employeeId.
     andThen (look (findEmployee (org_of actor) employeeId)) (\<lambda>e.
     andThen (found e (notFound ''Employee not found'')) (\<lambda>e.
     andThen (require (emp_status e \<notin> {EmpPaused, EmpDeactivated}) (conflict ''A suspended employee cannot pair a device'')) (\<lambda>_.
     andThen (if rq_body rq = None then give [] else body_of rq) (\<lambda>body.
     andThen (pairing_ttl en body) (\<lambda>ttl.
     andThen (found (as_name mode_names (or_else (field body ''collectionMode'') (JString ''android_call_log'')))
       (badRequest ''collectionMode must be android_call_log or synthetic_demo'' (Some ''collectionMode''))) (\<lambda>mode.
     andThen (synthetic_refused en mode) (\<lambda>_.
     andThen (draw en) (\<lambda>drawn.
     let code = pr_upper (en_primitives en) drawn in
     andThen (clock_now en) (\<lambda>now.
     andThen (app_id ''pairing'') (\<lambda>i.
     let rec = new_code en actor employeeId mode code now ttl i in
     andThen (act (\<lambda>s. ((), createPairingCode rec s))) (\<lambda>_.
     andThen (audit (pc_createdAt rec) (user_event actor None ''pairing_code.created'' AuPairingCode i
       [(''employeeId'', JString employeeId), (''expiresAt'', JString (pc_expiresAt rec)), (''collectionMode'', spelled mode_names mode)])) (\<lambda>_.
     reply_created \<lparr>pvw_id = i, pvw_code = code, pvw_organizationId = org_of actor, pvw_employeeId = employeeId,
       pvw_collectionMode = mode, pvw_expiresAt = pc_expiresAt rec\<rparr>))))))))))))))"

definition delete_pairing_code :: "environment \<Rightarrow> http_request \<Rightarrow> (string \<times> string) reply app" where
  "delete_pairing_code en rq =
     andThen (protectOrganizationAdmin en devices_manage rq) (\<lambda>actor.
     andThen (path_param rq ''pairingCodeId'' 100) (\<lambda>i.
     andThen (now_iso en) (\<lambda>ts.
     andThen (act (revokePairingCode (org_of actor) i ts)) (\<lambda>rec.
     andThen (found rec (notFound ''Pairing code not found'')) (\<lambda>rec.
     andThen (require (\<not> truthy (pc_consumedAt rec)) (conflict ''A consumed pairing code cannot be revoked'')) (\<lambda>_.
     andThen (audit ts (user_event actor None ''pairing_code.revoked'' AuPairingCode (pc_id rec)
       [(''employeeId'', JString (pc_employeeId rec))])) (\<lambda>_.
     reply_ok (pc_id rec, (case pc_revokedAt rec of None \<Rightarrow> ts | Some t \<Rightarrow> t)))))))))"

definition post_device_revoke :: "environment \<Rightarrow> http_request \<Rightarrow> admin_revoke_result reply app" where
  "post_device_revoke en rq =
     andThen (protectOrganizationAdmin en devices_manage rq) (\<lambda>actor.
     andThen (path_param rq ''deviceId'' 160) (\<lambda>deviceId.
     andThen (body_of rq) (\<lambda>body.
     andThen (operation_request en rq) (\<lambda>(requestId, fp).
     andThen (require (isAdminDeviceRevocationInput (rq_body rq))
       (badRequest ''reason must be a single-line explanation containing 8-500 characters'' (Some ''reason''))) (\<lambda>_.
     andThen (app_id ''audit'') (\<lambda>auditId. andThen (app_id ''outbox'') (\<lambda>outboxId.
     andThen (now_iso en) (\<lambda>ts.
     andThen (revokeDeviceByAdministrator \<lparr>avo_organizationId = org_of actor, avo_deviceId = deviceId, avo_actorUserId = user_of actor,
       avo_requestId = requestId, avo_requestFingerprint = fp, avo_reason = js_trim (or_empty (as_string (field body ''reason''))),
       avo_auditEventId = auditId, avo_outboxEventId = outboxId, avo_at = ts\<rparr>) (\<lambda>res.
     andThen (found res (notFound ''Device not found'')) reply_ok)))))))))"

section \<open>Redemption behind the limiter\<close>

definition consume :: "environment \<Rightarrow> string \<Rightarrow> unit app" where
  "consume en key s =
     (let n = clockReads s; (res, fs) = consumeAttempt (cf_limiter (en_config en)) (en_clock en n) (en_clock en (Suc n)) key (failures s)
      in (res, s\<lparr>failures := fs, clockReads := Suc (Suc n)\<rparr>))"

definition release :: "string \<Rightarrow> unit app" where
  "release key s = (Inr (), s\<lparr>failures := reset_attempts key (failures s)\<rparr>)"

fun in_turn :: "('k \<Rightarrow> unit app) \<Rightarrow> 'k list \<Rightarrow> unit app" where
  "in_turn f [] = give ()"
| "in_turn f (k # ks) = andThen (f k) (\<lambda>_. in_turn f ks)"

definition rate_limit_keys :: "environment \<Rightarrow> http_request \<Rightarrow> string \<Rightarrow> string \<Rightarrow> string list" where
  "rate_limit_keys en rq codeHash installationId =
     (let key = \<lambda>d v. hashPairingRateLimitDimension (en_primitives en) d v (en_secret en)
      in [key DimIp (rq_ip rq), key DimCode codeHash, key DimInstallation installationId])"

definition device_credential_of ::
  "environment \<Rightarrow> credential_type \<Rightarrow> string \<Rightarrow> string option \<Rightarrow> string \<Rightarrow> string \<Rightarrow> credential_state \<Rightarrow> string \<Rightarrow> new_device_credential" where
  "device_credential_of en ty token rotatedFrom expires requestId st i =
     \<lparr>cred_id = i, cred_tokenHash = hashed en ty token, cred_expiresAt = expires, cred_credentialType = ty,
      cred_rotatedFromCredentialId = rotatedFrom, cred_requestId = requestId, cred_lifecycleState = st\<rparr>"

definition redemption_refusal :: "redemption_outcome \<Rightarrow> thrown" where
  "redemption_refusal out = (case out of
      RedNotFound \<Rightarrow> notFound ''Pairing code is invalid'' | RedExpired \<Rightarrow> conflict ''Pairing code has expired''
    | RedRevoked \<Rightarrow> conflict ''Pairing code has been revoked'' | RedConsumed \<Rightarrow> conflict ''Pairing code has already been used''
    | _ \<Rightarrow> conflict ''This installation is already paired'')"

definition redemption_of :: "redemption_result \<Rightarrow> thrown + (pairing_code \<times> employee_device)" where
  "redemption_of res = (case (red_outcome res, red_record res, red_device res) of
      (Redeemed, Some rec, Some d) \<Rightarrow> Inr (rec, d) | (out, _, _) \<Rightarrow> Inl (redemption_refusal out))"

record redeem_view =
  rvw_device :: employee_device
  rvw_pairingId :: string
  rvw_consumedAt :: string
  rvw_expiresAt :: string

definition post_redeem :: "environment \<Rightarrow> http_request \<Rightarrow> redeem_view reply app" where
  "post_redeem en rq =
     andThen (body_of rq) (\<lambda>body.
     andThen (operation_request en rq) (\<lambda>(requestId, fp).
     andThen (pure (requiredString 32 (field body ''code'') ''code'')) (\<lambda>typed.
     andThen (require (isProposedDeviceCredential (field body ''proposedBootstrapCredential'') ''bootstrap'')
       (badRequest ''proposedBootstrapCredential must be a 256-bit clb_ credential'' (Some ''proposedBootstrapCredential''))) (\<lambda>_.
     andThen (pure (parseDeviceRegistration body)) (\<lambda>reg.
     andThen (synthetic_refused en (reg_collectionMode reg)) (\<lambda>_.
     let codeHash = hashPairingCode (en_primitives en) (pr_upper (en_primitives en) typed) (en_secret en);
         keys = rate_limit_keys en rq codeHash (reg_installationId reg) in
     andThen (in_turn (consume en) keys) (\<lambda>_.
     andThen (clock_now en) (\<lambda>now.
     let ts = iso_of en now; expires = expiry en now (cf_deviceBootstrapTtlSeconds (en_config en)) in
     andThen (app_id ''device_credential'') (\<lambda>i.
     andThen (redeemPairingCode (en_host en) \<lparr>ro_codeHash = codeHash, ro_registration = reg,
       ro_bootstrapCredential = device_credential_of en CredBootstrap (or_empty (as_string (field body ''proposedBootstrapCredential'')))
         None expires requestId LcActive i,
       ro_requestId = requestId, ro_requestFingerprint = fp, ro_at = ts\<rparr>) (\<lambda>res.
     andThen (found res (JsError ''Cannot read properties of undefined'')) (\<lambda>res.
     andThen (pure (redemption_of res)) (\<lambda>(rec, d).
     andThen (unless (red_replayed res = Some True) (in_turn release keys)) (\<lambda>_.
     andThen (unless (red_replayed res = Some True) (audit ts (device_event (pc_organizationId rec) (dev_id d) ''pairing_code.redeemed'' AuDevice
       [(''employeeId'', JString (pc_employeeId rec)), (''pairingCodeId'', JString (pc_id rec))]))) (\<lambda>_.
     reply_created \<lparr>rvw_device = d, rvw_pairingId = pc_id rec,
       rvw_consumedAt = (case pc_consumedAt rec of None \<Rightarrow> ts | Some t \<Rightarrow> t),
       rvw_expiresAt = (case red_bootstrapExpiresAt res of None \<Rightarrow> expires | Some t \<Rightarrow> t)\<rparr>))))))))))))))"

section \<open>Activation and re-consent\<close>

definition get_policy :: "environment \<Rightarrow> http_request \<Rightarrow> mobile_policy reply app" where
  "get_policy en rq =
     andThen (authenticateMobileEither en rq) (\<lambda>ctx.
     andThen (now_iso en) (\<lambda>ts.
     andThen (look (findCurrentMobilePolicy (en_host en) ctx ts)) (\<lambda>p.
     andThen (found p (consentRequired ''No active collection policy is available for this device'')) reply_ok)))"

definition minutes :: "int \<Rightarrow> int" where
  "minutes n = n * 60 * 1000"

definition too_late :: "environment \<Rightarrow> string \<Rightarrow> int \<Rightarrow> bool" where
  "too_late en t limit = date_gt_ms (h_parse (en_host en) t) (Some limit)"

definition too_early :: "environment \<Rightarrow> string \<Rightarrow> int \<Rightarrow> bool" where
  "too_early en t limit = date_gt_ms (Some limit) (h_parse (en_host en) t)"

definition policy_mismatch :: "mobile_policy option \<Rightarrow> policy_reference \<Rightarrow> bool" where
  "policy_mismatch policy ref = (case policy of None \<Rightarrow> True
     | Some p \<Rightarrow> pr_id ref \<noteq> pol_id p \<or> pr_contentHash ref \<noteq> pol_contentHash p)"

definition activation_refusal :: "environment \<Rightarrow> activation_input \<Rightarrow> int \<Rightarrow> mobile_policy option \<Rightarrow> thrown" where
  "activation_refusal en input now policy =
     (let accepted = ci_acceptedAt (ai_consent input) in
      if too_late en accepted (now + minutes 5)
      then badRequest ''consent.acceptedAt cannot be more than five minutes in the future'' (Some ''consent.acceptedAt'')
      else if too_early en accepted (now - minutes 15)
      then badRequest ''consent.acceptedAt is too old for this pairing session'' (Some ''consent.acceptedAt'')
      else if policy_mismatch policy (ai_policy input)
      then consentRequired ''The referenced collection policy is stale or unknown''
      else invalid_device)"

definition activation_metadata :: "mobile_context \<Rightarrow> activate_result \<Rightarrow> mobile_policy option \<Rightarrow> json_record" where
  "activation_metadata ctx res policy =
     [(''employeeId'', JString (ctx_employeeId ctx)), (''policyId'', JString (pr_id (ar_policy res))),
      (''policyContentHash'', JString (pr_contentHash (ar_policy res)))]
     @ (case policy of None \<Rightarrow> [] | Some p \<Rightarrow> [(''policyVersion'', JString (pol_policyVersion p)),
          (''disclosureVersion'', JString (pol_disclosureVersion p))])"

definition post_activate :: "environment \<Rightarrow> http_request \<Rightarrow> activate_result reply app" where
  "post_activate en rq =
     andThen (authenticateMobileWithReplay en CredBootstrap OpActivate rq) (\<lambda>ctx.
     andThen (narrow (isMobileActivationInput (en_host en) (rq_body rq)) (read_activation (rq_body rq))
       ''The mobile activation payload is invalid'') (\<lambda>input.
     andThen (operation_request en rq) (\<lambda>(_, fp).
     andThen (clock_now en) (\<lambda>now.
     let ts = iso_of en now in
     andThen (look (findCurrentMobilePolicy (en_host en) ctx ts)) (\<lambda>policy.
     andThen (app_id ''device_credential'') (\<lambda>i.
     andThen (activateMobileDevice (en_host en) \<lparr>ao_context = ctx, ao_activation = input,
       ao_sessionCredential = device_credential_of en CredSession (ai_proposedSessionCredential input) None
         (expiry en now (cf_deviceSessionTtlSeconds (en_config en))) (ai_requestId input) LcActive i,
       ao_requestFingerprint = fp, ao_policy = policy, ao_at = ts\<rparr>) (\<lambda>res.
     andThen (found res (activation_refusal en input now policy)) (\<lambda>res.
     andThen (unless (ar_replayed res) (audit ts (device_event (ctx_organizationId ctx) (ctx_deviceId ctx) ''device.activated'' AuDevice
       (activation_metadata ctx res policy)))) (\<lambda>_.
     reply_created res)))))))))"

definition reconsent_refusal :: "environment \<Rightarrow> reconsent_input \<Rightarrow> int \<Rightarrow> mobile_policy option \<Rightarrow> thrown" where
  "reconsent_refusal en input now policy =
     (let accepted = ci_acceptedAt (ri_consent input) in
      if too_late en accepted (now + minutes 5) \<or> too_early en accepted (now - minutes 15)
      then badRequest ''consent.acceptedAt is outside the accepted consent window'' (Some ''consent.acceptedAt'')
      else if policy_mismatch policy (ri_policy input)
      then consentRequired ''The referenced collection policy is stale or unknown''
      else invalid_device)"

definition post_reconsent :: "environment \<Rightarrow> http_request \<Rightarrow> reconsent_result reply app" where
  "post_reconsent en rq =
     andThen (authenticateMobileWithReplay en CredSession OpReconsent rq) (\<lambda>ctx.
     andThen (narrow (isMobileReconsentInput (en_host en) (rq_body rq)) (read_reconsent (rq_body rq))
       ''The mobile re-consent payload is invalid'') (\<lambda>input.
     andThen (operation_request en rq) (\<lambda>(_, fp).
     andThen (clock_now en) (\<lambda>now.
     let ts = iso_of en now in
     andThen (look (findCurrentMobilePolicy (en_host en) ctx ts)) (\<lambda>policy.
     andThen (reconsentMobileDevice (en_host en) \<lparr>rco_context = ctx, rco_reconsent = input, rco_requestFingerprint = fp,
       rco_policy = policy, rco_at = ts\<rparr>) (\<lambda>res.
     andThen (found res (reconsent_refusal en input now policy)) (\<lambda>res.
     andThen (unless (rr_replayed res) (audit ts (device_event (ctx_organizationId ctx) (ctx_deviceId ctx) ''device.consent_renewed'' AuDevice
       [(''employeeId'', JString (ctx_employeeId ctx)), (''policyId'', JString (pr_id (rr_policy res))),
        (''policyContentHash'', JString (pr_contentHash (rr_policy res)))]))) (\<lambda>_.
     reply_ok res))))))))"

end
