(* ===== verification/SessionRoutes.thy ===== *)
theory SessionRoutes
  imports MobileRoutes
begin

text \<open>
  The routes of \<open>app.ts\<close> a paired device uses with its session: the agent's leads and their updates,
  heartbeats, call batches, rotation of the session in two phases, and its revocation.
\<close>

section \<open>The agent's leads\<close>

definition consented :: "mobile_context \<Rightarrow> unit app" where
  "consented ctx = require (ctx_consentCurrent ctx) consentRequiredDefault"

definition consented_session :: "environment \<Rightarrow> http_request \<Rightarrow> mobile_context app" where
  "consented_session en rq = andThen (authenticateMobile en CredSession rq) (\<lambda>ctx. andThen (consented ctx) (\<lambda>_. give ctx))"

definition own_leads :: "mobile_context \<Rightarrow> lead_access_scope" where
  "own_leads ctx = ScopeAssigned (ctx_employeeId ctx)"

definition get_mobile_leads :: "environment \<Rightarrow> http_request \<Rightarrow> leads_page reply app" where
  "get_mobile_leads en rq =
     andThen (consented_session en rq) (\<lambda>ctx.
     andThen (limit_of en rq 50 100) (\<lambda>limit.
     andThen (lead_cursor_query en rq ''mobile-leads'' (ctx_organizationId ctx)) (\<lambda>after.
     andThen (queue_query rq) (\<lambda>queue.
     andThen (search_query rq) (\<lambda>search.
     andThen (query_string rq ''statusId'') (\<lambda>status.
     andThen (now_iso en) (\<lambda>ts.
     andThen (consult (listLeads (en_host en) (ctx_organizationId ctx) (own_leads ctx)
       \<lparr>lf_search = search, lf_statusId = status, lf_assignedEmployeeId = None, lf_queue = queue\<rparr> after limit ts)) (\<lambda>res.
     reply_ok (leads_page_of en ''mobile-leads'' (ctx_organizationId ctx) ts None res)))))))))"

definition get_mobile_lead :: "environment \<Rightarrow> http_request \<Rightarrow> lead_detail reply app" where
  "get_mobile_lead en rq =
     andThen (consented_session en rq) (\<lambda>ctx.
     andThen (path_param rq ''leadId'' 100) (\<lambda>leadId.
     andThen (now_iso en) (\<lambda>ts.
     andThen (consult (findLeadDetail (en_host en) (ctx_organizationId ctx) (own_leads ctx) leadId ts)) (\<lambda>d.
     andThen (found d (notFound ''Lead not found'')) reply_ok))))"

definition get_mobile_statuses :: "environment \<Rightarrow> http_request \<Rightarrow> lead_status list reply app" where
  "get_mobile_statuses en rq =
     andThen (consented_session en rq) (\<lambda>ctx. andThen (look (listLeadStatuses (en_host en) (ctx_organizationId ctx))) reply_ok)"

definition late_reminder :: "environment \<Rightarrow> mobile_update \<Rightarrow> bool" where
  "late_reminder en u = (case mup_followUp u of None \<Rightarrow> False
     | Some f \<Rightarrow> truthy (mfu_reminderAt f)
         \<and> date_gt_ms (Option.bind (mfu_reminderAt f) (h_parse (en_host en))) (h_parse (en_host en) (mfu_dueAt f)))"

definition post_mobile_update :: "environment \<Rightarrow> http_request \<Rightarrow> mobile_receipt reply app" where
  "post_mobile_update en rq =
     andThen (consented_session en rq) (\<lambda>ctx.
     andThen (narrow (isMobileLeadUpdateInput (en_host en) (rq_body rq)) (read_mobile_update (rq_body rq))
       ''The mobile lead update payload is invalid'') (\<lambda>u.
     andThen (path_param rq ''leadId'' 100) (\<lambda>leadId.
     andThen (operation_request en rq) (\<lambda>_.
     andThen (now_iso en) (\<lambda>ts.
     andThen (require (\<not> late_reminder en u)
       (badRequest ''followUp.reminderAt cannot be after followUp.dueAt'' (Some ''followUp.reminderAt''))) (\<lambda>_.
     andThen (pure (fingerprintMobileLeadUpdate (en_primitives en) (the (rq_body rq)) (en_secret en))) (\<lambda>fp.
     andThen (applyMobileLeadUpdate (en_host en) \<lparr>muo_context = ctx, muo_leadId = leadId, muo_requestId = mup_requestId u,
       muo_expectedLeadVersion = mup_expectedLeadVersion u, muo_occurredAt = mup_occurredAt u, muo_statusId = mup_statusId u,
       muo_note = mup_note u, muo_followUp = mup_followUp u, muo_requestFingerprint = fp, muo_at = ts\<rparr>) (\<lambda>receipt.
     andThen (found receipt (notFound ''Lead not found'')) reply_ok))))))))"

section \<open>Heartbeats and call batches\<close>

definition body_fields :: "http_request \<Rightarrow> json_record" where
  "body_fields rq = (case as_record (rq_body rq) of None \<Rightarrow> [] | Some r \<Rightarrow> r)"

definition post_heartbeat :: "environment \<Rightarrow> http_request \<Rightarrow> heartbeat_result reply app" where
  "post_heartbeat en rq =
     andThen (authenticateMobile en CredSession rq) (\<lambda>ctx.
     andThen (narrow (isDeviceHeartbeat (rq_body rq) (en_host en)) (read_heartbeat (rq_body rq))
       ''The device heartbeat payload is invalid'') (\<lambda>hb.
     andThen (requireMatchingMobileContext ctx (body_fields rq)) (\<lambda>_.
     andThen (clock_now en) (\<lambda>now.
     andThen (require (\<not> too_late en (hb_observedAt hb) (now + minutes 5) \<and> \<not> too_early en (hb_observedAt hb) (now - minutes (24 * 60)))
       (badRequest ''observedAt is outside the accepted clock window'' (Some ''observedAt''))) (\<lambda>_.
     andThen (act (recordDeviceHeartbeat (en_host en) ctx hb (iso_of en now))) (\<lambda>ack.
     andThen (found ack invalid_device) reply_ok))))))"

definition batch_key_matches :: "http_request \<Rightarrow> call_batch \<Rightarrow> unit app" where
  "batch_key_matches rq b = andThen (pure (idempotencyKey (rq_idempotencyKey rq))) (\<lambda>key.
     require (key = cb_batchId b) (badRequest ''Idempotency-Key must exactly match batchId'' (Some ''Idempotency-Key'')))"

definition synthetic_allowed :: "environment \<Rightarrow> mobile_context \<Rightarrow> bool" where
  "synthetic_allowed en ctx = (ctx_collectionMode ctx = ModeSyntheticDemo \<and> \<not> cf_production (en_config en))"

definition batch_admitted :: "environment \<Rightarrow> mobile_context \<Rightarrow> call_batch \<Rightarrow> unit app" where
  "batch_admitted en ctx b =
     andThen (consented ctx) (\<lambda>_.
     andThen (require (cb_collectionMode b = ctx_collectionMode ctx)
       (forbidden ''The collection mode does not match the paired device configuration'')) (\<lambda>_.
     andThen (require (\<not> (cb_collectionMode b = ModeSyntheticDemo \<and> cf_production (en_config en)))
       (forbidden ''Synthetic call batches are not available in production'')) (\<lambda>_.
     andThen (require (perm_callLog (ctx_permissions ctx) = PermGranted \<or> synthetic_allowed en ctx)
       (forbidden ''Call-log synchronization requires an active call-log permission grant'')) (\<lambda>_.
     require (\<forall>it \<in> set (cb_items b). it_simCardId it = None \<and> it_recordingLocalId it = None)
       (badRequest ''SIM-card and recording identifiers are not supported in the technical alpha'' None)))))"

definition batch_options_of :: "environment \<Rightarrow> mobile_context \<Rightarrow> call_batch \<Rightarrow> string \<Rightarrow> string \<Rightarrow> batch_options" where
  "batch_options_of en ctx b payloadHash ts =
     \<lparr>bo_context = ctx, bo_batchId = cb_batchId b, bo_items = cb_items b, bo_payloadHash = payloadHash,
      bo_nextCursor = encode_cursor (en_primitives en) (en_secret en) ''mobile-sync'' (ctx_organizationId ctx)
        (JObject [(''deviceId'', JString (ctx_deviceId ctx)), (''batchId'', JString (cb_batchId b))]),
      bo_at = ts, bo_allowWithoutCallLogPermission = synthetic_allowed en ctx\<rparr>"

definition post_call_batch :: "environment \<Rightarrow> http_request \<Rightarrow> sync_result reply app" where
  "post_call_batch en rq =
     andThen (authenticateMobile en CredSession rq) (\<lambda>ctx.
     andThen (narrow (isCallLogSyncBatch (en_host en) (rq_body rq)) (read_batch (rq_body rq)) ''The call sync batch payload is invalid'') (\<lambda>b.
     andThen (batch_key_matches rq b) (\<lambda>_.
     andThen (requireMatchingMobileContext ctx (body_fields rq)) (\<lambda>_.
     andThen (batch_admitted en ctx b) (\<lambda>_.
     andThen (clock_now en) (\<lambda>now.
     andThen (require (\<not> too_late en (cb_sentAt b) (now + minutes 5) \<and> \<not> too_early en (cb_sentAt b) (now - minutes (30 * 24 * 60)))
       (badRequest ''sentAt is outside the accepted synchronization window'' (Some ''sentAt''))) (\<lambda>_.
     andThen (pure (fingerprintMobileCallBatch (en_primitives en) (the (rq_body rq)) (en_secret en))) (\<lambda>payloadHash.
     andThen (ingestMobileCallBatch (en_host en) (en_itemFingerprint en) (batch_options_of en ctx b payloadHash (iso_of en now))) (\<lambda>res.
     andThen (found res invalid_device) reply_ok)))))))))"

section \<open>Session rotation and revocation\<close>

text \<open>The audit entry of a transition that was not a replay.\<close>

definition transition_audit :: "bool \<Rightarrow> string \<Rightarrow> mobile_context \<Rightarrow> string \<Rightarrow> json_record \<Rightarrow> unit app" where
  "transition_audit replayed ts ctx action metadata = unless replayed (audit ts
     (device_event (ctx_organizationId ctx) (ctx_deviceId ctx) action AuSession
       ((''employeeId'', JString (ctx_employeeId ctx)) # metadata)))"

definition proposed_session :: "http_request \<Rightarrow> string option" where
  "proposed_session rq = as_string (field (body_fields rq) ''proposedSessionCredential'')"

definition post_prepare :: "environment \<Rightarrow> http_request \<Rightarrow> prepare_result reply app" where
  "post_prepare en rq =
     andThen (authenticateMobileWithReplay en CredSession OpRotationPrepare rq) (\<lambda>ctx.
     andThen (narrow (isMobileSessionRotationPrepareInput (rq_body rq)) (proposed_session rq)
       ''The session rotation preparation payload is invalid'') (\<lambda>token.
     andThen (operation_request en rq) (\<lambda>(requestId, fp).
     andThen (require (ctx_consentCurrent ctx \<or> ctx_authenticatedReplay ctx = Some True) consentRequiredDefault) (\<lambda>_.
     andThen (clock_now en) (\<lambda>now.
     let ts = iso_of en now in
     andThen (app_id ''device_credential'') (\<lambda>i.
     andThen (prepareDeviceSessionRotation (en_host en) \<lparr>po_context = ctx,
       po_sessionCredential = device_credential_of en CredSession token (Some (ctx_credentialId ctx))
         (expiry en now (cf_deviceSessionTtlSeconds (en_config en))) requestId LcPending i,
       po_requestId = requestId, po_requestFingerprint = fp, po_at = ts\<rparr>) (\<lambda>res.
     andThen (found res invalid_device) (\<lambda>res.
     andThen (transition_audit (ppr_replayed res) ts ctx ''device.session_rotation_prepared'' [(''requestId'', JString requestId)]) (\<lambda>_.
     reply_ok (res\<lparr>ppr_requestId := requestId\<rparr>))))))))))"

definition prepared_request :: "http_request \<Rightarrow> string option" where
  "prepared_request rq = as_string (field (body_fields rq) ''prepareRequestId'')"

definition post_confirm :: "environment \<Rightarrow> http_request \<Rightarrow> confirm_result reply app" where
  "post_confirm en rq =
     andThen (authenticateRotationConfirmation en rq) (\<lambda>ctx.
     andThen (narrow (isMobileSessionRotationConfirmInput (rq_body rq)) (prepared_request rq)
       ''The session rotation confirmation payload is invalid'') (\<lambda>prepared.
     andThen (operation_request en rq) (\<lambda>(requestId, fp).
     andThen (now_iso en) (\<lambda>ts.
     andThen (confirmDeviceSessionRotation (en_host en) (confirm_options.make ctx requestId prepared fp ts)) (\<lambda>res.
     andThen (found res invalid_device) (\<lambda>res.
     andThen (transition_audit (cr_replayed res) ts ctx ''device.session_rotation_confirmed'' [(''requestId'', JString requestId)]) (\<lambda>_.
     reply_ok (res\<lparr>cr_requestId := requestId\<rparr>))))))))"

definition delete_session :: "environment \<Rightarrow> http_request \<Rightarrow> revoke_result reply app" where
  "delete_session en rq =
     andThen (authenticateMobileWithReplay en CredSession OpRevoke rq) (\<lambda>ctx.
     andThen (require (isMobileSessionRevocationInput (rq_body rq)) (badRequest ''The session revocation payload is invalid'' None)) (\<lambda>_.
     andThen (operation_request en rq) (\<lambda>(requestId, fp).
     andThen (now_iso en) (\<lambda>ts.
     andThen (revokeMobileSession (en_host en) \<lparr>rvo_context = ctx, rvo_requestId = requestId, rvo_requestFingerprint = fp, rvo_at = ts\<rparr>) (\<lambda>res.
     andThen (found res invalid_device) (\<lambda>res.
     andThen (transition_audit (vr_replayed res) ts ctx ''device.session_revoked''
       [(''consentWithdrawn'', JBool True), (''requestId'', JString requestId)]) (\<lambda>_.
     reply_ok res)))))))"

end
