(* ===== verification/ReportRoutes.thy ===== *)
theory ReportRoutes
  imports SessionRoutes
begin

text \<open>
  The remaining routes of \<open>app.ts\<close>: reports, their schedules, exports and downloads, notifications,
  calls, the dashboard and the audit log.
\<close>

section \<open>The lead report\<close>

definition source_query :: "http_request \<Rightarrow> lead_source option app" where
  "source_query rq = andThen (query_string rq ''source'') (\<lambda>s. case s of None \<Rightarrow> give None
     | Some n \<Rightarrow> andThen (found (as_name source_names (Some (JString n))) (badRequest ''source is invalid'' (Some ''source''))) (\<lambda>x. give (Some x)))"

definition report_filter_json :: "report_filter \<Rightarrow> json" where
  "report_filter_json f = JObject ([(''from'', JString (rf_from f)), (''to'', JString (rf_to f))]
     @ (case rf_employeeId f of None \<Rightarrow> [] | Some e \<Rightarrow> [(''employeeId'', JString e)])
     @ (case rf_team f of None \<Rightarrow> [] | Some t \<Rightarrow> [(''team'', JString t)])
     @ (case rf_source f of None \<Rightarrow> [] | Some s \<Rightarrow> [(''source'', spelled source_names s)]))"

definition report_range_ok :: "host \<Rightarrow> report_filter \<Rightarrow> bool" where
  "report_range_ok h f = (case (h_parse h (rf_from f), h_parse h (rf_to f)) of
      (Some a, Some b) \<Rightarrow> 0 < b - a \<and> b - a \<le> 366 * 24 * 60 * 60 * 1000 | _ \<Rightarrow> True)"

definition get_lead_report :: "environment \<Rightarrow> http_request \<Rightarrow> lead_report reply app" where
  "get_lead_report en rq =
     andThen (protect en reports_read rq) (\<lambda>actor.
     andThen (query_string rq ''from'') (\<lambda>frm.
     andThen (query_string rq ''to'') (\<lambda>to.
     andThen (require (truthy frm \<and> truthy to) (badRequest ''from and to are required'' (Some (if truthy frm then ''to'' else ''from'')))) (\<lambda>_.
     andThen (query_string rq ''employeeId'') (\<lambda>employeeId.
     andThen (query_string rq ''team'') (\<lambda>team.
     andThen (require (length (or_empty team) \<le> 100) (badRequest ''team must not exceed 100 characters'' (Some ''team''))) (\<lambda>_.
     andThen (source_query rq) (\<lambda>src.
     let f = \<lparr>rf_from = or_empty frm, rf_to = or_empty to, rf_employeeId = employeeId, rf_team = team, rf_source = src\<rparr> in
     andThen (require (isLeadReportFilter (en_host en) (Some (report_filter_json f)))
       (badRequest ''Report timestamps must be explicit RFC3339 values and employeeId must be a canonical UUID'' None)) (\<lambda>_.
     andThen (require (report_range_ok (en_host en) f)
       (badRequest ''The report range must be positive and no longer than 366 days'' None)) (\<lambda>_.
     andThen (now_iso en) (\<lambda>ts.
     andThen (consult (getLeadReport (en_host en) (en_zones en) \<lparr>rpo_organizationId = org_of actor, rpo_scope = actor_leadScope actor,
       rpo_filter = f, rpo_timeZone = set_timeZone (org_settings (actor_organization actor)), rpo_at = ts\<rparr>)) reply_ok)))))))))))"

section \<open>Views, schedules and preferences\<close>

definition get_automation :: "environment \<Rightarrow> http_request \<Rightarrow> automation_snapshot reply app" where
  "get_automation en rq =
     andThen (protect en reports_read rq) (\<lambda>actor. andThen (look (getReportAutomation (org_of actor) (user_of actor))) reply_ok)"

definition kind_names :: "(string \<times> report_kind) list" where
  "kind_names = [(''call_summary'', RkCallSummary), (''employee_performance'', RkEmployeePerformance),
     (''client_activity'', RkClientActivity), (''never_attended'', RkNeverAttended), (''client_not_pickup'', RkClientNotPickup),
     (''lead_performance'', RkLeadPerformance), (''lead_status'', RkLeadStatus), (''lead_not_contacted'', RkLeadNotContacted),
     (''status_change'', RkStatusChange)]"

definition format_names :: "(string \<times> report_format) list" where
  "format_names = [(''csv'', FmtCsv), (''xlsx'', FmtXlsx), (''pdf'', FmtPdf)]"

definition kind_of :: "json_record \<Rightarrow> report_kind app" where
  "kind_of body = pure (attempt (reportKind (field body ''kind'')) (\<lambda>s. expect (map_of kind_names s) (JsError ''unreachable'')))"

definition format_of :: "json_record \<Rightarrow> report_format app" where
  "format_of body = pure (attempt (reportFormat (field body ''format'')) (\<lambda>s. expect (map_of format_names s) (JsError ''unreachable'')))"

fun clean_filters :: "json_record \<Rightarrow> thrown + (string \<times> (string + string list)) list" where
  "clean_filters [] = Inr []"
| "clean_filters ((k, v) # fs) =
     attempt (case v of
         JString s \<Rightarrow> Inr (Inl s)
       | JArray xs \<Rightarrow> (case as_list as_string (Some v) of
             Some ss \<Rightarrow> Inr (Inr ss) | None \<Rightarrow> Inl (badRequest ''filters values must be strings or string arrays'' (Some ''filters'')))
       | _ \<Rightarrow> Inl (badRequest ''filters values must be strings or string arrays'' (Some ''filters''))) (\<lambda>x.
     attempt (clean_filters fs) (\<lambda>rest. Inr ((k, x) # rest)))"

definition post_view :: "environment \<Rightarrow> http_request \<Rightarrow> saved_view reply app" where
  "post_view en rq =
     andThen (protect en reports_read rq) (\<lambda>actor.
     andThen (body_of rq) (\<lambda>body.
     andThen (pure (clean_filters (case as_record (field body ''filters'') of None \<Rightarrow> [] | Some fs \<Rightarrow> fs))) (\<lambda>filters.
     andThen (pure (requiredString 120 (field body ''name'') ''name'')) (\<lambda>name.
     andThen (kind_of body) (\<lambda>kind.
     andThen (now_iso en) (\<lambda>ts.
     andThen (act (createSavedReportView \<lparr>vo_organizationId = org_of actor, vo_userId = user_of actor, vo_name = name,
       vo_kind = kind, vo_filters = filters, vo_at = ts\<rparr>)) reply_created))))))"

text \<open>\<open>String(x)\<close> of an array element and \<open>Number(value)\<close>.\<close>

fun element_text :: "environment \<Rightarrow> json \<Rightarrow> string" where
  "element_text en JNull = []"
| "element_text en (JString s) = s"
| "element_text en (JBool b) = (if b then ''true'' else ''false'')"
| "element_text en (JNum q) = rt_number_text (en_runtime en) q"
| "element_text en (JInfinite p) = (if p then ''Infinity'' else ''-Infinity'')"
| "element_text en (JArray xs) = commas (map (element_text en) xs)"
| "element_text en (JObject fs) = ''[object Object]''"

definition to_number :: "environment \<Rightarrow> js \<Rightarrow> rat option" where
  "to_number en v = (case v of
      Some (JNum q) \<Rightarrow> Some q
    | Some (JString s) \<Rightarrow> rt_to_number (en_runtime en) s
    | Some (JBool b) \<Rightarrow> Some (of_bool b)
    | Some JNull \<Rightarrow> Some 0
    | Some (JArray xs) \<Rightarrow> rt_to_number (en_runtime en) (element_text en (JArray xs))
    | _ \<Rightarrow> None)"

definition local_time_ok :: "string \<Rightarrow> bool" where
  "local_time_ok s = ((fits ((\<lambda>c. c \<in> {CHR ''0'', CHR ''1''}) # is_digit # lit (CHR '':'') @ in_range 48 53 # digits 1) s)
     \<or> fits (lit (CHR ''2'') @ in_range 48 51 # lit (CHR '':'') @ in_range 48 53 # digits 1) s)"

text \<open>\<open>/^\S+@\S+\.\S+$/\<close>\<close>

definition loose_email :: "string \<Rightarrow> bool" where
  "loose_email s = (list_all (\<lambda>c. \<not> js_space c) s
     \<and> list_ex (\<lambda>i. s ! i = CHR ''@'' \<and> list_ex (\<lambda>j. s ! j = CHR ''.'') [i + 2..<length s - 1]) [1..<length s])"

text \<open>
  \<open>next.setUTCHours(hour - 5, minute - 30, 0, 0)\<close> on the instant a day from now, one day later when that
  has already passed.
\<close>

definition next_run :: "int \<Rightarrow> nat \<Rightarrow> nat \<Rightarrow> int" where
  "next_run now hour minute =
     (let t = (now + day_ms) div day_ms * day_ms + (int hour - 5) * (60 * 60 * 1000) + (int minute - 30) * (60 * 1000)
      in if t \<le> now then t + day_ms else t)"

definition cadence_of :: "json_record \<Rightarrow> report_cadence app" where
  "cadence_of body = andThen (pure (requiredString 10 (field body ''cadence'') ''cadence'')) (\<lambda>s.
     found (map_of [(''daily'', Daily), (''weekly'', Weekly)] s) (badRequest ''cadence must be daily or weekly'' (Some ''cadence'')))"

definition local_time_of :: "json_record \<Rightarrow> string app" where
  "local_time_of body = andThen (pure (requiredString 5 (field body ''localTime'') ''localTime'')) (\<lambda>s.
     andThen (require (local_time_ok s) (badRequest ''localTime must use HH:mm'' (Some ''localTime''))) (\<lambda>_. give s))"

definition recipients_of :: "json_record \<Rightarrow> string list app" where
  "recipients_of body = andThen (pure (stringArray 50 (field body ''recipients'') ''recipients'')) (\<lambda>rs.
     andThen (require (list_all loose_email rs) (badRequest ''recipients must contain valid email addresses'' (Some ''recipients''))) (\<lambda>_. give rs))"

definition week_day_of :: "environment \<Rightarrow> report_cadence \<Rightarrow> json_record \<Rightarrow> int option app" where
  "week_day_of en cadence body = (case cadence of
      Daily \<Rightarrow> give None
    | Weekly \<Rightarrow> (case to_number en (field body ''weekDay'') of
          Some q \<Rightarrow> if rat_of_int \<lfloor>q\<rfloor> = q \<and> 1 \<le> q \<and> q \<le> 7 then give (Some \<lfloor>q\<rfloor>)
            else fail (badRequest ''weekDay must be 1 through 7'' (Some ''weekDay''))
        | None \<Rightarrow> fail (badRequest ''weekDay must be 1 through 7'' (Some ''weekDay''))))"

definition post_schedule :: "environment \<Rightarrow> http_request \<Rightarrow> report_schedule reply app" where
  "post_schedule en rq =
     andThen (protect en reports_read rq) (\<lambda>actor.
     andThen (body_of rq) (\<lambda>body.
     andThen (cadence_of body) (\<lambda>cadence.
     andThen (local_time_of body) (\<lambda>localTime.
     andThen (recipients_of body) (\<lambda>recipients.
     andThen (week_day_of en cadence body) (\<lambda>weekDay.
     andThen (clock_now en) (\<lambda>now.
     let run = next_run now (number_at 0 2 localTime) (number_at 3 2 localTime) in
     andThen (pure (requiredString 100 (field body ''savedViewId'') ''savedViewId'')) (\<lambda>viewId.
     andThen (pure (requiredString 120 (field body ''name'') ''name'')) (\<lambda>name.
     andThen (format_of body) (\<lambda>fmt.
     andThen (act (createReportSchedule \<lparr>sd_organizationId = org_of actor, sd_userId = user_of actor, sd_savedViewId = viewId,
       sd_name = name, sd_cadence = cadence, sd_weekDay = weekDay, sd_localTime = localTime,
       sd_timeZone = set_timeZone (org_settings (actor_organization actor)), sd_format = fmt, sd_recipients = recipients,
       sd_nextRunAt = iso_of en run, sd_at = iso_of en now\<rparr>)) (\<lambda>sch.
     andThen (found sch (notFound ''Saved report view not found'')) reply_created)))))))))))"

definition patch_schedule :: "environment \<Rightarrow> http_request \<Rightarrow> report_schedule reply app" where
  "patch_schedule en rq =
     andThen (protect en reports_read rq) (\<lambda>actor.
     andThen (body_of rq) (\<lambda>body.
     andThen (pure (requiredString 10 (field body ''status'') ''status'')) (\<lambda>s.
     andThen (found (map_of [(''active'', SchedActive), (''paused'', SchedPaused)] s)
       (badRequest ''status must be active or paused'' (Some ''status''))) (\<lambda>status.
     andThen (path_param rq ''scheduleId'' 100) (\<lambda>i.
     andThen (now_iso en) (\<lambda>_.
     andThen (act (updateReportSchedule (org_of actor) i status)) (\<lambda>sch.
     andThen (found sch (notFound ''Report schedule not found'')) reply_ok)))))))"

definition event_names :: "(string \<times> notification_event) list" where
  "event_names = [(''missed_call'', EvMissedCall), (''overdue_follow_up'', EvOverdueFollowUp), (''device_offline'', EvDeviceOffline),
     (''import_completed'', EvImportCompleted), (''export_ready'', EvExportReady)]"

definition read_preference :: "js \<Rightarrow> notification_preference option" where
  "read_preference v = Option.bind (as_record v) (\<lambda>r. Option.bind (as_name event_names (field r ''event'')) (\<lambda>ev.
     Option.bind (as_bool (field r ''email'')) (\<lambda>e. Option.bind (as_bool (field r ''inApp'')) (\<lambda>i.
     Some \<lparr>np_event = ev, np_email = e, np_inApp = i\<rparr>))))"

fun read_preferences :: "nat \<Rightarrow> notification_event list \<Rightarrow> json list \<Rightarrow> thrown + notification_preference list" where
  "read_preferences n seen [] = Inr []"
| "read_preferences n seen (v # vs) =
     (case read_preference (Some v) of
        None \<Rightarrow> Inl (badRequest ''preference is invalid'' (Some (''preferences.'' @ decimal n)))
      | Some p \<Rightarrow>
          if np_event p \<in> set seen then Inl (badRequest ''notification events must be unique'' (Some ''preferences''))
          else attempt (read_preferences (Suc n) (np_event p # seen) vs) (\<lambda>ps. Inr (p # ps)))"

definition preferences_of :: "json_record \<Rightarrow> thrown + notification_preference list" where
  "preferences_of body = (case field body ''preferences'' of
      Some (JArray vs) \<Rightarrow> if length vs = length event_names then read_preferences 0 [] vs
        else Inl (badRequest ''preferences must contain every notification event'' (Some ''preferences''))
    | _ \<Rightarrow> Inl (badRequest ''preferences must contain every notification event'' (Some ''preferences'')))"

definition put_preferences :: "environment \<Rightarrow> http_request \<Rightarrow> notification_preference list reply app" where
  "put_preferences en rq =
     andThen (protect en reports_read rq) (\<lambda>actor.
     andThen (body_of rq) (\<lambda>body.
     andThen (pure (preferences_of body)) (\<lambda>ps.
     andThen (now_iso en) (\<lambda>_.
     andThen (act (updateNotificationPreferences (org_of actor) (user_of actor) ps)) reply_ok))))"

section \<open>Exports, downloads, notifications\<close>

definition post_export :: "environment \<Rightarrow> http_request \<Rightarrow> export_job reply app" where
  "post_export en rq =
     andThen (protect en reports_export rq) (\<lambda>actor.
     andThen (body_of rq) (\<lambda>body.
     andThen (kind_of body) (\<lambda>kind.
     andThen (format_of body) (\<lambda>fmt.
     andThen (now_iso en) (\<lambda>ts.
     andThen (act (createReportExportJob (org_of actor) (user_of actor) kind fmt ts)) (\<lambda>j.
     give \<lparr>rep_status = 202, rep_data = j\<rparr>))))))"

definition createDownloadToken :: "string \<Rightarrow> string" where
  "createDownloadToken random = ''clr_'' @ random"

definition hashDownloadToken :: "environment \<Rightarrow> string \<Rightarrow> thrown + 8 word list" where
  "hashDownloadToken en token = (if device_credential ''clr'' token then Inr (en_digest en token)
     else Inl (JsError ''Invalid report download token''))"

definition download_ttl :: int where
  "download_ttl = 48 * 60 * 60"

definition post_download_token :: "environment \<Rightarrow> http_request \<Rightarrow> (string \<times> string) reply app" where
  "post_download_token en rq =
     andThen (protect en reports_export rq) (\<lambda>actor.
     andThen (draw en) (\<lambda>random.
     let token = createDownloadToken random in
     andThen (clock_now en) (\<lambda>now.
     let expires = expiry en now download_ttl in
     andThen (path_param rq ''jobId'' 100) (\<lambda>jobId.
     andThen (pure (hashDownloadToken en token)) (\<lambda>hash.
     andThen (act (issueReportDownloadToken \<lparr>to_organizationId = org_of actor, to_userId = user_of actor, to_jobId = jobId,
       to_tokenHash = hash, to_expiresAt = expires\<rparr>)) (\<lambda>issued.
     andThen (require issued (notFound ''The ready report is unavailable or already redeemed'')) (\<lambda>_.
     reply_ok (token, expires))))))))"

definition presented_hash :: "environment \<Rightarrow> json_record \<Rightarrow> thrown + 8 word list" where
  "presented_hash en body =
     (case attempt (requiredString 100 (field body ''token'') ''token'') (hashDownloadToken en) of
        Inl _ \<Rightarrow> Inl (badRequest ''The download token is invalid'' (Some ''token'')) | Inr hash \<Rightarrow> Inr hash)"

definition post_download_redeem :: "environment \<Rightarrow> http_request \<Rightarrow> artifact reply app" where
  "post_download_redeem en rq =
     andThen (protect en reports_export rq) (\<lambda>actor.
     andThen (found (en_artifacts en) (domain_error 503 INTERNAL_ERROR ''Report downloads are temporarily unavailable'')) (\<lambda>reader.
     andThen (body_of rq) (\<lambda>body.
     andThen (pure (presented_hash en body)) (\<lambda>hash.
     andThen (path_param rq ''jobId'' 100) (\<lambda>jobId.
     andThen (draw en) (\<lambda>redemptionId.
     andThen (now_iso en) (\<lambda>ts.
     andThen (act (redeemReportDownload \<lparr>rd_organizationId = org_of actor, rd_userId = user_of actor, rd_jobId = jobId,
       rd_tokenHash = hash, rd_redemptionId = redemptionId, rd_at = ts\<rparr>)) (\<lambda>grant.
     andThen (found grant (notFound ''The report download is unavailable, expired, or already redeemed'')) (\<lambda>grant.
     andThen (found (reader (dg_objectKey grant)) (notFound ''The report artifact is unavailable'')) reply_ok)))))))))"

definition get_notifications :: "environment \<Rightarrow> http_request \<Rightarrow> (notification list \<times> nat) reply app" where
  "get_notifications en rq =
     andThen (protect en reports_read rq) (\<lambda>actor.
     andThen (limit_of en rq 25 100) (\<lambda>limit.
     andThen (look (listNotificationInbox (en_host en) (org_of actor) (user_of actor) limit)) reply_ok))"

definition post_notification_read :: "environment \<Rightarrow> http_request \<Rightarrow> notification reply app" where
  "post_notification_read en rq =
     andThen (protect en reports_read rq) (\<lambda>actor.
     andThen (path_param rq ''notificationId'' 100) (\<lambda>i.
     andThen (now_iso en) (\<lambda>ts.
     andThen (act (markNotificationRead (org_of actor) (user_of actor) i ts)) (\<lambda>n.
     andThen (found n (notFound ''Notification not found'')) reply_ok))))"

section \<open>Calls\<close>

definition belongs :: "actor_context \<Rightarrow> simulated_call \<Rightarrow> app_state \<Rightarrow> thrown + unit" where
  "belongs actor input s =
     attempt (check (findEmployee (org_of actor) (sc_employeeId input) s \<noteq> None)
       (badRequest ''employeeId does not belong to this organization'' (Some ''employeeId''))) (\<lambda>_.
     check (\<not> truthy (sc_deviceId input) \<or> map_option dev_employeeId (findDevice (org_of actor) (or_empty (sc_deviceId input)) s)
         = Some (sc_employeeId input))
       (badRequest ''deviceId does not belong to this employee'' (Some ''deviceId'')))"

text \<open>The fingerprint is taken of the parsed call.\<close>

definition post_simulated_call :: "environment \<Rightarrow> http_request \<Rightarrow> (call_log \<times> bool) reply app" where
  "post_simulated_call en rq =
     andThen (require (\<not> cf_production (en_config en)) route_missing) (\<lambda>_.
     andThen (protectOrganizationAdmin en calls_annotate rq) (\<lambda>actor.
     andThen (pure (idempotencyKey (rq_idempotencyKey rq))) (\<lambda>key.
     andThen (body_of rq) (\<lambda>body.
     andThen (pure (parseSimulatedCall (en_runtime en) body)) (\<lambda>input.
     andThen (consult (belongs actor input)) (\<lambda>_.
     andThen (now_iso en) (\<lambda>ts.
     andThen (ingestCall \<lparr>ino_organizationId = org_of actor, ino_input = input, ino_idempotencyKey = key, ino_fingerprint = en_callFingerprint en input,
       ino_actorUserId = user_of actor, ino_at = ts\<rparr>) (\<lambda>res.
     andThen (require (\<not> inr_conflict res)
       (conflict ''The idempotency key or device-scoped externalId was already used with a different payload'')) (\<lambda>_.
     andThen (unless (inr_duplicate res) (audit ts (user_event actor None ''call.ingested'' AuCall (call_id (inr_call res))
       [(''employeeId'', JString (call_employeeId (inr_call res))), (''externalId'', JString (sc_externalId input))]))) (\<lambda>_.
     give \<lparr>rep_status = (if inr_duplicate res then 200 else 201), rep_data = (inr_call res, inr_duplicate res)\<rparr>))))))))))"

definition named_query :: "http_request \<Rightarrow> string \<Rightarrow> (string \<times> 'v) list \<Rightarrow> 'v option app" where
  "named_query rq k names = andThen (query_string rq k) (\<lambda>s. case s of None \<Rightarrow> give None
     | Some n \<Rightarrow> andThen (found (as_name names (Some (JString n))) (badRequest (k @ '' is invalid'') (Some k))) (\<lambda>x. give (Some x)))"

definition timestamp_query :: "environment \<Rightarrow> http_request \<Rightarrow> string \<Rightarrow> string option app" where
  "timestamp_query en rq k = andThen (query_string rq k) (\<lambda>s. pure (asTimestamp (en_runtime en) (map_option JString s) k))"

definition get_calls :: "environment \<Rightarrow> http_request \<Rightarrow> call_log listing reply app" where
  "get_calls en rq =
     andThen (protectOrganizationRead en calls_read rq) (\<lambda>actor.
     andThen (limit_of en rq 50 100) (\<lambda>limit.
     andThen (cursor_query en rq ''calls'' (org_of actor) ''startedAt'' (isIsoDateTime (en_host en))) (\<lambda>after.
     andThen (named_query rq ''direction'' direction_names) (\<lambda>direction.
     andThen (named_query rq ''disposition'' disposition_names) (\<lambda>disposition.
     andThen (timestamp_query en rq ''from'') (\<lambda>frm.
     andThen (timestamp_query en rq ''to'') (\<lambda>to.
     andThen (query_string rq ''employeeId'') (\<lambda>employeeId.
     andThen (look (listCalls (en_host en) (org_of actor) \<lparr>clf_employeeId = employeeId, clf_direction = direction,
       clf_disposition = disposition, clf_from = frm, clf_to = to\<rparr> (map_option (\<lambda>(t, i). \<lparr>cc_startedAt = t, cc_id = i\<rparr>) after) limit)) (\<lambda>(items, further).
     reply_ok \<lparr>lst_items = presentCalls actor items, lst_cursorInfo = page_info_of en ''calls'' (org_of actor) ''startedAt'' further
       (map (\<lambda>c. (call_startedAt c, call_id c)) items)\<rparr>)))))))))"

definition post_link_correction :: "environment \<Rightarrow> http_request \<Rightarrow> correction_result reply app" where
  "post_link_correction en rq =
     andThen (protect en calls_annotate rq) (\<lambda>actor.
     andThen (requirePermission leads_assign actor) (\<lambda>_.
     andThen (narrow (isCorrectCallLeadLinkInput (rq_body rq)) (read_correction (rq_body rq)) ''The call-link correction payload is invalid'') (\<lambda>c.
     andThen (path_param rq ''callId'' 100) (\<lambda>callId.
     andThen (operation_request en rq) (\<lambda>(_, fp).
     andThen (now_iso en) (\<lambda>ts.
     andThen (correctCallLeadLink \<lparr>cro_organizationId = org_of actor, cro_scope = actor_leadScope actor, cro_callId = callId,
       cro_requestId = lkc_requestId c, cro_expectedLeadId = lkc_expectedLeadId c, cro_replacementLeadId = lkc_replacementLeadId c,
       cro_reason = lkc_reason c, cro_actorUserId = user_of actor, cro_requestFingerprint = fp, cro_at = ts\<rparr>) (\<lambda>res.
     andThen (found res (notFound ''Call or replacement lead not found in your scope'')) reply_ok)))))))"

section \<open>Dashboard and audit log\<close>

definition preset_names :: "(string \<times> dashboard_preset) list" where
  "preset_names = [(''today'', Today), (''yesterday'', Yesterday), (''last_7_days'', Last7Days)]"

definition preset_query :: "http_request \<Rightarrow> dashboard_preset option app" where
  "preset_query rq = andThen (query_string rq ''preset'') (\<lambda>s. case s of None \<Rightarrow> give None
     | Some n \<Rightarrow> andThen (found (map_of preset_names n) (badRequest ''preset must be today, yesterday, or last_7_days'' (Some ''preset''))) (\<lambda>x. give (Some x)))"

definition get_dashboard :: "environment \<Rightarrow> http_request \<Rightarrow> dashboard_overview reply app" where
  "get_dashboard en rq =
     andThen (protectOrganizationRead en calls_read rq) (\<lambda>actor.
     andThen (preset_query rq) (\<lambda>preset.
     andThen (timestamp_query en rq ''from'') (\<lambda>frm.
     andThen (timestamp_query en rq ''to'') (\<lambda>to.
     andThen (query_string rq ''employeeId'') (\<lambda>employeeId.
     andThen (consult (\<lambda>s. check (\<not> truthy employeeId \<or> findEmployee (org_of actor) (or_empty employeeId) s \<noteq> None)
       (notFound ''Employee not found''))) (\<lambda>_.
     andThen (clock_now en) (\<lambda>now.
     andThen (consult (buildDashboardOverview (en_host en) (en_zones en) (actor_organization actor)
       \<lparr>dq_preset = preset, dq_from = frm, dq_to = to, dq_employeeId = employeeId\<rparr> now)) reply_ok)))))))"

definition get_audit_events :: "environment \<Rightarrow> http_request \<Rightarrow> audit_event list reply app" where
  "get_audit_events en rq =
     andThen (protect en audit_read rq) (\<lambda>actor.
     andThen (limit_of en rq 50 100) (\<lambda>limit.
     andThen (look (listAuditEvents (en_host en) (org_of actor) limit)) reply_ok))"

end
