(* ===== verification/Server.thy ===== *)
theory Server
  imports ReportRoutes
begin

text \<open>
  The server: the routes \<open>buildApp\<close> registers on the repository, and how a request is answered. Not
  among them are those whose work is done by services the sources only call (recordings, API keys).
\<close>

datatype route =
    GetSession | PostDevSession | PostBuiltinSession | GetEmployees | PostEmployee | PostSuspend
    | GetLeadStatuses | GetLeadOwners | GetLeads | GetLead | PostLead | PatchLead | PostNote | PostFollowUp
    | PostComplete | PostImportPreview | GetImports | GetImport | GetImportErrors | PostImportCommit
    | GetRules | PostRule | PatchRule | PostDryRun | PostApplyRules | GetLeadReport | GetAutomation | PostView
    | PostSchedule | PatchSchedule | PutPreferences | PostExport | PostDownloadToken | PostDownloadRedeem
    | GetNotifications | PostNotificationRead | PostPairingCode | DeletePairingCode | PostDeviceRevoke
    | PostRedeem | GetPolicy | PostActivate | PostReconsent | GetMobileLeads | GetMobileLead
    | GetMobileStatuses | PostMobileUpdate | PostHeartbeat | PostCallBatch | PostPrepare | PostConfirm
    | DeleteSession | PostSimulatedCall | GetCalls | PostLinkCorrection | GetDashboard | GetAuditEvents

text \<open>The payloads the routes answer with.\<close>

datatype answer =
    ASession session_view | AIssued issued_session | AEmployees "employee listing" | AEmployee employee
    | AStatuses "lead_status list" | AOwners "lead_owner_summary list" | ALeads leads_page | ALead lead_detail
    | APreview import_preview | AJobs "import_job list" | AText string | AImport import_result
    | ARules "assignment_rule list" | ARule assignment_rule | ADryRun dry_run | AApplied apply_result
    | AReport lead_report | AAutomation automation_snapshot | AView saved_view | ASchedule report_schedule
    | APreferences "notification_preference list" | AExport export_job | AToken "string \<times> string"
    | AArtifact artifact | AInbox "notification list \<times> nat" | ANotification notification
    | APairing pairing_view | ARevokedCode "string \<times> string" | ADeviceRevoked admin_revoke_result
    | ARedeemed redeem_view | APolicy mobile_policy | AActivated activate_result
    | AReconsented reconsent_result | AReceipt mobile_receipt | AHeartbeat heartbeat_result
    | ABatch sync_result | APrepared prepare_result | AConfirmed confirm_result | ARevoked revoke_result
    | ACall "call_log \<times> bool" | ACalls "call_log listing" | ACorrection correction_result
    | ADashboard dashboard_overview | AAudit "audit_event list"

definition as_answer :: "('x \<Rightarrow> answer) \<Rightarrow> 'x reply app \<Rightarrow> answer reply app" where
  "as_answer f m = andThen m (\<lambda>r. give \<lparr>rep_status = rep_status r, rep_data = f (rep_data r)\<rparr>)"

primrec serve :: "environment \<Rightarrow> route \<Rightarrow> http_request \<Rightarrow> answer reply app" where
  "serve en GetSession rq = as_answer ASession (get_session en rq)"
| "serve en PostDevSession rq = as_answer AIssued (post_dev_session en rq)"
| "serve en PostBuiltinSession rq = as_answer AIssued (post_builtin_session en rq)"
| "serve en GetEmployees rq = as_answer AEmployees (get_employees en rq)"
| "serve en PostEmployee rq = as_answer AEmployee (post_employee en rq)"
| "serve en PostSuspend rq = as_answer AEmployee (post_suspend en rq)"
| "serve en GetLeadStatuses rq = as_answer AStatuses (get_lead_statuses en rq)"
| "serve en GetLeadOwners rq = as_answer AOwners (get_lead_owners en rq)"
| "serve en GetLeads rq = as_answer ALeads (get_leads en rq)"
| "serve en GetLead rq = as_answer ALead (get_lead en rq)"
| "serve en PostLead rq = as_answer ALead (post_lead en rq)"
| "serve en PatchLead rq = as_answer ALead (patch_lead en rq)"
| "serve en PostNote rq = as_answer ALead (post_note en rq)"
| "serve en PostFollowUp rq = as_answer ALead (post_follow_up en rq)"
| "serve en PostComplete rq = as_answer ALead (post_complete en rq)"
| "serve en PostImportPreview rq = as_answer APreview (post_import_preview en rq)"
| "serve en GetImports rq = as_answer AJobs (get_imports en rq)"
| "serve en GetImport rq = as_answer APreview (get_import en rq)"
| "serve en GetImportErrors rq = as_answer AText (get_import_errors en rq)"
| "serve en PostImportCommit rq = as_answer AImport (post_import_commit en rq)"
| "serve en GetRules rq = as_answer ARules (get_rules en rq)"
| "serve en PostRule rq = as_answer ARule (post_rule en rq)"
| "serve en PatchRule rq = as_answer ARule (patch_rule en rq)"
| "serve en PostDryRun rq = as_answer ADryRun (post_dry_run en rq)"
| "serve en PostApplyRules rq = as_answer AApplied (post_apply_rules en rq)"
| "serve en GetLeadReport rq = as_answer AReport (get_lead_report en rq)"
| "serve en GetAutomation rq = as_answer AAutomation (get_automation en rq)"
| "serve en PostView rq = as_answer AView (post_view en rq)"
| "serve en PostSchedule rq = as_answer ASchedule (post_schedule en rq)"
| "serve en PatchSchedule rq = as_answer ASchedule (patch_schedule en rq)"
| "serve en PutPreferences rq = as_answer APreferences (put_preferences en rq)"
| "serve en PostExport rq = as_answer AExport (post_export en rq)"
| "serve en PostDownloadToken rq = as_answer AToken (post_download_token en rq)"
| "serve en PostDownloadRedeem rq = as_answer AArtifact (post_download_redeem en rq)"
| "serve en GetNotifications rq = as_answer AInbox (get_notifications en rq)"
| "serve en PostNotificationRead rq = as_answer ANotification (post_notification_read en rq)"
| "serve en PostPairingCode rq = as_answer APairing (post_pairing_code en rq)"
| "serve en DeletePairingCode rq = as_answer ARevokedCode (delete_pairing_code en rq)"
| "serve en PostDeviceRevoke rq = as_answer ADeviceRevoked (post_device_revoke en rq)"
| "serve en PostRedeem rq = as_answer ARedeemed (post_redeem en rq)"
| "serve en GetPolicy rq = as_answer APolicy (get_policy en rq)"
| "serve en PostActivate rq = as_answer AActivated (post_activate en rq)"
| "serve en PostReconsent rq = as_answer AReconsented (post_reconsent en rq)"
| "serve en GetMobileLeads rq = as_answer ALeads (get_mobile_leads en rq)"
| "serve en GetMobileLead rq = as_answer ALead (get_mobile_lead en rq)"
| "serve en GetMobileStatuses rq = as_answer AStatuses (get_mobile_statuses en rq)"
| "serve en PostMobileUpdate rq = as_answer AReceipt (post_mobile_update en rq)"
| "serve en PostHeartbeat rq = as_answer AHeartbeat (post_heartbeat en rq)"
| "serve en PostCallBatch rq = as_answer ABatch (post_call_batch en rq)"
| "serve en PostPrepare rq = as_answer APrepared (post_prepare en rq)"
| "serve en PostConfirm rq = as_answer AConfirmed (post_confirm en rq)"
| "serve en DeleteSession rq = as_answer ARevoked (delete_session en rq)"
| "serve en PostSimulatedCall rq = as_answer ACall (post_simulated_call en rq)"
| "serve en GetCalls rq = as_answer ACalls (get_calls en rq)"
| "serve en PostLinkCorrection rq = as_answer ACorrection (post_link_correction en rq)"
| "serve en GetDashboard rq = as_answer ADashboard (get_dashboard en rq)"
| "serve en GetAuditEvents rq = as_answer AAudit (get_audit_events en rq)"

text \<open>The error handler turns whatever a route throws into an answer; the state stays as the throw left it.\<close>

definition respond :: "environment \<Rightarrow> route \<Rightarrow> http_request \<Rightarrow> app_state \<Rightarrow> (wire_error + answer reply) \<times> app_state" where
  "respond en route rq s = (case serve en route rq s of
      (Inl e, s') \<Rightarrow> (Inl (onError e), s') | (Inr r, s') \<Rightarrow> (Inr r, s'))"

end
