(* ===== verification/AccessFacts.thy ===== *)
theory AccessFacts
  imports Server
begin

text \<open>
  Who may do what: the table of access the routes are meant to have, and that the composition of
  hooks and handlers keeps to it. A request that is not authorized is refused before its handler runs.
\<close>

section \<open>The access table\<close>

text \<open>
  Open to all; a signed-in user with these permissions and, if any are listed, one of these roles; a
  device credential of one of these types; a device credential or the retry of a recorded operation;
  a pending credential of a rotation.
\<close>

datatype access = Open | Users "permission list" "system_role_key list" | Devices "credential_type list"
  | Retryable credential_type credential_operation | Rotating

definition readers :: "system_role_key list" where
  "readers = [RoleOwner, RoleAdmin, RoleAnalyst]"

definition administrators :: "system_role_key list" where
  "administrators = [RoleOwner, RoleAdmin]"

definition access_of :: "route \<Rightarrow> access" where
  "access_of r = (case r of
      GetSession \<Rightarrow> Users [] []
    | GetEmployees \<Rightarrow> Users [employees_read] readers
    | PostEmployee \<Rightarrow> Users [employees_manage] administrators | PostSuspend \<Rightarrow> Users [employees_manage] administrators
    | GetLeadStatuses \<Rightarrow> Users [leads_read] [] | GetLeadOwners \<Rightarrow> Users [leads_read] [] | GetLeads \<Rightarrow> Users [leads_read] []
    | GetLead \<Rightarrow> Users [leads_read] []
    | PostLead \<Rightarrow> Users [leads_manage] [] | PatchLead \<Rightarrow> Users [leads_manage] [] | PostNote \<Rightarrow> Users [leads_manage] []
    | PostFollowUp \<Rightarrow> Users [leads_manage] [] | PostComplete \<Rightarrow> Users [leads_manage] []
    | PostImportPreview \<Rightarrow> Users [leads_assign] [] | GetImports \<Rightarrow> Users [leads_assign] [] | GetImport \<Rightarrow> Users [leads_assign] []
    | GetImportErrors \<Rightarrow> Users [leads_assign] [] | PostImportCommit \<Rightarrow> Users [leads_assign] [] | GetRules \<Rightarrow> Users [leads_assign] []
    | PostRule \<Rightarrow> Users [leads_assign] [] | PatchRule \<Rightarrow> Users [leads_assign] [] | PostDryRun \<Rightarrow> Users [leads_assign] []
    | PostApplyRules \<Rightarrow> Users [leads_assign] []
    | GetLeadReport \<Rightarrow> Users [reports_read] [] | GetAutomation \<Rightarrow> Users [reports_read] [] | PostView \<Rightarrow> Users [reports_read] []
    | PostSchedule \<Rightarrow> Users [reports_read] [] | PatchSchedule \<Rightarrow> Users [reports_read] [] | PutPreferences \<Rightarrow> Users [reports_read] []
    | GetNotifications \<Rightarrow> Users [reports_read] [] | PostNotificationRead \<Rightarrow> Users [reports_read] []
    | PostExport \<Rightarrow> Users [reports_export] [] | PostDownloadToken \<Rightarrow> Users [reports_export] []
    | PostDownloadRedeem \<Rightarrow> Users [reports_export] []
    | PostPairingCode \<Rightarrow> Users [devices_manage] administrators | DeletePairingCode \<Rightarrow> Users [devices_manage] administrators
    | PostDeviceRevoke \<Rightarrow> Users [devices_manage] administrators
    | PostSimulatedCall \<Rightarrow> Users [calls_annotate] administrators
    | GetCalls \<Rightarrow> Users [calls_read] readers | GetDashboard \<Rightarrow> Users [calls_read] readers
    | PostLinkCorrection \<Rightarrow> Users [calls_annotate, leads_assign] [] | GetAuditEvents \<Rightarrow> Users [audit_read] []
    | GetPolicy \<Rightarrow> Devices [CredBootstrap, CredSession]
    | GetMobileLeads \<Rightarrow> Devices [CredSession] | GetMobileLead \<Rightarrow> Devices [CredSession] | GetMobileStatuses \<Rightarrow> Devices [CredSession]
    | PostMobileUpdate \<Rightarrow> Devices [CredSession] | PostHeartbeat \<Rightarrow> Devices [CredSession] | PostCallBatch \<Rightarrow> Devices [CredSession]
    | PostActivate \<Rightarrow> Retryable CredBootstrap OpActivate | PostReconsent \<Rightarrow> Retryable CredSession OpReconsent
    | PostPrepare \<Rightarrow> Retryable CredSession OpRotationPrepare | DeleteSession \<Rightarrow> Retryable CredSession OpRevoke
    | PostConfirm \<Rightarrow> Rotating
    | PostDevSession \<Rightarrow> Open | PostBuiltinSession \<Rightarrow> Open | PostRedeem \<Rightarrow> Open)"

section \<open>Credentials of a request\<close>

definition bearer :: "http_request \<Rightarrow> string option" where
  "bearer rq = (case parseBearerToken (rq_authorization rq) of Inl _ \<Rightarrow> None | Inr t \<Rightarrow> Some t)"

definition signed_in :: "environment \<Rightarrow> http_request \<Rightarrow> app_state \<Rightarrow> actor_context \<Rightarrow> bool" where
  "signed_in en rq s actor \<longleftrightarrow> (\<exists>token. bearer rq = Some token
     \<and> (if cf_production (en_config en) \<and> \<not> cf_builtinAuth (en_config en)
        then \<exists>orgId issuer subject. en_identity en token = Some (orgId, issuer, subject)
          \<and> resolveActorByExternalIdentity orgId issuer subject s = Some actor
        else \<exists>payload. verify_token (en_primitives en) (token_service_of en) (en_clock en (clockReads s)) token = Inr payload
          \<and> findActor (or_empty (as_string (field payload ''organizationId''))) (or_empty (as_string (field payload ''subject''))) s
            = Some actor))"

text \<open>The device a token resolves to at the n-th reading of the clock from now.\<close>

definition token_device :: "environment \<Rightarrow> http_request \<Rightarrow> nat \<Rightarrow> credential_type \<Rightarrow> app_state \<Rightarrow> mobile_context option" where
  "token_device en rq n ty s = Option.bind (bearer rq) (\<lambda>token.
     if isOpaqueDeviceCredential token ty
     then resolveDeviceCredential (en_host en) (hashed en ty token) ty (iso_of en (en_clock en (clockReads s + n))) s else None)"

definition request_key :: "environment \<Rightarrow> http_request \<Rightarrow> (string \<times> string) option" where
  "request_key en rq = (case operationRequest (\<lambda>fs. fingerprint (en_primitives en) (JObject fs)) (rq_idempotencyKey rq) (rq_body rq) of
     Inl _ \<Rightarrow> None | Inr k \<Rightarrow> Some k)"

definition recorded_device ::
  "environment \<Rightarrow> http_request \<Rightarrow> credential_type \<Rightarrow> credential_operation \<Rightarrow> app_state \<Rightarrow> mobile_context option" where
  "recorded_device en rq ty op s = Option.bind (bearer rq) (\<lambda>token. Option.bind (request_key en rq) (\<lambda>(i, fp).
     if isOpaqueDeviceCredential token ty
     then resolveDeviceCredentialReplay \<lparr>rp_tokenHash = hashed en ty token, rp_credentialType = ty, rp_operation = op,
       rp_requestId = i, rp_requestFingerprint = fp\<rparr> s else None))"

definition rotating_device :: "environment \<Rightarrow> http_request \<Rightarrow> app_state \<Rightarrow> mobile_context option" where
  "rotating_device en rq s = Option.bind (bearer rq) (\<lambda>token. Option.bind (as_record (rq_body rq)) (\<lambda>body.
     if isOpaqueDeviceCredential token CredSession
     then resolvePendingRotationCredential (en_host en) (hashed en CredSession token)
       (or_empty (as_string (field body ''prepareRequestId''))) (iso_of en (en_clock en (clockReads s + 1))) s else None))"

definition authorized :: "environment \<Rightarrow> http_request \<Rightarrow> access \<Rightarrow> app_state \<Rightarrow> bool" where
  "authorized en rq a s = (case a of
      Open \<Rightarrow> True
    | Users ps ks \<Rightarrow> \<exists>actor. signed_in en rq s actor \<and> set ps \<subseteq> set (actor_permissions actor) \<and> (ks = [] \<or> actor_roleKey actor \<in> set ks)
    | Devices tys \<Rightarrow> \<exists>ty \<in> set tys. token_device en rq 0 ty s \<noteq> None
    | Retryable ty op \<Rightarrow> recorded_device en rq ty op s \<noteq> None \<or> token_device en rq 1 ty s \<noteq> None
    | Rotating \<Rightarrow> recorded_device en rq CredSession OpRotationConfirm s \<noteq> None \<or> rotating_device en rq s \<noteq> None)"

section \<open>Guards\<close>

definition refusal :: "thrown \<Rightarrow> bool" where
  "refusal e = (we_status (onError e) \<in> {400, 401, 403, 404})"

text \<open>Where \<open>P\<close> fails, \<open>m\<close> refuses and touches nothing but the clock.\<close>

definition guarded :: "(app_state \<Rightarrow> bool) \<Rightarrow> 'x app \<Rightarrow> bool" where
  "guarded P m \<longleftrightarrow> (\<forall>s. P s \<or> (\<exists>e n. m s = (Inl e, s\<lparr>clockReads := n\<rparr>) \<and> refusal e))"

named_theorems app_defs "the sequencing of handlers"
lemmas [app_defs] = give_def fail_def andThen_def pure_def look_def consult_def act_def require_def found_def
  clock_now_def now_iso_def expect_def check_def

lemma refusals [simp]:
  "refusal (unauthenticated msg)" "refusal (forbidden msg)" "refusal (notFound msg)" "refusal (badRequest msg fld)"
  "refusal invalid_device" "refusal no_permission" "refusal route_missing"
  by (simp_all add: refusal_def onError_def unauthenticated_def forbidden_def notFound_def badRequest_def domain_error_def
      invalid_device_def no_permission_def route_missing_def)

lemma guarded_andThen: "guarded P m \<Longrightarrow> guarded P (andThen m f)"
  unfolding guarded_def andThen_def by (rule allI, drule spec, erule disj_forward) auto

lemma guarded_require: "refusal e \<Longrightarrow> guarded P m \<Longrightarrow> guarded P (andThen (require b e) (\<lambda>_. m))"
proof (unfold guarded_def, intro allI)
  fix s assume r: "refusal e" and m: "\<forall>s. P s \<or> (\<exists>e n. m s = (Inl e, s\<lparr>clockReads := n\<rparr>) \<and> refusal e)"
  show "P s \<or> (\<exists>x n. andThen (require b e) (\<lambda>_. m) s = (Inl x, s\<lparr>clockReads := n\<rparr>) \<and> refusal x)"
    using spec[OF m, of s] r by (cases b) (auto simp: app_defs intro: exI[of _ "clockReads s"])
qed

lemma guarded_True: "guarded (\<lambda>_. True) m"
  by (simp add: guarded_def)

lemma bearer_cases:
  "(\<exists>t. parseBearerToken (rq_authorization rq) = Inr t \<and> bearer rq = Some t)
   \<or> (\<exists>msg. parseBearerToken (rq_authorization rq) = Inl (unauthenticated msg) \<and> bearer rq = None)"
proof (cases "parseBearerToken (rq_authorization rq)")
  case (Inl e)
  then have "\<exists>msg. e = unauthenticated msg"
    by (auto simp: parseBearerToken_def Let_def split: if_splits option.splits list.splits)
  then show ?thesis using Inl by (auto simp: bearer_def)
qed (simp add: bearer_def)

lemma guarded_mono: "guarded P m \<Longrightarrow> (\<And>s. P s \<Longrightarrow> Q s) \<Longrightarrow> guarded Q m"
  unfolding guarded_def by blast

section \<open>The hooks guard\<close>

lemma clock_unread: "s = s\<lparr>clockReads := clockReads s\<rparr>" for s :: app_state
  by simp

lemma unseal_refuses:
  assumes "\<And>msg. refusal (refuse msg)" "unseal pr secret refuse what txt = Inl e"
  shows "refusal e"
proof (cases "\<exists>p q. split_dots txt = [p, q]")
  case True
  then obtain p q where "split_dots txt = [p, q]" by blast
  then show ?thesis using assms by (auto simp: unseal_def split: if_splits option.splits)
next
  case False
  then have "unseal pr secret refuse what txt = Inl (refuse (''The '' @ what @ '' is malformed''))"
    by (auto simp: unseal_def split: list.split)
  then show ?thesis using assms by simp
qed

lemma verify_token_refuses:
  assumes "verify_token pr ts now token = Inl e"
  shows "refusal e"
proof (cases "unseal pr (ts_secret ts) unauthenticated ''bearer token'' token")
  case (Inl x)
  then show ?thesis using assms unseal_refuses[OF _ Inl] by (simp add: verify_token_def)
next
  case (Inr v)
  have "\<exists>msg. e = unauthenticated msg"
  proof (cases "as_record (Some v)")
    case (Some c)
    then show ?thesis using assms Inr
      by (cases "token_shape c"; cases "number_le (field c ''expiresAt'') (now_seconds now)";
          cases "number_gt (field c ''issuedAt'') (now_seconds now + 60)")
        (auto simp: verify_token_def)
  qed (use assms Inr in \<open>auto simp: verify_token_def\<close>)
  then show ?thesis by auto
qed

text \<open>
  What a hook answers: a refusal, or a value with \<open>Q\<close> for it and the clock's count; either way it
  touches nothing but the clock.
\<close>

definition gate :: "('x \<Rightarrow> nat \<Rightarrow> bool) \<Rightarrow> 'x app \<Rightarrow> app_state \<Rightarrow> bool" where
  "gate Q m s \<longleftrightarrow> (\<exists>n. snd (m s) = s\<lparr>clockReads := n\<rparr> \<and> (case fst (m s) of Inl e \<Rightarrow> refusal e | Inr x \<Rightarrow> Q x n))"

lemma gate_result: "m s = (v, s\<lparr>clockReads := n\<rparr>) \<Longrightarrow> (case v of Inl e \<Rightarrow> refusal e | Inr x \<Rightarrow> Q x n) \<Longrightarrow> gate Q m s"
  by (auto simp: gate_def)

lemma gate_still: "m s = (v, s) \<Longrightarrow> (case v of Inl e \<Rightarrow> refusal e | Inr x \<Rightarrow> Q x (clockReads s)) \<Longrightarrow> gate Q m s"
  by (rule gate_result[of _ _ _ "clockReads s"]) simp_all

lemma gate_andThen:
  assumes m: "gate Q m s" and f: "\<And>x n. Q x n \<Longrightarrow> gate R (f x) (s\<lparr>clockReads := n\<rparr>)"
  shows "gate R (andThen m f) s"
proof -
  obtain n where n: "snd (m s) = s\<lparr>clockReads := n\<rparr>" "case fst (m s) of Inl e \<Rightarrow> refusal e | Inr x \<Rightarrow> Q x n"
    using m by (auto simp: gate_def)
  show ?thesis
  proof (cases "fst (m s)")
    case (Inl e)
    then have "andThen m f s = (Inl e, s\<lparr>clockReads := n\<rparr>)" using n by (cases "m s") (simp add: andThen_def)
    then show ?thesis using Inl n by (intro gate_result[of _ _ "Inl e" n]) simp_all
  next
    case (Inr x)
    then have "andThen m f s = f x (s\<lparr>clockReads := n\<rparr>)" using n by (cases "m s") (simp add: andThen_def)
    moreover have "gate R (f x) (s\<lparr>clockReads := n\<rparr>)" using f Inr n by simp
    ultimately show ?thesis by (auto simp: gate_def)
  qed
qed

lemma gate_pure:
  "(\<And>e. v = Inl e \<Longrightarrow> refusal e) \<Longrightarrow> (\<And>x. v = Inr x \<Longrightarrow> Q x (clockReads s)) \<Longrightarrow> gate Q (pure v) s"
  by (rule gate_still[of _ _ v]) (auto simp: app_defs split: sum.split)

lemma gate_require: "refusal e \<Longrightarrow> (b \<Longrightarrow> Q () (clockReads s)) \<Longrightarrow> gate Q (require b e) s"
  unfolding require_def by (rule gate_pure) (auto simp: check_def give_def split: if_splits)

lemma gate_found: "refusal e \<Longrightarrow> (\<And>x. v = Some x \<Longrightarrow> Q x (clockReads s)) \<Longrightarrow> gate Q (found v e) s"
  unfolding found_def by (rule gate_pure) (auto simp: expect_def split: option.splits)

lemma gate_give: "Q x (clockReads s) \<Longrightarrow> gate Q (give x) s"
  by (rule gate_still[of _ _ "Inr x"]) (simp_all add: app_defs)

lemma gate_look: "Q (f s) (clockReads s) \<Longrightarrow> gate Q (look f) s"
  by (rule gate_still[of _ _ "Inr (f s)"]) (simp_all add: app_defs)

lemma gate_clock: "Q (en_clock en (clockReads s)) (Suc (clockReads s)) \<Longrightarrow> gate Q (clock_now en) s"
  by (rule gate_result[of _ _ "Inr (en_clock en (clockReads s))" "Suc (clockReads s)"]) (simp_all add: clock_now_def)

lemma gate_now: "Q (iso_of en (en_clock en (clockReads s))) (Suc (clockReads s)) \<Longrightarrow> gate Q (now_iso en) s"
  unfolding now_iso_def by (rule gate_andThen[OF gate_clock, of "\<lambda>t n. t = en_clock en (clockReads s) \<and> n = Suc (clockReads s)"])
    (auto intro: gate_give)

lemma gate_weaken: "gate Q m s \<Longrightarrow> (\<And>x n. Q x n \<Longrightarrow> R x n) \<Longrightarrow> gate R m s"
  by (auto simp: gate_def split: sum.splits)

lemma guarded_gate: "(\<And>s. gate (\<lambda>_ _. P s) m s) \<Longrightarrow> guarded P m"
proof (unfold guarded_def, intro allI)
  fix s
  assume "\<And>s. gate (\<lambda>_ _. P s) m s"
  then obtain n where n: "snd (m s) = s\<lparr>clockReads := n\<rparr>" "case fst (m s) of Inl e \<Rightarrow> refusal e | Inr x \<Rightarrow> P s"
    unfolding gate_def by blast
  then show "P s \<or> (\<exists>e n. m s = (Inl e, s\<lparr>clockReads := n\<rparr>) \<and> refusal e)"
    by (cases "fst (m s)") (auto simp: prod_eq_iff)
qed

lemma clock_fields:
  "organizations (s\<lparr>clockReads := n\<rparr>) = organizations s" "users (s\<lparr>clockReads := n\<rparr>) = users s"
  "employees (s\<lparr>clockReads := n\<rparr>) = employees s" "devices (s\<lparr>clockReads := n\<rparr>) = devices s"
  "activeConsentByDevice (s\<lparr>clockReads := n\<rparr>) = activeConsentByDevice s"
  "deviceCollectionModes (s\<lparr>clockReads := n\<rparr>) = deviceCollectionModes s"
  "mobilePolicies (s\<lparr>clockReads := n\<rparr>) = mobilePolicies s"
  "deviceCredentialsByHash (s\<lparr>clockReads := n\<rparr>) = deviceCredentialsByHash s"
  "credentialRequests (s\<lparr>clockReads := n\<rparr>) = credentialRequests s"
  by simp_all

lemma clock_blind:
  "roles_of orgId u (s\<lparr>clockReads := n\<rparr>) = roles_of orgId u s"
  "linked_employee orgId i (s\<lparr>clockReads := n\<rparr>) = linked_employee orgId i s"
  "isConsentCurrent i (s\<lparr>clockReads := n\<rparr>) = isConsentCurrent i s"
  unfolding isConsentCurrent_def clock_fields by (simp_all add: roles_of_def linked_employee_def)

lemma findActor_clock: "findActor orgId i (s\<lparr>clockReads := n\<rparr>) = findActor orgId i s"
  unfolding findActor_def clock_blind clock_fields by simp

lemma context_clock: "contextForCredential c (s\<lparr>clockReads := n\<rparr>) = contextForCredential c s"
  unfolding contextForCredential_def clock_blind clock_fields by simp

lemma find_current_clock:
  "findCurrentMobileCredential h ctx ty ts (s\<lparr>clockReads := n\<rparr>) = findCurrentMobileCredential h ctx ty ts s"
  unfolding findCurrentMobileCredential_def find_credential_for_def clock_fields by simp

lemma resolve_clock:
  "resolveDeviceCredential h tok ty ts (s\<lparr>clockReads := n\<rparr>) = resolveDeviceCredential h tok ty ts s"
  "resolveDeviceCredentialReplay rp (s\<lparr>clockReads := n\<rparr>) = resolveDeviceCredentialReplay rp s"
  "resolvePendingRotationCredential h tok i ts (s\<lparr>clockReads := n\<rparr>) = resolvePendingRotationCredential h tok i ts s"
  unfolding resolveDeviceCredential_def resolveDeviceCredentialReplay_def resolvePendingRotationCredential_def
    context_clock find_current_clock clock_fields by simp_all

section \<open>The hooks of a signed-in user\<close>

lemma gate_bearer: "gate (\<lambda>t n. bearer rq = Some t \<and> n = clockReads s) (pure (parseBearerToken (rq_authorization rq))) s"
  by (rule gate_pure) (use bearer_cases[of rq] in auto)

lemma gate_external:
  assumes "bearer rq = Some token" "cf_production (en_config en) \<and> \<not> cf_builtinAuth (en_config en)"
  shows "gate (\<lambda>actor _. \<forall>a. actor = Some a \<longrightarrow> signed_in en rq s a) (external_actor en token) s"
  unfolding external_actor_def
  by (rule gate_andThen[OF gate_found, of _ _ "\<lambda>i n. en_identity en token = Some i \<and> n = clockReads s"])
    (use assms in \<open>auto simp: signed_in_def intro!: gate_look\<close>)

lemma gate_token:
  assumes "bearer rq = Some token" "\<not> (cf_production (en_config en) \<and> \<not> cf_builtinAuth (en_config en))"
  shows "gate (\<lambda>actor _. \<forall>a. actor = Some a \<longrightarrow> signed_in en rq s a) (token_actor en token) s"
  unfolding token_actor_def
  by (rule gate_andThen[OF gate_clock, of "\<lambda>t n. t = en_clock en (clockReads s)"], simp,
      rule gate_andThen[OF gate_pure, of _ "\<lambda>p n. verify_token (en_primitives en) (token_service_of en) (en_clock en (clockReads s)) token = Inr p"])
    (use assms in \<open>auto simp: signed_in_def findActor_clock intro!: gate_look intro: verify_token_refuses\<close>)

lemma authenticate_gate: "gate (\<lambda>actor _. signed_in en rq s actor) (authenticate en rq) s"
  unfolding authenticate_def
proof (rule gate_andThen[OF gate_bearer])
  fix token n assume token: "bearer rq = Some token \<and> n = clockReads s"
  let ?find = "if cf_production (en_config en) \<and> \<not> cf_builtinAuth (en_config en) then external_actor en token else token_actor en token"
  have "gate (\<lambda>actor _. \<forall>a. actor = Some a \<longrightarrow> signed_in en rq s a) ?find s"
    using token gate_external gate_token by simp
  then have "gate (\<lambda>actor _. signed_in en rq s actor)
      (andThen ?find (\<lambda>actor. found actor (unauthenticated (inactive_message en)))) s"
    by (rule gate_andThen) (auto intro: gate_found)
  then show "gate (\<lambda>actor _. signed_in en rq s actor)
      (andThen ?find (\<lambda>actor. found actor (unauthenticated (inactive_message en)))) (s\<lparr>clockReads := n\<rparr>)"
    using token by simp
qed

lemma permission_gate:
  "gate (\<lambda>_ _. p \<in> set (actor_permissions actor)) (requirePermission p actor) s"
  unfolding requirePermission_def by (rule gate_require) simp_all

lemma protect_gate:
  "gate (\<lambda>actor _. signed_in en rq s actor \<and> p \<in> set (actor_permissions actor)) (protect en p rq) s"
  unfolding protect_def
  by (rule gate_andThen[OF authenticate_gate], rule gate_andThen[OF permission_gate]) (auto intro: gate_give)

lemma guarded_authenticate: "guarded (authorized en rq (Users [] [])) (authenticate en rq)"
  by (rule guarded_gate, rule gate_weaken[OF authenticate_gate]) (auto simp: authorized_def)

lemma guarded_protect: "guarded (authorized en rq (Users [p] [])) (protect en p rq)"
  by (rule guarded_gate, rule gate_weaken[OF protect_gate]) (auto simp: authorized_def)

lemma guarded_protect_both:
  "guarded (authorized en rq (Users [p, q] [])) (andThen (protect en p rq) (\<lambda>actor. andThen (requirePermission q actor) (f actor)))"
proof -
  have "guarded (authorized en rq (Users [p, q] []))
      (andThen (protect en p rq) (\<lambda>actor. andThen (requirePermission q actor) (\<lambda>_. give actor)))"
    by (rule guarded_gate, rule gate_andThen[OF protect_gate], rule gate_andThen[OF permission_gate])
      (auto simp: authorized_def intro!: gate_give)
  then have "guarded (authorized en rq (Users [p, q] []))
      (andThen (andThen (protect en p rq) (\<lambda>actor. andThen (requirePermission q actor) (\<lambda>_. give actor))) (\<lambda>actor. f actor ()))"
    by (rule guarded_andThen)
  moreover have "andThen (andThen (protect en p rq) (\<lambda>actor. andThen (requirePermission q actor) (\<lambda>_. give actor))) (\<lambda>actor. f actor ())
      = andThen (protect en p rq) (\<lambda>actor. andThen (requirePermission q actor) (f actor))"
    by (rule ext) (auto simp: andThen_def give_def requirePermission_def require_def pure_def split: prod.splits sum.splits)
  ultimately show ?thesis by simp
qed

lemma scope_gates:
  "gate (\<lambda>_ _. actor_roleKey actor \<in> set readers) (requireFullOrganizationReadScope actor) s"
  "gate (\<lambda>_ _. actor_roleKey actor \<in> set administrators) (requireFullOrganizationAdminScope actor) s"
  unfolding requireFullOrganizationReadScope_def requireFullOrganizationAdminScope_def
  by (rule gate_require; simp add: readers_def administrators_def)+

lemma guarded_read: "guarded (authorized en rq (Users [p] readers)) (protectOrganizationRead en p rq)"
  unfolding protectOrganizationRead_def
  by (rule guarded_gate, rule gate_andThen[OF protect_gate], rule gate_andThen[OF scope_gates(1)])
    (auto simp: authorized_def intro!: gate_give)

lemma guarded_admin: "guarded (authorized en rq (Users [p] administrators)) (protectOrganizationAdmin en p rq)"
  unfolding protectOrganizationAdmin_def
  by (rule guarded_gate, rule gate_andThen[OF protect_gate], rule gate_andThen[OF scope_gates(2)])
    (auto simp: authorized_def intro!: gate_give)

section \<open>The hooks of a device\<close>

lemma gate_device_token: "gate (\<lambda>t n. bearer rq = Some t \<and> n = clockReads s) (device_token rq) s"
  unfolding device_token_def by (rule gate_pure) (use bearer_cases[of rq] in auto)

lemma gate_resolve:
  "gate (\<lambda>ctx _. ctx = resolveDeviceCredential (en_host en) (hashed en ty token) ty (iso_of en (en_clock en (clockReads s))) s)
     (resolve_device en ty token) s"
  unfolding resolve_device_def
  by (rule gate_andThen[OF gate_now, of "\<lambda>ts _. ts = iso_of en (en_clock en (clockReads s))"])
    (auto simp: resolve_clock intro: gate_look)

lemma operation_request_refuses:
  assumes "operationRequest fp hdr body = Inl e"
  shows "refusal e"
proof -
  have key: "refusal e" if "idempotencyKey hdr = Inl e" for e
    using that by (auto simp: idempotencyKey_def split: header.splits if_splits)
  show ?thesis using assms
    by (auto simp: operationRequest_def attempt_def dest: key split: option.splits json.splits if_splits sum.splits)
qed

lemma gate_request: "gate (\<lambda>k n. request_key en rq = Some k \<and> n = clockReads s) (operation_request en rq) s"
  unfolding operation_request_def by (rule gate_pure) (auto simp: request_key_def intro: operation_request_refuses)

lemma gate_replay:
  "gate (\<lambda>ctx n. n = Suc (clockReads s) \<and> ctx = resolveDeviceCredentialReplay \<lparr>rp_tokenHash = hashed en ty token,
       rp_credentialType = ty, rp_operation = op, rp_requestId = fst request, rp_requestFingerprint = snd request\<rparr> s)
     (find_replay en ty op token request) s"
  unfolding find_replay_def
  by (rule gate_andThen[OF gate_now, of "\<lambda>_ n. n = Suc (clockReads s)"]) (auto simp: resolve_clock intro: gate_look)

lemma gate_or_resolve:
  assumes "\<And>ctx. replay = Some ctx \<Longrightarrow> P" "gate (\<lambda>ctx _. ctx \<noteq> None \<longrightarrow> P) m s"
  shows "gate (\<lambda>_ _. P) (or_resolve replay m) s"
proof (cases replay)
  case (Some ctx)
  then show ?thesis using assms(1) by (auto simp: or_resolve_def intro: gate_give)
next
  case None
  have "gate (\<lambda>_ _. P) (andThen m (\<lambda>ctx. found ctx invalid_device)) s"
    by (rule gate_andThen[OF assms(2)]) (auto intro: gate_found)
  then show ?thesis using None by (simp add: or_resolve_def)
qed

text \<open>Each rests on what the two steps before the lookup left: the token and the body's key.\<close>

lemma token_device_now:
  "bearer rq = Some token \<Longrightarrow> isOpaqueDeviceCredential token ty \<Longrightarrow>
   token_device en rq n ty s = resolveDeviceCredential (en_host en) (hashed en ty token) ty (iso_of en (en_clock en (clockReads s + n))) s"
  by (simp add: token_device_def)

lemma gate_credential:
  assumes "bearer rq = Some token" "isOpaqueDeviceCredential token ty" "ty \<in> set tys"
  shows "gate (\<lambda>_ _. authorized en rq (Devices tys) s) (andThen (resolve_device en ty token) (\<lambda>ctx. found ctx invalid_device)) s"
proof (rule gate_andThen[OF gate_resolve], rule gate_found)
  fix ctx n x
  assume "ctx = resolveDeviceCredential (en_host en) (hashed en ty token) ty (iso_of en (en_clock en (clockReads s))) s" "ctx = Some x"
  then have "token_device en rq 0 ty s = Some x" using assms by (simp add: token_device_now)
  then show "authorized en rq (Devices tys) s" using assms by (auto simp: authorized_def)
qed simp

lemma guarded_mobile: "guarded (authorized en rq (Devices [ty])) (authenticateMobile en ty rq)"
  unfolding authenticateMobile_def
proof (rule guarded_gate, rule gate_andThen[OF gate_device_token])
  fix s :: app_state and token n
  assume token: "bearer rq = Some token \<and> n = clockReads s"
  have "gate (\<lambda>_ _. authorized en rq (Devices [ty]) s) (andThen (resolve_device en ty token) (\<lambda>ctx. found ctx invalid_device)) s"
    if "isOpaqueDeviceCredential token ty"
    using gate_credential[of rq token ty "[ty]"] token that by simp
  then have "gate (\<lambda>_ _. authorized en rq (Devices [ty]) s) (andThen (require (isOpaqueDeviceCredential token ty) invalid_device)
      (\<lambda>_. andThen (resolve_device en ty token) (\<lambda>ctx. found ctx invalid_device))) s"
    by (intro gate_andThen[OF gate_require, of _ _ "\<lambda>_ n. isOpaqueDeviceCredential token ty \<and> n = clockReads s"]) auto
  then show "gate (\<lambda>_ _. authorized en rq (Devices [ty]) s) (andThen (require (isOpaqueDeviceCredential token ty) invalid_device)
      (\<lambda>_. andThen (resolve_device en ty token) (\<lambda>ctx. found ctx invalid_device))) (s\<lparr>clockReads := n\<rparr>)"
    using token by simp
qed

lemma guarded_either: "guarded (authorized en rq (Devices [CredBootstrap, CredSession])) (authenticateMobileEither en rq)"
  unfolding authenticateMobileEither_def
proof (rule guarded_gate, rule gate_andThen[OF gate_device_token])
  fix s :: app_state and token n
  assume token: "bearer rq = Some token \<and> n = clockReads s"
  let ?ty = "if isOpaqueDeviceCredential token CredBootstrap then Some CredBootstrap
     else if isOpaqueDeviceCredential token CredSession then Some CredSession else None"
  let ?P = "\<lambda>_ _. authorized en rq (Devices [CredBootstrap, CredSession]) s"
  have "gate ?P (andThen (resolve_device en ty token) (\<lambda>ctx. found ctx invalid_device)) s"
    if "isOpaqueDeviceCredential token ty" for ty
    using gate_credential[of rq token ty "[CredBootstrap, CredSession]"] token that by (cases ty) simp_all
  then have "gate ?P (andThen (found ?ty invalid_device) (\<lambda>ty. andThen (resolve_device en ty token) (\<lambda>ctx. found ctx invalid_device))) s"
    by (intro gate_andThen[OF gate_found, of _ _ "\<lambda>ty n. isOpaqueDeviceCredential token ty \<and> n = clockReads s"])
      (auto split: if_splits)
  then show "gate ?P (andThen (found ?ty invalid_device)
      (\<lambda>ty. andThen (resolve_device en ty token) (\<lambda>ctx. found ctx invalid_device))) (s\<lparr>clockReads := n\<rparr>)"
    using token by simp
qed

lemma guarded_replay: "guarded (authorized en rq (Retryable ty op)) (authenticateMobileWithReplay en ty op rq)"
  unfolding authenticateMobileWithReplay_def
proof (rule guarded_gate, rule gate_andThen[OF gate_device_token])
  fix s :: app_state and token n
  assume token: "bearer rq = Some token \<and> n = clockReads s"
  let ?P = "\<lambda>_ _. authorized en rq (Retryable ty op) s"
  let ?rest = "andThen (operation_request en rq) (\<lambda>request. andThen (find_replay en ty op token request)
      (\<lambda>replay. or_resolve replay (resolve_device en ty token)))"
  have "gate ?P ?rest s" if opaque: "isOpaqueDeviceCredential token ty"
  proof (rule gate_andThen[OF gate_request])
    fix k n assume k: "request_key en rq = Some k \<and> n = clockReads s"
    have "gate ?P (andThen (find_replay en ty op token k) (\<lambda>replay. or_resolve replay (resolve_device en ty token))) s"
      by (rule gate_andThen[OF gate_replay], rule gate_or_resolve, (use token k opaque in
          \<open>auto simp: authorized_def recorded_device_def split_beta\<close>)[1], rule gate_weaken[OF gate_resolve])
        (use token opaque in \<open>auto simp: authorized_def token_device_now resolve_clock\<close>)
    then show "gate ?P (andThen (find_replay en ty op token k) (\<lambda>replay. or_resolve replay (resolve_device en ty token))) (s\<lparr>clockReads := n\<rparr>)"
      using k by simp
  qed
  then have "gate ?P (andThen (require (isOpaqueDeviceCredential token ty \<and> isRecord (rq_body rq)) invalid_device) (\<lambda>_. ?rest)) s"
    by (intro gate_andThen[OF gate_require, of _ _ "\<lambda>_ n. isOpaqueDeviceCredential token ty \<and> n = clockReads s"]) auto
  then show "gate ?P (andThen (require (isOpaqueDeviceCredential token ty \<and> isRecord (rq_body rq)) invalid_device) (\<lambda>_. ?rest)) (s\<lparr>clockReads := n\<rparr>)"
    using token by simp
qed

lemma guarded_rotation: "guarded (authorized en rq Rotating) (authenticateRotationConfirmation en rq)"
  unfolding authenticateRotationConfirmation_def
proof (rule guarded_gate, rule gate_andThen[OF gate_device_token])
  fix s :: app_state and token n
  assume token: "bearer rq = Some token \<and> n = clockReads s"
  let ?P = "\<lambda>_ _. authorized en rq Rotating s"
  let ?pending = "\<lambda>body. andThen (now_iso en) (\<lambda>ts. look (resolvePendingRotationCredential (en_host en) (hashed en CredSession token)
         (or_empty (as_string (field body ''prepareRequestId''))) ts))"
  let ?find = "\<lambda>body k. andThen (find_replay en CredSession OpRotationConfirm token k) (\<lambda>replay. or_resolve replay (?pending body))"
  let ?rest = "\<lambda>body. andThen (operation_request en rq) (\<lambda>k.
      andThen (require (isRequestId (field body ''prepareRequestId'')) invalid_device) (\<lambda>_. ?find body k))"
  have rest: "gate ?P (?rest body) s" if opaque: "isOpaqueDeviceCredential token CredSession" and body: "as_record (rq_body rq) = Some body" for body
  proof (rule gate_andThen[OF gate_request])
    fix k n assume k: "request_key en rq = Some k \<and> n = clockReads s"
    have pending: "gate (\<lambda>ctx _. ctx = rotating_device en rq s) (?pending body) (s\<lparr>clockReads := Suc (clockReads s)\<rparr>)"
      by (rule gate_andThen[OF gate_now, of "\<lambda>ts _. ts = iso_of en (en_clock en (Suc (clockReads s)))"])
        (use token opaque body in \<open>auto simp: rotating_device_def resolve_clock intro: gate_look\<close>)
    have "gate ?P (?find body k) s"
      by (rule gate_andThen[OF gate_replay], rule gate_or_resolve, (use token k opaque in
          \<open>auto simp: authorized_def recorded_device_def split_beta\<close>)[1])
        (use gate_weaken[OF pending] in \<open>auto simp: authorized_def\<close>)
    then have "gate ?P (andThen (require (isRequestId (field body ''prepareRequestId'')) invalid_device) (\<lambda>_. ?find body k)) s"
      by (intro gate_andThen[OF gate_require, of _ _ "\<lambda>_ n. n = clockReads s"]) auto
    then show "gate ?P (andThen (require (isRequestId (field body ''prepareRequestId'')) invalid_device) (\<lambda>_. ?find body k)) (s\<lparr>clockReads := n\<rparr>)"
      using k by simp
  qed
  let ?body = "if isOpaqueDeviceCredential token CredSession then as_record (rq_body rq) else None"
  have "gate ?P (andThen (found ?body invalid_device) ?rest) s"
    by (rule gate_andThen[OF gate_found, of _ _ "\<lambda>body n. isOpaqueDeviceCredential token CredSession \<and> as_record (rq_body rq) = Some body
       \<and> n = clockReads s"]) (use rest in \<open>auto split: if_splits\<close>)
  then show "gate ?P (andThen (found ?body invalid_device) ?rest) (s\<lparr>clockReads := n\<rparr>)"
    using token by simp
qed

section \<open>Every route is guarded as the table says\<close>

named_theorems route_defs "the handlers of the routes"

lemmas [route_defs] = get_session_def get_employees_def post_employee_def post_suspend_def get_lead_statuses_def
  get_lead_owners_def get_leads_def get_lead_def post_lead_def patch_lead_def post_note_def post_follow_up_def
  post_complete_def post_import_preview_def get_imports_def find_import_def get_import_def get_import_errors_def
  post_import_commit_def get_rules_def post_rule_def patch_rule_def post_dry_run_def post_apply_rules_def
  get_lead_report_def get_automation_def post_view_def post_schedule_def patch_schedule_def put_preferences_def
  post_export_def post_download_token_def post_download_redeem_def get_notifications_def post_notification_read_def
  post_pairing_code_def delete_pairing_code_def post_device_revoke_def get_policy_def post_activate_def
  post_reconsent_def consented_session_def get_mobile_leads_def get_mobile_lead_def get_mobile_statuses_def
  post_mobile_update_def post_heartbeat_def post_call_batch_def post_prepare_def post_confirm_def delete_session_def
  get_calls_def get_dashboard_def get_audit_events_def

lemmas guards = guarded_authenticate guarded_protect guarded_read guarded_admin guarded_mobile guarded_either
  guarded_replay guarded_rotation

lemma guarded_correction: "guarded (authorized en rq (access_of PostLinkCorrection)) (post_link_correction en rq)"
  unfolding post_link_correction_def access_of_def route.case by (rule guarded_protect_both)

lemma guarded_simulated: "guarded (authorized en rq (access_of PostSimulatedCall)) (post_simulated_call en rq)"
  unfolding post_simulated_call_def access_of_def route.case
  by (rule guarded_require, simp, rule guarded_andThen, rule guarded_admin)

lemma open_to_all: "authorized en rq Open = (\<lambda>_. True)"
  by (rule ext) (simp add: authorized_def)

lemma routes_guarded: "guarded (authorized en rq (access_of r)) (serve en r rq)"
proof (cases "r \<in> {PostLinkCorrection, PostSimulatedCall, PostDevSession, PostBuiltinSession, PostRedeem}")
  case True
  have "guarded (authorized en rq (access_of PostLinkCorrection)) (serve en PostLinkCorrection rq)"
    "guarded (authorized en rq (access_of PostSimulatedCall)) (serve en PostSimulatedCall rq)"
    unfolding serve.simps as_answer_def by (rule guarded_andThen guarded_correction guarded_simulated)+
  then show ?thesis using True by (auto simp: access_of_def open_to_all guarded_True)
next
  case False
  then show ?thesis
    by (cases r) (simp_all only: serve.simps as_answer_def access_of_def route.case route_defs insert_iff simp_thms,
      (rule guarded_andThen guards)+)
qed

lemma refused_without_access:
  assumes "respond en route rq s = (res, s')" "\<not> authorized en rq (access_of route) s"
  shows "\<exists>e n. res = Inl e \<and> we_status e \<in> {400, 401, 403, 404} \<and> s' = s\<lparr>clockReads := n\<rparr>"
proof -
  obtain e n where "serve en route rq s = (Inl e, s\<lparr>clockReads := n\<rparr>)" "refusal e"
    using routes_guarded[of en rq route] assms(2) unfolding guarded_def by blast
  then show ?thesis using assms(1) by (auto simp: respond_def refusal_def)
qed

text \<open>C5: A request without the access its route demands is refused and changes nothing.\<close>

theorem no_effect_without_access:
  assumes "respond en route rq s = (res, s')" "\<not> authorized en rq (access_of route) s"
  shows "\<exists>e n. res = Inl e \<and> we_status e \<in> {400, 401, 403, 404} \<and> s' = s\<lparr>clockReads := n\<rparr>"
  using assms by (rule refused_without_access)

end
