(* ===== verification/Protocol.thy ===== *)
theory Protocol
  imports AccessFacts Trust
begin

text \<open>
  The server as a refinement of the trust protocol: whatever a route does to devices, credentials and
  pairing codes is a sequence of the protocol's steps, so what \<open>Trust\<close> proves of the protocol
  holds of every run of the server.
\<close>

section \<open>Operations beside the protocol\<close>

definition aside :: "app_state \<Rightarrow> app_state \<Rightarrow> bool" where
  "aside s t \<longleftrightarrow> trust_frame s t \<and> appIds t = appIds s"

lemma aside_refl [simp]: "aside s s"
  by (simp add: aside_def trust_frame_def)

lemma aside_trans: "aside s t \<Longrightarrow> aside t u \<Longrightarrow> aside s u"
  by (simp add: aside_def trust_frame_def)

lemma asideI:
  "ids s \<le> ids t \<Longrightarrow> devices t = devices s \<Longrightarrow> deviceCredentialsByHash t = deviceCredentialsByHash s \<Longrightarrow>
   deviceCredentialHashById t = deviceCredentialHashById s \<Longrightarrow> pairingCodesById t = pairingCodesById s \<Longrightarrow>
   pairingCodeIdByHash t = pairingCodeIdByHash s \<Longrightarrow> appIds t = appIds s \<Longrightarrow> aside s t"
  by (simp add: aside_def trust_frame_def)

lemmas aside_defs = aside_def trust_frame_def Let_def next_id_eq

lemma aside_activity: "aside s t \<Longrightarrow> aside s (add_activity mk t)"
  by (erule aside_trans) (simp add: add_activity_def aside_defs)

lemma aside_note: "aside s t \<Longrightarrow> aside s (add_note mk t)"
  by (erule aside_trans) (simp add: add_note_def aside_defs)

lemma aside_fields:
  "aside s t \<Longrightarrow> aside s (t\<lparr>leads := v1\<rparr>)" "aside s t \<Longrightarrow> aside s (t\<lparr>leadTeams := v2\<rparr>)"
  "aside s t \<Longrightarrow> aside s (t\<lparr>leadFollowUps := v3\<rparr>)" "aside s t \<Longrightarrow> ids t \<le> n \<Longrightarrow> aside s (t\<lparr>ids := n\<rparr>)"
  "aside s t \<Longrightarrow> aside s (t\<lparr>leadIdByCallId := v4\<rparr>)" "aside s t \<Longrightarrow> aside s (t\<lparr>calls := v5\<rparr>)"
  "aside s t \<Longrightarrow> aside s (t\<lparr>employees := v6\<rparr>)" "aside s t \<Longrightarrow> aside s (t\<lparr>audits := v7\<rparr>)"
  "aside s t \<Longrightarrow> aside s (t\<lparr>leadImports := v8\<rparr>)"
  by (auto simp: aside_def trust_frame_def)

lemma aside_lead_operations:
  "aside s (snd (createLead h o1 s))" "aside s (snd (createLeadNote h o3 s))"
  "aside s (snd (createLeadFollowUp h o4 s))" "aside s (snd (completeLeadFollowUp h o5 s))"
  by (auto simp: createLead_def createLeadNote_def createLeadFollowUp_def completeLeadFollowUp_def complete_commit_def
      return_detail_def Let_def next_id_eq intro!: aside_activity aside_note aside_fields split: option.split)

lemma aside_updateLead: "aside s (snd (updateLead h o' s))"
  by (auto simp: updateLead_def update_commit_def return_detail_def Let_def intro!: aside_activity aside_fields
      split: option.split sum.split)


lemma aside_link: "aside s t \<Longrightarrow> aside s (linkCallToUniqueLead c ts t)"
  by (auto simp: linkCallToUniqueLead_def Let_def intro!: aside_activity aside_fields split: list.split)

lemma aside_ingestCall: "aside s (snd (ingestCall o' s))"
proof -
  have "aside s (linkCallToUniqueLead c ts (s\<lparr>ids := Suc (ids s), calls := m1, callIdByExternalId := m2,
      callFingerprintByExternalId := m3, idempotency := m4\<rparr>))" for c ts m1 m2 m3 m4
    by (rule aside_link) (simp add: aside_defs)
  then show ?thesis by (auto simp: ingestCall_def Let_def next_id_eq aside_def trust_frame_def split: option.split)
qed

lemma aside_ingest_item: "aside s (snd (ingest_item fp o' it s))"
proof -
  have "aside s (linkCallToUniqueLead c ts (s\<lparr>ids := Suc (ids s), calls := m1, callIdByExternalId := m2,
      callFingerprintByExternalId := m3\<rparr>))"
    "aside s (linkCallToUniqueLead c ts (s\<lparr>calls := m1, callFingerprintByExternalId := m3\<rparr>))" for c ts m1 m2 m3
    by (rule aside_link, simp add: aside_defs)+
  then show ?thesis by (auto simp: ingest_item_def Let_def next_id_eq split: option.split)
qed

lemma aside_ingest_items: "aside s (snd (ingest_items fp o' its s))"
proof (induction its arbitrary: s)
  case (Cons it its)
  obtain v t where one: "ingest_item fp o' it s = (v, t)" by (cases "ingest_item fp o' it s")
  then have "aside s t" using aside_ingest_item[of s fp o' it] by simp
  then show ?case
    using Cons[of t] one by (cases "ingest_items fp o' its t") (auto intro: aside_trans split: sum.split)
qed simp

lemma aside_correctCallLeadLink: "aside s (snd (correctCallLeadLink o' s))"
proof -
  have kept: "aside s t \<Longrightarrow> aside s (t\<lparr>callLeadCorrectionRequests := m\<rparr>)" for t m
    by (simp add: aside_def trust_frame_def)
  have "aside s (snd (correction_commit o' c current replacement s))" for c current replacement
    by (auto simp: correction_commit_def Let_def intro!: kept aside_activity aside_fields split: option.split)
  then show ?thesis by (auto simp: correctCallLeadLink_def Let_def split_beta split: option.split)
qed

lemma aside_mobile_update: "aside s (snd (applyMobileLeadUpdate h o' s))"
proof -
  have status: "aside s t \<Longrightarrow> aside s (snd (mobile_status_step o' st l t))" for st l t
    by (auto simp: mobile_status_step_def Let_def intro!: aside_activity split: option.split)
  have noted: "aside s t \<Longrightarrow> aside s (mobile_note_step o' actor l t)" for actor l t
    by (auto simp: mobile_note_step_def Let_def intro!: aside_activity aside_note split: option.split)
  have follow_up: "aside s t \<Longrightarrow> aside s (snd (mobile_follow_up_step o' actor l t))" for actor l t
    by (auto simp: mobile_follow_up_step_def Let_def next_id_eq intro!: aside_activity aside_fields split: option.split)
  have receipt: "aside s t \<Longrightarrow> aside s (t\<lparr>mobileLeadUpdateRequests := m\<rparr>)" for t m
    by (simp add: aside_def trust_frame_def)
  have "aside s (snd (mobile_commit h o' actor st l s))" for actor st l
    by (auto simp: mobile_commit_def Let_def split_beta intro!: receipt aside_fields status noted follow_up split: sum.split)
  then show ?thesis by (auto simp: applyMobileLeadUpdate_def Let_def split: option.split)
qed

lemma aside_rule_operations:
  "aside s (snd (createLeadAssignmentRule ra inp s))" "aside s (snd (updateLeadAssignmentRule ra i upd s))"
  by (simp_all add: createLeadAssignmentRule_def updateLeadAssignmentRule_def aside_defs split: option.split)

lemma aside_apply_lead: "aside s (snd (apply_lead h o' k p s))"
proof (cases "map_get (leads s) k")
  case (Some l)
  have updated: "aside s t" if "updateLead h u s = (v, t)" for u v t
    using aside_updateLead[of s h u] that by simp
  show ?thesis using Some
    by (auto simp: apply_lead_def Let_def intro: updated split: option.split prod.split sum.split)
qed (simp add: apply_lead_def)

lemma aside_apply_leads: "aside s (snd (apply_leads h o' ks p s))"
proof (induction ks arbitrary: p s)
  case (Cons k ks)
  obtain v t where one: "apply_lead h o' k p s = (v, t)" by (cases "apply_lead h o' k p s")
  then have "aside s t" using aside_apply_lead[of s h o' k p] by simp
  then show ?case using Cons one by (cases v) (auto intro: aside_trans)
qed simp

lemma aside_store_cursors: "aside s t \<Longrightarrow> aside s (store_cursors actor ts local is t)"
proof (induction "is" arbitrary: t)
  case (Cons i "is")
  have "aside s (store_cursor actor ts local i t)"
    using Cons.prems by (auto simp: store_cursor_def aside_def trust_frame_def split: option.split)
  then show ?case using Cons.IH by (simp add: store_cursors_def)
qed (simp add: store_cursors_def)

lemma aside_applyLeadAssignmentRules: "aside s (snd (applyLeadAssignmentRules h o' s))"
proof -
  have kept: "aside s t \<Longrightarrow> aside s (t\<lparr>leadAssignmentApplyRequests := m\<rparr>)" for t m
    by (simp add: aside_def trust_frame_def)
  have applied: "aside s t" if "apply_leads h o' ks p s = (v, t)" for ks p v t
    using aside_apply_leads[of s h o' ks p] that by simp
  show ?thesis
    by (auto simp: applyLeadAssignmentRules_def Let_def intro!: kept aside_store_cursors intro: applied
        split: option.split prod.split sum.split)
qed

text \<open>The same for a computation, by its structure.\<close>

lemma aside_structure:
  "(\<And>x. aside s (snd (f x))) \<Longrightarrow> aside s (snd (Let v f))"
  "aside s (snd a) \<Longrightarrow> (\<And>x. aside s (snd (g x))) \<Longrightarrow> aside s (snd (case o' of None \<Rightarrow> a | Some x \<Rightarrow> g x))"
  "(\<And>e. aside s (snd (k e))) \<Longrightarrow> (\<And>x. aside s (snd (g' x))) \<Longrightarrow> aside s (snd (case w of Inl e \<Rightarrow> k e | Inr x \<Rightarrow> g' x))"
  "(\<And>x t. p = (x, t) \<Longrightarrow> aside s (snd (q x t))) \<Longrightarrow> aside s (snd (case p of (x, t) \<Rightarrow> q x t))"
  "aside s (snd a') \<Longrightarrow> aside s (snd b') \<Longrightarrow> aside s (snd (if c then a' else b'))"
  by (auto split: option.split sum.split prod.split)

lemma aside_previewLeadImport: "aside s (snd (previewLeadImport h o' s))"
  by (simp add: previewLeadImport_def aside_defs split: option.split)

lemma aside_commit_row: "aside s (snd (commit_row h o' row q s))"
proof -
  have settled: "aside s t \<Longrightarrow> aside s (store_settled i n f g t)" for i n f g t
    by (simp add: store_settled_def aside_fields)
  have created: "aside s t" if "createLead h c s = (v, t)" for c v t
    using aside_lead_operations(1)[of s h c] that by simp
  show ?thesis
    unfolding commit_row_def by (intro aside_structure; simp) (blast intro: settled created aside_refl)+
qed

lemma aside_commit_rows: "aside s (snd (commit_rows h o' rows q s))"
proof (induction rows arbitrary: q s)
  case (Cons row rows)
  obtain v t where one: "commit_row h o' row q s = (v, t)" by (cases "commit_row h o' row q s")
  then have "aside s t" using aside_commit_row[of s h o' row q] by simp
  then show ?case using Cons one by (cases v) (auto intro: aside_trans)
qed simp

lemma aside_commitLeadImport: "aside s (snd (commitLeadImport h o' s))"
proof -
  have stored: "aside s t \<Longrightarrow> aside s (store_commit o' res t)" for res t
    by (simp add: store_commit_def aside_def trust_frame_def)
  have rows: "aside s t" if "commit_rows h o' rs q (s\<lparr>leadImports := m\<rparr>) = (v, t)" for rs q m v t
    using aside_commit_rows[of "s\<lparr>leadImports := m\<rparr>" h o' rs q] that
    by (auto intro: aside_trans[OF aside_fields(9)[OF aside_refl]])
  have "aside s (snd (commit_batch h o' p s))" for p
    by (auto simp: commit_batch_def Let_def intro: stored rows aside_store_cursors aside_fields
        split: option.split sum.split prod.split)
  then show ?thesis by (auto simp: commitLeadImport_def Let_def intro: stored split: option.split)
qed

lemma aside_report_operations:
  "aside s (snd (createSavedReportView vo s))" "aside s (snd (createReportSchedule so s))"
  "aside s (snd (updateReportSchedule orgId i st s))" "aside s (snd (updateNotificationPreferences orgId u ps s))"
  "aside s (snd (createReportExportJob orgId u kind fmt ts s))" "aside s (snd (issueReportDownloadToken to s))"
  "aside s (snd (redeemReportDownload rd s))" "aside s (snd (markNotificationRead orgId u i ts s))"
  by (simp_all add: createSavedReportView_def createReportSchedule_def updateReportSchedule_def
      updateNotificationPreferences_def createReportExportJob_def issueReportDownloadToken_def redeemReportDownload_def
      markNotificationRead_def aside_defs split: option.split)

lemma aside_people: "aside s (snd (createEmployee orgId inp actor ts s))" "aside s (snd (appendAuditEvent ev s))"
  by (simp_all add: createEmployee_def appendAuditEvent_def aside_defs split: option.split)


section \<open>What a request may do\<close>

text \<open>Identifiers the server has not issued yet name no credential and no code.\<close>

definition app_inv :: "app_state \<Rightarrow> bool" where
  "app_inv s \<longleftrightarrow> keyed pc_id (pairingCodesById s)
     \<and> (\<forall>n > appIds s. map_get (deviceCredentialHashById s) (sequential_id ''device_credential'' n) = None
          \<and> map_get (pairingCodesById s) (sequential_id ''pairing'' n) = None)"

definition follows :: "environment \<Rightarrow> app_state \<Rightarrow> app_state \<Rightarrow> bool" where
  "follows en s t \<longleftrightarrow> (app_inv s \<longrightarrow> trust_reaches (en_host en) s t \<and> app_inv t)"

lemma follows_refl [simp]: "follows en s s"
  by (simp add: follows_def)

lemma follows_trans: "follows en s t \<Longrightarrow> follows en t u \<Longrightarrow> follows en s u"
  by (auto simp: follows_def)

text \<open>What a step may add to the two maps: nothing, or an entry under an identifier issued for it.\<close>

definition issues :: "string set \<Rightarrow> string set \<Rightarrow> app_state \<Rightarrow> app_state \<Rightarrow> bool" where
  "issues X Y s t \<longleftrightarrow> appIds t = appIds s
     \<and> (\<forall>k. k \<notin> X \<longrightarrow> map_get (deviceCredentialHashById s) k = None \<longrightarrow> map_get (deviceCredentialHashById t) k = None)
     \<and> (\<forall>k. k \<notin> Y \<longrightarrow> map_get (pairingCodesById s) k = None \<longrightarrow> map_get (pairingCodesById t) k = None)"

lemma follows_step:
  assumes "trust_step (en_host en) s t" "issues {} {} s t"
  shows "follows en s t"
  using assms keyed_codes_step[OF assms(1)] by (auto simp: follows_def app_inv_def issues_def)

lemma follows_aside: "aside s t \<Longrightarrow> follows en s t"
proof -
  assume a: "aside s t"
  then have "trust_step (en_host en) s t" by (simp add: aside_def step_elsewhere)
  then show ?thesis by (rule follows_step) (use a in \<open>simp add: aside_def issues_def trust_frame_def\<close>)
qed

text \<open>A computation that only follows the protocol; one that touches the counters, the clock and the limiter alone.\<close>

definition steady :: "environment \<Rightarrow> 'x app \<Rightarrow> bool" where
  "steady en m \<longleftrightarrow> (\<forall>s. follows en s (snd (m s)))"

definition idle :: "'x app \<Rightarrow> bool" where
  "idle m \<longleftrightarrow> (\<forall>s. aside s (snd (m s)) \<and> draws (snd (m s)) = draws s
     \<and> pairingRedemptions (snd (m s)) = pairingRedemptions s)"

lemma idle_follows: "idle m \<Longrightarrow> follows en s (snd (m s))"
  by (simp add: idle_def follows_aside)

lemma steady_idle: "idle m \<Longrightarrow> steady en m"
  by (simp add: steady_def idle_follows)

lemma steady_andThen: "steady en m \<Longrightarrow> (\<And>x. steady en (f x)) \<Longrightarrow> steady en (andThen m f)"
proof (unfold steady_def, rule allI)
  fix s
  assume m: "\<forall>s. follows en s (snd (m s))" and f: "\<And>x. \<forall>s. follows en s (snd (f x s))"
  obtain v t where one: "m s = (v, t)" by (cases "m s")
  then have "follows en s t" using m by (metis snd_conv)
  then show "follows en s (snd (andThen m f s))" using one f by (auto simp: andThen_def intro: follows_trans split: sum.split)
qed

lemma idle_andThen: "idle m \<Longrightarrow> (\<And>x. idle (f x)) \<Longrightarrow> idle (andThen m f)"
proof (unfold idle_def, rule allI)
  fix s
  assume m: "\<forall>s. aside s (snd (m s)) \<and> draws (snd (m s)) = draws s \<and> pairingRedemptions (snd (m s)) = pairingRedemptions s"
    and f: "\<And>x. \<forall>s. aside s (snd (f x s)) \<and> draws (snd (f x s)) = draws s
      \<and> pairingRedemptions (snd (f x s)) = pairingRedemptions s"
  obtain v t where one: "m s = (v, t)" by (cases "m s")
  then have "aside s t" "draws t = draws s" "pairingRedemptions t = pairingRedemptions s" using m by (metis snd_conv)+
  then show "aside s (snd (andThen m f s)) \<and> draws (snd (andThen m f s)) = draws s
      \<and> pairingRedemptions (snd (andThen m f s)) = pairingRedemptions s"
    using one f by (cases v) (auto simp: andThen_def intro: aside_trans)
qed

lemma idle_basic:
  "idle (give x)" "idle (fail e)" "idle (pure v)" "idle (look g)" "idle (consult c)" "idle (require b e)" "idle (found v' e)"
  by (simp_all add: idle_def app_defs)

lemma idle_counters: "idle (clock_now en)" "idle (consume en key)" "idle (release key)"
  by (simp_all add: idle_def clock_now_def consume_def release_def Let_def split_beta aside_def trust_frame_def)

lemmas idle_clock = idle_counters(1) and idle_consume = idle_counters(2) and idle_release = idle_counters(3)

lemma idle_in_turn: "(\<And>k. idle (f k)) \<Longrightarrow> idle (in_turn f ks)"
  by (induction ks) (auto intro: idle_andThen idle_basic)

lemma idle_now: "idle (now_iso en)"
  unfolding now_iso_def by (intro idle_andThen idle_clock idle_basic)


section \<open>The protocol's operations\<close>

lemma issues_nothing:
  "issues {} {} s (snd (recordDeviceHeartbeat h ctx hb ts s))"
  "issues {} {} s (snd (revokePairingCode orgId codeId ts s))"
  "issues {} {} s (snd (reconsentMobileDevice h rc s))"
  "issues {} {} s (snd (confirmDeviceSessionRotation h f s))"
  "issues {} {} s (snd (revokeMobileSession h v s))"
  "issues {} {} s (snd (revokeDeviceByAdministrator w s))"
proof -
  show "issues {} {} s (snd (recordDeviceHeartbeat h ctx hb ts s))"
    by (simp add: recordDeviceHeartbeat_def issues_def Let_def split: option.split)
  show "issues {} {} s (snd (revokePairingCode orgId codeId ts s))"
    by (auto simp: revokePairingCode_def issues_def Let_def store_simps split: option.split)
  show "issues {} {} s (snd (reconsentMobileDevice h rc s))"
    by (cases "reconsentMobileDevice h rc s") (auto elim!: reconsentE simp: issues_def reconsent_commit_def Let_def)
  show "issues {} {} s (snd (confirmDeviceSessionRotation h f s))"
    by (cases "confirmDeviceSessionRotation h f s") (auto elim!: confirmE simp: issues_def confirm_commit_def Let_def)
  show "issues {} {} s (snd (revokeMobileSession h v s))"
    by (cases "revokeMobileSession h v s")
      (auto elim!: revokeE simp: issues_def revoke_commit_def revoke_live_credentials_def Let_def)
  show "issues {} {} s (snd (revokeDeviceByAdministrator w s))"
    by (cases "revokeDeviceByAdministrator w s")
      (auto elim!: admin_revokeE simp: issues_def admin_revoke_commit_def Let_def)
qed

lemma issues_suspend: "issues {} {} s (snd (suspendEmployee orgId e actor ts s))"
proof -
  have "issues {} {} t (fold (suspend_device orgId actor ts) xs t)" for xs t
  proof (induction xs arbitrary: t)
    case (Cons x xs)
    have "issues {} {} t (suspend_device orgId actor ts x t)" by (simp add: suspend_device_def issues_def split: option.split)
    then show ?case using Cons[of "suspend_device orgId actor ts x t"] by (simp add: issues_def)
  qed (simp add: issues_def)
  from this[of "s\<lparr>employees := m\<rparr>" for m] show ?thesis
    by (simp add: suspendEmployee_def issues_def Let_def split: option.split)
qed

lemma issues_activate: "issues {cred_id (ao_sessionCredential a)} {} s (snd (activateMobileDevice h a s))"
  by (cases "activateMobileDevice h a s")
    (auto elim!: activateE simp: issues_def activate_commit_def store_credential_def Let_def store_simps)

lemma issues_prepare: "issues {cred_id (po_sessionCredential p)} {} s (snd (prepareDeviceSessionRotation h p s))"
  by (cases "prepareDeviceSessionRotation h p s")
    (auto elim!: prepareE simp: issues_def prepare_commit_def store_credential_def Let_def store_simps)

lemma issues_redeem:
  assumes "keyed pc_id (pairingCodesById s)"
  shows "issues {cred_id (ro_bootstrapCredential o')} {} s (snd (redeemPairingCode h o' s))"
proof (cases "redeemPairingCode h o' s")
  case (Pair res t)
  from Pair show ?thesis
  proof (cases rule: redeemE)
    case (commit rec e existing v)
    then obtain i where "map_get (pairingCodesById s) i = Some rec" by blast
    then have "map_get (pairingCodesById s) (pc_id rec) = Some rec" using assms by (auto dest: keyedD)
    then show ?thesis using Pair commit(1)
      by (auto simp: issues_def redeem_commit_def redeem_device_def revoke_live_credentials_def
          store_credential_def Let_def next_id_eq store_simps split: option.split)
  qed (use Pair in \<open>simp add: issues_def\<close>)
qed

text \<open>Steps whose timestamps the clock prints; activation and preparation refuse a token hash already stored.\<close>

definition clock_prints :: "environment \<Rightarrow> bool" where
  "clock_prints en \<longleftrightarrow> (\<forall>t. iso_of en t \<noteq> [])"

lemma steady_act: "(\<And>s. follows en s (snd (f s))) \<Longrightarrow> steady en (act f)"
  by (simp add: steady_def act_def split_beta)

lemma steadyI: "(\<And>s. follows en s (snd (m s))) \<Longrightarrow> steady en m"
  by (simp add: steady_def)

lemma steady_aside: "(\<And>s. aside s (snd (m s))) \<Longrightarrow> steady en m"
  by (simp add: steady_def follows_aside)

lemma steady_now: "(\<And>t. steady en (f (iso_of en t))) \<Longrightarrow> steady en (andThen (now_iso en) f)"
proof (unfold steady_def, rule allI)
  fix s :: app_state
  assume f: "\<And>t. \<forall>s. follows en s (snd (f (iso_of en t) s))"
  let ?s = "s\<lparr>clockReads := Suc (clockReads s)\<rparr>"
  have "follows en s ?s" by (rule follows_aside) (simp add: aside_def trust_frame_def)
  then show "follows en s (snd (andThen (now_iso en) f s))"
    using f by (auto simp: now_iso_def clock_now_def andThen_def give_def intro: follows_trans)
qed

lemma steady_counters: "steady en (app_id p)" "steady en (draw en)"
proof -
  have "follows en s (s\<lparr>appIds := Suc (appIds s)\<rparr>)" for s :: app_state
    by (auto simp: follows_def app_inv_def intro!: r_into_rtranclp step_elsewhere simp: trust_frame_def)
  then show "steady en (app_id p)" by (simp add: steady_def app_id_def Let_def)
  show "steady en (draw en)" by (simp add: steady_def draw_def follows_aside aside_def trust_frame_def)
qed

lemma steady_operations:
  assumes "clock_prints en"
  shows "steady en (act (revokePairingCode orgId i (iso_of en t)))"
    "steady en (act (suspendEmployee orgId i actor (iso_of en t)))"
    "steady en (act (recordDeviceHeartbeat (en_host en) ctx hb ts))"
    "steady en (reconsentMobileDevice (en_host en) rc)"
    "steady en (confirmDeviceSessionRotation (en_host en) (confirm_options.make ctx i j fp (iso_of en t)))"
    "steady en (revokeMobileSession (en_host en) \<lparr>rvo_context = ctx, rvo_requestId = i, rvo_requestFingerprint = fp,
       rvo_at = iso_of en t\<rparr>)"
    "avo_at w = iso_of en t \<Longrightarrow> steady en (revokeDeviceByAdministrator w)"
proof -
  have t: "iso_of en t \<noteq> []" using assms by (simp add: clock_prints_def)
  note step = follows_step[OF _ issues_nothing(1)] follows_step[OF _ issues_nothing(2)] follows_step[OF _ issues_nothing(3)]
    follows_step[OF _ issues_nothing(4)] follows_step[OF _ issues_nothing(5)] follows_step[OF _ issues_nothing(6)]
    follows_step[OF _ issues_suspend]
  show "steady en (act (revokePairingCode orgId i (iso_of en t)))"
    "steady en (act (suspendEmployee orgId i actor (iso_of en t)))"
    "steady en (act (recordDeviceHeartbeat (en_host en) ctx hb ts))"
    by (rule steady_act, rule step, rule trust_step.intros, (rule t)?)+
  show "steady en (reconsentMobileDevice (en_host en) rc)"
    by (rule steadyI, rule step, rule step_reconsent)
  show "steady en (confirmDeviceSessionRotation (en_host en) (confirm_options.make ctx i j fp (iso_of en t)))"
    by (rule steadyI, rule step, rule step_confirm) (simp add: confirm_options.defs t)
  show "steady en (revokeMobileSession (en_host en) \<lparr>rvo_context = ctx, rvo_requestId = i, rvo_requestFingerprint = fp,
       rvo_at = iso_of en t\<rparr>)"
    by (rule steadyI, rule step, rule step_revoke) (simp add: t)
  show "avo_at w = iso_of en t \<Longrightarrow> steady en (revokeDeviceByAdministrator w)"
    by (rule steadyI, rule step, rule step_admin_revoke) (simp add: t)
qed

text \<open>A credential under an identifier issued for it.\<close>

lemma follows_issue:
  fixes s :: app_state
  defines "i \<equiv> sequential_id ''device_credential'' (Suc (appIds s))" and "u \<equiv> s\<lparr>appIds := Suc (appIds s)\<rparr>"
  assumes "map_get (deviceCredentialHashById s) i = None \<Longrightarrow> keyed pc_id (pairingCodesById s) \<Longrightarrow>
      trust_step (en_host en) u (snd (m i u)) \<and> issues {i} {} u (snd (m i u))"
  shows "follows en s (snd (m i u))"
proof (unfold follows_def, intro impI)
  assume inv: "app_inv s"
  have first: "trust_step (en_host en) s u" by (rule step_elsewhere) (simp add: u_def trust_frame_def)
  have step: "trust_step (en_host en) u (snd (m i u))" "issues {i} {} u (snd (m i u))"
    using assms(3) inv by (auto simp: app_inv_def i_def)
  have "app_inv (snd (m i u))"
    using inv step(2) keyed_codes_step[OF step(1)] by (auto simp: app_inv_def issues_def u_def i_def sequential_id_inj)
  then show "trust_reaches (en_host en) s (snd (m i u)) \<and> app_inv (snd (m i u))"
    using first step(1) by (meson converse_rtranclp_into_rtranclp r_into_rtranclp)
qed

lemma follows_andThen: "follows en s (snd (m s)) \<Longrightarrow> (\<And>x. steady en (f x)) \<Longrightarrow> follows en s (snd (andThen m f s))"
  by (cases "m s") (auto simp: andThen_def steady_def intro: follows_trans split: sum.split)

lemma follows_issue_then:
  assumes "\<And>i s. map_get (deviceCredentialHashById s) i = None \<Longrightarrow>
      trust_step (en_host en) s (snd (m i s)) \<and> issues {i} {} s (snd (m i s))"
    and "\<And>i x. steady en (f i x)"
  shows "steady en (andThen (app_id ''device_credential'') (\<lambda>i. andThen (m i) (f i)))"
proof (rule steadyI)
  fix s :: app_state
  let ?i = "sequential_id ''device_credential'' (Suc (appIds s))" and ?s = "s\<lparr>appIds := Suc (appIds s)\<rparr>"
  have "andThen (app_id ''device_credential'') (\<lambda>i. andThen (m i) (f i)) s = andThen (m ?i) (f ?i) ?s"
    by (simp add: andThen_def app_id_def Let_def)
  moreover have "follows en s (snd (andThen (m ?i) (f ?i) ?s))"
    using follows_issue[of s en m] assms(1)[of ?s ?i] assms(2)
    by (cases "m ?i ?s") (auto simp: andThen_def steady_def intro: follows_trans split: sum.split)
  ultimately show "follows en s (snd (andThen (app_id ''device_credential'') (\<lambda>i. andThen (m i) (f i)) s))" by simp
qed

lemma stored_refused:
  "map_get (deviceCredentialsByHash s) (cred_tokenHash (ao_sessionCredential a)) \<noteq> None \<Longrightarrow> snd (activateMobileDevice h a s) = s"
  "map_get (deviceCredentialsByHash s) (cred_tokenHash (po_sessionCredential p)) \<noteq> None \<Longrightarrow> snd (prepareDeviceSessionRotation h p s) = s"
  by (auto simp: activateMobileDevice_def prepareDeviceSessionRotation_def session_credential_ok_def map_has_def split: option.splits)

lemma same_step: "trust_step h s s"
  by (rule step_elsewhere) (simp add: trust_frame_def)

lemma activate_issues:
  assumes "ao_at a \<noteq> []" "map_get (deviceCredentialHashById s) (cred_id (ao_sessionCredential a)) = None"
  shows "trust_step h s (snd (activateMobileDevice h a s)) \<and> issues {cred_id (ao_sessionCredential a)} {} s (snd (activateMobileDevice h a s))"
proof (cases "map_get (deviceCredentialsByHash s) (cred_tokenHash (ao_sessionCredential a)) = None")
  case True
  then show ?thesis using assms step_activate[of a s h] issues_activate by (simp add: fresh_credential_def)
qed (simp add: stored_refused same_step issues_def)

lemma prepare_issues:
  assumes "map_get (deviceCredentialHashById s) (cred_id (po_sessionCredential p)) = None"
  shows "trust_step h s (snd (prepareDeviceSessionRotation h p s)) \<and> issues {cred_id (po_sessionCredential p)} {} s (snd (prepareDeviceSessionRotation h p s))"
proof (cases "map_get (deviceCredentialsByHash s) (cred_tokenHash (po_sessionCredential p)) = None")
  case True
  then show ?thesis using assms step_prepare[of p s h] issues_prepare by (simp add: fresh_credential_def)
qed (simp add: stored_refused same_step issues_def)

lemma steady_activate:
  assumes "clock_prints en" "\<And>i x. steady en (f i x)"
  shows "steady en (andThen (app_id ''device_credential'') (\<lambda>i. andThen (activateMobileDevice (en_host en)
     \<lparr>ao_context = ctx, ao_activation = a, ao_sessionCredential = device_credential_of en ty token fr ex rid st i,
      ao_requestFingerprint = fp, ao_policy = pol, ao_at = iso_of en t\<rparr>) (f i)))"
proof (rule follows_issue_then[OF _ assms(2)])
  fix i and s :: app_state
  assume "map_get (deviceCredentialHashById s) i = None"
  then show "trust_step (en_host en) s (snd (activateMobileDevice (en_host en)
       \<lparr>ao_context = ctx, ao_activation = a, ao_sessionCredential = device_credential_of en ty token fr ex rid st i,
        ao_requestFingerprint = fp, ao_policy = pol, ao_at = iso_of en t\<rparr> s))
    \<and> issues {i} {} s (snd (activateMobileDevice (en_host en)
       \<lparr>ao_context = ctx, ao_activation = a, ao_sessionCredential = device_credential_of en ty token fr ex rid st i,
        ao_requestFingerprint = fp, ao_policy = pol, ao_at = iso_of en t\<rparr> s))"
    using activate_issues[of "\<lparr>ao_context = ctx, ao_activation = a, ao_sessionCredential = device_credential_of en ty token fr ex rid st i,
        ao_requestFingerprint = fp, ao_policy = pol, ao_at = iso_of en t\<rparr>" s "en_host en"] assms(1)
    by (simp add: clock_prints_def device_credential_of_def)
qed

lemma steady_prepare:
  assumes "\<And>i x. steady en (f i x)"
  shows "steady en (andThen (app_id ''device_credential'') (\<lambda>i. andThen (prepareDeviceSessionRotation (en_host en)
     \<lparr>po_context = ctx, po_sessionCredential = device_credential_of en ty token fr ex rid st i,
      po_requestId = rid, po_requestFingerprint = fp, po_at = ts\<rparr>) (f i)))"
proof (rule follows_issue_then[OF _ assms])
  fix i and s :: app_state
  assume "map_get (deviceCredentialHashById s) i = None"
  then show "trust_step (en_host en) s (snd (prepareDeviceSessionRotation (en_host en)
       \<lparr>po_context = ctx, po_sessionCredential = device_credential_of en ty token fr ex rid st i,
        po_requestId = rid, po_requestFingerprint = fp, po_at = ts\<rparr> s))
    \<and> issues {i} {} s (snd (prepareDeviceSessionRotation (en_host en)
       \<lparr>po_context = ctx, po_sessionCredential = device_credential_of en ty token fr ex rid st i,
        po_requestId = rid, po_requestFingerprint = fp, po_at = ts\<rparr> s))"
    using prepare_issues[of s "\<lparr>po_context = ctx, po_sessionCredential = device_credential_of en ty token fr ex rid st i,
        po_requestId = rid, po_requestFingerprint = fp, po_at = ts\<rparr>" "en_host en"]
    by (simp add: device_credential_of_def)
qed

lemma steady_batch: "steady en (ingestMobileCallBatch h fp o')"
proof (rule steadyI)
  fix s :: app_state
  show "follows en s (snd (ingestMobileCallBatch h fp o' s))"
  proof (cases "findCurrentMobileCredential h (bo_context o') CredSession (bo_at o') s")
    case (Some cur)
    then have dev: "map_get (devices s) (ctx_deviceId (bo_context o')) = Some (cur_device cur)" by (rule findCurrentE)
    obtain v t where run: "ingest_items fp o' (bo_items o') s = (v, t)" by (cases "ingest_items fp o' (bo_items o') s")
    then have t: "aside s t" using aside_ingest_items[of s fp o' "bo_items o'"] by simp
    have "follows en s (t\<lparr>devices := map_set (ctx_deviceId (bo_context o')) d (devices t), mobileBatches := m\<rparr>)"
      if "dev_id d = dev_id (cur_device cur)" "dev_status d = dev_status (cur_device cur)" for d m
    proof (rule follows_trans[OF follows_aside[OF t]], rule follows_trans)
      have "map_get (devices t) (ctx_deviceId (bo_context o')) = Some (cur_device cur)"
        using t dev by (simp add: aside_def trust_frame_def)
      then show "follows en t (t\<lparr>devices := map_set (ctx_deviceId (bo_context o')) d (devices t)\<rparr>)"
        using that by (intro follows_step step_report) (simp_all add: issues_def)
    qed (simp add: follows_aside aside_def trust_frame_def)
    then show ?thesis using Some run follows_aside[OF t, of en]
      by (auto simp: ingestMobileCallBatch_def Let_def split: option.split sum.split)
  qed (simp add: ingestMobileCallBatch_def)
qed

section \<open>The two routes that take what is proposed\<close>

text \<open>
  A redemption brings a bootstrap credential no one holds, or repeats a recorded one; a fresh pairing
  code has a hash no other code has. The first rests on the device's random number generator, for
  \<open>redeemPairingCode\<close> does not look; the second on the server's.
\<close>

definition proposes_new :: "environment \<Rightarrow> route \<Rightarrow> http_request \<Rightarrow> app_state \<Rightarrow> bool" where
  "proposes_new en route rq s = (case route of
      PostRedeem \<Rightarrow> (\<forall>body key fp token. as_record (rq_body rq) = Some body \<longrightarrow> request_key en rq = Some (key, fp) \<longrightarrow>
        as_string (field body ''proposedBootstrapCredential'') = Some token \<longrightarrow>
        map_get (deviceCredentialsByHash s) (hashed en CredBootstrap token) = None \<or> map_has (pairingRedemptions s) key)
    | PostPairingCode \<Rightarrow> map_get (pairingCodeIdByHash s) (hashPairingCode (en_primitives en)
        (pr_upper (en_primitives en) (en_random en (draws s))) (en_secret en)) = None
    | _ \<Rightarrow> True)"

section \<open>Hooks and readers are idle\<close>

lemma idle_cases:
  "idle a \<Longrightarrow> idle b \<Longrightarrow> idle (if c then a else b)"
  "idle a \<Longrightarrow> (\<And>x. idle (f x)) \<Longrightarrow> idle (case v of None \<Rightarrow> a | Some x \<Rightarrow> f x)"
  "(\<And>x y. idle (g x y)) \<Longrightarrow> idle (case_prod g p)"
  "idle d \<Longrightarrow> idle w \<Longrightarrow> idle (case cad of Daily \<Rightarrow> d | Weekly \<Rightarrow> w)"
  by (auto split: option.split prod.split report_cadence.split)

lemmas idle_rules = idle_andThen idle_basic idle_clock idle_now idle_cases

lemma idle_hooks:
  "idle (authenticate en rq)" "idle (requirePermission p actor)" "idle (device_token rq)"
  "idle (resolve_device en ty token)" "idle (operation_request en rq)" "idle (find_replay en ty op token k)"
  "idle m \<Longrightarrow> idle (or_resolve r m)" "idle (requireMatchingMobileContext ctx v)"
  unfolding authenticate_def external_actor_def token_actor_def requirePermission_def device_token_def resolve_device_def
    operation_request_def find_replay_def or_resolve_def requireMatchingMobileContext_def
  by (intro idle_rules; assumption?)+

lemma idle_protect: "idle (protect en p rq)"
  unfolding protect_def by (intro idle_rules idle_hooks)

lemma idle_protections: "idle (protectOrganizationRead en p rq)" "idle (protectOrganizationAdmin en p rq)"
  unfolding protectOrganizationRead_def protectOrganizationAdmin_def requireFullOrganizationReadScope_def
    requireFullOrganizationAdminScope_def
  by (intro idle_rules idle_protect)+

lemma idle_devices: "idle (authenticateMobile en ty rq)" "idle (authenticateMobileEither en rq)"
  "idle (authenticateMobileWithReplay en ty op rq)" "idle (authenticateRotationConfirmation en rq)"
  unfolding authenticateMobile_def authenticateMobileEither_def authenticateMobileWithReplay_def authenticateRotationConfirmation_def
  by (intro idle_rules idle_hooks)+

lemma idle_readers:
  "idle (query_string rq k)" "idle (path_param rq k n0)" "idle (body_of rq)" "idle (limit_of en rq n1 n2)" "idle (narrow acc v msg)"
  "idle (pairing_ttl en rec)" "idle (synthetic_refused en mode)" "idle (consented ctx)" "idle (batch_key_matches rq b)"
  "idle (batch_admitted en ctx b)" "idle (kind_of body)" "idle (format_of body)" "idle (cadence_of body)"
  "idle (local_time_of body)" "idle (recipients_of body)" "idle (week_day_of en cad body)" "idle (reply_ok x)" "idle (reply_created x)"
  unfolding query_string_def path_param_def body_of_def limit_of_def narrow_def pairing_ttl_def synthetic_refused_def
    consented_def batch_key_matches_def batch_admitted_def kind_of_def format_of_def cadence_of_def local_time_of_def
    recipients_of_def week_day_of_def reply_ok_def reply_created_def
  by (intro idle_rules)+

lemma idle_queries:
  "idle (cursor_query en rq kind orgId k ok)" "idle (status_query rq)" "idle (queue_query rq)" "idle (search_query rq)"
  "idle (source_query rq)" "idle (named_query rq k names)" "idle (timestamp_query en rq k)" "idle (preset_query rq)"
  unfolding cursor_query_def status_query_def queue_query_def search_query_def source_query_def named_query_def
    timestamp_query_def preset_query_def
  by (intro idle_rules idle_readers)+

lemma idle_lead_cursor: "idle (lead_cursor_query en rq kind orgId)"
  unfolding lead_cursor_query_def by (intro idle_rules idle_queries)

lemma idle_consented_session: "idle (consented_session en rq)"
  unfolding consented_session_def by (intro idle_rules idle_devices idle_readers)

lemma idle_find_import: "idle (find_import en rq)"
  unfolding find_import_def by (intro idle_rules idle_protect idle_readers)

lemmas idles = idle_basic idle_clock idle_now idle_hooks(1,2,5,8) idle_protect idle_protections idle_devices idle_readers
  idle_queries idle_lead_cursor idle_consented_session idle_find_import

section \<open>Routes\<close>

lemma steady_cases:
  "steady en a \<Longrightarrow> steady en b \<Longrightarrow> steady en (if c then a else b)"
  "steady en a \<Longrightarrow> (\<And>x. steady en (f x)) \<Longrightarrow> steady en (case v of None \<Rightarrow> a | Some x \<Rightarrow> f x)"
  "(\<And>x y. steady en (g x y)) \<Longrightarrow> steady en (case_prod g p)"
  by (auto split: option.split prod.split)

lemma steady_audit: "steady en (audit ts ev)" "steady en m \<Longrightarrow> steady en (unless b m)"
  "steady en (transition_audit b ts ctx action meta)"
proof -
  show a: "steady en (audit ts ev)" for ts ev
    unfolding audit_def by (intro steady_andThen steady_counters steady_aside aside_people)
  show "steady en m \<Longrightarrow> steady en (unless b m)" for m
    unfolding unless_def by (rule steady_cases) (rule steady_idle, rule idle_basic)
  then show "steady en (transition_audit b ts ctx action meta)"
    unfolding transition_audit_def using a by blast
qed

lemma steady_written:
  "steady en (act (createEmployee orgId inp actor ts))" "steady en (createLead h o1)" "steady en (updateLead h o2)"
  "steady en (createLeadNote h o3)" "steady en (createLeadFollowUp h o4)" "steady en (completeLeadFollowUp h o5)"
  "steady en (previewLeadImport h o6)" "steady en (commitLeadImport h o7)" "steady en (act (createLeadAssignmentRule ra ri))"
  "steady en (updateLeadAssignmentRule ra i upd)" "steady en (applyLeadAssignmentRules h o8)"
  "steady en (act (createSavedReportView vo))" "steady en (act (createReportSchedule so))"
  "steady en (act (updateReportSchedule orgId i st))" "steady en (act (updateNotificationPreferences orgId u ps))"
  "steady en (act (createReportExportJob orgId u kind fmt ts))" "steady en (act (issueReportDownloadToken to))"
  "steady en (act (redeemReportDownload rd))" "steady en (act (markNotificationRead orgId u i ts))"
  "steady en (ingestCall o9)" "steady en (correctCallLeadLink o10)" "steady en (applyMobileLeadUpdate h o11)"
  by (intro steady_act follows_aside steady_aside aside_people aside_lead_operations aside_updateLead aside_previewLeadImport
      aside_commitLeadImport aside_rule_operations aside_applyLeadAssignmentRules aside_report_operations aside_ingestCall
      aside_correctCallLeadLink aside_mobile_update)+

lemma idle_revocation_options:
  "avo_at \<lparr>avo_organizationId = o1, avo_deviceId = o2, avo_actorUserId = o3, avo_requestId = o4, avo_requestFingerprint = o5,
     avo_reason = o6, avo_auditEventId = o7, avo_outboxEventId = o8, avo_at = iso_of en t\<rparr> = iso_of en t"
  by simp

lemma steady_routes:
  assumes clock: "clock_prints en" and r: "r \<notin> {PostRedeem, PostPairingCode}"
  shows "steady en (serve en r rq)"
proof -
  note ops = steady_operations(1-6)[OF clock] steady_operations(7)[OF clock idle_revocation_options]
  note rules = steady_now steady_activate[OF clock] steady_prepare steady_andThen steady_written steady_batch ops
    steady_audit steady_counters(1) steady_counters(2) steady_cases steady_idle[OF idle_cases(4)]
  show ?thesis using r
    apply (cases r)
    apply (simp_all only: serve.simps as_answer_def insert_iff simp_thms Let_def)
    apply (unfold post_simulated_call_def post_link_correction_def post_dev_session_def post_builtin_session_def issue_session_def
        route_defs Let_def)
    apply (rule rules idles[THEN steady_idle])+
    done
qed

text \<open>A precondition that idle steps keep.\<close>

definition steady_from :: "environment \<Rightarrow> (app_state \<Rightarrow> bool) \<Rightarrow> 'x app \<Rightarrow> bool" where
  "steady_from en P m \<longleftrightarrow> (\<forall>s. P s \<longrightarrow> follows en s (snd (m s)))"

definition stable :: "(app_state \<Rightarrow> bool) \<Rightarrow> bool" where
  "stable P \<longleftrightarrow> (\<forall>s t. P s \<longrightarrow> aside s t \<longrightarrow> draws t = draws s \<longrightarrow> pairingRedemptions t = pairingRedemptions s \<longrightarrow> P t)"

lemma from_idle:
  assumes "stable P" "idle m" "\<And>x. steady_from en P (f x)"
  shows "steady_from en P (andThen m f)"
proof (unfold steady_from_def, intro allI impI)
  fix s :: app_state
  assume P: "P s"
  obtain v t where run: "m s = (v, t)" by (cases "m s")
  then have t: "aside s t" "draws t = draws s" "pairingRedemptions t = pairingRedemptions s"
    using assms(2) by (auto simp: idle_def) (metis snd_conv)+
  then have "P t" using assms(1) P unfolding stable_def by blast
  then show "follows en s (snd (andThen m f s))"
    using assms(3) run follows_aside[OF t(1), of en]
    by (auto simp: andThen_def steady_from_def intro: follows_trans split: sum.split)
qed

lemma from_pure: "(\<And>x. v = Inr x \<Longrightarrow> steady_from en P (f x)) \<Longrightarrow> steady_from en P (andThen (pure v) f)"
  by (cases v) (auto simp: steady_from_def andThen_def pure_def)

lemma from_require: "(b \<Longrightarrow> steady_from en P (f ())) \<Longrightarrow> steady_from en P (andThen (require b e) f)"
  unfolding require_def by (rule from_pure) (auto simp: check_def split: if_splits)

lemma from_cases:
  "(\<And>x y. p = (x, y) \<Longrightarrow> steady_from en P (g x y)) \<Longrightarrow> steady_from en P (case_prod g p)"
  by (cases p) simp

lemma stable_proposes: "stable (proposes_new en r rq)"
  by (auto simp: stable_def proposes_new_def aside_def trust_frame_def map_has_def split: route.splits)

lemma redeem_issues:
  assumes "keyed pc_id (pairingCodesById s)" "map_get (deviceCredentialHashById s) (cred_id (ro_bootstrapCredential o')) = None"
    and "ro_at o' \<noteq> []" "cred_credentialType (ro_bootstrapCredential o') = CredBootstrap"
    and "cred_lifecycleState (ro_bootstrapCredential o') = LcActive"
    and new: "map_get (deviceCredentialsByHash s) (cred_tokenHash (ro_bootstrapCredential o')) = None
      \<or> map_has (pairingRedemptions s) (ro_requestId o')"
  shows "trust_step h s (snd (redeemPairingCode h o' s)) \<and> issues {cred_id (ro_bootstrapCredential o')} {} s (snd (redeemPairingCode h o' s))"
proof (cases "map_has (pairingRedemptions s) (ro_requestId o')")
  case True
  then have "snd (redeemPairingCode h o' s) = s" by (auto simp: redeemPairingCode_def map_has_def)
  then show ?thesis by (simp add: same_step issues_def)
next
  case False
  then show ?thesis using assms step_redeem[of o' s h] issues_redeem by (simp add: fresh_credential_def)
qed

lemma follows_code:
  fixes s :: app_state
  assumes "map_get (pairingCodeIdByHash s) (pc_codeHash rec) = None" "pc_id rec = sequential_id ''pairing'' (Suc (appIds s))"
  shows "follows en s (createPairingCode rec (s\<lparr>appIds := Suc (appIds s)\<rparr>))"
proof (unfold follows_def, intro impI)
  assume inv: "app_inv s"
  let ?s = "s\<lparr>appIds := Suc (appIds s)\<rparr>"
  have first: "trust_step (en_host en) s ?s" by (rule step_elsewhere) (simp add: trust_frame_def)
  have step: "trust_step (en_host en) ?s (createPairingCode rec ?s)"
    using inv assms by (intro step_create_code) (simp add: fresh_code_def app_inv_def)
  have "app_inv (createPairingCode rec ?s)"
    using inv keyed_codes_step[OF step] assms(2)
    by (auto simp: app_inv_def createPairingCode_def store_simps sequential_id_inj)
  then show "trust_reaches (en_host en) s (createPairingCode rec ?s) \<and> app_inv (createPairingCode rec ?s)"
    using first step by (meson converse_rtranclp_into_rtranclp r_into_rtranclp)
qed

lemma from_code:
  assumes "\<And>x i now. steady en (f x i now)"
  shows "steady_from en (\<lambda>s. map_get (pairingCodeIdByHash s) (hashPairingCode (en_primitives en)
      (pr_upper (en_primitives en) (en_random en (draws s))) (en_secret en)) = None)
    (andThen (draw en) (\<lambda>drawn. andThen (clock_now en) (\<lambda>now. andThen (app_id ''pairing'') (\<lambda>i.
     andThen (act (\<lambda>s. ((), createPairingCode (new_code en actor e mode (pr_upper (en_primitives en) drawn) now ttl i) s)))
       (\<lambda>_. f drawn i now)))))"
proof (unfold steady_from_def, intro allI impI)
  fix s :: app_state
  assume new: "map_get (pairingCodeIdByHash s) (hashPairingCode (en_primitives en)
      (pr_upper (en_primitives en) (en_random en (draws s))) (en_secret en)) = None"
  let ?t = "s\<lparr>draws := Suc (draws s), clockReads := Suc (clockReads s)\<rparr>"
  let ?i = "sequential_id ''pairing'' (Suc (appIds s))" and ?now = "en_clock en (clockReads s)"
  let ?rec = "new_code en actor e mode (pr_upper (en_primitives en) (en_random en (draws s))) ?now ttl ?i"
  have "follows en s ?t" by (rule follows_aside) (simp add: aside_def trust_frame_def)
  moreover have "follows en ?t (createPairingCode ?rec (?t\<lparr>appIds := Suc (appIds ?t)\<rparr>))"
    using new by (intro follows_code) (simp_all add: new_code_def)
  moreover have "follows en u (snd (f (en_random en (draws s)) ?i ?now u))" for u
    using assms by (simp add: steady_def)
  ultimately show "follows en s (snd (andThen (draw en) (\<lambda>drawn. andThen (clock_now en) (\<lambda>now. andThen (app_id ''pairing'') (\<lambda>i.
     andThen (act (\<lambda>s. ((), createPairingCode (new_code en actor e mode (pr_upper (en_primitives en) drawn) now ttl i) s)))
       (\<lambda>_. f drawn i now)))) s))"
    by (simp add: andThen_def draw_def clock_now_def app_id_def act_def Let_def) (blast intro: follows_trans)
qed

lemma from_weaken: "steady_from en Q m \<Longrightarrow> (\<And>s. P s \<Longrightarrow> Q s) \<Longrightarrow> steady_from en P m"
  by (simp add: steady_from_def)

lemma from_finish: "steady_from en P m \<Longrightarrow> (\<And>x. steady en (f x)) \<Longrightarrow> steady_from en P (andThen m f)"
  by (auto simp: steady_from_def intro: follows_andThen)

lemma pairing_code_route: "steady_from en (proposes_new en PostPairingCode rq) (post_pairing_code en rq)"
proof -
  have tail: "steady_from en (proposes_new en PostPairingCode rq)
    (andThen (draw en) (\<lambda>drawn. andThen (clock_now en) (\<lambda>now. andThen (app_id ''pairing'') (\<lambda>i.
     andThen (act (\<lambda>s. ((), createPairingCode (new_code en actor e mode (pr_upper (en_primitives en) drawn) now ttl i) s)))
       (\<lambda>_. f drawn i now)))))" if "\<And>x i now. steady en (f x i now)" for actor e mode ttl f
    by (rule from_weaken[OF from_code]) (use that in \<open>simp_all add: proposes_new_def\<close>)
  show ?thesis
    unfolding post_pairing_code_def Let_def
    by (rule from_idle[OF stable_proposes] idle_protections idle_readers idle_basic idle_cases(1) tail
        steady_audit steady_andThen idles[THEN steady_idle])+
qed

lemma redeem_block:
  assumes "clock_prints en" "\<And>i x. steady en (f now i x)"
    and P: "\<And>s. P s \<Longrightarrow> map_get (deviceCredentialsByHash s) (hashed en CredBootstrap token) = None \<or> map_has (pairingRedemptions s) key"
  shows "steady_from en P (andThen (app_id ''device_credential'') (\<lambda>i. andThen (redeemPairingCode (en_host en)
      \<lparr>ro_codeHash = ch, ro_registration = reg, ro_bootstrapCredential = device_credential_of en CredBootstrap token fr ex key LcActive i,
       ro_requestId = key, ro_requestFingerprint = fp, ro_at = iso_of en now\<rparr>) (f now i)))"
proof (unfold steady_from_def, intro allI impI)
  fix s :: app_state
  assume "P s"
  let ?op = "\<lambda>i. redeemPairingCode (en_host en)
      \<lparr>ro_codeHash = ch, ro_registration = reg, ro_bootstrapCredential = device_credential_of en CredBootstrap token fr ex key LcActive i,
       ro_requestId = key, ro_requestFingerprint = fp, ro_at = iso_of en now\<rparr>"
  let ?i = "sequential_id ''device_credential'' (Suc (appIds s))" and ?s = "s\<lparr>appIds := Suc (appIds s)\<rparr>"
  have "follows en s (snd (?op ?i ?s))"
  proof (rule follows_issue)
    assume "map_get (deviceCredentialHashById s) ?i = None" "keyed pc_id (pairingCodesById s)"
    then show "trust_step (en_host en) ?s (snd (?op ?i ?s)) \<and> issues {?i} {} ?s (snd (?op ?i ?s))"
      using redeem_issues[of ?s "\<lparr>ro_codeHash = ch, ro_registration = reg,
          ro_bootstrapCredential = device_credential_of en CredBootstrap token fr ex key LcActive ?i,
          ro_requestId = key, ro_requestFingerprint = fp, ro_at = iso_of en now\<rparr>" "en_host en"] P[OF \<open>P s\<close>] assms(1)
      by (simp add: device_credential_of_def clock_prints_def)
  qed
  then have "follows en s (snd (andThen (?op ?i) (f now ?i) ?s))"
    using assms(2) by (cases "?op ?i ?s") (auto simp: andThen_def steady_def intro: follows_trans split: sum.split)
  then show "follows en s (snd (andThen (app_id ''device_credential'') (\<lambda>i. andThen (?op i) (f now i)) s))"
    by (simp add: andThen_def app_id_def Let_def)
qed

lemma redeem_route:
  assumes "clock_prints en"
  shows "steady_from en (proposes_new en PostRedeem rq) (post_redeem en rq)"
  unfolding post_redeem_def Let_def body_of_def operation_request_def
proof (rule from_pure, rule from_pure, rule from_cases, rule from_idle[OF stable_proposes], rule idle_basic, rule from_require, goal_cases)
  case (1 body k key fp typed)
  obtain token where token: "field body ''proposedBootstrapCredential'' = Some (JString token)"
    using 1(4) by (auto simp: isProposedDeviceCredential_def string_and_def split: option.splits json.splits)
  have new: "map_get (deviceCredentialsByHash s) (hashed en CredBootstrap (or_empty (as_string (field body ''proposedBootstrapCredential'')))) = None
      \<or> map_has (pairingRedemptions s) key" if "proposes_new en PostRedeem rq s" for s
    using that 1(1-3) token
    by (simp add: proposes_new_def bodyRecord_def expect_def request_key_def as_string_def split: option.splits)
  show ?case
    by (rule from_idle[OF stable_proposes] idle_basic idle_readers idle_in_turn idle_counters redeem_block[OF assms _ new]
        steady_cases steady_audit steady_andThen idles[THEN steady_idle] idle_in_turn[THEN steady_idle] idle_counters | assumption)+
qed

section \<open>Runs of the server\<close>

lemma respond_state: "respond en route rq s = (res, t) \<Longrightarrow> t = snd (serve en route rq s)"
  by (auto simp: respond_def split: prod.splits sum.splits)

lemma steady_answer: "steady_from en P m \<Longrightarrow> steady_from en P (as_answer f m)"
  unfolding as_answer_def by (rule from_finish, assumption) (intro steady_idle idle_basic)

lemma server_step:
  assumes "clock_prints en" "app_inv s" "proposes_new en route rq s" "respond en route rq s = (res, t)"
  shows "trust_reaches (en_host en) s t \<and> app_inv t"
proof -
  have "follows en s (snd (serve en route rq s))"
  proof (cases "route \<in> {PostRedeem, PostPairingCode}")
    case True
    have "steady_from en (proposes_new en PostRedeem rq) (serve en PostRedeem rq)"
      "steady_from en (proposes_new en PostPairingCode rq) (serve en PostPairingCode rq)"
      unfolding serve.simps by (intro steady_answer redeem_route pairing_code_route assms(1))+
    then show ?thesis using True assms(3) by (auto simp: steady_from_def)
  qed (use steady_routes[OF assms(1)] in \<open>simp add: steady_def\<close>)
  then show ?thesis using assms(2) respond_state[OF assms(4)] by (simp add: follows_def)
qed

inductive serves :: "environment \<Rightarrow> app_state \<Rightarrow> app_state \<Rightarrow> bool" for en where
  start: "serves en s s"
| request: "serves en s t \<Longrightarrow> proposes_new en route rq t \<Longrightarrow> respond en route rq t = (res, u) \<Longrightarrow> serves en s u"

lemma serves_reaches: "serves en s t \<Longrightarrow> clock_prints en \<Longrightarrow> app_inv s \<Longrightarrow> trust_reaches (en_host en) s t \<and> app_inv t"
proof (induction rule: serves.induct)
  case (request s t route rq res u)
  then show ?case using server_step[of en t route rq res u] by (auto intro: rtranclp_trans)
qed simp




end
