(* ===== verification/RouteFacts.thy ===== *)
theory RouteFacts
  imports Protocol LeadFacts ParsingFacts
begin

text \<open>
  What single routes answer: what an agent and an analyst see, and when a schedule runs.
\<close>

section \<open>Handlers that only read\<close>

text \<open>A computation that leaves everything but the clock's count, and its value.\<close>

definition reads :: "'x app \<Rightarrow> bool" where
  "reads m \<longleftrightarrow> (\<forall>s. \<exists>n. snd (m s) = s\<lparr>clockReads := n\<rparr>)"

lemma reads_still: "(\<And>s. snd (m s) = s) \<Longrightarrow> reads m"
  unfolding reads_def by (metis clock_unread)

lemma reads_andThen: "reads m \<Longrightarrow> (\<And>x. reads (f x)) \<Longrightarrow> reads (andThen m f)"
proof (unfold reads_def, rule allI)
  fix s
  assume m: "\<forall>s. \<exists>n. snd (m s) = s\<lparr>clockReads := n\<rparr>" and f: "\<And>x. \<forall>s. \<exists>n. snd (f x s) = s\<lparr>clockReads := n\<rparr>"
  obtain v t where run: "m s = (v, t)" by (cases "m s")
  then obtain n where t: "t = s\<lparr>clockReads := n\<rparr>" using m by (metis snd_conv)
  show "\<exists>n. snd (andThen m f s) = s\<lparr>clockReads := n\<rparr>"
  proof (cases v)
    case (Inl e)
    then show ?thesis using run t by (auto simp: andThen_def)
  next
    case (Inr x)
    obtain k where "snd (f x t) = t\<lparr>clockReads := k\<rparr>" using f by blast
    then show ?thesis using run t Inr by (auto simp: andThen_def)
  qed
qed

lemma reads_basic:
  "reads (give x)" "reads (fail e)" "reads (pure v)" "reads (look g)" "reads (consult c)" "reads (require b e)" "reads (found v' e)"
  by (rule reads_still, simp add: app_defs)+

lemma reads_clock: "reads (clock_now en)"
  unfolding reads_def by (auto simp: clock_now_def)

lemma reads_cases:
  "reads a \<Longrightarrow> reads b \<Longrightarrow> reads (if c then a else b)"
  "reads a \<Longrightarrow> (\<And>x. reads (f x)) \<Longrightarrow> reads (case v of None \<Rightarrow> a | Some x \<Rightarrow> f x)"
  "(\<And>x y. reads (g x y)) \<Longrightarrow> reads (case_prod g p)"
  by (auto split: option.split prod.split)

lemmas reads_rules = reads_andThen reads_basic reads_clock reads_cases

lemma reads_queries:
  "reads (now_iso en)" "reads (query_string rq k)" "reads (limit_of en rq n1 n2)" "reads (queue_query rq)" "reads (search_query rq)"
  "reads (cursor_query en rq kind orgId k ok)" "reads (lead_cursor_query en rq kind orgId)" "reads (named_query rq k names)"
  "reads (timestamp_query en rq k)" "reads (path_param rq k n1)" "reads (body_of rq)"
  unfolding now_iso_def limit_of_def queue_query_def search_query_def lead_cursor_query_def cursor_query_def named_query_def
    timestamp_query_def path_param_def body_of_def query_string_def
  by (intro reads_rules)+

lemma run_andThen:
  assumes "andThen m f s = (Inr y, t)"
  obtains x u where "m s = (Inr x, u)" "f x u = (Inr y, t)"
  using assms by (auto simp: andThen_def split: prod.splits sum.splits)

lemma run_reads:
  assumes "andThen m f s = (Inr y, t)" "reads m"
  obtains x n where "fst (m s) = Inr x" "f x (s\<lparr>clockReads := n\<rparr>) = (Inr y, t)"
  using assms by (auto simp: andThen_def reads_def split: prod.splits sum.splits) (metis snd_conv)

lemma run_gate:
  assumes "andThen m f s = (Inr y, t)" "gate Q m s"
  obtains x n where "Q x n" "f x (s\<lparr>clockReads := n\<rparr>) = (Inr y, t)"
  using assms by (auto simp: andThen_def gate_def split: prod.splits sum.splits)

lemma respond_Inr: "respond en route rq s = (Inr r, t) \<Longrightarrow> serve en route rq s = (Inr r, t)"
  by (auto simp: respond_def split: prod.splits sum.splits)

lemma run_answer:
  assumes "as_answer f m s = (Inr r, t)"
  obtains q where "m s = (Inr q, t)" "rep_data r = f (rep_data q)" "rep_status r = rep_status q"
  using assms by (auto simp: as_answer_def andThen_def give_def split: prod.splits sum.splits)

section \<open>What an agent sees\<close>

lemma session_gate: "gate (\<lambda>ctx _. token_device en rq 0 CredSession s = Some ctx) (authenticateMobile en CredSession rq) s"
proof -
  have "gate (\<lambda>ctx _. token_device en rq 0 CredSession s = Some ctx)
      (andThen (require (isOpaqueDeviceCredential token CredSession) invalid_device)
        (\<lambda>_. andThen (resolve_device en CredSession token) (\<lambda>ctx. found ctx invalid_device))) s"
    if token: "bearer rq = Some token" for token
  proof (rule gate_andThen[OF gate_require, of _ _ "\<lambda>_ n. isOpaqueDeviceCredential token CredSession \<and> n = clockReads s"])
    fix n assume opaque: "isOpaqueDeviceCredential token CredSession \<and> n = clockReads s"
    have "gate (\<lambda>ctx _. token_device en rq 0 CredSession s = Some ctx)
        (andThen (resolve_device en CredSession token) (\<lambda>ctx. found ctx invalid_device)) s"
      by (rule gate_andThen[OF gate_resolve], rule gate_found) (use token opaque in \<open>simp_all add: token_device_now\<close>)
    then show "gate (\<lambda>ctx _. token_device en rq 0 CredSession s = Some ctx)
        (andThen (resolve_device en CredSession token) (\<lambda>ctx. found ctx invalid_device)) (s\<lparr>clockReads := n\<rparr>)"
      using opaque by simp
  qed simp_all
  then show ?thesis unfolding authenticateMobile_def by (intro gate_andThen[OF gate_device_token]) simp
qed

lemma consented_run:
  fixes s :: app_state
  assumes "andThen (consented_session en rq) f s = (Inr y, t)"
  obtains ctx n where "token_device en rq 0 CredSession s = Some ctx" "ctx_consentCurrent ctx" "f ctx (s\<lparr>clockReads := n\<rparr>) = (Inr y, t)"
proof -
  obtain ctx u where run: "consented_session en rq s = (Inr ctx, u)" "f ctx u = (Inr y, t)"
    using assms by (rule run_andThen)
  obtain ctx' n where ctx': "token_device en rq 0 CredSession s = Some ctx'"
    "andThen (consented ctx') (\<lambda>_. give ctx') (s\<lparr>clockReads := n\<rparr>) = (Inr ctx, u)"
    using run_gate[OF run(1)[unfolded consented_session_def] session_gate] by metis
  then have "ctx = ctx'" "ctx_consentCurrent ctx'" "u = s\<lparr>clockReads := n\<rparr>"
    by (auto simp: consented_def require_def check_def app_defs split: if_splits)
  then show thesis using that ctx' run(2) by blast
qed

lemma get_mobile_leads_run:
  fixes s :: app_state
  assumes "get_mobile_leads en rq s = (Inr q, t)"
  obtains ctx f c limit ts n res where "token_device en rq 0 CredSession s = Some ctx" "ctx_consentCurrent ctx"
    "listLeads (en_host en) (ctx_organizationId ctx) (own_leads ctx) f c limit ts (s\<lparr>clockReads := n\<rparr>) = Inr res"
    "lst_items (rep_data q) = llr_items res" "rep_status q = 200" "\<exists>k. t = s\<lparr>clockReads := k\<rparr>"
proof -
  note steps = assms[unfolded get_mobile_leads_def]
  obtain ctx n1 where ctx: "token_device en rq 0 CredSession s = Some ctx" "ctx_consentCurrent ctx"
    and steps: "andThen (limit_of en rq 50 100) (\<lambda>limit.
     andThen (lead_cursor_query en rq ''mobile-leads'' (ctx_organizationId ctx)) (\<lambda>after.
     andThen (queue_query rq) (\<lambda>queue.
     andThen (search_query rq) (\<lambda>search.
     andThen (query_string rq ''statusId'') (\<lambda>status.
     andThen (now_iso en) (\<lambda>ts.
     andThen (consult (listLeads (en_host en) (ctx_organizationId ctx) (own_leads ctx)
       \<lparr>lf_search = search, lf_statusId = status, lf_assignedEmployeeId = None, lf_queue = queue\<rparr> after limit ts)) (\<lambda>res.
     reply_ok (leads_page_of en ''mobile-leads'' (ctx_organizationId ctx) ts None res)))))))) (s\<lparr>clockReads := n1\<rparr>) = (Inr q, t)"
    using steps by (rule consented_run)
  show thesis
    apply (insert steps)
    apply (erule run_reads, rule reads_queries)+
    apply (erule run_andThen)
    apply (rule that[OF ctx])
    apply (auto simp: consult_def reply_ok_def give_def leads_page_of_def Let_def)
    done
qed


section \<open>What a reader of calls sees\<close>

lemma reading_gate:
  "gate (\<lambda>actor _. signed_in en rq s actor \<and> p \<in> set (actor_permissions actor) \<and> actor_roleKey actor \<in> {RoleOwner, RoleAdmin, RoleAnalyst})
     (protectOrganizationRead en p rq) s"
  unfolding protectOrganizationRead_def
  by (rule gate_andThen[OF protect_gate], rule gate_andThen[OF scope_gates(1)])
    (auto simp: readers_def intro!: gate_give)

lemma masked_digits: "length (filter is_digit (maskPhoneNumber s)) \<le> 4"
  by (simp add: mask_last_four digits_last_four) (simp add: last_four_def is_digit_def Let_def)

lemma listCalls_members:
  "set (fst (listCalls h orgId f after limit r)) \<subseteq> {c \<in> set (map_values (calls r)). call_organizationId c = orgId}"
  by (auto simp: listCalls_def page_of_eq after_cursor_def call_matches_def split: option.splits dest!: in_set_takeD)

lemma get_calls_run:
  fixes s :: app_state
  assumes "get_calls en rq s = (Inr q, t)"
  obtains actor cs where "signed_in en rq s actor" "calls_read \<in> set (actor_permissions actor)"
    "actor_roleKey actor \<in> {RoleOwner, RoleAdmin, RoleAnalyst}" "lst_items (rep_data q) = presentCalls actor cs"
    "set cs \<subseteq> {c \<in> set (map_values (calls s)). call_organizationId c = org_of actor}"
proof -
  note outcome = that
  have shown: thesis
    if who: "signed_in en rq s actor \<and> calls_read \<in> set (actor_permissions actor) \<and> actor_roleKey actor \<in> {RoleOwner, RoleAdmin, RoleAnalyst}"
      and rest: "andThen (look (listCalls (en_host en) (org_of actor) f c limit)) (\<lambda>(items, further).
        reply_ok \<lparr>lst_items = presentCalls actor items, lst_cursorInfo = g items further\<rparr>) u = (Inr q, t)"
      and same: "calls u = calls s" for actor f c limit g u
    using who rest same listCalls_members[of "en_host en" "org_of actor" f c limit u]
    by (intro outcome[of actor "fst (listCalls (en_host en) (org_of actor) f c limit u)"])
      (auto simp: andThen_def look_def reply_ok_def give_def split: prod.splits)
  show thesis
    using assms[unfolded get_calls_def]
    apply (rule run_gate[OF _ reading_gate])
    apply (erule run_reads, rule reads_queries)+
    apply (erule (1) shown, simp)
    done
qed

lemma presented_calls:
  assumes "c \<in> set (presentCalls actor cs)"
  obtains d where "d \<in> set cs" "call_organizationId c = call_organizationId d" "call_id c = call_id d"
    "sees_masked actor \<longrightarrow> length (filter is_digit (part_phoneNumber (call_participant c))) \<le> 4"
  using assms masked_digits by (auto simp: presentCalls_def split: if_splits)

text \<open>
  C18: A call listing is given to an owner, an administrator or an analyst who may read calls. It
  holds calls of that person's organization only, and to an analyst of an organization that masks
  numbers no participant's number shows more than four digits.
\<close>

theorem call_listing_masked:
  fixes s :: app_state
  assumes "respond en GetCalls rq s = (Inr r, t)"
  shows "\<exists>actor page. signed_in en rq s actor \<and> calls_read \<in> set (actor_permissions actor)
    \<and> actor_roleKey actor \<in> {RoleOwner, RoleAdmin, RoleAnalyst} \<and> rep_data r = ACalls page
    \<and> (\<forall>c \<in> set (lst_items page). call_organizationId c = org_of actor
         \<and> call_id c \<in> call_id ` set (map_values (calls s))
         \<and> (sees_masked actor \<longrightarrow> length (filter is_digit (part_phoneNumber (call_participant c))) \<le> 4))"
proof -
  obtain q where q: "get_calls en rq s = (Inr q, t)" "rep_data r = ACalls (rep_data q)"
    using run_answer[OF respond_Inr[OF assms, unfolded serve.simps]] by metis
  obtain actor cs where who: "signed_in en rq s actor" "calls_read \<in> set (actor_permissions actor)"
    "actor_roleKey actor \<in> {RoleOwner, RoleAdmin, RoleAnalyst}" and items: "lst_items (rep_data q) = presentCalls actor cs"
    and cs: "set cs \<subseteq> {c \<in> set (map_values (calls s)). call_organizationId c = org_of actor}"
    using q(1) by (rule get_calls_run)
  have "call_organizationId c = org_of actor \<and> call_id c \<in> call_id ` set (map_values (calls s))
      \<and> (sees_masked actor \<longrightarrow> length (filter is_digit (part_phoneNumber (call_participant c))) \<le> 4)"
    if "c \<in> set (lst_items (rep_data q))" for c
    using that[unfolded items] by (rule presented_calls) (use cs in auto)
  then show ?thesis using who q(2) by blast
qed

section \<open>When a schedule runs\<close>

text \<open>Milliseconds of 5:30 hours, the offset written into the route.\<close>

abbreviation half_past_five :: int where
  "half_past_five \<equiv> 19800000"

lemma next_run_clock:
  assumes "hour < 24" "minute < 60"
  shows "(next_run now hour minute + half_past_five) mod day_ms = int hour * 3600000 + int minute * 60000"
proof -
  have "(q * day_ms + (int hour * 3600000 + int minute * 60000)) mod day_ms = int hour * 3600000 + int minute * 60000" for q
    using assms by (simp add: mod_pos_pos_trivial)
  from this[of "(now + day_ms) div day_ms"] this[of "(now + day_ms) div day_ms + 1"] show ?thesis
    by (simp add: next_run_def Let_def algebra_simps)
qed

text \<open>
  C35: A schedule first runs strictly after it is made and within forty-two and a half hours, at the
  given time of day in the zone 5:30 hours ahead of UTC, whatever zone the organization is in.
\<close>

theorem next_run_after_now:
  assumes "hour < 24" "minute < 60"
  shows "now < next_run now hour minute \<and> next_run now hour minute \<le> now + 42 * 3600000 + 29 * 60000
    \<and> (next_run now hour minute + half_past_five) mod day_ms = int hour * 3600000 + int minute * 60000"
proof -
  define T where "T = (now + day_ms) div day_ms * day_ms"
  have "T \<le> now + day_ms" "now < T"
    by (simp_all add: T_def minus_mod_eq_div_mult [symmetric])
  then have "now < next_run now hour minute \<and> next_run now hour minute \<le> now + 42 * 3600000 + 29 * 60000"
    using assms unfolding next_run_def T_def[symmetric] Let_def by auto
  then show ?thesis using next_run_clock[OF assms] by blast
qed

section \<open>A credential proposed again\<close>

text \<open>
  A redemption stores the bootstrap credential it is given as a live one even where the same token
  was stored before and retired: unlike activation and rotation it does not ask whether the token is
  known. The routes are safe only as long as clients propose new tokens.
\<close>

theorem redeemed_token_live_again:
  fixes r :: "'a pairing_state_scheme"
  assumes "redeemPairingCode h opts r = (Inr (Some v), r')" "red_replayed v = Some False"
    and "cred_lifecycleState (ro_bootstrapCredential opts) = LcActive"
  shows "\<exists>c. map_get (deviceCredentialsByHash r') (cred_tokenHash (ro_bootstrapCredential opts)) = Some c \<and> \<not> retired c
    \<and> cred_createdAt c = ro_at opts"
proof -
  obtain rec e existing where "r' = snd (redeem_commit opts rec e existing r)"
    using assms(1,2)
    by (auto simp: redeemPairingCode_def Let_def split_beta bind_eq_Some_conv redemption_only_def split: option.splits if_splits)
  then show ?thesis using assms(3)
    by (simp add: redeem_commit_def store_credential_def retired_def Let_def split_beta store_simps)
qed

end
