(* ===== verification/SecurityFacts.thy ===== *)
theory SecurityFacts
  imports Security
begin

text \<open>
  What signatures and the limiter guarantee: whatever is accepted was signed with the secret, a
  cursor works for its own listing and organization only, tokens live for their time to live,
  cursors and tokens are never mistaken for each other, hashed messages of different purposes
  differ, and a key never exceeds its attempts within any window of time.
\<close>

section \<open>Documented behaviour of the platform\<close>

text \<open>
  Base64url is inverted by its decoder, uses no dot and is not empty on a text that is not;
  signatures likewise. \<open>JSON.parse\<close> inverts \<open>JSON.stringify\<close> on a value.
\<close>

definition base64_ok :: "primitives \<Rightarrow> bool" where
  "base64_ok pr \<longleftrightarrow> (\<forall>s. pr_decode pr (pr_encode pr s) = s \<and> CHR ''.'' \<notin> set (pr_encode pr s) \<and> (s \<noteq> [] \<longrightarrow> pr_encode pr s \<noteq> []))
     \<and> (\<forall>k m. CHR ''.'' \<notin> set (pr_sign pr k m) \<and> pr_sign pr k m \<noteq> [])"

definition json_inverse :: "primitives \<Rightarrow> json \<Rightarrow> bool" where
  "json_inverse pr v \<longleftrightarrow> pr_parse pr (stringify (pr_number pr) v) = Some v"

section \<open>Sealing\<close>

lemma signaturesMatch_iff: "signaturesMatch l r \<longleftrightarrow> l = r"
  by (auto simp: signaturesMatch_def list.rel_eq)

lemma split_dots_plain: "CHR ''.'' \<notin> set s \<Longrightarrow> split_dots s = [s]"
  by (induction s) auto

lemma split_dots_join: "CHR ''.'' \<notin> set s \<Longrightarrow> split_dots (s @ CHR ''.'' # t) = s # split_dots t"
  by (induction s) auto

fun join_dots :: "string list \<Rightarrow> string" where
  "join_dots [] = []"
| "join_dots [p] = p"
| "join_dots (p # q # ps) = p @ CHR ''.'' # join_dots (q # ps)"

lemma split_dots_not_Nil: "split_dots s \<noteq> []"
  by (induction s) (auto split: list.split)

lemma join_split: "join_dots (split_dots s) = s"
proof (induction s)
  case (Cons c cs)
  obtain p ps where ps: "split_dots cs = p # ps" using split_dots_not_Nil[of cs] by (cases "split_dots cs") auto
  then show ?case using Cons by (cases ps) auto
qed simp

lemma unseal_seal:
  assumes "base64_ok pr" and "json_inverse pr (JObject fs)"
  shows "unseal pr secret refuse what (seal pr secret (JObject fs)) = Inr (JObject fs)"
proof -
  let ?e = "pr_encode pr (stringify (pr_number pr) (JObject fs))"
  have e: "CHR ''.'' \<notin> set ?e" "?e \<noteq> []" "pr_decode pr ?e = stringify (pr_number pr) (JObject fs)"
    "CHR ''.'' \<notin> set (sign pr ?e secret)" "sign pr ?e secret \<noteq> []"
    using assms(1) by (auto simp: base64_ok_def sign_def)
  have "split_dots (seal pr secret (JObject fs)) = [?e, sign pr ?e secret]"
    using e by (simp add: seal_def Let_def split_dots_join split_dots_plain)
  then show ?thesis using e assms(2) by (simp add: unseal_def signaturesMatch_iff json_inverse_def)
qed

lemma unseal_Inr:
  assumes "unseal pr secret refuse what sealed = Inr v"
  obtains payload where "sealed = payload @ ''.'' @ sign pr payload secret" "pr_parse pr (pr_decode pr payload) = Some v" "payload \<noteq> []"
proof -
  from assms obtain p s where ps: "split_dots sealed = [p, s]" "s = sign pr p secret" "pr_parse pr (pr_decode pr p) = Some v" "p \<noteq> []"
    by (auto simp: unseal_def signaturesMatch_iff split: list.splits if_splits option.splits)
  then have "sealed = p @ ''.'' @ s" using join_split[of sealed] by simp
  with ps show ?thesis using that by simp
qed

section \<open>Cursors and tokens\<close>

text \<open>
  C29: A cursor opens for the listing and the organization it was issued for, and answers exactly the
  value it was made from; for any other listing or organization it is refused.
\<close>

theorem cursor_opens_own_listing_only:
  assumes "base64_ok pr" and "json_inverse pr (cursor_envelope kind orgId v)"
  shows "decode_cursor pr secret (encode_cursor pr secret kind orgId v) kind' orgId' =
    (if kind' = kind \<and> orgId' = orgId then Inr v
     else Inl (cursor_refused ''The cursor does not belong to this resource''))"
  using unseal_seal[OF assms(1), of _ secret cursor_refused "''cursor''"] assms(2)
  by (auto simp: decode_cursor_def encode_cursor_def cursor_envelope_def as_record_def field_def)

text \<open>
  A token is accepted from a minute before the second it was issued in until its time to live has
  passed, and answers the subject and organization it was issued for.
\<close>

theorem token_accepted_while_alive:
  assumes "base64_ok pr" and "json_inverse pr (token_payload subject orgId (now_seconds t0) (now_seconds t0 + ts_ttlSeconds s))"
    and "js_trim subject \<noteq> []" "js_trim orgId \<noteq> []"
  shows "(\<exists>c. verify_token pr s t (fst (issue_token pr s t0 subject orgId)) = Inr c
      \<and> field c ''subject'' = Some (JString subject) \<and> field c ''organizationId'' = Some (JString orgId))
    \<longleftrightarrow> now_seconds t < now_seconds t0 + ts_ttlSeconds s \<and> now_seconds t0 \<le> now_seconds t + 60"
proof -
  define fs where "fs = [(''version'', JNum 1), (''subject'', JString subject), (''organizationId'', JString orgId),
    (''issuedAt'', JNum (of_int (now_seconds t0))), (''expiresAt'', JNum (of_int (now_seconds t0 + ts_ttlSeconds s)))]"
  have un: "unseal pr (ts_secret s) unauthenticated ''bearer token'' (fst (issue_token pr s t0 subject orgId)) = Inr (JObject fs)"
    using unseal_seal[OF assms(1) assms(2)[unfolded token_payload_def]] by (simp add: issue_token_def Let_def token_payload_def fs_def)
  have shape: "token_shape fs" using assms(3,4)
    by (simp add: token_shape_def fs_def field_def isNonEmptyString_def string_and_def is_number_def)
  have fields: "field fs ''subject'' = Some (JString subject)" "field fs ''organizationId'' = Some (JString orgId)"
    by (simp_all add: fs_def field_def)
  have "number_le (field fs ''expiresAt'') n \<longleftrightarrow> now_seconds t0 + ts_ttlSeconds s \<le> n" for n
    by (simp add: number_le_def fs_def field_def del: of_int_add)
  moreover have "number_gt (field fs ''issuedAt'') n \<longleftrightarrow> n < now_seconds t0" for n
    by (simp add: number_gt_def fs_def field_def)
  ultimately show ?thesis unfolding verify_token_def un by (auto simp: as_record_def shape fields)
qed

text \<open>
  Tokens and cursors share a secret and a format, but a cursor is never accepted as a token, nor
  a token as a cursor.
\<close>

theorem cursors_are_no_tokens:
  assumes "base64_ok pr" and "json_inverse pr (cursor_envelope kind orgId v)"
    and "json_inverse pr (token_payload subject orgId' (now_seconds t0) (now_seconds t0 + ts_ttlSeconds s))"
  shows "verify_token pr s t (encode_cursor pr (ts_secret s) kind orgId v)
      = Inl (unauthenticated ''The bearer token payload is invalid'')
    \<and> decode_cursor pr (ts_secret s) (fst (issue_token pr s t0 subject orgId')) kind' orgId''
      = Inl (cursor_refused ''The cursor does not belong to this resource'')"
proof
  show "verify_token pr s t (encode_cursor pr (ts_secret s) kind orgId v) = Inl (unauthenticated ''The bearer token payload is invalid'')"
    using unseal_seal[OF assms(1) assms(2)[unfolded cursor_envelope_def]]
    by (simp add: verify_token_def encode_cursor_def cursor_envelope_def as_record_def token_shape_def field_def
        isNonEmptyString_def string_and_def)
  show "decode_cursor pr (ts_secret s) (fst (issue_token pr s t0 subject orgId')) kind' orgId''
      = Inl (cursor_refused ''The cursor does not belong to this resource'')"
    using unseal_seal[OF assms(1) assms(3)[unfolded token_payload_def]]
    by (simp add: decode_cursor_def issue_token_def Let_def token_payload_def as_record_def field_def)
qed

text \<open>
  Whatever is accepted as a token or as a cursor carries the signature of its payload under the
  server's secret, and an accepted token has not expired.
\<close>

theorem accepted_texts_are_signed:
  shows "(verify_token pr s now sealed = Inr c \<longrightarrow> (\<exists>p. sealed = p @ ''.'' @ sign pr p (ts_secret s))
      \<and> \<not> number_le (field c ''expiresAt'') (now_seconds now))
    \<and> (decode_cursor pr secret sealed kind orgId = Inr v \<longrightarrow> (\<exists>p. sealed = p @ ''.'' @ sign pr p secret))"
  by (auto simp: verify_token_def decode_cursor_def as_record_def split: sum.splits json.splits if_splits option.splits
      elim: unseal_Inr) (metis unseal_Inr append_Cons append_Nil)+

section \<open>Hashed messages\<close>

text \<open>
  The messages hashed under one secret for different purposes never coincide: two of them are
  equal only for the same purpose, the same dimension or credential type, and the same text.
\<close>

theorem hashed_messages_separate:
  "(rate_limit_message d v = rate_limit_message d' v' \<longleftrightarrow> d = d' \<and> v = v')
    \<and> (credential_message k t = credential_message k' t' \<longleftrightarrow> k = k' \<and> t = t')
    \<and> pairing_message pr code \<noteq> rate_limit_message d v \<and> pairing_message pr code \<noteq> credential_message k t
    \<and> rate_limit_message d v \<noteq> credential_message k t"
  by (auto simp: rate_limit_message_def credential_message_def pairing_message_def dimension_name_def kind_name_def
      split: limiter_dimension.splits credential_type.splits)

section \<open>The limiter\<close>

text \<open>The calls the server makes, with what each reads of the clock.\<close>

datatype limiter_call = Attempt int int string | Success string | Count int

definition limiter_step :: "limiter \<Rightarrow> limiter_call \<Rightarrow> attempts \<Rightarrow> attempts" where
  "limiter_step l c fs = (case c of Attempt t1 t2 k \<Rightarrow> snd (consumeAttempt l t1 t2 k fs)
     | Success k \<Rightarrow> reset_attempts k fs | Count t \<Rightarrow> snd (trackedKeyCount l t fs))"

fun run_limiter :: "limiter \<Rightarrow> limiter_call list \<Rightarrow> attempts \<Rightarrow> attempts" where
  "run_limiter l [] fs = fs"
| "run_limiter l (c # cs) fs = run_limiter l cs (limiter_step l c fs)"

text \<open>When attempts of a key were admitted.\<close>

fun admitted :: "limiter \<Rightarrow> string \<Rightarrow> limiter_call list \<Rightarrow> attempts \<Rightarrow> int list" where
  "admitted l k [] fs = []"
| "admitted l k (c # cs) fs =
     (case c of Attempt t1 t2 k' \<Rightarrow> if k' = k \<and> fst (consumeAttempt l t1 t2 k' fs) = Inr () then [t2] else []
      | _ \<Rightarrow> []) @ admitted l k cs (limiter_step l c fs)"

text \<open>A clock that does not go back: no call reads less than an earlier one.\<close>

fun clock_ok :: "int \<Rightarrow> limiter_call list \<Rightarrow> bool" where
  "clock_ok t [] = True"
| "clock_ok t (Attempt t1 t2 k # cs) = (t \<le> t1 \<and> t1 \<le> t2 \<and> clock_ok t2 cs)"
| "clock_ok t (Success k # cs) = clock_ok t cs"
| "clock_ok t (Count t1 # cs) = (t \<le> t1 \<and> clock_ok t1 cs)"

lemma prune_Cons:
  "pruneExpired l now ((k, ts) # fs) =
     (if recent_attempts l now ts = [] then [] else [(k, recent_attempts l now ts)]) @ pruneExpired l now fs"
  by (simp add: pruneExpired_def)

lemma map_of_prune:
  "map_wf fs \<Longrightarrow> map_get (pruneExpired l now fs) k =
     (case map_get fs k of None \<Rightarrow> None | Some ts \<Rightarrow> if recent_attempts l now ts = [] then None else Some (recent_attempts l now ts))"
proof (induction fs)
  case (Cons e fs)
  obtain k0 ts where e: "e = (k0, ts)" by (cases e)
  have "map_wf fs" "k0 \<notin> fst ` set fs" using Cons.prems by (simp_all add: e map_wf_def)
  then have "map_get fs k0 = None" by (simp add: map_of_eq_None_iff)
  then show ?case using Cons.IH[OF \<open>map_wf fs\<close>] by (auto simp: e prune_Cons)
qed (simp add: pruneExpired_def)

lemma attempts_prune: "map_wf fs \<Longrightarrow> attempts_of (pruneExpired l now fs) k = recent_attempts l now (attempts_of fs k)"
  by (auto simp: attempts_of_def map_of_prune recent_attempts_def split: option.split)

lemma map_wf_prune [simp]: "map_wf fs \<Longrightarrow> map_wf (pruneExpired l now fs)"
  unfolding pruneExpired_def map_wf_def by (rule distinct_map_filter) (simp add: comp_def case_prod_beta)

lemma length_prune: "length (pruneExpired l now fs) \<le> length fs"
  by (simp add: pruneExpired_def order_trans[OF length_filter_le])

lemma map_wf_step: "map_wf fs \<Longrightarrow> map_wf (limiter_step l c fs)"
  by (auto simp: limiter_step_def consumeAttempt_def reset_attempts_def trackedKeyCount_def Let_def split: limiter_call.split)

text \<open>What is kept of a key: every admitted attempt after some instant no later than the window before the last call.\<close>

definition keeps :: "limiter \<Rightarrow> int \<Rightarrow> int list \<Rightarrow> attempts \<Rightarrow> string \<Rightarrow> bool" where
  "keeps l t past fs k \<longleftrightarrow> (\<exists>c \<le> valid_after l t. attempts_of fs k = filter (\<lambda>x. c < x) past)"

definition in_window :: "limiter \<Rightarrow> int \<Rightarrow> int list \<Rightarrow> nat" where
  "in_window l t ts = length (filter (\<lambda>x. valid_after l t < x \<and> x \<le> t) ts)"

lemma recent_of_kept:
  assumes "attempts_of fs k = filter (\<lambda>x. c < x) past" "c \<le> valid_after l t"
  shows "recent_attempts l t (attempts_of fs k) = filter (\<lambda>x. valid_after l t < x) past"
  using assms by (auto simp: recent_attempts_def intro!: filter_cong)

lemma valid_after_mono: "t \<le> t' \<Longrightarrow> valid_after l t \<le> valid_after l t'"
  by (simp add: valid_after_def)

lemma attempts_set: "attempts_of (map_set k v fs) k' = (if k' = k then v else attempts_of fs k')"
  by (simp add: attempts_of_def store_simps)

lemma attempts_reset: "attempts_of (reset_attempts k fs) k' = (if k' = k then [] else attempts_of fs k')"
  by (simp add: attempts_of_def reset_attempts_def store_simps)

lemma window_grows:
  assumes "\<forall>x\<in>set past. x \<le> t" "length (filter (\<lambda>x. valid_after l t < x) past) < lim_maximumAttempts l"
    "\<forall>T. in_window l T past \<le> lim_maximumAttempts l"
  shows "in_window l T (past @ [t]) \<le> lim_maximumAttempts l"
proof (cases "t \<le> T")
  case True
  then have "in_window l T past \<le> length (filter (\<lambda>x. valid_after l t < x) past)"
    unfolding in_window_def using valid_after_mono[of t T l]
    by (induction past) auto
  then show ?thesis using assms(2) by (simp add: in_window_def)
next
  case False
  then show ?thesis using assms(3) by (simp add: in_window_def)
qed

lemma limiter_window:
  assumes W: "0 < lim_windowSeconds l" and "map_wf fs" "clock_ok t cs" "\<forall>c\<in>set cs. c \<noteq> Success k" "keeps l t past fs k" "\<forall>x\<in>set past. x \<le> t"
    "\<forall>T. in_window l T past \<le> lim_maximumAttempts l"
  shows "in_window l T (past @ admitted l k cs fs) \<le> lim_maximumAttempts l"
  using assms(2-)
proof (induction cs arbitrary: fs t past)
  case (Cons c cs)
  note wf = map_wf_step[OF Cons.prems(1), of l c]
  obtain b where b: "b \<le> valid_after l t" "attempts_of fs k = filter (\<lambda>x. b < x) past"
    using Cons.prems(4) by (auto simp: keeps_def)
  show ?case
  proof (cases c)
    case (Attempt t1 t2 k')
    have t: "t \<le> t1" "t1 \<le> t2" "clock_ok t2 cs" using Cons.prems(2) Attempt by simp_all
    let ?fs = "pruneExpired l t1 fs"
    have after: "b \<le> valid_after l t1" "valid_after l t1 \<le> valid_after l t2" "b \<le> valid_after l t2"
      using b(1) valid_after_mono t(1,2) by (meson order_trans)+
    have pruned: "attempts_of ?fs k = filter (\<lambda>x. valid_after l t1 < x) past"
      using attempts_prune[OF Cons.prems(1)] recent_of_kept[OF b(2) after(1)] by simp
    have recent: "recent_attempts l t2 (attempts_of ?fs k) = filter (\<lambda>x. valid_after l t2 < x) past"
      by (rule recent_of_kept[OF pruned after(2)])
    have old: "\<forall>x\<in>set past. x \<le> t2" using Cons.prems(5) t by auto
    show ?thesis
    proof (cases "k' = k \<and> fst (consumeAttempt l t1 t2 k' fs) = Inr ()")
      case True
      then have few: "length (filter (\<lambda>x. valid_after l t2 < x) past) < lim_maximumAttempts l"
        and step: "limiter_step l c fs = map_set k (filter (\<lambda>x. valid_after l t2 < x) past @ [t2]) ?fs"
        by (auto simp: limiter_step_def Attempt consumeAttempt_def Let_def recent split: if_splits)
      have "keeps l t2 (past @ [t2]) (limiter_step l c fs) k"
        unfolding keeps_def step using W by (intro exI[of _ "valid_after l t2"]) (simp add: attempts_set valid_after_def)
      from Cons.IH[OF wf t(3) _ this] show ?thesis
        using Cons.prems(3) old window_grows[OF old few] Cons.prems(6) True by (auto simp: Attempt)
    next
      case False
      then have "attempts_of (limiter_step l c fs) k = attempts_of ?fs k"
        by (auto simp: limiter_step_def Attempt consumeAttempt_def Let_def attempts_set split: if_splits)
      then have "keeps l t2 past (limiter_step l c fs) k"
        unfolding keeps_def using pruned after(2) by auto
      from Cons.IH[OF wf t(3) _ this] show ?thesis using Cons.prems(3,6) old False by (auto simp: Attempt)
    qed
  next
    case (Success k')
    then have "keeps l t past (limiter_step l c fs) k" using Cons.prems(3,4) by (auto simp: keeps_def limiter_step_def attempts_reset)
    from Cons.IH[OF wf _ _ this] show ?thesis using Cons.prems Success by simp
  next
    case (Count t1)
    have "keeps l t1 past (limiter_step l c fs) k"
      unfolding keeps_def using recent_of_kept[OF b(2), of l t1] b(1) valid_after_mono[of t t1 l] Cons.prems(1,2) Count
      by (intro exI[of _ "valid_after l t1"]) (auto simp: limiter_step_def trackedKeyCount_def Let_def attempts_prune)
    moreover have "\<forall>x\<in>set past. x \<le> t1" using Cons.prems(2,5) Count by auto
    ultimately show ?thesis using Cons.IH[OF wf, of t1 past] Cons.prems Count by auto
  qed
qed simp

text \<open>
  C22: While no attempt of a key succeeds, at most the allowed number of its attempts is admitted
  within any window of time, however calls for other keys, successes and counts are interleaved, on
  a clock that does not go back.
\<close>

theorem attempts_bounded_in_every_window:
  assumes "clock_ok t cs" and "\<forall>c\<in>set cs. c \<noteq> Success k"
  shows "in_window l T (admitted l k cs []) \<le> lim_maximumAttempts l"
proof (cases "lim_windowSeconds l = 0")
  case True
  then show ?thesis by (simp add: in_window_def valid_after_def)
next
  case False
  then show ?thesis using limiter_window[of l "[]" t cs k "[]" T] assms
    by (simp add: keeps_def attempts_of_def in_window_def exI[of _ "valid_after l t"])
qed

definition limiter_inv :: "limiter \<Rightarrow> int \<Rightarrow> attempts \<Rightarrow> bool" where
  "limiter_inv l t fs \<longleftrightarrow> map_wf fs \<and> length fs \<le> lim_maximumTrackedKeys l
     \<and> (\<forall>k. length (attempts_of fs k) \<le> lim_maximumAttempts l \<and> (\<forall>x\<in>set (attempts_of fs k). x \<le> t))"

lemma limiter_inv_later: "limiter_inv l t fs \<Longrightarrow> t \<le> t' \<Longrightarrow> limiter_inv l t' fs"
  by (auto simp: limiter_inv_def) (meson order_trans)

lemma recent_le: "length (recent_attempts l t ts) \<le> length ts" "set (recent_attempts l t ts) \<subseteq> set ts"
  by (auto simp: recent_attempts_def)

lemma prune_inv: "limiter_inv l t fs \<Longrightarrow> limiter_inv l t (pruneExpired l t' fs)"
  unfolding limiter_inv_def using length_prune[of l t' fs] recent_le[of l t']
  by (auto simp: attempts_prune) (meson order_trans subsetD)+

lemma length_set: "length (map_set k v fs) = (if map_has fs k then length fs else Suc (length fs))"
  by (induction fs) (auto simp: map_has_def)

lemma step_inv:
  assumes inv: "limiter_inv l t fs" and ok: "clock_ok t (c # cs)"
  shows "\<exists>t'. limiter_inv l t' (limiter_step l c fs) \<and> clock_ok t' cs"
proof (cases c)
  case (Attempt t1 t2 k)
  have t: "t \<le> t2" "clock_ok t2 cs" using ok Attempt by auto
  have p: "limiter_inv l t2 (pruneExpired l t1 fs)" using limiter_inv_later[OF prune_inv[OF inv] t(1)] .
  have "limiter_inv l t2 (snd (consumeAttempt l t1 t2 k fs))"
  proof (cases "fst (consumeAttempt l t1 t2 k fs)")
    case (Inr u)
    then have "length (recent_attempts l t2 (attempts_of (pruneExpired l t1 fs) k)) < lim_maximumAttempts l"
      "map_has (pruneExpired l t1 fs) k \<or> length (pruneExpired l t1 fs) < lim_maximumTrackedKeys l"
      "snd (consumeAttempt l t1 t2 k fs) = map_set k (recent_attempts l t2 (attempts_of (pruneExpired l t1 fs) k) @ [t2]) (pruneExpired l t1 fs)"
      by (auto simp: consumeAttempt_def Let_def split: if_splits)
    then show ?thesis using p recent_le(2)[of l t2] by (auto simp: limiter_inv_def attempts_set length_set)
  next
    case (Inl e)
    then have "snd (consumeAttempt l t1 t2 k fs) = pruneExpired l t1 fs" by (auto simp: consumeAttempt_def Let_def split: if_splits)
    then show ?thesis using p by simp
  qed
  then show ?thesis using t(2) Attempt by (auto simp: limiter_step_def)
next
  case (Success k)
  have "length (map_delete k fs) \<le> length fs" by (simp add: AList.delete_eq)
  then have "limiter_inv l t (limiter_step l c fs)"
    using inv by (auto simp: limiter_inv_def Success limiter_step_def attempts_reset) (auto simp: reset_attempts_def)
  then show ?thesis using ok Success by auto
next
  case (Count t1)
  then show ?thesis using limiter_inv_later[OF prune_inv[OF inv], of t1 t1] ok
    by (auto simp: limiter_step_def trackedKeyCount_def Let_def)
qed

lemma run_inv: "limiter_inv l t fs \<Longrightarrow> clock_ok t (cs @ ds) \<Longrightarrow> \<exists>t'. limiter_inv l t' (run_limiter l cs fs) \<and> clock_ok t' ds"
proof (induction cs arbitrary: t fs)
  case (Cons c cs)
  then show ?case using step_inv[of l t fs c "cs @ ds"] by fastforce
qed auto

text \<open>
  The limiter's memory is bounded: it never tracks more than the maximum number of keys, nor more
  attempts of a key than are allowed.
\<close>

theorem limiter_memory_bounded:
  assumes "clock_ok t cs"
  shows "length (run_limiter l cs []) \<le> lim_maximumTrackedKeys l
    \<and> length (attempts_of (run_limiter l cs []) k) \<le> lim_maximumAttempts l"
proof -
  have "limiter_inv l t []" by (simp add: limiter_inv_def attempts_of_def)
  from run_inv[OF this, of cs "[]"] assms show ?thesis by (auto simp: limiter_inv_def)
qed

lemma retry_seconds_enough: "r + int (lim_windowSeconds l) * 1000 \<le> now + 1000 * int (retry_seconds l now (r # rs))"
proof -
  define d where "d = r + int (lim_windowSeconds l) * 1000 - now"
  have "d \<le> - (((- d) div 1000) * 1000)" using pos_mod_sign[of 1000 "- d"] div_mult_mod_eq[of "- d" 1000] by linarith
  moreover have "int (retry_seconds l now (r # rs)) = max 1 (- ((- d) div 1000))"
    by (simp add: retry_seconds_def d_def algebra_simps)
  ultimately show ?thesis unfolding d_def by linarith
qed

lemma prune_loses_key:
  assumes "map_wf fs" "map_has fs k" "\<not> map_has (pruneExpired l t fs) k"
  shows "length (pruneExpired l t fs) < length fs"
proof -
  obtain ts where "(k, ts) \<in> set fs" using assms(2) by (auto simp: map_has_def dest: map_of_SomeD)
  moreover have "recent_attempts l t ts = []"
    using assms calculation by (auto simp: map_has_def map_of_prune map_wf_def split: if_splits)
  ultimately have "(k, []) \<in> set (map (\<lambda>(k, ts). (k, recent_attempts l t ts)) fs)" by force
  then show ?thesis unfolding pruneExpired_def using length_filter_less[of "(k, [])" _ "\<lambda>e. snd e \<noteq> []"] by fastforce
qed

text \<open>
  The wait the limiter names is enough: an attempt refused with a number of seconds to wait is
  admitted when it is repeated that much later, whatever happened before, as long as at least one
  attempt and one key are allowed.
\<close>

theorem retry_after_wait_admitted:
  assumes ok: "clock_ok t0 (cs @ [Attempt t1 t2 k])" and some: "0 < lim_maximumAttempts l" "0 < lim_maximumTrackedKeys l"
    and refused: "consumeAttempt l t1 t2 k (run_limiter l cs []) = (Inl (rateLimited s), fs)"
    and wait: "t2 + 1000 * int s \<le> t3" "t3 \<le> t4"
  shows "fst (consumeAttempt l t3 t4 k fs) = Inr ()"
proof -
  define fs0 where "fs0 = run_limiter l cs []"
  have "limiter_inv l t0 []" by (simp add: limiter_inv_def attempts_of_def)
  from run_inv[OF this ok] obtain t where t: "limiter_inv l t fs0" "t \<le> t1" "t1 \<le> t2" by (auto simp: fs0_def)
  have fs: "fs = pruneExpired l t1 fs0" using refused by (auto simp: fs0_def consumeAttempt_def Let_def split: if_splits)
  have inv: "limiter_inv l t2 fs" unfolding fs using limiter_inv_later[OF prune_inv[OF t(1)]] t(2,3) by simp
  have wf: "map_wf fs" using inv by (simp add: limiter_inv_def)
  let ?r = "recent_attempts l t2 (attempts_of fs k)"
  have later: "recent_attempts l t4 (attempts_of (pruneExpired l t3 fs) k) = recent_attempts l t4 (attempts_of fs k)"
    using valid_after_mono[OF wait(2), of l] by (auto simp: attempts_prune[OF wf] recent_attempts_def intro!: filter_cong)
  show ?thesis
  proof (cases "lim_maximumAttempts l \<le> length ?r")
    case True
    then obtain x xs where x: "?r = x # xs" using some(1) by (cases ?r) auto
    have s: "s = retry_seconds l t2 ?r" using refused True by (simp add: consumeAttempt_def Let_def fs fs0_def rateLimited_def)
    have full: "?r = attempts_of fs k"
      using True inv recent_le(1)[of l t2 "attempts_of fs k"] unfolding limiter_inv_def recent_attempts_def
      by (metis (no_types, lifting) filter_id_conv le_antisym length_filter_less linorder_not_le order_trans)
    have gone: "\<not> valid_after l t4 < x"
      using retry_seconds_enough[of x l t2 xs] s x wait by (simp add: valid_after_def)
    have "length (recent_attempts l t4 (x # xs)) \<le> length xs" using gone by (simp add: recent_attempts_def)
    moreover have "length (x # xs) \<le> lim_maximumAttempts l" using inv full x by (metis limiter_inv_def)
    ultimately have few: "length (recent_attempts l t4 (attempts_of fs k)) < lim_maximumAttempts l" using full x by simp
    have "map_has fs k" using full x by (auto simp: attempts_of_def map_has_def split: option.splits)
    then have room: "map_has (pruneExpired l t3 fs) k \<or> length (pruneExpired l t3 fs) < lim_maximumTrackedKeys l"
      using prune_loses_key[OF wf] inv by (fastforce simp: limiter_inv_def)
    show ?thesis using few room later by (auto simp: consumeAttempt_def Let_def)
  next
    case False
    then have s: "s = lim_windowSeconds l"
      using refused by (auto simp: consumeAttempt_def Let_def fs fs0_def rateLimited_def split: if_splits)
    have old: "recent_attempts l t3 ts = []" if "(k', ts) \<in> set fs" for k' ts
    proof -
      have "attempts_of fs k' = ts" using that wf by (simp add: attempts_of_def map_wf_def)
      then have "\<forall>x\<in>set ts. x \<le> t2" using inv by (auto simp: limiter_inv_def)
      then show ?thesis using wait(1) s by (fastforce simp: recent_attempts_def filter_empty_conv valid_after_def)
    qed
    then have "pruneExpired l t3 fs = []" by (force simp: pruneExpired_def filter_empty_conv)
    then show ?thesis using some by (simp add: consumeAttempt_def Let_def attempts_of_def recent_attempts_def)
  qed
qed

end
