(* ===== verification/LeadReportFacts.thy ===== *)
theory LeadReportFacts
  imports LeadReports LeadFacts
begin

text \<open>
  What the lead report promises: its breakdowns by owner, source and day add up to its totals, its rates
  are percentages, and an agent's report counts no other owner's leads.
\<close>

lemma attempt_result: "attempt m f = Inr y \<Longrightarrow> \<exists>x. m = Inr x \<and> f x = Inr y"
  by (cases m) (auto simp: attempt_def)

lemma traverse_map: "traverse f xs = Inr ys \<Longrightarrow> (\<And>x y. f x = Inr y \<Longrightarrow> g y = k x) \<Longrightarrow> map g ys = map k xs"
  by (induction xs arbitrary: ys) (auto split: sum.splits)

lemma traverse_length: "traverse f xs = Inr ys \<Longrightarrow> length ys = length xs"
  by (induction xs arbitrary: ys) (auto split: sum.splits)

lemma traverse_member: "traverse f xs = Inr ys \<Longrightarrow> y \<in> set ys \<Longrightarrow> \<exists>x \<in> set xs. f x = Inr y"
  by (induction xs arbitrary: ys) (auto split: sum.splits)

section \<open>Rates\<close>

lemma rate_range:
  assumes "v \<le> n" "n \<le> 900000000000"
  shows "0 \<le> rate v n \<and> rate v n \<le> 100"
proof (cases "n = 0")
  case False
  then have n: "(0 :: rat) < of_nat n" by simp
  have exact: "fl (of_int (int n * 10000)) = of_int (int n * 10000)" using assms(2) by (intro fl_int) simp_all
  have "(of_nat v * 10000 :: rat) \<le> of_int (int n * 10000)" using assms(1) by simp
  then have "fl (of_nat v * 10000) \<le> of_int (int n * 10000)" using fl_mono[of "of_nat v * 10000" "of_int (int n * 10000)"] exact by simp
  then have "fl (of_nat v * 10000) / of_nat n \<le> of_int 10000" using n by (simp add: field_simps)
  moreover have low: "0 \<le> fl (of_nat v * 10000) / of_nat n" using fl_nonneg[of "of_nat v * 10000"] by simp
  ultimately have "fl (fl (of_nat v * 10000) / of_nat n) \<le> fl (of_int 10000)" by (intro fl_mono)
  then have "fl (fl (of_nat v * 10000) / of_nat n) \<le> 10000" using fl_int[of 10000] by simp
  then show ?thesis using False hundredths_range[OF fl_nonneg[OF low]] by (simp add: rate_def)
qed (simp add: rate_def)

section \<open>Sums over buckets\<close>

lemma sum_list_update:
  "sum_list (map (\<lambda>(k, v). g v) (AList.update k v m)) + (case map_of m k of None \<Rightarrow> 0 | Some w \<Rightarrow> g w)
     = sum_list (map (\<lambda>(k, v). g v) m) + (g v :: nat)"
  by (induction m) auto

lemma sum_list_js_sort: "sum_list (map (g :: _ \<Rightarrow> nat) (js_sort c xs)) = sum_list (map g xs)"
  by (metis mset_js_sort mset_map sum_mset_sum_list)

definition bucket_sum :: "(trend_counts \<Rightarrow> nat) \<Rightarrow> (string, trend_counts) jsmap \<Rightarrow> nat" where
  "bucket_sum g m = sum_list (map (\<lambda>(k, b). g b) m)"

lemma count_lead_sums:
  "bucket_sum tc_created (count_lead dl m) = bucket_sum tc_created m + 1"
  "bucket_sum tc_won (count_lead dl m) = bucket_sum tc_won m + (if truthy (lead_convertedAt (snd dl)) then 1 else 0)"
proof -
  let ?b = "case map_get m (fst dl) of None \<Rightarrow> \<lparr>tc_created = 0, tc_won = 0\<rparr> | Some b \<Rightarrow> b"
  let ?v = "\<lparr>tc_created = tc_created ?b + 1, tc_won = (if truthy (lead_convertedAt (snd dl)) then tc_won ?b + 1 else tc_won ?b)\<rparr>"
  have c: "count_lead dl m = map_set (fst dl) ?v m" by (simp add: count_lead_def Let_def)
  show "bucket_sum tc_created (count_lead dl m) = bucket_sum tc_created m + 1"
    using sum_list_update[of tc_created "fst dl" ?v m] unfolding c bucket_sum_def by (auto split: option.splits)
  show "bucket_sum tc_won (count_lead dl m) = bucket_sum tc_won m + (if truthy (lead_convertedAt (snd dl)) then 1 else 0)"
    using sum_list_update[of tc_won "fst dl" ?v m] unfolding c bucket_sum_def by (auto split: option.splits)
qed

lemma fold_count_sums:
  "bucket_sum tc_created (fold count_lead dls m) = bucket_sum tc_created m + length dls"
  "bucket_sum tc_won (fold count_lead dls m) = bucket_sum tc_won m + won_of (map snd dls)"
  by (induction dls arbitrary: m) (simp_all add: count_lead_sums won_of_def)

lemma trend_sums:
  assumes "trend_of h z cohort = Inr trend"
  shows "sum_list (map tc_created trend) = length cohort" "sum_list (map tc_won trend) = won_of cohort"
proof -
  from attempt_result[OF assms[unfolded trend_of_def]] obtain days where days: "traverse (lead_day h z) cohort = Inr days"
    and trend: "trend = map (\<lambda>(day, b). trend_counts.extend b \<lparr>tr_bucketStart = zonedMidnightIso z day\<rparr>)
      (js_sort (cmp_on fst (localeCompare h)) (fold count_lead (zip days cohort) []))" by auto
  have z: "length (zip days cohort) = length cohort" "map snd (zip days cohort) = cohort" using traverse_length[OF days] by simp_all
  have ext: "tc_created (trend_counts.extend b e) = tc_created b" "tc_won (trend_counts.extend b e) = tc_won b" for b e
    by (simp_all add: trend_counts.defs)
  have "map g trend = map (\<lambda>(k, b). g' b) (js_sort (cmp_on fst (localeCompare h)) (fold count_lead (zip days cohort) []))"
    if "\<And>b e. g (trend_counts.extend b e) = g' b" for g :: "trend_row \<Rightarrow> nat" and g'
    unfolding trend map_map by (rule map_cong[OF refl]) (auto simp: that)
  from this[of tc_created, OF ext(1)] this[of tc_won, OF ext(2)]
  show "sum_list (map tc_created trend) = length cohort" "sum_list (map tc_won trend) = won_of cohort"
    using fold_count_sums[of "zip days cohort" "[]"] unfolding z by (simp_all add: sum_list_js_sort bucket_sum_def)
qed

section \<open>Rows\<close>

lemma owner_row_fields:
  assumes "owner_row_of h ts r cohort k = Inr row"
  shows "ow_employeeId row = k" "ow_assigned row = length (filter (\<lambda>l. lead_assignedEmployeeId l = k) cohort)"
    "ow_won row = won_of (filter (\<lambda>l. lead_assignedEmployeeId l = k) cohort)"
    "ow_conversionRate row = rate (ow_won row) (ow_assigned row)"
    "ow_contacted row = contacted_of (filter (\<lambda>l. lead_assignedEmployeeId l = k) cohort)"
  using assms by (auto simp: owner_row_of_def Let_def dest!: attempt_result)

lemma source_row_fields:
  assumes "source_row_of h r cohort k = Inr row"
  shows "so_source row = k" "so_leads row = length (filter (\<lambda>l. lead_source l = k) cohort)"
    "so_won row = won_of (filter (\<lambda>l. lead_source l = k) cohort)"
    "so_conversionRate row = rate (so_won row) (so_leads row)" "so_percentageOfTotal row = rate (so_leads row) (length cohort)"
  using assms by (auto simp: source_row_of_def Let_def dest!: attempt_result)

lemma owner_ids_cover:
  assumes "\<forall>l \<in> set cohort. lead_assignedEmployeeId l \<noteq> Some []"
  shows "distinct (owner_ids cohort)" "\<forall>l \<in> set cohort. lead_assignedEmployeeId l \<in> set (owner_ids cohort)"
proof -
  show "distinct (owner_ids cohort)" by (auto simp: owner_ids_def distinct_map)
  show "\<forall>l \<in> set cohort. lead_assignedEmployeeId l \<in> set (owner_ids cohort)"
  proof
    fix l assume l: "l \<in> set cohort"
    show "lead_assignedEmployeeId l \<in> set (owner_ids cohort)"
    proof (cases "lead_assignedEmployeeId l")
      case (Some e)
      then have "truthy (lead_assignedEmployeeId l)" using assms l by (auto simp: truthy_def)
      then show ?thesis using l Some by (force simp: owner_ids_def List.map_filter_def image_iff)
    qed (simp add: owner_ids_def)
  qed
qed

lemma getLeadReport_parts:
  assumes "getLeadReport h zones o' r = Inr rep"
  shows "traverse (owner_row_of h (rpo_at o') r (cohort_of o' r)) (owner_ids (cohort_of o' r)) = Inr (lr_owners rep)"
    "traverse (source_row_of h r (cohort_of o' r)) (js_set (map lead_source (cohort_of o' r))) = Inr (lr_sources rep)"
    "trend_of h (zones (rpo_timeZone o')) (cohort_of o' r) = Inr (lr_trend rep)"
    "rk_totalLeads (lr_kpis rep) = length (cohort_of o' r)" "rk_convertedLeads (lr_kpis rep) = won_of (cohort_of o' r)"
    "rk_conversionRate (lr_kpis rep) = rate (won_of (cohort_of o' r)) (length (cohort_of o' r))"
    "lr_pipeline rep = pipeline_of (rpo_organizationId o') (cohort_of o' r) r"
  using assms unfolding getLeadReport_def Let_def by (auto dest!: attempt_result)

lemma owner_sums:
  assumes "getLeadReport h zones o' r = Inr rep" "\<forall>l \<in> set (cohort_of o' r). lead_assignedEmployeeId l \<noteq> Some []"
  shows "sum_list (map ow_assigned (lr_owners rep)) = length (cohort_of o' r)" "sum_list (map ow_won (lr_owners rep)) = won_of (cohort_of o' r)"
proof -
  let ?c = "cohort_of o' r"
  have "map ow_assigned (lr_owners rep) = map (\<lambda>k. length (filter (\<lambda>l. lead_assignedEmployeeId l = k) ?c)) (owner_ids ?c)"
    "map ow_won (lr_owners rep) = map (\<lambda>k. won_of (filter (\<lambda>l. lead_assignedEmployeeId l = k) ?c)) (owner_ids ?c)"
    by (rule traverse_map[OF getLeadReport_parts(1)[OF assms(1)]], erule owner_row_fields)+
  then show "sum_list (map ow_assigned (lr_owners rep)) = length ?c" "sum_list (map ow_won (lr_owners rep)) = won_of ?c"
    using sum_list_by_class[OF owner_ids_cover[OF assms(2)], of "\<lambda>_. True"]
      sum_list_by_class[OF owner_ids_cover[OF assms(2)], of "\<lambda>l. truthy (lead_convertedAt l)"]
    by (simp_all add: won_of_def conj_commute)
qed

lemma source_sums:
  assumes "getLeadReport h zones o' r = Inr rep"
  shows "sum_list (map so_leads (lr_sources rep)) = length (cohort_of o' r)" "sum_list (map so_won (lr_sources rep)) = won_of (cohort_of o' r)"
proof -
  let ?c = "cohort_of o' r"
  let ?ks = "js_set (map lead_source ?c)"
  have "map so_leads (lr_sources rep) = map (\<lambda>k. length (filter (\<lambda>l. lead_source l = k) ?c)) ?ks"
    "map so_won (lr_sources rep) = map (\<lambda>k. won_of (filter (\<lambda>l. lead_source l = k) ?c)) ?ks"
    by (rule traverse_map[OF getLeadReport_parts(2)[OF assms]], erule source_row_fields)+
  then show "sum_list (map so_leads (lr_sources rep)) = length ?c" "sum_list (map so_won (lr_sources rep)) = won_of ?c"
    using sum_list_by_class[of ?ks ?c lead_source "\<lambda>_. True"] sum_list_by_class[of ?ks ?c lead_source "\<lambda>l. truthy (lead_convertedAt l)"]
    by (simp_all add: won_of_def conj_commute)
qed

section \<open>The properties\<close>

text \<open>C26: A lead report reconciles. The leads counted by owner, by source and by day of creation each add up
  to the report's total, and the conversions counted the same three ways to its converted leads.\<close>

theorem lead_report_reconciles:
  assumes "getLeadReport h zones o' r = Inr rep" "\<forall>l \<in> set (cohort_of o' r). lead_assignedEmployeeId l \<noteq> Some []"
  shows "sum_list (map ow_assigned (lr_owners rep)) = rk_totalLeads (lr_kpis rep)
    \<and> sum_list (map so_leads (lr_sources rep)) = rk_totalLeads (lr_kpis rep)
    \<and> sum_list (map tc_created (lr_trend rep)) = rk_totalLeads (lr_kpis rep)
    \<and> sum_list (map ow_won (lr_owners rep)) = rk_convertedLeads (lr_kpis rep)
    \<and> sum_list (map so_won (lr_sources rep)) = rk_convertedLeads (lr_kpis rep)
    \<and> sum_list (map tc_won (lr_trend rep)) = rk_convertedLeads (lr_kpis rep)"
  using owner_sums[OF assms] source_sums[OF assms(1)] trend_sums[OF getLeadReport_parts(3)[OF assms(1)]] getLeadReport_parts(4,5)[OF assms(1)]
  by simp

text \<open>Every rate of a lead report is a percentage: between 0 and 100 (for up to 9e11 leads, where the
  double arithmetic of the rates stays exact enough).\<close>

theorem lead_report_rates:
  assumes "getLeadReport h zones o' r = Inr rep" "length (leads r) \<le> 900000000000"
  shows "(\<forall>x \<in> {rk_conversionRate (lr_kpis rep)} \<union> set (map ow_conversionRate (lr_owners rep))
      \<union> set (map so_conversionRate (lr_sources rep)) \<union> set (map so_percentageOfTotal (lr_sources rep))
      \<union> set (map pl_percentageOfTotal (lr_pipeline rep)). 0 \<le> x \<and> x \<le> 100)"
proof -
  let ?c = "cohort_of o' r"
  note p = getLeadReport_parts[OF assms(1)]
  have n: "length ?c \<le> 900000000000" using assms(2) length_filter_le[of "in_cohort o' r" "map_values (leads r)"]
    by (simp add: cohort_of_def)
  then have part: "length (filter P ?c) \<le> 900000000000" for P by (rule order_trans[OF length_filter_le])
  have won: "won_of ls \<le> length ls" for ls by (simp add: won_of_def)
  have "0 \<le> x \<and> x \<le> 100" if "x \<in> set (map ow_conversionRate (lr_owners rep))" for x
    using that by (auto dest!: traverse_member[OF p(1)] simp: owner_row_fields rate_range[OF won part])
  moreover have "0 \<le> x \<and> x \<le> 100" if "x \<in> set (map so_conversionRate (lr_sources rep)) \<union> set (map so_percentageOfTotal (lr_sources rep))" for x
    using that by (auto dest!: traverse_member[OF p(2)] simp: source_row_fields rate_range[OF won part] rate_range[OF length_filter_le n])
  moreover have "0 \<le> x \<and> x \<le> 100" if "x \<in> set (map pl_percentageOfTotal (lr_pipeline rep))" for x
    using that by (auto simp: p(7) pipeline_of_def pipeline_row_of_def Let_def rate_range[OF length_filter_le n])
  ultimately show ?thesis using rate_range[OF won n] by (auto simp: p(6))
qed

text \<open>The report of an actor who may see only their own leads counts leads of no other owner, and none
  without one.\<close>

theorem lead_report_scoped:
  assumes "getLeadReport h zones o' r = Inr rep" "rpo_scope o' = ScopeAssigned e"
    "row \<in> set (lr_owners rep)" "0 < ow_assigned row"
  shows "ow_employeeId row = Some e"
proof -
  obtain k where k: "owner_row_of h (rpo_at o') r (cohort_of o' r) k = Inr row"
    using traverse_member[OF getLeadReport_parts(1)[OF assms(1)] assms(3)] by blast
  then obtain l where "l \<in> set (cohort_of o' r)" "lead_assignedEmployeeId l = k"
    using assms(4) by (fastforce simp: owner_row_fields filter_empty_conv)
  then show ?thesis using owner_row_fields(1)[OF k] assms(2)
    by (auto simp: cohort_of_def in_cohort_def Let_def canAccessLead_def)
qed

end
