(* ===== verification/ExportFacts.thy ===== *)
theory ExportFacts
  imports Exports FormatFacts
begin

text \<open>
  What the report downloads promise: a token opens a finished report exactly when it is the last one
  issued, in time and not yet used, and a report is downloaded at most once, whatever the repository
  does before and after.
\<close>

section \<open>Comparing hashes\<close>

lemma xor_zero: "xor x y = 0 \<longleftrightarrow> x = y" for x y :: "8 word"
  by (metis xor.assoc xor.left_neutral xor_self_eq xor.right_neutral)

lemma fold_difference: "fold (\<lambda>(x, y) d. or d (xor x y)) ps (d :: 8 word) = 0 \<longleftrightarrow> d = 0 \<and> (\<forall>(x, y) \<in> set ps. x = y)"
  by (induction ps arbitrary: d) (auto simp: or_eq_0_iff xor_zero)

lemma hash_difference_zero: "length xs = length ys \<Longrightarrow> hash_difference xs ys = 0 \<longleftrightarrow> xs = ys"
  unfolding hash_difference_def fold_difference
  by (induction xs ys rule: list_induct2) auto

section \<open>The life of an export\<close>

text \<open>
  The repository from the point of view of its exports: the four operations on them, and anything else,
  which leaves their maps alone and only advances the identifier counter.
\<close>

inductive export_step :: "report_state \<Rightarrow> report_state \<Rightarrow> bool" where
  created: "export_step r (snd (createReportExportJob orgId userId kind fmt ts r))"
| completed: "export_step r (snd (completeReportExportJob co r))"
| issued: "export_step r (snd (issueReportDownloadToken to r))"
| redeemed: "export_step r (snd (redeemReportDownload rd r))"
| elsewhere: "reportExportJobs r' = reportExportJobs r \<Longrightarrow> reportExportOwners r' = reportExportOwners r
    \<Longrightarrow> reportArtifacts r' = reportArtifacts r \<Longrightarrow> ids r \<le> ids r' \<Longrightarrow> export_step r r'"

abbreviation export_run :: "report_state \<Rightarrow> report_state \<Rightarrow> bool" where
  "export_run \<equiv> export_step\<^sup>*\<^sup>*"

lemma automation_elsewhere:
  "export_step r (snd (createSavedReportView vo r))" "export_step r (snd (createReportSchedule so r))"
  "export_step r (snd (updateReportSchedule orgId i st r))" "export_step r (snd (updateNotificationPreferences orgId u ps r))"
  "export_step r (snd (markNotificationRead orgId u i ts r))"
  by (rule elsewhere; auto simp: createSavedReportView_def createReportSchedule_def updateReportSchedule_def
      updateNotificationPreferences_def markNotificationRead_def next_id_eq Let_def split: option.splits)+

text \<open>An artifact belongs to a ready job, and no job has an identifier still to be issued.\<close>

definition export_inv :: "report_state \<Rightarrow> bool" where
  "export_inv r \<longleftrightarrow> (\<forall>k a. map_of (reportArtifacts r) k = Some a \<longrightarrow> (\<exists>j. map_of (reportExportJobs r) k = Some j \<and> ej_status j = ExReady))
     \<and> (\<forall>i > ids r. \<forall>org. map_of (reportExportJobs r) (key2 org (sequential_id ''report_export'' i)) = None)"

lemma no_colon: "CHR '':'' \<notin> set (sequential_id ''report_export'' i)"
proof -
  have "CHR '':'' \<notin> set (decimal i)" using decimal_digits[of i] by (auto simp: list_all_iff is_digit_def)
  then show ?thesis by (auto simp: sequential_id_def pad_start_def)
qed

lemma export_key_inj:
  "key2 a (sequential_id ''report_export'' i) = key2 b (sequential_id ''report_export'' j) \<Longrightarrow> i = j"
proof -
  let ?s = "sequential_id ''report_export''"
  assume "key2 a (?s i) = key2 b (?s j)"
  then have "rev (key2 a (?s i)) = rev (key2 b (?s j))" by simp
  then have "rev (?s i) @ CHR '':'' # rev a = rev (?s j) @ CHR '':'' # rev b" by (simp add: key2_def)
  then have "rev (?s i) = rev (?s j)" using append_sep_inj[of "CHR '':''" "rev (?s i)" "rev (?s j)"] no_colon by simp
  then show "i = j" by (simp add: sequential_id_inj)
qed

lemma export_inv_empty: "reportExportJobs r = [] \<Longrightarrow> reportArtifacts r = [] \<Longrightarrow> export_inv r"
  by (simp add: export_inv_def)

text \<open>Writing the artifact of a present job, which is ready then, keeps all this, and the redeemed artifacts of
  other keys; an artifact already redeemed at the key is the caller's business.\<close>

lemma export_write:
  assumes "export_inv r" "map_of (reportExportJobs r) k = Some j"
    "reportExportJobs r' = map_set k j' (reportExportJobs r)" "reportArtifacts r' = map_set k a (reportArtifacts r)"
    "ids r' = ids r" "ej_status j' = ExReady"
  shows "export_inv r'"
proof -
  have "key2 org (sequential_id ''report_export'' i) \<noteq> k" if "ids r < i" for org i
    using assms(1,2) that by (auto simp: export_inv_def)
  then show "export_inv r'" using assms by (auto simp: export_inv_def store_simps)
qed

lemma completed_effect:
  assumes "export_inv r" "map_of (reportArtifacts r) k = Some a" "truthy (ra_redeemedAt a)"
  shows "map_of (reportArtifacts (snd (completeReportExportJob co r))) k = Some a"
  using assms by (auto simp: completeReportExportJob_def Let_def export_inv_def store_simps split: option.splits)

lemma completed_inv:
  assumes "export_inv r" shows "export_inv (snd (completeReportExportJob co r))"
proof (cases "fst (completeReportExportJob co r)")
  case True
  then obtain j where j: "map_of (reportExportJobs r) (key2 (co_organizationId co) (co_jobId co)) = Some j"
    by (auto simp: completeReportExportJob_def Let_def split: option.splits)
  show ?thesis using True
    by (intro export_write[OF assms j, where j' = "j\<lparr>ej_status := ExReady, ej_completedAt := Some (co_at co), ej_expiresAt := Some (co_expiresAt co)\<rparr>"])
      (auto simp: completeReportExportJob_def Let_def j split: if_splits)
qed (use assms in \<open>auto simp: completeReportExportJob_def Let_def split: option.splits if_splits\<close>)

lemma issued_inv:
  assumes "export_inv r" shows "export_inv (snd (issueReportDownloadToken to r))"
proof (cases "fst (issueReportDownloadToken to r)")
  case True
  then obtain j b where j: "map_of (reportExportJobs r) (key2 (to_organizationId to) (to_jobId to)) = Some j"
    and b: "map_of (reportArtifacts r) (key2 (to_organizationId to) (to_jobId to)) = Some b"
    by (auto simp: issueReportDownloadToken_def Let_def split: option.splits)
  show ?thesis using True
    by (intro export_write[OF assms j, where j' = "j\<lparr>ej_expiresAt := Some (to_expiresAt to)\<rparr>"
        and a = "b\<lparr>ra_tokenHash := to_tokenHash to, ra_expiresAt := to_expiresAt to\<rparr>"])
      (auto simp: issueReportDownloadToken_def Let_def j b split: option.splits if_splits)
qed (use assms in \<open>auto simp: issueReportDownloadToken_def Let_def split: option.splits if_splits\<close>)

lemma issued_effect:
  "map_of (reportArtifacts r) k = Some a \<Longrightarrow> truthy (ra_redeemedAt a) \<Longrightarrow>
   map_of (reportArtifacts (snd (issueReportDownloadToken to r))) k = Some a"
  by (auto simp: issueReportDownloadToken_def Let_def store_simps split: option.splits)

lemma redeemed_inv: "export_inv r \<Longrightarrow> export_inv (snd (redeemReportDownload rd r))"
  by (auto simp: redeemReportDownload_def Let_def export_inv_def store_simps split: option.splits)

lemma redeemed_effect:
  "map_of (reportArtifacts r) k = Some a \<Longrightarrow> truthy (ra_redeemedAt a) \<Longrightarrow>
   map_of (reportArtifacts (snd (redeemReportDownload rd r))) k = Some a"
  by (auto simp: redeemReportDownload_def Let_def store_simps split: option.splits)

lemma created_inv: "export_inv r \<Longrightarrow> export_inv (snd (createReportExportJob orgId userId kind fmt ts r))"
  by (auto simp: createReportExportJob_def next_id_eq Let_def export_inv_def store_simps dest: export_key_inj)

lemma export_step_inv: "export_step r r' \<Longrightarrow> export_inv r \<Longrightarrow> export_inv r'"
  by (induction rule: export_step.induct) (simp_all add: created_inv completed_inv issued_inv redeemed_inv, simp add: export_inv_def)

lemma export_step_keeps:
  "export_step r r' \<Longrightarrow> export_inv r \<Longrightarrow> map_of (reportArtifacts r) k = Some a \<Longrightarrow> truthy (ra_redeemedAt a)
   \<Longrightarrow> map_of (reportArtifacts r') k = Some a"
  by (induction rule: export_step.induct)
    (simp_all add: completed_effect issued_effect redeemed_effect createReportExportJob_def next_id_eq Let_def)

lemma export_run_inv: "export_run r r' \<Longrightarrow> export_inv r \<Longrightarrow> export_inv r'"
  by (induction rule: rtranclp_induct) (auto intro: export_step_inv)

lemma redeemed_forever:
  "export_run r r' \<Longrightarrow> export_inv r \<Longrightarrow> map_of (reportArtifacts r) k = Some a \<Longrightarrow> truthy (ra_redeemedAt a)
   \<Longrightarrow> map_of (reportArtifacts r') k = Some a"
  by (induction rule: rtranclp_induct) (auto intro: export_step_keeps export_run_inv)

section \<open>The properties\<close>

lemma redeem_grants:
  "fst (redeemReportDownload o' r) \<noteq> None \<longleftrightarrow> (\<exists>a. map_of (reportArtifacts r) (key2 (rd_organizationId o') (rd_jobId o')) = Some a
     \<and> \<not> truthy (ra_redeemedAt a) \<and> rd_at o' < ra_expiresAt a \<and> ra_tokenHash a = rd_tokenHash o')"
proof -
  have "hash_difference (ra_tokenHash a) (rd_tokenHash o') = 0 \<longleftrightarrow> ra_tokenHash a = rd_tokenHash o'"
    if "length (ra_tokenHash a) = length (rd_tokenHash o')" for a using hash_difference_zero[OF that] .
  then show ?thesis by (auto simp: redeemReportDownload_def Let_def not_le split: option.splits)
qed

lemma issued_artifact:
  assumes "issueReportDownloadToken t r = (True, r')"
  obtains a where "map_of (reportArtifacts r') (key2 (to_organizationId t) (to_jobId t)) = Some a"
    "ra_tokenHash a = to_tokenHash t" "ra_expiresAt a = to_expiresAt t" "\<not> truthy (ra_redeemedAt a)"
proof -
  have "\<exists>a. map_of (reportArtifacts r') (key2 (to_organizationId t) (to_jobId t)) = Some a
      \<and> ra_tokenHash a = to_tokenHash t \<and> ra_expiresAt a = to_expiresAt t \<and> \<not> truthy (ra_redeemedAt a)"
    using assms by (auto simp: issueReportDownloadToken_def Let_def store_simps split: option.splits if_splits)
  then show thesis by (elim exE conjE) (rule that)
qed

text \<open>C19: A finished report is downloaded at most once. From an empty export store, through any operations,
  after a download has been granted and whatever else happens later, no token opens that report again
  and no new token is issued for it.\<close>

theorem download_granted_once:
  assumes "reportExportJobs r0 = []" "reportArtifacts r0 = []" "export_run r0 r"
    "redeemReportDownload o' r = (Some grant, r1)" "rd_at o' \<noteq> []" "export_run r1 r2"
  shows "(rd_organizationId o'' = rd_organizationId o' \<longrightarrow> rd_jobId o'' = rd_jobId o' \<longrightarrow> redeemReportDownload o'' r2 = (None, r2))
    \<and> (to_organizationId t = rd_organizationId o' \<longrightarrow> to_jobId t = rd_jobId o' \<longrightarrow> issueReportDownloadToken t r2 = (False, r2))"
proof -
  let ?k = "key2 (rd_organizationId o') (rd_jobId o')"
  have inv: "export_inv r" by (rule export_run_inv[OF assms(3) export_inv_empty[OF assms(1,2)]])
  have inv1: "export_inv r1" using export_step_inv[OF redeemed[of r o'] inv] assms(4) by simp
  obtain a where "map_of (reportArtifacts r1) ?k = Some a" "truthy (ra_redeemedAt a)"
    using assms(4,5) by (auto simp: redeemReportDownload_def Let_def store_simps split: option.splits if_splits)
  with redeemed_forever[OF assms(6) inv1] have "map_of (reportArtifacts r2) ?k = Some a" "truthy (ra_redeemedAt a)" by auto
  then show ?thesis by (auto simp: redeemReportDownload_def issueReportDownloadToken_def Let_def split: option.splits)
qed

text \<open>After its owner was issued a token for a ready report, exactly that token opens it, before the new
  expiry: any other token, an earlier one too, is refused, and so is the right one too late. (The
  account that presents the token is not looked at.)\<close>

theorem download_needs_current_token:
  assumes "issueReportDownloadToken t r = (True, r')" "rd_organizationId o' = to_organizationId t" "rd_jobId o' = to_jobId t"
  shows "fst (redeemReportDownload o' r') \<noteq> None \<longleftrightarrow> rd_tokenHash o' = to_tokenHash t \<and> rd_at o' < to_expiresAt t"
proof -
  obtain a where "map_of (reportArtifacts r') (key2 (to_organizationId t) (to_jobId t)) = Some a"
    "ra_tokenHash a = to_tokenHash t" "ra_expiresAt a = to_expiresAt t" "\<not> truthy (ra_redeemedAt a)" by (rule issued_artifact[OF assms(1)])
  then show ?thesis unfolding redeem_grants assms(2,3) by auto
qed

end
