(* ===== verification/AnalyticsFacts.thy ===== *)
theory AnalyticsFacts
  imports Analytics
begin

text \<open>
  What the dashboard promises: its breakdowns add up to its totals, its rates are percentages, its
  employees' calls are disjoint parts of the whole, and its periods run from midnight to midnight.
\<close>

section \<open>Counting\<close>

lemma directions: "length (filter (\<lambda>c. call_direction c = Incoming) cs) + length (filter (\<lambda>c. call_direction c = Outgoing) cs) = length cs"
proof (induction cs)
  case (Cons c cs)
  then show ?case by (cases "call_direction c") auto
qed simp

lemma length_filter_le_filter: "(\<And>x. P x \<Longrightarrow> Q x) \<Longrightarrow> length (filter P xs) \<le> length (filter Q xs)"
  by (induction xs) auto

lemma outcome_counts:
  "(case map_get (fold count_outcome cs m) d of None \<Rightarrow> 0 | Some n \<Rightarrow> n)
     = (case map_get m d of None \<Rightarrow> 0 | Some n \<Rightarrow> n) + length (with_disposition d cs)"
  by (induction cs arbitrary: m) (simp_all add: count_outcome_def store_simps)

lemma outcomes_values: "map oc_value (outcomes_of cs) = map (\<lambda>(d, l, k). length (with_disposition d cs)) outcome_style"
  by (simp add: outcomes_of_def Let_def outcome_counts split_beta)

lemma outcomes_sum: "sum_list (map oc_value (outcomes_of cs)) = length cs"
proof -
  have "map oc_value (outcomes_of cs) = map (\<lambda>d. length (filter (\<lambda>c. call_disposition c = d \<and> True) cs)) (map fst outcome_style)"
    by (simp add: outcomes_values split_beta)
  also have "sum_list \<dots> = length (filter (\<lambda>_. True) cs)"
  proof (rule sum_list_by_class)
    show "distinct (map fst outcome_style)" by (simp add: outcome_style_def)
    have "d \<in> set (map fst outcome_style)" for d by (cases d) (simp_all add: outcome_style_def)
    then show "\<forall>c \<in> set cs. call_disposition c \<in> set (map fst outcome_style)" by blast
  qed
  finally show ?thesis by simp
qed

lemma local_hour_bound: "local_hour z x < 24"
proof -
  have "(x + z x) mod day_ms \<le> 86399999" "0 \<le> (x + z x) mod day_ms" by simp_all
  then have "(x + z x) mod day_ms div 1000 \<le> 86399" "0 \<le> (x + z x) mod day_ms div 1000"
    using zdiv_mono1[of "(x + z x) mod day_ms" 86399999 1000] by simp_all
  then have "(x + z x) mod day_ms div 1000 div 3600 \<le> 23" "0 \<le> (x + z x) mod day_ms div 1000 div 3600"
    using zdiv_mono1[of "(x + z x) mod day_ms div 1000" 86399 3600] zdiv_mono1[of 0 "(x + z x) mod day_ms div 1000" 3600] by simp_all
  then show ?thesis unfolding local_hour_def parts_fields by linarith
qed

lemma sum_list_bump:
  assumes "k < length bs"
  shows "sum_list (map f (bs[k := b])) + f (bs ! k) = sum_list (map f bs) + (f b :: nat)"
  using assms by (induction bs arbitrary: k) (auto simp: nth_Cons split: nat.splits)

lemma hour_counts_sums:
  "hour_counts h z cs bs = Inr hs \<Longrightarrow> length bs = 24 \<Longrightarrow>
     sum_list (map hb_incoming hs) = sum_list (map hb_incoming bs) + length (filter (\<lambda>c. call_direction c = Incoming) cs)
   \<and> sum_list (map hb_outgoing hs) = sum_list (map hb_outgoing bs) + length (filter (\<lambda>c. call_direction c = Outgoing) cs)"
proof (induction cs arbitrary: bs)
  case (Cons c cs)
  obtain x where x: "h_parse h (call_startedAt c) = Some x" using Cons.prems(1) by (auto split: option.splits)
  let ?k = "local_hour z x"
  have k: "?k < length bs" using local_hour_bound[of z x] Cons.prems(2) by simp
  have "hour_counts h z cs (bs[?k := bump (call_direction c) (bs ! ?k)]) = Inr hs" using Cons.prems(1) x k by (simp add: Let_def)
  from Cons.IH[OF this] Cons.prems(2)
  show ?case
    using sum_list_bump[OF k, of hb_incoming "bump (call_direction c) (bs ! ?k)"]
      sum_list_bump[OF k, of hb_outgoing "bump (call_direction c) (bs ! ?k)"]
    by (cases "call_direction c") (simp_all add: bump_def)
qed simp

lemma empty_buckets_zero: "length empty_buckets = 24" "sum_list (map hb_incoming empty_buckets) = 0" "sum_list (map hb_outgoing empty_buckets) = 0"
  by (simp_all add: empty_buckets_def comp_def)

section \<open>Rates\<close>

lemma percentage_range: "n \<le> d \<Longrightarrow> 0 \<le> percentage n d \<and> percentage n d \<le> 100"
proof (cases "d = 0")
  case False
  assume "n \<le> d"
  then have q: "(0 :: rat) \<le> of_nat n / of_nat d" "(of_nat n / of_nat d :: rat) \<le> of_int 1" using False by (simp_all add: divide_le_eq_1)
  have "fl (of_nat n / of_nat d) \<le> fl (of_int 1)" using q by (intro fl_mono)
  then have "fl (of_nat n / of_nat d) * 10000 \<le> of_int 10000" using fl_int[of 1] by simp
  moreover have "0 \<le> fl (of_nat n / of_nat d) * 10000" using fl_nonneg[OF q(1)] by simp
  ultimately have "0 \<le> fl (fl (of_nat n / of_nat d) * 10000)" "fl (fl (of_nat n / of_nat d) * 10000) \<le> fl (of_int 10000)"
    by (auto intro: fl_mono fl_nonneg)
  then show ?thesis using hundredths_range fl_int[of 10000] False by (simp add: percentage_def)
qed (simp add: percentage_def)

lemma average_talk_bounds:
  assumes "\<forall>c \<in> set cs. 0 \<le> call_durationSeconds c \<and> call_durationSeconds c \<le> m" "m < 2 ^ 53" "0 \<le> m"
  shows "0 \<le> average_talk cs" "average_talk cs \<le> m"
proof -
  let ?c = "with_disposition Answered cs"
  have "0 * int (length ds) \<le> sum_list (map call_durationSeconds ds) \<and> sum_list (map call_durationSeconds ds) \<le> m * int (length ds)"
    if "set ds \<subseteq> set cs" for ds using that assms(1) by (induction ds) (auto simp: algebra_simps)
  from this[of ?c] show "0 \<le> average_talk cs" "average_talk cs \<le> m"
    using average_bounds[of "length ?c" 0 "talk_seconds cs" m] assms(2,3) by (auto simp: average_talk_def talk_seconds_def Let_def)
qed

section \<open>The properties\<close>

text \<open>The call key figures agree with each other: directions partition the calls, the outcomes add up to
  them, unanswered incoming calls are missed ones, no count exceeds its whole, and the answer rate is a
  percentage.\<close>

theorem call_kpis_consistent:
  "let k = callKpis cs in ck_incomingCalls k + ck_outgoingCalls k = ck_totalCalls k
    \<and> sum_list (map oc_value (outcomes_of cs)) = ck_totalCalls k
    \<and> ck_connectedCalls k = ck_answeredCalls k
    \<and> ck_answeredCalls k + ck_missedCalls k + ck_rejectedCalls k \<le> ck_totalCalls k
    \<and> ck_neverAttendedCalls k \<le> ck_missedCalls k \<and> ck_neverAttendedCalls k \<le> ck_incomingCalls k
    \<and> ck_clientNotPickupCalls k \<le> ck_outgoingCalls k \<and> ck_uniqueClients k \<le> ck_totalCalls k
    \<and> 0 \<le> ck_answerRate k \<and> ck_answerRate k \<le> 100"
proof -
  have "length (with_disposition Answered cs) + length (with_disposition Missed cs) + length (with_disposition Rejected cs) \<le> length cs"
    by (induction cs) auto
  moreover have "card (set (map f (filter P cs))) \<le> length cs" for f :: "call_log \<Rightarrow> string" and P
    by (rule order_trans[OF card_length]) simp
  ultimately show ?thesis
    using directions[of cs] outcomes_sum[of cs] percentage_range[OF length_filter_le]
    by (auto simp: callKpis_def Let_def length_js_set intro!: length_filter_le_filter)
qed


section \<open>Periods\<close>

text \<open>The local clock shows midnight of the date, in a zone that changes at most once around it.\<close>

definition has_midnight :: "zone \<Rightarrow> calendar_date \<Rightarrow> bool" where
  "has_midnight z c \<longleftrightarrow> (\<exists>T a b y. changes_once z (midnight_utc c) T a b \<and> \<bar>y - midnight_utc c\<bar> \<le> day_ms \<and> y + z y = midnight_utc c)"

lemma date_of_day_modern:
  assumes "day_from_year 101 \<le> n" shows "modern (date_of_day n)" "midnight_utc (date_of_day n) = n * day_ms"
proof -
  show m: "modern (date_of_day n)" using year_of_day_ge[OF assms] make_of_date(2)[of n] by (simp add: cd_year_date)
  show "midnight_utc (date_of_day n) = n * day_ms" unfolding midnight_utc_modern[OF m] make_of_date(1) ..
qed

lemma add_days_date: "day_from_year 101 \<le> n \<Longrightarrow> addCalendarDays (date_of_day n) k = date_of_day (n + k)"
proof -
  assume n: "day_from_year 101 \<le> n"
  note m = date_of_day_modern(1)[OF n]
  have "make_day (cd_year (addCalendarDays (date_of_day n) k)) (cd_month (addCalendarDays (date_of_day n) k)) (cd_day (addCalendarDays (date_of_day n) k)) = n + k"
    "valid_date (addCalendarDays (date_of_day n) k)"
    using addCalendarDays_exact[of "date_of_day n" k] m by (simp_all add: make_of_date(1))
  then show ?thesis using date_of_make by metis
qed

lemma zoned_midnight_exact:
  assumes "has_midnight z (date_of_day n)" "day_from_year 101 \<le> n"
  shows "zonedMidnight z (date_of_day n) + z (zonedMidnight z (date_of_day n)) = n * day_ms"
proof -
  note m = date_of_day_modern[OF assms(2)]
  from assms(1) obtain T a b y where "changes_once z (midnight_utc (date_of_day n)) T a b"
    "\<bar>y - midnight_utc (date_of_day n)\<bar> \<le> day_ms" "y + z y = midnight_utc (date_of_day n)" unfolding has_midnight_def by blast
  from midnight_reached(2)[OF this(1) m(1) this(2,3), of 2] midnight_reached(1)[OF this(1) m(1) this(2,3), of 3]
  show ?thesis unfolding searches(2)[OF m(1)] m(2) by simp
qed

text \<open>A preset's period runs from a local midnight to a local midnight: one day for today and yesterday,
  seven for the last seven days, by the local clock; yesterday ends where today begins, the last seven
  days end where today ends; and today's period holds the present instant unless the offset has changed
  in between.\<close>

theorem dashboard_periods_tile:
  assumes "day_from_year 120 \<le> (now + z now) div day_ms"
    "\<forall>k \<in> {-6, -1, 0, 1}. has_midnight z (addCalendarDays (local_date z now) k)"
  shows "(let (t0, t1) = preset_period z Today now; (y0, y1) = preset_period z Yesterday now; (w0, w1) = preset_period z Last7Days now in
      (t1 + z t1) - (t0 + z t0) = day_ms \<and> (y1 + z y1) - (y0 + z y0) = day_ms \<and> (w1 + z w1) - (w0 + z w0) = 7 * day_ms
      \<and> y1 = t0 \<and> w1 = t1 \<and> (z t0 = z now \<and> z t1 = z now \<longrightarrow> t0 \<le> now \<and> now < t1))"
proof -
  define n where "n = (now + z now) div day_ms"
  have "day_from_year 101 + 365 \<le> day_from_year 120"
    using day_from_year_less[of 101 120] days_in_year_pos(1)[of 101] by simp
  then have n: "day_from_year 101 + 6 \<le> n" using assms(1) by (simp add: n_def)
  then have m: "day_from_year 101 \<le> n + k" if "- 6 \<le> k" for k using that by simp
  have "day_from_year 100 \<le> n" using n day_from_year_mono[of 100 101] by simp
  then have today: "local_date z now = date_of_day n" using local_date_modern(1)[where x = now and z = z] unfolding n_def by blast
  have days: "addCalendarDays (date_of_day n) k = date_of_day (n + k)" for k using n by (intro add_days_date) simp
  have zero: "date_of_day n = date_of_day (n + 0)" by simp
  have at: "zonedMidnight z (date_of_day (n + k)) + z (zonedMidnight z (date_of_day (n + k))) = (n + k) * day_ms"
    if "k \<in> {-6, -1, 0, 1}" for k
    using assms(2) that m[of k] unfolding today days by (intro zoned_midnight_exact) auto
  have now: "n * day_ms \<le> now + z now" "now + z now < (n + 1) * day_ms"
    using div_mult_mod_eq[of "now + z now" day_ms] pos_mod_sign[of day_ms "now + z now"] pos_mod_bound[of day_ms "now + z now"]
    unfolding n_def[symmetric] by (simp_all add: algebra_simps)
  show ?thesis
    using at[of "- 6"] at[of "- 1"] at[of 0] at[of 1] now
    unfolding preset_period_def preset_dates_def today days by (simp add: algebra_simps)
qed

end
