(* ===== verification/ServiceScenario.thy ===== *)
theory ServiceScenario
  imports SecurityFacts LeadReportFacts ExportFacts AnalyticsFacts LeadScenario
begin

text \<open>
  Inputs for the services around the workspace (tokens and cursors, the limiter, civil time, reports,
  exports and the dashboard), and their properties applied to them.
\<close>

section \<open>Tokens, cursors and the limiter\<close>

text \<open>An encoding that writes the dot otherwise, and a parser that knows the values of \<open>vs\<close>.\<close>

definition w_encode :: "string \<Rightarrow> string" where
  "w_encode s = concat (map (\<lambda>c. if c = CHR ''.'' then ''~d'' else if c = CHR ''~'' then ''~t'' else [c]) s)"

fun w_decode :: "string \<Rightarrow> string" where
  "w_decode [] = []"
| "w_decode [c] = [c]"
| "w_decode (c # d # s) = (if c = CHR ''~'' then (if d = CHR ''d'' then CHR ''.'' else CHR ''~'') # w_decode s
     else c # w_decode (d # s))"

definition w_primitives :: "json list \<Rightarrow> primitives" where
  "w_primitives vs = \<lparr>pr_sign = (\<lambda>k m. ''s'' @ w_encode (k @ m)), pr_hmac = (\<lambda>k m. k @ m), pr_encode = w_encode, pr_decode = w_decode,
     pr_parse = map_of (map (\<lambda>v. (stringify (\<lambda>q. ''1'') v, v)) vs), pr_number = (\<lambda>q. ''1''), pr_upper = (\<lambda>s. s),
     pr_iso = (\<lambda>n. []), pr_sha256 = (\<lambda>s. s)\<rparr>"

lemma w_decode_encode: "w_decode (w_encode s) = s"
proof (induction s)
  case (Cons c s)
  have plain: "c \<noteq> CHR ''~'' \<Longrightarrow> w_decode (c # t) = c # w_decode t" for c t by (cases t) auto
  show ?case using Cons plain[of c "w_encode s"] by (auto simp: w_encode_def)
qed (simp add: w_encode_def)

lemma w_base64: "base64_ok (w_primitives vs)"
proof -
  have "CHR ''.'' \<notin> set (w_encode s)" "w_encode s = [] \<longleftrightarrow> s = []" for s
    by (induction s) (auto simp: w_encode_def)
  then show ?thesis by (simp add: base64_ok_def w_primitives_def w_decode_encode)
qed

definition w_envelope :: json where
  "w_envelope = cursor_envelope ''leads'' ''o'' (JString ''l'')"

definition w_service :: token_service where
  "w_service = \<lparr>ts_secret = ''k'', ts_ttlSeconds = 60\<rparr>"

definition w_payload :: json where
  "w_payload = token_payload ''u'' ''o'' (now_seconds 5000) (now_seconds 5000 + ts_ttlSeconds w_service)"

theorem cursor_opens_own_listing_only_witness:
  "decode_cursor (w_primitives [w_envelope]) ''k'' (encode_cursor (w_primitives [w_envelope]) ''k'' ''leads'' ''o'' (JString ''l'')) ''leads'' ''o''
     = Inr (JString ''l'')"
proof -
  have "json_inverse (w_primitives [w_envelope]) (cursor_envelope ''leads'' ''o'' (JString ''l''))"
    by (simp add: json_inverse_def w_primitives_def w_envelope_def)
  from cursor_opens_own_listing_only[OF w_base64 this] show ?thesis by simp
qed

theorem token_accepted_while_alive_witness:
  "(\<exists>c. verify_token (w_primitives [w_payload]) w_service 64999 (fst (issue_token (w_primitives [w_payload]) w_service 5000 ''u'' ''o'')) = Inr c)
   \<and> \<not> (\<exists>c. verify_token (w_primitives [w_payload]) w_service 65000 (fst (issue_token (w_primitives [w_payload]) w_service 5000 ''u'' ''o'')) = Inr c
      \<and> field c ''subject'' = Some (JString ''u'') \<and> field c ''organizationId'' = Some (JString ''o''))"
proof -
  have j: "json_inverse (w_primitives [w_payload]) (token_payload ''u'' ''o'' (now_seconds 5000) (now_seconds 5000 + ts_ttlSeconds w_service))"
    by (simp add: json_inverse_def w_primitives_def w_payload_def)
  have "js_trim ''u'' \<noteq> []" "js_trim ''o'' \<noteq> []" by (simp_all add: js_trim_def js_space_def)
  note t = token_accepted_while_alive[OF w_base64 j this]
  show ?thesis using t[of 64999] t[of 65000] by (auto simp: now_seconds_def w_service_def)
qed

theorem cursors_are_no_tokens_witness:
  "verify_token (w_primitives [w_envelope, w_payload]) w_service 5000
     (encode_cursor (w_primitives [w_envelope, w_payload]) ''k'' ''leads'' ''o'' (JString ''l''))
     = Inl (unauthenticated ''The bearer token payload is invalid'')"
proof -
  let ?p = "w_primitives [w_envelope, w_payload]"
  have "stringify (\<lambda>q. ''1'') w_envelope \<noteq> stringify (\<lambda>q. ''1'') w_payload"
    by (simp add: w_envelope_def w_payload_def cursor_envelope_def token_payload_def quote_def quote_char_def Let_def commas_def)
  then have "json_inverse ?p (cursor_envelope ''leads'' ''o'' (JString ''l''))"
    "json_inverse ?p (token_payload ''u'' ''o'' (now_seconds 5000) (now_seconds 5000 + ts_ttlSeconds w_service))"
    by (simp_all add: json_inverse_def w_primitives_def flip: w_envelope_def w_payload_def)
  from cursors_are_no_tokens[OF w_base64 this] show ?thesis by (simp add: w_service_def)
qed

definition w_limiter :: limiter where
  "w_limiter = \<lparr>lim_maximumAttempts = 2, lim_windowSeconds = 60, lim_maximumTrackedKeys = 5\<rparr>"

definition w_attempts :: "limiter_call list" where
  "w_attempts = [Attempt 1 1 ''k'', Attempt 2 2 ''k'', Attempt 3 3 ''k'']"

lemmas w_limiter_simps = w_limiter_def w_attempts_def limiter_step_def consumeAttempt_def pruneExpired_def recent_attempts_def
  attempts_of_def valid_after_def rateLimited_def retry_seconds_def

theorem attempts_bounded_in_every_window_witness:
  "in_window w_limiter 3 (admitted w_limiter ''k'' w_attempts []) \<le> 2 \<and> 0 < in_window w_limiter 3 (admitted w_limiter ''k'' w_attempts [])"
proof -
  have "clock_ok 0 w_attempts" "\<forall>c \<in> set w_attempts. c \<noteq> Success ''k''" by (simp_all add: w_attempts_def)
  from attempts_bounded_in_every_window[OF this, of w_limiter 3]
  show ?thesis by (simp add: w_limiter_def) (simp add: w_limiter_simps in_window_def Let_def)
qed

theorem retry_after_wait_admitted_witness:
  "\<exists>s fs. consumeAttempt w_limiter 3 3 ''k'' (run_limiter w_limiter [Attempt 1 1 ''k'', Attempt 2 2 ''k''] []) = (Inl (rateLimited s), fs)
     \<and> fst (consumeAttempt w_limiter (3 + 1000 * int s) (3 + 1000 * int s) ''k'' fs) = Inr ()"
proof -
  let ?cs = "[Attempt 1 1 ''k'', Attempt 2 2 ''k'']"
  obtain s fs where r: "consumeAttempt w_limiter 3 3 ''k'' (run_limiter w_limiter ?cs []) = (Inl (rateLimited s), fs)"
    by (simp add: consumeAttempt_def Let_def) (simp add: w_limiter_simps Let_def)
  have "clock_ok 0 (?cs @ [Attempt 3 3 ''k''])" by simp
  from retry_after_wait_admitted[OF this _ _ r] have "fst (consumeAttempt w_limiter (3 + 1000 * int s) (3 + 1000 * int s) ''k'' fs) = Inr ()"
    by (simp add: w_limiter_def)
  with r show ?thesis by blast
qed

section \<open>Civil time\<close>

definition w_zone :: zone where
  "w_zone = (\<lambda>_. 19800000)"

lemma fixed_zone_changes:
  assumes "\<bar>a\<bar> \<le> day_ms" "a mod 1000 = 0" shows "changes_once (\<lambda>_. a) D 0 a a"
  using assms by (simp add: changes_once_def)

definition w_date :: calendar_date where
  "w_date = \<lparr>cd_year = 2026, cd_month = 3, cd_day = 29\<rparr>"

lemma w_date_valid: "valid_date w_date" "100 < cd_year w_date"
  by (simp_all add: w_date_def valid_date_def month_days_def)

theorem midnight_search_converges_witness:
  "zonedDateParts w_zone (zonedMidnight w_zone w_date) = calendar_date.extend w_date \<lparr>wc_hour = 0, wc_minute = 0, wc_second = 0\<rparr>
   \<and> zonedMidnight w_zone w_date = midnight_utc w_date - 19800000"
proof -
  have c: "changes_once w_zone (midnight_utc w_date) 0 19800000 19800000" unfolding w_zone_def by (rule fixed_zone_changes) simp_all
  have y: "\<bar>(midnight_utc w_date - 19800000) - midnight_utc w_date\<bar> \<le> day_ms" "(midnight_utc w_date - 19800000) + w_zone (midnight_utc w_date - 19800000) = midnight_utc w_date"
    by (simp_all add: w_zone_def)
  from midnight_search_converges[OF c w_date_valid y, of 2]
  have "zonedMidnight w_zone w_date + w_zone (zonedMidnight w_zone w_date) = midnight_utc w_date"
    "zonedDateParts w_zone (zonedMidnight w_zone w_date) = calendar_date.extend w_date \<lparr>wc_hour = 0, wc_minute = 0, wc_second = 0\<rparr>" by simp_all
  then show ?thesis by (simp add: w_zone_def)
qed

text \<open>Beirut, 29 March 2026: at what would be midnight the clock goes from 0:00 (UTC+2) to 1:00 (UTC+3).\<close>

definition w_summer :: zone where
  "w_summer = (\<lambda>x. if x < midnight_utc w_date - 7200000 then 7200000 else 10800000)"

theorem skipped_midnight_off_by_gap_witness:
  "zonedMidnight w_summer w_date = zonedMidnightInstant w_summer (date_key w_date) - 3600000"
proof -
  have "changes_once w_summer (midnight_utc w_date) (midnight_utc w_date - 7200000) 7200000 10800000"
    by (simp add: changes_once_def w_summer_def)
  from skipped_midnight_off_by_gap[OF this w_date_valid] show ?thesis by simp
qed

lemma fixed_zone_midnight: "\<bar>a\<bar> \<le> day_ms \<Longrightarrow> a mod 1000 = 0 \<Longrightarrow> has_midnight (\<lambda>_. a) c"
  unfolding has_midnight_def
  by (intro exI[of _ 0] exI[of _ a] exI[of _ "midnight_utc c - a"] conjI fixed_zone_changes) simp_all

theorem dashboard_periods_tile_witness:
  "snd (preset_period w_zone Yesterday 1784000000000) = fst (preset_period w_zone Today 1784000000000)
   \<and> fst (preset_period w_zone Today 1784000000000) \<le> 1784000000000
   \<and> 1784000000000 < snd (preset_period w_zone Today 1784000000000)"
proof -
  have "day_from_year 120 \<le> (1784000000000 + w_zone 1784000000000) div day_ms" by (simp add: w_zone_def day_from_year_def)
  moreover have "\<forall>k \<in> {-6, -1, 0, 1}. has_midnight w_zone (addCalendarDays (local_date w_zone 1784000000000) k)"
    unfolding w_zone_def by (simp add: fixed_zone_midnight)
  ultimately show ?thesis using dashboard_periods_tile[of 1784000000000 w_zone]
    by (auto simp: Let_def split_beta w_zone_def)
qed

section \<open>Reports and exports\<close>

definition w_report :: report_options where
  "w_report = \<lparr>rpo_organizationId = ''o'', rpo_scope = ScopeAssigned ''e'',
     rpo_filter = \<lparr>rf_from = ''0'', rf_to = ''9'', rf_employeeId = None, rf_team = None, rf_source = None\<rparr>,
     rpo_timeZone = ''z'', rpo_at = ''2''\<rparr>"

lemma w_cohort: "cohort_of w_report w0 = [w_lead]"
  by (simp add: cohort_of_def in_cohort_def w_report_def w0_def w_rows map_values_def canAccessLead_def Let_def)

lemma w_report_made: "\<exists>rep. getLeadReport w_host (\<lambda>_. w_zone) w_report w0 = Inr rep"
proof -
  have "owner_ids [w_lead] = [None, Some ''e'']" by (simp add: owner_ids_def List.map_filter_def w_lead_def seeded_lead_def js_set_def)
  moreover have "\<exists>a. owner_row_of w_host ''2'' w0 [w_lead] None = Inr a" "\<exists>a. owner_row_of w_host ''2'' w0 [w_lead] (Some ''e'') = Inr a"
    by (simp_all add: owner_row_of_def w_lead_reads w0_def w_rows attempt_def Let_def)
  moreover have "\<exists>a. source_row_of w_host w0 [w_lead] SrcManual = Inr a"
    by (simp add: source_row_of_def w_lead_reads w0_def w_rows attempt_def Let_def)
  moreover have "js_set (map lead_source [w_lead]) = [SrcManual]" by (simp add: js_set_def w_lead_def seeded_lead_def)
  moreover have "\<exists>a. trend_of w_host w_zone [w_lead] = Inr a"
    by (simp add: trend_of_def lead_day_def w_rows attempt_def)
  moreover have "rpo_at w_report = ''2''" by (simp add: w_report_def)
  ultimately show ?thesis unfolding getLeadReport_def Let_def w_cohort by (auto simp: attempt_def)
qed

theorem lead_report_reconciles_witness:
  "\<exists>rep. getLeadReport w_host (\<lambda>_. w_zone) w_report w0 = Inr rep \<and> sum_list (map ow_assigned (lr_owners rep)) = 1
    \<and> sum_list (map tc_created (lr_trend rep)) = 1"
proof -
  obtain rep where rep: "getLeadReport w_host (\<lambda>_. w_zone) w_report w0 = Inr rep" using w_report_made by blast
  have "\<forall>l \<in> set (cohort_of w_report w0). lead_assignedEmployeeId l \<noteq> Some []" by (simp add: w_cohort w_lead_def seeded_lead_def)
  from lead_report_reconciles[OF rep this] getLeadReport_parts(4)[OF rep] rep show ?thesis by (auto simp: w_cohort)
qed

theorem lead_report_rates_witness:
  "\<exists>rep. getLeadReport w_host (\<lambda>_. w_zone) w_report w0 = Inr rep \<and> 0 \<le> rk_conversionRate (lr_kpis rep) \<and> rk_conversionRate (lr_kpis rep) \<le> 100"
proof -
  obtain rep where rep: "getLeadReport w_host (\<lambda>_. w_zone) w_report w0 = Inr rep" using w_report_made by blast
  have "length (leads w0) \<le> 900000000000" by (simp add: w0_def)
  from lead_report_rates[OF rep this] rep show ?thesis by blast
qed

theorem lead_report_scoped_witness:
  "\<exists>rep row. getLeadReport w_host (\<lambda>_. w_zone) w_report w0 = Inr rep \<and> row \<in> set (lr_owners rep) \<and> ow_employeeId row = Some ''e''"
proof -
  obtain rep where rep: "getLeadReport w_host (\<lambda>_. w_zone) w_report w0 = Inr rep" using w_report_made by blast
  have "\<forall>l \<in> set (cohort_of w_report w0). lead_assignedEmployeeId l \<noteq> Some []" by (simp add: w_cohort w_lead_def seeded_lead_def)
  from owner_sums(1)[OF rep this] have "sum_list (map ow_assigned (lr_owners rep)) = 1" by (simp add: w_cohort)
  then obtain row where "row \<in> set (lr_owners rep)" "0 < ow_assigned row"
    by (metis One_nat_def bot_nat_0.not_eq_extremum imageE list.set_map sum_list_eq_0_iff zero_neq_one)
  with lead_report_scoped[OF rep _ this, of "''e''"] rep show ?thesis by (auto simp: w_report_def)
qed

text \<open>The stores of the reports, empty at first; one export requested, then finished, and a token issued for it.\<close>

definition w_exports :: report_state where
  "w_exports = import_state.extend (rule_state.extend (call_state.extend w0 (rule_state.fields [] [] [] []))
     (import_state.fields [] [] [] [] [] [] [])) (report_state.fields [] [] [] [] [] [] [])"

definition w_job :: string where
  "w_job = sequential_id ''report_export'' 1"

definition w_finish :: complete_options where
  "w_finish = \<lparr>co_organizationId = ''o'', co_jobId = w_job, co_objectKey = ''f'', co_tokenHash = replicate 32 1,
     co_expiresAt = ''5'', co_at = ''2''\<rparr>"

definition w_issue :: token_options where
  "w_issue = \<lparr>to_organizationId = ''o'', to_userId = ''u'', to_jobId = w_job, to_tokenHash = replicate 32 2, to_expiresAt = ''6''\<rparr>"

definition w_download :: redeem_download_options where
  "w_download = \<lparr>rd_organizationId = ''o'', rd_userId = ''u'', rd_jobId = w_job, rd_tokenHash = replicate 32 2,
     rd_redemptionId = ''d'', rd_at = ''3''\<rparr>"

definition w_requested :: report_state where
  "w_requested = snd (createReportExportJob ''o'' ''u'' RkLeadStatus FmtCsv ''1'' w_exports)"

definition w_finished :: report_state where
  "w_finished = snd (completeReportExportJob w_finish w_requested)"

definition w_issued :: report_state where
  "w_issued = snd (issueReportDownloadToken w_issue w_finished)"

lemma w_exports_fields: "ids w_exports = 0" "reportExportJobs w_exports = []" "reportExportOwners w_exports = []" "reportArtifacts w_exports = []"
  by (simp_all add: w_exports_def import_state.defs rule_state.defs call_state.defs report_state.defs w0_def empty_repository_def)

lemma w_issue_ok: "issueReportDownloadToken w_issue w_finished = (True, w_issued)"
  by (simp add: w_issued_def w_finished_def w_requested_def issueReportDownloadToken_def completeReportExportJob_def
      createReportExportJob_def next_id_eq w_exports_fields Let_def w_issue_def w_finish_def w_job_def)

theorem download_needs_current_token_witness:
  "fst (redeemReportDownload w_download w_issued) \<noteq> None
   \<and> fst (redeemReportDownload (w_download\<lparr>rd_tokenHash := replicate 32 1\<rparr>) w_issued) = None"
proof -
  have "replicate 32 (1 :: 8 word) \<noteq> replicate 32 2" by (simp add: numeral_eq_Suc)
  then show ?thesis
    using download_needs_current_token[OF w_issue_ok, of w_download] download_needs_current_token[OF w_issue_ok, of "w_download\<lparr>rd_tokenHash := replicate 32 1\<rparr>"]
    by (simp add: w_download_def w_issue_def)
qed

theorem download_granted_once_witness:
  "\<exists>grant r1. redeemReportDownload w_download w_issued = (Some grant, r1) \<and> redeemReportDownload w_download r1 = (None, r1)"
proof -
  have "fst (redeemReportDownload w_download w_issued) \<noteq> None"
    unfolding redeem_grants by (rule issued_artifact[OF w_issue_ok]) (simp add: w_download_def w_issue_def)
  then obtain grant r1 where run: "redeemReportDownload w_download w_issued = (Some grant, r1)"
    by (cases "redeemReportDownload w_download w_issued") auto
  have "export_step w_exports w_requested" "export_step w_requested w_finished" "export_step w_finished w_issued"
    unfolding w_requested_def w_finished_def w_issued_def by (rule created completed issued)+
  then have steps: "export_run w_exports w_issued" by (meson r_into_rtranclp rtranclp.rtrancl_into_rtrancl)
  have "rd_at w_download \<noteq> []" by (simp add: w_download_def)
  from download_granted_once[OF w_exports_fields(2,4) steps run this rtranclp.rtrancl_refl] run show ?thesis by blast
qed

section \<open>The dashboard\<close>

definition w_answered :: call_log where
  "w_answered = \<lparr>createdAt = ''1'', updatedAt = ''1'', createdBy = None, updatedBy = None, call_id = ''c'', call_organizationId = ''o'',
     call_employeeId = ''e'', call_deviceId = None, call_simCardId = None, call_externalId = None, call_source = ManualCall,
     call_direction = Incoming, call_disposition = Answered,
     call_participant = \<lparr>part_phoneNumber = ''+1'', part_displayName = None, part_contactId = None, part_isInternal = False\<rparr>,
     call_startedAt = ''1970-01-01T05:00:00.000Z'', call_answeredAt = None, call_endedAt = None, call_durationSeconds = 7,
     call_ringDurationSeconds = None, call_isWithinWorkingHours = True, call_recordingStatus = RecNotExpected,
     call_recordingId = None, call_leadId = None, call_noteCount = 0, call_isPinned = False\<rparr>"

definition w_called :: call_state where
  "w_called = w0\<lparr>calls := [(''c'', w_answered)]\<rparr>"

definition w_query :: dashboard_query where
  "w_query = \<lparr>dq_preset = None, dq_from = None, dq_to = None, dq_employeeId = Some ''e''\<rparr>"

lemma w_days: "date_of_day 0 = \<lparr>cd_year = 1970, cd_month = 1, cd_day = 1\<rparr>" "date_of_day 1 = \<lparr>cd_year = 1970, cd_month = 1, cd_day = 2\<rparr>"
proof -
  have "make_day 1970 1 1 = 0" "make_day 1970 1 2 = 1"
    by (simp_all add: make_day_def day_from_year_def days_before_def month_starts_def Let_def)
  then show "date_of_day 0 = \<lparr>cd_year = 1970, cd_month = 1, cd_day = 1\<rparr>" "date_of_day 1 = \<lparr>cd_year = 1970, cd_month = 1, cd_day = 2\<rparr>"
    using date_of_make[of "\<lparr>cd_year = 1970, cd_month = 1, cd_day = 1\<rparr>"] date_of_make[of "\<lparr>cd_year = 1970, cd_month = 1, cd_day = 2\<rparr>"]
    by (simp_all add: valid_date_def month_days_def)
qed

lemma w_today: "preset_period (\<lambda>_. 0) Today 3600000 = (0, 86400000)"
proof -
  have low: "day_from_year 101 \<le> 0" "day_from_year 101 \<le> 1" by (simp_all add: day_from_year_def)
  have "has_midnight (\<lambda>_. 0) c" for c by (rule fixed_zone_midnight) simp_all
  from zoned_midnight_exact[OF this low(1)] zoned_midnight_exact[OF this low(2)]
  have "zonedMidnight (\<lambda>_. 0) (date_of_day 0) = 0" "zonedMidnight (\<lambda>_. 0) (date_of_day 1) = 86400000" by simp_all
  moreover have "local_date (\<lambda>_. 0) 3600000 = date_of_day 0"
    using local_date_modern(1)[of 3600000 "\<lambda>_. 0"] by (simp add: day_from_year_def)
  moreover have "addCalendarDays (date_of_day 0) 1 = date_of_day 1" using add_days_date[OF low(1), of 1] by simp
  ultimately show ?thesis by (simp add: preset_period_def preset_dates_def)
qed

lemma w_isos: "to_iso 0 = ''1970-01-01T00:00:00.000Z''" "to_iso 86400000 = ''1970-01-02T00:00:00.000Z''"
proof -
  have "number_text 4 1970 = ''1970''" "number_text 2 1 = ''01''" "number_text 2 2 = ''02''" "number_text 2 0 = ''00''" "number_text 3 0 = ''000''"
    by code_simp+
  then show "to_iso 0 = ''1970-01-01T00:00:00.000Z''" "to_iso 86400000 = ''1970-01-02T00:00:00.000Z''"
    by (simp_all add: to_iso_def w_days iso_year_def)
qed

lemma w_overview: "\<exists>ov. buildDashboardOverview w_host (\<lambda>_ _. 0) w_org w_query 3600000 w_called = Inr ov \<and> ck_totalCalls (ds_calls (ov_summary ov)) = 1"
proof -
  have "resolveDashboardPeriod w_host (\<lambda>_ _. 0) w_query w_org 3600000 = Inr \<lparr>dp_from = to_iso 0, dp_to = to_iso 86400000, dp_summaryPreset = Some PerToday\<rparr>"
    by (simp add: resolveDashboardPeriod_def w_query_def w_today)
  moreover have cs: "listCallsInPeriod ''o'' (to_iso 0) (to_iso 86400000) (Some ''e'') w_called = [w_answered]"
    by (simp add: listCallsInPeriod_def w_called_def map_values_def w_isos w_answered_def)
  moreover have "\<exists>hs. hourlyActivity w_host (\<lambda>_. 0) [w_answered] = Inr hs"
    by (simp add: hourlyActivity_def w_answered_def w_host_def Let_def)
  moreover have "org_id w_org = ''o''" "dq_employeeId w_query = Some ''e''" by (simp_all add: w_org_def seededOrganization_def w_query_def)
  ultimately show ?thesis by (auto simp: buildDashboardOverview_def Let_def callKpis_def)
qed


end
