(* ===== verification/ReadingFacts.thy ===== *)
theory ReadingFacts
  imports Reading
begin

text \<open>
  What a validator accepts can be read at the type it names: one lemma per validator, each an
  application of the rules for sequencing, optional fields, lists and names.
\<close>

named_theorems readable "values that have a reading"

lemma bind_readable:
  "\<exists>x. m = Some x \<Longrightarrow> (\<And>x. m = Some x \<Longrightarrow> \<exists>y. f x = Some y) \<Longrightarrow> \<exists>y. Option.bind m f = Some y"
  by auto

lemma some_readable: "\<exists>y. Some x = Some y"
  by simp

lemma as_record_JObject: "as_record (Some (JObject fs)) = Some fs"
  by (simp add: as_record_def)

lemmas read_object = as_record_JObject Option.bind.simps

lemma as_record_readable: "record_and p v \<Longrightarrow> \<exists>fs. as_record v = Some fs"
  by (auto simp: as_record_def elim: record_andE)

lemma string_readable [readable]: "string_and p v \<Longrightarrow> \<exists>s. as_string v = Some s"
  by (auto simp: as_string_def elim: string_andE)

lemma int_readable: "number_and (\<lambda>q. safe_integer q \<and> p q) v \<Longrightarrow> \<exists>i. as_int v = Some i"
  by (auto simp: as_int_def safe_integer_def elim: number_andE)

lemmas string_guards = isNonEmptyString_def short_string_def isBoundedString_def any_string_def isRequestId_def
  isExplicitIsoDateTime_def isCanonicalRfc3339DateTime_def isProposedDeviceCredential_def isDeviceRevocationReason_def

lemma guard_readable [readable]:
  "isNonEmptyString v \<Longrightarrow> \<exists>s. as_string v = Some s"
  "short_string n v \<Longrightarrow> \<exists>s. as_string v = Some s"
  "isBoundedString n v \<Longrightarrow> \<exists>s. as_string v = Some s"
  "any_string k v \<Longrightarrow> \<exists>s. as_string v = Some s"
  "isRequestId v \<Longrightarrow> \<exists>s. as_string v = Some s"
  "isExplicitIsoDateTime h v \<Longrightarrow> \<exists>s. as_string v = Some s"
  "isCanonicalRfc3339DateTime h v \<Longrightarrow> \<exists>s. as_string v = Some s"
  "isProposedDeviceCredential v ty \<Longrightarrow> \<exists>s. as_string v = Some s"
  by (auto simp only: string_guards intro: string_readable)

lemma number_readable [readable]:
  "isBoundedInteger a b v \<Longrightarrow> \<exists>i. as_int v = Some i"
  "positive_version v \<Longrightarrow> \<exists>i. as_int v = Some i"
  "rule_priority v \<Longrightarrow> \<exists>i. as_int v = Some i"
  by (auto simp only: isBoundedInteger_def positive_version_def rule_priority_def intro: int_readable)

lemma bool_readable [readable]: "is_bool v \<Longrightarrow> \<exists>b. as_bool v = Some b"
  by (rule read_bool)

lemma names_readable [readable]:
  "isCallDirection v \<Longrightarrow> \<exists>x. as_name direction_names v = Some x"
  "isCallDisposition v \<Longrightarrow> \<exists>x. as_name disposition_names v = Some x"
  "isMobileCollectionMode v \<Longrightarrow> \<exists>x. as_name mode_names v = Some x"
  "isFollowUpPriority v \<Longrightarrow> \<exists>x. as_name priority_names v = Some x"
  "isLeadAssignmentStrategy v \<Longrightarrow> \<exists>x. as_name strategy_names v = Some x"
  "one_of [''offline'', ''wifi'', ''cellular'', ''ethernet'', ''unknown''] v \<Longrightarrow> \<exists>x. as_name network_names v = Some x"
  "one_of [''never_synced'', ''idle'', ''syncing'', ''degraded'', ''failed''] v \<Longrightarrow> \<exists>x. as_name sync_names v = Some x"
  "one_of [''unknown'', ''granted'', ''denied'', ''restricted''] v \<Longrightarrow> \<exists>x. as_name permission_names v = Some x"
  by (rule read_name, simp add: direction_names_def disposition_names_def mode_names_def priority_names_def strategy_names_def
      network_names_def sync_names_def permission_names_def isCallDirection_def isCallDisposition_def isMobileCollectionMode_def
      isFollowUpPriority_def isLeadAssignmentStrategy_def)+

lemma optional_readable:
  "optionally p v \<Longrightarrow> (\<And>w. p w \<Longrightarrow> \<exists>x. f w = Some x) \<Longrightarrow> \<exists>x. as_optional f v = Some x"
  by (rule read_optional)

lemma nullable_readable:
  "nullable p v \<Longrightarrow> (\<And>w. p w \<Longrightarrow> \<exists>x. f w = Some x) \<Longrightarrow> \<exists>x. as_nullable f v = Some x"
  by (auto simp: nullable_def as_nullable_def)

lemma list_readable:
  "array_and q v \<Longrightarrow> (\<And>xs. q xs \<Longrightarrow> list_all (\<lambda>x. p (Some x)) xs) \<Longrightarrow> (\<And>w. p w \<Longrightarrow> \<exists>x. f w = Some x) \<Longrightarrow>
   \<exists>xs. as_list f v = Some xs"
  by (rule read_list[of p]) (auto simp: array_and_def split: option.splits json.splits)

lemma custom_fields_readable: "isLeadImportCustomFields num v \<Longrightarrow> \<exists>x. as_record v = Some x"
  by (simp only: isLeadImportCustomFields_def as_record_readable)

lemma owners_readable: "owner_list v \<Longrightarrow> \<exists>xs. as_list as_string v = Some xs"
  unfolding owner_list_def by (erule list_readable[where p = isNonEmptyString]) (auto intro: readable)

lemma permissions_readable [readable]: "isDevicePermissions v \<Longrightarrow> \<exists>ps. read_permissions v = Some ps"
  unfolding isDevicePermissions_def read_permissions_def Let_def
  by (erule record_andE) (auto simp: as_record_def intro!: bind_readable names_readable)

lemma policy_readable [readable]: "isMobilePolicyReference v \<Longrightarrow> \<exists>p. read_policy v = Some p"
  unfolding isMobilePolicyReference_def read_policy_def
  by (erule record_andE) (auto simp: as_record_def intro!: bind_readable intro: readable)

lemma consent_readable [readable]: "consent_value h v \<Longrightarrow> \<exists>c. read_consent v = Some c"
  unfolding consent_value_def read_consent_def
  by (erule record_andE, elim conjE, simp only: read_object)
    (intro bind_readable some_readable; (erule readable | erule optional_readable, erule readable))

lemma reconsent_readable: "isMobileReconsentInput h v \<Longrightarrow> \<exists>x. read_reconsent v = Some x"
  unfolding isMobileReconsentInput_def read_reconsent_def
  by (erule record_andE) (auto simp: as_record_def intro!: bind_readable intro: readable)

lemma activation_readable: "isMobileActivationInput h v \<Longrightarrow> \<exists>x. read_activation v = Some x"
proof -
  assume a: "isMobileActivationInput h v"
  then have "isMobileReconsentInput h v"
    by (auto simp: isMobileActivationInput_def isMobileReconsentInput_def record_and_def split: option.splits json.splits)
  from reconsent_readable[OF this] a show ?thesis
    unfolding isMobileActivationInput_def read_activation_def
    by (elim record_andE) (auto simp: as_record_def intro!: bind_readable intro: readable)
qed

lemma heartbeat_readable: "isDeviceHeartbeat v h \<Longrightarrow> \<exists>x. read_heartbeat v = Some x"
  unfolding isDeviceHeartbeat_def read_heartbeat_def
  by (erule record_andE, elim conjE, simp only: read_object) 
    (intro bind_readable some_readable; (erule readable | erule optional_readable, erule readable))

lemma item_readable: "isCallLogSyncItem h v \<Longrightarrow> \<exists>x. read_sync_item v = Some x"
  unfolding isCallLogSyncItem_def read_sync_item_def
  by (erule record_andE, elim conjE, simp only: read_object) 
    (intro bind_readable some_readable; (erule readable | erule optional_readable, erule readable))

lemma batch_readable: "isCallLogSyncBatch h v \<Longrightarrow> \<exists>x. read_batch v = Some x"
  unfolding isCallLogSyncBatch_def read_batch_def
  by (erule record_andE, elim conjE, simp only: read_object)
    (intro bind_readable some_readable; (erule readable | erule list_readable[where p = "isCallLogSyncItem h"], simp, erule item_readable))

lemma follow_up_readable: "mobile_follow_up_value h v \<Longrightarrow> \<exists>x. read_follow_up v = Some x"
  unfolding mobile_follow_up_value_def read_follow_up_def
  by (erule record_andE, elim conjE, simp only: read_object) 
    (intro bind_readable some_readable; (erule readable | erule optional_readable, erule readable))

lemma note_readable: "note_value v \<Longrightarrow> \<exists>x. read_note v = Some x"
  unfolding note_value_def read_note_def
  by (erule record_andE) (auto simp: as_record_def intro: readable)

lemma mobile_update_readable: "isMobileLeadUpdateInput h v \<Longrightarrow> \<exists>x. read_mobile_update v = Some x"
  unfolding isMobileLeadUpdateInput_def read_mobile_update_def
  by (erule record_andE, elim conjE, simp only: read_object)
    (intro bind_readable some_readable; (erule readable | erule optional_readable, erule readable note_readable follow_up_readable))

lemma correction_readable: "isCorrectCallLeadLinkInput v \<Longrightarrow> \<exists>x. read_correction v = Some x"
  unfolding isCorrectCallLeadLinkInput_def read_correction_def
  by (erule record_andE, elim conjE, simp only: read_object)
    (intro bind_readable some_readable; (erule readable | erule nullable_readable, erule readable))

lemma apply_readable: "isApplyLeadAssignmentRulesInput v \<Longrightarrow> \<exists>x. read_apply v = Some x"
  unfolding isApplyLeadAssignmentRulesInput_def read_apply_def
  by (erule record_andE, elim conjE, simp only: read_object) (intro bind_readable some_readable; erule readable)

lemma rule_update_readable: "isUpdateLeadAssignmentRuleInput v \<Longrightarrow> \<exists>x. read_rule_update v = Some x"
  unfolding isUpdateLeadAssignmentRuleInput_def read_rule_update_def read_changes_def
  by (erule record_andE, elim conjE, erule record_andE, elim conjE, simp only: read_object)
    (intro bind_readable some_readable; (erule readable | erule optional_readable, erule readable owners_readable read_conditions_accepts))

lemma import_row_readable: "isLeadImportRow num v \<Longrightarrow> \<exists>x. read_import_row v = Some x"
  unfolding isLeadImportRow_def hasOnlyKnownLeadImportRowValues_def read_import_row_def
  by (erule record_andE, elim conjE, simp only: read_object)
    (intro bind_readable some_readable; (erule readable | erule optional_readable, erule readable custom_fields_readable
      | erule optional_readable, erule list_readable[where p = isNonEmptyString], simp, erule readable))

lemma preview_readable: "isPreviewLeadImportInput num v \<Longrightarrow> \<exists>x. read_preview v = Some x"
  unfolding isPreviewLeadImportInput_def read_preview_def
  by (erule record_andE, elim conjE, simp only: read_object)
    (intro bind_readable some_readable; (erule readable | erule list_readable[where p = "isLeadImportRow num"], simp, erule import_row_readable))


end
