(* ===== verification/RouteScenario.thy ===== *)
theory RouteScenario
  imports RouteFacts ServiceScenario ReadingFacts
begin

text \<open>
  The server on the workspace of \<open>Scenario\<close>: requests of a device that is active and of one that was
  revoked, of an analyst and of nobody, and the properties of the routes applied to them.
\<close>

section \<open>The server\<close>

definition w_bearer :: string where
  "w_bearer = ''cls_'' @ replicate 43 (CHR ''a'')"

definition w_environment :: environment where
  "w_environment = \<lparr>en_config = \<lparr>cf_production = True, cf_builtinAuth = False, cf_builtinAuthKeyHash = [],
      cf_enableDevAuth = False, cf_authSecret = ''k'', cf_tokenTtlSeconds = 60, cf_pairingCodeTtlSeconds = 60,
      cf_deviceBootstrapTtlSeconds = 60, cf_deviceSessionTtlSeconds = 60, cf_limiter = w_limiter\<rparr>,
     en_runtime = \<lparr>rt_host = w_host, rt_iso = (\<lambda>_. ''4''), rt_number_text = (\<lambda>_. ''1''), rt_to_number = (\<lambda>_. None)\<rparr>,
     en_primitives = (w_primitives [])\<lparr>pr_hmac := (\<lambda>k m. if m = credential_message CredSession w_bearer
       then w_token (CHR ''a'') else k @ m)\<rparr>,
     en_zones = (\<lambda>_. w_zone), en_clock = (\<lambda>_. 4), en_random = (\<lambda>_. ''R''),
     en_identity = (\<lambda>t. if t = ''t'' then Some (''o'', ''i'', ''s'') else None), en_itemFingerprint = (\<lambda>_. []),
     en_callFingerprint = (\<lambda>_. []), en_digest = (\<lambda>_. []), en_artifacts = None\<rparr>"

definition w_request :: "string option \<Rightarrow> http_request" where
  "w_request auth = \<lparr>rq_authorization = auth, rq_idempotencyKey = NoHeader, rq_body = None, rq_query = [], rq_params = [], rq_ip = []\<rparr>"

definition w_app :: "call_state \<Rightarrow> app_state" where
  "w_app r = report_state.extend (import_state.extend (rule_state.extend (call_state.extend r (rule_state.fields [] [] [] []))
     (import_state.fields [] [] [] [] [] [] [])) (report_state.fields [] [] [] [] [] [] [])) (app_state.fields [] 0 0 0)"

lemmas w_server = w_environment_def w_request_def

lemma w_app_fields:
  "deviceCredentialsByHash (w_app r) = deviceCredentialsByHash r" "devices (w_app r) = devices r"
  "deviceCredentialHashById (w_app r) = deviceCredentialHashById r" "pairingCodesById (w_app r) = pairingCodesById r" "appIds (w_app r) = 0"
  "clockReads (w_app r) = 0" "employees (w_app r) = employees r" "organizations (w_app r) = organizations r" "users (w_app r) = users r"
  "roles (w_app r) = roles r" "leads (w_app r) = leads r" "leadStatuses (w_app r) = leadStatuses r" "leadTeams (w_app r) = leadTeams r"
  "leadFollowUps (w_app r) = leadFollowUps r" "calls (w_app r) = calls r" "externalIdentityUsers (w_app r) = externalIdentityUsers r"
  "deviceCollectionModes (w_app r) = deviceCollectionModes r" "activeConsentByDevice (w_app r) = activeConsentByDevice r"
  "mobilePolicies (w_app r) = mobilePolicies r" "leadActivities (w_app r) = leadActivities r" "ids (w_app r) = ids r"
  by (simp_all add: w_app_def call_state.defs rule_state.defs import_state.defs report_state.defs app_state.defs)

lemma w_app_trust: "trust_inv (w_app r) = trust_inv r"
  by (simp add: trust_inv_def w_app_fields)

lemma w_prints: "en_host w_environment = w_host" "iso_of w_environment n = ''4''"
  by (simp_all add: w_environment_def iso_of_def)

lemma w_clock: "clock_prints w_environment"
  by (simp add: clock_prints_def w_prints)

lemma w_scheme: "map ascii_lower ''Bearer'' = ''bearer''"
  by code_simp

definition w_agent_request :: http_request where
  "w_agent_request = w_request (Some (''Bearer '' @ w_bearer))"

lemma w_bearer_token: "bearer w_agent_request = Some w_bearer"
  using w_scheme by (simp add: w_agent_request_def bearer_def parseBearerToken_def w_request_def w_bearer_def js_space_def Let_def list_all_iff)

lemma w_hash: "hashed w_environment CredSession w_bearer = w_token (CHR ''a'')"
  by (simp add: hashed_def hashDeviceCredential_def w_server)

section \<open>Refused requests\<close>

lemma w_nobody: "bearer (w_request None) = None"
  by (simp add: bearer_def parseBearerToken_def w_request_def)

theorem no_effect_without_access_witness:
  "\<exists>e n. fst (respond w_environment GetAuditEvents (w_request None) (w_app w0)) = Inl e \<and> we_status e \<in> {400, 401, 403, 404}
     \<and> snd (respond w_environment GetAuditEvents (w_request None) (w_app w0)) = (w_app w0)\<lparr>clockReads := n\<rparr>"
proof -
  have "\<not> authorized w_environment (w_request None) (access_of GetAuditEvents) (w_app w0)"
    by (simp add: authorized_def signed_in_def w_nobody access_of_def)
  from no_effect_without_access[OF prod.collapse[symmetric] this] show ?thesis .
qed

lemma w_stored: "deviceCredentialHashById w3 = [(''b'', ''B''), (''s'', w_token (CHR ''a''))]" "map fst (pairingCodesById w3) = [''c'']"
  "map (pc_id \<circ> snd) (pairingCodesById w3) = [''c'']"
  by (simp_all add: w_states w_run)

lemma w_app_inv: "app_inv (w_app w3)"
proof -
  obtain c where "pairingCodesById w3 = [(''c'', c)]" "pc_id c = ''c''" using w_stored(2,3) by auto
  then show ?thesis by (simp add: app_inv_def w_app_trust w_app_fields w_stored keyed_def map_wf_def sequential_id_def)
qed

lemma w_revoked: "deviceCredentialHashById w6 = deviceCredentialHashById w3" "pairingCodesById w6 = pairingCodesById w3"
  by (simp_all add: w6_def revokeDeviceByAdministrator_def admin_revoke_commit_def Let_def split: option.splits)


lemma w6_retired: "\<exists>c. map_get (deviceCredentialsByHash w6) (w_token (CHR ''a'')) = Some c \<and> retired c"
  by (simp add: w6_def w_states w_run retired_def)

lemma w6_inv: "trust_inv w6"
proof -
  have "trust_step w_host w3 w6"
    unfolding w6_def by (rule trust_step.step_admin_revoke) (simp add: w_admin_revoke_def)
  then show ?thesis using trust_inv_reaches[OF _ trust_start_inv[OF w0_start]] w_reaches(3) by (meson rtranclp.rtrancl_into_rtrancl)
qed


section \<open>What the routes answer\<close>

lemma w_answer:
  assumes "\<exists>q t. m s = (Inr q, t) \<and> P (rep_data q)" "serve en route rq = as_answer f m"
  shows "\<exists>r t x. respond en route rq s = (Inr r, t) \<and> rep_data r = f x \<and> P x"
  using assms by (auto simp: respond_def as_answer_def andThen_def give_def)

lemma w_parameters:
  "limit_of en (w_request a) n1 n2 = give n1" "query_string (w_request a) k = give None"
  by (simp_all add: limit_of_def query_string_def w_request_def field_def integerQuery_def optionalQueryString_def optionalString_def if_defined_def
      attempt_def check_def array_and_def pure_def give_def andThen_def fun_eq_iff)

lemma w_agent_parameters: "limit_of en w_agent_request n1 n2 = give n1" "query_string w_agent_request k = give None"
  by (simp_all only: w_agent_request_def w_parameters)

lemma w_app_device: "resolveDeviceCredential h k ty ts (w_app r) = resolveDeviceCredential h k ty ts r"
  by (simp add: resolveDeviceCredential_def contextForCredential_def isConsentCurrent_def findCurrentMobileCredential_def
      find_credential_for_def device_admits_def w_app_fields cong: option.case_cong if_cong)

lemma w3_leads:
  "leads w3 = leads w0" "leadStatuses w3 = leadStatuses w0" "leadTeams w3 = leadTeams w0" "leadFollowUps w3 = leadFollowUps w0"
  "leadActivities w3 = leadActivities w0"
  by (simp_all add: w_states w_run)

lemma w3_device:
  "\<exists>ctx. resolveDeviceCredential w_host (w_token (CHR ''a'')) CredSession ''4'' w3 = Some ctx \<and> ctx_consentCurrent ctx
     \<and> ctx_organizationId ctx = ''o'' \<and> ctx_employeeId ctx = ''e''"
  by (simp add: w_states w_run resolveDeviceCredential_def contextForCredential_def)

lemma w_leads_listed:
  "\<exists>res. listLeads w_host ''o'' (ScopeAssigned ''e'') \<lparr>lf_search = None, lf_statusId = None, lf_assignedEmployeeId = None, lf_queue = QueueAll\<rparr>
     None 50 ''4'' ((w_app w3)\<lparr>clockReads := n\<rparr>) = Inr res \<and> llr_items res \<noteq> []"
  by (simp add: listLeads_def w_lead_reads w3_leads w_app_fields map_values_def w0_def w_rows Let_def
      lead_matches_def queueMatches_def cong: sum.case_cong)

lemma w_url_char: "is_base64url (CHR ''a'')"
  by code_simp

lemma w_agent:
  "\<exists>ctx. authenticateMobile w_environment CredSession w_agent_request (w_app w3)
     = (Inr ctx, (w_app w3)\<lparr>clockReads := 1\<rparr>) \<and> ctx_consentCurrent ctx \<and> ctx_organizationId ctx = ''o'' \<and> ctx_employeeId ctx = ''e''"
proof -
  have token: "device_token w_agent_request = give w_bearer"
    using w_bearer_token by (auto simp: device_token_def bearer_def give_def pure_def fun_eq_iff split: sum.splits)
  have "list_all2 (\<lambda>p. p) (replicate n is_base64url) (replicate n (CHR ''a''))" for n
    using w_url_char by (induction n) simp_all
  then have "isOpaqueDeviceCredential w_bearer CredSession"
    by (simp add: isOpaqueDeviceCredential_def device_credential_def kind_prefix_def w_bearer_def fits_def)
  then show ?thesis using w3_device
    by (auto simp: authenticateMobile_def token resolve_device_def w_hash w_app_device resolve_clock now_iso_def clock_now_def w_prints
        w_app_fields app_defs check_def expect_def)
qed

lemma w_agent_answered:
  "\<exists>q t. get_mobile_leads w_environment w_agent_request (w_app w3) = (Inr q, t) \<and> lst_items (rep_data q) \<noteq> []"
proof -
  obtain ctx where ctx: "authenticateMobile w_environment CredSession w_agent_request (w_app w3)
      = (Inr ctx, (w_app w3)\<lparr>clockReads := 1\<rparr>)" "ctx_consentCurrent ctx" "ctx_organizationId ctx = ''o''" "ctx_employeeId ctx = ''e''"
    using w_agent by blast
  obtain res where res: "listLeads w_host ''o'' (ScopeAssigned ''e'') \<lparr>lf_search = None, lf_statusId = None, lf_assignedEmployeeId = None,
      lf_queue = QueueAll\<rparr> None 50 ''4'' ((w_app w3)\<lparr>clockReads := Suc (Suc 0)\<rparr>) = Inr res" "llr_items res \<noteq> []"
    using w_leads_listed by blast
  then show ?thesis using ctx
    by (simp add: get_mobile_leads_def consented_session_def consented_def w_agent_parameters w_prints lead_cursor_query_def cursor_query_def queue_query_def
        search_query_def queue_names_def or_empty_def now_iso_def clock_now_def own_leads_def reply_ok_def leads_page_of_def
        check_def expect_def app_defs)
qed


section \<open>Masked calls\<close>

definition w_heard :: call_log where
  "w_heard = \<lparr>createdAt = ''1'', updatedAt = ''1'', createdBy = None, updatedBy = None, call_id = ''c'', call_organizationId = ''o'',
     call_employeeId = ''e'', call_deviceId = None, call_simCardId = None, call_externalId = None, call_source = ManualCall,
     call_direction = Incoming, call_disposition = Answered, call_participant = \<lparr>part_phoneNumber = ''+15550001111'',
       part_displayName = None, part_contactId = None, part_isInternal = False\<rparr>, call_startedAt = ''1'', call_answeredAt = None,
     call_endedAt = None, call_durationSeconds = 1, call_ringDurationSeconds = None, call_isWithinWorkingHours = True,
     call_recordingStatus = RecNotExpected, call_recordingId = None, call_leadId = None, call_noteCount = 0, call_isPinned = False\<rparr>"

definition w_office :: call_state where
  "w_office = w0\<lparr>roles := [(''r'', w_role\<lparr>role_systemKey := Some RoleAnalyst, role_permissions := [calls_read]\<rparr>)],
     externalIdentityUsers := [((''o'', ''i'', ''s''), ''u'')], calls := [(''c'', w_heard)]\<rparr>"

lemma w_reader:
  "\<exists>actor. authenticate w_environment (w_request (Some ''Bearer t'')) (w_app w_office) = (Inr actor, w_app w_office)
     \<and> actor_permissions actor = [calls_read] \<and> actor_roleKey actor = RoleAnalyst \<and> org_of actor = ''o''"
proof -
  have "parseBearerToken (rq_authorization (w_request (Some ''Bearer t''))) = Inr ''t''"
    using w_scheme by (simp add: parseBearerToken_def w_request_def js_space_def Let_def)
  then show ?thesis
    by (simp add: authenticate_def external_actor_def w_environment_def resolveActorByExternalIdentity_def findActor_def roles_of_def
        w_app_fields w_office_def w0_def w_rows List.map_filter_def Let_def expect_def js_set_def app_defs)
qed

lemma w_calls_answered:
  "\<exists>q t. get_calls w_environment (w_request (Some ''Bearer t'')) (w_app w_office) = (Inr q, t) \<and> lst_items (rep_data q) \<noteq> []"
proof -
  obtain actor where actor: "authenticate w_environment (w_request (Some ''Bearer t'')) (w_app w_office) = (Inr actor, w_app w_office)"
    "actor_permissions actor = [calls_read]" "actor_roleKey actor = RoleAnalyst" "org_of actor = ''o''"
    using w_reader by blast
  have "fst (listCalls h ''o'' \<lparr>clf_employeeId = None, clf_direction = None, clf_disposition = None, clf_from = None, clf_to = None\<rparr> None 50
      (w_app w_office)) \<noteq> []" for h
    by (simp add: listCalls_def page_of_def after_cursor_def js_sort_def w_app_fields w_office_def w0_def map_values_def call_matches_def
        w_heard_def Let_def)
  then have "x \<noteq> []" if "listCalls h ''o'' \<lparr>clf_employeeId = None, clf_direction = None, clf_disposition = None, clf_from = None,
      clf_to = None\<rparr> None 50 (w_app w_office) = (x, y)" for h x y
    using that by (metis fst_conv)
  moreover have "presentCalls actor cs = [] \<longleftrightarrow> cs = []" for cs by (simp add: presentCalls_def)
  ultimately show ?thesis using actor
    by (simp add: get_calls_def protectOrganizationRead_def protect_def requirePermission_def requireFullOrganizationReadScope_def
        w_parameters cursor_query_def named_query_def timestamp_query_def asTimestamp_def if_defined_def reply_ok_def check_def app_defs
        split: prod.split)
qed

theorem call_listing_masked_witness:
  "\<exists>r t page c. respond w_environment GetCalls (w_request (Some ''Bearer t'')) (w_app w_office) = (Inr r, t) \<and> rep_data r = ACalls page
     \<and> c \<in> set (lst_items page) \<and> call_id c = ''c''"
proof -
  obtain r t page where r: "respond w_environment GetCalls (w_request (Some ''Bearer t'')) (w_app w_office) = (Inr r, t)"
    "rep_data r = ACalls page" "lst_items page \<noteq> []"
    using w_answer[of "get_calls w_environment _" _ "\<lambda>x. lst_items x \<noteq> []", OF w_calls_answered, of w_environment GetCalls "w_request (Some ''Bearer t'')" ACalls] by auto
  then obtain c where c: "c \<in> set (lst_items page)" by (cases "lst_items page") auto
  from call_listing_masked[OF r(1)] r(2) c
  have "call_id c \<in> call_id ` set (map_values (calls (w_app w_office)))" by fastforce
  then have "call_id c = ''c''" by (simp add: w_app_fields w_office_def map_values_def w_heard_def)
  with r c show ?thesis by blast
qed

section \<open>Schedules and bodies\<close>

theorem next_run_after_now_witness:
  "0 < next_run 0 9 15 \<and> (next_run 0 9 15 + half_past_five) mod day_ms = 9 * 3600000 + 15 * 60000"
  using next_run_after_now[of 9 15 0] by simp

definition w_apply_body :: js where
  "w_apply_body = Some (JObject [(''requestId'', JString ''q''), (''includeExistingUnassigned'', JBool True)])"


section \<open>A spent bootstrap token proposed again\<close>

definition w_second_code :: pairing_code where
  "w_second_code = w_code\<lparr>pc_id := ''d'', pc_codeHash := ''j''\<rparr>"

definition w_second_redeem :: redeem_options where
  "w_second_redeem = w_redeem\<lparr>ro_codeHash := ''j'', ro_requestId := ''y'', ro_at := ''4''\<rparr>"

definition w7 :: call_state where
  "w7 = createPairingCode w_second_code w3"

theorem redeemed_token_live_again_witness:
  "(\<exists>c. map_get (deviceCredentialsByHash w7) ''B'' = Some c \<and> retired c)
   \<and> (\<exists>c. map_get (deviceCredentialsByHash (snd (redeemPairingCode w_host w_second_redeem w7))) ''B'' = Some c \<and> \<not> retired c)"
proof -
  have before: "\<exists>c. map_get (deviceCredentialsByHash w7) ''B'' = Some c \<and> retired c"
    using w3_facts(5) by (simp add: w7_def createPairingCode_def)
  have "\<exists>v. fst (redeemPairingCode w_host w_second_redeem w7) = Inr (Some v) \<and> red_replayed v = Some False"
    by (simp add: w7_def w_second_code_def w_second_redeem_def w_states w_run)
  from runI[OF this] obtain v where
    v: "redeemPairingCode w_host w_second_redeem w7 = (Inr (Some v), snd (redeemPairingCode w_host w_second_redeem w7))" "red_replayed v = Some False"
    by blast
  have "cred_lifecycleState (ro_bootstrapCredential w_second_redeem) = LcActive" "cred_tokenHash (ro_bootstrapCredential w_second_redeem) = ''B''"
    by (simp_all add: w_second_redeem_def w_rows)
  with redeemed_token_live_again[OF v] before show ?thesis by auto
qed

end
