(* ===== verification/Bytes.thy ===== *)
theory Bytes
  imports Runtime "HOL-Library.Word"
begin

text \<open>
  Byte strings: \<open>Buffer\<close> and its encodings. A JavaScript string of which the whole repertoire
  matters is a list of code points (\<open>js_text\<close>); a surrogate in it is one that has no partner, which
  UTF-8 replaces. Elsewhere a string is of 8-bit characters (\<open>utf8\<close>).
\<close>

unbundle bit_operations_syntax

type_synonym bytes = "8 word list"

type_synonym js_text = "nat list"

section \<open>UTF-8\<close>

definition surrogate :: "nat \<Rightarrow> bool" where
  "surrogate n \<longleftrightarrow> 0xD800 \<le> n \<and> n < 0xE000"

definition scalar :: "nat \<Rightarrow> bool" where
  "scalar n \<longleftrightarrow> n < 0x110000 \<and> \<not> surrogate n"

definition code_point_bytes :: "nat \<Rightarrow> nat list" where
  "code_point_bytes n =
     (if n < 0x80 then [n]
      else if n < 0x800 then [0xC0 + n div 64, 0x80 + n mod 64]
      else if surrogate n then [0xEF, 0xBF, 0xBD]
      else if n < 0x10000 then [0xE0 + n div 4096, 0x80 + n div 64 mod 64, 0x80 + n mod 64]
      else [0xF0 + n div 262144, 0x80 + n div 4096 mod 64, 0x80 + n div 64 mod 64, 0x80 + n mod 64])"

definition utf8_encode :: "js_text \<Rightarrow> bytes" where
  "utf8_encode s = concat (map (map of_nat \<circ> code_point_bytes) s)"

text \<open>A string of 8-bit characters.\<close>

definition utf8 :: "string \<Rightarrow> bytes" where
  "utf8 s = utf8_encode (map of_char s)"

text \<open>
  The decoder of the Encoding standard, refusing what is malformed: a first byte gives the number of
  the bytes that follow, its own bits, and the range of the byte after it.
\<close>

definition utf8_lead :: "nat \<Rightarrow> (nat \<times> nat \<times> nat \<times> nat) option" where
  "utf8_lead n =
     (if n < 0x80 then Some (0, n, 0x80, 0xBF)
      else if 0xC2 \<le> n \<and> n \<le> 0xDF then Some (1, n - 0xC0, 0x80, 0xBF)
      else if n = 0xE0 then Some (2, 0, 0xA0, 0xBF)
      else if n = 0xED then Some (2, 0xD, 0x80, 0x9F)
      else if 0xE1 \<le> n \<and> n \<le> 0xEF then Some (2, n - 0xE0, 0x80, 0xBF)
      else if n = 0xF0 then Some (3, 0, 0x90, 0xBF)
      else if 0xF1 \<le> n \<and> n \<le> 0xF3 then Some (3, n - 0xF0, 0x80, 0xBF)
      else if n = 0xF4 then Some (3, 4, 0x80, 0x8F)
      else None)"

definition continuation :: "nat \<Rightarrow> nat \<Rightarrow> nat list \<Rightarrow> bool" where
  "continuation lo hi ns = (case ns of [] \<Rightarrow> True | n # ns' \<Rightarrow> lo \<le> n \<and> n \<le> hi \<and> list_all (\<lambda>m. 0x80 \<le> m \<and> m \<le> 0xBF) ns')"

function utf8_points :: "nat list \<Rightarrow> js_text option" where
  "utf8_points [] = Some []"
| "utf8_points (n # ns) =
     (case utf8_lead n of
        None \<Rightarrow> None
      | Some (k, v, lo, hi) \<Rightarrow>
          if length ns < k \<or> \<not> continuation lo hi (take k ns) then None
          else map_option (Cons (foldl (\<lambda>a m. a * 64 + (m - 0x80)) v (take k ns))) (utf8_points (drop k ns)))"
  by pat_completeness auto

termination by (relation "measure length") auto

text \<open>\<open>new TextDecoder("utf-8", { fatal: true }).decode\<close>: a byte-order mark in front is dropped.\<close>

definition text_decode :: "bytes \<Rightarrow> js_text option" where
  "text_decode bs = utf8_points (map unat (if take 3 bs = [0xEF, 0xBB, 0xBF] then drop 3 bs else bs))"

lemma utf8_encode_append [simp]: "utf8_encode (s @ t) = utf8_encode s @ utf8_encode t"
  by (simp add: utf8_encode_def)

lemma utf8_encode_Cons: "utf8_encode (n # s) = map of_nat (code_point_bytes n) @ utf8_encode s"
  by (simp add: utf8_encode_def)

lemma code_point_bytes_small: "n < 0x110000 \<Longrightarrow> b \<in> set (code_point_bytes n) \<Longrightarrow> b < 256"
  by (auto simp: code_point_bytes_def surrogate_def split: if_splits)

lemma utf8_sequence:
  assumes "utf8_lead b = Some (length t, v, lo, hi)" and "continuation lo hi t"
  shows "utf8_points (b # t @ ns) = map_option (Cons (foldl (\<lambda>a m. a * 64 + (m - 0x80)) v t)) (utf8_points ns)"
  using assms by simp

lemma low_six_bits: "n mod 64 < (64 :: nat)" by simp

lemma base_64: "n div 4096 * 4096 + n div 64 mod 64 * 64 + n mod 64 = (n :: nat)"
proof -
  have "n div 4096 = n div 64 div 64" using div_mult2_eq[of n 64 64] by simp
  then show ?thesis using div_mult_mod_eq[of n 64] div_mult_mod_eq[of "n div 64" 64] by linarith
qed

lemma three_digits:
  assumes "q * 4096 + r * 64 + t = (n :: nat)" and "r \<le> 63" "t \<le> 63"
  shows "0x800 \<le> n \<Longrightarrow> q = 0 \<Longrightarrow> 0x20 \<le> r" and "n < 0xD800 \<or> 0xE000 \<le> n \<Longrightarrow> q = 13 \<Longrightarrow> r < 0x20"
  using assms by linarith+

lemma four_digits:
  assumes "q * 262144 + r * 4096 + s * 64 + t = (n :: nat)" and "r \<le> 63" "s \<le> 63" "t \<le> 63"
  shows "0x10000 \<le> n \<Longrightarrow> q = 0 \<Longrightarrow> 0x10 \<le> r" and "n < 0x110000 \<Longrightarrow> q = 4 \<Longrightarrow> r < 0x10"
  using assms by linarith+

lemma regroup: "q * 64 + r = a \<Longrightarrow> a * 4096 + x + y = n \<Longrightarrow> q * 262144 + r * 4096 + x + y = (n :: nat)"
  by auto

lemma code_point_read:
  assumes "scalar n"
  shows "utf8_points (code_point_bytes n @ ns) = map_option (Cons n) (utf8_points ns)"
proof -
  have low: "n mod 64 \<le> 63" "n div 64 mod 64 \<le> 63" "n div 4096 mod 64 \<le> 63"
    using low_six_bits[of n] low_six_bits[of "n div 64"] low_six_bits[of "n div 4096"] by linarith+
  consider "n < 0x80" | "0x80 \<le> n" "n < 0x800" | "0x800 \<le> n" "n < 0x10000" "\<not> surrogate n" | "0x10000 \<le> n" "n < 0x110000"
    using assms by (fastforce simp: scalar_def)
  then show ?thesis
  proof cases
    case 1
    then show ?thesis by (simp add: code_point_bytes_def utf8_lead_def continuation_def)
  next
    case 2
    have "n div 64 * 64 + n mod 64 = n" by simp
    then have "2 \<le> n div 64 \<and> n div 64 < 32" using 2 low by linarith
    have "utf8_lead (0xC0 + n div 64) = Some (length [0x80 + n mod 64], n div 64, 0x80, 0xBF)"
      using \<open>2 \<le> n div 64 \<and> n div 64 < 32\<close> by (auto simp: utf8_lead_def)
    moreover have "continuation 0x80 0xBF [0x80 + n mod 64]" using low by (simp add: continuation_def)
    moreover have "code_point_bytes n = [0xC0 + n div 64, 0x80 + n mod 64]" using 2 by (simp add: code_point_bytes_def)
    ultimately show ?thesis using utf8_sequence[of "0xC0 + n div 64" "[0x80 + n mod 64]" "n div 64" "0x80" "0xBF" ns] by simp
  next
    case 3
    let ?q = "n div 4096" and ?r = "n div 64 mod 64"
    let ?t = "[0x80 + ?r, 0x80 + n mod 64]"
    let ?lo = "if ?q = 0 then 0xA0 else 0x80 :: nat" and ?hi = "if ?q = 13 then 0x9F else 0xBF :: nat"
    have n: "?q * 4096 + ?r * 64 + n mod 64 = n" by (rule base_64)
    have q: "?q < 16" using 3 by simp
    have "0x20 \<le> ?r" if "?q = 0" by (rule three_digits(1)[OF n low(2,1) 3(1) that])
    moreover have "?r < 0x20" if "?q = 13"
      by (rule three_digits(2)[OF n low(2,1) _ that]) (use 3(3) in \<open>auto simp: surrogate_def\<close>)
    ultimately have "continuation ?lo ?hi ?t" using low by (auto simp: continuation_def)
    moreover have "utf8_lead (0xE0 + ?q) = Some (length ?t, ?q, ?lo, ?hi)" using q by (simp add: utf8_lead_def)
    moreover have "code_point_bytes n = (0xE0 + ?q) # ?t" using 3 by (simp add: code_point_bytes_def)
    moreover have "foldl (\<lambda>a m. a * 64 + (m - 0x80)) ?q ?t = n" using n by simp
    ultimately show ?thesis using utf8_sequence[of "0xE0 + ?q" ?t ?q ?lo ?hi ns] by (metis append_Cons)
  next
    case 4
    let ?q = "n div 262144" and ?r = "n div 4096 mod 64" and ?s = "n div 64 mod 64"
    let ?t = "[0x80 + ?r, 0x80 + ?s, 0x80 + n mod 64]"
    let ?lo = "if ?q = 0 then 0x90 else 0x80 :: nat" and ?hi = "if ?q = 4 then 0x8F else 0xBF :: nat"
    have n: "?q * 262144 + ?r * 4096 + ?s * 64 + n mod 64 = n"
    proof -
      have "n div 262144 = n div 4096 div 64" using div_mult2_eq[of n 4096 64] by simp
      then show ?thesis using regroup[OF _ base_64[of n]] div_mult_mod_eq[of "n div 4096" 64] by metis
    qed
    have q: "?q \<le> 4" using 4 by simp
    have "0x10 \<le> ?r" if "?q = 0" by (rule four_digits(1)[OF n low(3,2,1) 4(1) that])
    moreover have "?r < 0x10" if "?q = 4" by (rule four_digits(2)[OF n low(3,2,1) 4(2) that])
    ultimately have "continuation ?lo ?hi ?t" using low by (auto simp: continuation_def)
    moreover have "utf8_lead (0xF0 + ?q) = Some (length ?t, ?q, ?lo, ?hi)" using q by (simp add: utf8_lead_def)
    moreover have "code_point_bytes n = (0xF0 + ?q) # ?t" using 4 by (simp add: code_point_bytes_def surrogate_def)
    moreover have "foldl (\<lambda>a m. a * 64 + (m - 0x80)) ?q ?t = n" using n by simp
    ultimately show ?thesis using utf8_sequence[of "0xF0 + ?q" ?t ?q ?lo ?hi ns] by (metis append_Cons)
  qed
qed

lemma map_unat_encode: "list_all scalar s \<Longrightarrow> map unat (utf8_encode s) = concat (map code_point_bytes s)"
proof (induction s)
  case (Cons n s)
  have "unat (of_nat b :: 8 word) = b" if "b \<in> set (code_point_bytes n)" for b
    using code_point_bytes_small[of n b] that Cons.prems by (simp add: scalar_def unat_of_nat)
  then show ?case using Cons by (simp add: utf8_encode_Cons comp_def map_idI)
qed (simp add: utf8_encode_def)

lemma utf8_points_encode: "list_all scalar s \<Longrightarrow> utf8_points (concat (map code_point_bytes s)) = Some s"
  by (induction s) (simp_all add: code_point_read)

lemma utf8_encode_inj: "list_all scalar s \<Longrightarrow> list_all scalar t \<Longrightarrow> utf8_encode s = utf8_encode t \<Longrightarrow> s = t"
  by (metis map_unat_encode utf8_points_encode option.inject)

lemma utf8_append [simp]: "utf8 (s @ t) = utf8 s @ utf8 t"
  by (simp add: utf8_def)

lemma char_scalar: "list_all scalar (map of_char s)"
proof -
  have "scalar (of_char c)" for c :: char
    using nat_of_char_less_256[of c] unfolding scalar_def surrogate_def by linarith
  then show ?thesis by (simp add: list_all_iff)
qed

lemma utf8_inj: "utf8 s = utf8 t \<longleftrightarrow> s = t"
proof
  assume "utf8 s = utf8 t"
  then have "map (of_char :: char \<Rightarrow> nat) s = map of_char t"
    unfolding utf8_def by (rule utf8_encode_inj[OF char_scalar char_scalar])
  then show "s = t" by (simp add: inj_map_eq_map inj_of_char)
qed simp

lemma utf8_empty [simp]: "utf8 s = [] \<longleftrightarrow> s = []"
  using utf8_inj[of s "[]"] by (simp add: utf8_def utf8_encode_def)

lemma length_utf8: "length (utf8 s) \<le> 4 * length s"
proof (induction s)
  case (Cons c s)
  have "length (code_point_bytes n) \<le> 4" for n by (simp add: code_point_bytes_def)
  from this[of "of_char c"] show ?case using Cons by (simp add: utf8_def utf8_encode_Cons)
qed (simp add: utf8_def utf8_encode_def)

lemma mark_bytes: "code_point_bytes 0xFEFF = [0xEF, 0xBB, 0xBF]"
  by (simp add: code_point_bytes_def surrogate_def)

lemma text_decode_encode:
  assumes "list_all scalar s" and "take 1 s \<noteq> [0xFEFF]"
  shows "text_decode (utf8_encode s) = Some s"
proof -
  have "take 3 (utf8_encode s) \<noteq> [0xEF, 0xBB, 0xBF]"
  proof
    assume "take 3 (utf8_encode s) = [0xEF, 0xBB, 0xBF]"
    then have "utf8_encode s = [0xEF, 0xBB, 0xBF] @ drop 3 (utf8_encode s)" by (metis append_take_drop_id)
    from arg_cong[OF this, of "map unat"]
    have "map unat (utf8_encode s) = code_point_bytes 0xFEFF @ map unat (drop 3 (utf8_encode s))"
      by (simp add: mark_bytes)
    moreover have "scalar 0xFEFF" by (simp add: scalar_def surrogate_def)
    ultimately have "utf8_points (map unat (utf8_encode s)) = map_option (Cons 0xFEFF) (utf8_points (map unat (drop 3 (utf8_encode s))))"
      by (simp only: code_point_read)
    then obtain t where "s = 0xFEFF # t"
      using utf8_points_encode[OF assms(1)] map_unat_encode[OF assms(1)]
      by (cases "utf8_points (map unat (drop 3 (utf8_encode s)))") simp_all
    then show False using assms(2) by simp
  qed
  then show ?thesis by (simp add: text_decode_def map_unat_encode[OF assms(1)] utf8_points_encode[OF assms(1)])
qed

lemma text_decode_marked: "list_all scalar s \<Longrightarrow> text_decode (utf8_encode (0xFEFF # s)) = Some s"
  by (simp add: text_decode_def utf8_encode_Cons mark_bytes map_unat_encode utf8_points_encode)

section \<open>Numbers, hexadecimal and base64url\<close>

fun big_endian :: "nat \<Rightarrow> nat \<Rightarrow> bytes" where
  "big_endian 0 v = []"
| "big_endian (Suc k) v = big_endian k (v div 256) @ [of_nat (v mod 256)]"

declare big_endian.simps [simp del]

lemma length_big_endian [simp]: "length (big_endian k v) = k"
  by (induction k v rule: big_endian.induct) (simp_all add: big_endian.simps)

lemma big_endian_inj: "v < 256 ^ k \<Longrightarrow> w < 256 ^ k \<Longrightarrow> big_endian k v = big_endian k w \<Longrightarrow> v = w"
proof (induction k arbitrary: v w)
  case (Suc k)
  have "unat (of_nat (n mod 256) :: 8 word) = n mod 256" for n by (simp add: unat_of_nat)
  then have "v mod 256 = w mod 256" using Suc.prems(3) by (metis big_endian.simps(2) append1_eq_conv)
  moreover have "v div 256 = w div 256"
    using Suc by (simp add: big_endian.simps less_mult_imp_div_less mult.commute)
  ultimately show ?case by (metis div_mult_mod_eq)
qed simp

definition hex_digits :: string where
  "hex_digits = ''0123456789abcdef''"

definition hex_of :: "bytes \<Rightarrow> string" where
  "hex_of bs = concat (map (\<lambda>b. [hex_digits ! (unat b div 16), hex_digits ! (unat b mod 16)]) bs)"

lemma length_hex_of [simp]: "length (hex_of bs) = 2 * length bs"
  by (induction bs) (simp_all add: hex_of_def)

definition sextet :: "char \<Rightarrow> nat" where
  "sextet c = (let n = of_char c in
     if 65 \<le> n \<and> n \<le> 90 then n - 65 else if 97 \<le> n \<and> n \<le> 122 then n - 71
     else if 48 \<le> n \<and> n \<le> 57 then n + 4 else if c = CHR ''-'' then 62 else 63)"

definition sextet_char :: "nat \<Rightarrow> char" where
  "sextet_char n = (if n < 26 then char_of (n + 65) else if n < 52 then char_of (n + 71)
     else if n < 62 then char_of (n - 4) else if n = 62 then CHR ''-'' else CHR ''_'')"

fun base64url_chars :: "nat list \<Rightarrow> nat list" where
  "base64url_chars [] = []"
| "base64url_chars [a] = [a div 4, a mod 4 * 16]"
| "base64url_chars [a, b] = [a div 4, a mod 4 * 16 + b div 16, b mod 16 * 4]"
| "base64url_chars (a # b # c # ns) = [a div 4, a mod 4 * 16 + b div 16, b mod 16 * 4 + c div 64, c mod 64] @ base64url_chars ns"

fun base64url_bytes :: "nat list \<Rightarrow> nat list" where
  "base64url_bytes [] = []"
| "base64url_bytes [w] = []"
| "base64url_bytes [w, x] = [w * 4 + x div 16]"
| "base64url_bytes [w, x, y] = [w * 4 + x div 16, x mod 16 * 16 + y div 4]"
| "base64url_bytes (w # x # y # z # ns) = [w * 4 + x div 16, x mod 16 * 16 + y div 4, y mod 4 * 64 + z] @ base64url_bytes ns"

text \<open>\<open>toString("base64url")\<close>, and \<open>Buffer.from(s, "base64url")\<close> of text in the alphabet.\<close>

definition base64url :: "bytes \<Rightarrow> string" where
  "base64url bs = map sextet_char (base64url_chars (map unat bs))"

definition from_base64url :: "string \<Rightarrow> bytes" where
  "from_base64url s = map of_nat (base64url_bytes (map sextet s))"

lemma sextet_roundtrip: "n < 64 \<Longrightarrow> sextet (sextet_char n) = n"
proof -
  assume "n < 64"
  then consider "n < 26" | "26 \<le> n" "n < 52" | "52 \<le> n" "n < 62" | "n = 62" | "n = 63" by linarith
  then show "sextet (sextet_char n) = n"
    by cases (auto simp: sextet_def sextet_char_def Let_def)
qed

lemma base64url_chars_bound: "list_all (\<lambda>n. n < 256) ns \<Longrightarrow> list_all (\<lambda>n. n < 64) (base64url_chars ns)"
proof (induction ns rule: base64url_chars.induct)
  case (4 a b c ns)
  have "x mod 4 * 16 + y div 16 < 64" "x mod 16 * 4 + y div 64 < 64" if "y < 256" for x y :: nat
  proof -
    have "x mod 4 < 4" "x mod 16 < 16" "y div 16 < 16" "y div 64 < 4" using that by simp_all
    then show "x mod 4 * 16 + y div 16 < 64" "x mod 16 * 4 + y div 64 < 64" by linarith+
  qed
  then show ?case using 4 by auto
next
  case (3 a b)
  have "a mod 4 < 4" "b mod 16 < 16" "b div 16 < 16" "a div 4 < 64" using 3 by auto
  then show ?case by simp
qed auto

lemma base64url_bytes_chars: "list_all (\<lambda>n. n < 256) ns \<Longrightarrow> base64url_bytes (base64url_chars ns) = ns"
proof (induction ns rule: base64url_chars.induct)
  case (2 a)
  then show ?case by simp
next
  case (3 a b)
  have "a mod 4 < 4" "b div 16 < 16" using 3 by auto
  then show ?case by simp
next
  case (4 a b c ns)
  have "b div 16 < 16" "c div 64 < 4" using 4 by auto
  then show ?case using 4 by simp
qed simp

lemma from_base64url_inverse: "from_base64url (base64url bs) = bs"
proof -
  have bytes: "list_all (\<lambda>n. n < 256) (map unat bs)"
    using unsigned_less[of "_ :: 8 word", where 'a = nat] by (simp add: list_all_iff)
  have "map sextet (map sextet_char (base64url_chars (map unat bs))) = base64url_chars (map unat bs)"
    using base64url_chars_bound[OF bytes] by (simp add: map_idI list_all_iff sextet_roundtrip)
  then show ?thesis
    using base64url_bytes_chars[OF bytes] by (simp add: from_base64url_def base64url_def comp_def)
qed

end
