(* ===== verification/CallPii.thy ===== *)
theory CallPii
  imports Bytes Parsing Zones
begin

text \<open>
  The encryption of the personal data of call logs (\<open>call-pii-crypto.ts\<close>): the keyrings read from the
  environment, AES-256-GCM envelopes bound to their tenant, row and field, the blind index that finds
  a value without decrypting it, and row identities derived from the source of a call.

  HMAC-SHA-256 and AES-256-GCM are parameters; random nonces are arguments. A JavaScript number that
  holds a version is a natural number: the code refuses anything else before it uses it.
\<close>

section \<open>Primitives and errors\<close>

record ciphers =
  ci_hmac :: "bytes \<Rightarrow> bytes \<Rightarrow> bytes"
  ci_seal :: "bytes \<Rightarrow> bytes \<Rightarrow> bytes \<Rightarrow> bytes \<Rightarrow> bytes \<times> bytes"
  ci_open :: "bytes \<Rightarrow> bytes \<Rightarrow> bytes \<Rightarrow> bytes \<Rightarrow> bytes \<Rightarrow> bytes option"

text \<open>What the primitives promise: the lengths of their outputs, and that what is sealed opens.\<close>

definition ciphers_ok :: "ciphers \<Rightarrow> bool" where
  "ciphers_ok ci \<longleftrightarrow> (\<forall>k m. length (ci_hmac ci k m) = 32) \<and> (\<forall>k n a p. length (snd (ci_seal ci k n a p)) = 16)
     \<and> (\<forall>k n a p. ci_open ci k n a (fst (ci_seal ci k n a p)) (snd (ci_seal ci k n a p)) = Some p)"

datatype pii_error = CallPiiConfigurationError string | CallPiiDecryptionError | TypeError string | PlainError string

definition then_do :: "'e + 'a \<Rightarrow> ('a \<Rightarrow> 'e + 'b) \<Rightarrow> 'e + 'b" where
  "then_do m f = (case m of Inl e \<Rightarrow> Inl e | Inr x \<Rightarrow> f x)"

definition unless :: "bool \<Rightarrow> 'e \<Rightarrow> 'e + unit" where
  "unless bad e = (if bad then Inl e else Inr ())"

lemma then_do_Inr [simp]: "then_do m f = Inr y \<longleftrightarrow> (\<exists>x. m = Inr x \<and> f x = Inr y)"
  by (cases m) (simp_all add: then_do_def)

lemma then_do_pass [simp]: "then_do (Inr x) f = f x" "then_do (Inl e) f = Inl e"
  by (simp_all add: then_do_def)

lemma unless_Inr [simp]: "unless bad e = Inr u \<longleftrightarrow> \<not> bad"
  by (cases u) (simp add: unless_def)

lemma unless_pass [simp]: "\<not> bad \<Longrightarrow> unless bad e = Inr ()"
  by (simp add: unless_def)

section \<open>Keyrings\<close>

definition aes_key_bytes :: nat where "aes_key_bytes = 32"
definition gcm_nonce_bytes :: nat where "gcm_nonce_bytes = 12"
definition gcm_tag_bytes :: nat where "gcm_tag_bytes = 16"
definition max_key_versions :: nat where "max_key_versions = 32"
definition max_key_version :: nat where "max_key_version = 2147483647"
definition max_plaintext_bytes :: nat where "max_plaintext_bytes = 65536"

lemmas pii_limits = aes_key_bytes_def gcm_nonce_bytes_def gcm_tag_bytes_def max_key_versions_def
  max_key_version_def max_plaintext_bytes_def

type_synonym key_map = "(nat \<times> bytes) list"

record keyring_input =
  ki_encryptionKeys :: "string option"
  ki_activeKeyVersion :: "string option"
  ki_rowIdKey :: "string option"
  ki_blindIndexKeys :: "string option"
  ki_activeBlindIndexKeyVersion :: "string option"

record keyring =
  kr_activeKeyVersion :: nat
  kr_activeBlindIndexKeyVersion :: nat
  kr_encryptionKeys :: key_map
  kr_blindIndexKeys :: key_map
  kr_rowIdKey :: bytes

abbreviation encryptionKey :: "keyring \<Rightarrow> nat \<Rightarrow> bytes option" where
  "encryptionKey kr v \<equiv> map_of (kr_encryptionKeys kr) v"

abbreviation blindIndexKey :: "keyring \<Rightarrow> nat \<Rightarrow> bytes option" where
  "blindIndexKey kr v \<equiv> map_of (kr_blindIndexKeys kr) v"

definition configuredBlindIndexVersions :: "keyring \<Rightarrow> nat list" where
  "configuredBlindIndexVersions kr = sort (map fst (kr_blindIndexKeys kr))"

text \<open>\<open>/^[1-9][0-9]{0,9}$/\<close>\<close>

definition version_text :: "string \<Rightarrow> bool" where
  "version_text s = (case s of [] \<Rightarrow> False | c # cs \<Rightarrow> is_digit c \<and> c \<noteq> CHR ''0'' \<and> list_all is_digit cs \<and> length cs \<le> 9)"

definition parseVersion :: "string option \<Rightarrow> string \<Rightarrow> pii_error + nat" where
  "parseVersion value name = (case value of
      None \<Rightarrow> Inl (CallPiiConfigurationError (name @ '' must be a canonical positive integer''))
    | Some s \<Rightarrow>
        if \<not> version_text s then Inl (CallPiiConfigurationError (name @ '' must be a canonical positive integer''))
        else if max_key_version < undecimal s then Inl (CallPiiConfigurationError (name @ '' is outside the supported range''))
        else Inr (undecimal s))"

definition decodeKey :: "string option \<Rightarrow> string \<Rightarrow> pii_error + bytes" where
  "decodeKey value name = (case value of
      None \<Rightarrow> Inl (CallPiiConfigurationError (name @ '' must be an unpadded base64url-encoded 32-byte key''))
    | Some s \<Rightarrow>
        if \<not> fits (replicate 43 is_base64url) s
        then Inl (CallPiiConfigurationError (name @ '' must be an unpadded base64url-encoded 32-byte key''))
        else if length (from_base64url s) \<noteq> aes_key_bytes \<or> base64url (from_base64url s) \<noteq> s
        then Inl (CallPiiConfigurationError (name @ '' must be a canonical 32-byte key''))
        else Inr (from_base64url s))"

text \<open>The body of the loop over the entries. Key material is compared by its hexadecimal form.\<close>

definition parse_entry :: "string \<Rightarrow> string \<Rightarrow> key_map \<Rightarrow> pii_error + key_map" where
  "parse_entry environmentName entry ks = (case split_on (CHR '':'') entry of
      [v, k] \<Rightarrow>
        then_do (parseVersion (Some v) (environmentName @ '' key version'')) (\<lambda>version.
        then_do (unless (map_of ks version \<noteq> None)
          (CallPiiConfigurationError (''Duplicate '' @ environmentName @ '' key version '' @ decimal version))) (\<lambda>_.
        then_do (decodeKey (Some k) (environmentName @ '' key '' @ decimal version)) (\<lambda>key.
        then_do (unless (hex_of key \<in> set (map (hex_of \<circ> snd) ks))
          (CallPiiConfigurationError (environmentName @ '' key material must not be reused across versions''))) (\<lambda>_.
        Inr (ks @ [(version, key)])))))
    | _ \<Rightarrow> Inl (CallPiiConfigurationError (''Each '' @ environmentName @ '' entry must be `<version>:<base64url-key>`'')))"

fun parse_entries :: "string \<Rightarrow> string list \<Rightarrow> key_map \<Rightarrow> pii_error + key_map" where
  "parse_entries environmentName [] ks = Inr ks"
| "parse_entries environmentName (entry # entries) ks =
     then_do (parse_entry environmentName entry ks) (parse_entries environmentName entries)"

definition parseVersionedKeys :: "string option \<Rightarrow> string \<Rightarrow> pii_error + key_map" where
  "parseVersionedKeys serialized environmentName = (case serialized of
      None \<Rightarrow> Inl (CallPiiConfigurationError (environmentName @ '' is required and must not contain outer whitespace''))
    | Some s \<Rightarrow>
        if s = [] \<or> s \<noteq> js_trim s
        then Inl (CallPiiConfigurationError (environmentName @ '' is required and must not contain outer whitespace''))
        else let entries = split_on (CHR '','') s in
          if entries = [] \<or> max_key_versions < length entries
          then Inl (CallPiiConfigurationError (environmentName @ '' must contain between 1 and '' @ decimal max_key_versions @ '' keys''))
          else parse_entries environmentName entries [])"

definition validateActiveVersion :: "key_map \<Rightarrow> string option \<Rightarrow> string \<Rightarrow> string \<Rightarrow> pii_error + nat" where
  "validateActiveVersion ks serializedActiveVersion environmentName keyringEnvironmentName =
     then_do (parseVersion serializedActiveVersion environmentName) (\<lambda>v.
     then_do (unless (map_of ks v = None) (CallPiiConfigurationError (environmentName @ '' is not present in '' @ keyringEnvironmentName))) (\<lambda>_.
     then_do (unless (v \<noteq> foldr max (map fst ks) 0)
       (CallPiiConfigurationError (environmentName @ '' must be the highest configured key version''))) (\<lambda>_.
     Inr v)))"

text \<open>The loop over both rings that refuses key material seen before.\<close>

fun separate_keys :: "(string \<times> bytes) list \<Rightarrow> string list \<Rightarrow> pii_error + string list" where
  "separate_keys [] seen = Inr seen"
| "separate_keys ((purpose, key) # ks) seen =
     (if hex_of key \<in> set seen
      then Inl (CallPiiConfigurationError (''Call-log PII '' @ purpose @ '' key material must be independent across keyrings''))
      else separate_keys ks (seen @ [hex_of key]))"

definition parseCallPiiKeyring :: "keyring_input \<Rightarrow> pii_error + keyring" where
  "parseCallPiiKeyring input =
     then_do (parseVersionedKeys (ki_encryptionKeys input) ''CALL_PII_ENCRYPTION_KEYS'') (\<lambda>encryptionKeys.
     then_do (validateActiveVersion encryptionKeys (ki_activeKeyVersion input) ''CALL_PII_ACTIVE_KEY_VERSION''
       ''CALL_PII_ENCRYPTION_KEYS'') (\<lambda>activeKeyVersion.
     then_do (parseVersionedKeys (ki_blindIndexKeys input) ''CALL_PII_BLIND_INDEX_KEYS'') (\<lambda>blindIndexKeys.
     then_do (validateActiveVersion blindIndexKeys (ki_activeBlindIndexKeyVersion input)
       ''CALL_PII_ACTIVE_BLIND_INDEX_KEY_VERSION'' ''CALL_PII_BLIND_INDEX_KEYS'') (\<lambda>activeBlindIndexKeyVersion.
     then_do (decodeKey (ki_rowIdKey input) ''CALL_PII_ROW_ID_KEY'') (\<lambda>rowIdKey.
     then_do (separate_keys (map (\<lambda>e. (''encryption'', snd e)) encryptionKeys @ map (\<lambda>e. (''blind-index'', snd e)) blindIndexKeys) [])
       (\<lambda>allFingerprints.
     then_do (unless (hex_of rowIdKey \<in> set allFingerprints) (CallPiiConfigurationError
       ''CALL_PII_ROW_ID_KEY must be independent from every encryption and blind-index key'')) (\<lambda>_.
     Inr \<lparr>kr_activeKeyVersion = activeKeyVersion, kr_activeBlindIndexKeyVersion = activeBlindIndexKeyVersion,
       kr_encryptionKeys = encryptionKeys, kr_blindIndexKeys = blindIndexKeys, kr_rowIdKey = rowIdKey\<rparr>)))))))"

section \<open>Contexts and what is authenticated\<close>

record pii_context =
  px_organizationId :: string
  px_rowId :: string
  px_field :: string

record encrypted_field =
  ef_formatVersion :: nat
  ef_keyVersion :: nat
  ef_blindIndexKeyVersion :: nat
  ef_nonce :: bytes
  ef_ciphertext :: bytes
  ef_blindIndex :: bytes

definition canonicalUuid :: "string \<Rightarrow> string \<Rightarrow> pii_error + string" where
  "canonicalUuid value name =
     (if canonical_uuid value then Inr (map ascii_lower value) else Inl (TypeError (name @ '' must be a canonical UUID'')))"

definition pii_fields :: "string list" where
  "pii_fields = [''phone_number'', ''alternate_phone_number'', ''contact_name'']"

definition assertField :: "string \<Rightarrow> pii_error + unit" where
  "assertField f = unless (f \<notin> set pii_fields) (TypeError ''Call-log PII field is unsupported'')"

definition lengthPrefixedBuffer :: "bytes \<Rightarrow> bytes" where
  "lengthPrefixedBuffer v = big_endian 4 (length v) @ v"

definition lengthPrefixed :: "string \<Rightarrow> bytes" where
  "lengthPrefixed s = lengthPrefixedBuffer (utf8 s)"

text \<open>The fields of the authenticated data, in order, each with its length in front.\<close>

definition authenticated_fields :: "string \<Rightarrow> string \<Rightarrow> string \<Rightarrow> nat \<Rightarrow> nat \<Rightarrow> nat \<Rightarrow> bytes \<Rightarrow> bytes list" where
  "authenticated_fields organizationId rowId fieldName formatVersion keyVersion blindIndexKeyVersion blindIndex =
     map utf8 ([''callora:call-log-pii:aes-256-gcm'', decimal formatVersion, decimal keyVersion]
       @ (if formatVersion = 2 then [decimal blindIndexKeyVersion] else []) @ [organizationId, rowId, fieldName])
     @ [blindIndex]"

definition authenticatedData :: "pii_context \<Rightarrow> nat \<Rightarrow> nat \<Rightarrow> nat \<Rightarrow> bytes \<Rightarrow> pii_error + bytes" where
  "authenticatedData cx formatVersion keyVersion blindIndexKeyVersion blindIndex =
     then_do (assertField (px_field cx)) (\<lambda>_.
     then_do (canonicalUuid (px_organizationId cx) ''organizationId'') (\<lambda>organizationId.
     then_do (canonicalUuid (px_rowId cx) ''rowId'') (\<lambda>rowId.
     then_do (unless (formatVersion \<notin> {1, 2}) (PlainError ''Unsupported encrypted envelope format'')) (\<lambda>_.
     Inr (concat (map lengthPrefixedBuffer
       (authenticated_fields organizationId rowId (px_field cx) formatVersion keyVersion blindIndexKeyVersion blindIndex)))))))"

definition deriveFieldKey :: "ciphers \<Rightarrow> bytes \<Rightarrow> string \<Rightarrow> nat \<Rightarrow> bytes" where
  "deriveFieldKey ci masterKey fieldName formatVersion =
     ci_hmac ci masterKey (utf8 (''callora:call-log-pii:field-key:v'' @ decimal formatVersion @ '':'' @ fieldName))"

definition plaintextBuffer :: "js_text \<Rightarrow> pii_error + bytes" where
  "plaintextBuffer value = (let encoded = utf8_encode value in
     if max_plaintext_bytes < length encoded
     then Inl (TypeError (''Call-log PII plaintext exceeds '' @ decimal max_plaintext_bytes @ '' bytes'')) else Inr encoded)"

section \<open>Operations\<close>

record row_identity =
  ri_organizationId :: string
  ri_source :: string
  ri_deviceId :: "string option"
  ri_externalId :: js_text

definition row_sources :: "string list" where
  "row_sources = [''mobile_call_log'', ''manual'', ''telephony_provider'', ''import'']"

definition row_message :: "string \<Rightarrow> string \<Rightarrow> string \<Rightarrow> js_text \<Rightarrow> bytes" where
  "row_message organizationId source deviceId externalId =
     concat (map lengthPrefixedBuffer
       [utf8 ''callora:call-log-row-id:v1'', utf8 organizationId, utf8 source, utf8 deviceId, utf8_encode externalId])"

text \<open>The version and variant bits of a UUID of version eight, and its text.\<close>

definition uuid_bits :: "bytes \<Rightarrow> bytes" where
  "uuid_bits bs = bs[6 := (bs ! 6 AND 0x0F) OR 0x80, 8 := (bs ! 8 AND 0x3F) OR 0x80]"

definition slice :: "nat \<Rightarrow> nat \<Rightarrow> 'a list \<Rightarrow> 'a list" where
  "slice a b xs = take (b - a) (drop a xs)"

definition uuid_text :: "bytes \<Rightarrow> string" where
  "uuid_text bs = (let h = hex_of bs in
     slice 0 8 h @ ''-'' @ slice 8 12 h @ ''-'' @ slice 12 16 h @ ''-'' @ slice 16 20 h @ ''-'' @ drop 20 h)"

definition deriveRowId :: "ciphers \<Rightarrow> keyring \<Rightarrow> row_identity \<Rightarrow> pii_error + string" where
  "deriveRowId ci kr ri =
     then_do (canonicalUuid (ri_organizationId ri) ''organizationId'') (\<lambda>organizationId.
     then_do (unless (ri_externalId ri = [] \<or> max_plaintext_bytes < length (utf8_encode (ri_externalId ri)))
       (TypeError ''Call-log externalId must be a non-empty bounded string'')) (\<lambda>_.
     then_do (unless (ri_source ri \<notin> set row_sources) (TypeError ''Call-log source is unsupported'')) (\<lambda>_.
     then_do (case ri_deviceId ri of None \<Rightarrow> Inr [] | Some d \<Rightarrow> canonicalUuid d ''deviceId'') (\<lambda>deviceId.
     Inr (uuid_text (uuid_bits (take 16 (ci_hmac ci (kr_rowIdKey kr)
       (row_message organizationId (ri_source ri) deviceId (ri_externalId ri)))))))))) "

definition index_domain :: "nat \<Rightarrow> string \<Rightarrow> string" where
  "index_domain keyVersion fieldName =
     (if keyVersion = 1 then ''callora:call-log-pii:blind-index-key:v1:'' @ fieldName
      else ''callora:call-log-pii:blind-index-key:v2:'' @ decimal keyVersion @ '':'' @ fieldName)"

definition index_message :: "string \<Rightarrow> string \<Rightarrow> bytes \<Rightarrow> bytes" where
  "index_message organizationId fieldName encoded = lengthPrefixed organizationId @ lengthPrefixed fieldName @ encoded"

definition computeBlindIndex :: "ciphers \<Rightarrow> keyring \<Rightarrow> string \<Rightarrow> string \<Rightarrow> js_text \<Rightarrow> nat \<Rightarrow> pii_error + bytes" where
  "computeBlindIndex ci kr orgId fieldName normalizedValue keyVersion =
     then_do (assertField fieldName) (\<lambda>_.
     then_do (canonicalUuid orgId ''organizationId'') (\<lambda>organizationId.
     then_do (unless (keyVersion = 0) (CallPiiConfigurationError ''Blind-index key version must be a positive integer'')) (\<lambda>_.
     then_do (plaintextBuffer normalizedValue) (\<lambda>encoded.
     case blindIndexKey kr keyVersion of
       None \<Rightarrow> Inl (CallPiiConfigurationError ''Blind-index key version is not configured'')
     | Some masterKey \<Rightarrow>
         Inr (ci_hmac ci (ci_hmac ci masterKey (utf8 (index_domain keyVersion fieldName))) (index_message organizationId fieldName encoded))))))"

definition encryptField :: "ciphers \<Rightarrow> keyring \<Rightarrow> bytes \<Rightarrow> pii_context \<Rightarrow> js_text \<Rightarrow> pii_error + encrypted_field" where
  "encryptField ci kr nonce cx plaintext =
     (let keyVersion = kr_activeKeyVersion kr; blindIndexKeyVersion = kr_activeBlindIndexKeyVersion kr in
     then_do (assertField (px_field cx)) (\<lambda>_.
     case encryptionKey kr keyVersion of
       None \<Rightarrow> Inl (CallPiiConfigurationError ''The active PII encryption key disappeared'')
     | Some masterKey \<Rightarrow>
         then_do (plaintextBuffer plaintext) (\<lambda>encoded.
         then_do (computeBlindIndex ci kr (px_organizationId cx) (px_field cx) plaintext blindIndexKeyVersion) (\<lambda>blindIndex.
         then_do (authenticatedData cx 2 keyVersion blindIndexKeyVersion blindIndex) (\<lambda>aad.
         let (encrypted, tag) = ci_seal ci (deriveFieldKey ci masterKey (px_field cx) 2) nonce aad encoded in
         Inr \<lparr>ef_formatVersion = 2, ef_keyVersion = keyVersion, ef_blindIndexKeyVersion = blindIndexKeyVersion,
           ef_nonce = nonce, ef_ciphertext = encrypted @ tag, ef_blindIndex = blindIndex\<rparr>)))))"

definition envelope_ok :: "encrypted_field \<Rightarrow> bool" where
  "envelope_ok e \<longleftrightarrow> ef_formatVersion e \<in> {1, 2} \<and> 0 < ef_keyVersion e \<and> 0 < ef_blindIndexKeyVersion e
     \<and> (ef_formatVersion e = 1 \<longrightarrow> ef_blindIndexKeyVersion e = 1) \<and> length (ef_nonce e) = gcm_nonce_bytes
     \<and> gcm_tag_bytes \<le> length (ef_ciphertext e) \<and> length (ef_blindIndex e) = 32"

text \<open>What runs between \<open>try\<close> and \<open>catch\<close>, and the one error every failure becomes.\<close>

definition decrypt_attempt :: "ciphers \<Rightarrow> keyring \<Rightarrow> pii_context \<Rightarrow> encrypted_field \<Rightarrow> pii_error + js_text" where
  "decrypt_attempt ci kr cx e =
     then_do (assertField (px_field cx)) (\<lambda>_.
     then_do (unless (\<not> envelope_ok e) (PlainError ''Invalid encrypted envelope'')) (\<lambda>_.
     case encryptionKey kr (ef_keyVersion e) of
       None \<Rightarrow> Inl (PlainError ''Unknown key version'')
     | Some masterKey \<Rightarrow>
         then_do (unless (blindIndexKey kr (ef_blindIndexKeyVersion e) = None) (PlainError ''Unknown key version'')) (\<lambda>_.
         let n = length (ef_ciphertext e) - gcm_tag_bytes in
         then_do (authenticatedData cx (ef_formatVersion e) (ef_keyVersion e) (ef_blindIndexKeyVersion e) (ef_blindIndex e)) (\<lambda>aad.
         case ci_open ci (deriveFieldKey ci masterKey (px_field cx) (ef_formatVersion e)) (ef_nonce e) aad
             (take n (ef_ciphertext e)) (drop n (ef_ciphertext e)) of
           None \<Rightarrow> Inl (PlainError ''Unsupported state or unable to authenticate data'')
         | Some bs \<Rightarrow>
             (case text_decode bs of
                None \<Rightarrow> Inl (TypeError ''The encoded data was not valid for encoding utf-8'')
              | Some plaintext \<Rightarrow>
                  then_do (computeBlindIndex ci kr (px_organizationId cx) (px_field cx) plaintext (ef_blindIndexKeyVersion e)) (\<lambda>expected.
                  then_do (unless (expected \<noteq> ef_blindIndex e) (PlainError ''Blind index does not match authenticated plaintext'')) (\<lambda>_.
                  Inr plaintext)))))))"

definition decryptField :: "ciphers \<Rightarrow> keyring \<Rightarrow> pii_context \<Rightarrow> encrypted_field \<Rightarrow> pii_error + js_text" where
  "decryptField ci kr cx e = (case decrypt_attempt ci kr cx e of Inl _ \<Rightarrow> Inl CallPiiDecryptionError | Inr p \<Rightarrow> Inr p)"

text \<open>One lookup value per configured key, the newest first.\<close>

definition computeBlindIndexCandidates :: "ciphers \<Rightarrow> keyring \<Rightarrow> string \<Rightarrow> string \<Rightarrow> js_text \<Rightarrow> pii_error + (nat \<times> bytes) list" where
  "computeBlindIndexCandidates ci kr orgId fieldName v =
     foldr (\<lambda>k acc. then_do (computeBlindIndex ci kr orgId fieldName v k) (\<lambda>i. then_do acc (\<lambda>rest. Inr ((k, i) # rest))))
       (rev (configuredBlindIndexVersions kr)) (Inr [])"

end
