(* ===== verification/PiiMigration.thy ===== *)
theory PiiMigration
  imports CallPii
begin

text \<open>
  The migration tool of the call-log data (\<open>tools/call-pii-backfill.ts\<close>) over the table it works on: it
  seals rows that still hold plaintext, moves sealed rows to the active keys, and verifies. Every batch is
  a transaction: what it throws leaves the table as it was. The functions it calls in the database
  (\<open>claim_call_pii_backfill_batch\<close>, \<open>backfill_call_pii_encrypted\<close>, \<open>claim_call_pii_rotation_batch\<close>,
  \<open>rotate_call_pii_encrypted\<close>) are in the migrations 0011 and 0012. One worker runs at a time, so no row is
  locked by another. Random nonces come from a numbered source.
\<close>

section \<open>The table\<close>

record sealed_columns =
  sc_ciphertext :: "bytes option"
  sc_nonce :: "bytes option"
  sc_blindIndex :: "bytes option"

record call_row =
  cl_id :: string
  cl_organizationId :: string
  cl_phone :: "js_text option"
  cl_contact :: "js_text option"
  cl_formatVersion :: "nat option"
  cl_keyVersion :: "nat option"
  cl_blindIndexKeyVersion :: "nat option"
  cl_phoneSealed :: sealed_columns
  cl_contactSealed :: sealed_columns

record ledger =
  lg_rows :: "call_row list"
  lg_nonces :: nat

definition no_columns :: sealed_columns where
  "no_columns = \<lparr>sc_ciphertext = None, sc_nonce = None, sc_blindIndex = None\<rparr>"

definition seal_columns :: "encrypted_field \<Rightarrow> sealed_columns" where
  "seal_columns e = \<lparr>sc_ciphertext = Some (ef_ciphertext e), sc_nonce = Some (ef_nonce e), sc_blindIndex = Some (ef_blindIndex e)\<rparr>"

definition columns_valid :: "nat \<Rightarrow> sealed_columns \<Rightarrow> bool" where
  "columns_valid least c = (case (sc_ciphertext c, sc_nonce c, sc_blindIndex c) of
     (Some t, Some n, Some i) \<Rightarrow> least \<le> length t \<and> length t \<le> 65552 \<and> length n = 12 \<and> length i = 32 | _ \<Rightarrow> False)"

text \<open>The constraint \<open>call_logs_pii_representation_valid\<close>; \<open>btrim\<close> strips spaces.\<close>

definition representation_valid :: "call_row \<Rightarrow> bool" where
  "representation_valid r \<longleftrightarrow>
     (cl_formatVersion r = None \<and> cl_keyVersion r = None \<and> cl_blindIndexKeyVersion r = None
       \<and> (case cl_phone r of None \<Rightarrow> False | Some p \<Rightarrow> \<not> list_all (\<lambda>c. c = 32) p)
       \<and> cl_phoneSealed r = no_columns \<and> cl_contactSealed r = no_columns)
     \<or> ((case (cl_formatVersion r, cl_keyVersion r, cl_blindIndexKeyVersion r) of
           (Some f, Some k, Some b) \<Rightarrow> (f = 1 \<and> b = 1 \<or> f = 2 \<and> 0 < b) \<and> 0 < k | _ \<Rightarrow> False)
       \<and> cl_phone r = None \<and> cl_contact r = None \<and> columns_valid 17 (cl_phoneSealed r)
       \<and> (cl_contactSealed r = no_columns \<or> columns_valid 16 (cl_contactSealed r)))"

text \<open>An update of the rows that match, its number of rows, and the constraint on what it wrote.\<close>

definition sql_update :: "(call_row \<Rightarrow> bool) \<Rightarrow> (call_row \<Rightarrow> call_row) \<Rightarrow> call_row list \<Rightarrow> pii_error + nat \<times> call_row list" where
  "sql_update hit f rows =
     (if list_all (\<lambda>r. hit r \<longrightarrow> representation_valid (f r)) rows
      then Inr (length (filter hit rows), map (\<lambda>r. if hit r then f r else r) rows)
      else Inl (PlainError ''new row for relation violates check constraint call_logs_pii_representation_valid''))"

definition row_key :: "call_row \<Rightarrow> string \<times> string" where
  "row_key r = (cl_organizationId r, cl_id r)"

section \<open>The functions of the database\<close>

definition legacy_row :: "string \<Rightarrow> call_row \<Rightarrow> bool" where
  "legacy_row orgId r \<longleftrightarrow> cl_organizationId r = orgId \<and> cl_formatVersion r = None \<and> cl_phone r \<noteq> None"

text \<open>A comparison with a column that is null is not true.\<close>

definition differs :: "nat option \<Rightarrow> nat \<Rightarrow> bool" where
  "differs c v = (case c of None \<Rightarrow> False | Some x \<Rightarrow> x \<noteq> v)"

definition retired_row :: "string \<Rightarrow> nat \<Rightarrow> nat \<Rightarrow> nat \<Rightarrow> call_row \<Rightarrow> bool" where
  "retired_row orgId f k b r \<longleftrightarrow> cl_organizationId r = orgId \<and> cl_formatVersion r \<noteq> None
     \<and> (differs (cl_formatVersion r) f \<or> differs (cl_keyVersion r) k \<or> differs (cl_blindIndexKeyVersion r) b)"

definition claim_batch :: "(call_row \<Rightarrow> bool) \<Rightarrow> nat \<Rightarrow> call_row list \<Rightarrow> pii_error + call_row list" where
  "claim_batch wanted n rows =
     then_do (unless (n < 1 \<or> 500 < n) (PlainError ''call PII batch size is invalid'')) (\<lambda>_.
     Inr (take n (sort_key cl_id (filter wanted rows))))"

text \<open>The trigger \<open>normalize_call_pii_blind_index_key_version\<close>: format one means the first key.\<close>

definition normalized_index_version :: "nat \<Rightarrow> nat \<Rightarrow> nat" where
  "normalized_index_version f b = (if f = 1 then 1 else b)"

definition sealed_row :: "encrypted_field \<Rightarrow> encrypted_field option \<Rightarrow> call_row \<Rightarrow> call_row" where
  "sealed_row phone contact r = r\<lparr>cl_phone := None, cl_contact := None, cl_formatVersion := Some (ef_formatVersion phone),
     cl_keyVersion := Some (ef_keyVersion phone),
     cl_blindIndexKeyVersion := Some (normalized_index_version (ef_formatVersion phone) (ef_blindIndexKeyVersion phone)),
     cl_phoneSealed := seal_columns phone,
     cl_contactSealed := (case contact of None \<Rightarrow> no_columns | Some c \<Rightarrow> seal_columns c)\<rparr>"

definition backfill_call_pii_encrypted ::
  "string \<Rightarrow> string \<Rightarrow> encrypted_field \<Rightarrow> encrypted_field option \<Rightarrow> call_row list \<Rightarrow> pii_error + nat \<times> call_row list" where
  "backfill_call_pii_encrypted orgId rowId phone contact rows =
     then_do (unless (ef_blindIndexKeyVersion phone < 1) (PlainError ''blind-index key version is invalid'')) (\<lambda>_.
     sql_update (\<lambda>r. cl_id r = rowId \<and> legacy_row orgId r) (sealed_row phone contact) rows)"

definition rotate_call_pii_encrypted ::
  "string \<Rightarrow> string \<Rightarrow> nat \<Rightarrow> nat \<Rightarrow> nat \<Rightarrow> encrypted_field \<Rightarrow> encrypted_field option \<Rightarrow> call_row list \<Rightarrow> pii_error + nat \<times> call_row list" where
  "rotate_call_pii_encrypted orgId rowId f k b phone contact rows =
     then_do (unless (ef_formatVersion phone \<noteq> 2 \<or> ef_keyVersion phone < 1 \<or> ef_blindIndexKeyVersion phone < 1)
       (PlainError ''call PII rotation target is invalid'')) (\<lambda>_.
     sql_update (\<lambda>r. cl_organizationId r = orgId \<and> cl_id r = rowId \<and> cl_formatVersion r = Some f \<and> cl_keyVersion r = Some k
       \<and> cl_blindIndexKeyVersion r = Some b \<and> cl_phone r = None \<and> cl_contact r = None) (sealed_row phone contact) rows)"

section \<open>The tool\<close>

record migrator =
  mg_ciphers :: ciphers
  mg_keyring :: keyring
  mg_random :: "nat \<Rightarrow> bytes"
  mg_organizationId :: string
  mg_batchSize :: nat

definition row_context :: "string \<Rightarrow> string \<Rightarrow> string \<Rightarrow> pii_context" where
  "row_context orgId rowId fieldName = \<lparr>px_organizationId = orgId, px_rowId = rowId, px_field = fieldName\<rparr>"

text \<open>Encrypting a field of a row with the next nonce, when there is one.\<close>

definition seal_with :: "migrator \<Rightarrow> nat \<Rightarrow> string \<Rightarrow> string \<Rightarrow> js_text \<Rightarrow> pii_error + encrypted_field" where
  "seal_with mg i rowId fieldName v =
     encryptField (mg_ciphers mg) (mg_keyring mg) (mg_random mg i) (row_context (mg_organizationId mg) rowId fieldName) v"

definition seal_optional :: "migrator \<Rightarrow> nat \<Rightarrow> string \<Rightarrow> string \<Rightarrow> js_text option \<Rightarrow> pii_error + encrypted_field option" where
  "seal_optional mg i rowId fieldName v = (case v of None \<Rightarrow> Inr None | Some t \<Rightarrow> map_sum id Some (seal_with mg i rowId fieldName t))"

definition misplaced :: "migrator \<Rightarrow> call_row \<Rightarrow> bool" where
  "misplaced mg r \<longleftrightarrow> \<not> canonical_uuid (cl_id r) \<or> map ascii_lower (cl_organizationId r) \<noteq> mg_organizationId mg"

definition backfill_row :: "migrator \<Rightarrow> call_row \<Rightarrow> ledger \<Rightarrow> pii_error + ledger" where
  "backfill_row mg r s = (case cl_phone r of
      None \<Rightarrow> Inl (PlainError ''Legacy call-log PII row has an invalid shape'')
    | Some p \<Rightarrow>
        then_do (unless (misplaced mg r) (PlainError ''Legacy call-log PII row has an invalid shape'')) (\<lambda>_.
        then_do (seal_with mg (lg_nonces s) (cl_id r) ''phone_number'' p) (\<lambda>phone.
        then_do (seal_optional mg (lg_nonces s + 1) (cl_id r) ''contact_name'' (cl_contact r)) (\<lambda>contact.
        then_do (backfill_call_pii_encrypted (mg_organizationId mg) (cl_id r) phone contact (lg_rows s)) (\<lambda>(n, rows).
        then_do (unless (n \<noteq> 1) (PlainError ''Locked call-log PII row changed before encryption'')) (\<lambda>_.
        Inr \<lparr>lg_rows = rows, lg_nonces = lg_nonces s + 2\<rparr>))))))"

definition encryptedField :: "nat \<Rightarrow> nat \<Rightarrow> nat \<Rightarrow> bool \<Rightarrow> sealed_columns \<Rightarrow> pii_error + encrypted_field option" where
  "encryptedField f k b optional c = (case (sc_ciphertext c, sc_nonce c, sc_blindIndex c) of
      (Some t, Some n, Some i) \<Rightarrow> Inr (Some \<lparr>ef_formatVersion = f, ef_keyVersion = k, ef_blindIndexKeyVersion = b, ef_nonce = n,
          ef_ciphertext = t, ef_blindIndex = i\<rparr>)
    | (None, None, None) \<Rightarrow> if optional then Inr None else Inl (PlainError ''Encrypted call-log PII row has an incomplete envelope'')
    | _ \<Rightarrow> Inl (PlainError ''Encrypted call-log PII row has an incomplete envelope''))"

definition row_versions :: "string \<Rightarrow> migrator \<Rightarrow> call_row \<Rightarrow> pii_error + nat \<times> nat \<times> nat" where
  "row_versions complaint mg r = (case (cl_formatVersion r, cl_keyVersion r, cl_blindIndexKeyVersion r) of
      (Some f, Some k, Some b) \<Rightarrow> if misplaced mg r then Inl (PlainError complaint) else Inr (f, k, b)
    | _ \<Rightarrow> Inl (PlainError complaint))"

definition open_with :: "migrator \<Rightarrow> string \<Rightarrow> string \<Rightarrow> encrypted_field \<Rightarrow> pii_error + js_text" where
  "open_with mg rowId fieldName e =
     decryptField (mg_ciphers mg) (mg_keyring mg) (row_context (mg_organizationId mg) rowId fieldName) e"

definition open_optional :: "migrator \<Rightarrow> string \<Rightarrow> string \<Rightarrow> encrypted_field option \<Rightarrow> pii_error + js_text option" where
  "open_optional mg rowId fieldName e = (case e of None \<Rightarrow> Inr None | Some x \<Rightarrow> map_sum id Some (open_with mg rowId fieldName x))"

definition rotate_row :: "migrator \<Rightarrow> call_row \<Rightarrow> ledger \<Rightarrow> pii_error + ledger" where
  "rotate_row mg r s =
     then_do (row_versions ''Encrypted call-log PII rotation row has an invalid shape'' mg r) (\<lambda>(f, k, b).
     then_do (encryptedField f k b False (cl_phoneSealed r)) (\<lambda>phoneEnvelope.
     case phoneEnvelope of None \<Rightarrow> Inl (PlainError ''Encrypted call-log PII row is missing phone data'')
     | Some pe \<Rightarrow>
        then_do (open_with mg (cl_id r) ''phone_number'' pe) (\<lambda>p.
        then_do (seal_with mg (lg_nonces s) (cl_id r) ''phone_number'' p) (\<lambda>phone.
        then_do (encryptedField f k b True (cl_contactSealed r)) (\<lambda>contactEnvelope.
        then_do (open_optional mg (cl_id r) ''contact_name'' contactEnvelope) (\<lambda>c.
        then_do (seal_optional mg (lg_nonces s + 1) (cl_id r) ''contact_name'' c) (\<lambda>contact.
        then_do (unless (case contact of None \<Rightarrow> False | Some e \<Rightarrow> ef_keyVersion e \<noteq> ef_keyVersion phone
              \<or> ef_blindIndexKeyVersion e \<noteq> ef_blindIndexKeyVersion phone \<or> ef_formatVersion e \<noteq> ef_formatVersion phone)
            (PlainError ''Call-log PII fields were encrypted with mixed active keys'')) (\<lambda>_.
        then_do (rotate_call_pii_encrypted (mg_organizationId mg) (cl_id r) f k b phone contact (lg_rows s)) (\<lambda>(n, rows).
        then_do (unless (n \<noteq> 1) (PlainError ''Locked call-log PII row changed before key rotation'')) (\<lambda>_.
        Inr \<lparr>lg_rows = rows, lg_nonces = lg_nonces s + 2\<rparr>))))))))))"

text \<open>A batch: claim rows, treat each; and the loop that runs batches until one is short.\<close>

fun treat_rows :: "(call_row \<Rightarrow> ledger \<Rightarrow> pii_error + ledger) \<Rightarrow> call_row list \<Rightarrow> ledger \<Rightarrow> pii_error + ledger" where
  "treat_rows treat [] s = Inr s"
| "treat_rows treat (r # rs) s = then_do (treat r s) (treat_rows treat rs)"

definition run_batch ::
  "(call_row \<Rightarrow> bool) \<Rightarrow> (call_row \<Rightarrow> ledger \<Rightarrow> pii_error + ledger) \<Rightarrow> nat \<Rightarrow> ledger \<Rightarrow> (pii_error + nat) \<times> ledger" where
  "run_batch wanted treat n s =
     (case then_do (claim_batch wanted n (lg_rows s)) (\<lambda>selected.
        then_do (treat_rows treat selected s) (\<lambda>s'. Inr (length selected, s'))) of
        Inl e \<Rightarrow> (Inl e, s) | Inr (k, s') \<Rightarrow> (Inr k, s'))"

fun run_batches ::
  "nat \<Rightarrow> (call_row \<Rightarrow> bool) \<Rightarrow> (call_row \<Rightarrow> ledger \<Rightarrow> pii_error + ledger) \<Rightarrow> nat \<Rightarrow> nat \<Rightarrow> ledger
     \<Rightarrow> ((pii_error + nat) \<times> ledger) option" where
  "run_batches 0 wanted treat n done_so_far s = None"
| "run_batches (Suc fuel) wanted treat n done_so_far s = (case run_batch wanted treat n s of
      (Inl e, s') \<Rightarrow> Some (Inl e, s')
    | (Inr k, s') \<Rightarrow> if k < n then Some (Inr (done_so_far + k), s') else run_batches fuel wanted treat n (done_so_far + k) s')"

definition active_versions :: "migrator \<Rightarrow> nat \<times> nat" where
  "active_versions mg = (kr_activeKeyVersion (mg_keyring mg), kr_activeBlindIndexKeyVersion (mg_keyring mg))"

definition to_backfill :: "migrator \<Rightarrow> call_row \<Rightarrow> bool" where
  "to_backfill mg = legacy_row (mg_organizationId mg)"

definition to_rotate :: "migrator \<Rightarrow> call_row \<Rightarrow> bool" where
  "to_rotate mg = retired_row (mg_organizationId mg) 2 (fst (active_versions mg)) (snd (active_versions mg))"

definition backfillBatch :: "migrator \<Rightarrow> ledger \<Rightarrow> (pii_error + nat) \<times> ledger" where
  "backfillBatch mg = run_batch (to_backfill mg) (backfill_row mg) (mg_batchSize mg)"

definition rotateBatch :: "migrator \<Rightarrow> ledger \<Rightarrow> (pii_error + nat) \<times> ledger" where
  "rotateBatch mg = run_batch (to_rotate mg) (rotate_row mg) (mg_batchSize mg)"

text \<open>The check of one row; the blind index that decryption has checked is computed again.\<close>

definition verify_field :: "migrator \<Rightarrow> string \<Rightarrow> string \<Rightarrow> encrypted_field option \<Rightarrow> pii_error + unit" where
  "verify_field mg rowId fieldName envelope = (case envelope of
      None \<Rightarrow> Inr ()
    | Some e \<Rightarrow>
        then_do (open_with mg rowId fieldName e) (\<lambda>plaintext.
        then_do (computeBlindIndex (mg_ciphers mg) (mg_keyring mg) (mg_organizationId mg) fieldName plaintext (ef_blindIndexKeyVersion e)) (\<lambda>expected.
        unless (expected \<noteq> ef_blindIndex e) (PlainError ''Encrypted call-log PII blind index verification failed''))))"

definition verify_row :: "migrator \<Rightarrow> bool \<Rightarrow> call_row \<Rightarrow> pii_error + unit" where
  "verify_row mg requireActiveVersions r =
     then_do (row_versions ''Encrypted call-log PII row has an invalid shape'' mg r) (\<lambda>(f, k, b).
     then_do (unless (requireActiveVersions \<and> (f \<noteq> 2 \<or> (k, b) \<noteq> active_versions mg))
       (PlainError ''Encrypted call-log PII row still uses a retired key version'')) (\<lambda>_.
     then_do (encryptedField f k b False (cl_phoneSealed r)) (\<lambda>phone.
     then_do (verify_field mg (cl_id r) ''phone_number'' phone) (\<lambda>_.
     then_do (encryptedField f k b True (cl_contactSealed r)) (\<lambda>contact.
     verify_field mg (cl_id r) ''contact_name'' contact)))))"

fun verify_rows :: "migrator \<Rightarrow> bool \<Rightarrow> call_row list \<Rightarrow> pii_error + unit" where
  "verify_rows mg requireActiveVersions [] = Inr ()"
| "verify_rows mg requireActiveVersions (r # rs) =
     then_do (verify_row mg requireActiveVersions r) (\<lambda>_. verify_rows mg requireActiveVersions rs)"

definition sealed_page :: "migrator \<Rightarrow> string option \<Rightarrow> call_row list \<Rightarrow> call_row list" where
  "sealed_page mg afterId rows = take (mg_batchSize mg) (sort_key cl_id (filter (\<lambda>r. cl_organizationId r = mg_organizationId mg
     \<and> cl_formatVersion r \<noteq> None \<and> (case afterId of None \<Rightarrow> True | Some a \<Rightarrow> a < cl_id r)) rows))"

fun verifyEncryptedRows :: "nat \<Rightarrow> migrator \<Rightarrow> bool \<Rightarrow> string option \<Rightarrow> nat \<Rightarrow> call_row list \<Rightarrow> (pii_error + nat) option" where
  "verifyEncryptedRows 0 mg requireActiveVersions afterId verified rows = None"
| "verifyEncryptedRows (Suc fuel) mg requireActiveVersions afterId verified rows =
     (if \<exists>r \<in> set rows. cl_organizationId r = mg_organizationId mg \<and> (cl_phone r \<noteq> None \<or> cl_contact r \<noteq> None)
      then Some (Inl (PlainError ''Plaintext call-log PII remains for this organization''))
      else let page = sealed_page mg afterId rows in
        case verify_rows mg requireActiveVersions page of
          Inl e \<Rightarrow> Some (Inl e)
        | Inr _ \<Rightarrow> if length page < mg_batchSize mg then Some (Inr (verified + length page))
            else verifyEncryptedRows fuel mg requireActiveVersions (Some (cl_id (last page))) (verified + length page) rows)"

datatype mode = Backfill | Rotate | Verify

text \<open>The run: the counts it reports of rows sealed, moved and verified.\<close>

definition run_mode :: "nat \<Rightarrow> migrator \<Rightarrow> mode \<Rightarrow> ledger \<Rightarrow> ((pii_error + nat \<times> nat \<times> nat) \<times> ledger) option" where
  "run_mode fuel mg m s =
     (let work = (case m of
          Backfill \<Rightarrow> run_batches fuel (to_backfill mg) (backfill_row mg) (mg_batchSize mg) 0 s
        | Rotate \<Rightarrow> run_batches fuel (to_rotate mg) (rotate_row mg) (mg_batchSize mg) 0 s
        | Verify \<Rightarrow> Some (Inr 0, s))
      in case work of None \<Rightarrow> None
         | Some (Inl e, s') \<Rightarrow> Some (Inl e, s')
         | Some (Inr n, s') \<Rightarrow>
             (case verifyEncryptedRows fuel mg (m = Rotate) None 0 (lg_rows s') of None \<Rightarrow> None
              | Some (Inl e) \<Rightarrow> Some (Inl e, s')
              | Some (Inr v) \<Rightarrow> Some (Inr (if m = Backfill then n else 0, if m = Rotate then n else 0, v), s')))"

end
