(* ===== verification/CallPiiFacts.thy ===== *)
theory CallPiiFacts
  imports CallPii FormatFacts Csv
begin

text \<open>
  What the encryption of call-log data promises: keyrings whose key material is never shared, envelopes
  that read back after any rotation, authenticated data that determines where an envelope belongs,
  lookups that find rows written under older keys, and row identities that are canonical UUIDs.
\<close>

unbundle bit_operations_syntax

section \<open>Self-delimiting codes\<close>

text \<open>A code whose words end where their reader stops: messages made of them are unambiguous.\<close>

locale self_delimiting =
  fixes put :: "'a \<Rightarrow> bytes" and valid :: "'a \<Rightarrow> bool"
  assumes cancel: "valid a \<Longrightarrow> valid b \<Longrightarrow> put a @ x = put b @ y \<Longrightarrow> a = b \<and> x = y"
begin

lemma messages:
  "list_all valid as \<Longrightarrow> list_all valid bs \<Longrightarrow> length as = length bs \<Longrightarrow>
   concat (map put as) @ x = concat (map put bs) @ y \<Longrightarrow> as = bs \<and> x = y"
proof (induction as arbitrary: bs)
  case (Cons a as)
  then obtain b bs' where "bs = b # bs'" by (cases bs) auto
  then show ?case using Cons.prems cancel[of a b] Cons.IH[of bs'] by auto
qed simp

end

definition bounded_buffer :: "bytes \<Rightarrow> bool" where
  "bounded_buffer b \<longleftrightarrow> length b < 2 ^ 32"

interpretation prefixed: self_delimiting lengthPrefixedBuffer bounded_buffer
proof
  fix a b x y
  assume valid: "bounded_buffer a" "bounded_buffer b" and eq: "lengthPrefixedBuffer a @ x = lengthPrefixedBuffer b @ y"
  then have "big_endian 4 (length a) = big_endian 4 (length b)" and rest: "a @ x = b @ y"
    by (simp_all add: lengthPrefixedBuffer_def)
  then have "length a = length b" using valid by (intro big_endian_inj[of _ 4]) (simp_all add: bounded_buffer_def)
  then show "a = b \<and> x = y" using rest by simp
qed

section \<open>Authenticated data\<close>

lemma canonicalUuid_Inr:
  "canonicalUuid v name = Inr u \<longleftrightarrow> canonical_uuid v \<and> u = map ascii_lower v"
  by (auto simp: canonicalUuid_def)

lemma canonical_uuid_length: "canonical_uuid s \<Longrightarrow> length s = 36"
  using fits_length[of "uuid_classes is_hex is_hex" s] by (simp add: canonical_uuid_def uuid_classes_def)

lemma assertField_Inr [simp]: "assertField f = Inr u \<longleftrightarrow> f \<in> set pii_fields"
  by (simp add: assertField_def)

lemma decimal_inj: "decimal m = decimal n \<longleftrightarrow> m = n"
  by (metis undecimal_decimal)

lemma authenticatedData_Inr:
  "authenticatedData cx f k b i = Inr d \<longleftrightarrow>
     px_field cx \<in> set pii_fields \<and> canonical_uuid (px_organizationId cx) \<and> canonical_uuid (px_rowId cx) \<and> f \<in> {1, 2}
     \<and> d = concat (map lengthPrefixedBuffer (authenticated_fields (map ascii_lower (px_organizationId cx))
         (map ascii_lower (px_rowId cx)) (px_field cx) f k b i))"
  by (auto simp: authenticatedData_def canonicalUuid_Inr)

lemma bounded_utf8: "length s \<le> 100 \<Longrightarrow> bounded_buffer (utf8 s)"
  using length_utf8[of s] by (simp add: bounded_buffer_def)

lemma bounded_number: "n < 2 ^ 31 \<Longrightarrow> bounded_buffer (utf8 (decimal n))"
  using decimal_length[of n 9] by (intro bounded_utf8) simp

lemma authenticated_fields_bounded:
  assumes "authenticatedData cx f k b i = Inr d" and "k < 2 ^ 31" "b < 2 ^ 31" and "length i = 32"
  shows "list_all bounded_buffer (authenticated_fields (map ascii_lower (px_organizationId cx))
         (map ascii_lower (px_rowId cx)) (px_field cx) f k b i)"
proof -
  have "length (px_field cx) \<le> 100" "f < 2 ^ 31" "length (px_organizationId cx) \<le> 100" "length (px_rowId cx) \<le> 100"
    using assms(1) canonical_uuid_length by (auto simp: authenticatedData_Inr pii_fields_def)
  then show ?thesis using assms(2-) bounded_number[of k] bounded_number[of b] bounded_number[of f]
    by (auto simp: authenticated_fields_def bounded_utf8) (simp add: bounded_buffer_def)
qed

text \<open>
  The authenticated data of an envelope determines where the envelope belongs: equal data means
  the same format, key version, blind index, tenant, row and field (and, in the current format, blind-index
  key version), so no envelope can be moved between rows or fields without failing authentication.
\<close>

lemma authenticated_data_unambiguous:
  assumes "authenticatedData cx f k b i = Inr d" and "authenticatedData cx' f' k' b' i' = Inr d"
    and "k < 2 ^ 31" "k' < 2 ^ 31" "b < 2 ^ 31" "b' < 2 ^ 31" and "length i = 32" "length i' = 32"
  shows "f = f' \<and> k = k' \<and> (f = 2 \<longrightarrow> b = b') \<and> i = i' \<and> px_field cx = px_field cx'
    \<and> map ascii_lower (px_organizationId cx) = map ascii_lower (px_organizationId cx')
    \<and> map ascii_lower (px_rowId cx) = map ascii_lower (px_rowId cx')"
proof -
  let ?a = "\<lambda>cx. authenticated_fields (map ascii_lower (px_organizationId cx)) (map ascii_lower (px_rowId cx)) (px_field cx)"
  have d: "d = concat (map lengthPrefixedBuffer (?a cx f k b i))" "d = concat (map lengthPrefixedBuffer (?a cx' f' k' b' i'))"
    using assms(1,2) by (simp_all add: authenticatedData_Inr)
  have bounded: "list_all bounded_buffer (?a cx f k b i)" "list_all bounded_buffer (?a cx' f' k' b' i')"
    using authenticated_fields_bounded[OF assms(1,3,5,7)] authenticated_fields_bounded[OF assms(2,4,6,8)] by auto
  have "bounded_buffer (utf8 (decimal f))" "bounded_buffer (utf8 (decimal f'))"
    using assms(1,2) bounded_number[of f] bounded_number[of f'] by (auto simp: authenticatedData_Inr)
  moreover have "\<exists>x. concat (map lengthPrefixedBuffer (?a cx f k b i))
      = lengthPrefixedBuffer (utf8 ''callora:call-log-pii:aes-256-gcm'') @ lengthPrefixedBuffer (utf8 (decimal f)) @ x" for cx f k b i
    unfolding authenticated_fields_def append_Cons append_Nil list.map concat.simps append_assoc by blast
  then obtain x y where "lengthPrefixedBuffer (utf8 (decimal f)) @ x = lengthPrefixedBuffer (utf8 (decimal f')) @ y"
    using d by (metis same_append_eq)
  ultimately have "utf8 (decimal f) = utf8 (decimal f')" using prefixed.cancel by blast
  then have f: "f = f'" by (simp add: utf8_inj decimal_inj)
  have "?a cx f k b i = ?a cx' f' k' b' i'"
    using prefixed.messages[OF bounded, of "[]" "[]"] d f by (simp add: authenticated_fields_def)
  then show ?thesis using f by (auto simp: authenticated_fields_def utf8_inj decimal_inj split: if_splits)
qed

section \<open>Envelopes\<close>

definition ring_ok :: "key_map \<Rightarrow> nat \<Rightarrow> bool" where
  "ring_ok ks active \<longleftrightarrow> length ks \<le> max_key_versions \<and> distinct (map fst ks) \<and> active \<in> set (map fst ks)
     \<and> (\<forall>e \<in> set ks. 0 < fst e \<and> fst e \<le> max_key_version \<and> fst e \<le> active \<and> length (snd e) = aes_key_bytes)"

text \<open>What a keyring in use satisfies; no key serves two purposes or two versions.\<close>

definition keyring_ok :: "keyring \<Rightarrow> bool" where
  "keyring_ok kr \<longleftrightarrow> ring_ok (kr_encryptionKeys kr) (kr_activeKeyVersion kr)
     \<and> ring_ok (kr_blindIndexKeys kr) (kr_activeBlindIndexKeyVersion kr) \<and> length (kr_rowIdKey kr) = aes_key_bytes
     \<and> distinct (map snd (kr_encryptionKeys kr) @ map snd (kr_blindIndexKeys kr) @ [kr_rowIdKey kr])"

text \<open>A rotation adds keys and keeps those in use.\<close>

definition keyring_extends :: "keyring \<Rightarrow> keyring \<Rightarrow> bool" where
  "keyring_extends kr kr' \<longleftrightarrow> set (kr_encryptionKeys kr) \<subseteq> set (kr_encryptionKeys kr')
     \<and> set (kr_blindIndexKeys kr) \<subseteq> set (kr_blindIndexKeys kr')"

lemma ring_active: "ring_ok ks v \<Longrightarrow> \<exists>key. map_of ks v = Some key \<and> 0 < v"
  by (fastforce simp: ring_ok_def)

lemma ring_extends: "ring_ok ks v \<Longrightarrow> ring_ok ks' v' \<Longrightarrow> set ks \<subseteq> set ks' \<Longrightarrow> map_of ks w = Some key \<Longrightarrow> map_of ks' w = Some key"
  by (auto simp: ring_ok_def)

lemma computeBlindIndex_Inr:
  "computeBlindIndex ci kr orgId f v k = Inr i \<longleftrightarrow> f \<in> set pii_fields \<and> canonical_uuid orgId \<and> 0 < k
     \<and> length (utf8_encode v) \<le> max_plaintext_bytes
     \<and> (\<exists>key. blindIndexKey kr k = Some key
         \<and> i = ci_hmac ci (ci_hmac ci key (utf8 (index_domain k f))) (index_message (map ascii_lower orgId) f (utf8_encode v)))"
  by (auto simp: computeBlindIndex_def canonicalUuid_Inr plaintextBuffer_def Let_def split: option.splits if_splits)

text \<open>What an encryption stores.\<close>

lemma encryptField_parts:
  "encryptField ci kr nonce cx p = Inr e \<Longrightarrow>
     \<exists>key aad. encryptionKey kr (kr_activeKeyVersion kr) = Some key
       \<and> computeBlindIndex ci kr (px_organizationId cx) (px_field cx) p (kr_activeBlindIndexKeyVersion kr) = Inr (ef_blindIndex e)
       \<and> authenticatedData cx 2 (kr_activeKeyVersion kr) (kr_activeBlindIndexKeyVersion kr) (ef_blindIndex e) = Inr aad
       \<and> ef_ciphertext e = fst (ci_seal ci (deriveFieldKey ci key (px_field cx) 2) nonce aad (utf8_encode p))
           @ snd (ci_seal ci (deriveFieldKey ci key (px_field cx) 2) nonce aad (utf8_encode p))
       \<and> ef_formatVersion e = 2 \<and> ef_keyVersion e = kr_activeKeyVersion kr
       \<and> ef_blindIndexKeyVersion e = kr_activeBlindIndexKeyVersion kr \<and> ef_nonce e = nonce"
  by (auto simp: encryptField_def plaintextBuffer_def Let_def case_prod_beta split: option.splits if_splits)

definition encryptable :: "pii_context \<Rightarrow> js_text \<Rightarrow> bool" where
  "encryptable cx p \<longleftrightarrow> px_field cx \<in> set pii_fields \<and> canonical_uuid (px_organizationId cx) \<and> canonical_uuid (px_rowId cx)
     \<and> list_all scalar p \<and> length (utf8_encode p) \<le> max_plaintext_bytes"

lemma encryption_succeeds:
  assumes "keyring_ok kr" and "encryptable cx p"
  shows "\<exists>e. encryptField ci kr nonce cx p = Inr e"
proof -
  obtain key where key: "encryptionKey kr (kr_activeKeyVersion kr) = Some key"
    using assms(1) ring_active unfolding keyring_ok_def by blast
  obtain i where i: "computeBlindIndex ci kr (px_organizationId cx) (px_field cx) p (kr_activeBlindIndexKeyVersion kr) = Inr i"
    using assms ring_active[of "kr_blindIndexKeys kr"] by (fastforce simp: computeBlindIndex_Inr keyring_ok_def encryptable_def)
  obtain aad where "authenticatedData cx 2 (kr_activeKeyVersion kr) (kr_activeBlindIndexKeyVersion kr) i = Inr aad"
    using assms(2) by (simp add: authenticatedData_Inr encryptable_def)
  then show ?thesis using key i assms(2)
    by (simp add: encryptField_def plaintextBuffer_def Let_def encryptable_def split: prod.splits)
qed

text \<open>What a decryption in the same context does, up to the decoding of the text.\<close>

lemma decrypt_own:
  assumes ci: "ciphers_ok ci" and rings: "keyring_ok kr" "keyring_ok kr'" "keyring_extends kr kr'"
    and e: "encryptField ci kr nonce cx p = Inr e" and nonce: "length nonce = gcm_nonce_bytes"
  shows "decryptField ci kr' cx e = (case text_decode (utf8_encode p) of
      Some q \<Rightarrow> if computeBlindIndex ci kr' (px_organizationId cx) (px_field cx) q (ef_blindIndexKeyVersion e) = Inr (ef_blindIndex e)
        then Inr q else Inl CallPiiDecryptionError
    | None \<Rightarrow> Inl CallPiiDecryptionError)"
proof -
  obtain key aad where enc: "encryptionKey kr (kr_activeKeyVersion kr) = Some key"
    "computeBlindIndex ci kr (px_organizationId cx) (px_field cx) p (kr_activeBlindIndexKeyVersion kr) = Inr (ef_blindIndex e)"
    "authenticatedData cx 2 (kr_activeKeyVersion kr) (kr_activeBlindIndexKeyVersion kr) (ef_blindIndex e) = Inr aad"
    and stored: "ef_ciphertext e = fst (ci_seal ci (deriveFieldKey ci key (px_field cx) 2) nonce aad (utf8_encode p))
           @ snd (ci_seal ci (deriveFieldKey ci key (px_field cx) 2) nonce aad (utf8_encode p))"
    and fields: "ef_formatVersion e = 2" "ef_keyVersion e = kr_activeKeyVersion kr"
      "ef_blindIndexKeyVersion e = kr_activeBlindIndexKeyVersion kr" "ef_nonce e = nonce"
    using encryptField_parts[OF e] by blast
  define c t where "c = fst (ci_seal ci (deriveFieldKey ci key (px_field cx) 2) nonce aad (utf8_encode p))"
    and "t = snd (ci_seal ci (deriveFieldKey ci key (px_field cx) 2) nonce aad (utf8_encode p))"
  have ct: "ef_ciphertext e = c @ t" using stored by (simp add: c_def t_def)
  have tag: "length t = 16" and sealed: "ci_open ci (deriveFieldKey ci key (px_field cx) 2) nonce aad c t = Some (utf8_encode p)"
    using ci by (simp_all add: ciphers_ok_def c_def t_def)
  have key': "encryptionKey kr' (kr_activeKeyVersion kr) = Some key"
    using rings enc(1) ring_extends unfolding keyring_ok_def keyring_extends_def by blast
  obtain index_key where index_key: "blindIndexKey kr' (kr_activeBlindIndexKeyVersion kr) = Some index_key"
    using rings ring_active ring_extends unfolding keyring_ok_def keyring_extends_def by meson
  have "0 < kr_activeKeyVersion kr" "0 < kr_activeBlindIndexKeyVersion kr"
    using rings(1) ring_active unfolding keyring_ok_def by blast+
  moreover have "length (ef_blindIndex e) = 32" using enc(2) ci by (auto simp: computeBlindIndex_Inr ciphers_ok_def)
  ultimately have "envelope_ok e"
    using fields nonce ct tag by (simp add: envelope_ok_def pii_limits)
  moreover have "px_field cx \<in> set pii_fields" using enc(3) by (simp add: authenticatedData_Inr)
  moreover have "length (ef_ciphertext e) - gcm_tag_bytes = length c" using ct tag by (simp add: pii_limits)
  ultimately have attempt: "decrypt_attempt ci kr' cx e = (case text_decode (utf8_encode p) of
                None \<Rightarrow> Inl (TypeError ''The encoded data was not valid for encoding utf-8'')
              | Some plaintext \<Rightarrow>
                  then_do (computeBlindIndex ci kr' (px_organizationId cx) (px_field cx) plaintext (ef_blindIndexKeyVersion e)) (\<lambda>expected.
                  then_do (unless (expected \<noteq> ef_blindIndex e) (PlainError ''Blind index does not match authenticated plaintext'')) (\<lambda>_.
                  Inr plaintext)))"
    using fields key' index_key enc(3) ct sealed by (simp add: decrypt_attempt_def Let_def assertField_def)
  show ?thesis
    unfolding decryptField_def attempt
    by (cases "text_decode (utf8_encode p)")
      (auto simp: then_do_def unless_def split: sum.splits)
qed

lemma index_extends:
  assumes "keyring_ok kr" "keyring_ok kr'" "keyring_extends kr kr'" and "computeBlindIndex ci kr orgId f v k = Inr i"
  shows "computeBlindIndex ci kr' orgId f v k = Inr i"
  using assms ring_extends unfolding computeBlindIndex_Inr keyring_ok_def keyring_extends_def by blast

lemma encrypted_reads_back:
  assumes "ciphers_ok ci" and "keyring_ok kr" "keyring_ok kr'" "keyring_extends kr kr'"
    and "length nonce = gcm_nonce_bytes" and "encryptable cx p" and "take 1 p \<noteq> [0xFEFF]"
  shows "\<exists>e. encryptField ci kr nonce cx p = Inr e \<and> decryptField ci kr' cx e = Inr p"
proof -
  obtain e where e: "encryptField ci kr nonce cx p = Inr e" using encryption_succeeds[OF assms(2,6)] by blast
  then have "computeBlindIndex ci kr (px_organizationId cx) (px_field cx) p (ef_blindIndexKeyVersion e) = Inr (ef_blindIndex e)"
    using encryptField_parts by fastforce
  from index_extends[OF assms(2-4) this] show ?thesis
    using decrypt_own[OF assms(1-4) e assms(5)] text_decode_encode[OF _ assms(7)] assms(6) e
    by (auto simp: encryptable_def)
qed


text \<open>
  C40: A value that begins with a byte-order mark is encrypted and stored, but never decrypts again: the
  decoder drops the mark, and the blind index of what is left is not the one stored.
\<close>

theorem marked_value_lost:
  assumes "ciphers_ok ci" and "keyring_ok kr" "keyring_ok kr'" "keyring_extends kr kr'"
    and "length nonce = gcm_nonce_bytes" and "encryptable cx (0xFEFF # p)"
    and "\<And>i. computeBlindIndex ci kr (px_organizationId cx) (px_field cx) (0xFEFF # p) (kr_activeBlindIndexKeyVersion kr) = Inr i \<Longrightarrow>
      computeBlindIndex ci kr' (px_organizationId cx) (px_field cx) p (kr_activeBlindIndexKeyVersion kr) \<noteq> Inr i"
  shows "\<exists>e. encryptField ci kr nonce cx (0xFEFF # p) = Inr e \<and> decryptField ci kr' cx e = Inl CallPiiDecryptionError"
proof -
  obtain e where e: "encryptField ci kr nonce cx (0xFEFF # p) = Inr e" using encryption_succeeds[OF assms(2,6)] by blast
  have "list_all scalar p" using assms(6) by (simp add: encryptable_def)
  moreover have "computeBlindIndex ci kr' (px_organizationId cx) (px_field cx) p (ef_blindIndexKeyVersion e) \<noteq> Inr (ef_blindIndex e)"
    using encryptField_parts[OF e] assms(7) by auto
  ultimately show ?thesis
    using decrypt_own[OF assms(1-4) e assms(5)] e by (simp add: text_decode_marked)
qed

text \<open>An ideal authenticated cipher: what was sealed under some data opens under no other.\<close>

definition binds_data :: "ciphers \<Rightarrow> bool" where
  "binds_data ci \<longleftrightarrow> (\<forall>k k' n a a' p. a' \<noteq> a \<longrightarrow> ci_open ci k' n a' (fst (ci_seal ci k n a p)) (snd (ci_seal ci k n a p)) = None)"

lemma decrypted_data:
  "decryptField ci kr cx e = Inr p \<Longrightarrow>
     \<exists>k aad bs. envelope_ok e \<and> encryptionKey kr (ef_keyVersion e) = Some k
       \<and> authenticatedData cx (ef_formatVersion e) (ef_keyVersion e) (ef_blindIndexKeyVersion e) (ef_blindIndex e) = Inr aad
       \<and> ci_open ci (deriveFieldKey ci k (px_field cx) (ef_formatVersion e)) (ef_nonce e) aad
           (take (length (ef_ciphertext e) - gcm_tag_bytes) (ef_ciphertext e))
           (drop (length (ef_ciphertext e) - gcm_tag_bytes) (ef_ciphertext e)) = Some bs
       \<and> text_decode bs = Some p
       \<and> computeBlindIndex ci kr (px_organizationId cx) (px_field cx) p (ef_blindIndexKeyVersion e) = Inr (ef_blindIndex e)"
  by (auto simp: decryptField_def decrypt_attempt_def Let_def split: sum.splits option.splits)

text \<open>
  C9: With a cipher that binds its data, an envelope decrypts only where it was made: in another row,
  tenant or field it is refused, whatever keys are configured there.
\<close>

theorem envelope_bound_to_row:
  assumes "ciphers_ok ci" "binds_data ci" and "keyring_ok kr" "keyring_ok kr'" and "length nonce = gcm_nonce_bytes"
    and "encryptField ci kr nonce cx p = Inr e" and "decryptField ci kr' cx' e = Inr q"
  shows "px_field cx' = px_field cx \<and> map ascii_lower (px_organizationId cx') = map ascii_lower (px_organizationId cx)
    \<and> map ascii_lower (px_rowId cx') = map ascii_lower (px_rowId cx)"
proof -
  obtain key aad where enc: "encryptionKey kr (kr_activeKeyVersion kr) = Some key"
    "computeBlindIndex ci kr (px_organizationId cx) (px_field cx) p (kr_activeBlindIndexKeyVersion kr) = Inr (ef_blindIndex e)"
    and data: "authenticatedData cx 2 (kr_activeKeyVersion kr) (kr_activeBlindIndexKeyVersion kr) (ef_blindIndex e) = Inr aad"
    and stored: "ef_ciphertext e = fst (ci_seal ci (deriveFieldKey ci key (px_field cx) 2) nonce aad (utf8_encode p))
           @ snd (ci_seal ci (deriveFieldKey ci key (px_field cx) 2) nonce aad (utf8_encode p))"
    and fields: "ef_formatVersion e = 2" "ef_keyVersion e = kr_activeKeyVersion kr"
      "ef_blindIndexKeyVersion e = kr_activeBlindIndexKeyVersion kr" "ef_nonce e = nonce"
    using encryptField_parts[OF assms(6)] by blast
  obtain k aad' bs where data': "authenticatedData cx' 2 (kr_activeKeyVersion kr) (kr_activeBlindIndexKeyVersion kr) (ef_blindIndex e) = Inr aad'"
    and opened: "ci_open ci (deriveFieldKey ci k (px_field cx') 2) nonce aad'
           (take (length (ef_ciphertext e) - gcm_tag_bytes) (ef_ciphertext e))
           (drop (length (ef_ciphertext e) - gcm_tag_bytes) (ef_ciphertext e)) = Some bs"
    using decrypted_data[OF assms(7)] fields by auto
  have "length (snd (ci_seal ci (deriveFieldKey ci key (px_field cx) 2) nonce aad (utf8_encode p))) = gcm_tag_bytes"
    using assms(1) by (simp add: ciphers_ok_def pii_limits)
  then have "aad' = aad" using opened assms(2) unfolding stored binds_data_def by (simp, metis option.distinct(1))
  moreover have "length (ef_blindIndex e) = 32" using enc(2) assms(1) by (auto simp: computeBlindIndex_Inr ciphers_ok_def)
  moreover have "kr_activeKeyVersion kr < 2 ^ 31" "kr_activeBlindIndexKeyVersion kr < 2 ^ 31"
    using assms(3) by (auto simp: keyring_ok_def ring_ok_def pii_limits)
  ultimately show ?thesis
    using authenticated_data_unambiguous[OF data'] data by blast
qed

section \<open>Lookups\<close>

lemma candidates_Inr:
  "(\<And>k. k \<in> set ks \<Longrightarrow> \<exists>i. computeBlindIndex ci kr orgId f v k = Inr i) \<Longrightarrow>
   \<exists>cs. foldr (\<lambda>k acc. then_do (computeBlindIndex ci kr orgId f v k) (\<lambda>i. then_do acc (\<lambda>rest. Inr ((k, i) # rest)))) ks (Inr []) = Inr cs
     \<and> map fst cs = ks \<and> (\<forall>(k, i) \<in> set cs. computeBlindIndex ci kr orgId f v k = Inr i)"
proof (induction ks)
  case (Cons k ks)
  from Cons.prems[of k] obtain i where "computeBlindIndex ci kr orgId f v k = Inr i" by auto
  moreover obtain cs where "foldr (\<lambda>k acc. then_do (computeBlindIndex ci kr orgId f v k) (\<lambda>i. then_do acc (\<lambda>rest. Inr ((k, i) # rest)))) ks (Inr []) = Inr cs"
    "map fst cs = ks" "\<forall>(k, i) \<in> set cs. computeBlindIndex ci kr orgId f v k = Inr i"
    using Cons.IH Cons.prems by auto
  ultimately show ?case by (intro exI[of _ "(k, i) # cs"]) simp
qed simp

text \<open>
  C21: A search for the value of a row finds the row after any rotation: the candidates are one per configured
  key, the newest first, and the blind index stored when the row was written is among them.
\<close>

theorem rotated_row_found:
  assumes "keyring_ok kr" "keyring_ok kr'" "keyring_extends kr kr'" and "encryptField ci kr nonce cx p = Inr e"
  shows "\<exists>cs. computeBlindIndexCandidates ci kr' (px_organizationId cx) (px_field cx) p = Inr cs
    \<and> (ef_blindIndexKeyVersion e, ef_blindIndex e) \<in> set cs \<and> map fst cs = rev (sort (map fst (kr_blindIndexKeys kr')))"
proof -
  have i: "computeBlindIndex ci kr (px_organizationId cx) (px_field cx) p (ef_blindIndexKeyVersion e) = Inr (ef_blindIndex e)"
    using encryptField_parts[OF assms(4)] by auto
  then have i': "computeBlindIndex ci kr' (px_organizationId cx) (px_field cx) p (ef_blindIndexKeyVersion e) = Inr (ef_blindIndex e)"
    by (rule index_extends[OF assms(1-3)])
  have "\<exists>j. computeBlindIndex ci kr' (px_organizationId cx) (px_field cx) p k = Inr j" if "k \<in> set (map fst (kr_blindIndexKeys kr'))" for k
  proof -
    have "\<exists>key. blindIndexKey kr' k = Some key" using that map_of_eq_None_iff[of "kr_blindIndexKeys kr'" k] by (cases "blindIndexKey kr' k") simp_all
    moreover have "0 < k" using that assms(2) by (auto simp: keyring_ok_def ring_ok_def)
    ultimately show ?thesis using i by (auto simp: computeBlindIndex_Inr)
  qed
  then obtain cs where cs: "computeBlindIndexCandidates ci kr' (px_organizationId cx) (px_field cx) p = Inr cs"
    "map fst cs = rev (sort (map fst (kr_blindIndexKeys kr')))"
    "\<forall>(k, j) \<in> set cs. computeBlindIndex ci kr' (px_organizationId cx) (px_field cx) p k = Inr j"
    using candidates_Inr[of "rev (configuredBlindIndexVersions kr')" ci kr' "px_organizationId cx" "px_field cx" p]
    by (auto simp: computeBlindIndexCandidates_def configuredBlindIndexVersions_def)
  have "ef_blindIndexKeyVersion e \<in> fst ` set (kr_blindIndexKeys kr')"
    using i' by (auto simp: computeBlindIndex_Inr dest!: map_of_SomeD intro: rev_image_eqI)
  then have "ef_blindIndexKeyVersion e \<in> set (map fst cs)" by (simp add: cs(2))
  then obtain j where "(ef_blindIndexKeyVersion e, j) \<in> set cs" by auto
  then have "(ef_blindIndexKeyVersion e, ef_blindIndex e) \<in> set cs" using cs(3) i' by fastforce
  then show ?thesis using cs by blast
qed

section \<open>Row identities\<close>

lemma hex_of_Cons: "hex_of (b # bs) = hex_digits ! (unat b div 16) # hex_digits ! (unat b mod 16) # hex_of bs"
  by (simp add: hex_of_def)

lemma hex_of_append: "hex_of (as @ bs) = hex_of as @ hex_of bs"
  by (simp add: hex_of_def)

lemma nibbles: "unat (b :: 8 word) div 16 < 16" "unat b mod 16 < 16"
  using unsigned_less[of b, where 'a = nat] by simp_all

lemma hex_digit_class: "i < 16 \<Longrightarrow> is_lower_hex (hex_digits ! i)"
proof -
  have "list_all is_lower_hex hex_digits" by (simp add: hex_digits_def is_lower_hex_def is_digit_def in_range_def)
  moreover assume "i < 16"
  ultimately show ?thesis by (simp add: list_all_length hex_digits_def)
qed

lemma hex_digit_inj: "i < 16 \<Longrightarrow> j < 16 \<Longrightarrow> hex_digits ! i = hex_digits ! j \<longleftrightarrow> i = j"
  by (rule nth_eq_iff_index_eq) (simp_all add: hex_digits_def)

lemma hex_of_lower: "list_all is_lower_hex (hex_of bs)"
  by (induction bs) (simp_all add: hex_of_def hex_digit_class nibbles)

lemma hex_of_inj: "hex_of as = hex_of bs \<longleftrightarrow> as = bs"
proof
  assume "hex_of as = hex_of bs"
  then show "as = bs"
  proof (induction as arbitrary: bs)
    case Nil
    then show ?case by (cases bs) (simp_all add: hex_of_def)
  next
    case (Cons a as)
    then obtain b bs' where bs: "bs = b # bs'" by (cases bs) (simp_all add: hex_of_def)
    have "unat a div 16 = unat b div 16" "unat a mod 16 = unat b mod 16"
      using Cons.prems by (simp_all add: bs hex_of_Cons hex_digit_inj nibbles)
    then have "a = b" by (metis div_mult_mod_eq word_unat_eq_iff)
    then show ?case using Cons by (simp add: bs hex_of_Cons)
  qed
qed simp

lemma length_uuid_bits [simp]: "length (uuid_bits bs) = length bs"
  by (simp add: uuid_bits_def)

lemma slice_hex: "list_all is_lower_hex (slice a b (hex_of bs))" "length (slice a b (hex_of bs)) = min (2 * length bs - a) (b - a)"
  using hex_of_lower[of bs] by (auto simp: slice_def list_all_iff dest!: in_set_takeD in_set_dropD)

lemma lower_hex_fits: "list_all is_lower_hex s \<Longrightarrow> length s = n \<Longrightarrow> fits (replicate n is_hex) s"
  by (auto simp: fits_replicate is_hex_def list_all_iff)

lemma slice_first: "a < b \<Longrightarrow> a < length h \<Longrightarrow> slice a b h = h ! a # slice (Suc a) b h"
  by (simp add: slice_def Suc_diff_Suc[symmetric] flip: Cons_nth_drop_Suc)

lemma slice_hex_fits: "b \<le> 2 * length bs \<Longrightarrow> fits (replicate (b - a) is_hex) (slice a b (hex_of bs))"
  using slice_hex[of a b bs] by (intro lower_hex_fits) auto

lemma uuid_text_fits:
  assumes bs: "length bs = 16" and "version (hex_of bs ! 12)" and "variant (hex_of bs ! 16)"
  shows "fits (uuid_classes version variant) (uuid_text bs)"
proof -
  let ?h = "hex_of bs"
  have "fits (replicate 8 is_hex) (slice 0 8 ?h)" "fits (replicate 4 is_hex) (slice 8 12 ?h)"
    "fits (replicate 3 is_hex) (slice 13 16 ?h)" "fits (replicate 3 is_hex) (slice 17 20 ?h)" "fits (replicate 12 is_hex) (slice 20 32 ?h)"
    using slice_hex_fits[of 8 bs 0] slice_hex_fits[of 12 bs 8] slice_hex_fits[of 16 bs 13] slice_hex_fits[of 20 bs 17]
      slice_hex_fits[of 32 bs 20] bs by simp_all
  moreover have "uuid_text bs = slice 0 8 ?h @ ''-'' @ slice 8 12 ?h @ ''-'' @ ?h ! 12 # slice 13 16 ?h @ ''-'' @ ?h ! 16 # slice 17 20 ?h @ ''-'' @ slice 20 32 ?h"
    using bs slice_first[of 12 16 ?h] slice_first[of 16 20 ?h] by (simp add: uuid_text_def Let_def slice_def[of 20 32])
  ultimately show ?thesis using assms fits_length
    by (auto simp: uuid_classes_def fits_append fits_Cons)
qed

lemma uuid_text_lower: "list_all (\<lambda>c. c = CHR ''-'' \<or> is_lower_hex c) (uuid_text bs)"
  using hex_of_lower[of bs] slice_hex(1)[of _ _ bs]
  by (auto simp: uuid_text_def Let_def list_all_iff dest!: in_set_dropD)

lemma ascii_lower_id: "c = CHR ''-'' \<or> is_lower_hex c \<Longrightarrow> ascii_lower c = c"
  by (auto simp: ascii_lower_def is_lower_hex_def is_digit_def in_range_def)

lemma hex_of_nth: "i < length bs \<Longrightarrow> hex_of bs ! (2 * i) = hex_digits ! (unat (bs ! i) div 16)"
proof (induction bs arbitrary: i)
  case (Cons b bs)
  then show ?case by (cases i) (simp_all add: hex_of_Cons)
qed simp

lemma high_nibble: "unat (b :: 8 word) div 16 = unat (drop_bit 4 b)"
  by (simp add: unat_div drop_bit_eq_div)

lemma version_nibble: "unat (((b :: 8 word) AND 0x0F) OR 0x80) div 16 = 8"
proof -
  have "drop_bit 4 ((b AND 0x0F) OR 0x80) = 8" by simp
  then show ?thesis by (simp only: high_nibble) simp
qed

lemma and_three: "(w :: 8 word) AND 3 \<in> {0, 1, 2, 3}"
proof -
  have "w AND 3 = take_bit 2 w" by (simp add: take_bit_eq_mask mask_eq_exp_minus_1)
  then have "unat (w AND 3) = unat w mod 4" by (simp add: unat_mod take_bit_eq_mod)
  then have "unat (w AND 3) < 4" by simp
  then consider "unat (w AND 3) = unat (0 :: 8 word)" | "unat (w AND 3) = unat (1 :: 8 word)"
    | "unat (w AND 3) = unat (2 :: 8 word)" | "unat (w AND 3) = unat (3 :: 8 word)" by simp linarith
  then show ?thesis by cases (simp_all only: word_unat_eq_iff[symmetric], simp_all)
qed

lemma variant_nibble: "unat (((b :: 8 word) AND 0x3F) OR 0x80) div 16 \<in> {8, 9, 10, 11}"
proof -
  have "drop_bit 4 ((b AND 0x3F) OR 0x80) = (drop_bit 4 b AND 3) OR 8" by simp
  then have "unat ((b AND 0x3F) OR 0x80) div 16 = unat ((drop_bit 4 b AND 3) OR 8)" by (simp only: high_nibble)
  then show ?thesis using and_three[of "drop_bit 4 b"] by auto
qed

text \<open>
  A derived row identity is a UUID of version eight as the contracts require one, in lower case, so it is
  accepted wherever the code asks for a canonical UUID, and lower-casing it changes nothing.
\<close>

theorem derived_row_id_canonical:
  assumes "ciphers_ok ci" and "deriveRowId ci kr ri = Inr rowId"
  shows "request_uuid rowId \<and> canonical_uuid rowId \<and> map ascii_lower rowId = rowId \<and> rowId ! 14 = CHR ''8''"
proof -
  obtain m where rowId: "rowId = uuid_text (uuid_bits (take 16 (ci_hmac ci (kr_rowIdKey kr) m)))"
    using assms(2) by (auto simp: deriveRowId_def)
  define bs where "bs = take 16 (ci_hmac ci (kr_rowIdKey kr) m)"
  have len: "length bs = 16" using assms(1) by (simp add: bs_def ciphers_ok_def)
  then have bits: "uuid_bits bs ! 6 = (bs ! 6 AND 0x0F) OR 0x80" "uuid_bits bs ! 8 = (bs ! 8 AND 0x3F) OR 0x80"
    by (simp_all add: uuid_bits_def)
  have version: "hex_of (uuid_bits bs) ! 12 = CHR ''8''"
    using hex_of_nth[of 6 "uuid_bits bs"] len by (simp add: bits version_nibble hex_digits_def)
  have variant: "hex_of (uuid_bits bs) ! 16 \<in> set ''89ab''"
    using hex_of_nth[of 8 "uuid_bits bs"] variant_nibble[of "bs ! 8"] len by (auto simp: bits hex_digits_def)
  have hex: "is_hex (CHR ''8'')" "is_hex c" if "c \<in> set ''89ab''" for c
    using that by (auto simp: is_hex_def is_lower_hex_def is_digit_def in_range_def)
  have "request_uuid rowId" unfolding request_uuid_def rowId bs_def[symmetric]
    using version variant len by (intro uuid_text_fits) (auto simp: in_range_def)
  moreover have "canonical_uuid rowId" unfolding canonical_uuid_def rowId bs_def[symmetric]
    using version variant len hex by (intro uuid_text_fits) (auto simp: is_hex_def is_lower_hex_def is_digit_def in_range_def)
  moreover have "map ascii_lower rowId = rowId"
    using uuid_text_lower[of "uuid_bits bs"] ascii_lower_id unfolding rowId bs_def[symmetric]
    by (intro map_idI) (simp add: list_all_iff)
  moreover have "rowId ! 14 = CHR ''8''"
  proof -
    have "rowId ! 14 = hex_of (uuid_bits bs) ! 12"
      using len unfolding rowId bs_def[symmetric] by (simp add: uuid_text_def Let_def nth_append slice_def)
    then show ?thesis using version by simp
  qed
  ultimately show ?thesis by blast
qed

section \<open>Keyrings\<close>

text \<open>What every entry read so far satisfies.\<close>

definition entries_ok :: "key_map \<Rightarrow> bool" where
  "entries_ok ks \<longleftrightarrow> distinct (map fst ks) \<and> distinct (map snd ks)
     \<and> (\<forall>e \<in> set ks. 0 < fst e \<and> fst e \<le> max_key_version \<and> length (snd e) = aes_key_bytes)"

lemma version_text_positive: "version_text s \<Longrightarrow> 0 < undecimal s"
proof -
  have grow: "a \<le> foldl (\<lambda>a c. 10 * a + (of_char c - 48)) a cs" for a :: nat and cs :: string
  proof (induction cs arbitrary: a)
    case (Cons c cs)
    have "a \<le> 10 * a + (of_char c - 48)" by simp
    also have "\<dots> \<le> foldl (\<lambda>a c. 10 * a + (of_char c - 48)) (10 * a + (of_char c - 48)) cs" by (rule Cons)
    finally show ?case by simp
  qed simp
  assume "version_text s"
  then obtain c cs where "s = c # cs" "is_digit c" "c \<noteq> CHR ''0''" by (cases s) (simp_all add: version_text_def)
  moreover have "(of_char c :: nat) \<noteq> of_char (CHR ''0'')" using \<open>c \<noteq> CHR ''0''\<close> by (simp only: of_char_eq_iff) simp
  ultimately have "0 < (of_char c - 48 :: nat)" by (simp add: is_digit_def)
  then show ?thesis using grow[of "of_char c - 48" cs] \<open>s = c # cs\<close> by (simp add: undecimal_def)
qed

lemma parseVersion_Inr:
  "parseVersion v name = Inr n \<longleftrightarrow> (\<exists>s. v = Some s \<and> version_text s \<and> n = undecimal s \<and> n \<le> max_key_version)"
  by (auto simp: parseVersion_def split: option.splits if_splits)

lemma decodeKey_Inr:
  "decodeKey v name = Inr k \<longleftrightarrow> (\<exists>s. v = Some s \<and> fits (replicate 43 is_base64url) s \<and> k = from_base64url s
     \<and> length k = aes_key_bytes \<and> base64url k = s)"
  by (auto simp: decodeKey_def split: option.splits if_splits)

lemma parse_entry_ok: "parse_entry name entry ks = Inr ks' \<Longrightarrow> entries_ok ks \<Longrightarrow> entries_ok ks' \<and> length ks' = Suc (length ks)"
  by (auto simp: parse_entry_def entries_ok_def parseVersion_Inr decodeKey_Inr hex_of_inj version_text_positive map_of_eq_None_iff image_iff
      split: list.splits)

lemma parse_entries_ok:
  "parse_entries name entries ks = Inr ks' \<Longrightarrow> entries_ok ks \<Longrightarrow> entries_ok ks' \<and> length ks' = length ks + length entries"
proof (induction entries arbitrary: ks)
  case (Cons entry entries)
  then obtain ks'' where "parse_entry name entry ks = Inr ks''" "parse_entries name entries ks'' = Inr ks'" by auto
  then show ?case using Cons.IH[of ks''] parse_entry_ok[of name entry ks ks''] Cons.prems(2) by simp
qed simp

lemma parseVersionedKeys_ok: "parseVersionedKeys v name = Inr ks \<Longrightarrow> entries_ok ks \<and> length ks \<le> max_key_versions"
  using parse_entries_ok[of name _ "[]" ks] by (auto simp: parseVersionedKeys_def entries_ok_def Let_def split: option.splits if_splits)

lemma highest: "x \<in> set xs \<Longrightarrow> x \<le> foldr max xs (0 :: nat)"
  by (induction xs) auto

lemma validateActiveVersion_ok:
  "validateActiveVersion ks v name ringName = Inr n \<Longrightarrow> entries_ok ks \<Longrightarrow> length ks \<le> max_key_versions \<Longrightarrow> ring_ok ks n"
  using highest[of _ "map fst ks"] by (auto simp: validateActiveVersion_def ring_ok_def entries_ok_def map_of_eq_None_iff)

lemma separate_keys_Inr: "separate_keys ks seen = Inr seen' \<Longrightarrow> seen' = seen @ map (hex_of \<circ> snd) ks"
  by (induction ks seen rule: separate_keys.induct) (auto split: if_splits)

lemma separate_keys_distinct: "separate_keys ks seen = Inr seen' \<Longrightarrow> distinct seen \<Longrightarrow> distinct seen'"
  by (induction ks seen rule: separate_keys.induct) (auto split: if_splits)

text \<open>
  C20: A keyring that is accepted holds between one and thirty-two keys of 32 bytes for each purpose, under
  distinct positive versions of which the active one is the highest, and no key material occurs twice
  anywhere: not in two versions, not in two purposes, not as the key of row identities.
\<close>

theorem accepted_keyring_sound:
  assumes "parseCallPiiKeyring input = Inr kr"
  shows "keyring_ok kr"
proof -
  obtain E a B b seen where parts: "parseVersionedKeys (ki_encryptionKeys input) ''CALL_PII_ENCRYPTION_KEYS'' = Inr E"
    "validateActiveVersion E (ki_activeKeyVersion input) ''CALL_PII_ACTIVE_KEY_VERSION'' ''CALL_PII_ENCRYPTION_KEYS'' = Inr a"
    "parseVersionedKeys (ki_blindIndexKeys input) ''CALL_PII_BLIND_INDEX_KEYS'' = Inr B"
    "validateActiveVersion B (ki_activeBlindIndexKeyVersion input) ''CALL_PII_ACTIVE_BLIND_INDEX_KEY_VERSION'' ''CALL_PII_BLIND_INDEX_KEYS'' = Inr b"
    "separate_keys (map (\<lambda>e. (''encryption'', snd e)) E @ map (\<lambda>e. (''blind-index'', snd e)) B) [] = Inr seen"
    and row: "length (kr_rowIdKey kr) = aes_key_bytes" "hex_of (kr_rowIdKey kr) \<notin> set seen"
    and kr: "kr_activeKeyVersion kr = a" "kr_activeBlindIndexKeyVersion kr = b" "kr_encryptionKeys kr = E" "kr_blindIndexKeys kr = B"
    using assms unfolding parseCallPiiKeyring_def by (auto simp: decodeKey_Inr)
  have "ring_ok E a" "ring_ok B b"
    using parseVersionedKeys_ok validateActiveVersion_ok parts(1-4) by blast+
  moreover have "seen = map hex_of (map snd E @ map snd B)" using separate_keys_Inr[OF parts(5)] by (simp add: comp_def)
  moreover have "distinct seen" using separate_keys_distinct[OF parts(5)] by simp
  ultimately have "ring_ok E a" "ring_ok B b" "distinct (map snd E @ map snd B)" "kr_rowIdKey kr \<notin> set (map snd E @ map snd B)"
    using row(2) by (auto simp: distinct_map simp del: map_append)
  then show ?thesis using row(1) by (auto simp: keyring_ok_def kr)
qed

text \<open>A keyring as the environment states it.\<close>

definition key_entry :: "nat \<times> bytes \<Rightarrow> string" where
  "key_entry e = decimal (fst e) @ '':'' @ base64url (snd e)"

definition serialized_keyring :: "keyring \<Rightarrow> keyring_input" where
  "serialized_keyring kr =
     \<lparr>ki_encryptionKeys = Some (join_with '','' (map key_entry (kr_encryptionKeys kr))),
      ki_activeKeyVersion = Some (decimal (kr_activeKeyVersion kr)), ki_rowIdKey = Some (base64url (kr_rowIdKey kr)),
      ki_blindIndexKeys = Some (join_with '','' (map key_entry (kr_blindIndexKeys kr))),
      ki_activeBlindIndexKeyVersion = Some (decimal (kr_activeBlindIndexKeyVersion kr))\<rparr>"

lemma decimal_first: "0 < n \<Longrightarrow> \<exists>c cs. decimal n = c # cs \<and> c \<noteq> CHR ''0''"
proof (induction n rule: decimal.induct)
  case (1 n)
  show ?case
  proof (cases "n < 10")
    case True
    have "digit_char n \<noteq> CHR ''0''"
    proof
      assume "digit_char n = CHR ''0''"
      then have "of_char (digit_char n) = (48 :: nat)" by simp
      then show False using of_digit_char[OF True] \<open>0 < n\<close> by simp
    qed
    then show ?thesis using True by (subst decimal.simps) simp
  next
    case False
    then have "0 < n div 10" by (simp add: div_greater_zero_iff)
    then obtain c cs where "decimal (n div 10) = c # cs" "c \<noteq> CHR ''0''" using 1(1) False by auto
    then show ?thesis using False by (subst decimal.simps) simp
  qed
qed

lemma version_text_decimal: "0 < n \<Longrightarrow> n \<le> max_key_version \<Longrightarrow> version_text (decimal n)"
  using decimal_first[of n] decimal_digits[of n] decimal_length[of n 9] by (auto simp: version_text_def pii_limits)

lemma base64url_length: "length (base64url bs) = (4 * length bs + 2) div 3"
proof -
  have "length (base64url_chars ns) = (4 * length ns + 2) div 3" for ns
    by (induction ns rule: base64url_chars.induct) simp_all
  then show ?thesis by (simp add: base64url_def)
qed

lemma sextet_char_class: "n < 64 \<Longrightarrow> is_base64url (sextet_char n)"
proof -
  assume "n < 64"
  then consider "n < 26" | "26 \<le> n" "n < 52" | "52 \<le> n" "n < 62" | "n = 62" | "n = 63" by linarith
  then show ?thesis
    by cases (auto simp: is_base64url_def sextet_char_def is_letter_def is_digit_def in_range_def)
qed

lemma base64url_class: "list_all is_base64url (base64url bs)"
proof -
  have "list_all (\<lambda>n. n < 256) (map unat bs)"
    using unsigned_less[of "_ :: 8 word", where 'a = nat] by (simp add: list_all_iff)
  from base64url_chars_bound[OF this] show ?thesis by (auto simp: base64url_def list_all_iff sextet_char_class)
qed

lemma parseVersion_decimal: "0 < n \<Longrightarrow> n \<le> max_key_version \<Longrightarrow> parseVersion (Some (decimal n)) name = Inr n"
  by (simp add: parseVersion_Inr version_text_decimal undecimal_decimal)

lemma decodeKey_base64url: "length k = aes_key_bytes \<Longrightarrow> decodeKey (Some (base64url k)) name = Inr k"
  by (simp add: decodeKey_Inr from_base64url_inverse fits_replicate base64url_class base64url_length pii_limits)

text \<open>The characters of an entry: no separator but its own, no space.\<close>

lemma key_entry_chars:
  "list_all (\<lambda>c. is_digit c \<or> is_base64url c \<or> c = CHR '':'') (key_entry e)" "CHR '','' \<notin> set (key_entry e)"
  "CHR '':'' \<notin> set (decimal n)" "CHR '':'' \<notin> set (base64url k)"
proof -
  show "list_all (\<lambda>c. is_digit c \<or> is_base64url c \<or> c = CHR '':'') (key_entry e)"
    using decimal_digits[of "fst e"] base64url_class[of "snd e"] by (auto simp: key_entry_def list_all_iff)
  then show "CHR '','' \<notin> set (key_entry e)"
    by (auto simp: list_all_iff is_digit_def is_base64url_def is_letter_def in_range_def)
  show "CHR '':'' \<notin> set (decimal n)" using decimal_digits[of n] by (auto simp: list_all_iff is_digit_def)
  show "CHR '':'' \<notin> set (base64url k)"
    using base64url_class[of k] by (auto simp: list_all_iff is_digit_def is_base64url_def is_letter_def in_range_def)
qed

lemma parse_key_entry:
  assumes "entries_ok (ks @ [e])"
  shows "parse_entry name (key_entry e) ks = Inr (ks @ [e])"
proof -
  obtain v k where e: "e = (v, k)" by fastforce
  have ok: "0 < v" "v \<le> max_key_version" "length k = aes_key_bytes" "v \<notin> fst ` set ks" "k \<notin> snd ` set ks"
    using assms by (auto simp: entries_ok_def e)
  have "split_on (CHR '':'') (key_entry e) = [decimal v, base64url k]"
    by (simp add: key_entry_def e split_on_part split_on_last key_entry_chars(3,4))
  moreover have "map_of ks v = None" using ok(4) by (simp add: map_of_eq_None_iff)
  moreover have "hex_of k \<notin> set (map (hex_of \<circ> snd) ks)" using ok(5) by (auto simp: hex_of_inj intro: rev_image_eqI)
  ultimately show ?thesis
    using ok by (simp add: parse_entry_def parseVersion_decimal decodeKey_base64url e)
qed

lemma parse_key_entries: "entries_ok (ks @ es) \<Longrightarrow> parse_entries name (map key_entry es) ks = Inr (ks @ es)"
proof (induction es arbitrary: ks)
  case (Cons e es)
  have "entries_ok (ks @ [e])" using Cons.prems by (auto simp: entries_ok_def)
  then show ?case using Cons.IH[of "ks @ [e]"] Cons.prems by (simp add: parse_key_entry)
qed simp

lemma split_join: "xs \<noteq> [] \<Longrightarrow> \<forall>x \<in> set xs. k \<notin> set x \<Longrightarrow> split_on k (join_with [k] xs) = xs"
proof (induction xs)
  case (Cons x xs)
  then show ?case by (cases xs) (simp_all add: split_on_part split_on_last)
qed simp

lemma dropWhile_none: "list_all (\<lambda>c. \<not> P c) s \<Longrightarrow> dropWhile P s = s"
  by (cases s) simp_all

lemma trim_spaceless: "list_all (\<lambda>c. \<not> js_space c) s \<Longrightarrow> js_trim s = s"
  using dropWhile_none[of js_space s] dropWhile_none[of js_space "rev s"] by (simp add: js_trim_def)

lemma joined_chars: "\<forall>x \<in> set xs. list_all P x \<Longrightarrow> P k \<Longrightarrow> list_all P (join_with [k] xs)"
proof (induction xs)
  case (Cons x xs)
  then show ?case by (cases xs) simp_all
qed simp

lemma parse_serialized_keys:
  assumes "entries_ok ks" and "ks \<noteq> []" and "length ks \<le> max_key_versions"
  shows "parseVersionedKeys (Some (join_with '','' (map key_entry ks))) name = Inr ks"
proof -
  let ?s = "join_with '','' (map key_entry ks)"
  have entries: "split_on (CHR '','') ?s = map key_entry ks"
    using assms(2) key_entry_chars(2) by (intro split_join) auto
  have "\<not> js_space c" if "is_digit c \<or> is_base64url c \<or> c = CHR '':''" for c
    using that by (auto simp: js_space_def is_digit_def is_base64url_def is_letter_def in_range_def)
  then have "list_all (\<lambda>c. \<not> js_space c) ?s"
    using key_entry_chars(1) by (intro joined_chars) (auto simp: list_all_iff js_space_def)
  then have "js_trim ?s = ?s" by (rule trim_spaceless)
  moreover have "?s \<noteq> []" using entries assms(2) by (cases ks) (auto simp: key_entry_def)
  ultimately show ?thesis
    using entries parse_key_entries[of "[]" ks name] assms by (simp add: parseVersionedKeys_def Let_def)
qed

lemma highest_in: "v \<in> set xs \<Longrightarrow> \<forall>x \<in> set xs. x \<le> v \<Longrightarrow> foldr max xs (0 :: nat) = v"
proof -
  assume v: "v \<in> set xs" "\<forall>x \<in> set xs. x \<le> v"
  have "foldr max xs 0 \<le> v" using v(2) by (induction xs) auto
  then show ?thesis using highest[OF v(1)] by simp
qed

lemma separate_keys_pass: "distinct (seen @ map (hex_of \<circ> snd) ks) \<Longrightarrow> separate_keys ks seen = Inr (seen @ map (hex_of \<circ> snd) ks)"
  by (induction ks seen rule: separate_keys.induct) auto

lemma ring_entries: "ring_ok ks v \<Longrightarrow> distinct (map snd ks) \<Longrightarrow> entries_ok ks \<and> ks \<noteq> [] \<and> length ks \<le> max_key_versions"
  by (auto simp: ring_ok_def entries_ok_def)

lemma validate_decimal: "ring_ok ks v \<Longrightarrow> validateActiveVersion ks (Some (decimal v)) name ringName = Inr v"
  using highest_in[of v "map fst ks"]
  by (auto simp: ring_ok_def validateActiveVersion_def parseVersion_decimal map_of_eq_None_iff)

text \<open>
  Every sound keyring can be configured: its serialization in the environment is accepted and gives
  the keyring back, so the rules of the parser refuse nothing they need not refuse.
\<close>

theorem keyring_roundtrip:
  assumes "keyring_ok kr"
  shows "parseCallPiiKeyring (serialized_keyring kr) = Inr kr"
proof -
  let ?E = "kr_encryptionKeys kr" and ?B = "kr_blindIndexKeys kr"
  have rings: "ring_ok ?E (kr_activeKeyVersion kr)" "ring_ok ?B (kr_activeBlindIndexKeyVersion kr)"
    and row: "length (kr_rowIdKey kr) = aes_key_bytes"
    and apart: "distinct (map snd ?E @ map snd ?B @ [kr_rowIdKey kr])" using assms by (auto simp: keyring_ok_def)
  let ?all = "map (\<lambda>e. (''encryption'', snd e)) ?E @ map (\<lambda>e. (''blind-index'', snd e)) ?B"
  have hexes: "map (hex_of \<circ> snd) ?all = map hex_of (map snd ?E @ map snd ?B)" by simp
  have "inj_on hex_of A" for A by (simp add: inj_on_def hex_of_inj)
  then have "distinct ([] @ map (hex_of \<circ> snd) ?all)" unfolding hexes using apart by (simp add: distinct_map del: map_map map_append)
  from separate_keys_pass[OF this] have "separate_keys ?all [] = Inr (map hex_of (map snd ?E @ map snd ?B))" using hexes by simp
  moreover have "hex_of (kr_rowIdKey kr) \<notin> set (map hex_of (map snd ?E @ map snd ?B))"
    using apart by (auto simp: hex_of_inj intro: rev_image_eqI)
  moreover have "parseVersionedKeys (Some (join_with '','' (map key_entry ?E))) name = Inr ?E"
    "parseVersionedKeys (Some (join_with '','' (map key_entry ?B))) name = Inr ?B" for name
    using ring_entries[OF rings(1)] ring_entries[OF rings(2)] apart by (simp_all add: parse_serialized_keys)
  ultimately show ?thesis
    using validate_decimal[OF rings(1)] validate_decimal[OF rings(2)] decodeKey_base64url[OF row]
    by (simp add: parseCallPiiKeyring_def serialized_keyring_def del: map_append)
qed

end
