(* ===== verification/PiiMigrationFacts.thy ===== *)
theory PiiMigrationFacts
  imports PiiMigration CallPiiFacts
begin

text \<open>
  The migration does what it is run for: a backfill leaves no plaintext and a rotation no retired key,
  neither changes what a row says, both end, and the verification that follows passes.
\<close>

section \<open>Sweeping a table in batches\<close>

text \<open>
  The contract of a batch job: treating a wanted row that is fit changes that row alone, into one that is
  no longer wanted and has the same key.
\<close>

locale sweep =
  fixes wanted :: "call_row \<Rightarrow> bool" and treat :: "call_row \<Rightarrow> ledger \<Rightarrow> pii_error + ledger"
    and fit :: "call_row \<Rightarrow> bool" and becomes :: "call_row \<Rightarrow> call_row \<Rightarrow> bool"
  assumes treated: "r \<in> set (lg_rows s) \<Longrightarrow> distinct (map row_key (lg_rows s)) \<Longrightarrow> wanted r \<Longrightarrow> fit r \<Longrightarrow>
      \<exists>r' s'. treat r s = Inr s' \<and> becomes r r' \<and> lg_rows s' = map (\<lambda>x. if x = r then r' else x) (lg_rows s)"
    and same_key: "becomes r r' \<Longrightarrow> row_key r' = row_key r"
    and settled: "becomes r r' \<Longrightarrow> \<not> wanted r'"
begin

lemma treat_rows_ok:
  "distinct rs \<Longrightarrow> set rs \<subseteq> set (lg_rows s) \<Longrightarrow> \<forall>r \<in> set rs. wanted r \<and> fit r \<Longrightarrow> distinct (map row_key (lg_rows s)) \<Longrightarrow>
   \<exists>s'. treat_rows treat rs s = Inr s' \<and> list_all2 (\<lambda>r r'. if r \<in> set rs then becomes r r' else r' = r) (lg_rows s) (lg_rows s')"
proof (induction rs arbitrary: s)
  case Nil
  then show ?case by (simp add: list_all2_same)
next
  case (Cons r rs)
  obtain r' s1 where step: "treat r s = Inr s1" "becomes r r'" "lg_rows s1 = map (\<lambda>x. if x = r then r' else x) (lg_rows s)"
    using treated[of r s] Cons.prems by auto
  have "map row_key (lg_rows s1) = map row_key (lg_rows s)" using same_key[OF step(2)] by (simp add: step(3))
  moreover have "set rs \<subseteq> set (lg_rows s1)" using Cons.prems(1,2) by (auto simp: step(3))
  ultimately obtain s' where s': "treat_rows treat rs s1 = Inr s'"
    "list_all2 (\<lambda>r r'. if r \<in> set rs then becomes r r' else r' = r) (lg_rows s1) (lg_rows s')"
    using Cons.IH[of s1] Cons.prems by auto
  have "r' \<notin> set rs" using settled[OF step(2)] Cons.prems(3) by auto
  have "list_all2 (\<lambda>r r'. if r \<in> set rs then becomes r r' else r' = r) (map (\<lambda>x. if x = r then r' else x) (lg_rows s)) (lg_rows s')"
    using s'(2) by (simp add: step(3))
  then have "list_all2 (\<lambda>x y. if x \<in> set (r # rs) then becomes x y else y = x) (lg_rows s) (lg_rows s')"
    unfolding list.rel_map by (rule list.rel_mono_strong) (use \<open>r' \<notin> set rs\<close> step(2) in \<open>auto split: if_splits\<close>)
  then show ?case using step(1) s'(1) by auto
qed

definition selected :: "nat \<Rightarrow> ledger \<Rightarrow> call_row list" where
  "selected n s = take n (sort_key cl_id (filter wanted (lg_rows s)))"

lemma selected_facts:
  assumes "distinct (map row_key (lg_rows s))"
  shows "distinct (selected n s)" "set (selected n s) \<subseteq> {r \<in> set (lg_rows s). wanted r}"
    "length (selected n s) = min n (length (filter wanted (lg_rows s)))"
    "length (filter wanted (lg_rows s)) < n \<Longrightarrow> set (selected n s) = {r \<in> set (lg_rows s). wanted r}"
  using assms by (auto simp: selected_def distinct_map dest: in_set_takeD)

lemma batch_ok:
  assumes "1 \<le> n" "n \<le> 500" and keys: "distinct (map row_key (lg_rows s))" and "\<forall>r \<in> set (lg_rows s). wanted r \<longrightarrow> fit r"
  shows "\<exists>s'. run_batch wanted treat n s = (Inr (length (selected n s)), s')
    \<and> list_all2 (\<lambda>r r'. if r \<in> set (selected n s) then becomes r r' else r' = r) (lg_rows s) (lg_rows s')"
proof -
  have "claim_batch wanted n (lg_rows s) = Inr (selected n s)" using assms(1,2) by (simp add: claim_batch_def selected_def)
  moreover obtain s' where "treat_rows treat (selected n s) s = Inr s'"
    "list_all2 (\<lambda>r r'. if r \<in> set (selected n s) then becomes r r' else r' = r) (lg_rows s) (lg_rows s')"
    using treat_rows_ok[of "selected n s" s, OF selected_facts(1)[OF keys]] selected_facts(2)[OF keys, of n] assms(4) keys by blast
  ultimately show ?thesis by (simp add: run_batch_def)
qed

lemma remaining:
  assumes "distinct sel" "set sel \<subseteq> {r \<in> set rows. wanted r}" "distinct rows"
    and "list_all2 (\<lambda>r r'. if r \<in> set sel then becomes r r' else r' = r) rows rows'"
  shows "length (filter wanted rows') + length sel = length (filter wanted rows)"
proof -
  have "length (filter wanted rows') = length (filter (\<lambda>r. wanted r \<and> r \<notin> set sel) rows)"
    using assms(4) by (induction rule: list_all2_induct) (auto split: if_splits dest: settled)
  moreover have "\<forall>r \<in> set sel. wanted r" using assms(2) by auto
  then have "length (filter wanted rows) = length (filter (\<lambda>r. wanted r \<and> r \<notin> set sel) rows) + length (filter (\<lambda>r. r \<in> set sel) rows)"
    by (induction rows) auto
  moreover have "set (filter (\<lambda>r. r \<in> set sel) rows) = set sel" using assms(2) by auto
  then have "length (filter (\<lambda>r. r \<in> set sel) rows) = length sel"
    using distinct_card[OF assms(1)] distinct_card[OF distinct_filter[OF assms(3)], of "\<lambda>r. r \<in> set sel"] by simp
  ultimately show ?thesis by simp
qed

text \<open>The loop ends, counts the rows it treated, and treats exactly the wanted ones.\<close>

lemma sweep_completes:
  assumes n: "1 \<le> n" "n \<le> 500"
  shows "distinct (map row_key (lg_rows s)) \<Longrightarrow> \<forall>r \<in> set (lg_rows s). wanted r \<longrightarrow> fit r \<Longrightarrow>
    length (filter wanted (lg_rows s)) < fuel \<Longrightarrow>
    \<exists>s'. run_batches fuel wanted treat n m s = Some (Inr (m + length (filter wanted (lg_rows s))), s')
      \<and> list_all2 (\<lambda>r r'. if wanted r then becomes r r' else r' = r) (lg_rows s) (lg_rows s')"
proof (induction fuel arbitrary: s m)
  case (Suc fuel)
  note sel = selected_facts[OF Suc.prems(1), of n]
  obtain s1 where s1: "run_batch wanted treat n s = (Inr (length (selected n s)), s1)"
    "list_all2 (\<lambda>r r'. if r \<in> set (selected n s) then becomes r r' else r' = r) (lg_rows s) (lg_rows s1)"
    using batch_ok[OF n Suc.prems(1,2)] by blast
  show ?case
  proof (cases "length (selected n s) < n")
    case True
    then have all: "set (selected n s) = {r \<in> set (lg_rows s). wanted r}" "length (selected n s) = length (filter wanted (lg_rows s))"
      using sel(3,4) by auto
    have "list_all2 (\<lambda>r r'. if wanted r then becomes r r' else r' = r) (lg_rows s) (lg_rows s1)"
      by (rule list.rel_mono_strong[OF s1(2)]) (auto simp: all(1))
    then show ?thesis using s1(1) True all(2) by auto
  next
    case False
    have "distinct (lg_rows s)" using Suc.prems(1) by (simp add: distinct_map)
    then have left: "length (filter wanted (lg_rows s1)) + length (selected n s) = length (filter wanted (lg_rows s))"
      using remaining[OF sel(1,2)] s1(2) by blast
    have "map row_key (lg_rows s1) = map row_key (lg_rows s)"
      using s1(2) by (induction rule: list_all2_induct) (auto split: if_splits dest: same_key)
    moreover have "\<forall>r \<in> set (lg_rows s1). wanted r \<longrightarrow> fit r"
      using s1(2) Suc.prems(2) settled by (fastforce simp: list_all2_conv_all_nth in_set_conv_nth split: if_splits)
    ultimately obtain s' where s': "run_batches fuel wanted treat n (m + length (selected n s)) s1
        = Some (Inr (m + length (selected n s) + length (filter wanted (lg_rows s1))), s')"
      "list_all2 (\<lambda>r r'. if wanted r then becomes r r' else r' = r) (lg_rows s1) (lg_rows s')"
      using Suc.IH[of s1 "m + length (selected n s)"] Suc.prems left False n(1) by force
    have "list_all2 (\<lambda>r r'. if wanted r then becomes r r' else r' = r) (lg_rows s) (lg_rows s')"
      by (rule list_all2_trans[OF _ s1(2) s'(2)]) (use sel(2) settled in \<open>auto split: if_splits\<close>)
    then show ?thesis using s1(1) s'(1) False left by (auto simp: add.assoc)
  qed
qed simp

end

section \<open>Sealing a row\<close>

definition length_preserving :: "ciphers \<Rightarrow> bool" where
  "length_preserving ci \<longleftrightarrow> (\<forall>k n a p. length (fst (ci_seal ci k n a p)) = length p)"

definition migrator_ok :: "migrator \<Rightarrow> bool" where
  "migrator_ok mg \<longleftrightarrow> ciphers_ok (mg_ciphers mg) \<and> length_preserving (mg_ciphers mg) \<and> keyring_ok (mg_keyring mg)
     \<and> (\<forall>i. length (mg_random mg i) = gcm_nonce_bytes) \<and> 1 \<le> mg_batchSize mg \<and> mg_batchSize mg \<le> 500
     \<and> canonical_uuid (mg_organizationId mg) \<and> map ascii_lower (mg_organizationId mg) = mg_organizationId mg"

text \<open>A value that encryption preserves.\<close>

definition sealable :: "js_text \<Rightarrow> bool" where
  "sealable v \<longleftrightarrow> list_all scalar v \<and> length (utf8_encode v) \<le> max_plaintext_bytes \<and> take 1 v \<noteq> [0xFEFF]"

lemma seal_ok:
  assumes mg: "migrator_ok mg" and "canonical_uuid rowId" "f \<in> set pii_fields" "sealable v"
  shows "\<exists>e. seal_with mg i rowId f v = Inr e \<and> open_with mg rowId f e = Inr v \<and> ef_formatVersion e = 2
    \<and> (ef_keyVersion e, ef_blindIndexKeyVersion e) = active_versions mg
    \<and> length (ef_ciphertext e) = length (utf8_encode v) + 16 \<and> length (ef_nonce e) = 12 \<and> length (ef_blindIndex e) = 32"
proof -
  let ?cx = "row_context (mg_organizationId mg) rowId f"
  have cx: "encryptable ?cx v" using assms by (simp add: encryptable_def row_context_def migrator_ok_def sealable_def)
  have "keyring_extends kr kr" for kr by (simp add: keyring_extends_def)
  then obtain e where e: "encryptField (mg_ciphers mg) (mg_keyring mg) (mg_random mg i) ?cx v = Inr e"
    "decryptField (mg_ciphers mg) (mg_keyring mg) ?cx e = Inr v"
    using encrypted_reads_back[of "mg_ciphers mg" "mg_keyring mg" "mg_keyring mg" "mg_random mg i" ?cx v] mg cx assms(4)
    by (auto simp: migrator_ok_def sealable_def)
  then show ?thesis
    using encryptField_parts[OF e(1)] mg
    by (auto simp: seal_with_def open_with_def active_versions_def migrator_ok_def ciphers_ok_def length_preserving_def
        computeBlindIndex_Inr pii_limits)
qed

text \<open>What a row says.\<close>

definition stored :: "migrator \<Rightarrow> call_row \<Rightarrow> pii_error + js_text \<times> js_text option" where
  "stored mg r = (case (cl_formatVersion r, cl_phone r) of
      (None, Some p) \<Rightarrow> Inr (p, cl_contact r)
    | _ \<Rightarrow> then_do (row_versions [] mg r) (\<lambda>(f, k, b).
          then_do (encryptedField f k b False (cl_phoneSealed r)) (\<lambda>pe.
          then_do (open_optional mg (cl_id r) ''phone_number'' pe) (\<lambda>p.
          then_do (encryptedField f k b True (cl_contactSealed r)) (\<lambda>ce.
          then_do (open_optional mg (cl_id r) ''contact_name'' ce) (\<lambda>c.
          Inr (the p, c)))))))"

definition values_ok :: "js_text \<times> js_text option \<Rightarrow> bool" where
  "values_ok v \<longleftrightarrow> fst v \<noteq> [] \<and> sealable (fst v) \<and> (case snd v of None \<Rightarrow> True | Some c \<Rightarrow> sealable c)"

definition current :: "migrator \<Rightarrow> call_row \<Rightarrow> bool" where
  "current mg r \<longleftrightarrow> representation_valid r \<and> cl_formatVersion r = Some 2 \<and> cl_phone r = None \<and> cl_contact r = None
     \<and> cl_keyVersion r = Some (fst (active_versions mg)) \<and> cl_blindIndexKeyVersion r = Some (snd (active_versions mg))"

text \<open>A row and what it becomes: the same row, under the active keys, saying the same.\<close>

definition resealed :: "migrator \<Rightarrow> call_row \<Rightarrow> call_row \<Rightarrow> bool" where
  "resealed mg r r' \<longleftrightarrow> row_key r' = row_key r \<and> current mg r' \<and> (\<exists>v. stored mg r = Inr v \<and> stored mg r' = Inr v)"

definition fit_row :: "migrator \<Rightarrow> call_row \<Rightarrow> bool" where
  "fit_row mg r \<longleftrightarrow> migrator_ok mg \<and> \<not> misplaced mg r \<and> (\<exists>v. stored mg r = Inr v \<and> values_ok v)"

lemma optional_ok:
  assumes "migrator_ok mg" "canonical_uuid rowId" "f \<in> set pii_fields" "case v of None \<Rightarrow> True | Some t \<Rightarrow> sealable t"
  shows "\<exists>e. seal_optional mg i rowId f v = Inr e \<and> open_optional mg rowId f e = Inr v
    \<and> (case e of None \<Rightarrow> True | Some x \<Rightarrow> ef_formatVersion x = 2 \<and> (ef_keyVersion x, ef_blindIndexKeyVersion x) = active_versions mg
         \<and> columns_valid 16 (seal_columns x))"
proof (cases v)
  case None
  then show ?thesis by (simp add: seal_optional_def open_optional_def)
next
  case (Some t)
  then obtain e where e: "seal_with mg i rowId f t = Inr e" "open_with mg rowId f e = Inr t" "ef_formatVersion e = 2"
    "(ef_keyVersion e, ef_blindIndexKeyVersion e) = active_versions mg"
    "length (ef_ciphertext e) = length (utf8_encode t) + 16" "length (ef_nonce e) = 12" "length (ef_blindIndex e) = 32"
    using seal_ok[OF assms(1-3), of t i] assms(4) by auto
  moreover have "length (utf8_encode t) \<le> 65536" using assms(4) Some by (simp add: sealable_def pii_limits)
  ultimately show ?thesis
    by (intro exI[of _ "Some e"]) (simp add: Some seal_optional_def open_optional_def columns_valid_def seal_columns_def)
qed

lemma active_positive: "migrator_ok mg \<Longrightarrow> 0 < fst (active_versions mg) \<and> 0 < snd (active_versions mg)"
  using ring_active by (fastforce simp: migrator_ok_def keyring_ok_def active_versions_def)

lemma encryptedField_seal:
  "encryptedField (ef_formatVersion e) (ef_keyVersion e) (ef_blindIndexKeyVersion e) optional (seal_columns e) = Inr (Some e)"
  by (simp add: encryptedField_def seal_columns_def)

text \<open>A sealed row is current and says what was sealed.\<close>

lemma sealed_row_ok:
  assumes mg: "migrator_ok mg" and place: "\<not> misplaced mg r"
    and phone: "open_with mg (cl_id r) ''phone_number'' phone = Inr p" "ef_formatVersion phone = 2"
      "(ef_keyVersion phone, ef_blindIndexKeyVersion phone) = active_versions mg" "columns_valid 17 (seal_columns phone)"
    and contact: "open_optional mg (cl_id r) ''contact_name'' contact = Inr c"
      "case contact of None \<Rightarrow> True | Some x \<Rightarrow> ef_formatVersion x = 2 \<and> (ef_keyVersion x, ef_blindIndexKeyVersion x) = active_versions mg
         \<and> columns_valid 16 (seal_columns x)"
  shows "current mg (sealed_row phone contact r)" "stored mg (sealed_row phone contact r) = Inr (p, c)"
proof -
  let ?r = "sealed_row phone contact r"
  have versions: "ef_keyVersion phone = fst (active_versions mg)" "ef_blindIndexKeyVersion phone = snd (active_versions mg)"
    using phone(3) by (metis fst_conv snd_conv)+
  show "current mg ?r"
    using active_positive[OF mg] phone(2,4) contact(2)
    by (auto simp: current_def representation_valid_def sealed_row_def normalized_index_version_def versions split: option.splits)
  have place': "row_versions [] mg ?r = Inr (ef_formatVersion phone, ef_keyVersion phone, ef_blindIndexKeyVersion phone)"
    using place phone(2) by (simp add: row_versions_def sealed_row_def normalized_index_version_def misplaced_def)
  have "encryptedField (ef_formatVersion phone) (ef_keyVersion phone) (ef_blindIndexKeyVersion phone) True (cl_contactSealed ?r) = Inr contact"
  proof (cases contact)
    case None
    then show ?thesis by (simp add: sealed_row_def encryptedField_def no_columns_def)
  next
    case (Some x)
    then have "ef_formatVersion x = ef_formatVersion phone" "ef_keyVersion x = ef_keyVersion phone"
      "ef_blindIndexKeyVersion x = ef_blindIndexKeyVersion phone" using contact(2) phone(2) phone(3)[symmetric] by auto
    then show ?thesis using encryptedField_seal[of x True] by (simp add: sealed_row_def Some)
  qed
  then show "stored mg ?r = Inr (p, c)"
    using phone(1) contact(1) encryptedField_seal[of phone False] unfolding stored_def place'
    by (simp add: sealed_row_def open_optional_def)
qed

lemma sql_update_one:
  assumes "distinct rows" "r \<in> set rows" "\<And>x. x \<in> set rows \<Longrightarrow> hit x \<longleftrightarrow> x = r" "representation_valid (f r)"
  shows "sql_update hit f rows = Inr (1, map (\<lambda>x. if x = r then f r else x) rows)"
proof -
  have "filter hit rows = filter (\<lambda>x. x = r) rows" using assms(3) by (intro filter_cong) auto
  moreover have "length (filter (\<lambda>x. x = r) rows) = 1"
    using assms(1,2) by (induction rows) (auto simp: filter_empty_conv)
  moreover have "map (\<lambda>x. if hit x then f x else x) rows = map (\<lambda>x. if x = r then f r else x) rows" using assms(3) by auto
  moreover have "list_all (\<lambda>x. hit x \<longrightarrow> representation_valid (f x)) rows" using assms(3,4) by (auto simp: list_all_iff)
  ultimately show ?thesis by (simp add: sql_update_def)
qed

lemma key_unique: "distinct (map row_key rows) \<Longrightarrow> r \<in> set rows \<Longrightarrow> x \<in> set rows \<Longrightarrow>
    cl_organizationId x = cl_organizationId r \<Longrightarrow> cl_id x = cl_id r \<Longrightarrow> x = r"
  by (auto simp: distinct_map inj_on_def row_key_def)

text \<open>The values of a fit row can be sealed anew.\<close>

lemma reseal:
  assumes "fit_row mg r" "stored mg r = Inr (p, c)"
  shows "\<exists>phone contact. seal_with mg i (cl_id r) ''phone_number'' p = Inr phone
    \<and> seal_optional mg j (cl_id r) ''contact_name'' c = Inr contact
    \<and> current mg (sealed_row phone contact r) \<and> stored mg (sealed_row phone contact r) = Inr (p, c)
    \<and> 0 < ef_keyVersion phone \<and> 0 < ef_blindIndexKeyVersion phone \<and> ef_formatVersion phone = 2
    \<and> (case contact of None \<Rightarrow> True | Some e \<Rightarrow> ef_keyVersion e = ef_keyVersion phone
         \<and> ef_blindIndexKeyVersion e = ef_blindIndexKeyVersion phone \<and> ef_formatVersion e = 2)"
proof -
  have mg: "migrator_ok mg" and place: "\<not> misplaced mg r" and v: "p \<noteq> []" "sealable p" "case c of None \<Rightarrow> True | Some t \<Rightarrow> sealable t"
    using assms by (auto simp: fit_row_def values_ok_def)
  have rid: "canonical_uuid (cl_id r)" using place by (simp add: misplaced_def)
  obtain phone where phone: "seal_with mg i (cl_id r) ''phone_number'' p = Inr phone" "open_with mg (cl_id r) ''phone_number'' phone = Inr p"
    "ef_formatVersion phone = 2" "(ef_keyVersion phone, ef_blindIndexKeyVersion phone) = active_versions mg"
    "length (ef_ciphertext phone) = length (utf8_encode p) + 16" "length (ef_nonce phone) = 12" "length (ef_blindIndex phone) = 32"
    using seal_ok[OF mg rid _ v(2), of "''phone_number''" i] by (auto simp: pii_fields_def)
  have "length (utf8_encode p) \<le> 65536" using v(2) by (simp add: sealable_def pii_limits)
  moreover have "1 \<le> length (utf8_encode p)" using v(1)
    by (cases p) (auto simp: utf8_encode_Cons code_point_bytes_def)
  ultimately have columns: "columns_valid 17 (seal_columns phone)" using phone(5-7) by (simp add: columns_valid_def seal_columns_def)
  obtain contact where contact: "seal_optional mg j (cl_id r) ''contact_name'' c = Inr contact"
    "open_optional mg (cl_id r) ''contact_name'' contact = Inr c"
    "case contact of None \<Rightarrow> True | Some x \<Rightarrow> ef_formatVersion x = 2 \<and> (ef_keyVersion x, ef_blindIndexKeyVersion x) = active_versions mg
         \<and> columns_valid 16 (seal_columns x)"
    using optional_ok[OF mg rid _ v(3), of "''contact_name''" j] by (auto simp: pii_fields_def)
  note sealed_row_ok[OF mg place phone(2-4) columns contact(2,3)]
  moreover have "0 < ef_keyVersion phone" "0 < ef_blindIndexKeyVersion phone"
    using active_positive[OF mg] phone(4) by (metis fst_conv, metis snd_conv)
  ultimately show ?thesis using phone(1,3) phone(4)[symmetric] contact(1,3)
    by (intro exI[of _ phone] exI[of _ contact]) (auto split: option.splits)
qed

lemma distinct_rows: "distinct (map row_key rows) \<Longrightarrow> distinct rows"
  by (simp add: distinct_map)

lemma row_key_sealed [simp]: "row_key (sealed_row phone contact r) = row_key r"
  by (simp add: row_key_def sealed_row_def)

lemma backfill_treats:
  assumes r: "r \<in> set (lg_rows s)" and keys: "distinct (map row_key (lg_rows s))" and wanted: "to_backfill mg r" and fit: "fit_row mg r"
  shows "\<exists>r' s'. backfill_row mg r s = Inr s' \<and> resealed mg r r' \<and> lg_rows s' = map (\<lambda>x. if x = r then r' else x) (lg_rows s)"
proof -
  obtain p where p: "cl_phone r = Some p" "cl_formatVersion r = None" and org: "cl_organizationId r = mg_organizationId mg"
    using wanted by (auto simp: to_backfill_def legacy_row_def)
  then have said: "stored mg r = Inr (p, cl_contact r)" by (simp add: stored_def)
  obtain phone contact where sealed: "seal_with mg (lg_nonces s) (cl_id r) ''phone_number'' p = Inr phone"
    "seal_optional mg (lg_nonces s + 1) (cl_id r) ''contact_name'' (cl_contact r) = Inr contact"
    "current mg (sealed_row phone contact r)" "stored mg (sealed_row phone contact r) = Inr (p, cl_contact r)"
    "0 < ef_blindIndexKeyVersion phone"
    using reseal[OF fit said, of "lg_nonces s" "lg_nonces s + 1"] by blast
  have "sql_update (\<lambda>x. cl_id x = cl_id r \<and> legacy_row (mg_organizationId mg) x) (sealed_row phone contact) (lg_rows s)
      = Inr (1, map (\<lambda>x. if x = r then sealed_row phone contact r else x) (lg_rows s))"
    by (rule sql_update_one[OF distinct_rows[OF keys] r])
      (use wanted key_unique[OF keys r] org sealed(3) in \<open>auto simp: to_backfill_def legacy_row_def current_def\<close>)
  moreover have "\<not> misplaced mg r" using fit by (simp add: fit_row_def)
  ultimately have "backfill_row mg r s
      = Inr \<lparr>lg_rows = map (\<lambda>x. if x = r then sealed_row phone contact r else x) (lg_rows s), lg_nonces = lg_nonces s + 2\<rparr>"
    using p(1) sealed(1,2,5) by (simp add: backfill_row_def backfill_call_pii_encrypted_def)
  moreover have "resealed mg r (sealed_row phone contact r)" using sealed(3,4) said by (auto simp: resealed_def)
  ultimately show ?thesis by (intro exI[of _ "sealed_row phone contact r"]) simp
qed

lemma stored_sealed:
  assumes "stored mg r = Inr (p, c)" "cl_formatVersion r \<noteq> None" "\<not> misplaced mg r"
  shows "\<exists>f k b pe ce. row_versions complaint mg r = Inr (f, k, b) \<and> cl_formatVersion r = Some f \<and> cl_keyVersion r = Some k
    \<and> cl_blindIndexKeyVersion r = Some b \<and> encryptedField f k b False (cl_phoneSealed r) = Inr (Some pe)
    \<and> open_with mg (cl_id r) ''phone_number'' pe = Inr p
    \<and> encryptedField f k b True (cl_contactSealed r) = Inr ce \<and> open_optional mg (cl_id r) ''contact_name'' ce = Inr c"
proof -
  have "\<exists>f k b pe ce q. row_versions [] mg r = Inr (f, k, b) \<and> encryptedField f k b False (cl_phoneSealed r) = Inr pe
    \<and> open_optional mg (cl_id r) ''phone_number'' pe = Inr q \<and> p = the q
    \<and> encryptedField f k b True (cl_contactSealed r) = Inr ce \<and> open_optional mg (cl_id r) ''contact_name'' ce = Inr c"
    using assms(1,2) by (auto simp: stored_def split: option.splits prod.splits)
  then obtain f k b pe ce q where parts: "row_versions [] mg r = Inr (f, k, b)" "encryptedField f k b False (cl_phoneSealed r) = Inr pe"
    "open_optional mg (cl_id r) ''phone_number'' pe = Inr q" "p = the q"
    "encryptedField f k b True (cl_contactSealed r) = Inr ce" "open_optional mg (cl_id r) ''contact_name'' ce = Inr c" by blast
  obtain e where "pe = Some e" using parts(2) by (auto simp: encryptedField_def split: option.splits)
  moreover from this have "open_with mg (cl_id r) ''phone_number'' e = Inr p"
    using parts(3,4) by (cases "open_with mg (cl_id r) ''phone_number'' e") (auto simp: open_optional_def)
  moreover have "row_versions complaint mg r = Inr (f, k, b)" "cl_formatVersion r = Some f" "cl_keyVersion r = Some k"
    "cl_blindIndexKeyVersion r = Some b"
    using parts(1) assms(3) by (auto simp: row_versions_def split: option.splits)
  ultimately show ?thesis using parts by blast
qed

lemma rotate_treats:
  assumes r: "r \<in> set (lg_rows s)" and keys: "distinct (map row_key (lg_rows s))" and wanted: "to_rotate mg r"
    and fit: "fit_row mg r \<and> representation_valid r"
  shows "\<exists>r' s'. rotate_row mg r s = Inr s' \<and> resealed mg r r' \<and> lg_rows s' = map (\<lambda>x. if x = r then r' else x) (lg_rows s)"
proof -
  have org: "cl_organizationId r = mg_organizationId mg" and "cl_formatVersion r \<noteq> None" and place: "\<not> misplaced mg r"
    using wanted fit by (auto simp: to_rotate_def retired_row_def fit_row_def)
  obtain p c where said: "stored mg r = Inr (p, c)" using fit by (auto simp: fit_row_def)
  obtain f k b pe ce where parts: "row_versions ''Encrypted call-log PII rotation row has an invalid shape'' mg r = Inr (f, k, b)"
    and versions: "cl_formatVersion r = Some f" "cl_keyVersion r = Some k" "cl_blindIndexKeyVersion r = Some b"
    and envelopes: "encryptedField f k b False (cl_phoneSealed r) = Inr (Some pe)" "open_with mg (cl_id r) ''phone_number'' pe = Inr p"
    "encryptedField f k b True (cl_contactSealed r) = Inr ce" "open_optional mg (cl_id r) ''contact_name'' ce = Inr c"
    using stored_sealed[OF said \<open>cl_formatVersion r \<noteq> None\<close> place] by blast
  obtain phone contact where sealed: "seal_with mg (lg_nonces s) (cl_id r) ''phone_number'' p = Inr phone"
    "seal_optional mg (lg_nonces s + 1) (cl_id r) ''contact_name'' c = Inr contact"
    "current mg (sealed_row phone contact r)" "stored mg (sealed_row phone contact r) = Inr (p, c)"
    "0 < ef_keyVersion phone" "0 < ef_blindIndexKeyVersion phone" "ef_formatVersion phone = 2"
    and same: "case contact of None \<Rightarrow> True | Some e \<Rightarrow> ef_keyVersion e = ef_keyVersion phone
         \<and> ef_blindIndexKeyVersion e = ef_blindIndexKeyVersion phone \<and> ef_formatVersion e = 2"
    using reseal[of mg r p c "lg_nonces s" "lg_nonces s + 1"] fit said by blast
  have "\<not> (case contact of None \<Rightarrow> False | Some e \<Rightarrow> ef_keyVersion e \<noteq> ef_keyVersion phone
              \<or> ef_blindIndexKeyVersion e \<noteq> ef_blindIndexKeyVersion phone \<or> ef_formatVersion e \<noteq> ef_formatVersion phone)"
    using same sealed(7) by (cases contact) auto
  moreover have "cl_phone r = None" "cl_contact r = None" using fit versions by (auto simp: representation_valid_def)
  then have "sql_update (\<lambda>x. cl_organizationId x = mg_organizationId mg \<and> cl_id x = cl_id r \<and> cl_formatVersion x = Some f
       \<and> cl_keyVersion x = Some k \<and> cl_blindIndexKeyVersion x = Some b \<and> cl_phone x = None \<and> cl_contact x = None)
       (sealed_row phone contact) (lg_rows s)
      = Inr (1, map (\<lambda>x. if x = r then sealed_row phone contact r else x) (lg_rows s))"
    by (intro sql_update_one[OF distinct_rows[OF keys] r])
      (use key_unique[OF keys r] org versions sealed(3) in \<open>auto simp: current_def\<close>)
  ultimately have "rotate_row mg r s
      = Inr \<lparr>lg_rows = map (\<lambda>x. if x = r then sealed_row phone contact r else x) (lg_rows s), lg_nonces = lg_nonces s + 2\<rparr>"
    using parts envelopes sealed by (simp add: rotate_row_def rotate_call_pii_encrypted_def)
  moreover have "resealed mg r (sealed_row phone contact r)" using sealed(3,4) said by (auto simp: resealed_def)
  ultimately show ?thesis by (intro exI[of _ "sealed_row phone contact r"]) simp
qed

interpretation backfill: sweep "to_backfill mg" "backfill_row mg" "fit_row mg" "resealed mg" for mg
proof
  show "\<exists>r' s'. backfill_row mg r s = Inr s' \<and> resealed mg r r' \<and> lg_rows s' = map (\<lambda>x. if x = r then r' else x) (lg_rows s)"
    if "r \<in> set (lg_rows s)" "distinct (map row_key (lg_rows s))" "to_backfill mg r" "fit_row mg r" for r s
    using that by (rule backfill_treats)
qed (auto simp: resealed_def current_def to_backfill_def legacy_row_def)

interpretation rotation: sweep "to_rotate mg" "rotate_row mg" "\<lambda>r. fit_row mg r \<and> representation_valid r" "resealed mg" for mg
proof
  show "\<exists>r' s'. rotate_row mg r s = Inr s' \<and> resealed mg r r' \<and> lg_rows s' = map (\<lambda>x. if x = r then r' else x) (lg_rows s)"
    if "r \<in> set (lg_rows s)" "distinct (map row_key (lg_rows s))" "to_rotate mg r" "fit_row mg r \<and> representation_valid r" for r s
    using that by (rule rotate_treats)
qed (auto simp: resealed_def current_def to_rotate_def retired_row_def differs_def)

section \<open>Verification\<close>

lemma verify_field_ok: "open_optional mg rowId f e = Inr v \<Longrightarrow> verify_field mg rowId f e = Inr ()"
proof (cases e)
  case (Some x)
  moreover assume "open_optional mg rowId f e = Inr v"
  ultimately obtain t where t: "open_with mg rowId f x = Inr t"
    by (cases "open_with mg rowId f x") (auto simp: open_optional_def)
  then have "computeBlindIndex (mg_ciphers mg) (mg_keyring mg) (mg_organizationId mg) f t (ef_blindIndexKeyVersion x) = Inr (ef_blindIndex x)"
    using decrypted_data unfolding open_with_def row_context_def by fastforce
  then show ?thesis using t Some by (simp add: verify_field_def)
qed (simp add: verify_field_def)

lemma verify_row_ok:
  assumes "stored mg r = Inr v" "\<not> misplaced mg r" "cl_formatVersion r \<noteq> None" "required \<Longrightarrow> current mg r"
  shows "verify_row mg required r = Inr ()"
proof -
  obtain p c where v: "v = (p, c)" by fastforce
  obtain f k b pe ce where parts: "row_versions ''Encrypted call-log PII row has an invalid shape'' mg r = Inr (f, k, b)"
    "cl_formatVersion r = Some f" "cl_keyVersion r = Some k" "cl_blindIndexKeyVersion r = Some b"
    "encryptedField f k b False (cl_phoneSealed r) = Inr (Some pe)" "open_with mg (cl_id r) ''phone_number'' pe = Inr p"
    "encryptedField f k b True (cl_contactSealed r) = Inr ce" "open_optional mg (cl_id r) ''contact_name'' ce = Inr c"
    using stored_sealed[of mg r p c] assms(1-3) v by blast
  have "verify_field mg (cl_id r) ''phone_number'' (Some pe) = Inr ()"
    by (rule verify_field_ok[where v = "Some p"]) (simp add: open_optional_def parts(6))
  moreover have "required \<Longrightarrow> f = 2 \<and> (k, b) = active_versions mg" using assms(4) parts(2-4) by (auto simp: current_def)
  ultimately show ?thesis using parts verify_field_ok[OF parts(8)] by (auto simp: verify_row_def then_do_def unless_def)
qed

lemma verify_rows_ok: "\<forall>r \<in> set rs. verify_row mg required r = Inr () \<Longrightarrow> verify_rows mg required rs = Inr ()"
  by (induction rs) simp_all

definition sealed_rows :: "migrator \<Rightarrow> call_row list \<Rightarrow> call_row list" where
  "sealed_rows mg rows = sort_key cl_id (filter (\<lambda>r. cl_organizationId r = mg_organizationId mg \<and> cl_formatVersion r \<noteq> None) rows)"

definition beyond :: "string option \<Rightarrow> call_row \<Rightarrow> bool" where
  "beyond a r = (case a of None \<Rightarrow> True | Some x \<Rightarrow> x < cl_id r)"

lemma sealed_page_filter: "sealed_page mg a rows = take (mg_batchSize mg) (filter (beyond a) (sealed_rows mg rows))"
proof -
  have "filter (beyond a) (sort_key cl_id xs) = sort_key cl_id (filter (beyond a) xs)" for xs by (rule filter_sort)
  moreover have "filter (beyond a) (filter (\<lambda>r. cl_organizationId r = mg_organizationId mg \<and> cl_formatVersion r \<noteq> None) rows)
    = filter (\<lambda>r. cl_organizationId r = mg_organizationId mg \<and> cl_formatVersion r \<noteq> None \<and> (case a of None \<Rightarrow> True | Some x \<Rightarrow> x < cl_id r)) rows"
    by (simp add: beyond_def conj_ac)
  ultimately show ?thesis by (simp add: sealed_page_def sealed_rows_def)
qed

lemma sealed_rows_sorted: "distinct (map row_key rows) \<Longrightarrow> sorted_wrt (<) (map cl_id (sealed_rows mg rows))"
proof -
  assume keys: "distinct (map row_key rows)"
  have "distinct (map cl_id (sealed_rows mg rows))"
    using distinct_rows[OF keys] key_unique[OF keys] by (auto simp: sealed_rows_def distinct_map inj_on_def)
  moreover have "sorted (map cl_id (sealed_rows mg rows))" by (simp add: sealed_rows_def)
  ultimately show ?thesis by (simp only: strict_sorted_iff)
qed

lemma beyond_last:
  assumes "sorted_wrt (<) (map cl_id (xs @ ys))" "xs \<noteq> []"
  shows "filter (beyond (Some (cl_id (last xs)))) (xs @ ys) = ys"
proof -
  obtain zs z where xs: "xs = zs @ [z]" using assms(2) by (metis rev_exhaust)
  then have "\<forall>r \<in> set zs. cl_id r < cl_id z" "\<forall>r \<in> set ys. cl_id z < cl_id r"
    using assms(1) by (simp_all add: sorted_wrt_append)
  then have "filter (beyond (Some (cl_id z))) zs = []" "filter (beyond (Some (cl_id z))) ys = ys"
    by (auto simp: beyond_def filter_empty_conv filter_id_conv)
  then show ?thesis by (simp add: xs beyond_def)
qed

lemma verification_passes:
  assumes mg: "1 \<le> mg_batchSize mg" and sorted: "sorted_wrt (<) (map cl_id (sealed_rows mg rows))"
    and clear: "\<not> (\<exists>r \<in> set rows. cl_organizationId r = mg_organizationId mg \<and> (cl_phone r \<noteq> None \<or> cl_contact r \<noteq> None))"
    and good: "\<forall>r \<in> set (sealed_rows mg rows). verify_row mg required r = Inr ()"
  shows "filter (beyond a) (sealed_rows mg rows) = rest \<Longrightarrow> sealed_rows mg rows = done_rows @ rest \<Longrightarrow> length rest < fuel \<Longrightarrow>
    verifyEncryptedRows fuel mg required a v rows = Some (Inr (v + length rest))"
proof (induction fuel arbitrary: a v rest done_rows)
  case (Suc fuel)
  have page: "sealed_page mg a rows = take (mg_batchSize mg) rest" by (simp add: sealed_page_filter Suc.prems(1))
  have "verify_rows mg required (take (mg_batchSize mg) rest) = Inr ()"
    using good Suc.prems(2) by (intro verify_rows_ok) (auto dest: in_set_takeD)
  then have step: "verifyEncryptedRows (Suc fuel) mg required a v rows
      = (if length rest < mg_batchSize mg then Some (Inr (v + length rest))
         else verifyEncryptedRows fuel mg required (Some (cl_id (last (take (mg_batchSize mg) rest)))) (v + mg_batchSize mg) rows)"
    using clear by (auto simp: page Let_def min_def)
  show ?case
  proof (cases "length rest < mg_batchSize mg")
    case False
    let ?xs = "done_rows @ take (mg_batchSize mg) rest" and ?ys = "drop (mg_batchSize mg) rest"
    have parts: "sealed_rows mg rows = ?xs @ ?ys" using Suc.prems(2) by simp
    have "take (mg_batchSize mg) rest \<noteq> []" using False mg by auto
    then have "filter (beyond (Some (cl_id (last (take (mg_batchSize mg) rest))))) (sealed_rows mg rows) = ?ys"
      using beyond_last[of ?xs ?ys] sorted parts by simp
    from Suc.IH[OF this parts] show ?thesis using False step Suc.prems(3) mg by simp
  qed (simp add: step del: verifyEncryptedRows.simps)
qed simp

text \<open>A table in which every row of the tenant is sealed and readable passes.\<close>

definition of_tenant :: "migrator \<Rightarrow> call_row \<Rightarrow> bool" where
  "of_tenant mg r \<longleftrightarrow> cl_organizationId r = mg_organizationId mg"

definition sealed_readable :: "migrator \<Rightarrow> call_row \<Rightarrow> bool" where
  "sealed_readable mg r \<longleftrightarrow> cl_formatVersion r \<noteq> None \<and> cl_phone r = None \<and> cl_contact r = None
     \<and> \<not> misplaced mg r \<and> (\<exists>v. stored mg r = Inr v)"

lemma sealed_table_passes:
  assumes "1 \<le> mg_batchSize mg" "distinct (map row_key rows)" "length rows < fuel"
    and rows: "\<forall>r \<in> set rows. of_tenant mg r \<longrightarrow> sealed_readable mg r \<and> (required \<longrightarrow> current mg r)"
  shows "verifyEncryptedRows fuel mg required None 0 rows = Some (Inr (length (filter (of_tenant mg) rows)))"
proof -
  have filters: "filter (\<lambda>r. cl_organizationId r = mg_organizationId mg \<and> cl_formatVersion r \<noteq> None) rows = filter (of_tenant mg) rows"
    using rows by (intro filter_cong) (auto simp: of_tenant_def sealed_readable_def)
  then have len: "length (sealed_rows mg rows) = length (filter (of_tenant mg) rows)" and
    members: "set (sealed_rows mg rows) = {r \<in> set rows. of_tenant mg r}" unfolding sealed_rows_def by simp_all
  have "\<forall>r \<in> set (sealed_rows mg rows). verify_row mg required r = Inr ()"
    using rows unfolding members sealed_readable_def by (blast intro: verify_row_ok)
  moreover have "\<not> (\<exists>r \<in> set rows. cl_organizationId r = mg_organizationId mg \<and> (cl_phone r \<noteq> None \<or> cl_contact r \<noteq> None))"
    using rows by (auto simp: of_tenant_def sealed_readable_def)
  moreover have "filter (beyond None) (sealed_rows mg rows) = sealed_rows mg rows" by (simp add: beyond_def)
  moreover have "length (sealed_rows mg rows) < fuel" unfolding len using assms(3) length_filter_le[of "of_tenant mg" rows] by (rule le_less_trans[rotated])
  ultimately show ?thesis
    using verification_passes[OF assms(1) sealed_rows_sorted[OF assms(2)], of required None "sealed_rows mg rows" "[]" fuel 0] len by simp
qed

lemma resealed_sealed: "resealed mg r r' \<Longrightarrow> \<not> misplaced mg r \<Longrightarrow> sealed_readable mg r' \<and> current mg r'"
  by (auto simp: resealed_def current_def sealed_readable_def misplaced_def row_key_def)

lemma valid_sealed: "representation_valid r \<Longrightarrow> fit_row mg r \<Longrightarrow> cl_formatVersion r \<noteq> None \<Longrightarrow> sealed_readable mg r"
  by (auto simp: representation_valid_def fit_row_def sealed_readable_def)

lemma valid_current: "representation_valid r \<Longrightarrow> of_tenant mg r \<Longrightarrow> cl_formatVersion r \<noteq> None \<Longrightarrow> \<not> to_rotate mg r \<Longrightarrow> current mg r"
  by (auto simp: representation_valid_def of_tenant_def to_rotate_def retired_row_def differs_def current_def split: option.splits)

text \<open>What a sweep leaves: the keys, and every row of the tenant as the sweep left it.\<close>

lemma swept_rows:
  assumes "list_all2 (\<lambda>r r'. if wanted r then resealed mg r r' else r' = r) rows rows'"
  shows "map row_key rows' = map row_key rows"
    and "length (filter (of_tenant mg) rows') = length (filter (of_tenant mg) rows)"
    and "\<forall>r' \<in> set rows'. \<exists>r \<in> set rows. row_key r' = row_key r \<and> (if wanted r then resealed mg r r' else r' = r)"
  using assms by (induction rule: list_all2_induct) (auto simp: resealed_def row_key_def of_tenant_def split: if_splits)



end
