(* ===== verification/Renderers.thy ===== *)
theory Renderers
  imports Csv Bytes
begin

text \<open>
  The files of a report: CSV (\<open>renderCsv\<close> of \<open>report-worker.ts\<close>), and the spreadsheet and PDF writers of
  \<open>report-renderers.ts\<close>, down to their bytes. A row lists its properties in the order of
  \<open>Object.keys\<close>. How numbers print and the compressor (\<open>deflateRawSync\<close>) are parameters.
\<close>

unbundle bit_operations_syntax

section \<open>Cells\<close>

datatype not_finite = NaN | PlusInfinity | MinusInfinity

datatype report_cell = CellText string | CellNumber rat | CellNotFinite not_finite | CellBool bool | CellNull | CellUndefined

type_synonym report_row = "(string \<times> report_cell) list"

primrec not_finite_text :: "not_finite \<Rightarrow> string" where
  "not_finite_text NaN = ''NaN''"
| "not_finite_text PlusInfinity = ''Infinity''"
| "not_finite_text MinusInfinity = ''-Infinity''"

text \<open>\<open>String(value ?? "")\<close>\<close>

primrec cell_text :: "(rat \<Rightarrow> string) \<Rightarrow> report_cell \<Rightarrow> string" where
  "cell_text num (CellText s) = s"
| "cell_text num (CellNumber q) = num q"
| "cell_text num (CellNotFinite n) = not_finite_text n"
| "cell_text num (CellBool b) = (if b then ''true'' else ''false'')"
| "cell_text num CellNull = []"
| "cell_text num CellUndefined = []"

definition cell_at :: "report_row \<Rightarrow> string \<Rightarrow> report_cell" where
  "cell_at row k = (case map_of row k of None \<Rightarrow> CellUndefined | Some c \<Rightarrow> c)"

definition columns_of :: "report_row list \<Rightarrow> string list" where
  "columns_of rows = js_set (concat (map (map fst) rows))"

section \<open>CSV\<close>

definition needs_quotes :: "string \<Rightarrow> bool" where
  "needs_quotes s = list_ex (\<lambda>c. c \<in> {CHR 0x22, CHR '','', CHR 0x0D, CHR 0x0A}) s"

definition csvCell :: "string \<Rightarrow> string" where
  "csvCell s = (if needs_quotes s then [CHR 0x22] @ double_quotes s @ [CHR 0x22] else s)"

definition csv_table :: "(rat \<Rightarrow> string) \<Rightarrow> report_row list \<Rightarrow> string list list" where
  "csv_table num rows = (let ks = columns_of rows in ks # map (\<lambda>row. map (\<lambda>k. cell_text num (cell_at row k)) ks) rows)"

definition csv_text :: "(rat \<Rightarrow> string) \<Rightarrow> report_row list \<Rightarrow> string" where
  "csv_text num rows = join_with crlf (map (\<lambda>cells. join_with '','' (map csvCell cells)) (csv_table num rows)) @ crlf"

definition renderCsv :: "(rat \<Rightarrow> string) \<Rightarrow> report_row list \<Rightarrow> bytes" where
  "renderCsv num rows = [0xEF, 0xBB, 0xBF] @ utf8 (csv_text num rows)"

section \<open>Checksums and archives\<close>

definition max_report_rows :: nat where
  "max_report_rows = 10000"

definition max_report_bytes :: nat where
  "max_report_bytes = 50 * 1024 * 1024"

definition crc_bit :: "32 word \<Rightarrow> 32 word" where
  "crc_bit c = drop_bit 1 c XOR (0xEDB88320 AND - (c AND 1))"

definition crc_byte :: "32 word \<Rightarrow> 8 word \<Rightarrow> 32 word" where
  "crc_byte c b = (crc_bit ^^ 8) (c XOR ucast b)"

definition crc32 :: "bytes \<Rightarrow> 32 word" where
  "crc32 bs = foldl crc_byte 0xFFFFFFFF bs XOR 0xFFFFFFFF"

text \<open>\<open>writeUInt16LE\<close>, \<open>writeUInt32LE\<close>: little-endian, throwing on what does not fit.\<close>

fun little_endian :: "nat \<Rightarrow> nat \<Rightarrow> bytes" where
  "little_endian 0 v = []"
| "little_endian (Suc n) v = of_nat (v mod 256) # little_endian n (v div 256)"

definition write_le :: "nat \<Rightarrow> nat \<Rightarrow> string + bytes" where
  "write_le n v = (if v < 256 ^ n then Inr (little_endian n v) else Inl ''The value is out of range'')"

record zip_entry =
  ze_name :: bytes
  ze_crc :: "32 word"
  ze_packed :: nat
  ze_plain :: nat

text \<open>The fields from the flags on: method, zeroed time, checksum, sizes, length of the name.\<close>

definition zip_fields :: "zip_entry \<Rightarrow> string + bytes" where
  "zip_fields e =
     (case (write_le 4 (ze_packed e), write_le 4 (ze_plain e), write_le 2 (length (ze_name e))) of
        (Inr p, Inr q, Inr n) \<Rightarrow> Inr (little_endian 2 8 @ little_endian 2 8 @ replicate 4 0 @ little_endian 4 (unat (ze_crc e)) @ p @ q @ n)
      | _ \<Rightarrow> Inl ''The value is out of range'')"

definition local_header :: "zip_entry \<Rightarrow> string + bytes" where
  "local_header e = map_sum id (\<lambda>f. little_endian 4 0x04034B50 @ little_endian 2 20 @ f @ replicate 2 0) (zip_fields e)"

definition central_header :: "zip_entry \<Rightarrow> nat \<Rightarrow> string + bytes" where
  "central_header e offset =
     (case (zip_fields e, write_le 4 offset) of
        (Inr f, Inr o') \<Rightarrow> Inr (little_endian 4 0x02014B50 @ little_endian 2 20 @ little_endian 2 20 @ f @ replicate 12 0 @ o')
      | _ \<Rightarrow> Inl ''The value is out of range'')"

text \<open>The chunks of the archive and its directory, from an offset on.\<close>

fun zip_parts :: "(bytes \<Rightarrow> bytes) \<Rightarrow> nat \<Rightarrow> (bytes \<times> bytes) list \<Rightarrow> string + bytes \<times> bytes" where
  "zip_parts deflate offset [] = Inr ([], [])"
| "zip_parts deflate offset ((name, source) # files) =
     (let body = deflate source;
          e = \<lparr>ze_name = name, ze_crc = crc32 source, ze_packed = length body, ze_plain = length source\<rparr> in
      case (local_header e, central_header e offset) of
        (Inr l, Inr c) \<Rightarrow>
          (case zip_parts deflate (offset + length l + length name + length body) files of
             Inr (chunks, directory) \<Rightarrow> Inr (l @ name @ body @ chunks, c @ name @ directory)
           | Inl m \<Rightarrow> Inl m)
      | _ \<Rightarrow> Inl ''The value is out of range'')"

definition end_record :: "nat \<Rightarrow> nat \<Rightarrow> nat \<Rightarrow> string + bytes" where
  "end_record entries len offset =
     (case (write_le 2 entries, write_le 4 len, write_le 4 offset) of
        (Inr n, Inr d, Inr o') \<Rightarrow> Inr (little_endian 4 0x06054B50 @ replicate 4 0 @ n @ n @ d @ o' @ replicate 2 0)
      | _ \<Rightarrow> Inl ''The value is out of range'')"

definition bounded_output :: "bytes \<Rightarrow> string + bytes" where
  "bounded_output out = (if max_report_bytes < length out then Inl ''Rendered report exceeds the output-size limit'' else Inr out)"

definition zip_archive :: "(bytes \<Rightarrow> bytes) \<Rightarrow> (bytes \<times> bytes) list \<Rightarrow> string + bytes" where
  "zip_archive deflate files =
     (case zip_parts deflate 0 files of
        Inl m \<Rightarrow> Inl m
      | Inr (chunks, directory) \<Rightarrow>
          (case end_record (length files) (length directory) (length chunks) of
             Inl m \<Rightarrow> Inl m | Inr e \<Rightarrow> bounded_output (chunks @ directory @ e)))"

section \<open>Spreadsheets\<close>

definition assertBounded :: "report_row list \<Rightarrow> string + unit" where
  "assertBounded rows = (if max_report_rows < length rows then Inl (''Report exceeds the '' @ decimal max_report_rows @ ''-row limit'')
     else Inr ())"

definition xml_char :: "char \<Rightarrow> string" where
  "xml_char c =
     (if c = CHR ''&'' then ''&amp;'' else if c = CHR ''<'' then ''&lt;'' else if c = CHR ''>'' then ''&gt;''
      else if c = CHR 0x22 then ''&quot;'' else if c = CHR 0x27 then ''&apos;'' else [c])"

definition xml :: "string \<Rightarrow> string" where
  "xml s = concat (map xml_char s)"

function column_letters :: "nat \<Rightarrow> string \<Rightarrow> string" where
  "column_letters 0 v = v"
| "column_letters (Suc n) v = column_letters (n div 26) (char_of (65 + n mod 26) # v)"
  by pat_completeness auto

termination by (relation "measure fst") auto

definition columnName :: "nat \<Rightarrow> string" where
  "columnName index = column_letters (index + 1) []"

text \<open>An attribute, in quotes.\<close>

definition attribute :: "string \<Rightarrow> string \<Rightarrow> string" where
  "attribute name v = '' '' @ name @ ''='' @ [CHR 0x22] @ v @ [CHR 0x22]"

definition xlsxCell :: "(rat \<Rightarrow> string) \<Rightarrow> report_cell \<Rightarrow> string \<Rightarrow> string" where
  "xlsxCell num v ref = (case v of
      CellNumber q \<Rightarrow> ''<c'' @ attribute ''r'' ref @ ''><v>'' @ num q @ ''</v></c>''
    | CellBool b \<Rightarrow> ''<c'' @ attribute ''r'' ref @ attribute ''t'' ''b'' @ ''><v>'' @ (if b then ''1'' else ''0'') @ ''</v></c>''
    | _ \<Rightarrow> ''<c'' @ attribute ''r'' ref @ attribute ''t'' ''inlineStr'' @ ''><is><t'' @ attribute ''xml:space'' ''preserve'' @ ''>''
         @ xml (cell_text num v) @ ''</t></is></c>'')"

definition xlsxRow :: "(rat \<Rightarrow> string) \<Rightarrow> nat \<Rightarrow> report_cell list \<Rightarrow> string" where
  "xlsxRow num i row = ''<row'' @ attribute ''r'' (decimal (i + 1)) @ ''>''
     @ concat (map (\<lambda>(j, v). xlsxCell num v (columnName j @ decimal (i + 1))) (enumerate 0 row)) @ ''</row>''"

definition grid_of :: "report_row list \<Rightarrow> report_cell list list" where
  "grid_of rows = (let ks = columns_of rows in map CellText ks # map (\<lambda>row. map (cell_at row) ks) rows)"

definition xml_head :: "string \<Rightarrow> string" where
  "xml_head rest = ''<?xml'' @ attribute ''version'' ''1.0'' @ rest @ ''?>''"

definition sheet_of :: "(rat \<Rightarrow> string) \<Rightarrow> report_row list \<Rightarrow> string" where
  "sheet_of num rows = xml_head (attribute ''encoding'' ''UTF-8'' @ attribute ''standalone'' ''yes'')
     @ ''<worksheet'' @ attribute ''xmlns'' ''http://schemas.openxmlformats.org/spreadsheetml/2006/main'' @ ''><sheetData>''
     @ concat (map (\<lambda>(i, row). xlsxRow num i row) (enumerate 0 (grid_of rows))) @ ''</sheetData></worksheet>''"

text \<open>The four parts of an archive that do not depend on the report.\<close>

definition open_types :: "string \<Rightarrow> string" where
  "open_types s = ''http://schemas.openxmlformats.org/package/2006/'' @ s"

definition open_document :: "string \<Rightarrow> string" where
  "open_document s = ''http://schemas.openxmlformats.org/officeDocument/2006/relationships'' @ s"

definition spreadsheet_type :: "string \<Rightarrow> string" where
  "spreadsheet_type s = ''application/vnd.openxmlformats-officedocument.spreadsheetml.'' @ s @ ''+xml''"

definition relationship :: "string \<Rightarrow> string \<Rightarrow> string" where
  "relationship kind target = xml_head [] @ ''<Relationships'' @ attribute ''xmlns'' (open_types ''relationships'') @ ''><Relationship''
     @ attribute ''Id'' ''rId1'' @ attribute ''Type'' (open_document kind) @ attribute ''Target'' target @ ''/></Relationships>''"

definition content_types :: string where
  "content_types = xml_head [] @ ''<Types'' @ attribute ''xmlns'' (open_types ''content-types'') @ ''><Default''
     @ attribute ''Extension'' ''rels'' @ attribute ''ContentType'' ''application/vnd.openxmlformats-package.relationships+xml''
     @ ''/><Default'' @ attribute ''Extension'' ''xml'' @ attribute ''ContentType'' ''application/xml'' @ ''/><Override''
     @ attribute ''PartName'' ''/xl/workbook.xml'' @ attribute ''ContentType'' (spreadsheet_type ''sheet.main'') @ ''/><Override''
     @ attribute ''PartName'' ''/xl/worksheets/sheet1.xml'' @ attribute ''ContentType'' (spreadsheet_type ''worksheet'') @ ''/></Types>''"

definition workbook :: string where
  "workbook = xml_head [] @ ''<workbook'' @ attribute ''xmlns'' ''http://schemas.openxmlformats.org/spreadsheetml/2006/main''
     @ attribute ''xmlns:r'' (open_document []) @ ''><sheets><sheet'' @ attribute ''name'' ''Callora report''
     @ attribute ''sheetId'' ''1'' @ attribute ''r:id'' ''rId1'' @ ''/></sheets></workbook>''"

definition renderXlsx :: "(bytes \<Rightarrow> bytes) \<Rightarrow> (rat \<Rightarrow> string) \<Rightarrow> report_row list \<Rightarrow> string + bytes" where
  "renderXlsx deflate num rows =
     (case assertBounded rows of
        Inl m \<Rightarrow> Inl m
      | Inr _ \<Rightarrow> zip_archive deflate (map (\<lambda>(n, s). (utf8 n, utf8 s))
          [(''[Content_Types].xml'', content_types), (''_rels/.rels'', relationship ''/officeDocument'' ''xl/workbook.xml''),
           (''xl/workbook.xml'', workbook), (''xl/_rels/workbook.xml.rels'', relationship ''/worksheet'' ''worksheets/sheet1.xml''),
           (''xl/worksheets/sheet1.xml'', sheet_of num rows)]))"

section \<open>PDF\<close>

definition printable :: "char \<Rightarrow> bool" where
  "printable c = (let n = of_char c :: nat in 32 \<le> n \<and> n \<le> 126)"

definition pdf_escape :: "char \<Rightarrow> string" where
  "pdf_escape c = (if c \<in> {CHR 0x5C, CHR ''('', CHR '')''} then [CHR 0x5C, c] else [c])"

definition pdfText :: "string \<Rightarrow> string" where
  "pdfText s = concat (map pdf_escape (map (\<lambda>c. if printable c then c else CHR ''?'') s))"

definition nl :: string where
  "nl = [CHR 0x0A]"

definition byteLength :: "string \<Rightarrow> nat" where
  "byteLength s = length (utf8 s)"

definition pdf_lines :: "(rat \<Rightarrow> string) \<Rightarrow> report_row list \<Rightarrow> string list" where
  "pdf_lines num rows = (let ks = columns_of rows
     in join_with '' | '' ks # map (\<lambda>row. join_with '' | '' (map (\<lambda>k. cell_text num (cell_at row k)) ks)) rows)"

function pages_of :: "string list \<Rightarrow> string list list" where
  "pages_of [] = []"
| "pages_of (l # ls) = take 45 (l # ls) # pages_of (drop 45 (l # ls))"
  by pat_completeness auto

termination by (relation "measure length") auto

text \<open>A line as a string literal: cut after a hundred and fifty characters.\<close>

definition pdf_line :: "string \<Rightarrow> string" where
  "pdf_line line = ''('' @ take 150 (pdfText line) @ '') Tj 0 -16 Td''"

definition pdf_stream :: "string list \<Rightarrow> string" where
  "pdf_stream page = ''BT /F1 8 Tf 36 800 Td 0 -16 Td '' @ join_with '' '' (map pdf_line page) @ '' ET''"

definition pdf_content :: "string list \<Rightarrow> string" where
  "pdf_content page = ''<< /Length '' @ decimal (byteLength (pdf_stream page)) @ '' >>'' @ nl @ ''stream'' @ nl @ pdf_stream page @ nl @ ''endstream''"

text \<open>\<open>add\<close> numbers the objects from one; each page adds its content and itself.\<close>

fun pdf_pages :: "string list list \<Rightarrow> string list \<Rightarrow> string list \<times> nat list" where
  "pdf_pages [] objects = (objects, [])"
| "pdf_pages (page # pages) objects =
     (let content = Suc (length objects);
          p = ''<< /Type /Page /Parent 2 0 R /MediaBox [0 0 612 842] /Resources << /Font << /F1 1 0 R >> >> /Contents ''
            @ decimal content @ '' 0 R >>'';
          (all, rest) = pdf_pages pages (objects @ [pdf_content page, p])
      in (all, Suc content # rest))"

definition pdf_objects :: "string list list \<Rightarrow> string list" where
  "pdf_objects pages =
     (let (objects, ids) = pdf_pages pages [''<< /Type /Font /Subtype /Type1 /BaseFont /Helvetica >>'', ''placeholder'']
      in objects[1 := ''<< /Type /Pages /Kids ['' @ join_with '' '' (map (\<lambda>i. decimal i @ '' 0 R'') ids)
           @ ''] /Count '' @ decimal (length ids) @ '' >>''] @ [''<< /Type /Catalog /Pages 2 0 R >>''])"

text \<open>The body of the file and the offset of each object, numbered from \<open>n\<close>.\<close>

definition pdf_object :: "nat \<Rightarrow> string \<Rightarrow> string" where
  "pdf_object i v = decimal i @ '' 0 obj'' @ nl @ v @ nl @ ''endobj'' @ nl"

fun pdf_body :: "nat \<Rightarrow> string list \<Rightarrow> string \<Rightarrow> string \<times> nat list" where
  "pdf_body n [] out = (out, [])"
| "pdf_body n (v # vs) out = (let (res, offsets) = pdf_body (Suc n) vs (out @ pdf_object n v) in (res, byteLength out # offsets))"

definition xref_entry :: "nat \<Rightarrow> string" where
  "xref_entry offset = pad_start 10 (CHR ''0'') (decimal offset) @ '' 00000 n ''"

definition pdf_file :: "string list \<Rightarrow> string" where
  "pdf_file objects =
     (let (out, offsets) = pdf_body 1 objects (''%PDF-1.4'' @ nl); n = length objects
      in out @ ''xref'' @ nl @ ''0 '' @ decimal (n + 1) @ nl @ ''0000000000 65535 f '' @ nl @ join_with nl (map xref_entry offsets) @ nl
         @ ''trailer << /Size '' @ decimal (n + 1) @ '' /Root '' @ decimal n @ '' 0 R >>'' @ nl @ ''startxref'' @ nl
         @ decimal (byteLength out) @ nl @ ''%%EOF'' @ nl)"

definition renderPdf :: "(rat \<Rightarrow> string) \<Rightarrow> report_row list \<Rightarrow> string + bytes" where
  "renderPdf num rows =
     (case assertBounded rows of Inl m \<Rightarrow> Inl m
      | Inr _ \<Rightarrow> bounded_output (utf8 (pdf_file (pdf_objects (pages_of (pdf_lines num rows))))))"

end
