(* ===== verification/RendererFacts.thy ===== *)
theory RendererFacts
  imports Renderers CsvFacts
begin

text \<open>
  What the report files promise their readers: the CSV reads back, checksums notice bursts of errors,
  archives and PDF files say where their parts are, escaped text reads back as it was.
\<close>

unbundle bit_operations_syntax

section \<open>Checksums\<close>

text \<open>One bit of the division: linear, and nothing but zero goes to zero, since the top bit of the polynomial is set.\<close>

lemma low_bit_mask: "- (c AND 1) = (if odd c then -1 else 0)" for c :: "32 word"
  by (simp add: and_one_eq odd_iff_mod_2_eq_one)

lemma crc_bit_if: "crc_bit c = drop_bit 1 c XOR (if odd c then 0xEDB88320 else 0)"
  by (simp add: crc_bit_def low_bit_mask)

lemma crc_bit_xor: "crc_bit (c XOR d) = crc_bit c XOR crc_bit d"
proof -
  have "odd (c XOR d) = (odd c \<noteq> odd d)"
    by (simp add: even_xor_iff)
  then show ?thesis by (cases "odd c"; cases "odd d") (simp_all add: crc_bit_if drop_bit_xor ac_simps)
qed

lemma crc_bit_zero: "crc_bit c = 0 \<longleftrightarrow> c = 0"
proof
  assume zero: "crc_bit c = 0"
  have "bit (crc_bit c) 31 = odd c"
    by (auto simp: crc_bit_if bit_xor_iff bit_drop_bit_eq dest: bit_imp_le_length)
  then have even: "even c" using zero by simp
  then have rest: "drop_bit 1 c = 0" using zero by (simp add: crc_bit_if)
  show "c = 0"
  proof (rule bit_word_eqI)
    fix n
    have "bit (drop_bit 1 c) (n - 1) = bit c n" if "0 < n" using that by (simp add: bit_drop_bit_eq)
    then show "bit c n = bit 0 n" using even rest by (cases n) (auto simp: bit_0)
  qed
qed (simp add: crc_bit_if)

lemma crc_bits_xor: "(crc_bit ^^ k) (c XOR d) = (crc_bit ^^ k) c XOR (crc_bit ^^ k) d"
  by (induction k) (simp_all add: crc_bit_xor)

lemma crc_bits_zero: "(crc_bit ^^ k) c = 0 \<longleftrightarrow> c = 0"
  by (induction k) (simp_all add: crc_bit_zero)

lemma xor_cancel: "x XOR a = y XOR a \<longleftrightarrow> x = y" "x XOR y = 0 \<longleftrightarrow> x = y" for x y a :: "'a :: len word"
  by (auto simp: bit_eq_iff bit_xor_iff)

lemma crc_bits_eq: "(crc_bit ^^ k) c = (crc_bit ^^ k) d \<longleftrightarrow> c = d"
  using crc_bits_zero[of k "c XOR d"] by (simp add: crc_bits_xor xor_cancel)

text \<open>A byte moved up by eight places comes down unchanged.\<close>

lemma crc_bit_shift:
  assumes "\<And>n. bit p n \<Longrightarrow> n + Suc k < 32"
  shows "crc_bit (push_bit (Suc k) p) = push_bit k p"
proof (rule bit_word_eqI)
  fix n
  have "even (push_bit (Suc k) p)" by (simp add: push_bit_eq_mult)
  then show "bit (crc_bit (push_bit (Suc k) p)) n = bit (push_bit k p) n"
    using assms[of "n - k"] by (auto simp: crc_bit_if bit_drop_bit_eq bit_push_bit_iff simp del: push_bit_Suc)
qed

lemma crc_bits_shift:
  "(\<And>n. bit p n \<Longrightarrow> n + k < 32) \<Longrightarrow> (crc_bit ^^ k) (push_bit k p) = p"
proof (induction k)
  case (Suc k)
  have "(crc_bit ^^ Suc k) (push_bit (Suc k) p) = (crc_bit ^^ k) (crc_bit (push_bit (Suc k) p))"
    by (simp add: funpow_swap1)
  also have "\<dots> = (crc_bit ^^ k) (push_bit k p)" using crc_bit_shift[OF Suc.prems] by simp
  also have "\<dots> = p" by (rule Suc.IH) (use Suc.prems in fastforce)
  finally show ?case .
qed simp

fun packed :: "bytes \<Rightarrow> 32 word" where
  "packed [] = 0"
| "packed (b # bs) = ucast b XOR push_bit 8 (packed bs)"

lemma packed_bits: "bit (packed bs) n \<Longrightarrow> n < 8 * length bs"
proof (induction bs arbitrary: n)
  case (Cons b bs)
  then show ?case
    by (cases "n < 8") (auto simp: bit_xor_iff bit_ucast_iff bit_push_bit_iff dest!: Cons.IH dest: bit_imp_le_length)
qed simp

lemma packed_zero: "length bs \<le> 4 \<Longrightarrow> packed bs = 0 \<Longrightarrow> list_all (\<lambda>b. b = 0) bs"
proof (induction bs)
  case (Cons b bs)
  have bits: "bit (ucast b :: 32 word) n = bit (push_bit 8 (packed bs)) n" for n
    using Cons.prems(2) by (metis bit_0_eq bit_xor_iff bot_apply packed.simps(2) bot_bool_def)
  have "b = 0"
  proof (rule bit_word_eqI)
    fix n assume "n < LENGTH(8)"
    then show "bit b n = bit 0 n" using bits[of n] by (auto simp: bit_ucast_iff bit_push_bit_iff)
  qed
  moreover have "packed bs = 0"
  proof (rule bit_word_eqI)
    fix n assume "n < LENGTH(32)"
    show "bit (packed bs) n = bit 0 n"
    proof
      assume set: "bit (packed bs) n"
      then have "n < 8 * length bs" by (rule packed_bits)
      then have "n + 8 < 32" using Cons.prems(1) by simp
      then show "bit 0 n" using set bits[of "n + 8"] by (auto simp: bit_ucast_iff bit_push_bit_iff dest: bit_imp_le_length)
    qed simp
  qed
  ultimately show ?case using Cons by simp
qed simp

lemma crc_run:
  "length as = length bs \<Longrightarrow> length as \<le> 4 \<Longrightarrow>
   foldl crc_byte c as XOR foldl crc_byte d bs = (crc_bit ^^ (8 * length as)) ((c XOR d) XOR packed (map2 (XOR) as bs))"
proof (induction as bs arbitrary: c d rule: list_induct2)
  case (Cons a as b bs)
  let ?p = "packed (map2 (XOR) as bs)" and ?y = "(c XOR d) XOR ucast (a XOR b)"
  have shift: "(crc_bit ^^ 8) (push_bit 8 ?p) = ?p"
    by (rule crc_bits_shift) (use Cons.prems Cons.hyps in \<open>auto dest!: packed_bits\<close>)
  have "crc_byte c a XOR crc_byte d b = (crc_bit ^^ 8) ?y"
    unfolding crc_byte_def crc_bits_xor[symmetric] by (simp add: unsigned_xor_eq ac_simps)
  then have "foldl crc_byte c (a # as) XOR foldl crc_byte d (b # bs) = (crc_bit ^^ (8 * length as)) ((crc_bit ^^ 8) ?y XOR ?p)"
    using Cons.IH[of "crc_byte c a" "crc_byte d b"] Cons.prems by simp
  also have "\<dots> = (crc_bit ^^ (8 * length as)) ((crc_bit ^^ 8) (?y XOR push_bit 8 ?p))"
    by (simp only: crc_bits_xor shift)
  also have "\<dots> = (crc_bit ^^ (8 * length (a # as))) (?y XOR push_bit 8 ?p)"
    by (simp only: funpow_add[unfolded comp_def, THEN fun_cong, symmetric] length_Cons mult_Suc_right) (simp add: add.commute)
  finally show ?case by (simp add: ac_simps)
qed simp

lemma crc_same_tail: "foldl crc_byte c xs = foldl crc_byte d xs \<longleftrightarrow> c = d"
proof (induction xs arbitrary: c d)
  case (Cons x xs)
  then show ?case by (simp add: crc_byte_def crc_bits_eq xor_cancel)
qed simp

text \<open>
  The checksum of an archive's entry notices every burst: two contents of the same length that
  differ only within four consecutive bytes have different checksums.
\<close>

theorem crc32_notices_bursts:
  assumes "length as = length bs" "length as \<le> 4" and "crc32 (pre @ as @ post) = crc32 (pre @ bs @ post)"
  shows "as = bs"
proof -
  let ?c = "foldl crc_byte 0xFFFFFFFF pre"
  have "foldl crc_byte ?c as = foldl crc_byte ?c bs"
    using assms(3) by (simp add: crc32_def crc_same_tail xor_cancel)
  then have "(crc_bit ^^ (8 * length as)) (packed (map2 (XOR) as bs)) = 0"
    using crc_run[OF assms(1,2), of ?c ?c] by simp
  then have "list_all (\<lambda>b. b = 0) (map2 (XOR) as bs)"
    using packed_zero[of "map2 (XOR) as bs"] assms(1,2) by (simp add: crc_bits_zero)
  then have "\<forall>i < length as. as ! i XOR bs ! i = 0"
    using assms(1) by (auto simp: list_all_length)
  then show ?thesis
    using assms(1) by (intro nth_equalityI) (simp_all add: xor_cancel)
qed

lemma crc_eight: "(crc_bit ^^ 8) c = crc_bit (crc_bit (crc_bit (crc_bit (crc_bit (crc_bit (crc_bit (crc_bit c)))))))"
  by (simp add: numeral_eq_Suc)

text \<open>The checksum of the letter \<open>a\<close>, as any other implementation gives it.\<close>

lemma crc32_check: "crc32 [0x61] = 0xE8B7BE43"
  by (simp add: crc32_def crc_byte_def crc_eight crc_bit_def)

section \<open>Columns\<close>

definition column_index :: "string \<Rightarrow> nat" where
  "column_index s = foldl (\<lambda>n c. n * 26 + (of_char c - 64)) 0 s - 1"

lemma column_letters_value:
  "foldl (\<lambda>n c. n * 26 + (of_char c - 64)) 0 (column_letters m v) = foldl (\<lambda>n c. n * 26 + (of_char c - 64)) m v"
proof (induction m v rule: column_letters.induct)
  case (2 n v)
  have "(of_char (char_of (65 + n mod 26) :: char) :: nat) - 64 = n mod 26 + 1" by simp
  then show ?case using 2 by simp
qed simp

text \<open>The letters of a column of the spreadsheet determine its number: no two columns share a name.\<close>

theorem columnName_roundtrip: "column_index (columnName n) = n"
  by (simp add: column_index_def columnName_def column_letters_value del: column_letters.simps)

section \<open>Escaping\<close>

text \<open>A reader of XML text: the five entities stand for their characters.\<close>

definition entities :: "(string \<times> char) list" where
  "entities = [(''&amp;'', CHR ''&''), (''&lt;'', CHR ''<''), (''&gt;'', CHR ''>''), (''&quot;'', CHR 0x22), (''&apos;'', CHR 0x27)]"

function unxml :: "string \<Rightarrow> string" where
  "unxml [] = []"
| "unxml (c # cs) = (case find (\<lambda>e. take (length (fst e)) (c # cs) = fst e \<and> fst e \<noteq> []) entities of
      Some e \<Rightarrow> snd e # unxml (drop (length (fst e)) (c # cs)) | None \<Rightarrow> c # unxml cs)"
  by pat_completeness auto

termination
  by (relation "measure length") (auto dest: find_SomeD)

lemma unxml_char: "unxml (xml_char c @ s) = c # unxml s"
  by (auto simp: xml_char_def entities_def)

text \<open>Escaped text contains no markup and reads back as it was.\<close>

theorem xml_roundtrip: "unxml (xml s) = s \<and> set (xml s) \<inter> {CHR ''<'', CHR ''>'', CHR 0x22, CHR 0x27} = {}"
proof
  show "unxml (xml s) = s" by (induction s) (simp_all add: xml_def unxml_char del: unxml.simps(2))
  show "set (xml s) \<inter> {CHR ''<'', CHR ''>'', CHR 0x22, CHR 0x27} = {}" by (auto simp: xml_def xml_char_def split: if_splits)
qed

section \<open>CSV\<close>

text \<open>A field has been read: its text is held, nothing else changed but the count of lines.\<close>

definition holds :: "string \<Rightarrow> csv_state \<Rightarrow> csv_state \<Rightarrow> bool" where
  "holds t s s' \<longleftrightarrow> cs_field s' = t \<and> \<not> cs_quoted s' \<and> cs_records s' = cs_records s \<and> cs_record s' = cs_record s \<and> cs_issues s' = cs_issues s"

lemma scan_plain:
  "\<not> needs_quotes t \<Longrightarrow> \<not> cs_quoted s \<Longrightarrow> \<not> cs_closedQuote s \<Longrightarrow>
   csv_scan (t @ rest) s = csv_scan rest (s\<lparr>cs_field := cs_field s @ t\<rparr>)"
proof (induction t arbitrary: s)
  case (Cons c t)
  have "csv_char c nxt s = (add_char c s, False)" for nxt
    using Cons.prems by (auto simp: csv_char_def needs_quotes_def)
  moreover have "csv_scan (t @ rest) (add_char c s) = csv_scan rest (s\<lparr>cs_field := cs_field s @ c # t\<rparr>)"
    using Cons.prems Cons.IH[of "add_char c s"] by (simp add: add_char_def needs_quotes_def)
  ultimately show ?case by simp
qed simp

lemma scan_between_quotes:
  "cs_quoted s \<Longrightarrow> (case rest of [] \<Rightarrow> True | d # _ \<Rightarrow> d \<noteq> CHR 0x22) \<Longrightarrow>
   \<exists>s'. csv_scan (double_quotes t @ CHR 0x22 # rest) s = csv_scan rest s' \<and> holds (cs_field s @ t) s s'"
proof (induction t arbitrary: s)
  case Nil
  then show ?case
    by (intro exI[of _ "s\<lparr>cs_quoted := False, cs_closedQuote := True\<rparr>"], cases rest)
      (simp_all add: double_quotes_def csv_char_def holds_def)
next
  case (Cons c t)
  let ?s = "if c = CHR 0x0A then next_line (add_char c s) else add_char c s"
  have "cs_quoted ?s" using Cons.prems(1) by (simp add: add_char_def next_line_def)
  then obtain s' where s': "csv_scan (double_quotes t @ CHR 0x22 # rest) ?s = csv_scan rest s'" "holds (cs_field ?s @ t) ?s s'"
    using Cons.IH[of ?s] Cons.prems(2) by blast
  have "csv_scan (double_quotes (c # t) @ CHR 0x22 # rest) s = csv_scan (double_quotes t @ CHR 0x22 # rest) ?s"
    using Cons.prems(1) by (auto simp: double_quotes_def csv_char_def)
  then show ?case using s' by (intro exI[of _ s']) (simp add: holds_def add_char_def next_line_def split: if_splits)
qed

lemma scan_csvCell:
  assumes "at_field s" and "case rest of [] \<Rightarrow> True | d # _ \<Rightarrow> d \<noteq> CHR 0x22"
  shows "\<exists>s'. csv_scan (csvCell t @ rest) s = csv_scan rest s' \<and> holds t s s'"
proof (cases "needs_quotes t")
  case True
  let ?s = "s\<lparr>cs_field := [], cs_quoted := True\<rparr>"
  have "js_trim [] = []" by (simp add: js_trim_def)
  then have "csv_scan (csvCell t @ rest) s = csv_scan (double_quotes t @ CHR 0x22 # rest) ?s"
    using assms(1) True by (simp add: csvCell_def csv_char_def at_field_def)
  then show ?thesis
    using scan_between_quotes[of ?s rest t] assms by (auto simp: holds_def)
next
  case False
  then have "csv_scan (csvCell t @ rest) s = csv_scan rest (s\<lparr>cs_field := t\<rparr>)"
    using assms(1) scan_plain[of t s rest] by (simp add: csvCell_def at_field_def)
  then show ?thesis using assms(1) by (intro exI[of _ "s\<lparr>cs_field := t\<rparr>"]) (simp add: holds_def at_field_def)
qed

lemma after_comma: "holds t s u \<Longrightarrow> csv_scan ('','' @ rest) u = csv_scan rest (finishField u)"
  by (simp add: holds_def csv_char_def)

lemma after_line: "holds t s u \<Longrightarrow> csv_scan (crlf @ rest) u = csv_scan rest (next_line (finishRecord u))"
  by (simp add: holds_def csv_char_def crlf_def)

lemma scan_record:
  "at_field s \<Longrightarrow> row \<noteq> [] \<Longrightarrow> 1 < length (cs_record s @ row) \<Longrightarrow>
   \<exists>s'. csv_scan (join_with '','' (map csvCell row) @ crlf @ rest) s = csv_scan rest s' \<and> at_field s' \<and> cs_record s' = []
     \<and> cs_issues s' = cs_issues s \<and> cs_records s' = cs_records s @ [cs_record s @ row]"
proof (induction row arbitrary: s)
  case (Cons x row)
  show ?case
  proof (cases row)
    case Nil
    obtain u where u: "csv_scan (csvCell x @ crlf @ rest) s = csv_scan (crlf @ rest) u" "holds x s u"
      using scan_csvCell[OF Cons.prems(1), of "crlf @ rest" x] by (auto simp: crlf_def)
    have "1 < length (cs_record s @ [x])" using Cons.prems(3) Nil by simp
    then show ?thesis using u Nil
      by (intro exI[of _ "next_line (finishRecord u)"])
        (auto simp: after_line finishRecord_def finishField_def next_line_def holds_def at_field_def Let_def)
  next
    case (Cons y ys)
    let ?tail = "join_with '','' (map csvCell row) @ crlf @ rest"
    obtain u where u: "csv_scan (csvCell x @ '','' @ ?tail) s = csv_scan ('','' @ ?tail) u" "holds x s u"
      using scan_csvCell[OF Cons.prems(1), of "'','' @ ?tail" x] by auto
    have "at_field (finishField u)" "1 < length (cs_record (finishField u) @ row)"
      using u(2) Cons.prems Cons by (simp_all add: finishField_def at_field_def holds_def)
    then obtain s' where "csv_scan ?tail (finishField u) = csv_scan rest s'" "at_field s'" "cs_record s' = []"
      "cs_issues s' = cs_issues (finishField u)" "cs_records s' = cs_records (finishField u) @ [cs_record (finishField u) @ row]"
      using Cons.IH[of "finishField u"] Cons by auto
    then show ?thesis using u Cons after_comma[OF u(2)] by (intro exI[of _ s']) (auto simp: finishField_def holds_def)
  qed
qed simp

lemma scan_table:
  "at_field s \<Longrightarrow> cs_record s = [] \<Longrightarrow> \<forall>row \<in> set rows. 1 < length row \<Longrightarrow>
   \<exists>s'. csv_scan (concat (map (\<lambda>row. join_with '','' (map csvCell row) @ crlf) rows)) s = s' \<and> at_field s' \<and> cs_record s' = []
     \<and> cs_issues s' = cs_issues s \<and> cs_records s' = cs_records s @ rows"
proof (induction rows arbitrary: s)
  case (Cons row rows)
  let ?rest = "concat (map (\<lambda>row. join_with '','' (map csvCell row) @ crlf) rows)"
  have "row \<noteq> []" "1 < length (cs_record s @ row)" using Cons.prems(2,3) by auto
  then obtain u where
    u: "csv_scan (join_with '','' (map csvCell row) @ crlf @ ?rest) s = csv_scan ?rest u"
    "at_field u" "cs_record u = []" "cs_issues u = cs_issues s" "cs_records u = cs_records s @ [cs_record s @ row]"
    using scan_record[OF Cons.prems(1), of row ?rest] by blast
  from Cons.IH[OF u(2,3)] Cons.prems(2,3) u(1,4,5) show ?case by auto
qed simp

text \<open>
  C37: A report of at least two columns is read back by the web client's CSV reader as the table that
  was written, header first, whatever the cells contain, with no complaint. A cell that begins like
  a formula is among them as it was: unlike the report of import errors, this writer does not
  neutralize it.
\<close>

theorem report_csv_roundtrip:
  assumes "1 < length (columns_of rows)"
  shows "splitCsv (csv_text num rows) = (csv_table num rows, [])"
proof -
  have "\<forall>row \<in> set (csv_table num rows). 1 < length row" using assms by (auto simp: csv_table_def Let_def)
  moreover have "at_field csv_start" "cs_record csv_start = []" by (simp_all add: at_field_def csv_start_def)
  moreover have "csv_text num rows = concat (map (\<lambda>row. join_with '','' (map csvCell row) @ crlf) (csv_table num rows))"
    unfolding csv_text_def by (rule join_lines) (simp add: csv_table_def Let_def)
  ultimately obtain s' where "csv_scan (csv_text num rows) csv_start = s'" "at_field s'" "cs_record s' = []"
    "cs_issues s' = []" "cs_records s' = csv_table num rows"
    using scan_table[of csv_start "csv_table num rows"] by (auto simp: csv_start_def)
  then show ?thesis by (simp add: splitCsv_def at_field_def)
qed

section \<open>Archives\<close>

lemma length_little_endian [simp]: "length (little_endian n v) = n"
  by (induction n v rule: little_endian.induct) simp_all

lemma write_le_Inr: "write_le n v = Inr b \<longleftrightarrow> v < 256 ^ n \<and> b = little_endian n v"
  by (auto simp: write_le_def)

fun read_le :: "bytes \<Rightarrow> nat" where
  "read_le [] = 0"
| "read_le (b # bs) = unat b + 256 * read_le bs"

lemma read_little_endian: "v < 256 ^ n \<Longrightarrow> read_le (little_endian n v) = v"
proof (induction n arbitrary: v)
  case (Suc n)
  have "unat (of_nat (v mod 256) :: 8 word) = v mod 256" by (simp add: unat_of_nat)
  then show ?case using Suc by (simp add: less_mult_imp_div_less mult.commute)
qed simp

declare little_endian.simps [simp del]

lemma zip_fields_Inr:
  "zip_fields e = Inr f \<Longrightarrow> length (ze_name e) < 256 ^ 2 \<and>
     (\<exists>g. length g = 20 \<and> f = g @ little_endian 2 (length (ze_name e)))"
proof -
  let ?g = "little_endian 2 8 @ little_endian 2 8 @ replicate 4 0 @ little_endian 4 (unat (ze_crc e))
    @ little_endian 4 (ze_packed e) @ little_endian 4 (ze_plain e)"
  assume "zip_fields e = Inr f"
  then have "length (ze_name e) < 256 ^ 2" "f = ?g @ little_endian 2 (length (ze_name e))"
    by (simp_all add: zip_fields_def write_le_def split: if_splits)
  moreover have "length ?g = 20" by simp
  ultimately show ?thesis by blast
qed

lemma local_header_size:
  assumes "local_header e = Inr l"
  shows "length l = 30" "length (ze_name e) < 256 ^ 2"
proof -
  obtain f where f: "zip_fields e = Inr f" "l = little_endian 4 0x04034B50 @ little_endian 2 20 @ f @ replicate 2 0"
    using assms by (cases "zip_fields e") (simp_all add: local_header_def)
  then show "length l = 30" "length (ze_name e) < 256 ^ 2" using zip_fields_Inr[OF f(1)] by auto
qed

lemma central_header_size:
  assumes "central_header e k = Inr c"
  shows "length c = 46" "k < 256 ^ 4" "drop 42 c = little_endian 4 k" "take 2 (drop 28 c) = little_endian 2 (length (ze_name e))"
proof -
  obtain f where f: "zip_fields e = Inr f" and k: "k < 256 ^ 4"
    and c: "c = little_endian 4 0x02014B50 @ little_endian 2 20 @ little_endian 2 20 @ f @ replicate 12 0 @ little_endian 4 k"
    using assms by (cases "zip_fields e") (simp_all add: central_header_def write_le_def split: if_splits)
  obtain g where g: "length g = 20" "f = g @ little_endian 2 (length (ze_name e))" using zip_fields_Inr[OF f] by blast
  show "length c = 46" "k < 256 ^ 4" using c g k by simp_all
  show "drop 42 c = little_endian 4 k" using c g by simp
  show "take 2 (drop 28 c) = little_endian 2 (length (ze_name e))" using c g by simp
qed

text \<open>Walking the directory, and reading an entry where it says the entry is.\<close>

fun directory_offsets :: "nat \<Rightarrow> bytes \<Rightarrow> nat list" where
  "directory_offsets 0 d = []"
| "directory_offsets (Suc n) d = read_le (take 4 (drop 42 d)) # directory_offsets n (drop (46 + read_le (take 2 (drop 28 d))) d)"

definition entry_at :: "bytes \<Rightarrow> nat \<Rightarrow> (bytes \<Rightarrow> bytes) \<Rightarrow> bytes \<times> bytes \<Rightarrow> bool" where
  "entry_at out offset deflate f = (\<exists>l. local_header \<lparr>ze_name = fst f, ze_crc = crc32 (snd f), ze_packed = length (deflate (snd f)),
     ze_plain = length (snd f)\<rparr> = Inr l
     \<and> take (30 + length (fst f) + length (deflate (snd f))) (drop offset out) = l @ fst f @ deflate (snd f))"

lemma zip_parts_located:
  "zip_parts deflate (length pre) files = Inr (chunks, directory) \<Longrightarrow> n = length files \<Longrightarrow>
   list_all2 (\<lambda>k f. entry_at (pre @ chunks @ post) k deflate f) (directory_offsets n (directory @ rest)) files"
proof (induction files arbitrary: pre chunks directory n)
  case (Cons f files)
  obtain name source where f: "f = (name, source)" by fastforce
  let ?e = "\<lparr>ze_name = name, ze_crc = crc32 source, ze_packed = length (deflate source), ze_plain = length source\<rparr>"
  obtain l c chunks' directory' where parts: "local_header ?e = Inr l" "central_header ?e (length pre) = Inr c"
    "zip_parts deflate (length pre + length l + length name + length (deflate source)) files = Inr (chunks', directory')"
    "chunks = l @ name @ deflate source @ chunks'" "directory = c @ name @ directory'"
    using Cons.prems(1) by (auto simp: f Let_def split: sum.splits)
  have sizes: "length l = 30" "length c = 46" "length pre < 256 ^ 4" "drop 42 c = little_endian 4 (length pre)"
    "take 2 (drop 28 c) = little_endian 2 (length name)"
    using local_header_size[OF parts(1)] central_header_size[OF parts(2)] by simp_all
  have "length name < 256 ^ 2" using local_header_size(2)[OF parts(1)] by simp
  then have len: "read_le (take 2 (drop 28 (directory @ rest))) = length name"
    using sizes parts(5) by (simp add: read_little_endian)
  have here: "read_le (take 4 (drop 42 (directory @ rest))) = length pre"
    using sizes parts(5) by (simp add: read_little_endian)
  have "list_all2 (\<lambda>k f. entry_at ((pre @ l @ name @ deflate source) @ chunks' @ post) k deflate f)
      (directory_offsets (length files) (directory' @ rest)) files"
    using parts(3) by (intro Cons.IH) (simp_all add: add.assoc)
  moreover have "entry_at (pre @ chunks @ post) (length pre) deflate f"
    using parts(1,4) sizes(1) by (auto simp: entry_at_def f)
  ultimately show ?case using Cons.prems(2) here len parts(4,5) sizes(2) by (simp add: f)
qed simp

text \<open>A reader of archives: the last twenty-two bytes tell where the directory is and how long.\<close>

definition listed_offsets :: "bytes \<Rightarrow> nat list" where
  "listed_offsets out = (let e = drop (length out - 22) out
     in directory_offsets (read_le (take 2 (drop 10 e))) (drop (read_le (take 4 (drop 16 e))) out))"

lemma end_record_reads:
  assumes "end_record n d k = Inr e"
  shows "length e = 22" "read_le (take 2 (drop 10 e)) = n" "read_le (take 4 (drop 16 e)) = k"
proof -
  have bounds: "n < 256 ^ 2" "k < 256 ^ 4" and
    e: "e = little_endian 4 0x06054B50 @ replicate 4 0 @ little_endian 2 n @ little_endian 2 n @ little_endian 4 d @ little_endian 4 k @ replicate 2 0"
    using assms by (simp_all add: end_record_def write_le_def split: if_splits)
  show "length e = 22" using e by simp
  show "read_le (take 2 (drop 10 e)) = n" using e bounds by (simp add: read_little_endian)
  show "read_le (take 4 (drop 16 e)) = k" using e bounds by (simp add: read_little_endian)
qed

text \<open>
  C38: A written archive is within the size limit, and a reader who follows its directory finds every
  file, in order, under its name, with its checksum and sizes in the header before the body.
\<close>

theorem archive_entries_located:
  assumes "zip_archive deflate files = Inr out"
  shows "length out \<le> max_report_bytes \<and> list_all2 (\<lambda>k f. entry_at out k deflate f) (listed_offsets out) files"
proof -
  obtain chunks directory e where parts: "zip_parts deflate 0 files = Inr (chunks, directory)"
    "end_record (length files) (length directory) (length chunks) = Inr e"
    and out: "out = chunks @ directory @ e" "length out \<le> max_report_bytes"
    using assms by (auto simp: zip_archive_def bounded_output_def split: sum.splits if_splits)
  have "listed_offsets out = directory_offsets (length files) (directory @ e)"
    using end_record_reads[OF parts(2)] by (simp add: listed_offsets_def out(1) Let_def)
  then show ?thesis
    using zip_parts_located[of deflate "[]" files chunks directory "length files" "directory @ e" e] parts(1) out by simp
qed

section \<open>PDF\<close>

lemma pdf_body_grows: "pdf_body n vs out = (res, offsets) \<Longrightarrow> length offsets = length vs \<and> (\<exists>more'. res = out @ more')"
proof (induction vs arbitrary: n out res offsets)
  case (Cons v vs)
  from Cons.prems obtain offsets' where "pdf_body (Suc n) vs (out @ pdf_object n v) = (res, offsets')" "offsets = byteLength out # offsets'"
    by (auto split: prod.splits)
  with Cons.IH[OF this(1)] show ?case by auto
qed simp

lemma pdf_body_offsets:
  "pdf_body n vs out = (res, offsets) \<Longrightarrow> i < length vs \<Longrightarrow>
   \<exists>rest. drop (offsets ! i) (utf8 res) = utf8 (pdf_object (n + i) (vs ! i)) @ rest"
proof (induction vs arbitrary: n out res offsets i)
  case (Cons v vs)
  from Cons.prems(1) obtain offsets' where parts: "pdf_body (Suc n) vs (out @ pdf_object n v) = (res, offsets')"
    "offsets = byteLength out # offsets'" by (auto split: prod.splits)
  show ?case
  proof (cases i)
    case 0
    then show ?thesis using pdf_body_grows[OF parts(1)] parts(2) by (auto simp: byteLength_def)
  next
    case (Suc j)
    then show ?thesis using Cons.IH[OF parts(1), of j] Cons.prems(2) parts(2) by simp
  qed
qed simp

text \<open>
  C39: The cross-reference table of a written file lists one offset per object, and the bytes of the
  file at that offset are the object, under its number; the offset after \<open>startxref\<close> is the table's.
\<close>

theorem pdf_objects_located:
  "\<exists>out offsets trailer. pdf_file objects = out @ ''xref'' @ nl @ ''0 '' @ decimal (length objects + 1) @ nl @ ''0000000000 65535 f '' @ nl
       @ join_with nl (map xref_entry offsets) @ nl @ trailer @ ''startxref'' @ nl @ decimal (byteLength out) @ nl @ ''%%EOF'' @ nl
     \<and> length offsets = length objects
     \<and> list_all (\<lambda>i. \<exists>rest. drop (offsets ! i) (utf8 (pdf_file objects)) = utf8 (pdf_object (i + 1) (objects ! i)) @ rest)
         [0..<length objects]"
proof -
  obtain out offsets where body: "pdf_body 1 objects (''%PDF-1.4'' @ nl) = (out, offsets)" by fastforce
  let ?n = "length objects"
  let ?trailer = "''trailer << /Size '' @ decimal (?n + 1) @ '' /Root '' @ decimal ?n @ '' 0 R >>'' @ nl"
  let ?start = "''startxref'' @ nl @ decimal (byteLength out) @ nl @ ''%%EOF'' @ nl"
  have written: "pdf_file objects = out @ ''xref'' @ nl @ ''0 '' @ decimal (?n + 1) @ nl @ ''0000000000 65535 f '' @ nl
       @ join_with nl (map xref_entry offsets) @ nl @ ?trailer @ ?start"
    unfolding pdf_file_def body Let_def prod.case by (simp only: append_assoc)
  have "length offsets = ?n" using pdf_body_grows[OF body] by simp
  moreover have "\<exists>rest. drop (offsets ! i) (utf8 (pdf_file objects)) = utf8 (pdf_object (i + 1) (objects ! i)) @ rest" if "i < ?n" for i
  proof -
    obtain rest where "drop (offsets ! i) (utf8 out) = utf8 (pdf_object (1 + i) (objects ! i)) @ rest"
      using pdf_body_offsets[OF body \<open>i < ?n\<close>] by blast
    moreover have "\<exists>x. utf8 (pdf_file objects) = utf8 out @ x" unfolding written utf8_append by blast
    moreover have "utf8 (pdf_object (1 + i) (objects ! i)) \<noteq> []" by (simp add: pdf_object_def nl_def del: utf8_append)
    ultimately show ?thesis by (cases "offsets ! i \<le> length (utf8 out)") auto
  qed
  ultimately show ?thesis
    by (intro exI[of _ out] exI[of _ offsets] exI[of _ ?trailer] conjI written) (simp_all only: list_all_iff set_upt, simp)
qed

text \<open>A reader of string literals: a backslash takes the next character as it is, parentheses nest.\<close>

fun literal :: "nat \<Rightarrow> string \<Rightarrow> (string \<times> string) option" where
  "literal d [] = None"
| "literal d [c] = (if c = CHR '')'' \<and> d = 0 then Some ([], []) else None)"
| "literal d (c # e # cs) =
     (if c = CHR 0x5C then map_option (apfst (Cons e)) (literal d cs)
      else if c = CHR '')'' then (if d = 0 then Some ([], e # cs) else map_option (apfst (Cons c)) (literal (d - 1) (e # cs)))
      else map_option (apfst (Cons c)) (literal (if c = CHR ''('' then Suc d else d) (e # cs)))"

lemma literal_plain: "c \<notin> {CHR 0x5C, CHR ''('', CHR '')''} \<Longrightarrow> literal d (c # cs) = map_option (apfst (Cons c)) (literal d cs)"
  by (cases cs) simp_all

lemma literal_escaped: "literal 0 (concat (map pdf_escape s) @ CHR '')'' # rest) = Some (s, rest)"
proof (induction s)
  case Nil
  then show ?case by (cases rest) simp_all
next
  case (Cons c s)
  then show ?case by (cases "c \<in> {CHR 0x5C, CHR ''('', CHR '')''}") (simp_all add: pdf_escape_def literal_plain del: insert_iff)
qed

text \<open>
  A line whose escaped text has at most a hundred and fifty characters is read back from its
  string literal as it was, unprintable characters as question marks.
\<close>

theorem pdf_line_reads:
  assumes "length (pdfText line) \<le> 150"
  shows "literal 0 (tl (pdf_line line)) = Some (map (\<lambda>c. if printable c then c else CHR ''?'') line, '' Tj 0 -16 Td'')"
  using assms literal_escaped[of "map (\<lambda>c. if printable c then c else CHR ''?'') line" "'' Tj 0 -16 Td''"]
  by (simp add: pdf_line_def pdfText_def)

text \<open>A longer line may be cut between a backslash and the character it escapes; the literal then has no end.\<close>

lemma literal_run: "c \<notin> {CHR 0x5C, CHR ''('', CHR '')''} \<Longrightarrow>
  literal d (replicate n c @ cs) = map_option (apfst (append (replicate n c))) (literal d cs)"
  by (induction n) (simp_all add: literal_plain option.map_comp comp_def apfst_def map_prod_def split_def option.map_ident)

theorem pdf_line_cut: "literal 0 (tl (pdf_line (replicate 149 (CHR ''a'') @ ''(''))) = None"
proof -
  have "pdfText (replicate 149 (CHR ''a'') @ ''('') = replicate 149 (CHR ''a'') @ [CHR 0x5C, CHR ''('']"
    by (simp add: pdfText_def printable_def pdf_escape_def)
  then have "tl (pdf_line (replicate 149 (CHR ''a'') @ ''('')) = replicate 149 (CHR ''a'') @ CHR 0x5C # '') Tj 0 -16 Td''"
    by (simp add: pdf_line_def)
  then show ?thesis by (simp only: literal_run insert_iff char.inject, simp add: literal_run)
qed

end
