(* ===== verification/PiiScenario.thy ===== *)
theory PiiScenario
  imports PiiMigrationFacts RendererFacts
begin

text \<open>
  Concrete runs: a toy cipher, a keyring and its rotation, a table of two tenants, an archive and a
  report, at which the properties of the encrypted call data and of the report files are applied.
\<close>

definition p_ciphers :: ciphers where
  "p_ciphers = \<lparr>ci_hmac = (\<lambda>k m. of_nat (length m) # replicate 31 0), ci_seal = (\<lambda>k n a p. (p, replicate 16 0)),
     ci_open = (\<lambda>k n a c t. Some c)\<rparr>"

lemma p_ciphers_ok: "ciphers_ok p_ciphers" "length_preserving p_ciphers"
  by (simp_all add: ciphers_ok_def length_preserving_def p_ciphers_def)

definition p_keyring :: keyring where
  "p_keyring = \<lparr>kr_activeKeyVersion = 1, kr_activeBlindIndexKeyVersion = 1, kr_encryptionKeys = [(1, replicate 32 1)],
     kr_blindIndexKeys = [(1, replicate 32 2)], kr_rowIdKey = replicate 32 3\<rparr>"

definition p_rotated :: keyring where
  "p_rotated = \<lparr>kr_activeKeyVersion = 2, kr_activeBlindIndexKeyVersion = 3,
     kr_encryptionKeys = [(1, replicate 32 1), (2, replicate 32 4)],
     kr_blindIndexKeys = [(1, replicate 32 2), (3, replicate 32 5)], kr_rowIdKey = replicate 32 3\<rparr>"

lemma p_keyrings: "keyring_ok p_keyring" "keyring_ok p_rotated" "keyring_extends p_keyring p_rotated"
  by (simp_all add: keyring_ok_def ring_ok_def keyring_extends_def p_keyring_def p_rotated_def pii_limits)

theorem accepted_keyring_sound_witness:
  "parseCallPiiKeyring (serialized_keyring p_rotated) = Inr p_rotated \<and> keyring_ok p_rotated"
  using accepted_keyring_sound[OF keyring_roundtrip[OF p_keyrings(2)]] keyring_roundtrip[OF p_keyrings(2)] by blast

definition p_tenant :: string where
  "p_tenant = ''11111111-1111-4111-8111-111111111111''"

definition p_row :: string where
  "p_row = ''22222222-2222-4222-8222-22222222222b''"

lemma p_uuids: "canonical_uuid p_tenant" "canonical_uuid p_row" "map ascii_lower p_tenant = p_tenant"
  by code_simp+

definition p_context :: pii_context where
  "p_context = row_context p_tenant p_row ''contact_name''"

lemmas p_text = scalar_def surrogate_def utf8_encode_def code_point_bytes_def

lemma p_encryptable: "encryptable p_context [65, 0x20AC]" "encryptable p_context (0xFEFF # [65])" "encryptable p_context [65]"
  by (simp_all add: encryptable_def p_context_def row_context_def p_uuids pii_fields_def pii_limits p_text)


theorem rotated_row_found_witness:
  "\<exists>e cs. encryptField p_ciphers p_keyring (replicate 12 7) p_context [65, 0x20AC] = Inr e
    \<and> computeBlindIndexCandidates p_ciphers p_rotated p_tenant ''contact_name'' [65, 0x20AC] = Inr cs
    \<and> (1, ef_blindIndex e) \<in> set cs \<and> map fst cs = [3, 1]"
proof -
  obtain e where e: "encryptField p_ciphers p_keyring (replicate 12 7) p_context [65, 0x20AC] = Inr e"
    using encryption_succeeds[OF p_keyrings(1) p_encryptable(1)] by blast
  moreover have "ef_blindIndexKeyVersion e = 1" using encryptField_parts[OF e] by (auto simp: p_keyring_def)
  ultimately show ?thesis
    using rotated_row_found[OF p_keyrings e] by (auto simp: p_context_def row_context_def p_rotated_def)
qed

lemma utf8_ascii: "list_all (\<lambda>c. (of_char c :: nat) < 128) s \<Longrightarrow> length (utf8 s) = length s"
  by (induction s) (simp_all add: utf8_def utf8_encode_def code_point_bytes_def)

lemma p_index: "ci_hmac p_ciphers k (index_message p_tenant ''contact_name'' b) = of_nat (56 + length b) # replicate 31 0"
proof -
  have "length (utf8 p_tenant) = 36" "length (utf8 ''contact_name'') = 12" by (simp_all add: utf8_ascii p_tenant_def)
  then have "length (index_message p_tenant ''contact_name'' b) = 56 + length b"
    by (simp add: index_message_def lengthPrefixed_def lengthPrefixedBuffer_def)
  then show ?thesis by (simp only: p_ciphers_def ciphers.simps)
qed

lemma p_indices:
  "computeBlindIndex p_ciphers p_keyring p_tenant ''contact_name'' [0xFEFF, 65] 1 = Inr (60 # replicate 31 0)"
  "computeBlindIndex p_ciphers p_rotated p_tenant ''contact_name'' [65] 1 = Inr (57 # replicate 31 0)"
  unfolding computeBlindIndex_Inr p_uuids(3) p_index
  by (simp_all add: p_uuids pii_fields_def pii_limits p_keyring_def p_rotated_def p_text)

theorem marked_value_lost_witness:
  "\<exists>e. encryptField p_ciphers p_keyring (replicate 12 7) p_context (0xFEFF # [65]) = Inr e
    \<and> decryptField p_ciphers p_rotated p_context e = Inl CallPiiDecryptionError"
proof (rule marked_value_lost[OF p_ciphers_ok(1) p_keyrings _ p_encryptable(2)])
  show "length (replicate 12 7) = gcm_nonce_bytes" by (simp add: pii_limits)
  show "computeBlindIndex p_ciphers p_rotated (px_organizationId p_context) (px_field p_context) [65] (kr_activeBlindIndexKeyVersion p_keyring) \<noteq> Inr i"
    if "computeBlindIndex p_ciphers p_keyring (px_organizationId p_context) (px_field p_context) [0xFEFF, 65] (kr_activeBlindIndexKeyVersion p_keyring) = Inr i" for i
  proof -
    have "px_organizationId p_context = p_tenant" "px_field p_context = ''contact_name''" "kr_activeBlindIndexKeyVersion p_keyring = 1"
      by (simp_all add: p_context_def row_context_def p_keyring_def)
    then show ?thesis using that p_indices by auto
  qed
qed

text \<open>A cipher that carries the data it is bound to in front of the text.\<close>

definition p_stuffed :: "bytes \<Rightarrow> bytes" where
  "p_stuffed a = concat (map (\<lambda>b. [1, b]) a) @ [0]"

definition p_binding :: ciphers where
  "p_binding = p_ciphers\<lparr>ci_seal := (\<lambda>k n a p. (p_stuffed a @ p, replicate 16 0)),
     ci_open := (\<lambda>k n a c t. if take (length (p_stuffed a)) c = p_stuffed a then Some (drop (length (p_stuffed a)) c) else None)\<rparr>"

lemma p_stuffed_cancel: "p_stuffed a @ x = p_stuffed b @ y \<Longrightarrow> a = b"
proof (induction a arbitrary: b)
  case Nil
  then show ?case by (cases b) (simp_all add: p_stuffed_def)
next
  case (Cons u a)
  then obtain w b' where "b = w # b'" by (cases b) (simp_all add: p_stuffed_def)
  then show ?case using Cons by (simp add: p_stuffed_def)
qed

lemma p_binding_ok: "ciphers_ok p_binding" "binds_data p_binding"
proof -
  show "ciphers_ok p_binding" by (simp add: ciphers_ok_def p_binding_def p_ciphers_def)
  have "take (length (p_stuffed a')) (p_stuffed a @ p) \<noteq> p_stuffed a'" if "a' \<noteq> a" for a a' p
    using p_stuffed_cancel[of a p a' "drop (length (p_stuffed a')) (p_stuffed a @ p)"] that
      append_take_drop_id[of "length (p_stuffed a')" "p_stuffed a @ p"] by metis
  then show "binds_data p_binding" by (simp add: binds_data_def p_binding_def)
qed

theorem envelope_bound_to_row_witness:
  "\<exists>e q. encryptField p_binding p_keyring (replicate 12 7) p_context [65] = Inr e
    \<and> decryptField p_binding p_rotated p_context e = Inr q
    \<and> (\<forall>cx r. px_rowId cx = p_tenant \<longrightarrow> decryptField p_binding p_rotated cx e \<noteq> Inr r)"
proof -
  note plain = p_encryptable(3)
  obtain e where e: "encryptField p_binding p_keyring (replicate 12 7) p_context [65] = Inr e"
    "decryptField p_binding p_rotated p_context e = Inr [65]"
    using encrypted_reads_back[OF p_binding_ok(1) p_keyrings _ plain, of "replicate 12 7"] by (auto simp: pii_limits)
  have "decryptField p_binding p_rotated cx e \<noteq> Inr r" if "px_rowId cx = p_tenant" for cx r
  proof
    assume "decryptField p_binding p_rotated cx e = Inr r"
    from envelope_bound_to_row[OF p_binding_ok p_keyrings(1,2) _ e(1) this]
    have "map ascii_lower p_tenant = map ascii_lower p_row" using that by (simp add: pii_limits p_context_def row_context_def)
    then show False unfolding p_uuids(3) by (simp add: p_tenant_def p_row_def ascii_lower_def in_range_def)
  qed
  then show ?thesis using e by blast
qed

section \<open>A table of two tenants\<close>

definition p_migrator :: "keyring \<Rightarrow> migrator" where
  "p_migrator kr = \<lparr>mg_ciphers = p_ciphers, mg_keyring = kr, mg_random = (\<lambda>i. replicate 12 (of_nat i)),
     mg_organizationId = p_tenant, mg_batchSize = 1\<rparr>"

lemma p_migrator_ok: "keyring_ok kr \<Longrightarrow> migrator_ok (p_migrator kr)"
  by (simp add: migrator_ok_def p_migrator_def p_ciphers_ok p_uuids pii_limits)

definition p_legacy :: call_row where
  "p_legacy = \<lparr>cl_id = p_row, cl_organizationId = p_tenant, cl_phone = Some [43, 49], cl_contact = Some [65, 0x20AC],
     cl_formatVersion = None, cl_keyVersion = None, cl_blindIndexKeyVersion = None,
     cl_phoneSealed = no_columns, cl_contactSealed = no_columns\<rparr>"

definition p_other :: call_row where
  "p_other = p_legacy\<lparr>cl_organizationId := p_row\<rparr>"

lemma p_tenants: "p_row \<noteq> p_tenant"
  by (simp add: p_row_def p_tenant_def)

lemma p_legacy_fit: "keyring_ok kr \<Longrightarrow> fit_row (p_migrator kr) p_legacy" "representation_valid p_legacy"
proof -
  show "fit_row (p_migrator kr) p_legacy" if "keyring_ok kr"
    using p_migrator_ok[OF that]
    by (simp add: fit_row_def misplaced_def stored_def values_ok_def sealable_def p_legacy_def p_migrator_def p_uuids p_text pii_limits)
  show "representation_valid p_legacy" by (simp add: representation_valid_def p_legacy_def)
qed

lemma p_tenant_rows:
  "of_tenant (p_migrator kr) p_legacy" "\<not> of_tenant (p_migrator kr) p_other" "to_backfill (p_migrator kr) p_legacy"
  "\<not> to_backfill (p_migrator kr) p_other" "row_key p_legacy \<noteq> row_key p_other"
  using p_tenants by (simp_all add: of_tenant_def to_backfill_def legacy_row_def row_key_def p_migrator_def p_legacy_def p_other_def)


text \<open>The row as a backfill under the first keys leaves it, and its rotation.\<close>

definition p_column :: "js_text \<Rightarrow> bytes \<Rightarrow> sealed_columns" where
  "p_column v i = \<lparr>sc_ciphertext = Some (utf8_encode v @ replicate 16 0), sc_nonce = Some (replicate 12 0), sc_blindIndex = Some i\<rparr>"

definition p_sealed :: call_row where
  "p_sealed = p_legacy\<lparr>cl_phone := None, cl_contact := None, cl_formatVersion := Some 2, cl_keyVersion := Some 1,
     cl_blindIndexKeyVersion := Some 1, cl_phoneSealed := p_column [43, 49] (58 # replicate 31 0)\<rparr>"

lemma p_phone_index: "computeBlindIndex p_ciphers p_rotated p_tenant ''phone_number'' [43, 49] 1 = Inr (58 # replicate 31 0)"
proof -
  have "length (utf8 p_tenant) = 36" "length (utf8 ''phone_number'') = 12" by (simp_all add: utf8_ascii p_tenant_def)
  then have "length (index_message p_tenant ''phone_number'' (utf8_encode [43, 49])) = 58"
    by (simp add: index_message_def lengthPrefixed_def lengthPrefixedBuffer_def p_text)
  then have "ci_hmac p_ciphers k (index_message p_tenant ''phone_number'' (utf8_encode [43, 49])) = 58 # replicate 31 0" for k
    by (simp only: p_ciphers_def ciphers.simps) simp
  then show ?thesis
    unfolding computeBlindIndex_Inr p_uuids(3) by (simp add: p_uuids pii_fields_def pii_limits p_rotated_def p_text)
qed

lemma p_opens:
  "open_with (p_migrator p_rotated) p_row ''phone_number'' \<lparr>ef_formatVersion = 2, ef_keyVersion = 1, ef_blindIndexKeyVersion = 1,
     ef_nonce = replicate 12 0, ef_ciphertext = utf8_encode [43, 49] @ replicate 16 0, ef_blindIndex = 58 # replicate 31 0\<rparr> = Inr [43, 49]"
proof -
  let ?cx = "row_context p_tenant p_row ''phone_number''"
  have "canonical_uuid (px_organizationId ?cx)" "canonical_uuid (px_rowId ?cx)" "px_field ?cx \<in> set pii_fields"
    by (simp_all add: row_context_def p_uuids pii_fields_def)
  then obtain d where "authenticatedData ?cx 2 1 1 (58 # replicate 31 0) = Inr d" by (simp add: authenticatedData_Inr)
  moreover have "text_decode (utf8_encode [43, 49]) = Some [43, 49]" by (rule text_decode_encode) (simp_all add: p_text)
  moreover have "assertField (px_field ?cx) = Inr ()" "px_organizationId ?cx = p_tenant" "px_field ?cx = ''phone_number''"
    by (simp_all add: row_context_def pii_fields_def)
  ultimately show ?thesis
    using p_phone_index
    by (simp add: open_with_def p_migrator_def decryptField_def decrypt_attempt_def envelope_ok_def pii_limits p_rotated_def p_ciphers_def Let_def assertField_def)
qed

lemma p_sealed_stored: "stored (p_migrator p_rotated) p_sealed = Inr ([43, 49], None)"
proof -
  have "row_versions [] (p_migrator p_rotated) p_sealed = Inr (2, 1, 1)"
    by (simp add: row_versions_def misplaced_def p_sealed_def p_legacy_def p_migrator_def p_uuids)
  then show ?thesis
    using p_opens
    by (simp add: stored_def p_sealed_def p_legacy_def encryptedField_def p_column_def no_columns_def open_optional_def)
qed


section \<open>Report files\<close>

theorem archive_entries_located_witness:
  "\<exists>out. zip_archive (\<lambda>b. b) [([0x61], [0x61]), ([0x62], [])] = Inr out
    \<and> list_all2 (\<lambda>k f. entry_at out k (\<lambda>b. b) f) (listed_offsets out) [([0x61], [0x61]), ([0x62], [])]"
proof -
  have "crc32 [] = 0" by (simp add: crc32_def)
  then have "\<exists>out. zip_archive (\<lambda>b. b) [([0x61], [0x61]), ([0x62], [])] = Inr out"
    by (simp add: zip_archive_def crc32_check local_header_def central_header_def zip_fields_def write_le_def end_record_def
        bounded_output_def max_report_bytes_def Let_def)
  then show ?thesis using archive_entries_located by blast
qed

theorem report_csv_roundtrip_witness:
  "splitCsv (csv_text (\<lambda>q. []) [[(''a'', CellText ''=1,2''), (''b'', CellNull)]]) = ([[''a'', ''b''], [''=1,2'', []]], [])"
proof -
  let ?rows = "[[(''a'', CellText ''=1,2''), (''b'', CellNull)]]"
  have columns: "columns_of ?rows = [''a'', ''b'']" by code_simp
  then have "csv_table (\<lambda>q. []) ?rows = [[''a'', ''b''], [''=1,2'', []]]" by (simp add: csv_table_def Let_def cell_at_def)
  then show ?thesis using report_csv_roundtrip[of ?rows "\<lambda>q. []"] columns by simp
qed

end
